(* ===== verification/Prelude.thy ===== *)
theory Prelude
  imports Main "HOL-Library.List_Lexorder" "HOL-Library.Char_ord"
begin

text \<open>
  Shared ground of the development: the exceptions the Python code raises, the result shape
  of a store operation, the generic operations on table rows (lookup by key, conditional
  update, \<open>ORDER BY ... DESC LIMIT 1\<close>) with the lemmas every component uses, and the
  fact collections that carry the proofs.
\<close>

named_theorems table_simps \<open>what lookups and scans return after inserts and updates\<close>
named_theorems op_defs \<open>definitions of the operations of a component\<close>

section \<open>Exceptions and operations\<close>

text \<open>
  One constructor per exception class the modelled code raises or lets through.
  \<open>Other_Error\<close> carries the class name and the text of an exception of code outside the model;
  \<open>IntegrityError\<close> is what SQLite raises on a violated PRIMARY KEY, UNIQUE or FOREIGN KEY
  constraint.
\<close>

datatype err =
    ValueError string
  | PermissionError string
  | RuntimeError string
  | IntegrityError string
  | KeyError string
  | TypeError string
  | WorkspaceError string
  | Other_Error string string

text \<open>
  An operation on a state: the exception or the returned value, and the state left behind.
  A transaction that raises is rolled back, so its branch returns the state it started from;
  code that raises after a commit returns the committed state.
\<close>

type_synonym ('s, 'a) op = "'s \<Rightarrow> (err + 'a) \<times> 's"

abbreviation raise :: "err \<Rightarrow> 's \<Rightarrow> (err + 'a) \<times> 's" where
  "raise e s \<equiv> (Inl e, s)"

abbreviation return :: "'a \<Rightarrow> 's \<Rightarrow> (err + 'a) \<times> 's" where
  "return x s \<equiv> (Inr x, s)"

text \<open>Sequencing of two statements: the second runs only when the first returned.\<close>

definition and_then :: "(err + 'a) \<times> 's \<Rightarrow> ('a \<Rightarrow> 's \<Rightarrow> (err + 'b) \<times> 's) \<Rightarrow> (err + 'b) \<times> 's" where
  "and_then r k = (case r of (Inl e, s) \<Rightarrow> (Inl e, s) | (Inr x, s) \<Rightarrow> k x s)"

lemma and_then_simps [simp]:
  "and_then (Inl e, s) k = (Inl e, s)"
  "and_then (Inr x, s) k = k x s"
  by (simp_all add: and_then_def)

lemma and_then_return_iff:
  "and_then r k = (Inr y, s') \<longleftrightarrow> (\<exists>x s. r = (Inr x, s) \<and> k x s = (Inr y, s'))"
  by (cases r; cases "fst r") auto

text \<open>The same inside a transaction, where the state is only passed on success.\<close>

definition bindE :: "err + 'a \<Rightarrow> ('a \<Rightarrow> err + 'b) \<Rightarrow> err + 'b" where
  "bindE r k = (case r of Inl e \<Rightarrow> Inl e | Inr x \<Rightarrow> k x)"

lemma bindE_simps [simp]: "bindE (Inl e) k = Inl e" "bindE (Inr x) k = k x"
  by (simp_all add: bindE_def)

lemma bindE_Inr_iff: "bindE r k = Inr y \<longleftrightarrow> (\<exists>x. r = Inr x \<and> k x = Inr y)"
  by (cases r) auto

lemma bindE_Inl_iff: "bindE r k = Inl e \<longleftrightarrow> r = Inl e \<or> (\<exists>x. r = Inr x \<and> k x = Inl e)"
  by (cases r) auto

text \<open>\<open>with transaction\<close>: a failing body leaves the state untouched.\<close>

definition commit :: "'s \<Rightarrow> err + 'a \<times> 's \<Rightarrow> (err + 'a) \<times> 's" where
  "commit s r = (case r of Inl e \<Rightarrow> (Inl e, s) | Inr (x, s') \<Rightarrow> (Inr x, s'))"

lemma commit_simps [simp]:
  "commit s (Inl e) = (Inl e, s)"
  "commit s (Inr (x, s')) = (Inr x, s')"
  by (simp_all add: commit_def)

lemma commit_return_iff: "commit s r = (Inr x, s') \<longleftrightarrow> r = Inr (x, s')"
  by (cases r) auto

lemma commit_raise_iff: "commit s r = (Inl e, s') \<longleftrightarrow> r = Inl e \<and> s' = s"
  by (cases r) auto

section \<open>Rows of a table\<close>

text \<open>\<open>SELECT * ... WHERE key=?\<close> on a unique column, and on an arbitrary condition.\<close>

definition lookup :: "('r \<Rightarrow> 'k) \<Rightarrow> 'k \<Rightarrow> 'r list \<Rightarrow> 'r option" where
  "lookup key k rows = find (\<lambda>r. key r = k) rows"

text \<open>\<open>UPDATE ... SET f WHERE p\<close> and its \<open>rowcount\<close>.\<close>

definition update_where :: "('r \<Rightarrow> bool) \<Rightarrow> ('r \<Rightarrow> 'r) \<Rightarrow> 'r list \<Rightarrow> 'r list" where
  "update_where p f rows = map (\<lambda>r. if p r then f r else r) rows"

definition rowcount :: "('r \<Rightarrow> bool) \<Rightarrow> 'r list \<Rightarrow> nat" where
  "rowcount p rows = length (filter p rows)"

text \<open>
  \<open>ORDER BY key DESC LIMIT 1\<close>; among rows with equal keys the earliest inserted one is
  taken, as SQLite's stable scan of the rowid table does.
\<close>

fun latest_by :: "('r \<Rightarrow> 'k::linorder) \<Rightarrow> 'r list \<Rightarrow> 'r option" where
  "latest_by key [] = None"
| "latest_by key (x # xs) =
     (case latest_by key xs of
        None \<Rightarrow> Some x
      | Some y \<Rightarrow> if key y \<le> key x then Some x else Some y)"

text \<open>\<open>COALESCE(MAX(column),0)\<close>.\<close>

definition max0 :: "nat list \<Rightarrow> nat" where
  "max0 ns = foldr max ns 0"

text \<open>\<open>ORDER BY\<close> on a composite key, kept stable.\<close>

definition order_by :: "('r \<Rightarrow> 'k::linorder) \<Rightarrow> 'r list \<Rightarrow> 'r list" where
  "order_by key rows = sort_key key rows"

lemma lookup_Nil [table_simps]: "lookup key k [] = None"
  by (simp add: lookup_def)

lemma lookup_Cons [table_simps]:
  "lookup key k (r # rows) = (if key r = k then Some r else lookup key k rows)"
  by (simp add: lookup_def)

lemma find_SomeD: "find p xs = Some x \<Longrightarrow> x \<in> set xs \<and> p x"
  by (induction xs) (auto split: if_splits)

lemma find_append:
  "find p (xs @ ys) = (case find p xs of None \<Rightarrow> find p ys | Some x \<Rightarrow> Some x)"
  by (induction xs) auto

lemma lookup_append [table_simps]:
  "lookup key k (xs @ ys) = (case lookup key k xs of None \<Rightarrow> lookup key k ys | Some x \<Rightarrow> Some x)"
  by (simp add: lookup_def find_append split: option.split)

lemma lookup_SomeD: "lookup key k rows = Some r \<Longrightarrow> r \<in> set rows \<and> key r = k"
  by (auto simp: lookup_def find_Some_iff)

lemma lookup_key [dest]: "lookup key k rows = Some r \<Longrightarrow> key r = k"
  using lookup_SomeD by metis

lemma lookup_in [dest]: "lookup key k rows = Some r \<Longrightarrow> r \<in> set rows"
  using lookup_SomeD by metis

lemma lookup_None_iff: "lookup key k rows = None \<longleftrightarrow> k \<notin> key ` set rows"
  by (auto simp: lookup_def find_None_iff)

lemma lookup_unique:
  "distinct (map key rows) \<Longrightarrow> r \<in> set rows \<Longrightarrow> lookup key (key r) rows = Some r"
  by (induction rows) (auto simp: table_simps image_iff)

lemma lookup_eq_iff:
  "distinct (map key rows) \<Longrightarrow> lookup key k rows = Some r \<longleftrightarrow> r \<in> set rows \<and> key r = k"
  using lookup_unique lookup_SomeD by fastforce

lemma unique_row:
  "distinct (map key rows) \<Longrightarrow> r \<in> set rows \<Longrightarrow> s \<in> set rows \<Longrightarrow> key r = key s \<Longrightarrow> r = s"
  by (metis lookup_unique option.inject)

lemma set_update_where [table_simps]:
  "set (update_where p f rows) = (\<lambda>r. if p r then f r else r) ` set rows"
  by (simp add: update_where_def)

lemma mem_update_where:
  "x \<in> set (update_where p f rows) \<longleftrightarrow> (\<exists>y \<in> set rows. x = (if p y then f y else y))"
  by (simp only: update_where_def set_map image_iff)

lemma update_where_length [simp]: "length (update_where p f rows) = length rows"
  by (simp add: update_where_def)

lemma map_update_where:
  "(\<And>r. key (f r) = key r) \<Longrightarrow> map key (update_where p f rows) = map key rows"
  by (auto simp: update_where_def)

lemma lookup_update_where:
  assumes "\<And>r. key (f r) = key r"
  shows "lookup key k (update_where p f rows) =
    map_option (\<lambda>r. if p r then f r else r) (lookup key k rows)"
  using assms by (induction rows) (auto simp: update_where_def table_simps)

lemma update_where_cong_none: "(\<And>r. r \<in> set rows \<Longrightarrow> \<not> p r) \<Longrightarrow> update_where p f rows = rows"
  by (simp add: update_where_def map_idI)

lemma rowcount_0_iff: "rowcount p rows = 0 \<longleftrightarrow> (\<forall>r \<in> set rows. \<not> p r)"
  by (auto simp: rowcount_def filter_empty_conv)

lemma latest_by_None_iff [simp]: "latest_by key rows = None \<longleftrightarrow> rows = []"
  by (cases rows) (auto split: option.splits)

lemma latest_by_SomeD:
  "latest_by key rows = Some r \<Longrightarrow> r \<in> set rows \<and> (\<forall>s \<in> set rows. key s \<le> key r)"
proof (induction rows arbitrary: r)
  case Nil
  then show ?case by simp
next
  case (Cons x xs)
  show ?case
  proof (cases "latest_by key xs")
    case None
    with Cons.prems show ?thesis by auto
  next
    case (Some y)
    with Cons.IH have y: "y \<in> set xs" "\<forall>s \<in> set xs. key s \<le> key y" by auto
    from Cons.prems Some have "r = (if key y \<le> key x then x else y)"
      by (auto split: if_splits)
    with y show ?thesis by (auto intro: order_trans)
  qed
qed

lemma latest_by_in [dest]: "latest_by key rows = Some r \<Longrightarrow> r \<in> set rows"
  using latest_by_SomeD by metis

lemma latest_by_ge: "latest_by key rows = Some r \<Longrightarrow> s \<in> set rows \<Longrightarrow> key s \<le> key r"
  using latest_by_SomeD by metis

lemma latest_by_greatest:
  assumes "r \<in> set rows" and "\<And>s. s \<in> set rows \<Longrightarrow> s \<noteq> r \<Longrightarrow> key s < key r"
  shows "latest_by key rows = Some r"
proof (cases "latest_by key rows")
  case None
  with assms(1) show ?thesis by auto
next
  case (Some y)
  then have "y \<in> set rows" and "key r \<le> key y"
    using assms(1) by (auto dest: latest_by_SomeD)
  with assms(2) [of y] Some show ?thesis by (cases "y = r") auto
qed

lemma max0_simps [simp]: "max0 [] = 0" "max0 (n # ns) = max n (max0 ns)"
  by (simp_all add: max0_def)

lemma max0_ge: "n \<in> set ns \<Longrightarrow> n \<le> max0 ns"
  by (induction ns) auto

lemma max0_fresh: "Suc (max0 ns) \<notin> set ns"
  using max0_ge by fastforce

lemma set_order_by [simp]: "set (order_by key rows) = set rows"
  by (simp add: order_by_def)

lemma distinct_map_append1:
  "distinct (map key (rows @ [r])) \<longleftrightarrow> distinct (map key rows) \<and> key r \<notin> key ` set rows"
  by auto

lemma lookup_image: "lookup key k rows = Some r \<Longrightarrow> k \<in> key ` set rows"
  using lookup_None_iff [of key k rows] by simp

lemma keys_update_where: "(\<And>r. key (f r) = key r) \<Longrightarrow> key ` set (update_where p f rows) = key ` set rows"
  by (metis map_update_where set_map)

lemma all_update_where:
  "(\<forall>x \<in> set (update_where p f rows). P x) \<longleftrightarrow> (\<forall>y \<in> set rows. if p y then P (f y) else P y)"
  by (induction rows) (auto simp: update_where_def)

lemma find_update_where:
  assumes "\<And>r. P (f r) = P r"
  shows "find P (update_where p f rows) = map_option (\<lambda>r. if p r then f r else r) (find P rows)"
  using assms by (induction rows) (auto simp: update_where_def)

lemma latest_by_map:
  assumes "\<And>r. key (f r) = key r"
  shows "latest_by key (map f rows) = map_option f (latest_by key rows)"
  by (induction rows) (auto simp: assms split: option.split)

lemma those_length: "those xs = Some ys \<Longrightarrow> length ys = length xs"
  by (induction xs arbitrary: ys) (auto split: option.split_asm)

lemma lookup_replace:
  "key x = k' \<Longrightarrow> lookup key k (update_where (\<lambda>r. key r = k') (\<lambda>_. x) rows) =
     (if k = k' then map_option (\<lambda>_. x) (lookup key k' rows) else lookup key k rows)"
  by (induction rows) (auto simp: update_where_def table_simps)

section \<open>Tables of a store as an interface\<close>

text \<open>
  Every component reaches its rows through one field of the store. The laws say that the
  field is written as a whole and read back unchanged; the lemmas are what the clients use
  after an insert or an update.
\<close>

locale row_table =
  fixes rows :: "'s \<Rightarrow> 'r list"
    and set_rows :: "'r list \<Rightarrow> 's \<Rightarrow> 's"
    and key :: "'r \<Rightarrow> 'k"
  assumes get_put: "rows (set_rows xs s) = xs"
    and put_get: "set_rows (rows s) s = s"
    and put_put: "set_rows xs (set_rows ys s) = set_rows xs s"
begin

lemma insert_lookup:
  "key r \<notin> key ` set (rows s) \<Longrightarrow> lookup key (key r) (rows (set_rows (rows s @ [r]) s)) = Some r"
  by (simp add: get_put table_simps lookup_None_iff [THEN iffD2])

lemma insert_other:
  "k \<noteq> key r \<Longrightarrow> lookup key k (rows (set_rows (rows s @ [r]) s)) = lookup key k (rows s)"
  by (simp add: get_put table_simps split: option.split)

lemma update_lookup:
  assumes "\<And>r. key (f r) = key r"
  shows "lookup key k (rows (set_rows (update_where p f (rows s)) s)) =
    map_option (\<lambda>r. if p r then f r else r) (lookup key k (rows s))"
  by (simp add: get_put lookup_update_where assms)

lemma update_none:
  "(\<And>r. r \<in> set (rows s) \<Longrightarrow> \<not> p r) \<Longrightarrow> set_rows (update_where p f (rows s)) s = s"
  by (simp add: update_where_cong_none put_get)

end

section \<open>Reachable states and invariants\<close>

text \<open>
  The contract of a transition system with an invariant: once its initial states satisfy it
  and its steps keep it, every reachable state does.
\<close>

inductive reach :: "('s \<Rightarrow> bool) \<Rightarrow> ('s \<Rightarrow> 's \<Rightarrow> bool) \<Rightarrow> 's \<Rightarrow> bool" for start next_state where
  reach_start: "start s \<Longrightarrow> reach start next_state s"
| reach_step: "reach start next_state s \<Longrightarrow> next_state s t \<Longrightarrow> reach start next_state t"

locale invariant_machine =
  fixes start :: "'s \<Rightarrow> bool"
    and next_state :: "'s \<Rightarrow> 's \<Rightarrow> bool"
    and inv :: "'s \<Rightarrow> bool"
  assumes inv_start: "start s \<Longrightarrow> inv s"
    and inv_next: "inv s \<Longrightarrow> next_state s t \<Longrightarrow> inv t"
begin

lemma reach_inv: "reach start next_state s \<Longrightarrow> inv s"
proof (induction rule: reach.induct)
  case (reach_start s)
  then show ?case by (rule inv_start)
next
  case (reach_step s t)
  then show ?case by (blast intro: inv_next)
qed

end

end
