(* ===== verification/Text.thy ===== *)
theory Text
  imports Prelude
begin

text \<open>
  Python strings and JSON values as the workflow code uses them: whitespace and \<open>strip\<close>,
  case folding of ASCII letters, \<open>startswith\<close>, \<open>join\<close>, \<open>str(int)\<close>, the decoded
  YAML/JSON values with Python's \<open>==\<close> on the few scalars the code compares, and
  \<open>json.dumps(..., sort_keys=True)\<close>. A \<open>string\<close> is a list of code points up to 255.
\<close>

section \<open>Strings\<close>

text \<open>\<open>str.isspace\<close>, which \<open>str.strip\<close> and the regular expression \<open>\s\<close> share.\<close>

definition is_space :: "char \<Rightarrow> bool" where
  "is_space c = (let n = (of_char c :: nat) in
     (9 \<le> n \<and> n \<le> 13) \<or> (28 \<le> n \<and> n \<le> 32) \<or> n = 133 \<or> n = 160)"

definition strip :: "string \<Rightarrow> string" where
  "strip s = rev (dropWhile is_space (rev (dropWhile is_space s)))"

abbreviation blank :: "string \<Rightarrow> bool" where
  "blank s \<equiv> strip s = []"

definition is_alpha :: "char \<Rightarrow> bool" where
  "is_alpha c = (let n = (of_char c :: nat) in (65 \<le> n \<and> n \<le> 90) \<or> (97 \<le> n \<and> n \<le> 122))"

definition is_digit :: "char \<Rightarrow> bool" where
  "is_digit c = (let n = (of_char c :: nat) in 48 \<le> n \<and> n \<le> 57)"

text \<open>The class \<open>[A-Za-z0-9_]\<close>.\<close>

definition is_word :: "char \<Rightarrow> bool" where
  "is_word c = (is_alpha c \<or> is_digit c \<or> c = CHR ''_'')"

definition lower :: "char \<Rightarrow> char" where
  "lower c = (let n = (of_char c :: nat) in if 65 \<le> n \<and> n \<le> 90 then char_of (n + 32) else c)"

definition upper :: "char \<Rightarrow> char" where
  "upper c = (let n = (of_char c :: nat) in if 97 \<le> n \<and> n \<le> 122 then char_of (n - 32) else c)"

fun starts_with :: "string \<Rightarrow> string \<Rightarrow> bool" where
  "starts_with s [] = True"
| "starts_with [] (p # ps) = False"
| "starts_with (c # cs) (p # ps) = (c = p \<and> starts_with cs ps)"

fun join :: "string \<Rightarrow> string list \<Rightarrow> string" where
  "join sep [] = []"
| "join sep [s] = s"
| "join sep (s # t # ts) = s @ sep @ join sep (t # ts)"

text \<open>\<open>str.split\<close> on one character.\<close>

fun split_on :: "char \<Rightarrow> string \<Rightarrow> string list" where
  "split_on c [] = [[]]"
| "split_on c (x # xs) =
    (if x = c then [] # split_on c xs
     else case split_on c xs of [] \<Rightarrow> [[x]] | w # ws \<Rightarrow> (x # w) # ws)"

text \<open>The parts of a \<open>PurePosixPath\<close> after its root: empty parts and single dots are dropped.\<close>

definition posix_parts :: "string \<Rightarrow> string list" where
  "posix_parts path = filter (\<lambda>p. p \<noteq> [] \<and> p \<noteq> ''.'') (split_on CHR ''/'' path)"

text \<open>\<open>str(n)\<close> of an integer.\<close>

definition digit_char :: "nat \<Rightarrow> char" where
  "digit_char n = char_of (48 + n)"

fun show_nat :: "nat \<Rightarrow> string" where
  "show_nat n = (if n < 10 then [digit_char n] else show_nat (n div 10) @ [digit_char (n mod 10)])"

declare show_nat.simps [simp del]

definition show_int :: "int \<Rightarrow> string" where
  "show_int i = (if i < 0 then CHR ''-'' # show_nat (nat (- i)) else show_nat (nat i))"

text \<open>\<open>list(dict.fromkeys(xs))\<close>: first occurrences, in order.\<close>

fun ordered :: "'a list \<Rightarrow> 'a list" where
  "ordered [] = []"
| "ordered (x # xs) = x # filter (\<lambda>y. y \<noteq> x) (ordered xs)"

lemma starts_with_append [simp]: "starts_with (p @ s) p"
  by (induction p) auto

lemma starts_with_iff: "starts_with s p \<longleftrightarrow> (\<exists>t. s = p @ t)"
  by (induction s p rule: starts_with.induct) auto

lemma dropWhile_idem [simp]: "dropWhile P (dropWhile P xs) = dropWhile P xs"
  by (induction xs) auto

lemma strip_idem [simp]: "strip (strip s) = strip s"
proof -
  have front: "dropWhile is_space (rev (dropWhile is_space (rev t))) = rev (dropWhile is_space (rev t))"
    if "dropWhile is_space t = t" for t :: string
  proof (cases "rev (dropWhile is_space (rev t))")
    case Nil
    then show ?thesis by (metis dropWhile.simps(1))
  next
    case (Cons c cs)
    have "\<exists>u. t = rev (dropWhile is_space (rev t)) @ u"
      by (metis rev_append rev_rev_ident takeWhile_dropWhile_id)
    with Cons obtain u where "t = c # cs @ u" by auto
    with that have "\<not> is_space c" by (metis dropWhile_eq_Cons_conv list.sel(1))
    with Cons show ?thesis by simp
  qed
  show ?thesis unfolding strip_def by (subst front) simp_all
qed

lemma set_ordered [simp]: "set (ordered xs) = set xs"
  by (induction xs) auto

lemma distinct_ordered [simp]: "distinct (ordered xs)"
  by (induction xs) auto

lemma ordered_distinct: "distinct xs \<Longrightarrow> ordered xs = xs"
  by (induction xs) (auto simp: filter_id_conv)

lemma ordered_Nil_iff [simp]: "ordered xs = [] \<longleftrightarrow> xs = []"
  by (cases xs) auto

section \<open>Decoded documents\<close>

text \<open>
  What \<open>yaml.safe_load\<close> or \<open>json.loads\<close> return, with mapping keys that are strings. Scalars
  of other types (floats, dates, bytes) fail every test of the code as \<open>DNull\<close> does.
\<close>

datatype doc =
    DMap "(string \<times> doc) list"
  | DList "doc list"
  | DStr string
  | DInt int
  | DBool bool
  | DNull

text \<open>\<open>mapping.get(key)\<close>; a missing key is None.\<close>

definition dget :: "(string \<times> doc) list \<Rightarrow> string \<Rightarrow> doc" where
  "dget kvs k = (case map_of kvs k of None \<Rightarrow> DNull | Some v \<Rightarrow> v)"

text \<open>Python's \<open>value == n\<close> for an integer \<open>n\<close>: \<open>True\<close> equals 1 and \<open>False\<close> equals 0.\<close>

fun eq_int :: "doc \<Rightarrow> int \<Rightarrow> bool" where
  "eq_int (DInt i) n = (i = n)"
| "eq_int (DBool b) n = (n = (if b then 1 else 0))"
| "eq_int d n = False"

fun is_str :: "doc \<Rightarrow> bool" where
  "is_str (DStr s) = True"
| "is_str d = False"

fun str_of :: "doc \<Rightarrow> string" where
  "str_of (DStr s) = s"
| "str_of d = []"

fun is_list :: "doc \<Rightarrow> bool" where
  "is_list (DList xs) = True"
| "is_list d = False"

fun elems :: "doc \<Rightarrow> doc list" where
  "elems (DList xs) = xs"
| "elems d = []"

fun is_map :: "doc \<Rightarrow> bool" where
  "is_map (DMap kvs) = True"
| "is_map d = False"

fun items :: "doc \<Rightarrow> (string \<times> doc) list" where
  "items (DMap kvs) = kvs"
| "items d = []"

abbreviation strs :: "string list \<Rightarrow> doc" where
  "strs xs \<equiv> DList (map DStr xs)"

lemma map_str_of_DStr [simp]: "map (str_of \<circ> DStr) xs = xs"
  by (induction xs) auto

section \<open>json.dumps\<close>

definition hex_digit :: "nat \<Rightarrow> char" where
  "hex_digit n = (if n < 10 then char_of (48 + n) else char_of (87 + n))"

text \<open>\<open>ensure_ascii\<close> escaping of one character.\<close>

definition json_char :: "char \<Rightarrow> string" where
  "json_char c = (let n = (of_char c :: nat); bs = char_of (92 :: nat) in
     if n = 34 \<or> n = 92 then [bs, c]
     else if n = 10 then [bs, CHR ''n'']
     else if n = 13 then [bs, CHR ''r'']
     else if n = 9 then [bs, CHR ''t'']
     else if n = 12 then [bs, CHR ''f'']
     else if n = 8 then [bs, CHR ''b'']
     else if 32 \<le> n \<and> n \<le> 126 then [c]
     else [bs, CHR ''u'', CHR ''0'', CHR ''0'', hex_digit (n div 16), hex_digit (n mod 16)])"

definition json_string :: "string \<Rightarrow> string" where
  "json_string s = CHR 0x22 # concat (map json_char s) @ [CHR 0x22]"

text \<open>
  \<open>json.dumps(value, sort_keys=True, separators=(isep, ksep))\<close>. The default separators are
  \<open>', '\<close> and \<open>': '\<close>.
\<close>

fun json_dumps :: "string \<Rightarrow> string \<Rightarrow> doc \<Rightarrow> string"
  and json_list :: "string \<Rightarrow> string \<Rightarrow> doc list \<Rightarrow> string list"
  and json_items :: "string \<Rightarrow> string \<Rightarrow> (string \<times> doc) list \<Rightarrow> (string \<times> string) list" where
  "json_dumps isep ksep (DMap kvs) =
     ''{'' @ join isep (map (\<lambda>(k, v). json_string k @ ksep @ v)
       (sort_key fst (json_items isep ksep kvs))) @ ''}''"
| "json_dumps isep ksep (DList xs) = ''['' @ join isep (json_list isep ksep xs) @ '']''"
| "json_dumps isep ksep (DStr s) = json_string s"
| "json_dumps isep ksep (DInt i) = show_int i"
| "json_dumps isep ksep (DBool b) = (if b then ''true'' else ''false'')"
| "json_dumps isep ksep DNull = ''null''"
| "json_list isep ksep [] = []"
| "json_list isep ksep (x # xs) = json_dumps isep ksep x # json_list isep ksep xs"
| "json_items isep ksep [] = []"
| "json_items isep ksep ((k, v) # kvs) = (k, json_dumps isep ksep v) # json_items isep ksep kvs"

abbreviation dumps_compact :: "doc \<Rightarrow> string" where
  "dumps_compact \<equiv> json_dumps '','' '':''"

abbreviation dumps :: "doc \<Rightarrow> string" where
  "dumps \<equiv> json_dumps '', '' '': ''"

section \<open>Digests\<close>

text \<open>
  SHA-256 is a parameter \<open>sha\<close> of the model (the text of the hexadecimal digest). A
  \<open>stable\<close> identity joins \<open>str\<close> of its parts with NUL and keeps 24 hexadecimal digits.
\<close>

type_synonym digest = "string \<Rightarrow> string"

abbreviation nul :: string where
  "nul \<equiv> [CHR 0x00]"

definition stable :: "digest \<Rightarrow> string \<Rightarrow> string list \<Rightarrow> string" where
  "stable sha pre parts = pre @ ''-'' @ take 24 (sha (join nul parts))"

end
