(* ===== verification/Github_Models.thy ===== *)
theory Github_Models
  imports Text
begin

text \<open>
  The ingestion data of \<open>github_models.py\<close>: source kinds, surfaces, interaction modes, the
  event row, the recognisers of the control command \<open>@agent approve\<close> and of \<open>@agent\<close>
  invocations, GitHub timestamps, and the target comparison of \<open>github_store.py\<close> and
  \<open>workflow_controller.py\<close>.
\<close>

section \<open>Enumerations and events\<close>

datatype source_kind = Issue | Issue_Comment | Review_Comment | Pull_Request_Review

datatype origin_surface = ISSUE | PR_CONVERSATION | PR_INLINE_REVIEW | PR_REVIEW

datatype interaction_mode = MANUAL | AUTO

datatype subject_kind = Issue_Subject | Pull_Request

text \<open>The review position of a comment on a pull request.\<close>

record anchor =
  an_path :: "string option"
  an_line :: "int option"
  an_start_line :: "int option"
  an_side :: "string option"
  an_start_side :: "string option"
  an_diff_hunk :: "string option"
  an_commit :: "string option"
  an_original_commit :: "string option"
  an_review_state :: "string option"

definition no_anchor :: anchor where
  "no_anchor = \<lparr>an_path = None, an_line = None, an_start_line = None, an_side = None, an_start_side = None,
     an_diff_hunk = None, an_commit = None, an_original_commit = None, an_review_state = None\<rparr>"

text \<open>The columns of \<open>source_events\<close> that the modelled code reads.\<close>

record source_event =
  ev_key :: string
  ev_repo_id :: int
  ev_repo_full_name :: string
  ev_source_id :: string
  ev_thread :: "string option"
  ev_kind :: source_kind
  ev_updated_at :: string
  ev_created_at :: "string option"
  ev_discovered_at :: string
  ev_surface :: origin_surface
  ev_subject_kind :: subject_kind
  ev_subject :: int
  ev_author :: "string option"
  ev_body :: string
  ev_review_root :: "string option"
  ev_anchor :: anchor

section \<open>Control commands\<close>

text \<open>Case-insensitive match of a token at the head of a text: what is left after it.\<close>

fun match_token :: "string \<Rightarrow> string \<Rightarrow> string option" where
  "match_token [] s = Some s"
| "match_token (t # ts) [] = None"
| "match_token (t # ts) (c # cs) = (if lower t = lower c then match_token ts cs else None)"

text \<open>
  \<open>^\s*@agent\s+approve\s*$\<close> as a full match. No character of the pattern's literals is a
  space, so the repetitions never have to give characters back.
\<close>

definition is_exact_agent_approval :: "string \<Rightarrow> bool" where
  "is_exact_agent_approval body =
     (body \<noteq> [] \<and>
      (case match_token ''@agent'' (dropWhile is_space body) of
         None \<Rightarrow> False
       | Some r \<Rightarrow>
           r \<noteq> [] \<and> is_space (hd r) \<and>
           (case match_token ''approve'' (dropWhile is_space r) of
              None \<Rightarrow> False
            | Some r' \<Rightarrow> list_all is_space r')))"

definition no_word_ahead :: "string \<Rightarrow> bool" where
  "no_word_ahead s = (case s of [] \<Rightarrow> True | c # cs \<Rightarrow> \<not> is_word c)"

text \<open>The standalone mention: \<open>prev\<close> is the character in front, if any.\<close>

fun mention_from :: "char option \<Rightarrow> string \<Rightarrow> bool" where
  "mention_from prev [] = False"
| "mention_from prev (c # cs) =
     ((\<not> (case prev of None \<Rightarrow> False | Some b \<Rightarrow> is_word b) \<and>
       (case match_token ''@agent'' (c # cs) of None \<Rightarrow> False | Some r \<Rightarrow> no_word_ahead r))
      \<or> mention_from (Some c) cs)"

definition contains_agent_mention :: "string \<Rightarrow> bool" where
  "contains_agent_mention body = mention_from None body"

definition starts_with_agent_invocation :: "string \<Rightarrow> bool" where
  "starts_with_agent_invocation body =
     (body \<noteq> [] \<and>
      (case match_token ''@agent'' (dropWhile is_space body) of
         None \<Rightarrow> False | Some r \<Rightarrow> no_word_ahead r))"

definition is_actionable_source_event :: "source_kind \<Rightarrow> string \<Rightarrow> bool" where
  "is_actionable_source_event kind body =
     (if kind = Issue then contains_agent_mention body else starts_with_agent_invocation body)"

lemma is_space_not_word: "is_space c \<Longrightarrow> \<not> is_word c"
  by (auto simp: is_space_def is_word_def is_alpha_def is_digit_def Let_def)

text \<open>An exact approval is always an invocation: it is never lost to the recogniser of inputs.\<close>

lemma exact_approval_is_invocation:
  "is_exact_agent_approval body \<Longrightarrow> starts_with_agent_invocation body"
  by (auto simp: is_exact_agent_approval_def starts_with_agent_invocation_def no_word_ahead_def
      is_space_not_word split: option.splits list.splits)

lemma mention_from_append:
  "mention_from (if p = [] then b else Some (last p)) s \<Longrightarrow> mention_from b (p @ s)"
  by (induction p arbitrary: b) (auto split: if_splits)

text \<open>Every invocation is also a mention, so an actionable comment is never less than a mention.\<close>

lemma invocation_is_mention:
  assumes "starts_with_agent_invocation body"
  shows "contains_agent_mention body"
proof -
  let ?p = "takeWhile is_space body" and ?s = "dropWhile is_space body"
  obtain r where r: "match_token ''@agent'' ?s = Some r" "no_word_ahead r"
    using assms by (auto simp: starts_with_agent_invocation_def split: option.splits)
  then obtain c cs where s: "?s = c # cs" by (cases ?s) auto
  have front: "\<not> (case (if ?p = [] then None else Some (last ?p)) of None \<Rightarrow> False | Some b \<Rightarrow> is_word b)"
  proof (cases "?p = []")
    case False
    then have "is_space (last ?p)" by (metis last_in_set set_takeWhileD)
    with False show ?thesis by (simp add: is_space_not_word)
  qed simp
  have "mention_from (if ?p = [] then None else Some (last ?p)) ?s"
    unfolding s using front r by (simp add: s)
  then show ?thesis
    unfolding contains_agent_mention_def using mention_from_append takeWhile_dropWhile_id by metis
qed

section \<open>Timestamps\<close>

text \<open>
  \<open>datetime.fromisoformat\<close> of the extended format \<open>YYYY-MM-DD[?HH:MM[:SS[.f...]]][(+|-)HH:MM]\<close>,
  which covers what GitHub and the store's clock write; other ISO forms are not accepted
  here. The instant is counted in microseconds, an aware one in UTC.
\<close>

datatype datetime = Aware int | Naive int

definition digits :: "nat \<Rightarrow> string \<Rightarrow> (int \<times> string) option" where
  "digits n s =
     (if n \<le> length s \<and> list_all is_digit (take n s)
      then Some (foldl (\<lambda>v c. 10 * v + (of_char c - 48)) 0 (take n s), drop n s) else None)"

definition leap :: "int \<Rightarrow> bool" where
  "leap y = (y mod 4 = 0 \<and> (y mod 100 \<noteq> 0 \<or> y mod 400 = 0))"

definition month_lengths :: "int \<Rightarrow> int list" where
  "month_lengths y = [31, if leap y then 29 else 28, 31, 30, 31, 30, 31, 31, 30, 31, 30, 31]"

definition ordinal_day :: "int \<Rightarrow> int \<Rightarrow> int \<Rightarrow> int option" where
  "ordinal_day y m d =
     (if 1 \<le> y \<and> 1 \<le> m \<and> m \<le> 12 \<and> 1 \<le> d \<and> d \<le> month_lengths y ! nat (m - 1)
      then Some (365 * (y - 1) + (y - 1) div 4 - (y - 1) div 100 + (y - 1) div 400
                 + sum_list (take (nat (m - 1)) (month_lengths y)) + d)
      else None)"

definition parse_date :: "string \<Rightarrow> (int \<times> string) option" where
  "parse_date s =
     (case digits 4 s of
        Some (y, CHR ''-'' # s1) \<Rightarrow>
          (case digits 2 s1 of
             Some (m, CHR ''-'' # s2) \<Rightarrow>
               (case digits 2 s2 of
                  Some (d, s3) \<Rightarrow> map_option (\<lambda>n. (n, s3)) (ordinal_day y m d)
                | None \<Rightarrow> None)
           | _ \<Rightarrow> None)
      | _ \<Rightarrow> None)"

text \<open>Fraction digits, kept to microseconds.\<close>

definition parse_fraction :: "string \<Rightarrow> (int \<times> string) option" where
  "parse_fraction s =
     (let f = takeWhile is_digit s in
      if f = [] then None
      else map_option (\<lambda>(v, r). (v, dropWhile is_digit s))
        (digits 6 (take 6 (f @ replicate 6 (CHR ''0'')))))"

text \<open>Seconds and microseconds after \<open>HH:MM\<close>.\<close>

definition parse_seconds :: "string \<Rightarrow> (int \<times> int \<times> string) option" where
  "parse_seconds s =
     (case s of
        CHR '':'' # s1 \<Rightarrow>
          (case digits 2 s1 of
             None \<Rightarrow> None
           | Some (sec, s2) \<Rightarrow>
               (if 60 \<le> sec then None
                else case s2 of
                  c # s3 \<Rightarrow>
                    if c = CHR ''.'' \<or> c = CHR '',''
                    then map_option (\<lambda>(us, r). (sec, us, r)) (parse_fraction s3)
                    else Some (sec, 0, s2)
                | [] \<Rightarrow> Some (sec, 0, [])))
      | _ \<Rightarrow> Some (0, 0, s))"

definition parse_hh_mm :: "string \<Rightarrow> (int \<times> string) option" where
  "parse_hh_mm s =
     (case digits 2 s of
        Some (h, CHR '':'' # s1) \<Rightarrow>
          (case digits 2 s1 of
             Some (m, s2) \<Rightarrow> if h < 24 \<and> m < 60 then Some (60 * h + m, s2) else None
           | None \<Rightarrow> None)
      | _ \<Rightarrow> None)"

definition parse_offset :: "int \<Rightarrow> string \<Rightarrow> datetime option" where
  "parse_offset t s =
     (case s of
        [] \<Rightarrow> Some (Naive t)
      | c # s1 \<Rightarrow>
          if c = CHR ''+'' \<or> c = CHR ''-'' then
            (case parse_hh_mm s1 of
               Some (mins, []) \<Rightarrow>
                 Some (Aware (t - (if c = CHR ''+'' then 1 else -1) * mins * 60000000))
             | _ \<Rightarrow> None)
          else None)"

definition from_iso :: "string \<Rightarrow> datetime option" where
  "from_iso s =
     (case parse_date s of
        None \<Rightarrow> None
      | Some (day, []) \<Rightarrow> Some (Naive (day * 86400000000))
      | Some (day, sep # s1) \<Rightarrow>
          (case parse_hh_mm s1 of
             None \<Rightarrow> None
           | Some (mins, s2) \<Rightarrow>
               (case parse_seconds s2 of
                  None \<Rightarrow> None
                | Some (sec, us, s3) \<Rightarrow>
                    parse_offset ((day * 86400 + mins * 60 + sec) * 1000000 + us) s3)))"

text \<open>\<open>value.replace("Z", "+00:00")\<close>.\<close>

definition utc_suffix :: "string \<Rightarrow> string" where
  "utc_suffix s = concat (map (\<lambda>c. if c = CHR ''Z'' then ''+00:00'' else [c]) s)"

definition parse_timestamp :: "string \<Rightarrow> datetime option" where
  "parse_timestamp s = from_iso (utc_suffix s)"

text \<open>
  \<open>a > b\<close> on two parsed timestamps. A parse failure (ValueError) and the comparison of an
  aware with a naive datetime (TypeError) both make the callers answer False.
\<close>

fun datetime_after :: "datetime option \<Rightarrow> datetime option \<Rightarrow> bool" where
  "datetime_after (Some (Aware a)) (Some (Aware b)) = (b < a)"
| "datetime_after (Some (Naive a)) (Some (Naive b)) = (b < a)"
| "datetime_after _ _ = False"

text \<open>\<open>DeclarativeWorkflowController._after\<close> and \<open>SQLiteGitHubStore._after_posted_at\<close>.\<close>

definition after :: "string option \<Rightarrow> string \<Rightarrow> bool" where
  "after value threshold =
     (case value of
        None \<Rightarrow> False
      | Some v \<Rightarrow> v \<noteq> [] \<and> datetime_after (parse_timestamp v) (parse_timestamp threshold))"

definition after_posted_at :: "source_event \<Rightarrow> string \<Rightarrow> bool" where
  "after_posted_at item posted_at =
     datetime_after
       (parse_timestamp (case ev_created_at item of None \<Rightarrow> [] | Some s \<Rightarrow> s))
       (parse_timestamp posted_at)"

lemma parse_timestamp_Nil [simp]: "parse_timestamp [] = None"
  by (simp add: parse_timestamp_def utc_suffix_def from_iso_def parse_date_def digits_def)

lemma datetime_after_irrefl: "\<not> datetime_after t t"
  by (cases t; cases "the t") auto

lemma datetime_after_trans:
  "datetime_after a b \<Longrightarrow> datetime_after b c \<Longrightarrow> datetime_after a c"
  by (induction a b rule: datetime_after.induct) (cases c; cases "the c"; auto)+

text \<open>The two comparisons of the code base agree on every event and threshold.\<close>

lemma after_posted_at_eq: "after_posted_at e t = after (ev_created_at e) t"
proof (cases "ev_created_at e")
  case None
  then show ?thesis by (simp add: after_posted_at_def after_def)
next
  case (Some v)
  then show ?thesis by (cases "v = []") (auto simp: after_posted_at_def after_def)
qed

section \<open>Conversation targets\<close>

text \<open>\<open>_same_generic_target\<close> of the store; the controller's \<open>_same_target\<close> is the same test.\<close>

definition same_generic_target :: "source_event \<Rightarrow> source_event \<Rightarrow> bool" where
  "same_generic_target item root =
     (if ev_surface item \<noteq> ev_surface root \<or> ev_subject item \<noteq> ev_subject root then False
      else ev_surface root \<noteq> PR_INLINE_REVIEW \<or> ev_review_root item = ev_review_root root)"

definition same_target :: "source_event \<Rightarrow> source_event \<Rightarrow> bool" where
  "same_target event root =
     (if ev_surface event \<noteq> ev_surface root \<or> ev_subject event \<noteq> ev_subject root then False
      else if ev_surface root = PR_INLINE_REVIEW then ev_review_root event = ev_review_root root
      else True)"

lemma same_target_eq: "same_target = same_generic_target"
  by (auto simp: fun_eq_iff same_target_def same_generic_target_def)

section \<open>Properties of the recognisers\<close>

lemma match_token_iff:
  "match_token t s = Some r \<longleftrightarrow> (\<exists>a. s = a @ r \<and> map lower a = map lower t)"
proof (induction t s rule: match_token.induct)
  case (3 t ts c cs)
  show ?case
  proof
    assume "match_token (t # ts) (c # cs) = Some r"
    with 3 obtain a where "cs = a @ r" "map lower a = map lower ts" "lower t = lower c"
      by (auto split: if_splits)
    then show "\<exists>a. c # cs = a @ r \<and> map lower a = map lower (t # ts)"
      by (intro exI [of _ "c # a"]) simp
  next
    assume "\<exists>a. c # cs = a @ r \<and> map lower a = map lower (t # ts)"
    with 3 show "match_token (t # ts) (c # cs) = Some r"
      by (auto simp: Cons_eq_append_conv)
  qed
qed auto

lemma match_token_case:
  "(case match_token t x of None \<Rightarrow> False | Some r \<Rightarrow> P r) \<longleftrightarrow>
     (\<exists>a s. x = a @ s \<and> map lower a = map lower t \<and> P s)"
proof -
  have "(case match_token t x of None \<Rightarrow> False | Some r \<Rightarrow> P r) \<longleftrightarrow> (\<exists>s. match_token t x = Some s \<and> P s)"
    by (simp split: option.split)
  then show ?thesis unfolding match_token_iff by blast
qed

lemma dropWhile_space_append:
  "\<forall>c \<in> set l. is_space c \<Longrightarrow> dropWhile is_space (l @ s) = dropWhile is_space s"
  by (simp add: dropWhile_append)

text \<open>The two literals of the patterns, in any case.\<close>

definition agent_word :: "string \<Rightarrow> bool" where
  "agent_word a = (map lower a = ''@agent'')"

definition approve_word :: "string \<Rightarrow> bool" where
  "approve_word a = (map lower a = ''approve'')"

lemma lower_literals: "map lower ''@agent'' = ''@agent''" "map lower ''approve'' = ''approve''"
  by (simp_all add: lower_def)

lemma match_agent: "match_token ''@agent'' s = Some r \<longleftrightarrow> (\<exists>a. s = a @ r \<and> agent_word a)"
  and match_approve: "match_token ''approve'' s = Some r \<longleftrightarrow> (\<exists>a. s = a @ r \<and> approve_word a)"
  by (simp_all only: match_token_iff lower_literals agent_word_def approve_word_def)

lemma literal_not_space:
  assumes "map lower a = c # t" and "\<not> is_space c"
  shows "dropWhile is_space (a @ s) = a @ s"
proof -
  from assms(1) obtain b bs where b: "a = b # bs" "lower b = c" by (cases a) auto
  have "lower b = b" if "is_space b" using that by (auto simp: lower_def is_space_def Let_def)
  with b assms(2) show ?thesis by auto
qed

lemma words_not_space:
  "agent_word a \<Longrightarrow> dropWhile is_space (a @ s) = a @ s"
  "approve_word a \<Longrightarrow> dropWhile is_space (a @ s) = a @ s"
  unfolding agent_word_def approve_word_def
  by (erule literal_not_space, simp add: is_space_def)+

lemma command_tail:
  "(r1 \<noteq> [] \<and> is_space (hd r1) \<and>
     (case match_token ''approve'' (dropWhile is_space r1) of None \<Rightarrow> False | Some r \<Rightarrow> list_all is_space r)) \<longleftrightarrow>
   (\<exists>m b r. r1 = m @ b @ r \<and> list_all is_space (m @ r) \<and> m \<noteq> [] \<and> approve_word b)" (is "?L \<longleftrightarrow> ?R")
proof
  assume L: ?L
  then obtain r where r: "match_token ''approve'' (dropWhile is_space r1) = Some r" "list_all is_space r"
    by (simp split: option.splits)
  obtain b where b: "dropWhile is_space r1 = b @ r" "approve_word b"
    using match_approve [THEN iffD1, OF r(1)] by blast
  have "r1 = takeWhile is_space r1 @ b @ r" using b(1) by (metis takeWhile_dropWhile_id)
  moreover have "list_all is_space (takeWhile is_space r1 @ r)"
    using r(2) by (auto simp: list_all_iff dest: set_takeWhileD)
  moreover have "takeWhile is_space r1 \<noteq> []" using L by (cases r1) auto
  ultimately show ?R using b(2) by blast
next
  assume ?R
  then obtain m b r where s: "r1 = m @ b @ r" "list_all is_space (m @ r)" "m \<noteq> []" "approve_word b" by blast
  have "dropWhile is_space r1 = b @ r"
    using s by (simp add: dropWhile_space_append list_all_iff words_not_space)
  moreover have "match_token ''approve'' (b @ r) = Some r"
    by (rule match_approve [THEN iffD2], rule exI [of _ b]) (simp add: s)
  ultimately show ?L using s by (cases m) (simp_all del: match_token.simps)
qed

text \<open>
  C34. The exact approval command is the language of the regular expression: optional white
  space, \<open>@agent\<close>, at least one space, \<open>approve\<close>, optional white space, and nothing else, in
  any case.
\<close>

theorem exact_approval_language:
  "is_exact_agent_approval body \<longleftrightarrow>
     (\<exists>l a m b r. body = l @ a @ m @ b @ r \<and> list_all is_space (l @ m @ r) \<and> m \<noteq> [] \<and>
        agent_word a \<and> approve_word b)" (is "_ \<longleftrightarrow> ?R")
proof
  assume "is_exact_agent_approval body"
  then have e: "case match_token ''@agent'' (dropWhile is_space body) of None \<Rightarrow> False
      | Some r \<Rightarrow> (\<exists>m b t. r = m @ b @ t \<and> list_all is_space (m @ t) \<and> m \<noteq> [] \<and> approve_word b)"
    unfolding is_exact_agent_approval_def command_tail by blast
  then obtain r where r: "match_token ''@agent'' (dropWhile is_space body) = Some r"
    "\<exists>m b t. r = m @ b @ t \<and> list_all is_space (m @ t) \<and> m \<noteq> [] \<and> approve_word b"
    by (simp split: option.splits)
  then obtain a where a: "dropWhile is_space body = a @ r" "agent_word a"
    using match_agent [THEN iffD1, OF r(1)] by blast
  obtain m b t where s: "r = m @ b @ t" "list_all is_space (m @ t)" "m \<noteq> []" "approve_word b"
    using r(2) by blast
  have "body = takeWhile is_space body @ a @ m @ b @ t" using a(1) s(1) by (metis takeWhile_dropWhile_id)
  moreover have "list_all is_space (takeWhile is_space body @ m @ t)"
    using s(2) by (auto simp: list_all_iff dest: set_takeWhileD)
  ultimately show ?R using a(2) s(3,4) by blast
next
  assume ?R
  then obtain l a m b r where s: "body = l @ a @ m @ b @ r" "list_all is_space (l @ m @ r)" "m \<noteq> []"
    "agent_word a" "approve_word b" by blast
  have "dropWhile is_space body = a @ m @ b @ r"
    using s by (simp add: dropWhile_space_append list_all_iff words_not_space)
  moreover have "match_token ''@agent'' (a @ m @ b @ r) = Some (m @ b @ r)"
    by (rule match_agent [THEN iffD2], rule exI [of _ a]) (simp add: s)
  moreover have "body \<noteq> []" using s by simp
  moreover have "\<exists>m' b' t. m @ b @ r = m' @ b' @ t \<and> list_all is_space (m' @ t) \<and> m' \<noteq> [] \<and> approve_word b'"
    using s by (intro exI [of _ m] exI [of _ b] exI [of _ r]) (simp add: s)
  ultimately show "is_exact_agent_approval body"
    unfolding is_exact_agent_approval_def command_tail by (simp del: match_token.simps)
qed

lemma mention_from_iff:
  "mention_from prev body \<longleftrightarrow>
     (\<exists>p a s. body = p @ a @ s \<and> agent_word a \<and> no_word_ahead s \<and>
        \<not> (case (if p = [] then prev else Some (last p)) of None \<Rightarrow> False | Some b \<Rightarrow> is_word b))"
  (is "_ \<longleftrightarrow> ?R prev body")
proof (induction body arbitrary: prev)
  case Nil
  then show ?case by (auto simp: agent_word_def)
next
  case (Cons c cs)
  let ?here = "\<not> (case prev of None \<Rightarrow> False | Some b \<Rightarrow> is_word b) \<and>
    (case match_token ''@agent'' (c # cs) of None \<Rightarrow> False | Some r \<Rightarrow> no_word_ahead r)"
  have here: "?here \<longleftrightarrow> (\<not> (case prev of None \<Rightarrow> False | Some b \<Rightarrow> is_word b) \<and>
      (\<exists>a s. c # cs = a @ s \<and> agent_word a \<and> no_word_ahead s))"
    by (simp only: match_token_case lower_literals agent_word_def)
  have "?R prev (c # cs) \<longleftrightarrow> ?here \<or> ?R (Some c) cs"
  proof
    assume "?R prev (c # cs)"
    then obtain p a s where pas: "c # cs = p @ a @ s" "agent_word a" "no_word_ahead s"
      "\<not> (case (if p = [] then prev else Some (last p)) of None \<Rightarrow> False | Some b \<Rightarrow> is_word b)" by blast
    show "?here \<or> ?R (Some c) cs"
    proof (cases p)
      case Nil
      then show ?thesis using pas here by auto
    next
      case (Cons x q)
      have "?R (Some c) cs"
        by (rule exI [of _ q], rule exI [of _ a], rule exI [of _ s]) (use pas Cons in \<open>auto split: if_splits\<close>)
      then show ?thesis ..
    qed
  next
    assume "?here \<or> ?R (Some c) cs"
    then show "?R prev (c # cs)"
    proof
      assume ?here
      then obtain a s where "c # cs = a @ s" "agent_word a" "no_word_ahead s"
        "\<not> (case prev of None \<Rightarrow> False | Some b \<Rightarrow> is_word b)" using here by blast
      then show ?thesis by (intro exI [of _ "[]"] exI [of _ a] exI [of _ s]) simp
    next
      assume "?R (Some c) cs"
      then obtain p a s where "cs = p @ a @ s" "agent_word a" "no_word_ahead s"
        "\<not> (case (if p = [] then Some c else Some (last p)) of None \<Rightarrow> False | Some b \<Rightarrow> is_word b)" by blast
      then show ?thesis by (intro exI [of _ "c # p"] exI [of _ a] exI [of _ s]) (auto split: if_splits)
    qed
  qed
  with Cons.IH show ?case by simp
qed

text \<open>
  C35. A mention is an occurrence of \<open>@agent\<close> in any case, at any place of the text, that no
  word character touches on either side.
\<close>

theorem agent_mention_language:
  "contains_agent_mention body \<longleftrightarrow>
     (\<exists>p a s. body = p @ a @ s \<and> agent_word a \<and>
        \<not> (p \<noteq> [] \<and> is_word (last p)) \<and> \<not> (s \<noteq> [] \<and> is_word (hd s)))"
proof -
  have ahead: "no_word_ahead s \<longleftrightarrow> \<not> (s \<noteq> [] \<and> is_word (hd s))" for s
    by (cases s) (auto simp: no_word_ahead_def)
  have front: "(\<not> (case (if p = [] then None else Some (last p)) of None \<Rightarrow> False | Some b \<Rightarrow> is_word b)) \<longleftrightarrow>
      \<not> (p \<noteq> [] \<and> is_word (last p))" for p
    by simp
  show ?thesis
    unfolding contains_agent_mention_def mention_from_iff ahead front by blast
qed

text \<open>
  An exact approval comment is actionable whatever the kind of its source, so ingestion
  never drops it.
\<close>

theorem approval_is_actionable:
  "is_exact_agent_approval body \<Longrightarrow> is_actionable_source_event kind body"
  by (simp add: is_actionable_source_event_def exact_approval_is_invocation invocation_is_mention)

theorem approval_is_actionable_witness:
  "is_actionable_source_event Issue_Comment '' @Agent  Approve''"
  by (rule approval_is_actionable) code_simp

end
