(* ===== verification/Workflow_Spec.thy ===== *)
theory Workflow_Spec
  imports Text
begin

text \<open>
  \<open>workflow_spec.py\<close>: the operator's declarative workflow. Validation of a decoded document
  (\<open>parse_workflow_spec\<close>), the depth-first cycle check, the canonical document with its
  digest, and the derived one-task revision workflow. The text of an exception keeps its
  fixed part; interpolated lists are left out.
\<close>

section \<open>Data\<close>

definition SCHEMA_VERSION :: int where
  "SCHEMA_VERSION = 1"

text \<open>\<open>_ID = ^[A-Za-z][A-Za-z0-9_.-]{0,63}$\<close>, matched in full.\<close>

definition valid_id :: "string \<Rightarrow> bool" where
  "valid_id s = (s \<noteq> [] \<and> is_alpha (hd s) \<and> length s \<le> 64 \<and>
     list_all (\<lambda>c. is_word c \<or> c = CHR ''.'' \<or> c = CHR ''-'') (tl s))"

definition BUILTIN_WORKFLOW_TOOLS :: "string list" where
  "BUILTIN_WORKFLOW_TOOLS =
     [''ls'', ''read_file'', ''glob'', ''grep'', ''write_file'', ''edit_file'', ''execute'',
      ''run_validation'', ''request_clarification'', ''search_issue_memory'', ''propose_repo_memory'']"

record phase_spec =
  ph_skill :: string
  ph_tools :: "string list"
  ph_additional :: "string list"

definition phase_skills :: "phase_spec \<Rightarrow> string list" where
  "phase_skills p = ph_skill p # ph_additional p"

record task_spec =
  ts_id :: string
  ts_depends_on :: "string list"
  ts_planning :: phase_spec
  ts_execution :: phase_spec
  ts_validation :: phase_spec

record workflow_spec =
  ws_version :: int
  ws_workflow_id :: string
  ws_tasks :: "task_spec list"
  ws_digest :: string

definition task_map :: "workflow_spec \<Rightarrow> string \<Rightarrow> task_spec option" where
  "task_map w k = map_of (rev (map (\<lambda>t. (ts_id t, t)) (ws_tasks w))) k"

definition phase_document :: "phase_spec \<Rightarrow> doc" where
  "phase_document p = DMap ([(''skill'', DStr (ph_skill p)), (''tools'', strs (ph_tools p))] @
     (if ph_additional p \<noteq> [] then [(''skills'', strs (ph_additional p))] else []))"

definition task_document :: "task_spec \<Rightarrow> doc" where
  "task_document t = DMap
     [(''id'', DStr (ts_id t)), (''depends_on'', strs (ts_depends_on t)),
      (''planning'', phase_document (ts_planning t)),
      (''execution'', phase_document (ts_execution t)),
      (''validation'', phase_document (ts_validation t))]"

definition document_of :: "int \<Rightarrow> string \<Rightarrow> task_spec list \<Rightarrow> doc" where
  "document_of v wid ts = DMap
     [(''version'', DInt v), (''workflow_id'', DStr wid), (''tasks'', DList (map task_document ts))]"

definition canonical_document :: "workflow_spec \<Rightarrow> doc" where
  "canonical_document w = document_of (ws_version w) (ws_workflow_id w) (ws_tasks w)"

section \<open>Validation of one phase\<close>

definition unknown_fields :: "(string \<times> doc) list \<Rightarrow> string list \<Rightarrow> bool" where
  "unknown_fields kvs known = list_ex (\<lambda>(k, v). k \<notin> set known) kvs"

definition valid_id_doc :: "doc \<Rightarrow> bool" where
  "valid_id_doc d = (is_str d \<and> valid_id (str_of d))"

definition skill_missing :: "(string \<Rightarrow> bool) option \<Rightarrow> string \<Rightarrow> bool" where
  "skill_missing skill_exists s = (case skill_exists of None \<Rightarrow> False | Some f \<Rightarrow> \<not> f s)"

definition parse_phase ::
  "string \<Rightarrow> string list \<Rightarrow> (string \<Rightarrow> bool) option \<Rightarrow> doc \<Rightarrow> err + phase_spec" where
  "parse_phase label known_tools skill_exists value =
    (if \<not> is_map value then Inl (ValueError (label @ '' must be a mapping'')) else
     let item = items value;
         skill = strip (str_of (dget item ''skill''));
         raw_skills = (case map_of item ''skills'' of None \<Rightarrow> DList [] | Some v \<Rightarrow> v);
         extra = map str_of (elems raw_skills);
         raw_tools = dget item ''tools'';
         tools = map str_of (elems raw_tools) in
     if unknown_fields item [''skill'', ''skills'', ''tools'']
     then Inl (ValueError (label @ '' has unknown fields''))
     else if \<not> is_str (dget item ''skill'') \<or> skill = []
     then Inl (ValueError (label @ ''.skill is required''))
     else if \<not> valid_id skill then Inl (ValueError (label @ ''.skill is malformed''))
     else if skill_missing skill_exists skill
     then Inl (ValueError (label @ ''.skill does not exist''))
     else if \<not> is_list raw_skills \<or> list_ex (\<lambda>d. \<not> valid_id_doc d) (elems raw_skills)
     then Inl (ValueError (label @ ''.skills must be a list of skill names''))
     else if skill \<in> set extra \<or> \<not> distinct extra
     then Inl (ValueError (label @ ''.skills contains duplicates''))
     else if list_ex (skill_missing skill_exists) extra
     then Inl (ValueError (label @ ''.skills do not exist''))
     else if \<not> is_list raw_tools \<or> list_ex (\<lambda>d. \<not> is_str d \<or> str_of d = []) (elems raw_tools)
     then Inl (ValueError (label @ ''.tools must be a list of names''))
     else if \<not> distinct tools then Inl (ValueError (label @ ''.tools contains duplicates''))
     else if list_ex (\<lambda>t. t \<notin> set known_tools) tools
     then Inl (ValueError (label @ ''.tools contains unknown tools''))
     else Inr \<lparr>ph_skill = skill, ph_tools = tools, ph_additional = extra\<rparr>)"

section \<open>Validation of the task list\<close>

definition parse_task ::
  "nat \<Rightarrow> string list \<Rightarrow> string list \<Rightarrow> (string \<Rightarrow> bool) option \<Rightarrow> doc \<Rightarrow> err + task_spec" where
  "parse_task index seen known_tools skill_exists raw =
    (let label = ''tasks['' @ show_nat index @ '']'' in
     if \<not> is_map raw then Inl (ValueError (label @ '' must be a mapping'')) else
     let item = items raw;
         task_id = dget item ''id'';
         depends = dget item ''depends_on'';
         deps = map str_of (elems depends) in
     if unknown_fields item [''id'', ''depends_on'', ''planning'', ''execution'', ''validation'']
     then Inl (ValueError (label @ '' has unknown fields''))
     else if \<not> valid_id_doc task_id then Inl (ValueError (label @ ''.id is malformed''))
     else if str_of task_id \<in> set seen
     then Inl (ValueError (''duplicate task ID: '' @ str_of task_id))
     else if \<not> is_list depends \<or> list_ex (\<lambda>d. \<not> valid_id_doc d) (elems depends)
     then Inl (ValueError (label @ ''.depends_on must be a list of task IDs''))
     else if \<not> distinct deps
     then Inl (ValueError (label @ ''.depends_on contains duplicates''))
     else bindE (parse_phase (label @ ''.planning'') known_tools skill_exists (dget item ''planning''))
       (\<lambda>p. bindE (parse_phase (label @ ''.execution'') known_tools skill_exists (dget item ''execution''))
       (\<lambda>e. bindE (parse_phase (label @ ''.validation'') known_tools skill_exists (dget item ''validation''))
       (\<lambda>v. Inr \<lparr>ts_id = str_of task_id, ts_depends_on = deps,
                  ts_planning = p, ts_execution = e, ts_validation = v\<rparr>))))"

text \<open>The loop over \<open>enumerate(raw_tasks)\<close>; \<open>seen\<close> collects the ids of the earlier tasks.\<close>

fun parse_tasks ::
  "nat \<Rightarrow> string list \<Rightarrow> string list \<Rightarrow> (string \<Rightarrow> bool) option \<Rightarrow> doc list \<Rightarrow> err + task_spec list" where
  "parse_tasks index seen known_tools skill_exists [] = Inr []"
| "parse_tasks index seen known_tools skill_exists (raw # raws) =
     bindE (parse_task index seen known_tools skill_exists raw)
       (\<lambda>t. bindE (parse_tasks (Suc index) (ts_id t # seen) known_tools skill_exists raws)
         (\<lambda>ts. Inr (t # ts)))"

section \<open>The dependency cycle check\<close>

text \<open>
  \<open>visit\<close> with its two closure sets: \<open>path\<close> is the current value of \<open>visiting\<close> (each call
  restores it before it returns), \<open>visited\<close> is passed through. A missing key of \<open>graph\<close> is a
  KeyError. Python's recursion limit is not modelled.
\<close>

type_synonym graph = "(string \<times> string list) list"

function visit :: "graph \<Rightarrow> string list \<Rightarrow> string list \<Rightarrow> string \<Rightarrow> err + string list"
  and visit_all :: "graph \<Rightarrow> string list \<Rightarrow> string list \<Rightarrow> string list \<Rightarrow> err + string list" where
  "visit g path visited t =
     (if t \<in> set path then Inl (ValueError ''workflow dependency cycle detected'')
      else if t \<in> set visited then Inr visited
      else case map_of g t of
        None \<Rightarrow> Inl (KeyError t)
      | Some deps \<Rightarrow> bindE (visit_all g (t # path) visited deps) (\<lambda>vs. Inr (t # vs)))"
| "visit_all g path visited [] = Inr visited"
| "visit_all g path visited (t # ts) =
     bindE (visit g path visited t) (\<lambda>vs. visit_all g path vs ts)"
  by pat_completeness auto

lemma path_shrinks:
  "map_of g t = Some deps \<Longrightarrow> t \<notin> set path \<Longrightarrow>
   card (fst ` set g - set (t # path)) < card (fst ` set g - set path)"
proof (intro psubset_card_mono)
  assume "map_of g t = Some deps" and t: "t \<notin> set path"
  then have "t \<in> fst ` set g" by (force dest: map_of_SomeD)
  with t show "fst ` set g - set (t # path) \<subset> fst ` set g - set path" by auto
qed simp

text \<open>
  The visiting path grows inside the finite set of task ids; a list of dependencies is walked
  at a fixed path.
\<close>

termination visit
proof (relation "measures
    [\<lambda>x. case x of Inl (g, path, vs, t) \<Rightarrow> card (fst ` set g - set path)
                 | Inr (g, path, vs, ts) \<Rightarrow> card (fst ` set g - set path),
     \<lambda>x. case x of Inl (g, path, vs, t) \<Rightarrow> 0 | Inr (g, path, vs, ts) \<Rightarrow> Suc (length ts)]",
    goal_cases)
  case 1
  then show ?case by simp
next
  case (2 g path visited t deps)
  then show ?case using path_shrinks [of g t deps path] by simp
qed auto

declare visit.simps [simp del]

definition dependency_graph :: "task_spec list \<Rightarrow> graph" where
  "dependency_graph ts = map (\<lambda>t. (ts_id t, ts_depends_on t)) (rev ts)"

definition edges :: "graph \<Rightarrow> (string \<times> string) set" where
  "edges g = {(t, d). \<exists>deps. map_of g t = Some deps \<and> d \<in> set deps}"

section \<open>parse_workflow_spec\<close>

definition parse_workflow_spec ::
  "digest \<Rightarrow> string list \<Rightarrow> (string \<Rightarrow> bool) option \<Rightarrow> doc \<Rightarrow> err + workflow_spec" where
  "parse_workflow_spec sha known_tools skill_exists document =
    (if \<not> is_map document then Inl (ValueError ''workflow must be a mapping'') else
     let root = items document; raw_tasks = dget root ''tasks'' in
     if unknown_fields root [''version'', ''workflow_id'', ''tasks'']
     then Inl (ValueError ''workflow has unknown fields'')
     else if \<not> eq_int (dget root ''version'') SCHEMA_VERSION
     then Inl (ValueError ''workflow version must be 1'')
     else if \<not> valid_id_doc (dget root ''workflow_id'')
     then Inl (ValueError ''workflow_id is malformed'')
     else if \<not> is_list raw_tasks \<or> elems raw_tasks = []
     then Inl (ValueError ''workflow.tasks must be a non-empty list'')
     else bindE (parse_tasks 0 [] known_tools skill_exists (elems raw_tasks)) (\<lambda>tasks.
       if list_ex (\<lambda>t. list_ex (\<lambda>d. d \<notin> ts_id ` set tasks) (ts_depends_on t)) tasks
       then Inl (ValueError ''workflow references unknown dependencies'')
       else bindE (visit_all (dependency_graph tasks) [] [] (map ts_id tasks)) (\<lambda>_.
         let workflow_id = str_of (dget root ''workflow_id'') in
         Inr \<lparr>ws_version = SCHEMA_VERSION, ws_workflow_id = workflow_id, ws_tasks = tasks,
              ws_digest = sha (dumps_compact (document_of SCHEMA_VERSION workflow_id tasks))\<rparr>)))"

section \<open>The revision workflow\<close>

definition all_phases :: "task_spec \<Rightarrow> phase_spec list" where
  "all_phases t = [ts_planning t, ts_execution t, ts_validation t]"

definition RESEARCH :: "string list" where
  "RESEARCH = [''ls'', ''read_file'', ''glob'', ''grep'', ''search_issue_memory'']"

definition union_skills :: "(task_spec \<Rightarrow> phase_spec) \<Rightarrow> workflow_spec \<Rightarrow> string list" where
  "union_skills select w = ordered (concat (map (\<lambda>t. phase_skills (select t)) (ws_tasks w)))"

definition all_tools :: "workflow_spec \<Rightarrow> string list" where
  "all_tools w = concat (map (\<lambda>t. concat (map ph_tools (all_phases t))) (ws_tasks w))"

definition trusted_research :: "workflow_spec \<Rightarrow> string list" where
  "trusted_research w = ordered (filter (\<lambda>t. t \<in> set RESEARCH) (all_tools w))"

definition revision_planning_tools :: "workflow_spec \<Rightarrow> string list" where
  "revision_planning_tools w = ordered
     (filter (\<lambda>t. t \<notin> {''write_file'', ''edit_file'', ''execute''})
        (concat (map (\<lambda>t. ph_tools (ts_planning t)) (ws_tasks w))) @ trusted_research w)"

definition revision_execution_tools :: "workflow_spec \<Rightarrow> string list" where
  "revision_execution_tools w = ordered
     (concat (map (\<lambda>t. ph_tools (ts_execution t)) (ws_tasks w)) @ trusted_research w)"

definition revision_validation_tools :: "workflow_spec \<Rightarrow> string list" where
  "revision_validation_tools w = ordered
     (concat (map (\<lambda>t. ph_tools (ts_validation t)) (ws_tasks w)) @ trusted_research w)"

definition revision_phase_document :: "string list \<Rightarrow> string list \<Rightarrow> doc" where
  "revision_phase_document skills tools = DMap
     [(''skill'', DStr (hd skills)), (''skills'', strs (tl skills)), (''tools'', strs tools)]"

definition derive_revision_spec :: "digest \<Rightarrow> workflow_spec \<Rightarrow> err + workflow_spec" where
  "derive_revision_spec sha initial =
    (let ps = union_skills ts_planning initial;
         es = union_skills ts_execution initial;
         vs = union_skills ts_validation initial in
     if ps = [] then Inl (ValueError ''revision planning phase derived no trusted skill'')
     else if es = [] then Inl (ValueError ''revision execution phase derived no trusted skill'')
     else if vs = [] then Inl (ValueError ''revision validation phase derived no trusted skill'')
     else parse_workflow_spec sha (all_tools initial) None (DMap
       [(''version'', DInt SCHEMA_VERSION),
        (''workflow_id'', DStr (''revision-'' @ take 16 (ws_digest initial))),
        (''tasks'', DList [DMap
          [(''id'', DStr ''revision''), (''depends_on'', DList []),
           (''planning'', revision_phase_document ps (revision_planning_tools initial)),
           (''execution'', revision_phase_document es (revision_execution_tools initial)),
           (''validation'', revision_phase_document vs (revision_validation_tools initial))]])]))"

definition default_document :: doc where
  "default_document = DMap
     [(''version'', DInt 1), (''workflow_id'', DStr ''default''),
      (''tasks'', DList [DMap
        [(''id'', DStr ''implementation''), (''depends_on'', DList []),
         (''planning'', DMap [(''skill'', DStr ''implementation-planning''),
            (''tools'', strs [''ls'', ''read_file'', ''glob'', ''grep'', ''search_issue_memory''])]),
         (''execution'', DMap [(''skill'', DStr ''implementation-execution''),
            (''tools'', strs [''ls'', ''read_file'', ''glob'', ''grep'', ''write_file'', ''edit_file'',
               ''execute'', ''request_clarification'', ''propose_repo_memory''])]),
         (''validation'', DMap [(''skill'', DStr ''implementation-validation''),
            (''tools'', strs [''ls'', ''read_file'', ''glob'', ''grep'', ''run_validation''])])]])]"

definition DEFAULT_WORKFLOW :: "digest \<Rightarrow> err + workflow_spec" where
  "DEFAULT_WORKFLOW sha = parse_workflow_spec sha BUILTIN_WORKFLOW_TOOLS None default_document"

section \<open>The cycle check decides acyclicity\<close>

text \<open>A visited list is closed under dependencies, the dependencies of an element behind it.\<close>

fun topo :: "graph \<Rightarrow> string list \<Rightarrow> bool" where
  "topo g [] = True"
| "topo g (x # xs) = ((case map_of g x of None \<Rightarrow> False | Some deps \<Rightarrow> set deps \<subseteq> set xs) \<and> topo g xs)"

definition closed_graph :: "graph \<Rightarrow> bool" where
  "closed_graph g = (\<forall>t deps d. map_of g t = Some deps \<longrightarrow> d \<in> set deps \<longrightarrow> map_of g d \<noteq> None)"

lemma visit_topo:
  "visit g path vs t = Inr vs' \<Longrightarrow> topo g vs \<Longrightarrow> topo g vs' \<and> set vs \<subseteq> set vs' \<and> t \<in> set vs'"
  "visit_all g path vs ts = Inr vs' \<Longrightarrow> topo g vs \<Longrightarrow> topo g vs' \<and> set vs \<subseteq> set vs' \<and> set ts \<subseteq> set vs'"
proof (induction g path vs t and g path vs ts arbitrary: vs' and vs' rule: visit_visit_all.induct)
  case (1 g path visited t)
  show ?case
  proof (cases "t \<in> set path \<or> t \<in> set visited")
    case True
    with 1 show ?thesis by (auto simp: visit.simps split: if_splits)
  next
    case False
    with 1 obtain deps us where "map_of g t = Some deps" "vs' = t # us"
      "visit_all g (t # path) visited deps = Inr us"
      by (auto simp: visit.simps bindE_Inr_iff split: option.splits)
    with 1 False show ?thesis by fastforce
  qed
next
  case (3 g path visited t ts)
  then obtain us where us: "visit g path visited t = Inr us" "visit_all g path us ts = Inr vs'"
    by (auto simp: bindE_Inr_iff)
  with 3 have "topo g us \<and> set visited \<subseteq> set us \<and> t \<in> set us" by blast
  moreover with us 3 have "topo g vs' \<and> set us \<subseteq> set vs' \<and> set ts \<subseteq> set vs'" by blast
  ultimately show ?case by auto
qed auto

lemma topo_no_cycle:
  "topo g vs \<Longrightarrow> x \<in> set vs \<Longrightarrow> (x, y) \<in> (edges g)\<^sup>+ \<Longrightarrow> y \<in> set vs \<and> y \<noteq> x"
proof (induction vs arbitrary: x y)
  case (Cons v vs)
  have IH: "y \<in> set vs \<and> y \<noteq> x" if "x \<in> set vs" "(x, y) \<in> (edges g)\<^sup>+" for x y
    using Cons.IH Cons.prems(1) that by (auto split: option.splits)
  show ?case
  proof (cases "x \<in> set vs")
    case True
    with IH Cons.prems show ?thesis by auto
  next
    case False
    from Cons.prems(3) obtain d where d: "(x, d) \<in> edges g" "d = y \<or> (d, y) \<in> (edges g)\<^sup>+"
      by (metis tranclD rtranclD)
    with Cons.prems False have "d \<in> set vs" by (auto simp: edges_def split: option.splits)
    with d IH have "y \<in> set vs" by auto
    with False show ?thesis by auto
  qed
qed simp

lemma visit_error_cycle:
  "closed_graph g \<Longrightarrow> visit g path vs t = Inl e \<Longrightarrow> map_of g t \<noteq> None \<Longrightarrow>
     \<forall>p \<in> set path. (p, t) \<in> (edges g)\<^sup>+ \<Longrightarrow> \<exists>x. (x, x) \<in> (edges g)\<^sup>+"
  "closed_graph g \<Longrightarrow> visit_all g path vs ts = Inl e \<Longrightarrow> \<forall>t \<in> set ts. map_of g t \<noteq> None \<Longrightarrow>
     \<forall>t \<in> set ts. \<forall>p \<in> set path. (p, t) \<in> (edges g)\<^sup>+ \<Longrightarrow> \<exists>x. (x, x) \<in> (edges g)\<^sup>+"
proof (induction g path vs t and g path vs ts arbitrary: e and e rule: visit_visit_all.induct)
  case (1 g path visited t)
  show ?case
  proof (cases "t \<in> set path")
    case True
    with 1 show ?thesis by auto
  next
    case False
    with 1 obtain deps where deps: "map_of g t = Some deps" "t \<notin> set visited"
      "visit_all g (t # path) visited deps = Inl e"
      by (auto simp: visit.simps bindE_Inl_iff split: option.splits if_splits)
    have edge: "(t, d) \<in> edges g" if "d \<in> set deps" for d
      using that deps by (auto simp: edges_def)
    have "\<forall>d \<in> set deps. map_of g d \<noteq> None"
      using 1(2) deps(1) by (auto simp: closed_graph_def)
    moreover have "\<forall>d \<in> set deps. \<forall>p \<in> set (t # path). (p, d) \<in> (edges g)\<^sup>+"
      using 1(5) edge by (auto intro: trancl_into_trancl)
    ultimately show ?thesis using 1(1) [OF False deps(2,1) 1(2) deps(3)] by blast
  qed
next
  case (3 g path visited t ts)
  then show ?case by (auto simp: bindE_Inl_iff)
qed auto

theorem visit_all_decides:
  assumes "closed_graph g" and "\<And>t. map_of g t \<noteq> None \<longleftrightarrow> t \<in> set ts"
  shows "(\<exists>vs. visit_all g [] [] ts = Inr vs) \<longleftrightarrow> acyclic (edges g)"
proof (cases "visit_all g [] [] ts")
  case (Inl e)
  with visit_error_cycle(2) [OF assms(1), of "[]" "[]" ts e] assms(2) show ?thesis
    by (auto simp: acyclic_def)
next
  case (Inr vs)
  then have "topo g vs" "set ts \<subseteq> set vs" using visit_topo(2) by fastforce+
  moreover have "x \<in> set ts" if "(x, y) \<in> (edges g)\<^sup>+" for x y
    using that assms(2) by (auto simp: edges_def dest!: tranclD)
  ultimately have "(x, x) \<notin> (edges g)\<^sup>+" for x using topo_no_cycle by blast
  with Inr show ?thesis by (auto simp: acyclic_def)
qed

section \<open>Well-formed specifications\<close>

definition wf_phase :: "string list \<Rightarrow> phase_spec \<Rightarrow> bool" where
  "wf_phase known p = (valid_id (ph_skill p) \<and> list_all valid_id (ph_additional p) \<and>
     distinct (phase_skills p) \<and> distinct (ph_tools p) \<and> list_all (\<lambda>t. t \<noteq> []) (ph_tools p) \<and>
     set (ph_tools p) \<subseteq> set known)"

definition wf_task :: "string list \<Rightarrow> task_spec \<Rightarrow> bool" where
  "wf_task known t = (valid_id (ts_id t) \<and> list_all valid_id (ts_depends_on t) \<and>
     distinct (ts_depends_on t) \<and> list_all (wf_phase known) (all_phases t))"

definition task_edges :: "task_spec list \<Rightarrow> (string \<times> string) set" where
  "task_edges ts = {(ts_id t, d) | t d. t \<in> set ts \<and> d \<in> set (ts_depends_on t)}"

definition wf_tasks :: "string list \<Rightarrow> task_spec list \<Rightarrow> bool" where
  "wf_tasks known ts = (ts \<noteq> [] \<and> list_all (wf_task known) ts \<and> distinct (map ts_id ts) \<and>
     (\<forall>t \<in> set ts. set (ts_depends_on t) \<subseteq> ts_id ` set ts) \<and> acyclic (task_edges ts))"

definition wf_spec :: "digest \<Rightarrow> string list \<Rightarrow> workflow_spec \<Rightarrow> bool" where
  "wf_spec sha known w = (ws_version w = SCHEMA_VERSION \<and> valid_id (ws_workflow_id w) \<and>
     wf_tasks known (ws_tasks w) \<and> ws_digest w = sha (dumps_compact (canonical_document w)))"

lemma is_word_not_space: "is_word c \<Longrightarrow> \<not> is_space c"
  using is_word_def is_space_def is_alpha_def is_digit_def by (auto simp: Let_def)

lemma strip_no_space: "\<forall>c \<in> set s. \<not> is_space c \<Longrightarrow> strip s = s"
proof -
  have id: "\<forall>c \<in> set t. \<not> is_space c \<Longrightarrow> dropWhile is_space t = t" for t
    by (cases t) auto
  assume "\<forall>c \<in> set s. \<not> is_space c"
  then show ?thesis by (simp add: strip_def id)
qed

lemma strip_valid_id: "valid_id s \<Longrightarrow> strip s = s"
proof (rule strip_no_space)
  assume v: "valid_id s"
  have ok: "\<not> is_space c" if "is_word c \<or> c = CHR ''.'' \<or> c = CHR ''-''" for c
    using that is_word_not_space by (auto simp: is_space_def)
  from v obtain c cs where "s = c # cs" by (cases s) (auto simp: valid_id_def)
  with v ok show "\<forall>c \<in> set s. \<not> is_space c"
    by (auto simp: valid_id_def is_word_def list_all_iff)
qed

lemma valid_id_nonempty: "valid_id s \<Longrightarrow> s \<noteq> []"
  by (simp add: valid_id_def)

lemma parse_phase_wf:
  "parse_phase label known se d = Inr p \<Longrightarrow> wf_phase known p"
  by (auto simp: parse_phase_def wf_phase_def phase_skills_def Let_def valid_id_doc_def
      list_ex_iff list_all_iff split: if_splits) metis

lemma parse_phase_document:
  assumes "wf_phase known p" and "se = None"
  shows "parse_phase label known se (phase_document p) = Inr p"
proof -
  have s: "strip (ph_skill p) = ph_skill p" "ph_skill p \<noteq> []"
    using assms strip_valid_id valid_id_nonempty by (auto simp: wf_phase_def)
  show ?thesis
    using assms s by (cases "ph_additional p = []")
      (auto simp: parse_phase_def wf_phase_def phase_document_def phase_skills_def Let_def
        valid_id_doc_def list_ex_iff list_all_iff unknown_fields_def dget_def skill_missing_def)
qed

lemma parse_task_wf:
  "parse_task i seen known se d = Inr t \<Longrightarrow> wf_task known t \<and> ts_id t \<notin> set seen"
  by (auto simp: parse_task_def wf_task_def all_phases_def Let_def valid_id_doc_def bindE_Inr_iff
      list_ex_iff list_all_iff parse_phase_wf split: if_splits)

lemma parse_tasks_wf:
  "parse_tasks i seen known se ds = Inr ts \<Longrightarrow>
     list_all (wf_task known) ts \<and> distinct (map ts_id ts) \<and> ts_id ` set ts \<inter> set seen = {} \<and>
     length ts = length ds"
proof (induction ds arbitrary: i seen ts)
  case (Cons d ds)
  then obtain t us where "parse_task i seen known se d = Inr t" "ts = t # us"
    "parse_tasks (Suc i) (ts_id t # seen) known se ds = Inr us"
    by (auto simp: bindE_Inr_iff)
  with Cons.IH [OF this(3)] parse_task_wf show ?case by fastforce
qed simp

lemma parse_task_document:
  assumes "wf_task known t" and "ts_id t \<notin> set seen"
  shows "parse_task i seen known None (task_document t) = Inr t"
proof -
  have p: "parse_phase l known None (phase_document (ts_planning t)) = Inr (ts_planning t)"
    "parse_phase l known None (phase_document (ts_execution t)) = Inr (ts_execution t)"
    "parse_phase l known None (phase_document (ts_validation t)) = Inr (ts_validation t)" for l
    using assms by (auto simp: wf_task_def all_phases_def intro!: parse_phase_document)
  show ?thesis using assms
    by (auto simp: parse_task_def task_document_def wf_task_def Let_def valid_id_doc_def
        list_ex_iff list_all_iff unknown_fields_def dget_def p)
qed

lemma parse_tasks_document:
  "list_all (wf_task known) ts \<Longrightarrow> distinct (map ts_id ts) \<Longrightarrow> ts_id ` set ts \<inter> set seen = {} \<Longrightarrow>
     parse_tasks i seen known None (map task_document ts) = Inr ts"
proof (induction ts arbitrary: i seen)
  case (Cons t ts)
  then have "parse_tasks (Suc i) (ts_id t # seen) known None (map task_document ts) = Inr ts"
    by (intro Cons.IH) auto
  with Cons.prems show ?case by (auto simp: parse_task_document)
qed simp

lemma map_of_dependency_graph:
  assumes "distinct (map ts_id ts)"
  shows "map_of (dependency_graph ts) k = Some deps \<longleftrightarrow> (\<exists>t \<in> set ts. ts_id t = k \<and> ts_depends_on t = deps)"
proof -
  have "distinct (map fst (dependency_graph ts))"
    using assms by (simp add: dependency_graph_def o_def flip: rev_map)
  then show ?thesis by (auto simp: dependency_graph_def)
qed

lemma edges_dependency_graph:
  "distinct (map ts_id ts) \<Longrightarrow> edges (dependency_graph ts) = task_edges ts"
  by (auto simp: edges_def task_edges_def map_of_dependency_graph)

text \<open>On distinct task ids whose dependencies are declared, the check accepts exactly the acyclic graphs.\<close>

lemma cycle_check_iff:
  assumes d: "distinct (map ts_id ts)" and c: "\<forall>t \<in> set ts. set (ts_depends_on t) \<subseteq> ts_id ` set ts"
  shows "(\<exists>vs. visit_all (dependency_graph ts) [] [] (map ts_id ts) = Inr vs) \<longleftrightarrow> acyclic (task_edges ts)"
proof -
  let ?g = "dependency_graph ts"
  have dom: "map_of ?g k \<noteq> None \<longleftrightarrow> k \<in> set (map ts_id ts)" for k
    using map_of_dependency_graph [OF d, of k] by auto
  moreover have "closed_graph ?g"
    using c dom map_of_dependency_graph [OF d] by (fastforce simp: closed_graph_def)
  ultimately show ?thesis using visit_all_decides edges_dependency_graph [OF d] by metis
qed

lemma parse_workflow_spec_wf:
  assumes "parse_workflow_spec sha known se d = Inr w"
  shows "wf_spec sha known w"
proof -
  from assms obtain ts vs where ts: "parse_tasks 0 [] known se (elems (dget (items d) ''tasks'')) = Inr ts"
    and ne: "elems (dget (items d) ''tasks'') \<noteq> []"
    and known: "\<forall>t \<in> set ts. \<forall>d \<in> set (ts_depends_on t). d \<in> ts_id ` set ts"
    and vs: "visit_all (dependency_graph ts) [] [] (map ts_id ts) = Inr vs"
    and id: "valid_id_doc (dget (items d) ''workflow_id'')"
    and w: "w = \<lparr>ws_version = SCHEMA_VERSION, ws_workflow_id = str_of (dget (items d) ''workflow_id''),
      ws_tasks = ts, ws_digest = sha (dumps_compact
        (document_of SCHEMA_VERSION (str_of (dget (items d) ''workflow_id'')) ts))\<rparr>"
    by (auto simp: parse_workflow_spec_def Let_def bindE_Inr_iff list_ex_iff split: if_splits)
  from known have deps: "\<forall>t \<in> set ts. set (ts_depends_on t) \<subseteq> ts_id ` set ts" by blast
  have wf: "list_all (wf_task known) ts" "distinct (map ts_id ts)" "length ts = length (elems (dget (items d) ''tasks''))"
    using parse_tasks_wf [OF ts] by auto
  moreover have "ts \<noteq> []" using wf(3) ne by auto
  moreover have "acyclic (task_edges ts)" using cycle_check_iff [OF wf(2) deps] vs by blast
  ultimately show ?thesis
    using w id deps by (simp add: wf_spec_def wf_tasks_def canonical_document_def valid_id_doc_def)
qed

lemma parse_canonical_document:
  assumes "wf_spec sha known w"
  shows "parse_workflow_spec sha known None (canonical_document w) = Inr w"
proof -
  let ?ts = "ws_tasks w"
  from assms have wf: "?ts \<noteq> []" "list_all (wf_task known) ?ts" "distinct (map ts_id ?ts)"
    "\<forall>t \<in> set ?ts. set (ts_depends_on t) \<subseteq> ts_id ` set ?ts" "acyclic (task_edges ?ts)"
    and w: "ws_version w = SCHEMA_VERSION" "valid_id (ws_workflow_id w)"
    "ws_digest w = sha (dumps_compact (canonical_document w))"
    by (auto simp: wf_spec_def wf_tasks_def)
  obtain vs where vs: "visit_all (dependency_graph ?ts) [] [] (map ts_id ?ts) = Inr vs"
    using cycle_check_iff [OF wf(3,4)] wf(5) by blast
  have ps: "parse_tasks 0 [] known None (map task_document ?ts) = Inr ?ts"
    using wf by (intro parse_tasks_document) auto
  have "\<not> list_ex (\<lambda>t. list_ex (\<lambda>d. d \<notin> ts_id ` set ?ts) (ts_depends_on t)) ?ts"
    using wf(4) by (auto simp: list_ex_iff)
  with vs ps wf(1) w show ?thesis
    by (simp add: parse_workflow_spec_def canonical_document_def document_of_def unknown_fields_def
        dget_def valid_id_doc_def Let_def)
qed

section \<open>The revision workflow exists and stays inside the initial one\<close>

text \<open>What is documented of \<open>hexdigest\<close>: its characters are hexadecimal digits.\<close>

definition hex_digest :: "digest \<Rightarrow> bool" where
  "hex_digest sha = (\<forall>s. list_all is_word (sha s))"

definition revision_phase :: "string list \<Rightarrow> string list \<Rightarrow> phase_spec" where
  "revision_phase skills tools = \<lparr>ph_skill = hd skills, ph_tools = tools, ph_additional = tl skills\<rparr>"

definition revision_task :: "workflow_spec \<Rightarrow> task_spec" where
  "revision_task w = \<lparr>ts_id = ''revision'', ts_depends_on = [],
     ts_planning = revision_phase (union_skills ts_planning w) (revision_planning_tools w),
     ts_execution = revision_phase (union_skills ts_execution w) (revision_execution_tools w),
     ts_validation = revision_phase (union_skills ts_validation w) (revision_validation_tools w)\<rparr>"

lemma parse_revision_phase:
  assumes "wf_phase known (revision_phase skills tools)"
  shows "parse_phase label known None (revision_phase_document skills tools) =
    Inr (revision_phase skills tools)"
proof -
  have s: "strip (hd skills) = hd skills" "hd skills \<noteq> []"
    using assms strip_valid_id valid_id_nonempty by (auto simp: wf_phase_def revision_phase_def)
  show ?thesis using assms s
    by (auto simp: parse_phase_def wf_phase_def revision_phase_document_def revision_phase_def
        phase_skills_def Let_def valid_id_doc_def list_ex_iff list_all_iff unknown_fields_def
        dget_def skill_missing_def)
qed

lemma union_skills_nonempty: "ws_tasks w \<noteq> [] \<Longrightarrow> union_skills select w \<noteq> []"
  by (cases "ws_tasks w") (auto simp: union_skills_def phase_skills_def)

lemma set_union_skills: "set (union_skills select w) = (\<Union>t \<in> set (ws_tasks w). set (phase_skills (select t)))"
  by (simp add: union_skills_def)

lemma set_all_tools:
  "set (all_tools w) = (\<Union>t \<in> set (ws_tasks w). \<Union>p \<in> set (all_phases t). set (ph_tools p))"
  by (auto simp: all_tools_def)

lemma wf_spec_phase:
  "wf_spec sha known w \<Longrightarrow> t \<in> set (ws_tasks w) \<Longrightarrow> p \<in> set (all_phases t) \<Longrightarrow> wf_phase known p"
  by (auto simp: wf_spec_def wf_tasks_def wf_task_def list_all_iff)

lemma wf_revision_phase:
  assumes w: "wf_spec sha known w" and sel: "\<And>t. select t \<in> set (all_phases t)"
    and tools: "distinct tools" "set tools \<subseteq> set (all_tools w)"
  shows "wf_phase (all_tools w) (revision_phase (union_skills select w) tools)"
proof -
  have phase: "wf_phase known p" if "t \<in> set (ws_tasks w)" "p \<in> set (all_phases t)" for t p
    using w that by (rule wf_spec_phase)
  have "ws_tasks w \<noteq> []" using w by (simp add: wf_spec_def wf_tasks_def)
  then obtain s ss where u: "union_skills select w = s # ss"
    using union_skills_nonempty by (metis neq_Nil_conv)
  have "valid_id k" if "k \<in> set (union_skills select w)" for k
    using that phase sel by (fastforce simp: set_union_skills phase_skills_def wf_phase_def list_all_iff)
  moreover have "k \<noteq> []" if "k \<in> set tools" for k
    using that tools phase by (fastforce simp: set_all_tools wf_phase_def list_all_iff)
  moreover have "distinct (union_skills select w)" by (simp add: union_skills_def)
  ultimately show ?thesis using tools
    by (auto simp: wf_phase_def revision_phase_def phase_skills_def u list_all_iff)
qed

lemma trusted_research_tools: "set (trusted_research w) = set RESEARCH \<inter> set (all_tools w)"
  by (auto simp: trusted_research_def)

lemma revision_tools_subset:
  "set (revision_planning_tools w) \<subseteq> set (all_tools w)"
  "set (revision_execution_tools w) \<subseteq> set (all_tools w)"
  "set (revision_validation_tools w) \<subseteq> set (all_tools w)"
  by (auto simp: revision_planning_tools_def revision_execution_tools_def
      revision_validation_tools_def trusted_research_tools set_all_tools all_phases_def)

lemma valid_revision_id:
  assumes "hex_digest sha" and "wf_spec sha known w"
  shows "valid_id (''revision-'' @ take 16 (ws_digest w))"
proof -
  have "list_all is_word (take 16 (ws_digest w))"
    using assms by (auto simp: hex_digest_def wf_spec_def list_all_iff dest: in_set_takeD)
  then have "list_all (\<lambda>c. is_word c \<or> c = CHR ''.'' \<or> c = CHR ''-'') (take 16 (ws_digest w))"
    by (auto simp: list_all_iff)
  then show ?thesis
    by (auto simp: valid_id_def is_alpha_def is_word_def min_def)
qed

lemma derive_revision_spec_eq:
  assumes hex: "hex_digest sha" and w: "wf_spec sha known w"
  shows "derive_revision_spec sha w = Inr \<lparr>ws_version = SCHEMA_VERSION,
      ws_workflow_id = ''revision-'' @ take 16 (ws_digest w), ws_tasks = [revision_task w],
      ws_digest = sha (dumps_compact (document_of SCHEMA_VERSION
        (''revision-'' @ take 16 (ws_digest w)) [revision_task w]))\<rparr>"
proof -
  note wf = wf_revision_phase [OF w]
  have d: "distinct (revision_planning_tools w)" "distinct (revision_execution_tools w)"
    "distinct (revision_validation_tools w)"
    by (simp_all add: revision_planning_tools_def revision_execution_tools_def
        revision_validation_tools_def)
  have ph: "parse_phase l (all_tools w) None
        (revision_phase_document (union_skills ts_planning w) (revision_planning_tools w)) =
      Inr (ts_planning (revision_task w))"
    "parse_phase l (all_tools w) None
        (revision_phase_document (union_skills ts_execution w) (revision_execution_tools w)) =
      Inr (ts_execution (revision_task w))"
    "parse_phase l (all_tools w) None
        (revision_phase_document (union_skills ts_validation w) (revision_validation_tools w)) =
      Inr (ts_validation (revision_task w))" for l
    using d revision_tools_subset [of w]
    by (simp_all add: revision_task_def parse_revision_phase wf all_phases_def)
  have ne: "union_skills s w \<noteq> []" for s
    using w union_skills_nonempty by (simp add: wf_spec_def wf_tasks_def)
  have id: "valid_id ''revision''" by (simp add: valid_id_def is_alpha_def is_word_def)
  show ?thesis using valid_revision_id [OF hex w] ne ph id
    by (simp add: derive_revision_spec_def parse_workflow_spec_def parse_task_def unknown_fields_def
        dget_def valid_id_doc_def Let_def dependency_graph_def visit.simps revision_task_def)
qed

section \<open>Properties of the parser\<close>

lemma parse_phase_skills:
  "parse_phase label known (Some f) d = Inr p \<Longrightarrow> s \<in> set (phase_skills p) \<Longrightarrow> f s"
  by (auto simp: parse_phase_def phase_skills_def Let_def skill_missing_def list_ex_iff split: if_splits)

lemma parse_tasks_skills:
  "parse_tasks i seen known (Some f) ds = Inr ts \<Longrightarrow> t \<in> set ts \<Longrightarrow> p \<in> set (all_phases t) \<Longrightarrow>
     s \<in> set (phase_skills p) \<Longrightarrow> f s"
proof (induction ds arbitrary: i seen ts)
  case (Cons d ds)
  then obtain u us where u: "parse_task i seen known (Some f) d = Inr u" "ts = u # us"
    "parse_tasks (Suc i) (ts_id u # seen) known (Some f) ds = Inr us"
    by (auto simp: bindE_Inr_iff)
  show ?case
  proof (cases "t = u")
    case True
    from u(1) obtain l1 l2 l3 d1 d2 d3 where
      "parse_phase l1 known (Some f) d1 = Inr (ts_planning u)"
      "parse_phase l2 known (Some f) d2 = Inr (ts_execution u)"
      "parse_phase l3 known (Some f) d3 = Inr (ts_validation u)"
      by (auto simp: parse_task_def Let_def bindE_Inr_iff split: if_splits)
    with Cons.prems True show ?thesis by (auto simp: all_phases_def dest: parse_phase_skills)
  next
    case False
    with Cons.prems u Cons.IH show ?thesis by auto
  qed
qed simp

lemma parse_workflow_tasks:
  assumes "parse_workflow_spec sha known se d = Inr w"
  shows "parse_tasks 0 [] known se (elems (dget (items d) ''tasks'')) = Inr (ws_tasks w)"
  using assms by (auto simp: parse_workflow_spec_def Let_def bindE_Inr_iff split: if_splits)

text \<open>
  C28. A document that \<open>parse_workflow_spec\<close> accepts is a well-formed workflow: version 1, valid
  ids, at least one task, distinct task ids, declared and acyclic dependencies, known and
  distinct tools, distinct skills, the digest of its canonical form; and when the caller
  supplies a skill catalogue every skill of every phase is in it.
\<close>

theorem parse_workflow_spec_sound:
  assumes "parse_workflow_spec sha known (Some skill_exists) d = Inr w"
  shows "wf_spec sha known w \<and>
    (\<forall>t \<in> set (ws_tasks w). \<forall>p \<in> set (all_phases t). \<forall>s \<in> set (phase_skills p). skill_exists s)"
  using parse_workflow_spec_wf [OF assms] parse_tasks_skills [OF parse_workflow_tasks [OF assms]] by blast

text \<open>A small workflow for the concrete instances of the properties.\<close>

definition example_workflow :: workflow_spec where
  "example_workflow = \<lparr>ws_version = 1, ws_workflow_id = ''demo'',
     ws_tasks = [\<lparr>ts_id = ''build'', ts_depends_on = [],
       ts_planning = \<lparr>ph_skill = ''plan'', ph_tools = [''ls''], ph_additional = []\<rparr>,
       ts_execution = \<lparr>ph_skill = ''do'', ph_tools = [''write_file''], ph_additional = [''style'']\<rparr>,
       ts_validation = \<lparr>ph_skill = ''check'', ph_tools = [''run_validation''], ph_additional = []\<rparr>\<rparr>],
     ws_digest = ''ab''\<rparr>"

abbreviation example_sha :: digest where
  "example_sha \<equiv> \<lambda>s. ''ab''"

lemma example_parses:
  "parse_workflow_spec example_sha BUILTIN_WORKFLOW_TOOLS se0 (canonical_document example_workflow) =
    Inr example_workflow" if "se0 = Some (\<lambda>s. True) \<or> se0 = None" for se0
proof -
  have "parse_workflow_spec example_sha BUILTIN_WORKFLOW_TOOLS None (canonical_document example_workflow) =
      Inr example_workflow"
    "parse_workflow_spec example_sha BUILTIN_WORKFLOW_TOOLS (Some (\<lambda>s. True)) (canonical_document example_workflow) =
      Inr example_workflow"
    by code_simp+
  with that show ?thesis by auto
qed

theorem parse_workflow_spec_sound_witness:
  "wf_spec example_sha BUILTIN_WORKFLOW_TOOLS example_workflow"
  using parse_workflow_spec_sound [of example_sha BUILTIN_WORKFLOW_TOOLS "\<lambda>s. True"
      "canonical_document example_workflow" example_workflow] example_parses by blast

text \<open>
  C20. On task lists that pass the local checks and whose dependencies are declared, acceptance
  is decided by the cycle check alone, and that check is exact: the document is accepted
  precisely when the dependency relation has no cycle.
\<close>

theorem parse_accepts_iff_acyclic:
  assumes "valid_id wid" and "ts \<noteq> []" and "list_all (wf_task known) ts" and "distinct (map ts_id ts)"
    and "\<forall>t \<in> set ts. set (ts_depends_on t) \<subseteq> ts_id ` set ts"
  shows "(\<exists>w. parse_workflow_spec sha known None (document_of 1 wid ts) = Inr w) \<longleftrightarrow> acyclic (task_edges ts)"
proof
  assume "\<exists>w. parse_workflow_spec sha known None (document_of 1 wid ts) = Inr w"
  then obtain w where w: "parse_workflow_spec sha known None (document_of 1 wid ts) = Inr w" by blast
  have "parse_tasks 0 [] known None (map task_document ts) = Inr ts"
    using assms by (intro parse_tasks_document) auto
  with parse_workflow_tasks [OF w] have "ws_tasks w = ts" by (simp add: document_of_def dget_def)
  with parse_workflow_spec_wf [OF w] show "acyclic (task_edges ts)"
    by (simp add: wf_spec_def wf_tasks_def)
next
  assume "acyclic (task_edges ts)"
  with assms have "wf_spec sha known \<lparr>ws_version = 1, ws_workflow_id = wid, ws_tasks = ts,
      ws_digest = sha (dumps_compact (document_of 1 wid ts))\<rparr>"
    by (simp add: wf_spec_def wf_tasks_def canonical_document_def SCHEMA_VERSION_def)
  then show "\<exists>w. parse_workflow_spec sha known None (document_of 1 wid ts) = Inr w"
    using parse_canonical_document by (force simp: canonical_document_def)
qed

theorem parse_accepts_iff_acyclic_witness:
  "\<not> (\<exists>w. parse_workflow_spec example_sha BUILTIN_WORKFLOW_TOOLS None
      (document_of 1 ''demo'' (map (\<lambda>t. t\<lparr>ts_depends_on := [''build'']\<rparr>) (ws_tasks example_workflow))) = Inr w)"
proof -
  let ?ts = "map (\<lambda>t. t\<lparr>ts_depends_on := [''build'']\<rparr>) (ws_tasks example_workflow)"
  have "(''build'', ''build'') \<in> task_edges ?ts"
    by (simp add: task_edges_def example_workflow_def)
  then have "\<not> acyclic (task_edges ?ts)" by (auto simp: acyclic_def)
  moreover have "valid_id ''demo''" by code_simp
  moreover have "?ts \<noteq> []" "distinct (map ts_id ?ts)"
    "\<forall>t \<in> set ?ts. set (ts_depends_on t) \<subseteq> ts_id ` set ?ts"
    by (simp_all add: example_workflow_def)
  moreover have "list_all (wf_task BUILTIN_WORKFLOW_TOOLS) ?ts" by code_simp
  ultimately show ?thesis
    using parse_accepts_iff_acyclic [of "''demo''" ?ts BUILTIN_WORKFLOW_TOOLS example_sha] by blast
qed

lemma wf_spec_tools:
  assumes "wf_spec sha known w" and "set (all_tools w) \<subseteq> set known'"
  shows "wf_spec sha known' w"
  using assms by (fastforce simp: wf_spec_def wf_tasks_def wf_task_def wf_phase_def list_all_iff set_all_tools)

text \<open>
  C21. The canonical document of an accepted workflow parses back to exactly that workflow, its
  digest included, under any tool list that knows its tools.
\<close>

theorem canonical_document_roundtrip:
  assumes "parse_workflow_spec sha known se d = Inr w" and "set (all_tools w) \<subseteq> set known'"
  shows "parse_workflow_spec sha known' None (canonical_document w) = Inr w"
  using assms parse_canonical_document wf_spec_tools parse_workflow_spec_wf by blast

theorem canonical_document_roundtrip_witness:
  "parse_workflow_spec example_sha [''ls'', ''write_file'', ''run_validation''] None
     (canonical_document example_workflow) = Inr example_workflow"
  by (rule canonical_document_roundtrip [OF example_parses [of None]])
     (simp_all add: example_workflow_def all_tools_def all_phases_def)

text \<open>
  C36. Every accepted initial workflow has a revision workflow: one task \<open>revision\<close> without
  dependencies, whose phases carry exactly the skills of the corresponding initial phases,
  whose tools are tools of the initial workflow, and whose planning phase holds none of the
  mutating tools.
\<close>

theorem revision_workflow_exists:
  assumes "hex_digest sha" and "parse_workflow_spec sha known se d = Inr w"
  shows "\<exists>r t. derive_revision_spec sha w = Inr r \<and> wf_spec sha (all_tools w) r \<and>
    ws_tasks r = [t] \<and> ts_id t = ''revision'' \<and> ts_depends_on t = [] \<and>
    set (ph_tools (ts_planning t)) \<inter> {''write_file'', ''edit_file'', ''execute''} = {} \<and>
    (\<forall>select \<in> {ts_planning, ts_execution, ts_validation}.
       set (phase_skills (select t)) = (\<Union>u \<in> set (ws_tasks w). set (phase_skills (select u))) \<and>
       set (ph_tools (select t)) \<subseteq> set (all_tools w))"
proof -
  have wf: "wf_spec sha known w" using assms(2) by (rule parse_workflow_spec_wf)
  note d = derive_revision_spec_eq [OF assms(1) wf]
  have ne: "union_skills s w \<noteq> []" for s
    using wf union_skills_nonempty by (simp add: wf_spec_def wf_tasks_def)
  have skills: "set (phase_skills (revision_phase (union_skills s w) tools)) =
      (\<Union>u \<in> set (ws_tasks w). set (phase_skills (s u)))" for s tools
    using ne [of s] set_union_skills [of s w] by (cases "union_skills s w")
      (auto simp: revision_phase_def phase_skills_def)
  have "wf_spec sha (all_tools w) (projr (derive_revision_spec sha w))"
    using d by (simp add: derive_revision_spec_def Let_def split: if_splits) (metis parse_workflow_spec_wf sum.sel(2))
  moreover have "set (revision_planning_tools w) \<inter> {''write_file'', ''edit_file'', ''execute''} = {}"
    by (auto simp: revision_planning_tools_def trusted_research_tools RESEARCH_def)
  ultimately show ?thesis using d revision_tools_subset [of w] skills
    by (simp add: revision_task_def) (simp add: revision_phase_def)
qed

theorem revision_workflow_exists_witness:
  "\<exists>r. derive_revision_spec example_sha example_workflow = Inr r"
  using revision_workflow_exists [of example_sha, OF _ example_parses [of None]]
  by (auto simp: hex_digest_def is_word_def is_alpha_def)

text \<open>The task of the bundled workflow as a record.\<close>

definition default_task :: task_spec where
  "default_task = \<lparr>ts_id = ''implementation'', ts_depends_on = [],
     ts_planning = \<lparr>ph_skill = ''implementation-planning'',
       ph_tools = [''ls'', ''read_file'', ''glob'', ''grep'', ''search_issue_memory''], ph_additional = []\<rparr>,
     ts_execution = \<lparr>ph_skill = ''implementation-execution'',
       ph_tools = [''ls'', ''read_file'', ''glob'', ''grep'', ''write_file'', ''edit_file'', ''execute'',
         ''request_clarification'', ''propose_repo_memory''], ph_additional = []\<rparr>,
     ts_validation = \<lparr>ph_skill = ''implementation-validation'',
       ph_tools = [''ls'', ''read_file'', ''glob'', ''grep'', ''run_validation''], ph_additional = []\<rparr>\<rparr>"

text \<open>C37. The bundled default workflow is accepted, as one task \<open>implementation\<close> with read-only planning.\<close>

theorem default_workflow_accepted:
  "DEFAULT_WORKFLOW sha = Inr \<lparr>ws_version = 1, ws_workflow_id = ''default'', ws_tasks = [default_task],
     ws_digest = sha (dumps_compact default_document)\<rparr>"
proof -
  let ?w = "\<lparr>ws_version = 1, ws_workflow_id = ''default'', ws_tasks = [default_task],
     ws_digest = sha (dumps_compact default_document)\<rparr>"
  have d: "default_document = canonical_document ?w"
    by (simp add: default_document_def canonical_document_def document_of_def task_document_def
        phase_document_def default_task_def)
  have "wf_task BUILTIN_WORKFLOW_TOOLS default_task" "valid_id ''default''" by code_simp+
  moreover have "task_edges [default_task] = {}" by (simp add: task_edges_def default_task_def)
  moreover have "set (ts_depends_on default_task) = {}" by (simp add: default_task_def)
  ultimately have "wf_spec sha BUILTIN_WORKFLOW_TOOLS ?w"
    by (simp add: wf_spec_def wf_tasks_def SCHEMA_VERSION_def acyclic_def flip: d)
  from parse_canonical_document [OF this] d show ?thesis by (simp add: DEFAULT_WORKFLOW_def)
qed

end
