(* ===== verification/Store.thy ===== *)
theory Store
  imports Github_Models Workflow_Spec "HOL-Library.Product_Lexorder"
begin

text \<open>
  The part of the SQLite store (\<open>github_store.py\<close>) that the declarative workflow reads and
  writes: one record type per table, the database as a record of row lists in insertion
  order, and the inserts with the PRIMARY KEY, UNIQUE, NOT NULL and FOREIGN KEY constraints of
  the schema (foreign keys are switched on). A JSON column holds the decoded value; columns
  that no modelled operation reads (creation and update stamps, comment ids of reviews) are
  left out.
\<close>

section \<open>Column types\<close>

datatype task_phase =
    PENDING | PLANNING | WAITING_FOR_PLAN_APPROVAL | EXECUTING | VALIDATING
  | WAITING_FOR_RESULT_APPROVAL | WAITING_FOR_INPUT | DONE | FAILED

datatype cycle_status = C_ACTIVE | C_AWAITING_PUBLICATION | C_PUBLISHED | C_FAILED

datatype cycle_kind = INITIAL | REVISION

datatype verdict = ACCEPT | NEEDS_FIXES | REPLAN | BLOCKED

datatype plan_status = POSTED | APPROVED | SUPERSEDED

datatype approval_mode = BY_HUMAN | BY_AUTO

datatype initial_state = NOT_STARTED | L_ACTIVE | COMPLETE | L_PUBLISHED | LEGACY_BLOCKED

datatype feedback_kind = PLAN_FEEDBACK | RESULT_FEEDBACK

datatype review_status = REVIEWING | R_REPLAN | DEFERRED_WAITING | CLOSED

datatype input_status = I_PENDING | BATCHED | CONSUMED

datatype outbox_status = O_PENDING | DELIVERED | AMBIGUOUS

text \<open>The entries of \<open>repair_feedback_json\<close>.\<close>

datatype repair_entry =
    Queued_Revision_Inputs "string list" task_phase
  | Validation_Feedback string "string list" verdict
  | Result_Feedback_Entry string string string string string string string

section \<open>Rows\<close>

record thread_row =
  th_id :: string
  th_repo_id :: int
  th_repo_full_name :: string
  th_issue_number :: int
  th_mode :: interaction_mode
  th_config :: "string option"

record lifecycle_row =
  li_thread :: string
  li_state :: initial_state
  li_root_event :: string
  li_cycle :: "string option"
  li_digest :: "string option"

record cycle_row =
  cy_id :: string
  cy_thread :: string
  cy_cycle_id :: nat
  cy_root_input :: string
  cy_workflow_id :: string
  cy_version :: int
  cy_digest :: string
  cy_spec :: doc
  cy_spec_ref :: "string option"
  cy_kind :: cycle_kind
  cy_revision_sequence :: "nat option"
  cy_status :: cycle_status
  cy_active :: "string option"
  cy_failure :: "string option"

record task_row =
  tr_id :: string
  tr_cycle :: string
  tr_thread :: string
  tr_cycle_id :: nat
  tr_workflow_id :: string
  tr_task :: string
  tr_index :: nat
  tr_deps :: "string list"
  tr_status :: task_phase
  tr_phase :: task_phase
  tr_plan :: "string option"
  tr_attempt :: nat
  tr_round :: nat
  tr_feedback :: "repair_entry list"
  tr_failure :: "string option"
  tr_waiting :: "task_phase option"
  tr_clarification :: "string option"
  tr_updated_at :: string

record plan_row =
  pl_id :: string
  pl_task_run :: string
  pl_cycle :: string
  pl_task :: string
  pl_version :: nat
  pl_text :: string
  pl_digest :: string
  pl_status :: plan_status
  pl_posted_at :: string
  pl_comment :: int
  pl_occurrence :: string
  pl_approved_at :: "string option"
  pl_approved_by :: "string option"
  pl_approval_event :: "string option"

record permit_row =
  pm_id :: string
  pm_task_run :: string
  pm_cycle :: string
  pm_plan :: string
  pm_version :: nat
  pm_digest :: string
  pm_event :: string
  pm_by :: string
  pm_mode :: approval_mode
  pm_created_at :: string
  pm_invalidated :: "string option"

text \<open>The only value \<open>status\<close> ever receives is \<open>SUCCEEDED\<close>; the flag says whether it is that.\<close>

record execution_row =
  ex_id :: string
  ex_task_run :: string
  ex_cycle :: string
  ex_plan :: string
  ex_permit :: string
  ex_attempt :: nat
  ex_succeeded :: bool
  ex_summary :: string
  ex_evidence :: doc
  ex_completed_at :: string

record validation_row =
  va_id :: string
  va_task_run :: string
  va_cycle :: string
  va_plan :: string
  va_attempt :: nat
  va_round :: nat
  va_verdict :: verdict
  va_summary :: string
  va_findings :: "doc list"
  va_repairs :: "string list"
  va_evidence :: doc

record result_row =
  re_id :: string
  re_task_run :: string
  re_cycle :: string
  re_plan :: string
  re_execution :: string
  re_validation :: string
  re_occurrence :: string
  re_posted_at :: string
  re_comment :: int
  re_created_at :: string

record result_approval_row =
  ra_id :: string
  ra_result :: string
  ra_task_run :: string
  ra_cycle :: string
  ra_plan :: string
  ra_execution :: string
  ra_validation :: string
  ra_occurrence :: string
  ra_mode :: approval_mode
  ra_by :: string
  ra_event :: "string option"
  ra_approved_at :: string
  ra_invalidated :: "string option"

record revision_input_row =
  ri_id :: string
  ri_event :: string
  ri_thread :: string
  ri_residual :: "string option"
  ri_reason :: string
  ri_status :: input_status
  ri_queued_at :: string
  ri_cycle :: "string option"

record feedback_review_row =
  fr_id :: string
  fr_event :: string
  fr_thread :: string
  fr_cycle :: string
  fr_task_run :: string
  fr_kind :: feedback_kind
  fr_occurrence :: string
  fr_text :: string
  fr_status :: review_status
  fr_created_at :: string

record outbox_row =
  ob_id :: string
  ob_event :: string
  ob_thread :: string
  ob_kind :: string
  ob_marker :: string
  ob_body :: string
  ob_status :: outbox_status
  ob_comment :: "int option"
  ob_error :: "string option"
  ob_created_at :: string
  ob_next_attempt_at :: string
  ob_delivered_at :: "string option"

record consumption_row =
  co_event :: string
  co_thread :: string
  co_cycle_id :: nat
  co_status :: string
  co_claimed_at :: string
  co_consumed_at :: "string option"
  co_occurrence :: "string option"

record deferred_row =
  df_id :: string
  df_event :: string
  df_thread :: string
  df_queued :: bool
  df_residual :: "string option"
  df_queued_at :: string
  df_consumed_cycle :: "nat option"

datatype publication_status =
    P_PENDING | COMMITTED | PUSHED | PR_CREATED | COMMENTED | COMPLETED | NO_CHANGES | P_FAILED

record publication_row =
  pb_id :: string
  pb_event :: string
  pb_thread :: string
  pb_cycle_id :: nat
  pb_root_input :: string
  pb_repo_id :: int
  pb_repo_full_name :: string
  pb_issue_number :: int
  pb_status :: publication_status
  pb_branch :: string
  pb_local_sha :: "string option"
  pb_remote_sha :: "string option"
  pb_pr_number :: "int option"
  pb_pr_url :: "string option"
  pb_comment :: "int option"
  pb_error :: "string option"

text \<open>
  The learning and the resolution job of a finalized lifecycle: what both tables have, and the
  columns of \<open>repo_memory_learning\<close> and \<open>issue_resolution_memory\<close>. The texts of a resolved case
  are kept together.
\<close>

datatype job_status = J_PENDING | J_UPDATED | J_NO_UPDATE | J_FAILED | J_COMPLETED | J_NO_CASE

record job_row =
  jb_id :: string
  jb_event :: string
  jb_thread :: string
  jb_cycle_id :: nat
  jb_root_input :: string
  jb_repo_id :: int
  jb_status :: job_status
  jb_attempts :: nat
  jb_error :: "string option"
  jb_created_at :: string
  jb_updated_at :: string

record learning_row = job_row +
  le_accepted :: nat
  le_rejected :: nat
  le_proposal :: string

record resolved_case =
  rc_task :: string
  rc_symptom :: string
  rc_cause :: string
  rc_fix :: string
  rc_components :: "string list"
  rc_changed :: "string list"
  rc_validation :: string
  rc_terms :: "string list"
  rc_limitations :: string

record resolution_row = job_row +
  rs_issue :: int
  rs_title :: string
  rs_description :: string
  rs_case :: resolved_case
  rs_plan :: "string option"
  rs_publication :: "string option"
  rs_commit :: "string option"
  rs_pr_number :: "int option"
  rs_pr_url :: "string option"

datatype candidate_status = PROPOSED | C_ACCEPTED | C_REJECTED

record candidate_row =
  mc_id :: string
  mc_repo_id :: int
  mc_thread :: string
  mc_cycle_id :: nat
  mc_root_input :: string
  mc_event :: string
  mc_category :: string
  mc_fact :: string
  mc_reason :: string
  mc_path :: string
  mc_start :: int
  mc_end :: int
  mc_status :: candidate_status
  mc_created_at :: string
  mc_updated_at :: string

record workspace_row =
  wk_thread :: string
  wk_repo_id :: int
  wk_repo_full_name :: string
  wk_issue_number :: int
  wk_source :: string
  wk_path :: string
  wk_branch :: string
  wk_base :: string

section \<open>Rows of the ingestion and of the repository configuration\<close>

record repository_row =
  rp_id :: int
  rp_full_name :: string
  rp_observed_at :: string

record cursor_row =
  cu_repo :: int
  cu_stream :: string
  cu_since :: string
  cu_etag :: "string option"
  cu_polled_at :: string

record observation_row =
  oc_repo :: int
  oc_source :: string
  oc_issue :: int
  oc_hash :: string
  oc_body :: string
  oc_observed_at :: string

record metadata_row =
  im_repo :: int
  im_issue :: int
  im_title :: string
  im_body :: string
  im_observed_at :: string

record mapping_row =
  mp_repo :: int
  mp_number :: int
  mp_thread :: string

datatype execution_status = RUNNING | SUCCEEDED | E_FAILED | INTERRUPTED | RETRY_PENDING | SKIPPED

record event_execution_row =
  ee_event :: string
  ee_thread :: string
  ee_status :: execution_status
  ee_attempts :: nat
  ee_started_at :: string
  ee_completed_at :: "string option"
  ee_response :: "string option"
  ee_error :: "string option"
  ee_workspace :: "string option"

record generation_row =
  gn_id :: string
  gn_repo :: int
  gn_number :: nat
  gn_digest :: string
  gn_workflow_id :: string
  gn_version :: int
  gn_manifest :: doc
  gn_created_at :: string

record config_file_row =
  cf_generation :: string
  cf_path :: string
  cf_content :: string
  cf_digest :: string

record config_current_row =
  cc_repo :: int
  cc_generation :: string

section \<open>The database\<close>

record db =
  threads :: "thread_row list"
  lifecycles :: "lifecycle_row list"
  events :: "source_event list"
  cycles :: "cycle_row list"
  tasks :: "task_row list"
  plans :: "plan_row list"
  permits :: "permit_row list"
  executions :: "execution_row list"
  validations :: "validation_row list"
  results :: "result_row list"
  approvals :: "result_approval_row list"
  revision_inputs :: "revision_input_row list"
  reviews :: "feedback_review_row list"
  outbox :: "outbox_row list"
  consumptions :: "consumption_row list"
  deferred :: "deferred_row list"
  publications :: "publication_row list"
  learning_jobs :: "learning_row list"
  resolution_jobs :: "resolution_row list"
  workspaces :: "workspace_row list"
  legacy_states :: "string list"
  memory_candidates :: "candidate_row list"
  repositories :: "repository_row list"
  poll_cursors :: "cursor_row list"
  issue_contents :: "observation_row list"
  issue_metadata :: "metadata_row list"
  pr_mappings :: "mapping_row list"
  event_executions :: "event_execution_row list"
  config_generations :: "generation_row list"
  config_files :: "config_file_row list"
  config_current :: "config_current_row list"

text \<open>
  \<open>legacy_states\<close> the threads with a row in \<open>issue_workflow_state\<close>, the state of the earlier
  workflow.
\<close>

interpretation cycle_table: row_table cycles "\<lambda>xs d. d\<lparr>cycles := xs\<rparr>" cy_id
  by unfold_locales simp_all

interpretation task_table: row_table tasks "\<lambda>xs d. d\<lparr>tasks := xs\<rparr>" tr_id
  by unfold_locales simp_all

interpretation plan_table: row_table plans "\<lambda>xs d. d\<lparr>plans := xs\<rparr>" pl_id
  by unfold_locales simp_all

interpretation permit_table: row_table permits "\<lambda>xs d. d\<lparr>permits := xs\<rparr>" pm_id
  by unfold_locales simp_all

interpretation consumption_table: row_table consumptions "\<lambda>xs d. d\<lparr>consumptions := xs\<rparr>" co_event
  by unfold_locales simp_all

interpretation revision_table: row_table revision_inputs "\<lambda>xs d. d\<lparr>revision_inputs := xs\<rparr>" ri_id
  by unfold_locales simp_all

text \<open>\<open>SELECT * FROM table WHERE primary_key=?\<close>\<close>

abbreviation thread_of :: "db \<Rightarrow> string \<Rightarrow> thread_row option" where
  "thread_of d k \<equiv> lookup th_id k (threads d)"
abbreviation lifecycle_of :: "db \<Rightarrow> string \<Rightarrow> lifecycle_row option" where
  "lifecycle_of d k \<equiv> lookup li_thread k (lifecycles d)"
abbreviation event_of :: "db \<Rightarrow> string \<Rightarrow> source_event option" where
  "event_of d k \<equiv> lookup ev_key k (events d)"
abbreviation cycle_of :: "db \<Rightarrow> string \<Rightarrow> cycle_row option" where
  "cycle_of d k \<equiv> lookup cy_id k (cycles d)"
abbreviation task_of :: "db \<Rightarrow> string \<Rightarrow> task_row option" where
  "task_of d k \<equiv> lookup tr_id k (tasks d)"
abbreviation plan_of :: "db \<Rightarrow> string \<Rightarrow> plan_row option" where
  "plan_of d k \<equiv> lookup pl_id k (plans d)"
abbreviation permit_of :: "db \<Rightarrow> string \<Rightarrow> permit_row option" where
  "permit_of d k \<equiv> lookup pm_id k (permits d)"
abbreviation execution_of :: "db \<Rightarrow> string \<Rightarrow> execution_row option" where
  "execution_of d k \<equiv> lookup ex_id k (executions d)"
abbreviation validation_of :: "db \<Rightarrow> string \<Rightarrow> validation_row option" where
  "validation_of d k \<equiv> lookup va_id k (validations d)"
abbreviation result_of :: "db \<Rightarrow> string \<Rightarrow> result_row option" where
  "result_of d k \<equiv> lookup re_id k (results d)"
abbreviation approval_of :: "db \<Rightarrow> string \<Rightarrow> result_approval_row option" where
  "approval_of d k \<equiv> lookup ra_id k (approvals d)"
abbreviation consumption_of :: "db \<Rightarrow> string \<Rightarrow> consumption_row option" where
  "consumption_of d k \<equiv> lookup co_event k (consumptions d)"
abbreviation review_of :: "db \<Rightarrow> string \<Rightarrow> feedback_review_row option" where
  "review_of d k \<equiv> lookup fr_id k (reviews d)"
abbreviation revision_input_of :: "db \<Rightarrow> string \<Rightarrow> revision_input_row option" where
  "revision_input_of d k \<equiv> lookup ri_id k (revision_inputs d)"

abbreviation workspace_of :: "db \<Rightarrow> string \<Rightarrow> workspace_row option" where
  "workspace_of d k \<equiv> lookup wk_thread k (workspaces d)"

text \<open>A foreign key value is present in the referenced column.\<close>

definition has :: "('r \<Rightarrow> 'k) \<Rightarrow> 'k \<Rightarrow> 'r list \<Rightarrow> bool" where
  "has key k rows = list_ex (\<lambda>r. key r = k) rows"

lemma has_iff [simp]: "has key k rows \<longleftrightarrow> k \<in> key ` set rows"
  by (auto simp: has_def list_ex_iff)

section \<open>Inserts\<close>

definition insert_cycle :: "cycle_row \<Rightarrow> db \<Rightarrow> err + db" where
  "insert_cycle r d =
    (if has cy_id (cy_id r) (cycles d)
        \<or> has (\<lambda>c. (cy_thread c, cy_cycle_id c)) (cy_thread r, cy_cycle_id r) (cycles d)
        \<or> \<not> has th_id (cy_thread r) (threads d)
     then Inl (IntegrityError ''workflow_cycles_v1'')
     else Inr (d\<lparr>cycles := cycles d @ [r]\<rparr>))"

definition insert_task :: "task_row \<Rightarrow> db \<Rightarrow> err + db" where
  "insert_task r d =
    (if has tr_id (tr_id r) (tasks d)
        \<or> has (\<lambda>t. (tr_cycle t, tr_task t)) (tr_cycle r, tr_task r) (tasks d)
        \<or> has (\<lambda>t. (tr_cycle t, tr_index t)) (tr_cycle r, tr_index r) (tasks d)
        \<or> \<not> has cy_id (tr_cycle r) (cycles d) \<or> \<not> has th_id (tr_thread r) (threads d)
     then Inl (IntegrityError ''workflow_task_runs_v1'')
     else Inr (d\<lparr>tasks := tasks d @ [r]\<rparr>))"

definition insert_plan :: "plan_row \<Rightarrow> db \<Rightarrow> err + db" where
  "insert_plan r d =
    (if has pl_id (pl_id r) (plans d) \<or> has pl_occurrence (pl_occurrence r) (plans d)
        \<or> has (\<lambda>p. (pl_task_run p, pl_version p)) (pl_task_run r, pl_version r) (plans d)
        \<or> \<not> has tr_id (pl_task_run r) (tasks d) \<or> \<not> has cy_id (pl_cycle r) (cycles d)
     then Inl (IntegrityError ''workflow_task_plans_v1'')
     else Inr (d\<lparr>plans := plans d @ [r]\<rparr>))"

text \<open>\<open>INSERT OR IGNORE\<close>: a key conflict skips the row, a missing reference still raises.\<close>

definition insert_permit :: "permit_row \<Rightarrow> db \<Rightarrow> err + db" where
  "insert_permit r d =
    (if has pm_id (pm_id r) (permits d) then Inr d
     else if \<not> has tr_id (pm_task_run r) (tasks d) \<or> \<not> has cy_id (pm_cycle r) (cycles d)
        \<or> \<not> has pl_id (pm_plan r) (plans d)
     then Inl (IntegrityError ''workflow_task_permits_v1'')
     else Inr (d\<lparr>permits := permits d @ [r]\<rparr>))"

definition insert_execution :: "execution_row \<Rightarrow> db \<Rightarrow> err + db" where
  "insert_execution r d =
    (if has ex_id (ex_id r) (executions d)
        \<or> has (\<lambda>x. (ex_task_run x, ex_attempt x)) (ex_task_run r, ex_attempt r) (executions d)
        \<or> \<not> has tr_id (ex_task_run r) (tasks d) \<or> \<not> has cy_id (ex_cycle r) (cycles d)
        \<or> \<not> has pl_id (ex_plan r) (plans d) \<or> \<not> has pm_id (ex_permit r) (permits d)
     then Inl (IntegrityError ''workflow_task_executions_v1'')
     else Inr (d\<lparr>executions := executions d @ [r]\<rparr>))"

definition insert_validation :: "validation_row \<Rightarrow> db \<Rightarrow> err + db" where
  "insert_validation r d =
    (if has va_id (va_id r) (validations d)
        \<or> has (\<lambda>v. (va_task_run v, va_round v)) (va_task_run r, va_round r) (validations d)
        \<or> \<not> has tr_id (va_task_run r) (tasks d) \<or> \<not> has cy_id (va_cycle r) (cycles d)
        \<or> \<not> has pl_id (va_plan r) (plans d)
     then Inl (IntegrityError ''workflow_task_validations_v1'')
     else Inr (d\<lparr>validations := validations d @ [r]\<rparr>))"

definition insert_result :: "result_row \<Rightarrow> db \<Rightarrow> err + db" where
  "insert_result r d =
    (if has re_id (re_id r) (results d) \<or> has re_occurrence (re_occurrence r) (results d)
        \<or> has (\<lambda>x. (re_task_run x, re_validation x)) (re_task_run r, re_validation r) (results d)
     then Inr d
     else if \<not> has tr_id (re_task_run r) (tasks d) \<or> \<not> has cy_id (re_cycle r) (cycles d)
        \<or> \<not> has pl_id (re_plan r) (plans d) \<or> \<not> has ex_id (re_execution r) (executions d)
        \<or> \<not> has va_id (re_validation r) (validations d)
     then Inl (IntegrityError ''workflow_task_results_v1'')
     else Inr (d\<lparr>results := results d @ [r]\<rparr>))"

definition insert_approval :: "result_approval_row \<Rightarrow> db \<Rightarrow> err + db" where
  "insert_approval r d =
    (if has ra_id (ra_id r) (approvals d) \<or> has ra_result (ra_result r) (approvals d) then Inr d
     else if \<not> has re_id (ra_result r) (results d) \<or> \<not> has tr_id (ra_task_run r) (tasks d)
        \<or> \<not> has cy_id (ra_cycle r) (cycles d) \<or> \<not> has pl_id (ra_plan r) (plans d)
        \<or> \<not> has ex_id (ra_execution r) (executions d)
        \<or> \<not> has va_id (ra_validation r) (validations d)
     then Inl (IntegrityError ''workflow_task_result_approvals_v1'')
     else Inr (d\<lparr>approvals := approvals d @ [r]\<rparr>))"

text \<open>In \<open>UNIQUE(source_event_key, residual_text)\<close> two NULL texts are distinct.\<close>

definition insert_revision_input :: "revision_input_row \<Rightarrow> db \<Rightarrow> err + db" where
  "insert_revision_input r d =
    (if has ri_id (ri_id r) (revision_inputs d)
        \<or> (ri_residual r \<noteq> None \<and>
           has (\<lambda>x. (ri_event x, ri_residual x)) (ri_event r, ri_residual r) (revision_inputs d))
     then Inr d
     else if \<not> has ev_key (ri_event r) (events d) \<or> \<not> has th_id (ri_thread r) (threads d)
     then Inl (IntegrityError ''revision_inputs_v1'')
     else Inr (d\<lparr>revision_inputs := revision_inputs d @ [r]\<rparr>))"

definition insert_review :: "feedback_review_row \<Rightarrow> db \<Rightarrow> err + db" where
  "insert_review r d =
    (if has fr_id (fr_id r) (reviews d) \<or> has fr_event (fr_event r) (reviews d)
        \<or> \<not> has ev_key (fr_event r) (events d) \<or> \<not> has th_id (fr_thread r) (threads d)
        \<or> \<not> has cy_id (fr_cycle r) (cycles d) \<or> \<not> has tr_id (fr_task_run r) (tasks d)
     then Inl (IntegrityError ''workflow_feedback_reviews_v1'')
     else Inr (d\<lparr>reviews := reviews d @ [r]\<rparr>))"

definition insert_outbox :: "outbox_row \<Rightarrow> db \<Rightarrow> err + db" where
  "insert_outbox r d =
    (if has ob_id (ob_id r) (outbox d) \<or> has ob_marker (ob_marker r) (outbox d)
        \<or> has (\<lambda>x. (ob_event x, ob_kind x)) (ob_event r, ob_kind r) (outbox d)
     then Inr d
     else if \<not> has ev_key (ob_event r) (events d) \<or> \<not> has th_id (ob_thread r) (threads d)
     then Inl (IntegrityError ''workflow_comment_outbox_v1'')
     else Inr (d\<lparr>outbox := outbox d @ [r]\<rparr>))"

text \<open>\<open>ON CONFLICT(event_key) DO NOTHING\<close>\<close>

definition insert_consumption :: "consumption_row \<Rightarrow> db \<Rightarrow> err + db" where
  "insert_consumption r d =
    (if has co_event (co_event r) (consumptions d) then Inr d
     else if \<not> has ev_key (co_event r) (events d) \<or> \<not> has th_id (co_thread r) (threads d)
     then Inl (IntegrityError ''thread_input_consumptions'')
     else Inr (d\<lparr>consumptions := consumptions d @ [r]\<rparr>))"

lemmas insert_defs [op_defs] =
  insert_cycle_def insert_task_def insert_plan_def insert_permit_def insert_execution_def
  insert_validation_def insert_result_def insert_approval_def insert_revision_input_def
  insert_review_def insert_outbox_def insert_consumption_def

text \<open>\<open>SQLiteGitHubStore.interaction_mode\<close>\<close>

definition interaction_mode :: "db \<Rightarrow> string \<Rightarrow> err + interaction_mode" where
  "interaction_mode d thread_id =
    (case thread_of d thread_id of
       None \<Rightarrow> Inl (ValueError ''unknown IssueThread'')
     | Some th \<Rightarrow> Inr (th_mode th))"

text \<open>The approval provenance a thread's mode demands.\<close>

definition expected_mode :: "interaction_mode \<Rightarrow> approval_mode" where
  "expected_mode m = (if m = AUTO then BY_AUTO else BY_HUMAN)"

end
