(* ===== verification/Runtime.thy ===== *)
theory Runtime
  imports Store
begin

text \<open>
  \<open>WorkflowRuntime\<close> of \<open>workflow_runtime.py\<close>: the transactional lifecycle of the tasks of a
  workflow cycle and the serial scheduler, with the two lifecycle transitions of the store it
  calls. Every operation is one function on the database; the clock reading of the call is
  the argument \<open>now\<close>, SHA-256 the argument \<open>sha\<close>.
\<close>

section \<open>Identities\<close>

definition task_run_id_for :: "digest \<Rightarrow> string \<Rightarrow> nat \<Rightarrow> string \<Rightarrow> string \<Rightarrow> string" where
  "task_run_id_for sha thread_id cycle_id workflow_id task_id =
     stable sha ''task-run'' [thread_id, show_nat cycle_id, workflow_id, task_id]"

definition workflow_cycle_id_for :: "digest \<Rightarrow> string \<Rightarrow> nat \<Rightarrow> string \<Rightarrow> string" where
  "workflow_cycle_id_for sha thread_id cycle_id workflow_id =
     stable sha ''workflow-cycle'' [thread_id, show_nat cycle_id, workflow_id]"

section \<open>Updates shared by the transitions\<close>

text \<open>\<open>UPDATE workflow_task_runs_v1 SET ... WHERE task_run_id=?\<close>\<close>

definition set_task :: "string \<Rightarrow> (task_row \<Rightarrow> task_row) \<Rightarrow> db \<Rightarrow> db" where
  "set_task task_run_id f d = d\<lparr>tasks := update_where (\<lambda>t. tr_id t = task_run_id) f (tasks d)\<rparr>"

definition set_cycle :: "string \<Rightarrow> (cycle_row \<Rightarrow> cycle_row) \<Rightarrow> db \<Rightarrow> db" where
  "set_cycle cycle_id f d = d\<lparr>cycles := update_where (\<lambda>c. cy_id c = cycle_id) f (cycles d)\<rparr>"

definition enter :: "task_phase \<Rightarrow> string \<Rightarrow> task_row \<Rightarrow> task_row" where
  "enter p now t = t\<lparr>tr_status := p, tr_phase := p, tr_updated_at := now\<rparr>"

definition invalidate_permits :: "string \<Rightarrow> string \<Rightarrow> db \<Rightarrow> db" where
  "invalidate_permits now task_run_id d = d\<lparr>permits := update_where
     (\<lambda>p. pm_task_run p = task_run_id \<and> pm_invalidated p = None)
     (\<lambda>p. p\<lparr>pm_invalidated := Some now\<rparr>) (permits d)\<rparr>"

definition invalidate_approvals :: "string \<Rightarrow> string \<Rightarrow> db \<Rightarrow> db" where
  "invalidate_approvals now task_run_id d = d\<lparr>approvals := update_where
     (\<lambda>a. ra_task_run a = task_run_id \<and> ra_invalidated a = None)
     (\<lambda>a. a\<lparr>ra_invalidated := Some now\<rparr>) (approvals d)\<rparr>"

text \<open>\<open>UPDATE workflow_task_plans_v1 SET status='SUPERSEDED' WHERE plan_id=?\<close>; a NULL id matches no row.\<close>

definition supersede_plan :: "string option \<Rightarrow> db \<Rightarrow> db" where
  "supersede_plan plan_id d = d\<lparr>plans := update_where (\<lambda>p. Some (pl_id p) = plan_id)
     (\<lambda>p. p\<lparr>pl_status := SUPERSEDED\<rparr>) (plans d)\<rparr>"

definition supersede_open_plans :: "string \<Rightarrow> db \<Rightarrow> db" where
  "supersede_open_plans task_run_id d = d\<lparr>plans := update_where
     (\<lambda>p. pl_task_run p = task_run_id \<and> pl_status p \<in> {POSTED, APPROVED})
     (\<lambda>p. p\<lparr>pl_status := SUPERSEDED\<rparr>) (plans d)\<rparr>"

lemmas runtime_updates [op_defs] =
  set_task_def set_cycle_def enter_def invalidate_permits_def invalidate_approvals_def
  supersede_plan_def supersede_open_plans_def

text \<open>\<open>_owned_task\<close>: the guard of every transition.\<close>

definition owned_task :: "db \<Rightarrow> string \<Rightarrow> task_phase \<Rightarrow> err + task_row" where
  "owned_task d task_run_id expected =
    (case task_of d task_run_id of
       None \<Rightarrow> Inl (ValueError ''unknown task run'')
     | Some t \<Rightarrow>
         (case cycle_of d (tr_cycle t) of
            None \<Rightarrow> Inl (ValueError ''task does not own the expected workflow phase'')
          | Some c \<Rightarrow>
              if cy_status c \<noteq> C_ACTIVE \<or> cy_active c \<noteq> Some (tr_task t) \<or> tr_phase t \<noteq> expected
              then Inl (ValueError ''task does not own the expected workflow phase'')
              else Inr t))"

section \<open>Reads\<close>

definition cycle :: "db \<Rightarrow> string \<Rightarrow> err + cycle_row" where
  "cycle d workflow_cycle_id = (case cycle_of d workflow_cycle_id of
     None \<Rightarrow> Inl (ValueError ''unknown workflow cycle'') | Some c \<Rightarrow> Inr c)"

definition task :: "db \<Rightarrow> string \<Rightarrow> err + task_row" where
  "task d task_run_id = (case task_of d task_run_id of
     None \<Rightarrow> Inl (ValueError ''unknown task run'') | Some t \<Rightarrow> Inr t)"

definition plan :: "db \<Rightarrow> string \<Rightarrow> err + plan_row" where
  "plan d plan_id = (case plan_of d plan_id of
     None \<Rightarrow> Inl (ValueError ''unknown task plan'') | Some p \<Rightarrow> Inr p)"

definition permit :: "db \<Rightarrow> string \<Rightarrow> err + permit_row" where
  "permit d permit_id = (case permit_of d permit_id of
     None \<Rightarrow> Inl (ValueError ''unknown task permit'') | Some p \<Rightarrow> Inr p)"

definition result :: "db \<Rightarrow> string \<Rightarrow> err + result_row" where
  "result d result_id = (case result_of d result_id of
     None \<Rightarrow> Inl (ValueError ''unknown task result'') | Some r \<Rightarrow> Inr r)"

definition result_approval :: "db \<Rightarrow> string \<Rightarrow> err + result_approval_row" where
  "result_approval d approval_id = (case approval_of d approval_id of
     None \<Rightarrow> Inl (ValueError ''unknown task result approval'') | Some a \<Rightarrow> Inr a)"

lemmas read_defs [op_defs] =
  cycle_def task_def plan_def permit_def result_def result_approval_def owned_task_def

text \<open>The latest cycle of a thread unless it is published.\<close>

definition latest_cycle :: "db \<Rightarrow> string \<Rightarrow> cycle_row option" where
  "latest_cycle d thread_id = latest_by cy_cycle_id (filter (\<lambda>c. cy_thread c = thread_id) (cycles d))"

definition cycle_for_thread :: "db \<Rightarrow> string \<Rightarrow> cycle_row option" where
  "cycle_for_thread d thread_id =
    (case latest_cycle d thread_id of
       None \<Rightarrow> None
     | Some c \<Rightarrow> if cy_status c = C_PUBLISHED then None else Some c)"

definition next_cycle_id :: "db \<Rightarrow> string \<Rightarrow> nat" where
  "next_cycle_id d thread_id =
     Suc (max0 (map cy_cycle_id (filter (\<lambda>c. cy_thread c = thread_id) (cycles d))))"

definition next_revision_sequence :: "db \<Rightarrow> string \<Rightarrow> nat" where
  "next_revision_sequence d thread_id =
     Suc (max0 (map (\<lambda>c. case cy_revision_sequence c of None \<Rightarrow> 0 | Some n \<Rightarrow> n)
       (filter (\<lambda>c. cy_thread c = thread_id \<and> cy_kind c = REVISION) (cycles d))))"

text \<open>
  \<open>known_tools\<close> of the persisted document, and the rehydrated specification. A missing key or
  a value of the wrong shape makes the comprehension raise, which the code reports as an
  invalid specification.
\<close>

definition persisted_phase_tools :: "doc \<Rightarrow> string \<Rightarrow> string list option" where
  "persisted_phase_tools task_doc phase =
    (case map_of (items task_doc) phase of
       None \<Rightarrow> None
     | Some p \<Rightarrow>
         (case map_of (items p) ''tools'' of
            Some (DList ts) \<Rightarrow> Some (map str_of (filter is_str ts)) | _ \<Rightarrow> None))"

fun collect_tools :: "(doc \<times> string) list \<Rightarrow> string list option" where
  "collect_tools [] = Some []"
| "collect_tools ((t, ph) # rest) =
    (case (persisted_phase_tools t ph, collect_tools rest) of
       (Some xs, Some ys) \<Rightarrow> Some (xs @ ys) | _ \<Rightarrow> None)"

definition persisted_tools :: "doc \<Rightarrow> string list option" where
  "persisted_tools document =
    (case map_of (items document) ''tasks'' of
       Some (DList ts) \<Rightarrow>
         collect_tools (concat (map (\<lambda>t. map (Pair t) [''planning'', ''execution'', ''validation'']) ts))
     | _ \<Rightarrow> None)"

definition spec_for_cycle :: "digest \<Rightarrow> db \<Rightarrow> string \<Rightarrow> err + workflow_spec" where
  "spec_for_cycle sha d workflow_cycle_id =
    (case cycle_of d workflow_cycle_id of
       None \<Rightarrow> Inl (ValueError ''unknown workflow cycle'')
     | Some c \<Rightarrow>
         (case persisted_tools (cy_spec c) of
            None \<Rightarrow> Inl (ValueError ''persisted workflow specification is invalid'')
          | Some known \<Rightarrow>
              (case parse_workflow_spec sha known None (cy_spec c) of
                 Inl e \<Rightarrow> Inl (ValueError ''persisted workflow specification is invalid'')
               | Inr w \<Rightarrow>
                   if ws_workflow_id w \<noteq> cy_workflow_id c \<or> ws_version w \<noteq> cy_version c
                      \<or> ws_digest w \<noteq> cy_digest c
                   then Inl (ValueError ''persisted workflow specification identity mismatch'')
                   else Inr w)))"

definition task_runs :: "db \<Rightarrow> string \<Rightarrow> task_row list" where
  "task_runs d workflow_cycle_id =
     order_by tr_index (filter (\<lambda>t. tr_cycle t = workflow_cycle_id) (tasks d))"

definition task_in_cycle :: "db \<Rightarrow> string \<Rightarrow> string \<Rightarrow> task_row option" where
  "task_in_cycle d workflow_cycle_id task_id =
     find (\<lambda>t. tr_cycle t = workflow_cycle_id \<and> tr_task t = task_id) (tasks d)"

definition active_task :: "db \<Rightarrow> string \<Rightarrow> err + task_row option" where
  "active_task d workflow_cycle_id =
     bindE (cycle d workflow_cycle_id) (\<lambda>c.
       case cy_active c of
         None \<Rightarrow> Inr None
       | Some k \<Rightarrow>
           (case task_in_cycle d workflow_cycle_id k of
              None \<Rightarrow> Inl (RuntimeError ''active task pointer is corrupt'')
            | Some t \<Rightarrow> Inr (Some t)))"

text \<open>\<open>_current_result_row\<close>: the join with the validations, latest round first.\<close>

definition validation_round_of :: "db \<Rightarrow> result_row \<Rightarrow> nat" where
  "validation_round_of d r = (case validation_of d (re_validation r) of None \<Rightarrow> 0 | Some v \<Rightarrow> va_round v)"

definition current_result :: "db \<Rightarrow> string \<Rightarrow> result_row option" where
  "current_result d task_run_id =
     latest_by (\<lambda>r. (validation_round_of d r, re_id r))
       (filter (\<lambda>r. re_task_run r = task_run_id \<and> has va_id (re_validation r) (validations d)) (results d))"

section \<open>The thread's initial workflow (github_store.py)\<close>

definition activate_initial_workflow :: "string \<Rightarrow> string \<Rightarrow> string \<Rightarrow> db \<Rightarrow> (err + unit) \<times> db" where
  "activate_initial_workflow thread_id workflow_cycle_id workflow_digest d =
    (let p = (\<lambda>l. li_thread l = thread_id \<and> li_state l = NOT_STARTED) in
     if rowcount p (lifecycles d) = 1
     then return () (d\<lparr>lifecycles := update_where p
       (\<lambda>l. l\<lparr>li_state := L_ACTIVE, li_cycle := Some workflow_cycle_id, li_digest := Some workflow_digest\<rparr>)
       (lifecycles d)\<rparr>)
     else case lifecycle_of d thread_id of
       None \<Rightarrow> raise (ValueError ''initial workflow may only be activated once'') d
     | Some l \<Rightarrow>
         if li_cycle l \<noteq> Some workflow_cycle_id \<or> li_digest l \<noteq> Some workflow_digest
            \<or> li_state l \<notin> {L_ACTIVE, COMPLETE, L_PUBLISHED}
         then raise (ValueError ''initial workflow may only be activated once'') d
         else return () d)"

definition complete_initial_workflow :: "string \<Rightarrow> string \<Rightarrow> db \<Rightarrow> (err + unit) \<times> db" where
  "complete_initial_workflow thread_id workflow_cycle_id d =
    (let p = (\<lambda>l. li_thread l = thread_id \<and> li_state l = L_ACTIVE \<and> li_cycle l = Some workflow_cycle_id) in
     if rowcount p (lifecycles d) = 1
     then return () (d\<lparr>lifecycles := update_where p (\<lambda>l. l\<lparr>li_state := COMPLETE\<rparr>) (lifecycles d)\<rparr>)
     else case lifecycle_of d thread_id of
       None \<Rightarrow> raise (ValueError ''initial workflow completion identity mismatch'') d
     | Some l \<Rightarrow>
         if li_state l \<notin> {COMPLETE, L_PUBLISHED}
         then raise (ValueError ''initial workflow completion identity mismatch'') d
         else return () d)"

section \<open>initialize_cycle\<close>

definition new_task ::
  "digest \<Rightarrow> string \<Rightarrow> string \<Rightarrow> string \<Rightarrow> nat \<Rightarrow> string \<Rightarrow> nat \<Rightarrow> task_spec \<Rightarrow> task_row" where
  "new_task sha now identity thread_id cycle_id workflow_id index t =
     \<lparr>tr_id = task_run_id_for sha thread_id cycle_id workflow_id (ts_id t), tr_cycle = identity,
      tr_thread = thread_id, tr_cycle_id = cycle_id, tr_workflow_id = workflow_id, tr_task = ts_id t,
      tr_index = index, tr_deps = ts_depends_on t, tr_status = PENDING, tr_phase = PENDING,
      tr_plan = None, tr_attempt = 0, tr_round = 0, tr_feedback = [], tr_failure = None,
      tr_waiting = None, tr_clarification = None, tr_updated_at = now\<rparr>"

fun insert_tasks :: "(nat \<Rightarrow> task_spec \<Rightarrow> task_row) \<Rightarrow> nat \<Rightarrow> task_spec list \<Rightarrow> db \<Rightarrow> err + db" where
  "insert_tasks row i [] d = Inr d"
| "insert_tasks row i (t # ts) d = bindE (insert_task (row i t) d) (insert_tasks row (Suc i) ts)"

definition new_cycle ::
  "string \<Rightarrow> string \<Rightarrow> nat \<Rightarrow> string \<Rightarrow> workflow_spec \<Rightarrow> string option \<Rightarrow> cycle_kind \<Rightarrow> nat option \<Rightarrow> cycle_row" where
  "new_cycle identity thread_id cycle_id root_input_id spec spec_ref kind revision_sequence =
     \<lparr>cy_id = identity, cy_thread = thread_id, cy_cycle_id = cycle_id, cy_root_input = root_input_id,
      cy_workflow_id = ws_workflow_id spec, cy_version = ws_version spec, cy_digest = ws_digest spec,
      cy_spec = canonical_document spec, cy_spec_ref = spec_ref, cy_kind = kind,
      cy_revision_sequence = revision_sequence, cy_status = C_ACTIVE, cy_active = None,
      cy_failure = None\<rparr>"

text \<open>
  The transaction of \<open>initialize_cycle\<close>: \<open>Inr (Some row)\<close> is the early return of an existing
  cycle, \<open>Inr None\<close> a newly inserted one.
\<close>

definition initialize_transaction ::
  "digest \<Rightarrow> string \<Rightarrow> string \<Rightarrow> nat \<Rightarrow> string \<Rightarrow> workflow_spec \<Rightarrow> string option \<Rightarrow> cycle_kind \<Rightarrow>
   nat option \<Rightarrow> db \<Rightarrow> err + cycle_row option \<times> db" where
  "initialize_transaction sha now thread_id cycle_id root_input_id spec spec_ref kind revision_sequence d =
    (let identity = workflow_cycle_id_for sha thread_id cycle_id (ws_workflow_id spec) in
     case find (\<lambda>c. cy_thread c = thread_id \<and> cy_cycle_id c = cycle_id) (cycles d) of
       Some c \<Rightarrow>
         if cy_id c \<noteq> identity \<or> cy_digest c \<noteq> ws_digest spec \<or> cy_root_input c \<noteq> root_input_id
            \<or> cy_kind c \<noteq> kind \<or> cy_revision_sequence c \<noteq> revision_sequence
         then Inl (ValueError ''workflow cycle identity/specification mismatch'')
         else Inr (Some c, d)
     | None \<Rightarrow>
         if list_ex (\<lambda>c. cy_thread c = thread_id \<and> cy_status c = C_ACTIVE) (cycles d)
         then Inl (ValueError ''IssueThread already has an active workflow owner'')
         else bindE (insert_cycle (new_cycle identity thread_id cycle_id root_input_id spec spec_ref
                 kind revision_sequence) d)
           (\<lambda>d1. bindE (insert_tasks (new_task sha now identity thread_id cycle_id (ws_workflow_id spec))
                    0 (ws_tasks spec) d1)
             (\<lambda>d2. Inr (None, d2))))"

definition initialize_cycle ::
  "digest \<Rightarrow> string \<Rightarrow> string \<Rightarrow> nat \<Rightarrow> string \<Rightarrow> workflow_spec \<Rightarrow> string option \<Rightarrow> cycle_kind \<Rightarrow>
   nat option \<Rightarrow> (db, cycle_row) op" where
  "initialize_cycle sha now thread_id cycle_id root_input_id spec spec_ref kind revision_sequence d =
    (let identity = workflow_cycle_id_for sha thread_id cycle_id (ws_workflow_id spec) in
     and_then (commit d (initialize_transaction sha now thread_id cycle_id root_input_id spec spec_ref
                 kind revision_sequence d))
       (\<lambda>existing d1.
         case existing of
           Some c \<Rightarrow> return c d1
         | None \<Rightarrow>
             and_then (if kind = INITIAL
                       then activate_initial_workflow thread_id identity (ws_digest spec) d1
                       else return () d1)
               (\<lambda>_ d2. (cycle d2 identity, d2))))"

section \<open>select_active_task\<close>

definition eligible :: "task_row list \<Rightarrow> task_row \<Rightarrow> bool" where
  "eligible rows t =
     (tr_status t = PENDING \<and>
      list_all (\<lambda>dep. map_option tr_status (lookup tr_task dep rows) = Some DONE) (tr_deps t))"

definition select_transaction :: "string \<Rightarrow> string \<Rightarrow> db \<Rightarrow> err + task_row option option \<times> db" where
  "select_transaction now workflow_cycle_id d =
    (case cycle_of d workflow_cycle_id of
       None \<Rightarrow> Inl (ValueError ''unknown workflow cycle'')
     | Some c \<Rightarrow>
       if cy_status c \<noteq> C_ACTIVE then Inr (Some None, d)
       else case cy_active c of
         Some k \<Rightarrow>
           (case task_in_cycle d workflow_cycle_id k of
              None \<Rightarrow> Inl (RuntimeError ''active task pointer is corrupt'')
            | Some t \<Rightarrow> Inr (Some (Some t), d))
       | None \<Rightarrow>
           (let rows = task_runs d workflow_cycle_id in
            case find (eligible rows) rows of
              None \<Rightarrow>
                if rows \<noteq> [] \<and> list_all (\<lambda>t. tr_status t = DONE) rows
                then let d1 = set_cycle workflow_cycle_id
                           (\<lambda>c. if cy_active c = None then c\<lparr>cy_status := C_AWAITING_PUBLICATION\<rparr> else c) d
                     in if cy_kind c = INITIAL
                        then Inr (Some None, d1\<lparr>lifecycles := update_where
                          (\<lambda>l. li_thread l = cy_thread c \<and> li_state l = L_ACTIVE
                               \<and> li_cycle l = Some workflow_cycle_id)
                          (\<lambda>l. l\<lparr>li_state := COMPLETE\<rparr>) (lifecycles d1)\<rparr>)
                        else Inr (Some None, d1)
                else Inr (Some None, d)
            | Some t \<Rightarrow>
                Inr (None,
                  d\<lparr>cycles := update_where
                      (\<lambda>c. cy_id c = workflow_cycle_id \<and> cy_active c = None \<and> cy_status c = C_ACTIVE)
                      (\<lambda>c. c\<lparr>cy_active := Some (tr_task t)\<rparr>) (cycles d),
                    tasks := update_where (\<lambda>u. tr_id u = tr_id t \<and> tr_status u = PENDING)
                      (enter PLANNING now) (tasks d)\<rparr>)))"

text \<open>
  The \<open>rowcount != 1\<close> test of the ownership update never fails: the row was read without an
  owner and ACTIVE in the same transaction.
\<close>

definition select_active_task :: "string \<Rightarrow> string \<Rightarrow> (db, task_row option) op" where
  "select_active_task now workflow_cycle_id d =
     and_then (commit d (select_transaction now workflow_cycle_id d))
       (\<lambda>early d1. case early of
          Some r \<Rightarrow> return r d1
        | None \<Rightarrow> (active_task d1 workflow_cycle_id, d1))"

text \<open>\<open>phase_spec\<close>: the policy of the phase a task works in or waits for.\<close>

definition runnable_phase :: "task_row \<Rightarrow> task_phase option" where
  "runnable_phase t =
    (let p = (if tr_phase t = WAITING_FOR_INPUT then tr_waiting t else Some (tr_phase t)) in
     if p = Some WAITING_FOR_PLAN_APPROVAL then Some PLANNING
     else if p = Some WAITING_FOR_RESULT_APPROVAL then Some VALIDATING
     else p)"

definition phase_policy :: "workflow_spec \<Rightarrow> task_row \<Rightarrow> err + phase_spec" where
  "phase_policy spec t =
    (case task_map spec (tr_task t) of
       None \<Rightarrow> Inl (KeyError (tr_task t))
     | Some ts \<Rightarrow>
         (case runnable_phase t of
            Some PLANNING \<Rightarrow> Inr (ts_planning ts)
          | Some EXECUTING \<Rightarrow> Inr (ts_execution ts)
          | Some VALIDATING \<Rightarrow> Inr (ts_validation ts)
          | _ \<Rightarrow> Inl (ValueError ''phase has no runnable policy'')))"

end
