(* ===== verification/Lifecycle.thy ===== *)
theory Lifecycle
  imports Runtime
begin

text \<open>
  The lifecycle transitions of \<open>WorkflowRuntime\<close>: plan submission and approval, execution,
  validation, result publication and approval, replanning, clarification, the publication
  eligibility proof and the terminal failure of an owner.
\<close>

section \<open>Planning\<close>

definition plan_occurrence :: "string \<Rightarrow> string \<Rightarrow> nat \<Rightarrow> string \<Rightarrow> string" where
  "plan_occurrence task_run_id plan_id version digest =
     ''plan-approval:'' @ task_run_id @ '':'' @ plan_id @ '':v'' @ show_nat version @ '':'' @ digest"

text \<open>The next version number of a task's plans and the row that \<open>submit_posted_plan\<close> inserts.\<close>

definition next_plan_version :: "db \<Rightarrow> string \<Rightarrow> nat" where
  "next_plan_version d task_run_id =
     Suc (max0 (map pl_version (filter (\<lambda>p. pl_task_run p = task_run_id) (plans d))))"

definition mk_plan ::
  "digest \<Rightarrow> task_row \<Rightarrow> nat \<Rightarrow> string \<Rightarrow> int \<Rightarrow> string \<Rightarrow> plan_row" where
  "mk_plan sha t version canonical posted_comment_id posted_at =
    (let digest = sha canonical; plan_id = stable sha ''task-plan'' [tr_id t, show_nat version, digest] in
     \<lparr>pl_id = plan_id, pl_task_run = tr_id t, pl_cycle = tr_cycle t, pl_task = tr_task t,
      pl_version = version, pl_text = canonical, pl_digest = digest, pl_status = POSTED,
      pl_posted_at = posted_at, pl_comment = posted_comment_id,
      pl_occurrence = plan_occurrence (tr_id t) plan_id version digest,
      pl_approved_at = None, pl_approved_by = None, pl_approval_event = None\<rparr>)"

definition submit_posted_plan ::
  "digest \<Rightarrow> string \<Rightarrow> string \<Rightarrow> string \<Rightarrow> int \<Rightarrow> string \<Rightarrow> (db, plan_row) op" where
  "submit_posted_plan sha now task_run_id plan_text posted_comment_id posted_at d =
    (if posted_comment_id \<le> 0 then raise (ValueError ''a reconciled GitHub plan comment is required'') d
     else if blank plan_text then raise (ValueError ''canonical plan must not be blank'') d
     else if 12000 < length plan_text
     then raise (ValueError ''canonical plan exceeds the 12000-character limit'') d
     else
       and_then (commit d (bindE (owned_task d task_run_id PLANNING) (\<lambda>t.
         let p = mk_plan sha t (next_plan_version d task_run_id) (strip plan_text) posted_comment_id posted_at in
         bindE (insert_plan p (invalidate_permits now task_run_id (supersede_open_plans task_run_id d)))
           (\<lambda>d1. Inr (pl_id p, set_task task_run_id
              (\<lambda>t. (enter WAITING_FOR_PLAN_APPROVAL now t)\<lparr>tr_plan := Some (pl_id p)\<rparr>) d1)))))
         (\<lambda>plan_id d1. (plan d1 plan_id, d1)))"

definition permit_id_for :: "digest \<Rightarrow> string \<Rightarrow> plan_row \<Rightarrow> string \<Rightarrow> string" where
  "permit_id_for sha task_run_id p event_key =
     stable sha ''task-permit'' [task_run_id, pl_id p, show_nat (pl_version p), pl_digest p, event_key]"

definition mk_permit ::
  "digest \<Rightarrow> string \<Rightarrow> task_row \<Rightarrow> plan_row \<Rightarrow> string \<Rightarrow> string \<Rightarrow> approval_mode \<Rightarrow> permit_row" where
  "mk_permit sha now t p event_key approved_by mode =
     \<lparr>pm_id = permit_id_for sha (tr_id t) p event_key, pm_task_run = tr_id t, pm_cycle = tr_cycle t,
      pm_plan = pl_id p, pm_version = pl_version p, pm_digest = pl_digest p, pm_event = event_key,
      pm_by = approved_by, pm_mode = mode, pm_created_at = now, pm_invalidated = None\<rparr>"

text \<open>The writes \<open>approve_plan\<close> and \<open>auto_authorize_plan\<close> share.\<close>

definition authorize_plan ::
  "digest \<Rightarrow> string \<Rightarrow> task_row \<Rightarrow> plan_row \<Rightarrow> string \<Rightarrow> string \<Rightarrow> string \<Rightarrow> approval_mode \<Rightarrow> db \<Rightarrow> err + string \<times> db" where
  "authorize_plan sha now t p event_key approved_by approved_at mode d =
     bindE (insert_permit (mk_permit sha now t p event_key approved_by mode)
       (d\<lparr>plans := update_where (\<lambda>q. pl_id q = pl_id p)
          (\<lambda>q. q\<lparr>pl_status := APPROVED, pl_approved_at := Some approved_at,
                 pl_approved_by := Some approved_by, pl_approval_event := Some event_key\<rparr>) (plans d)\<rparr>))
       (\<lambda>d1. Inr (permit_id_for sha (tr_id t) p event_key,
          set_task (tr_id t) (enter EXECUTING now) d1))"

text \<open>The POSTED plan the task currently waits on.\<close>

definition current_plan :: "db \<Rightarrow> task_row \<Rightarrow> plan_row option" where
  "current_plan d t = (case tr_plan t of None \<Rightarrow> None | Some k \<Rightarrow> plan_of d k)"

definition posted_plan :: "db \<Rightarrow> task_row \<Rightarrow> err + plan_row" where
  "posted_plan d t =
    (case current_plan d t of
       None \<Rightarrow> Inl (ValueError ''current posted plan is missing'')
     | Some p \<Rightarrow> if pl_status p \<noteq> POSTED then Inl (ValueError ''current posted plan is missing'') else Inr p)"

definition approve_plan ::
  "digest \<Rightarrow> string \<Rightarrow> string \<Rightarrow> string \<Rightarrow> string \<Rightarrow> string \<Rightarrow> bool \<Rightarrow> string \<Rightarrow> (db, permit_row) op" where
  "approve_plan sha now task_run_id occurrence_key event_key approved_by authorized occurred_at d =
    (if \<not> authorized then raise (PermissionError ''approver permission could not be proven'') d
     else if event_key = [] \<or> approved_by = []
     then raise (ValueError ''human approval identity is required'') d
     else case bindE (task d task_run_id) (\<lambda>t. interaction_mode d (tr_thread t)) of
       Inl e \<Rightarrow> raise e d
     | Inr m \<Rightarrow>
         if m \<noteq> MANUAL then raise (PermissionError ''human plan approval requires MANUAL mode'') d
         else and_then (commit d (bindE (owned_task d task_run_id WAITING_FOR_PLAN_APPROVAL) (\<lambda>t.
           bindE (posted_plan d t) (\<lambda>p.
             if pl_occurrence p \<noteq> occurrence_key
             then Inl (ValueError ''approval interrupt occurrence is stale'')
             else if occurred_at \<le> pl_posted_at p
             then Inl (ValueError ''approval predates the visible plan'')
             else authorize_plan sha now t p event_key approved_by occurred_at BY_HUMAN d))))
           (\<lambda>permit_id d1. (permit d1 permit_id, d1)))"

definition AUTO_POLICY :: string where
  "AUTO_POLICY = ''sweforge:auto-policy''"

definition auto_authority :: "plan_row \<Rightarrow> string" where
  "auto_authority p = ''auto-plan-authority:'' @ pl_occurrence p"

definition auto_authorize_plan :: "digest \<Rightarrow> string \<Rightarrow> string \<Rightarrow> (db, permit_row) op" where
  "auto_authorize_plan sha now task_run_id d =
    (case bindE (task d task_run_id) (\<lambda>t. interaction_mode d (tr_thread t)) of
       Inl e \<Rightarrow> raise e d
     | Inr m \<Rightarrow>
         if m \<noteq> AUTO then raise (PermissionError ''AUTO plan authorization requires AUTO mode'') d
         else and_then (commit d (bindE (owned_task d task_run_id WAITING_FOR_PLAN_APPROVAL) (\<lambda>t.
           bindE (posted_plan d t) (\<lambda>p.
             authorize_plan sha now t p (auto_authority p) AUTO_POLICY now BY_AUTO d))))
           (\<lambda>permit_id d1. (permit d1 permit_id, d1)))"

definition replan_from_feedback :: "string \<Rightarrow> string \<Rightarrow> (db, task_row) op" where
  "replan_from_feedback now task_run_id d =
     and_then (commit d (bindE (owned_task d task_run_id WAITING_FOR_PLAN_APPROVAL) (\<lambda>t.
       Inr ((), set_task task_run_id (enter PLANNING now)
         (invalidate_permits now task_run_id (supersede_plan (tr_plan t) d))))))
       (\<lambda>_ d1. (task d1 task_run_id, d1))"

definition replan_for_revision_inputs :: "string \<Rightarrow> string \<Rightarrow> string list \<Rightarrow> (db, task_row) op" where
  "replan_for_revision_inputs now task_run_id ids d =
    (if ids = [] then raise (ValueError ''revision replan requires durable input identities'') d
     else and_then (commit d (bindE (task d task_run_id) (\<lambda>t.
       case cycle_of d (tr_cycle t) of
         None \<Rightarrow> Inl (ValueError ''revision task is not at a replanning boundary'')
       | Some c \<Rightarrow>
           if cy_kind c \<noteq> REVISION \<or> cy_status c \<noteq> C_ACTIVE \<or> cy_active c \<noteq> Some (tr_task t)
              \<or> tr_phase t \<notin> {WAITING_FOR_PLAN_APPROVAL, WAITING_FOR_RESULT_APPROVAL}
           then Inl (ValueError ''revision task is not at a replanning boundary'')
           else Inr ((), set_task task_run_id
             (\<lambda>u. (enter PLANNING now u)
                \<lparr>tr_feedback := tr_feedback t @ [Queued_Revision_Inputs ids (tr_phase t)]\<rparr>)
             (invalidate_approvals now task_run_id
               (invalidate_permits now task_run_id (supersede_plan (tr_plan t) d)))))))
       (\<lambda>_ d1. (task d1 task_run_id, d1)))"

section \<open>Execution\<close>

definition starts_auto_authority :: "string \<Rightarrow> bool" where
  "starts_auto_authority s = starts_with s ''auto-plan-authority:plan-approval:''"

text \<open>The latest uninvalidated permit for exactly this plan version.\<close>

definition live_permit_for :: "db \<Rightarrow> string \<Rightarrow> plan_row \<Rightarrow> permit_row option" where
  "live_permit_for d task_run_id p =
     latest_by pm_created_at (filter (\<lambda>m. pm_task_run m = task_run_id \<and> pm_plan m = pl_id p
       \<and> pm_version m = pl_version p \<and> pm_digest m = pl_digest p \<and> pm_invalidated m = None) (permits d))"

definition assert_execution_authorized :: "db \<Rightarrow> string \<Rightarrow> err + permit_row" where
  "assert_execution_authorized d task_run_id =
     bindE (task d task_run_id) (\<lambda>t.
       if tr_phase t \<noteq> EXECUTING \<and> \<not> (tr_phase t = WAITING_FOR_INPUT \<and> tr_waiting t = Some EXECUTING)
       then Inl (PermissionError ''task is not executing'')
       else bindE (cycle d (tr_cycle t)) (\<lambda>c.
         if cy_active c \<noteq> Some (tr_task t) \<or> cy_status c \<noteq> C_ACTIVE
         then Inl (PermissionError ''task does not own the active workflow'')
         else bindE (plan d (case tr_plan t of None \<Rightarrow> [] | Some k \<Rightarrow> k)) (\<lambda>p.
         bindE (interaction_mode d (tr_thread t)) (\<lambda>m.
           case live_permit_for d task_run_id p of
             None \<Rightarrow> Inl (PermissionError ''exact current-plan permit is missing or stale'')
           | Some q \<Rightarrow>
               if pl_status p \<noteq> APPROVED \<or> pm_mode q \<noteq> expected_mode m
               then Inl (PermissionError ''exact current-plan permit is missing or stale'')
               else if expected_mode m = BY_AUTO \<and>
                       (pm_by q \<noteq> AUTO_POLICY \<or> \<not> starts_auto_authority (pm_event q))
               then Inl (PermissionError ''AUTO plan authority provenance is invalid'')
               else Inr q))))"

definition execution_id_for :: "digest \<Rightarrow> string \<Rightarrow> nat \<Rightarrow> string" where
  "execution_id_for sha task_run_id attempt = stable sha ''task-execution'' [task_run_id, show_nat attempt]"

definition default_execution_evidence :: "doc option \<Rightarrow> doc" where
  "default_execution_evidence e =
    (case e of Some (DMap (kv # kvs)) \<Rightarrow> DMap (kv # kvs)
     | _ \<Rightarrow> DMap [(''gateway'', DStr ''finish_execution'')])"

definition mk_execution ::
  "digest \<Rightarrow> string \<Rightarrow> task_row \<Rightarrow> string \<Rightarrow> permit_row \<Rightarrow> string \<Rightarrow> doc option \<Rightarrow> execution_row" where
  "mk_execution sha now t plan_id q summary evidence =
     \<lparr>ex_id = execution_id_for sha (tr_id t) (Suc (tr_attempt t)), ex_task_run = tr_id t,
      ex_cycle = tr_cycle t, ex_plan = plan_id, ex_permit = pm_id q, ex_attempt = Suc (tr_attempt t),
      ex_succeeded = True, ex_summary = strip summary,
      ex_evidence = default_execution_evidence evidence, ex_completed_at = now\<rparr>"

definition finish_execution ::
  "digest \<Rightarrow> string \<Rightarrow> string \<Rightarrow> string \<Rightarrow> doc option \<Rightarrow> (db, task_row) op" where
  "finish_execution sha now task_run_id summary evidence d =
    (case assert_execution_authorized d task_run_id of
       Inl e \<Rightarrow> raise e d
     | Inr q \<Rightarrow>
         if blank summary then raise (ValueError ''execution summary is required'') d
         else and_then (commit d (bindE (owned_task d task_run_id EXECUTING) (\<lambda>t.
           case tr_plan t of
             None \<Rightarrow> Inl (IntegrityError ''workflow_task_executions_v1'')
           | Some plan_id \<Rightarrow>
               bindE (insert_execution (mk_execution sha now t plan_id q summary evidence) d)
                 (\<lambda>d1. Inr ((), set_task task_run_id
                    (\<lambda>u. (enter VALIDATING now u)\<lparr>tr_attempt := Suc (tr_attempt t)\<rparr>) d1)))))
           (\<lambda>_ d1. (task d1 task_run_id, d1)))"

section \<open>Validation\<close>

fun verdict_value :: "verdict \<Rightarrow> string" where
  "verdict_value ACCEPT = ''ACCEPT''"
| "verdict_value NEEDS_FIXES = ''NEEDS_FIXES''"
| "verdict_value REPLAN = ''REPLAN''"
| "verdict_value BLOCKED = ''BLOCKED''"

definition validation_payload :: "verdict \<Rightarrow> string \<Rightarrow> doc list \<Rightarrow> string list \<Rightarrow> doc \<Rightarrow> doc" where
  "validation_payload v summary findings repairs evidence = DMap
     [(''verdict'', DStr (verdict_value v)), (''summary'', DStr summary),
      (''findings'', DList findings), (''repair_instructions'', strs repairs), (''evidence'', evidence)]"

definition latest_validation :: "db \<Rightarrow> string \<Rightarrow> string option \<Rightarrow> nat \<Rightarrow> validation_row option" where
  "latest_validation d task_run_id plan_id attempt =
     latest_by va_round (filter (\<lambda>v. va_task_run v = task_run_id \<and> Some (va_plan v) = plan_id
       \<and> va_attempt v = attempt) (validations d))"

definition same_decision :: "validation_row \<Rightarrow> verdict \<Rightarrow> string \<Rightarrow> doc list \<Rightarrow> string list \<Rightarrow> doc \<Rightarrow> bool" where
  "same_decision p v summary findings repairs evidence =
     (va_verdict p = v \<and> va_summary p = strip summary \<and>
      dumps (DList (va_findings p)) = dumps (DList findings) \<and>
      dumps (strs (va_repairs p)) = dumps (strs repairs) \<and>
      dumps (va_evidence p) = dumps evidence)"

definition validation_id_for :: "digest \<Rightarrow> string \<Rightarrow> nat \<Rightarrow> verdict \<Rightarrow> string" where
  "validation_id_for sha task_run_id r v =
     stable sha ''validation'' [task_run_id, show_nat r, verdict_value v]"

fun verdict_phase :: "verdict \<Rightarrow> task_phase" where
  "verdict_phase ACCEPT = VALIDATING"
| "verdict_phase NEEDS_FIXES = EXECUTING"
| "verdict_phase REPLAN = PLANNING"
| "verdict_phase BLOCKED = FAILED"

text \<open>The side effects of the verdict on permits, plan and cycle, before the task row is written.\<close>

fun verdict_effect :: "string \<Rightarrow> task_row \<Rightarrow> string \<Rightarrow> verdict \<Rightarrow> db \<Rightarrow> db" where
  "verdict_effect now t summary ACCEPT d = d"
| "verdict_effect now t summary NEEDS_FIXES d = d"
| "verdict_effect now t summary REPLAN d = supersede_plan (tr_plan t) (invalidate_permits now (tr_id t) d)"
| "verdict_effect now t summary BLOCKED d =
     set_cycle (tr_cycle t) (\<lambda>c. c\<lparr>cy_status := C_FAILED, cy_failure := Some (strip summary)\<rparr>) d"

definition verdict_feedback :: "string \<Rightarrow> string list \<Rightarrow> verdict \<Rightarrow> repair_entry list" where
  "verdict_feedback summary repairs v =
     (if v \<in> {NEEDS_FIXES, REPLAN} then [Validation_Feedback summary repairs v] else [])"

definition mk_validation ::
  "digest \<Rightarrow> task_row \<Rightarrow> string \<Rightarrow> verdict \<Rightarrow> string \<Rightarrow> doc list \<Rightarrow> string list \<Rightarrow> doc \<Rightarrow> validation_row" where
  "mk_validation sha t plan_id v summary findings repairs evidence =
     \<lparr>va_id = validation_id_for sha (tr_id t) (Suc (tr_round t)) v, va_task_run = tr_id t,
      va_cycle = tr_cycle t, va_plan = plan_id, va_attempt = tr_attempt t,
      va_round = Suc (tr_round t), va_verdict = v, va_summary = strip summary,
      va_findings = findings, va_repairs = repairs, va_evidence = evidence\<rparr>"

text \<open>
  The transaction of \<open>finish_validation\<close> after the ownership guard: \<open>Some\<close> task is the early
  return of a repeated ACCEPT, \<open>None\<close> a newly recorded decision.
\<close>

definition record_validation ::
  "digest \<Rightarrow> string \<Rightarrow> task_row \<Rightarrow> verdict \<Rightarrow> string \<Rightarrow> doc list \<Rightarrow> string list \<Rightarrow> doc \<Rightarrow> db \<Rightarrow>
   err + task_row option \<times> db" where
  "record_validation sha now t v summary findings repairs evidence d =
    (case tr_plan t of
       None \<Rightarrow> Inl (RuntimeError ''validated task has no plan'')
     | Some plan_id \<Rightarrow>
         (case latest_validation d (tr_id t) (Some plan_id) (tr_attempt t) of
            Some p \<Rightarrow>
              if same_decision p v summary findings repairs evidence \<and> v = ACCEPT
              then Inr (Some t, d)
              else Inl (ValueError ''this execution attempt already has a validation decision'')
          | None \<Rightarrow>
              bindE (insert_validation (mk_validation sha t plan_id v summary findings repairs evidence) d)
                (\<lambda>d1. Inr (None, set_task (tr_id t)
                  (\<lambda>u. (enter (verdict_phase v) now u)
                     \<lparr>tr_round := Suc (tr_round t),
                      tr_feedback := tr_feedback t @ verdict_feedback summary repairs v,
                      tr_failure := (if v = BLOCKED then Some (strip summary) else None)\<rparr>)
                  (verdict_effect now t summary v d1)))))"

definition finish_validation ::
  "digest \<Rightarrow> string \<Rightarrow> (doc \<Rightarrow> err option) \<Rightarrow> string \<Rightarrow> verdict \<Rightarrow> string \<Rightarrow> doc list \<Rightarrow> string list \<Rightarrow> doc \<Rightarrow> (db, task_row) op" where
  "finish_validation sha now guard task_run_id v summary findings repairs evidence d =
    (if blank summary \<or> \<not> is_map evidence \<or> items evidence = []
     then raise (ValueError ''validation summary and evidence are required'') d
     else case guard (validation_payload v summary findings repairs evidence) of
       Some e \<Rightarrow> raise e d
     | None \<Rightarrow>
         and_then (commit d (bindE (owned_task d task_run_id VALIDATING)
             (\<lambda>t. record_validation sha now t v summary findings repairs evidence d)))
           (\<lambda>early d1. case early of
              Some t \<Rightarrow> return t d1 | None \<Rightarrow> (task d1 task_run_id, d1)))"

section \<open>Results\<close>

definition exact_execution :: "db \<Rightarrow> string \<Rightarrow> string option \<Rightarrow> nat \<Rightarrow> execution_row option" where
  "exact_execution d task_run_id plan_id attempt =
     find (\<lambda>x. ex_task_run x = task_run_id \<and> Some (ex_plan x) = plan_id \<and> ex_attempt x = attempt)
       (executions d)"

definition result_id_for :: "digest \<Rightarrow> string \<Rightarrow> string \<Rightarrow> execution_row \<Rightarrow> validation_row \<Rightarrow> string" where
  "result_id_for sha task_run_id plan_id x v =
     stable sha ''task-result'' [task_run_id, plan_id, ex_id x, va_id v]"

definition result_occurrence :: "string \<Rightarrow> string \<Rightarrow> execution_row \<Rightarrow> validation_row \<Rightarrow> string" where
  "result_occurrence task_run_id result_id x v =
     ''result-approval:'' @ task_run_id @ '':'' @ result_id @ '':'' @ ex_id x @ '':'' @ va_id v"

definition mk_result ::
  "digest \<Rightarrow> string \<Rightarrow> task_row \<Rightarrow> string \<Rightarrow> execution_row \<Rightarrow> validation_row \<Rightarrow> int \<Rightarrow> string \<Rightarrow> result_row" where
  "mk_result sha now t plan_id x v posted_comment_id posted_at =
    (let rid = result_id_for sha (tr_id t) plan_id x v in
     \<lparr>re_id = rid, re_task_run = tr_id t, re_cycle = tr_cycle t, re_plan = plan_id,
      re_execution = ex_id x, re_validation = va_id v,
      re_occurrence = result_occurrence (tr_id t) rid x v, re_posted_at = posted_at,
      re_comment = posted_comment_id, re_created_at = now\<rparr>)"

definition publish_validated_result ::
  "digest \<Rightarrow> string \<Rightarrow> string \<Rightarrow> int \<Rightarrow> string \<Rightarrow> (db, result_row) op" where
  "publish_validated_result sha now task_run_id posted_comment_id posted_at d =
    (if posted_comment_id \<le> 0 then raise (ValueError ''a reconciled GitHub result comment is required'') d
     else and_then (commit d (bindE (owned_task d task_run_id VALIDATING) (\<lambda>t.
       case (tr_plan t, latest_validation d task_run_id (tr_plan t) (tr_attempt t),
             exact_execution d task_run_id (tr_plan t) (tr_attempt t)) of
         (Some plan_id, Some v, Some x) \<Rightarrow>
           if va_verdict v \<noteq> ACCEPT \<or> \<not> ex_succeeded x
           then Inl (ValueError ''latest exact validated result is not acceptable'')
           else
             let r = mk_result sha now t plan_id x v posted_comment_id posted_at in
             bindE (insert_result r d)
               (\<lambda>d1. Inr (re_id r, set_task task_run_id (enter WAITING_FOR_RESULT_APPROVAL now) d1))
       | _ \<Rightarrow> Inl (ValueError ''latest exact validated result is not acceptable''))))
       (\<lambda>rid d1. (result d1 rid, d1)))"

text \<open>\<open>mode.upper()\<close>, restricted to the two accepted values.\<close>

definition parse_mode :: "string \<Rightarrow> approval_mode option" where
  "parse_mode s = (let u = map upper s in
     if u = ''HUMAN'' then Some BY_HUMAN else if u = ''AUTO'' then Some BY_AUTO else None)"

fun mode_value :: "approval_mode \<Rightarrow> string" where
  "mode_value BY_HUMAN = ''HUMAN''"
| "mode_value BY_AUTO = ''AUTO''"

definition missing :: "string option \<Rightarrow> bool" where
  "missing s = (s = None \<or> s = Some [])"

definition approval_id_for ::
  "digest \<Rightarrow> result_row \<Rightarrow> string \<Rightarrow> approval_mode \<Rightarrow> string option \<Rightarrow> string \<Rightarrow> string" where
  "approval_id_for sha r occurrence m event approved_by =
     stable sha ''task-result-approval'' [re_id r, occurrence, mode_value m,
       if missing event then approved_by else the event]"

definition mk_result_approval ::
  "digest \<Rightarrow> task_row \<Rightarrow> result_row \<Rightarrow> string \<Rightarrow> approval_mode \<Rightarrow> string option \<Rightarrow> string \<Rightarrow> string \<Rightarrow> result_approval_row" where
  "mk_result_approval sha t r occurrence m event approved_by occurred_at =
     \<lparr>ra_id = approval_id_for sha r occurrence m event approved_by, ra_result = re_id r,
      ra_task_run = tr_id t, ra_cycle = tr_cycle t, ra_plan = re_plan r, ra_execution = re_execution r,
      ra_validation = re_validation r, ra_occurrence = occurrence, ra_mode = m, ra_by = approved_by,
      ra_event = event, ra_approved_at = occurred_at, ra_invalidated = None\<rparr>"

text \<open>
  The transaction of \<open>approve_result\<close> after the ownership guard. The \<open>rowcount\<close> test of the
  release never fails, since the guard has just read the owner in the same transaction.
\<close>

definition accept_result ::
  "digest \<Rightarrow> string \<Rightarrow> task_row \<Rightarrow> string \<Rightarrow> string option \<Rightarrow> string \<Rightarrow> string \<Rightarrow> approval_mode \<Rightarrow> db \<Rightarrow> err + string \<times> db" where
  "accept_result sha now t occurrence event approved_by occurred_at m d =
    (case (find (\<lambda>r. re_task_run r = tr_id t \<and> re_occurrence r = occurrence) (results d),
           current_result d (tr_id t)) of
       (Some r, Some cur) \<Rightarrow>
         if re_id r \<noteq> re_id cur \<or> Some (re_plan r) \<noteq> tr_plan t
         then Inl (ValueError ''result approval interrupt occurrence is stale'')
         else if m = BY_HUMAN \<and> occurred_at \<le> re_posted_at r
         then Inl (ValueError ''result approval predates the visible result'')
         else
           let a = mk_result_approval sha t r occurrence m event approved_by occurred_at in
           bindE (insert_approval a d)
             (\<lambda>d1. Inr (ra_id a, d1\<lparr>
                tasks := update_where (\<lambda>u. tr_id u = tr_id t) (enter DONE now) (tasks d1),
                cycles := update_where (\<lambda>c. cy_id c = tr_cycle t \<and> cy_active c = Some (tr_task t))
                  (\<lambda>c. c\<lparr>cy_active := None\<rparr>) (cycles d1)\<rparr>))
     | _ \<Rightarrow> Inl (ValueError ''result approval interrupt occurrence is stale''))"

definition approve_result ::
  "digest \<Rightarrow> string \<Rightarrow> string \<Rightarrow> string \<Rightarrow> string option \<Rightarrow> string \<Rightarrow> bool \<Rightarrow> string \<Rightarrow> string \<Rightarrow> (db, result_approval_row) op" where
  "approve_result sha now task_run_id occurrence event approved_by authorized occurred_at mode d =
    (if \<not> authorized then raise (PermissionError ''result approver permission could not be proven'') d
     else case parse_mode mode of
       None \<Rightarrow> raise (ValueError ''result approval mode is invalid'') d
     | Some m \<Rightarrow>
         if approved_by = [] \<or> (m = BY_HUMAN \<and> missing event)
         then raise (ValueError ''result approval identity is required'') d
         else case bindE (task d task_run_id) (\<lambda>t. interaction_mode d (tr_thread t)) of
           Inl e \<Rightarrow> raise e d
         | Inr im \<Rightarrow>
             if m \<noteq> expected_mode im then raise (PermissionError ''result approval is invalid for the mode'') d
             else and_then (commit d (bindE (owned_task d task_run_id WAITING_FOR_RESULT_APPROVAL)
                 (\<lambda>t. accept_result sha now t occurrence event approved_by occurred_at m d)))
               (\<lambda>aid d1. (result_approval d1 aid, d1)))"

definition auto_accept_result :: "digest \<Rightarrow> string \<Rightarrow> string \<Rightarrow> (db, result_approval_row) op" where
  "auto_accept_result sha now task_run_id d =
    (case current_result d task_run_id of
       None \<Rightarrow> raise (ValueError ''validated result is missing'') d
     | Some r \<Rightarrow>
         approve_result sha now task_run_id (re_occurrence r) None AUTO_POLICY True now ''AUTO'' d)"

definition result_feedback_entry :: "db \<Rightarrow> plan_row \<Rightarrow> result_row \<Rightarrow> string \<Rightarrow> string \<Rightarrow> repair_entry" where
  "result_feedback_entry d p r event_key feedback =
     Result_Feedback_Entry event_key (take 4000 (strip feedback)) (pl_text p)
       (case execution_of d (re_execution r) of None \<Rightarrow> [] | Some x \<Rightarrow> ex_summary x)
       (case validation_of d (re_validation r) of None \<Rightarrow> [] | Some v \<Rightarrow> va_summary v)
       (re_validation r) (re_execution r)"

definition replan_from_result_feedback :: "string \<Rightarrow> string \<Rightarrow> string \<Rightarrow> string \<Rightarrow> (db, task_row) op" where
  "replan_from_result_feedback now task_run_id event_key feedback d =
    (if event_key = [] \<or> blank feedback
     then raise (ValueError ''durable result feedback identity and text are required'') d
     else and_then (commit d (bindE (owned_task d task_run_id WAITING_FOR_RESULT_APPROVAL) (\<lambda>t.
       case (current_plan d t, current_result d task_run_id) of
         (Some p, Some r) \<Rightarrow>
           Inr ((), set_task task_run_id
             (\<lambda>u. (enter PLANNING now u)\<lparr>tr_feedback := tr_feedback t @ [result_feedback_entry d p r event_key feedback]\<rparr>)
             (invalidate_approvals now task_run_id
               (invalidate_permits now task_run_id (supersede_plan (Some (pl_id p)) d))))
       | _ \<Rightarrow> Inl (RuntimeError ''result feedback context is incomplete''))))
       (\<lambda>_ d1. (task d1 task_run_id, d1)))"

section \<open>Clarification\<close>

definition pause_for_clarification :: "string \<Rightarrow> string \<Rightarrow> string \<Rightarrow> (db, task_row) op" where
  "pause_for_clarification now task_run_id occurrence d =
    (case task d task_run_id of
       Inl e \<Rightarrow> raise e d
     | Inr t \<Rightarrow>
         if tr_phase t \<notin> {PLANNING, EXECUTING, VALIDATING}
         then raise (ValueError ''clarification is not valid in this phase'') d
         else and_then (commit d (bindE (owned_task d task_run_id (tr_phase t)) (\<lambda>_.
           Inr ((), set_task task_run_id
             (\<lambda>u. (enter WAITING_FOR_INPUT now u)
                \<lparr>tr_waiting := Some (tr_phase t), tr_clarification := Some occurrence\<rparr>) d))))
           (\<lambda>_ d1. (task d1 task_run_id, d1)))"

definition resume_clarification :: "string \<Rightarrow> string \<Rightarrow> string \<Rightarrow> (db, task_row) op" where
  "resume_clarification now task_run_id occurrence d =
     and_then (commit d (bindE (owned_task d task_run_id WAITING_FOR_INPUT) (\<lambda>t.
       if tr_clarification t \<noteq> Some occurrence
       then Inl (ValueError ''clarification interrupt occurrence is stale'')
       else case tr_waiting t of
         None \<Rightarrow> Inl (RuntimeError ''clarification origin phase is missing'')
       | Some p \<Rightarrow>
           Inr ((), set_task task_run_id
             (\<lambda>u. (enter p now u)\<lparr>tr_waiting := None, tr_clarification := None\<rparr>) d))))
       (\<lambda>_ d1. (task d1 task_run_id, d1))"

section \<open>Publication eligibility and failure\<close>

definition last_validation :: "db \<Rightarrow> string \<Rightarrow> validation_row option" where
  "last_validation d task_run_id = latest_by va_round (filter (\<lambda>v. va_task_run v = task_run_id) (validations d))"

definition task_publishable :: "digest \<Rightarrow> db \<Rightarrow> task_row \<Rightarrow> plan_row \<Rightarrow> approval_mode \<Rightarrow> bool" where
  "task_publishable sha d t p mode =
    (case (exact_execution d (tr_id t) (Some (pl_id p)) (tr_attempt t), last_validation d (tr_id t),
           find (\<lambda>m. pm_task_run m = tr_id t \<and> pm_plan m = pl_id p \<and> pm_version m = pl_version p
                     \<and> pm_digest m = pl_digest p \<and> pm_invalidated m = None) (permits d)) of
       (Some x, Some v, Some q) \<Rightarrow>
         (case find (\<lambda>r. re_task_run r = tr_id t \<and> re_plan r = pl_id p \<and> re_execution r = ex_id x
                         \<and> re_validation r = va_id v) (results d) of
            None \<Rightarrow> False
          | Some r \<Rightarrow>
              (case find (\<lambda>a. ra_result a = re_id r \<and> ra_invalidated a = None) (approvals d) of
                 None \<Rightarrow> False
               | Some a \<Rightarrow>
                   ex_succeeded x \<and> pm_mode q = mode \<and> ex_permit x = pm_id q \<and>
                   is_map (ex_evidence x) \<and> is_list (dget (items (ex_evidence x)) ''tool_observations'') \<and>
                   va_plan v = pl_id p \<and> va_attempt v = ex_attempt x \<and> va_verdict v = ACCEPT \<and>
                   is_map (va_evidence v) \<and>
                   elems (dget (items (va_evidence v)) ''validation_runs'') \<noteq> [] \<and>
                   ra_task_run a = tr_id t \<and> ra_plan a = pl_id p \<and> ra_execution a = ex_id x \<and>
                   ra_validation a = va_id v \<and> ra_occurrence a = re_occurrence r \<and> ra_mode a = mode))
     | _ \<Rightarrow> False)"

fun tasks_publishable :: "digest \<Rightarrow> db \<Rightarrow> task_row list \<Rightarrow> err + bool" where
  "tasks_publishable sha d [] = Inr True"
| "tasks_publishable sha d (t # ts) =
    (case tr_plan t of
       None \<Rightarrow> Inr False
     | Some k \<Rightarrow> bindE (plan d k) (\<lambda>p.
         if pl_status p \<noteq> APPROVED \<or> sha (strip (pl_text p)) \<noteq> pl_digest p then Inr False
         else bindE (interaction_mode d (tr_thread t)) (\<lambda>m.
           if task_publishable sha d t p (expected_mode m) then tasks_publishable sha d ts else Inr False)))"

definition publication_is_eligible :: "digest \<Rightarrow> db \<Rightarrow> string \<Rightarrow> err + bool" where
  "publication_is_eligible sha d workflow_cycle_id =
     bindE (cycle d workflow_cycle_id) (\<lambda>c.
       let ts = task_runs d workflow_cycle_id in
       if cy_status c \<noteq> C_AWAITING_PUBLICATION \<or> cy_active c \<noteq> None \<or> ts = []
          \<or> list_ex (\<lambda>t. tr_status t \<noteq> DONE) ts
       then Inr False
       else tasks_publishable sha d ts)"

definition fail_active_task :: "string \<Rightarrow> string \<Rightarrow> string \<Rightarrow> (db, cycle_row) op" where
  "fail_active_task now workflow_cycle_id reason d =
    (let stripped = take 1000 (strip reason);
         message = (if stripped = [] then ''workflow driver failed'' else stripped) in
     and_then (commit d
       (case cycle_of d workflow_cycle_id of
          None \<Rightarrow> Inl (ValueError ''unknown workflow cycle'')
        | Some c \<Rightarrow>
            if cy_status c = C_FAILED then Inr (Some c, d)
            else if cy_status c \<noteq> C_ACTIVE then Inl (ValueError ''only an active workflow cycle can fail'')
            else Inr (None, set_cycle workflow_cycle_id
              (\<lambda>c. c\<lparr>cy_status := C_FAILED, cy_failure := Some message\<rparr>)
              (case cy_active c of
                 None \<Rightarrow> d
               | Some k \<Rightarrow> d\<lparr>tasks := update_where (\<lambda>t. tr_cycle t = workflow_cycle_id \<and> tr_task t = k)
                   (\<lambda>t. (enter FAILED now t)\<lparr>tr_failure := Some message\<rparr>) (tasks d)\<rparr>))))
       (\<lambda>early d1. case early of
          Some c \<Rightarrow> return c d1 | None \<Rightarrow> (cycle d1 workflow_cycle_id, d1)))"

end
