(* ===== verification/Effects.thy ===== *)
theory Effects
  imports Lifecycle
begin

text \<open>
  What a successful transition of the runtime did: for every operation one lemma that recovers
  its guards and the exact database it left, and the rows of the evidence tables that belong
  to one task run with the simplification rules for every update.
\<close>

section \<open>Guards\<close>

lemma owned_task_iff:
  "owned_task d k p = Inr t \<longleftrightarrow> task_of d k = Some t \<and> tr_phase t = p \<and>
     (\<exists>c. cycle_of d (tr_cycle t) = Some c \<and> cy_status c = C_ACTIVE \<and> cy_active c = Some (tr_task t))"
  by (auto simp: owned_task_def split: option.splits)

lemma task_iff: "task d k = Inr t \<longleftrightarrow> task_of d k = Some t"
  by (simp add: task_def split: option.split)

lemma cycle_iff: "cycle d k = Inr c \<longleftrightarrow> cycle_of d k = Some c"
  by (simp add: cycle_def split: option.split)

lemma plan_iff: "plan d k = Inr p \<longleftrightarrow> plan_of d k = Some p"
  by (simp add: plan_def split: option.split)

lemma permit_iff: "permit d k = Inr p \<longleftrightarrow> permit_of d k = Some p"
  by (simp add: permit_def split: option.split)

lemma result_iff: "result d k = Inr r \<longleftrightarrow> result_of d k = Some r"
  by (simp add: result_def split: option.split)

lemma result_approval_iff: "result_approval d k = Inr a \<longleftrightarrow> approval_of d k = Some a"
  by (simp add: result_approval_def split: option.split)

lemma posted_plan_iff:
  "posted_plan d t = Inr p \<longleftrightarrow> (\<exists>k. tr_plan t = Some k \<and> plan_of d k = Some p) \<and> pl_status p = POSTED"
  by (auto simp: posted_plan_def current_plan_def split: option.splits if_splits)

lemmas guard_iffs =
  owned_task_iff task_iff cycle_iff plan_iff permit_iff result_iff result_approval_iff posted_plan_iff

lemmas unwind_op = and_then_return_iff commit_return_iff bindE_Inr_iff

section \<open>The rows of one task run\<close>

abbreviation plans_of :: "db \<Rightarrow> string \<Rightarrow> plan_row list" where
  "plans_of d k \<equiv> filter (\<lambda>p. pl_task_run p = k) (plans d)"
abbreviation permits_of :: "db \<Rightarrow> string \<Rightarrow> permit_row list" where
  "permits_of d k \<equiv> filter (\<lambda>p. pm_task_run p = k) (permits d)"
abbreviation executions_of :: "db \<Rightarrow> string \<Rightarrow> execution_row list" where
  "executions_of d k \<equiv> filter (\<lambda>x. ex_task_run x = k) (executions d)"
abbreviation validations_of :: "db \<Rightarrow> string \<Rightarrow> validation_row list" where
  "validations_of d k \<equiv> filter (\<lambda>v. va_task_run v = k) (validations d)"
abbreviation results_of :: "db \<Rightarrow> string \<Rightarrow> result_row list" where
  "results_of d k \<equiv> filter (\<lambda>r. re_task_run r = k) (results d)"
abbreviation approvals_of :: "db \<Rightarrow> string \<Rightarrow> result_approval_row list" where
  "approvals_of d k \<equiv> filter (\<lambda>a. ra_task_run a = k) (approvals d)"
abbreviation cycle_tasks :: "db \<Rightarrow> string \<Rightarrow> task_row list" where
  "cycle_tasks d k \<equiv> filter (\<lambda>t. tr_cycle t = k) (tasks d)"

lemma filter_update_other:
  assumes "\<And>r. r \<in> set rows \<Longrightarrow> p r \<Longrightarrow> \<not> q r" and "\<And>r. r \<in> set rows \<Longrightarrow> p r \<Longrightarrow> \<not> q (f r)"
  shows "filter q (update_where p f rows) = filter q rows"
  using assms by (induction rows) (auto simp: update_where_def)

lemma filter_update:
  assumes "\<And>r. q (f r) = q r"
  shows "filter q (update_where p f rows) = update_where p f (filter q rows)"
  using assms by (induction rows) (auto simp: update_where_def)

section \<open>Inserts and successful transitions\<close>

lemma insert_plan_iff:
  "insert_plan r d = Inr d' \<longleftrightarrow> d' = d\<lparr>plans := plans d @ [r]\<rparr> \<and> pl_id r \<notin> pl_id ` set (plans d) \<and>
     pl_occurrence r \<notin> pl_occurrence ` set (plans d) \<and>
     (pl_task_run r, pl_version r) \<notin> (\<lambda>p. (pl_task_run p, pl_version p)) ` set (plans d) \<and>
     pl_task_run r \<in> tr_id ` set (tasks d) \<and> pl_cycle r \<in> cy_id ` set (cycles d)"
  unfolding insert_plan_def by (auto simp del: image_eqI)

lemma insert_execution_iff:
  "insert_execution r d = Inr d' \<longleftrightarrow> d' = d\<lparr>executions := executions d @ [r]\<rparr> \<and>
     ex_id r \<notin> ex_id ` set (executions d) \<and>
     (ex_task_run r, ex_attempt r) \<notin> (\<lambda>x. (ex_task_run x, ex_attempt x)) ` set (executions d) \<and>
     ex_task_run r \<in> tr_id ` set (tasks d) \<and> ex_cycle r \<in> cy_id ` set (cycles d) \<and>
     ex_plan r \<in> pl_id ` set (plans d) \<and> ex_permit r \<in> pm_id ` set (permits d)"
  unfolding insert_execution_def by (auto simp del: image_eqI)

lemma insert_validation_iff:
  "insert_validation r d = Inr d' \<longleftrightarrow> d' = d\<lparr>validations := validations d @ [r]\<rparr> \<and>
     va_id r \<notin> va_id ` set (validations d) \<and>
     (va_task_run r, va_round r) \<notin> (\<lambda>v. (va_task_run v, va_round v)) ` set (validations d) \<and>
     va_task_run r \<in> tr_id ` set (tasks d) \<and> va_cycle r \<in> cy_id ` set (cycles d) \<and>
     va_plan r \<in> pl_id ` set (plans d)"
  unfolding insert_validation_def by (auto simp del: image_eqI)

text \<open>\<open>INSERT OR IGNORE\<close>: the row is new, or the database is unchanged.\<close>

lemma insert_permit_iff:
  "insert_permit r d = Inr d' \<longleftrightarrow>
     (d' = d \<and> pm_id r \<in> pm_id ` set (permits d)) \<or>
     (d' = d\<lparr>permits := permits d @ [r]\<rparr> \<and> pm_id r \<notin> pm_id ` set (permits d) \<and>
      pm_task_run r \<in> tr_id ` set (tasks d) \<and> pm_cycle r \<in> cy_id ` set (cycles d) \<and>
      pm_plan r \<in> pl_id ` set (plans d))"
  unfolding insert_permit_def by (auto simp del: image_eqI)

lemma insert_result_iff:
  "insert_result r d = Inr d' \<longleftrightarrow>
     (d' = d \<and> (re_id r \<in> re_id ` set (results d) \<or> re_occurrence r \<in> re_occurrence ` set (results d) \<or>
        (re_task_run r, re_validation r) \<in> (\<lambda>x. (re_task_run x, re_validation x)) ` set (results d))) \<or>
     (d' = d\<lparr>results := results d @ [r]\<rparr> \<and> re_id r \<notin> re_id ` set (results d) \<and>
      re_occurrence r \<notin> re_occurrence ` set (results d) \<and>
      (re_task_run r, re_validation r) \<notin> (\<lambda>x. (re_task_run x, re_validation x)) ` set (results d) \<and>
      re_task_run r \<in> tr_id ` set (tasks d) \<and> re_cycle r \<in> cy_id ` set (cycles d) \<and>
      re_plan r \<in> pl_id ` set (plans d) \<and> re_execution r \<in> ex_id ` set (executions d) \<and>
      re_validation r \<in> va_id ` set (validations d))"
  unfolding insert_result_def by (auto simp del: image_eqI)

lemma insert_approval_iff:
  "insert_approval r d = Inr d' \<longleftrightarrow>
     (d' = d \<and> (ra_id r \<in> ra_id ` set (approvals d) \<or> ra_result r \<in> ra_result ` set (approvals d))) \<or>
     (d' = d\<lparr>approvals := approvals d @ [r]\<rparr> \<and> ra_id r \<notin> ra_id ` set (approvals d) \<and>
      ra_result r \<notin> ra_result ` set (approvals d) \<and> ra_result r \<in> re_id ` set (results d) \<and>
      ra_task_run r \<in> tr_id ` set (tasks d) \<and> ra_cycle r \<in> cy_id ` set (cycles d) \<and>
      ra_plan r \<in> pl_id ` set (plans d) \<and> ra_execution r \<in> ex_id ` set (executions d) \<and>
      ra_validation r \<in> va_id ` set (validations d))"
  unfolding insert_approval_def by (auto simp del: image_eqI)

lemma insert_cycle_iff:
  "insert_cycle r d = Inr d' \<longleftrightarrow> d' = d\<lparr>cycles := cycles d @ [r]\<rparr> \<and> cy_id r \<notin> cy_id ` set (cycles d) \<and>
     (cy_thread r, cy_cycle_id r) \<notin> (\<lambda>c. (cy_thread c, cy_cycle_id c)) ` set (cycles d) \<and>
     cy_thread r \<in> th_id ` set (threads d)"
  unfolding insert_cycle_def by (auto simp del: image_eqI)

lemma insert_task_iff:
  "insert_task r d = Inr d' \<longleftrightarrow> d' = d\<lparr>tasks := tasks d @ [r]\<rparr> \<and> tr_id r \<notin> tr_id ` set (tasks d) \<and>
     (tr_cycle r, tr_task r) \<notin> (\<lambda>t. (tr_cycle t, tr_task t)) ` set (tasks d) \<and>
     (tr_cycle r, tr_index r) \<notin> (\<lambda>t. (tr_cycle t, tr_index t)) ` set (tasks d) \<and>
     tr_cycle r \<in> cy_id ` set (cycles d) \<and> tr_thread r \<in> th_id ` set (threads d)"
  unfolding insert_task_def by (auto simp del: image_eqI)

lemmas insert_iffs =
  insert_plan_iff insert_execution_iff insert_validation_iff insert_permit_iff insert_result_iff
  insert_approval_iff insert_cycle_iff insert_task_iff

lemma submit_effect:
  assumes "submit_posted_plan sha now k text cid at d = (Inr r, d')"
  obtains t p d1 where "owned_task d k PLANNING = Inr t"
    and "p = mk_plan sha t (next_plan_version d k) (strip text) cid at" "strip text \<noteq> []"
    and "insert_plan p (invalidate_permits now k (supersede_open_plans k d)) = Inr d1"
    and "d' = set_task k (\<lambda>t. (enter WAITING_FOR_PLAN_APPROVAL now t)\<lparr>tr_plan := Some (pl_id p)\<rparr>) d1"
    and "plan_of d' (pl_id p) = Some r"
  using assms
  by (auto simp: submit_posted_plan_def Let_def unwind_op plan_iff split: if_splits)

lemma authorize_effect:
  assumes "authorize_plan sha now t p ev by at mode d = Inr (k, d')"
  obtains d1 where "insert_permit (mk_permit sha now t p ev by mode)
        (d\<lparr>plans := update_where (\<lambda>q. pl_id q = pl_id p)
           (\<lambda>q. q\<lparr>pl_status := APPROVED, pl_approved_at := Some at, pl_approved_by := Some by,
              pl_approval_event := Some ev\<rparr>) (plans d)\<rparr>) = Inr d1"
    and "d' = set_task (tr_id t) (enter EXECUTING now) d1" and "k = pm_id (mk_permit sha now t p ev by mode)"
  using assms by (auto simp: authorize_plan_def unwind_op mk_permit_def)

lemma approve_plan_effect:
  assumes "approve_plan sha now k occ ev by auth at d = (Inr q, d')"
  obtains t p pid where "auth" "ev \<noteq> []" "by \<noteq> []" "interaction_mode d (tr_thread t) = Inr MANUAL"
    and "owned_task d k WAITING_FOR_PLAN_APPROVAL = Inr t" "posted_plan d t = Inr p"
    and "pl_occurrence p = occ" "pl_posted_at p < at"
    and "authorize_plan sha now t p ev by at BY_HUMAN d = Inr (pid, d')" "permit_of d' pid = Some q"
proof -
  from assms obtain t0 m t p pid where *: "auth" "ev \<noteq> []" "by \<noteq> []" "task d k = Inr t0"
    "interaction_mode d (tr_thread t0) = Inr m" "m = MANUAL"
    "owned_task d k WAITING_FOR_PLAN_APPROVAL = Inr t" "posted_plan d t = Inr p"
    "pl_occurrence p = occ" "pl_posted_at p < at"
    "authorize_plan sha now t p ev by at BY_HUMAN d = Inr (pid, d')" "permit d' pid = Inr q"
    by (auto simp: approve_plan_def unwind_op not_le split: if_splits sum.splits)
  then have "t0 = t" by (simp add: guard_iffs)
  with * that show thesis by (simp add: permit_iff)
qed

lemma auto_authorize_effect:
  assumes "auto_authorize_plan sha now k d = (Inr q, d')"
  obtains t p pid where "interaction_mode d (tr_thread t) = Inr AUTO"
    and "owned_task d k WAITING_FOR_PLAN_APPROVAL = Inr t" "posted_plan d t = Inr p"
    and "authorize_plan sha now t p (auto_authority p) AUTO_POLICY now BY_AUTO d = Inr (pid, d')"
    and "permit_of d' pid = Some q"
proof -
  from assms obtain t0 m t p pid where *: "task d k = Inr t0"
    "interaction_mode d (tr_thread t0) = Inr m" "m = AUTO"
    "owned_task d k WAITING_FOR_PLAN_APPROVAL = Inr t" "posted_plan d t = Inr p"
    "authorize_plan sha now t p (auto_authority p) AUTO_POLICY now BY_AUTO d = Inr (pid, d')"
    "permit d' pid = Inr q"
    by (auto simp: auto_authorize_plan_def unwind_op split: if_splits sum.splits)
  then have "t0 = t" by (simp add: guard_iffs)
  with * that show thesis by (simp add: permit_iff)
qed

lemma replan_feedback_effect:
  assumes "replan_from_feedback now k d = (Inr r, d')"
  obtains t where "owned_task d k WAITING_FOR_PLAN_APPROVAL = Inr t"
    and "d' = set_task k (enter PLANNING now) (invalidate_permits now k (supersede_plan (tr_plan t) d))"
  using assms by (auto simp: replan_from_feedback_def unwind_op)

lemma replan_revision_effect:
  assumes "replan_for_revision_inputs now k ids d = (Inr r, d')"
  obtains t p where "owned_task d k p = Inr t" "p \<in> {WAITING_FOR_PLAN_APPROVAL, WAITING_FOR_RESULT_APPROVAL}"
    and "d' = set_task k (\<lambda>u. (enter PLANNING now u)
        \<lparr>tr_feedback := tr_feedback t @ [Queued_Revision_Inputs ids (tr_phase t)]\<rparr>)
      (invalidate_approvals now k (invalidate_permits now k (supersede_plan (tr_plan t) d)))"
proof -
  from assms obtain t c where "task_of d k = Some t" "cycle_of d (tr_cycle t) = Some c"
    "cy_status c = C_ACTIVE" "cy_active c = Some (tr_task t)"
    "tr_phase t \<in> {WAITING_FOR_PLAN_APPROVAL, WAITING_FOR_RESULT_APPROVAL}"
    "d' = set_task k (\<lambda>u. (enter PLANNING now u)
        \<lparr>tr_feedback := tr_feedback t @ [Queued_Revision_Inputs ids (tr_phase t)]\<rparr>)
      (invalidate_approvals now k (invalidate_permits now k (supersede_plan (tr_plan t) d)))"
    by (auto simp: replan_for_revision_inputs_def unwind_op task_iff split: if_splits option.splits)
  with that show thesis by (auto simp: owned_task_iff)
qed

lemma live_permit_SomeD:
  "live_permit_for d k p = Some q \<Longrightarrow> q \<in> set (permits_of d k) \<and> pm_plan q = pl_id p \<and>
     pm_version q = pl_version p \<and> pm_digest q = pl_digest p \<and> pm_invalidated q = None"
  using latest_by_SomeD by (force simp: live_permit_for_def)

lemma finish_execution_effect:
  assumes "finish_execution sha now k summary evidence d = (Inr r, d')"
  obtains t p q d1 where "owned_task d k EXECUTING = Inr t" "tr_plan t = Some (pl_id p)"
    and "plan_of d (pl_id p) = Some p" "pl_status p = APPROVED" "live_permit_for d k p = Some q"
    and "insert_execution (mk_execution sha now t (pl_id p) q summary evidence) d = Inr d1"
    and "d' = set_task k (\<lambda>u. (enter VALIDATING now u)\<lparr>tr_attempt := Suc (tr_attempt t)\<rparr>) d1"
proof -
  from assms obtain q t k' d1 where a: "assert_execution_authorized d k = Inr q"
    and o: "owned_task d k EXECUTING = Inr t" and k': "tr_plan t = Some k'"
    and i: "insert_execution (mk_execution sha now t k' q summary evidence) d = Inr d1"
    and d': "d' = set_task k (\<lambda>u. (enter VALIDATING now u)\<lparr>tr_attempt := Suc (tr_attempt t)\<rparr>) d1"
    by (auto simp: finish_execution_def unwind_op split: if_splits sum.splits option.splits)
  from o have t: "task_of d k = Some t" by (simp add: owned_task_iff)
  with a k' obtain p where p: "plan_of d k' = Some p" "pl_status p = APPROVED" "live_permit_for d k p = Some q"
    by (auto simp: assert_execution_authorized_def unwind_op guard_iffs split: if_splits option.splits)
  then have "pl_id p = k'" by auto
  with that [OF o _ _ p(2,3) _ d'] p k' i show thesis by simp
qed

lemma record_validation_effect:
  assumes "record_validation sha now t v summary findings repairs evidence d = Inr (early, d')"
  obtains "early = Some t" "d' = d" | pid d1 where "early = None" "tr_plan t = Some pid"
    and "latest_validation d (tr_id t) (Some pid) (tr_attempt t) = None"
    and "insert_validation (mk_validation sha t pid v summary findings repairs evidence) d = Inr d1"
    and "d' = set_task (tr_id t) (\<lambda>u. (enter (verdict_phase v) now u)
        \<lparr>tr_round := Suc (tr_round t), tr_feedback := tr_feedback t @ verdict_feedback summary repairs v,
         tr_failure := (if v = BLOCKED then Some (strip summary) else None)\<rparr>)
      (verdict_effect now t summary v d1)"
  using assms unfolding record_validation_def
  by (auto simp: bindE_Inr_iff split: if_split_asm option.split_asm)

lemma finish_validation_effect:
  assumes "finish_validation sha now guard k v summary findings repairs evidence d = (Inr r, d')"
  obtains t early where "owned_task d k VALIDATING = Inr t" "\<not> blank summary" "is_map evidence"
    and "items evidence \<noteq> []" "guard (validation_payload v summary findings repairs evidence) = None"
    and "record_validation sha now t v summary findings repairs evidence d = Inr (early, d')"
proof -
  from assms have "\<not> blank summary \<and> is_map evidence \<and> items evidence \<noteq> [] \<and>
    guard (validation_payload v summary findings repairs evidence) = None \<and>
    (\<exists>t early. owned_task d k VALIDATING = Inr t \<and>
       record_validation sha now t v summary findings repairs evidence d = Inr (early, d'))"
    unfolding finish_validation_def
    by (auto simp: unwind_op split: if_split_asm option.split_asm)
  with that show thesis by blast
qed

lemma publish_result_effect:
  assumes "publish_validated_result sha now k cid at d = (Inr r, d')"
  obtains t pid v x d1 where "owned_task d k VALIDATING = Inr t" "tr_plan t = Some pid"
    and "latest_validation d k (Some pid) (tr_attempt t) = Some v"
    and "exact_execution d k (Some pid) (tr_attempt t) = Some x"
    and "va_verdict v = ACCEPT" "ex_succeeded x"
    and "insert_result (mk_result sha now t pid x v cid at) d = Inr d1"
    and "d' = set_task k (enter WAITING_FOR_RESULT_APPROVAL now) d1"
    and "result_of d' (re_id (mk_result sha now t pid x v cid at)) = Some r"
  using assms unfolding publish_validated_result_def
  by (simp add: and_then_return_iff commit_return_iff bindE_Inr_iff result_iff split: if_split_asm)
    (elim exE conjE, auto simp: unwind_op Let_def split: if_split_asm option.split_asm)

lemma accept_result_effect:
  assumes "accept_result sha now t occ ev by at m d = Inr (aid, d')"
  obtains r d1 b where "r \<in> set (results_of d (tr_id t))" "re_occurrence r = occ" "Some (re_plan r) = tr_plan t"
    and "map_option re_id (current_result d (tr_id t)) = Some (re_id r)"
    and "m = BY_HUMAN \<longrightarrow> re_posted_at r < at"
    and "b = mk_result_approval sha t r occ m ev by at" "insert_approval b d = Inr d1"
    and "d' = d1\<lparr>tasks := update_where (\<lambda>u. tr_id u = tr_id t) (enter DONE now) (tasks d1),
        cycles := update_where (\<lambda>c. cy_id c = tr_cycle t \<and> cy_active c = Some (tr_task t))
          (\<lambda>c. c\<lparr>cy_active := None\<rparr>) (cycles d1)\<rparr>"
    and "aid = ra_id b"
proof -
  from assms obtain r cur d1 where *:
    "find (\<lambda>r. re_task_run r = tr_id t \<and> re_occurrence r = occ) (results d) = Some r"
    "current_result d (tr_id t) = Some cur" "re_id r = re_id cur" "Some (re_plan r) = tr_plan t"
    "m = BY_HUMAN \<longrightarrow> re_posted_at r < at"
    "insert_approval (mk_result_approval sha t r occ m ev by at) d = Inr d1"
    "d' = d1\<lparr>tasks := update_where (\<lambda>u. tr_id u = tr_id t) (enter DONE now) (tasks d1),
        cycles := update_where (\<lambda>c. cy_id c = tr_cycle t \<and> cy_active c = Some (tr_task t))
          (\<lambda>c. c\<lparr>cy_active := None\<rparr>) (cycles d1)\<rparr>"
    "aid = ra_id (mk_result_approval sha t r occ m ev by at)"
    by (auto simp: accept_result_def unwind_op Let_def not_le split: option.splits if_splits)
  from *(1) have "r \<in> set (results_of d (tr_id t))" "re_occurrence r = occ" by (auto simp: find_Some_iff)
  with * show thesis by (intro that) simp_all
qed

lemma approve_result_effect:
  assumes "approve_result sha now k occ ev by auth at mode d = (Inr a, d')"
  obtains t m im aid where "auth" "parse_mode mode = Some m" "by \<noteq> []" "m = BY_HUMAN \<longrightarrow> \<not> missing ev"
    and "interaction_mode d (tr_thread t) = Inr im" "m = expected_mode im"
    and "owned_task d k WAITING_FOR_RESULT_APPROVAL = Inr t"
    and "accept_result sha now t occ ev by at m d = Inr (aid, d')" "approval_of d' aid = Some a"
proof -
  from assms obtain t0 m im t aid where *: "auth" "parse_mode mode = Some m" "by \<noteq> []"
    "m = BY_HUMAN \<longrightarrow> \<not> missing ev" "task d k = Inr t0" "interaction_mode d (tr_thread t0) = Inr im"
    "m = expected_mode im" "owned_task d k WAITING_FOR_RESULT_APPROVAL = Inr t"
    "accept_result sha now t occ ev by at m d = Inr (aid, d')" "result_approval d' aid = Inr a"
    by (auto simp: approve_result_def unwind_op split: if_splits option.splits sum.splits)
  then have "t0 = t" by (simp add: guard_iffs)
  with * show thesis by (intro that [of m t im aid]) (simp_all add: result_approval_iff)
qed

lemma replan_result_effect:
  assumes "replan_from_result_feedback now k ev feedback d = (Inr r, d')"
  obtains t and p :: plan_row and entry
  where "owned_task d k WAITING_FOR_RESULT_APPROVAL = Inr t" "tr_plan t = Some (pl_id p)"
    and "d' = set_task k (\<lambda>u. (enter PLANNING now u)\<lparr>tr_feedback := tr_feedback t @ [entry]\<rparr>)
      (invalidate_approvals now k (invalidate_permits now k (supersede_plan (Some (pl_id p)) d)))"
proof -
  from assms obtain t p entry where t: "owned_task d k WAITING_FOR_RESULT_APPROVAL = Inr t"
    and p: "current_plan d t = Some p"
    and d': "d' = set_task k (\<lambda>u. (enter PLANNING now u)\<lparr>tr_feedback := tr_feedback t @ [entry]\<rparr>)
      (invalidate_approvals now k (invalidate_permits now k (supersede_plan (Some (pl_id p)) d)))"
    unfolding replan_from_result_feedback_def
    by (simp add: and_then_return_iff commit_return_iff bindE_Inr_iff split: if_split_asm)
      (elim exE conjE, auto split: option.split_asm)
  from p have "tr_plan t = Some (pl_id p)" by (auto simp: current_plan_def split: option.split_asm)
  from that [OF t this d'] show thesis .
qed

lemma pause_effect:
  assumes "pause_for_clarification now k occ d = (Inr r, d')"
  obtains t p where "owned_task d k p = Inr t" "p \<in> {PLANNING, EXECUTING, VALIDATING}"
    and "d' = set_task k (\<lambda>u. (enter WAITING_FOR_INPUT now u)
        \<lparr>tr_waiting := Some p, tr_clarification := Some occ\<rparr>) d"
  using assms
  by (auto simp: pause_for_clarification_def unwind_op split: if_splits sum.splits)

lemma resume_effect:
  assumes "resume_clarification now k occ d = (Inr r, d')"
  obtains t p where "owned_task d k WAITING_FOR_INPUT = Inr t" "tr_waiting t = Some p"
    and "tr_clarification t = Some occ"
    and "d' = set_task k (\<lambda>u. (enter p now u)\<lparr>tr_waiting := None, tr_clarification := None\<rparr>) d"
  using assms
  by (auto simp: resume_clarification_def unwind_op split: if_splits option.splits)

lemma fail_effect:
  assumes "fail_active_task now k reason d = (Inr r, d')"
  obtains "d' = d" | c msg where "cycle_of d k = Some c" "cy_status c = C_ACTIVE"
    and "d' = set_cycle k (\<lambda>c. c\<lparr>cy_status := C_FAILED, cy_failure := Some msg\<rparr>)
      (case cy_active c of None \<Rightarrow> d
       | Some a \<Rightarrow> d\<lparr>tasks := update_where (\<lambda>t. tr_cycle t = k \<and> tr_task t = a)
           (\<lambda>t. (enter FAILED now t)\<lparr>tr_failure := Some msg\<rparr>) (tasks d)\<rparr>)"
  using assms
  by (auto simp: fail_active_task_def unwind_op Let_def split: if_splits option.splits)

end
