(* ===== verification/Machine.thy ===== *)
theory Machine
  imports Effects
begin

text \<open>
  The runtime as a transition system and what is true in every reachable database: the
  constraints between the tables, the serial ownership of a cycle by one task with its
  dependencies done, and the chain of evidence (plan, permit, execution, validation, result,
  approval) that each phase of a task presupposes.
\<close>

section \<open>Steps\<close>

text \<open>
  Changes outside the runtime: ingestion, the inbox and the outbox write other tables; the mode
  of a thread is fixed when the thread is created. \<open>INSERT OR IGNORE\<close> skips a row whose hashed
  identity is already taken; the steps below are those where the returned row is a new one,
  that is, where the truncated digests of two different identities do not collide.
\<close>

definition same_workflow :: "db \<Rightarrow> db \<Rightarrow> bool" where
  "same_workflow d d' = (cycles d' = cycles d \<and> tasks d' = tasks d \<and> plans d' = plans d \<and>
     permits d' = permits d \<and> executions d' = executions d \<and> validations d' = validations d \<and>
     results d' = results d \<and> approvals d' = approvals d \<and>
     (\<forall>k th. thread_of d k = Some th \<longrightarrow> (\<exists>th'. thread_of d' k = Some th' \<and> th_mode th' = th_mode th)))"

inductive runtime_step :: "digest \<Rightarrow> db \<Rightarrow> db \<Rightarrow> bool" for sha where
  step_other: "same_workflow d d' \<Longrightarrow> runtime_step sha d d'"
| step_initialize: "wf_spec sha known spec \<Longrightarrow>
    initialize_cycle sha now thread_id n root spec ref kind seq d = (r, d') \<Longrightarrow> runtime_step sha d d'"
| step_select: "select_active_task now c d = (r, d') \<Longrightarrow> runtime_step sha d d'"
| step_submit: "submit_posted_plan sha now k text cid at d = (Inr p, d') \<Longrightarrow> runtime_step sha d d'"
| step_approve: "approve_plan sha now k occ ev by auth at d = (Inr q, d') \<Longrightarrow> q \<notin> set (permits d) \<Longrightarrow>
    runtime_step sha d d'"
| step_auto_authorize: "auto_authorize_plan sha now k d = (Inr q, d') \<Longrightarrow> q \<notin> set (permits d) \<Longrightarrow>
    runtime_step sha d d'"
| step_replan_feedback: "replan_from_feedback now k d = (Inr t, d') \<Longrightarrow> runtime_step sha d d'"
| step_replan_revision: "replan_for_revision_inputs now k ids d = (Inr t, d') \<Longrightarrow> runtime_step sha d d'"
| step_finish_execution: "finish_execution sha now k summary evidence d = (Inr t, d') \<Longrightarrow> runtime_step sha d d'"
| step_finish_validation: "finish_validation sha now guard k v summary findings repairs evidence d = (Inr t, d') \<Longrightarrow>
    runtime_step sha d d'"
| step_publish_result: "publish_validated_result sha now k cid at d = (Inr r, d') \<Longrightarrow> r \<notin> set (results d) \<Longrightarrow>
    runtime_step sha d d'"
| step_approve_result: "approve_result sha now k occ ev' by auth at mode d = (Inr a, d') \<Longrightarrow>
    a \<notin> set (approvals d) \<Longrightarrow> runtime_step sha d d'"
| step_replan_result: "replan_from_result_feedback now k ev feedback d = (Inr t, d') \<Longrightarrow> runtime_step sha d d'"
| step_pause: "pause_for_clarification now k occ d = (Inr t, d') \<Longrightarrow> runtime_step sha d d'"
| step_resume: "resume_clarification now k occ d = (Inr t, d') \<Longrightarrow> runtime_step sha d d'"
| step_fail: "fail_active_task now c reason d = (Inr c', d') \<Longrightarrow> runtime_step sha d d'"
| step_published: "(\<And>c. p c \<Longrightarrow> cy_status c = C_AWAITING_PUBLICATION) \<Longrightarrow>
    d' = d\<lparr>cycles := update_where p (\<lambda>c. c\<lparr>cy_status := C_PUBLISHED\<rparr>) (cycles d)\<rparr> \<Longrightarrow> runtime_step sha d d'"

definition initial_db :: "db \<Rightarrow> bool" where
  "initial_db d = (cycles d = [] \<and> tasks d = [] \<and> plans d = [] \<and> permits d = [] \<and> executions d = [] \<and>
     validations d = [] \<and> results d = [] \<and> approvals d = [])"

section \<open>Constraints between the tables\<close>

definition ids_ok :: "db \<Rightarrow> bool" where
  "ids_ok d = (distinct (map cy_id (cycles d)) \<and> distinct (map tr_id (tasks d)) \<and>
     distinct (map (\<lambda>t. (tr_cycle t, tr_task t)) (tasks d)) \<and>
     distinct (map pl_id (plans d)) \<and> distinct (map pm_id (permits d)) \<and>
     distinct (map (\<lambda>x. (ex_task_run x, ex_attempt x)) (executions d)) \<and>
     distinct (map va_id (validations d)) \<and>
     distinct (map (\<lambda>v. (va_task_run v, va_round v)) (validations d)) \<and>
     distinct (map re_id (results d)) \<and>
     distinct (map (\<lambda>r. (re_task_run r, re_validation r)) (results d)) \<and>
     distinct (map ra_result (approvals d)))"

definition refs_ok :: "db \<Rightarrow> bool" where
  "refs_ok d = (set (map tr_cycle (tasks d)) \<subseteq> set (map cy_id (cycles d)) \<and>
     set (map pl_task_run (plans d)) \<subseteq> set (map tr_id (tasks d)) \<and>
     set (map pm_task_run (permits d)) \<subseteq> set (map tr_id (tasks d)) \<and>
     set (map ex_task_run (executions d)) \<subseteq> set (map tr_id (tasks d)) \<and>
     set (map va_task_run (validations d)) \<subseteq> set (map tr_id (tasks d)) \<and>
     set (map re_task_run (results d)) \<subseteq> set (map tr_id (tasks d)) \<and>
     set (map ra_task_run (approvals d)) \<subseteq> set (map tr_id (tasks d)) \<and>
     set (map cy_thread (cycles d)) \<subseteq> set (map th_id (threads d)))"

definition tables_ok :: "db \<Rightarrow> bool" where
  "tables_ok d = (ids_ok d \<and> refs_ok d)"

text \<open>Rows are determined by their keys.\<close>

lemma key_unique:
  assumes "tables_ok d"
  shows "p \<in> set (plans d) \<Longrightarrow> p' \<in> set (plans d) \<Longrightarrow> pl_id p = pl_id p' \<Longrightarrow> p = p'"
    and "q \<in> set (permits d) \<Longrightarrow> q' \<in> set (permits d) \<Longrightarrow> pm_id q = pm_id q' \<Longrightarrow> q = q'"
    and "x \<in> set (executions d) \<Longrightarrow> x' \<in> set (executions d) \<Longrightarrow> ex_task_run x = ex_task_run x' \<Longrightarrow>
      ex_attempt x = ex_attempt x' \<Longrightarrow> x = x'"
    and "v \<in> set (validations d) \<Longrightarrow> v' \<in> set (validations d) \<Longrightarrow> va_id v = va_id v' \<Longrightarrow> v = v'"
    and "v \<in> set (validations d) \<Longrightarrow> v' \<in> set (validations d) \<Longrightarrow> va_task_run v = va_task_run v' \<Longrightarrow>
      va_round v = va_round v' \<Longrightarrow> v = v'"
    and "r \<in> set (results d) \<Longrightarrow> r' \<in> set (results d) \<Longrightarrow> re_id r = re_id r' \<Longrightarrow> r = r'"
    and "r \<in> set (results d) \<Longrightarrow> r' \<in> set (results d) \<Longrightarrow> re_task_run r = re_task_run r' \<Longrightarrow>
      re_validation r = re_validation r' \<Longrightarrow> r = r'"
    and "a \<in> set (approvals d) \<Longrightarrow> a' \<in> set (approvals d) \<Longrightarrow> ra_result a = ra_result a' \<Longrightarrow> a = a'"
    and "t \<in> set (tasks d) \<Longrightarrow> t' \<in> set (tasks d) \<Longrightarrow> tr_id t = tr_id t' \<Longrightarrow> t = t'"
    and "t \<in> set (tasks d) \<Longrightarrow> t' \<in> set (tasks d) \<Longrightarrow> tr_cycle t = tr_cycle t' \<Longrightarrow> tr_task t = tr_task t' \<Longrightarrow> t = t'"
    and "c \<in> set (cycles d) \<Longrightarrow> c' \<in> set (cycles d) \<Longrightarrow> cy_id c = cy_id c' \<Longrightarrow> c = c'"
proof -
  have ids: "distinct (map pl_id (plans d))" "distinct (map pm_id (permits d))"
    "distinct (map (\<lambda>x. (ex_task_run x, ex_attempt x)) (executions d))" "distinct (map va_id (validations d))"
    "distinct (map (\<lambda>v. (va_task_run v, va_round v)) (validations d))" "distinct (map re_id (results d))"
    "distinct (map (\<lambda>r. (re_task_run r, re_validation r)) (results d))" "distinct (map ra_result (approvals d))"
    "distinct (map tr_id (tasks d))" "distinct (map (\<lambda>t. (tr_cycle t, tr_task t)) (tasks d))"
    "distinct (map cy_id (cycles d))"
    using assms unfolding tables_ok_def ids_ok_def by blast+
  note unique = ids [THEN unique_row]
  show "p \<in> set (plans d) \<Longrightarrow> p' \<in> set (plans d) \<Longrightarrow> pl_id p = pl_id p' \<Longrightarrow> p = p'" by (rule unique(1))
  show "q \<in> set (permits d) \<Longrightarrow> q' \<in> set (permits d) \<Longrightarrow> pm_id q = pm_id q' \<Longrightarrow> q = q'" by (rule unique(2))
  show "x \<in> set (executions d) \<Longrightarrow> x' \<in> set (executions d) \<Longrightarrow> ex_task_run x = ex_task_run x' \<Longrightarrow>
      ex_attempt x = ex_attempt x' \<Longrightarrow> x = x'" by (rule unique(3)) auto
  show "v \<in> set (validations d) \<Longrightarrow> v' \<in> set (validations d) \<Longrightarrow> va_id v = va_id v' \<Longrightarrow> v = v'" by (rule unique(4))
  show "v \<in> set (validations d) \<Longrightarrow> v' \<in> set (validations d) \<Longrightarrow> va_task_run v = va_task_run v' \<Longrightarrow>
      va_round v = va_round v' \<Longrightarrow> v = v'" by (rule unique(5)) auto
  show "r \<in> set (results d) \<Longrightarrow> r' \<in> set (results d) \<Longrightarrow> re_id r = re_id r' \<Longrightarrow> r = r'" by (rule unique(6))
  show "r \<in> set (results d) \<Longrightarrow> r' \<in> set (results d) \<Longrightarrow> re_task_run r = re_task_run r' \<Longrightarrow>
      re_validation r = re_validation r' \<Longrightarrow> r = r'" by (rule unique(7)) auto
  show "a \<in> set (approvals d) \<Longrightarrow> a' \<in> set (approvals d) \<Longrightarrow> ra_result a = ra_result a' \<Longrightarrow> a = a'" by (rule unique(8))
  show "t \<in> set (tasks d) \<Longrightarrow> t' \<in> set (tasks d) \<Longrightarrow> tr_id t = tr_id t' \<Longrightarrow> t = t'" by (rule unique(9))
  show "t \<in> set (tasks d) \<Longrightarrow> t' \<in> set (tasks d) \<Longrightarrow> tr_cycle t = tr_cycle t' \<Longrightarrow> tr_task t = tr_task t' \<Longrightarrow> t = t'"
    by (rule unique(10)) auto
  show "c \<in> set (cycles d) \<Longrightarrow> c' \<in> set (cycles d) \<Longrightarrow> cy_id c = cy_id c' \<Longrightarrow> c = c'" by (rule unique(11))
qed

text \<open>An update that keeps the key columns keeps the constraints; so does an insert.\<close>

lemma key_columns [simp]:
  "tr_id (enter p now t) = tr_id t" "tr_cycle (enter p now t) = tr_cycle t"
  "tr_task (enter p now t) = tr_task t" "tr_thread (enter p now t) = tr_thread t"
  "tr_index (enter p now t) = tr_index t" "tr_deps (enter p now t) = tr_deps t"
  "tr_phase (enter p now t) = p" "tr_status (enter p now t) = p" "tr_plan (enter p now t) = tr_plan t"
  "tr_attempt (enter p now t) = tr_attempt t" "tr_round (enter p now t) = tr_round t"
  "tr_waiting (enter p now t) = tr_waiting t" "tr_clarification (enter p now t) = tr_clarification t"
  by (simp_all add: enter_def)

lemmas tables_defs = tables_ok_def ids_ok_def refs_ok_def

lemma tables_set_task:
  assumes "\<And>t. tr_id (f t) = tr_id t" "\<And>t. tr_cycle (f t) = tr_cycle t" "\<And>t. tr_task (f t) = tr_task t"
  shows "tables_ok (set_task k f d) = tables_ok d"
  using assms by (simp add: tables_defs set_task_def map_update_where)

lemma tables_set_cycles:
  assumes "\<And>c. cy_id (f c) = cy_id c" "\<And>c. cy_thread (f c) = cy_thread c"
  shows "tables_ok (d\<lparr>cycles := update_where p f (cycles d)\<rparr>) = tables_ok d"
  using assms by (simp add: tables_defs map_update_where)

lemma tables_updates [simp]:
  "tables_ok (invalidate_permits now k d) = tables_ok d"
  "tables_ok (invalidate_approvals now k d) = tables_ok d"
  "tables_ok (supersede_plan pid d) = tables_ok d"
  "tables_ok (supersede_open_plans k d) = tables_ok d"
  by (simp_all add: tables_defs invalidate_permits_def invalidate_approvals_def supersede_plan_def
      supersede_open_plans_def map_update_where)

lemma tables_plan_update:
  assumes "\<And>p. pl_id (f p) = pl_id p" "\<And>p. pl_task_run (f p) = pl_task_run p"
  shows "tables_ok (d\<lparr>plans := update_where q f (plans d)\<rparr>) = tables_ok d"
  using assms by (simp add: tables_defs map_update_where)

lemma tables_insert_plan: "insert_plan p d = Inr d' \<Longrightarrow> tables_ok d \<Longrightarrow> tables_ok d'"
  by (simp add: insert_plan_iff tables_defs)

lemma tables_insert_permit: "insert_permit q d = Inr d' \<Longrightarrow> tables_ok d \<Longrightarrow> tables_ok d'"
  by (elim insert_permit_iff [THEN iffD1, elim_format] disjE conjE) (simp_all add: tables_defs)

lemma tables_insert_execution: "insert_execution x d = Inr d' \<Longrightarrow> tables_ok d \<Longrightarrow> tables_ok d'"
  by (simp add: insert_execution_iff tables_defs)

lemma tables_insert_validation: "insert_validation v d = Inr d' \<Longrightarrow> tables_ok d \<Longrightarrow> tables_ok d'"
  by (simp add: insert_validation_iff tables_defs)

lemma tables_insert_result: "insert_result r d = Inr d' \<Longrightarrow> tables_ok d \<Longrightarrow> tables_ok d'"
  by (elim insert_result_iff [THEN iffD1, elim_format] disjE conjE) (simp_all add: tables_defs)

lemma tables_insert_approval: "insert_approval a d = Inr d' \<Longrightarrow> tables_ok d \<Longrightarrow> tables_ok d'"
  by (elim insert_approval_iff [THEN iffD1, elim_format] disjE conjE) (simp_all add: tables_defs)

lemmas tables_insert =
  tables_insert_plan tables_insert_permit tables_insert_execution tables_insert_validation
  tables_insert_result tables_insert_approval

lemma tables_insert_cycle: "insert_cycle c d = Inr d' \<Longrightarrow> tables_ok d \<Longrightarrow> tables_ok d'"
  by (simp add: insert_cycle_iff tables_defs subset_insertI2)

lemma tables_insert_task: "insert_task t d = Inr d' \<Longrightarrow> tables_ok d \<Longrightarrow> tables_ok d'"
  by (simp add: insert_task_iff tables_defs subset_insertI2)

lemma tables_insert_tasks: "insert_tasks row i ts d = Inr d' \<Longrightarrow> tables_ok d \<Longrightarrow> tables_ok d'"
  by (induction row i ts d rule: insert_tasks.induct) (auto simp: bindE_Inr_iff dest: tables_insert_task)

end
