(* ===== verification/Ownership.thy ===== *)
theory Ownership
  imports Machine
begin

text \<open>
  Serial ownership: at most one cycle of a thread is active, an active cycle is worked on by
  at most one task, the one its pointer names, every started task had its dependencies done,
  and the tasks of a cycle are those of the specification persisted with it.
\<close>

section \<open>The invariant of one cycle\<close>

definition idle :: "task_row \<Rightarrow> bool" where
  "idle t = (tr_phase t \<in> {PENDING, DONE})"

definition busy :: "task_row \<Rightarrow> bool" where
  "busy t = (tr_phase t \<notin> {PENDING, DONE, FAILED})"

definition deps_done :: "task_row list \<Rightarrow> task_row \<Rightarrow> bool" where
  "deps_done ts t = (\<forall>k \<in> set (tr_deps t). \<exists>u \<in> set ts. tr_task u = k \<and> tr_phase u = DONE)"

definition carries_spec :: "digest \<Rightarrow> cycle_row \<Rightarrow> task_row list \<Rightarrow> bool" where
  "carries_spec sha c ts = (\<exists>known w. wf_spec sha known w \<and> cy_spec c = canonical_document w \<and>
     cy_workflow_id c = ws_workflow_id w \<and> cy_version c = ws_version w \<and> cy_digest c = ws_digest w \<and>
     map tr_task ts = map ts_id (ws_tasks w) \<and> map tr_deps ts = map ts_depends_on (ws_tasks w) \<and>
     map tr_index ts = [0..<length ts])"

definition owned_by_one :: "cycle_row \<Rightarrow> task_row list \<Rightarrow> bool" where
  "owned_by_one c ts =
    (case cy_status c of
       C_ACTIVE \<Rightarrow>
         (case cy_active c of
            None \<Rightarrow> \<forall>t \<in> set ts. idle t
          | Some k \<Rightarrow> (\<exists>t \<in> set ts. tr_task t = k) \<and>
                      (\<forall>t \<in> set ts. if tr_task t = k then busy t else idle t))
     | C_FAILED \<Rightarrow> \<forall>t \<in> set ts. idle t \<or> (tr_phase t = FAILED \<and> cy_active c = Some (tr_task t))
     | _ \<Rightarrow> cy_active c = None \<and> ts \<noteq> [] \<and> (\<forall>t \<in> set ts. tr_phase t = DONE))"

definition cycle_ok :: "digest \<Rightarrow> cycle_row \<Rightarrow> task_row list \<Rightarrow> bool" where
  "cycle_ok sha c ts = (carries_spec sha c ts \<and> owned_by_one c ts \<and>
     (\<forall>t \<in> set ts. tr_thread t = cy_thread c \<and> tr_status t = tr_phase t \<and>
        (tr_phase t \<noteq> PENDING \<longrightarrow> deps_done ts t)))"

definition one_active :: "db \<Rightarrow> bool" where
  "one_active d = (\<forall>c \<in> set (cycles d). \<forall>c' \<in> set (cycles d). cy_status c = C_ACTIVE \<longrightarrow>
     cy_status c' = C_ACTIVE \<longrightarrow> cy_thread c = cy_thread c' \<longrightarrow> c = c')"

definition ownership_ok :: "digest \<Rightarrow> db \<Rightarrow> bool" where
  "ownership_ok sha d = ((\<forall>c \<in> set (cycles d). cycle_ok sha c (cycle_tasks d (cy_id c))) \<and> one_active d)"

section \<open>Moves of the owner\<close>

text \<open>The columns that identify a task row and bind it to its cycle.\<close>

definition same_key :: "task_row \<Rightarrow> task_row \<Rightarrow> bool" where
  "same_key t u = (tr_id u = tr_id t \<and> tr_cycle u = tr_cycle t \<and> tr_thread u = tr_thread t \<and>
     tr_task u = tr_task t \<and> tr_index u = tr_index t \<and> tr_deps u = tr_deps t)"

lemma same_key_enter [simp]: "same_key t (enter p now t)"
  by (simp add: same_key_def)

lemma map_rows:
  assumes "\<And>t. same_key t (f t)"
  shows "map tr_task (update_where p f ts) = map tr_task ts"
    and "map tr_deps (update_where p f ts) = map tr_deps ts"
    and "map tr_index (update_where p f ts) = map tr_index ts"
    and "map tr_id (update_where p f ts) = map tr_id ts"
    and "map tr_cycle (update_where p f ts) = map tr_cycle ts"
    and "filter (\<lambda>t. tr_cycle t = k) (update_where p f ts) = update_where p f (filter (\<lambda>t. tr_cycle t = k) ts)"
  using assms by (auto simp: same_key_def intro!: map_update_where filter_update)

lemma carries_spec_update:
  assumes "\<And>t. same_key t (f t)" and "cy_spec c' = cy_spec c" "cy_workflow_id c' = cy_workflow_id c"
    "cy_version c' = cy_version c" "cy_digest c' = cy_digest c"
  shows "carries_spec sha c' (update_where p f ts) = carries_spec sha c ts"
  using assms(2-5) by (simp add: carries_spec_def map_rows [OF assms(1)])

lemma deps_done_update:
  assumes "deps_done ts t" and "\<And>t. same_key t (f t)"
    and "\<And>t. t \<in> set ts \<Longrightarrow> p t \<Longrightarrow> tr_phase t = DONE \<Longrightarrow> tr_phase (f t) = DONE"
  shows "deps_done (update_where p f ts) (f t)" "deps_done (update_where p f ts) t"
proof -
  have "\<exists>u' \<in> set (update_where p f ts). tr_task u' = k \<and> tr_phase u' = DONE"
    if "k \<in> set (tr_deps t)" for k
  proof -
    from that assms(1) obtain u where u: "u \<in> set ts" "tr_task u = k" "tr_phase u = DONE"
      by (auto simp: deps_done_def)
    let ?u = "if p u then f u else u"
    have "?u \<in> set (update_where p f ts)" using u(1) by (auto simp: set_update_where)
    moreover have "tr_task ?u = k" "tr_phase ?u = DONE"
      using u assms(2) [of u] assms(3) by (auto simp: same_key_def)
    ultimately show ?thesis by blast
  qed
  then show "deps_done (update_where p f ts) t" by (auto simp: deps_done_def)
  moreover have "tr_deps (f t) = tr_deps t" using assms(2) by (simp add: same_key_def)
  ultimately show "deps_done (update_where p f ts) (f t)" by (simp add: deps_done_def)
qed

text \<open>
  The one shape of every change to a cycle and its tasks: the rows selected by \<open>p\<close> change their
  phase, and the cycle changes its status or its pointer.
\<close>

lemma cycle_ok_update:
  assumes ok: "cycle_ok sha c ts" and key: "\<And>t. same_key t (f t)"
    and cyc: "cy_spec c' = cy_spec c" "cy_workflow_id c' = cy_workflow_id c" "cy_version c' = cy_version c"
      "cy_digest c' = cy_digest c" "cy_thread c' = cy_thread c"
    and st: "\<And>t. t \<in> set ts \<Longrightarrow> p t \<Longrightarrow> tr_status (f t) = tr_phase (f t)"
    and keep: "\<And>t. t \<in> set ts \<Longrightarrow> p t \<Longrightarrow> tr_phase t = DONE \<Longrightarrow> tr_phase (f t) = DONE"
    and deps: "\<And>t. t \<in> set ts \<Longrightarrow> p t \<Longrightarrow> tr_phase (f t) \<noteq> PENDING \<Longrightarrow> deps_done ts t"
    and own: "owned_by_one c' (update_where p f ts)"
  shows "cycle_ok sha c' (update_where p f ts)"
proof -
  have "tr_thread u = cy_thread c' \<and> tr_status u = tr_phase u \<and>
      (tr_phase u \<noteq> PENDING \<longrightarrow> deps_done (update_where p f ts) u)"
    if u: "u \<in> set (update_where p f ts)" for u
  proof -
    obtain t where t: "t \<in> set ts" "u = (if p t then f t else t)" using u by (auto simp: set_update_where)
    have old: "tr_thread t = cy_thread c" "tr_status t = tr_phase t" "tr_phase t \<noteq> PENDING \<longrightarrow> deps_done ts t"
      using ok t(1) by (auto simp: cycle_ok_def)
    have f: "tr_thread (f t) = tr_thread t" "deps_done xs (f t) = deps_done xs t" for xs
      using key [of t] by (auto simp: same_key_def deps_done_def)
    have "deps_done (update_where p f ts) t" if "deps_done ts t"
      using that key keep by (rule deps_done_update)
    with t old cyc(5) st deps f show ?thesis by auto
  qed
  with ok own show ?thesis
    by (simp add: cycle_ok_def carries_spec_update [OF key cyc(1-4)])
qed

text \<open>Lifting to the database: one cycle and some of its tasks change.\<close>

lemma ownership_update:
  assumes tab: "tables_ok d" and ok: "ownership_ok sha d" and c: "cycle_of d cid = Some c"
    and cs: "cycles d' = update_where (\<lambda>x. cy_id x = cid) g (cycles d)"
    and ts: "tasks d' = update_where p f (tasks d)" and p: "\<And>t. p t \<Longrightarrow> tr_cycle t = cid"
    and key: "\<And>t. same_key t (f t)"
    and g: "\<And>x. cy_id (g x) = cy_id x" "\<And>x. cy_thread (g x) = cy_thread x"
      "cy_status (g c) = C_ACTIVE \<Longrightarrow> cy_status c = C_ACTIVE"
    and new: "cycle_ok sha (g c) (update_where p f (cycle_tasks d cid))"
  shows "ownership_ok sha d'"
proof -
  have cid: "cy_id c = cid" "c \<in> set (cycles d)" using c by auto
  have uniq: "x = c" if "x \<in> set (cycles d)" "cy_id x = cid" for x
    using tab that cid unique_row by (metis (no_types, lifting) tables_ok_def ids_ok_def)
  have mem: "x \<in> set (cycles d') \<longleftrightarrow> (\<exists>y \<in> set (cycles d). x = (if cy_id y = cid then g y else y))" for x
    by (simp only: cs mem_update_where)
  have tasks: "cycle_tasks d' k = (if k = cid then update_where p f (cycle_tasks d cid) else cycle_tasks d k)" for k
    using p key unfolding ts
    by (auto simp: same_key_def intro!: filter_update filter_update_other)
  have old: "\<exists>y \<in> set (cycles d). cy_thread x = cy_thread y \<and> (cy_status x = C_ACTIVE \<longrightarrow> cy_status y = C_ACTIVE) \<and>
      x = (if cy_id y = cid then g y else y)" if "x \<in> set (cycles d')" for x
  proof -
    from that mem obtain y where y: "y \<in> set (cycles d)" "x = (if cy_id y = cid then g y else y)" by blast
    then show ?thesis using g uniq [OF y(1)] by (intro bexI [of _ y]) auto
  qed
  have "cycle_ok sha x (cycle_tasks d' (cy_id x))" if "x \<in> set (cycles d')" for x
  proof -
    from old [OF that] obtain y where y: "y \<in> set (cycles d)" "x = (if cy_id y = cid then g y else y)" by blast
    show ?thesis
    proof (cases "cy_id y = cid")
      case True
      with y uniq g cid new show ?thesis unfolding tasks by simp
    next
      case False
      with y ok show ?thesis unfolding tasks by (simp add: ownership_ok_def)
    qed
  qed
  moreover have "x = x'" if "x \<in> set (cycles d')" "x' \<in> set (cycles d')" "cy_status x = C_ACTIVE"
    "cy_status x' = C_ACTIVE" "cy_thread x = cy_thread x'" for x x'
  proof -
    from old [OF that(1)] that(3) obtain y where y: "y \<in> set (cycles d)" "cy_thread x = cy_thread y"
      "cy_status y = C_ACTIVE" "x = (if cy_id y = cid then g y else y)" by blast
    from old [OF that(2)] that(4) obtain y' where y': "y' \<in> set (cycles d)" "cy_thread x' = cy_thread y'"
      "cy_status y' = C_ACTIVE" "x' = (if cy_id y' = cid then g y' else y')" by blast
    have "y = y'" using ok y y' that(5) by (simp add: ownership_ok_def one_active_def)
    with y y' show ?thesis by simp
  qed
  ultimately show ?thesis by (simp add: ownership_ok_def one_active_def)
qed

text \<open>What the ownership guard gives.\<close>

lemma owner_facts:
  assumes "tables_ok d" and "ownership_ok sha d" and "owned_task d k p = Inr t"
  obtains c where "cycle_of d (tr_cycle t) = Some c" "cy_status c = C_ACTIVE" "cy_active c = Some (tr_task t)"
    and "t \<in> set (cycle_tasks d (tr_cycle t))" "tr_id t = k" "tr_phase t = p" "busy t"
    and "cycle_ok sha c (cycle_tasks d (tr_cycle t))"
    and "\<And>u. u \<in> set (cycle_tasks d (tr_cycle t)) \<Longrightarrow> tr_task u = tr_task t \<longleftrightarrow> u = t"
    and "\<And>u. u \<in> set (tasks d) \<Longrightarrow> tr_id u = k \<longleftrightarrow> u = t"
proof -
  from assms(3) obtain c where c: "task_of d k = Some t" "tr_phase t = p" "cycle_of d (tr_cycle t) = Some c"
    "cy_status c = C_ACTIVE" "cy_active c = Some (tr_task t)"
    by (auto simp: owned_task_iff)
  have t: "t \<in> set (tasks d)" "tr_id t = k" using c(1) by auto
  have cid: "c \<in> set (cycles d)" "cy_id c = tr_cycle t" using c(3) by auto
  with assms(2) have ok: "cycle_ok sha c (cycle_tasks d (tr_cycle t))" by (auto simp: ownership_ok_def)
  have uid: "tr_id u = k \<longleftrightarrow> u = t" if "u \<in> set (tasks d)" for u
    using assms(1) that t unique_row [of tr_id "tasks d" u t] by (auto simp: tables_ok_def ids_ok_def)
  have utask: "tr_task u = tr_task t \<longleftrightarrow> u = t" if "u \<in> set (cycle_tasks d (tr_cycle t))" for u
    using assms(1) that t unique_row [of "\<lambda>t. (tr_cycle t, tr_task t)" "tasks d" u t]
    by (auto simp: tables_ok_def ids_ok_def)
  have mem: "t \<in> set (cycle_tasks d (tr_cycle t))" using t by simp
  with ok c(4,5) have "busy t" by (auto simp: cycle_ok_def owned_by_one_def)
  with that c ok uid utask mem t show thesis by blast
qed

text \<open>The owner moves to another working phase.\<close>

lemma ownership_move:
  assumes tab: "tables_ok d" and ok: "ownership_ok sha d" and own: "owned_task d k p = Inr t"
    and cs: "cycles d' = cycles d" and ts: "tasks d' = update_where (\<lambda>t. tr_id t = k) f (tasks d)"
    and key: "\<And>t. same_key t (f t)" and ph: "tr_status (f t) = tr_phase (f t)" "busy (f t)"
  shows "ownership_ok sha d'"
proof -
  obtain c where o: "cycle_of d (tr_cycle t) = Some c" "cy_status c = C_ACTIVE" "cy_active c = Some (tr_task t)"
    "t \<in> set (cycle_tasks d (tr_cycle t))" "tr_id t = k" "busy t" "cycle_ok sha c (cycle_tasks d (tr_cycle t))"
    "\<And>u. u \<in> set (cycle_tasks d (tr_cycle t)) \<Longrightarrow> tr_task u = tr_task t \<longleftrightarrow> u = t"
    "\<And>u. u \<in> set (tasks d) \<Longrightarrow> tr_id u = k \<longleftrightarrow> u = t"
    using owner_facts [OF tab ok own] by metis
  have sel: "update_where (\<lambda>t. tr_id t = k) f (tasks d) = update_where (\<lambda>u. tr_cycle u = tr_cycle t \<and> tr_id u = k) f (tasks d)"
    using o(9) by (auto simp: update_where_def)
  let ?ts = "cycle_tasks d (tr_cycle t)" and ?p = "\<lambda>u. tr_cycle u = tr_cycle t \<and> tr_id u = k"
  have phase: "tr_task (f t) = tr_task t" using key [of t] by (simp add: same_key_def)
  have "owned_by_one c (update_where ?p f ?ts)"
  proof -
    have "f t \<in> set (update_where ?p f ?ts)" using o(4,5) by (force simp: set_update_where)
    moreover have "if tr_task u = tr_task t then busy u else idle u" if "u \<in> set (update_where ?p f ?ts)" for u
    proof -
      obtain v where v: "v \<in> set ?ts" "u = (if ?p v then f v else v)" using \<open>u \<in> _\<close> by (auto simp: set_update_where)
      then have "?p v \<longleftrightarrow> v = t" using o(9) [of v] by auto
      with v phase ph(2) o(2,3,6,7,8) show ?thesis by (auto simp: cycle_ok_def owned_by_one_def)
    qed
    ultimately show ?thesis using o(2,3) phase by (auto simp: owned_by_one_def)
  qed
  moreover have "deps_done ?ts t" using o(4,6,7) by (auto simp: cycle_ok_def busy_def)
  moreover have "v = t" if "v \<in> set ?ts" "?p v" for v using that o(9) by auto
  ultimately have "cycle_ok sha c (update_where ?p f ?ts)"
    using o(6) ph(1) by (intro cycle_ok_update [OF o(7) key]) (auto simp: busy_def)
  moreover have "tasks d' = update_where ?p f (tasks d)" using ts sel by simp
  moreover have "cycles d' = update_where (\<lambda>x. cy_id x = tr_cycle t) (\<lambda>x. x) (cycles d)"
    by (simp add: cs update_where_def)
  ultimately show ?thesis
    by (intro ownership_update [OF tab ok o(1), where g = "\<lambda>x. x" and p = ?p and f = f]) (auto simp: key)
qed

text \<open>The owner leaves: its cycle is released with the task DONE, or fails with it.\<close>

lemma ownership_leave:
  assumes tab: "tables_ok d" and ok: "ownership_ok sha d" and own: "owned_task d k p = Inr t"
    and cs: "cycles d' = update_where (\<lambda>x. cy_id x = tr_cycle t) g (cycles d)"
    and ts: "tasks d' = update_where (\<lambda>t. tr_id t = k) f (tasks d)"
    and key: "\<And>t. same_key t (f t)" and st: "tr_status (f t) = tr_phase (f t)"
    and g: "\<And>x. cy_id (g x) = cy_id x" "\<And>x. cy_thread (g x) = cy_thread x"
      "\<And>x. cy_spec (g x) = cy_spec x" "\<And>x. cy_workflow_id (g x) = cy_workflow_id x"
      "\<And>x. cy_version (g x) = cy_version x" "\<And>x. cy_digest (g x) = cy_digest x"
    and kind: "\<And>c. cy_status c = C_ACTIVE \<Longrightarrow> cy_active c = Some (tr_task t) \<Longrightarrow>
      tr_phase (f t) = DONE \<and> cy_status (g c) = C_ACTIVE \<and> cy_active (g c) = None \<or>
      tr_phase (f t) = FAILED \<and> cy_status (g c) = C_FAILED \<and> cy_active (g c) = Some (tr_task t)"
  shows "ownership_ok sha d'"
proof -
  obtain c where o: "cycle_of d (tr_cycle t) = Some c" "cy_status c = C_ACTIVE" "cy_active c = Some (tr_task t)"
    "t \<in> set (cycle_tasks d (tr_cycle t))" "tr_id t = k" "busy t" "cycle_ok sha c (cycle_tasks d (tr_cycle t))"
    "\<And>u. u \<in> set (cycle_tasks d (tr_cycle t)) \<Longrightarrow> tr_task u = tr_task t \<longleftrightarrow> u = t"
    "\<And>u. u \<in> set (tasks d) \<Longrightarrow> tr_id u = k \<longleftrightarrow> u = t"
    using owner_facts [OF tab ok own] by metis
  let ?ts = "cycle_tasks d (tr_cycle t)" and ?p = "\<lambda>u. tr_cycle u = tr_cycle t \<and> tr_id u = k"
  have sel: "update_where (\<lambda>t. tr_id t = k) f (tasks d) = update_where ?p f (tasks d)"
    using o(9) by (auto simp: update_where_def)
  have phase: "tr_task (f t) = tr_task t" using key [of t] by (simp add: same_key_def)
  have only: "v = t" if "v \<in> set ?ts" "?p v" for v using that o(9) by auto
  have rest: "idle u" if "u \<in> set ?ts" "u \<noteq> t" for u
    using that o(2,3,7,8) by (auto simp: cycle_ok_def owned_by_one_def)
  have rows: "u = f t \<or> (idle u \<and> u \<in> set ?ts)" if "u \<in> set (update_where ?p f ?ts)" for u
  proof -
    obtain v where v: "v \<in> set ?ts" "u = (if ?p v then f v else v)" using \<open>u \<in> _\<close> by (auto simp: set_update_where)
    show ?thesis
    proof (cases "v = t")
      case True
      with v o(5) show ?thesis by simp
    next
      case False
      with v only rest show ?thesis by auto
    qed
  qed
  have "owned_by_one (g c) (update_where ?p f ?ts)"
    using kind [OF o(2,3)]
  proof
    assume "tr_phase (f t) = DONE \<and> cy_status (g c) = C_ACTIVE \<and> cy_active (g c) = None"
    moreover then have "idle (f t)" by (simp add: idle_def)
    ultimately show ?thesis using rows by (auto simp: owned_by_one_def)
  next
    assume "tr_phase (f t) = FAILED \<and> cy_status (g c) = C_FAILED \<and> cy_active (g c) = Some (tr_task t)"
    then show ?thesis using phase by (auto simp: owned_by_one_def dest!: rows)
  qed
  moreover have "deps_done ?ts t" using o(4,6,7) by (auto simp: cycle_ok_def busy_def)
  ultimately have "cycle_ok sha (g c) (update_where ?p f ?ts)"
    using o(6) st only by (intro cycle_ok_update [OF o(7) key]) (auto simp: busy_def g)
  moreover have "tasks d' = update_where ?p f (tasks d)" using ts sel by simp
  ultimately show ?thesis
    using o(2) by (intro ownership_update [OF tab ok o(1) cs, where p = ?p and f = f]) (auto simp: key g)
qed

section \<open>The scheduler and the other changes of a cycle\<close>

lemma task_runs_rows: "set (task_runs d k) = set (cycle_tasks d k)"
  by (simp add: task_runs_def)

lemma task_runs_eq:
  assumes "carries_spec sha c (cycle_tasks d k)"
  shows "task_runs d k = cycle_tasks d k"
proof -
  have "sorted (map tr_index (cycle_tasks d k))" using assms by (auto simp: carries_spec_def simp del: upt_Suc)
  then show ?thesis by (simp add: task_runs_def order_by_def sorted_sort_id sort_key_id_if_sorted)
qed

lemma carries_spec_nonempty: "carries_spec sha c ts \<Longrightarrow> ts \<noteq> []"
  by (auto simp: carries_spec_def wf_spec_def wf_tasks_def)

lemma eligible_deps_done:
  assumes "eligible rows t" and st: "\<And>t. t \<in> set rows \<Longrightarrow> tr_status t = tr_phase t"
  shows "deps_done rows t"
proof -
  have "\<exists>u \<in> set rows. tr_task u = k \<and> tr_phase u = DONE" if "k \<in> set (tr_deps t)" for k
  proof -
    from that assms(1) obtain u where u: "lookup tr_task k rows = Some u" "tr_status u = DONE"
      by (auto simp: eligible_def list_all_iff)
    then have "u \<in> set rows" "tr_task u = k" by auto
    with st u show ?thesis by force
  qed
  then show ?thesis by (simp add: deps_done_def)
qed

lemma insert_tasks_eq:
  "insert_tasks row i ts d = Inr d' \<Longrightarrow> d' = d\<lparr>tasks := tasks d @ map (\<lambda>(j, t). row j t) (enumerate i ts)\<rparr>"
proof (induction ts arbitrary: i d)
  case (Cons t ts)
  then obtain d1 where "insert_task (row i t) d = Inr d1" "insert_tasks row (Suc i) ts d1 = Inr d'"
    by (auto simp: bindE_Inr_iff)
  with Cons.IH [OF this(2)] show ?case by (simp add: insert_task_iff)
qed simp

text \<open>Lifecycle rows are outside the invariants.\<close>

lemma lifecycle_frame:
  "tables_ok (d\<lparr>lifecycles := ls\<rparr>) = tables_ok d" "ownership_ok sha (d\<lparr>lifecycles := ls\<rparr>) = ownership_ok sha d"
  by (simp_all add: tables_defs ownership_ok_def one_active_def)

lemma activate_frame:
  "activate_initial_workflow k c g d = (r, d') \<Longrightarrow> d' = d\<lparr>lifecycles := lifecycles d'\<rparr>"
  by (auto simp: activate_initial_workflow_def Let_def split: if_splits option.splits)

lemma initialize_effect:
  assumes "initialize_cycle sha now th n root spec ref kind seq d = (r, d')"
  obtains "d' = d" | d1 ls where "cy_status (new_cycle (workflow_cycle_id_for sha th n (ws_workflow_id spec)) th n root spec ref kind seq) = C_ACTIVE"
    and "\<forall>c \<in> set (cycles d). \<not> (cy_thread c = th \<and> cy_status c = C_ACTIVE)"
    and "insert_cycle (new_cycle (workflow_cycle_id_for sha th n (ws_workflow_id spec)) th n root spec ref kind seq) d = Inr d1"
    and "insert_tasks (new_task sha now (workflow_cycle_id_for sha th n (ws_workflow_id spec)) th n (ws_workflow_id spec))
      0 (ws_tasks spec) d1 = Inr (d'\<lparr>lifecycles := lifecycles d\<rparr>)"
proof -
  let ?id = "workflow_cycle_id_for sha th n (ws_workflow_id spec)"
  let ?t = "initialize_transaction sha now th n root spec ref kind seq d"
  show thesis
  proof (cases ?t)
    case (Inl e)
    with assms that show thesis by (simp add: initialize_cycle_def Let_def)
  next
    case (Inr x)
    obtain early d2 where x: "x = (early, d2)" by (cases x)
    show thesis
    proof (cases early)
      case (Some c)
      with Inr x assms have "d' = d2" by (simp add: initialize_cycle_def Let_def)
      moreover have "d2 = d" using Inr x Some
        by (auto simp: initialize_transaction_def Let_def bindE_Inr_iff split: option.splits if_splits)
      ultimately show thesis using that by simp
    next
      case None
      with Inr x obtain d1 where d1: "\<not> list_ex (\<lambda>c. cy_thread c = th \<and> cy_status c = C_ACTIVE) (cycles d)"
        "insert_cycle (new_cycle ?id th n root spec ref kind seq) d = Inr d1"
        "insert_tasks (new_task sha now ?id th n (ws_workflow_id spec)) 0 (ws_tasks spec) d1 = Inr d2"
        by (auto simp: initialize_transaction_def Let_def bindE_Inr_iff split: option.splits if_splits)
      have e: "d' = d2\<lparr>lifecycles := lifecycles d'\<rparr>"
      proof (cases "kind = INITIAL")
        case True
        obtain r' d3 where a: "activate_initial_workflow th ?id (ws_digest spec) d2 = (r', d3)"
          by (cases "activate_initial_workflow th ?id (ws_digest spec) d2")
        with assms Inr x None True have "d' = d3"
          by (cases r') (simp_all add: initialize_cycle_def Let_def)
        with activate_frame [OF a] show ?thesis by simp
      next
        case False
        with assms Inr x None have "d' = d2" by (simp add: initialize_cycle_def Let_def)
        then show ?thesis by simp
      qed
      have "lifecycles d = lifecycles d2"
        using d1(2) insert_tasks_eq [OF d1(3)] by (simp add: insert_cycle_iff)
      then have "d'\<lparr>lifecycles := lifecycles d\<rparr> = d2" by (subst e) simp
      with that(2) [OF _ _ d1(2)] d1 show thesis
        by (auto simp: list_ex_iff new_cycle_def)
    qed
  qed
qed

lemma new_cycle_fields [simp]:
  "cy_id (new_cycle i th n root spec ref kind seq) = i" "cy_thread (new_cycle i th n root spec ref kind seq) = th"
  "cy_status (new_cycle i th n root spec ref kind seq) = C_ACTIVE"
  "cy_active (new_cycle i th n root spec ref kind seq) = None"
  by (simp_all add: new_cycle_def)

lemma map_enumerate_snd: "map (\<lambda>(j, t). f t) (enumerate i ts) = map f ts"
  by (induction ts arbitrary: i) auto

lemma cycle_ok_new:
  assumes "wf_spec sha known spec"
  shows "cycle_ok sha (new_cycle i th n root spec ref kind seq)
    (map (\<lambda>(j, t). new_task sha now i th n (ws_workflow_id spec) j t) (enumerate 0 (ws_tasks spec)))"
proof -
  let ?ts = "map (\<lambda>(j, t). new_task sha now i th n (ws_workflow_id spec) j t) (enumerate 0 (ws_tasks spec))"
  have cols: "map tr_task ?ts = map ts_id (ws_tasks spec)" "map tr_deps ?ts = map ts_depends_on (ws_tasks spec)"
    "map tr_index ?ts = [0..<length ?ts]"
    by (simp_all add: new_task_def comp_def split_def map_enumerate_snd [unfolded split_def])
  have rows: "\<forall>t \<in> set ?ts. tr_phase t = PENDING \<and> tr_status t = PENDING \<and> tr_thread t = th"
    by (auto simp: new_task_def)
  have "carries_spec sha (new_cycle i th n root spec ref kind seq) ?ts"
    using assms cols unfolding carries_spec_def by (auto simp: new_cycle_def)
  then show ?thesis using rows by (auto simp: cycle_ok_def owned_by_one_def idle_def)
qed

lemma initialize_keeps:
  assumes wf: "wf_spec sha known spec"
    and step: "initialize_cycle sha now th n root spec ref kind seq d = (r, d')"
    and tab: "tables_ok d" and ok: "ownership_ok sha d"
  shows "tables_ok d' \<and> ownership_ok sha d'"
  using step
proof (rule initialize_effect)
  let ?id = "workflow_cycle_id_for sha th n (ws_workflow_id spec)"
  let ?c = "new_cycle ?id th n root spec ref kind seq"
  let ?ts = "map (\<lambda>(j, t). new_task sha now ?id th n (ws_workflow_id spec) j t) (enumerate 0 (ws_tasks spec))"
  let ?d = "d'\<lparr>lifecycles := lifecycles d\<rparr>"
  fix d1
  assume none: "\<forall>c \<in> set (cycles d). \<not> (cy_thread c = th \<and> cy_status c = C_ACTIVE)"
    and c: "insert_cycle ?c d = Inr d1"
    and t: "insert_tasks (new_task sha now ?id th n (ws_workflow_id spec)) 0 (ws_tasks spec) d1 = Inr ?d"
  have tab': "tables_ok ?d"
    using tables_insert_tasks [OF t tables_insert_cycle [OF c tab]] .
  have rows: "cycles d' = cycles d @ [?c]" "tasks d' = tasks d @ ?ts"
    using arg_cong [OF insert_tasks_eq [OF t], of cycles] arg_cong [OF insert_tasks_eq [OF t], of tasks] c
    by (simp_all add: insert_cycle_iff)
  have fresh: "?id \<notin> cy_id ` set (cycles d)" using c by (simp add: insert_cycle_iff)
  have "tr_cycle ` set (tasks d) \<subseteq> cy_id ` set (cycles d)" using tab by (simp add: tables_defs)
  with fresh have "tr_cycle t \<noteq> ?id" if "t \<in> set (tasks d)" for t using that by (metis imageI subsetD)
  then have "cycle_tasks d ?id = []" by (simp add: filter_empty_conv)
  moreover have "filter (\<lambda>t. tr_cycle t = k) ?ts = (if k = ?id then ?ts else [])" for k
    by (auto simp: filter_id_conv filter_empty_conv new_task_def)
  ultimately have ct: "cycle_tasks d' k = (if k = ?id then ?ts else cycle_tasks d k)" for k
    by (simp add: rows)
  have "cycle_ok sha x (cycle_tasks d' (cy_id x))" if "x \<in> set (cycles d')" for x
  proof -
    have "x \<in> set (cycles d) \<or> x = ?c" using that by (auto simp: rows)
    then show ?thesis
    proof
      assume x: "x \<in> set (cycles d)"
      with fresh have "cy_id x \<noteq> ?id" by (metis imageI)
      with ok x show ?thesis by (simp add: ct ownership_ok_def)
    next
      assume "x = ?c"
      with cycle_ok_new [OF wf] show ?thesis by (simp add: ct)
    qed
  qed
  moreover have "one_active d'"
    using ok none unfolding one_active_def ownership_ok_def rows by auto
  ultimately show ?thesis using tab' by (simp add: ownership_ok_def lifecycle_frame)
next
  assume "d' = d"
  with tab ok show ?thesis by simp
qed

lemma select_effect:
  assumes "select_active_task now k d = (r, d')"
  obtains "d' = d" | c rows ls where "cycle_of d k = Some c" "cy_status c = C_ACTIVE" "cy_active c = None"
      "rows = task_runs d k" "find (eligible rows) rows = None" "rows \<noteq> []" "\<forall>t \<in> set rows. tr_status t = DONE"
      "d' = (set_cycle k (\<lambda>c. if cy_active c = None then c\<lparr>cy_status := C_AWAITING_PUBLICATION\<rparr> else c) d)\<lparr>lifecycles := ls\<rparr>"
  | c rows and t :: task_row where "cycle_of d k = Some c" "cy_status c = C_ACTIVE" "cy_active c = None"
      "rows = task_runs d k" "find (eligible rows) rows = Some t"
      "d' = d\<lparr>cycles := update_where (\<lambda>c. cy_id c = k \<and> cy_active c = None \<and> cy_status c = C_ACTIVE)
              (\<lambda>c. c\<lparr>cy_active := Some (tr_task t)\<rparr>) (cycles d),
            tasks := update_where (\<lambda>u. tr_id u = tr_id t \<and> tr_status u = PENDING) (enter PLANNING now) (tasks d)\<rparr>"
proof (cases "select_transaction now k d")
  case (Inl e)
  with assms that(1) show thesis by (simp add: select_active_task_def)
next
  case (Inr x)
  obtain early d1 where x: "x = (early, d1)" by (cases x)
  with Inr assms have d': "d' = d1" by (cases early) (simp_all add: select_active_task_def)
  from Inr x obtain c where c: "cycle_of d k = Some c" by (auto simp: select_transaction_def split: option.splits)
  show thesis
  proof (cases "cy_status c = C_ACTIVE \<and> cy_active c = None")
    case False
    with Inr x c d' that(1) show thesis by (auto simp: select_transaction_def split: option.splits if_splits)
  next
    case True
    let ?rows = "task_runs d k"
    show thesis
    proof (cases "find (eligible ?rows) ?rows")
      case (Some t)
      with Inr x c d' True that(3) [of c ?rows t] show thesis by (simp add: select_transaction_def)
    next
      case None
      show thesis
      proof (cases "?rows \<noteq> [] \<and> list_all (\<lambda>t. tr_status t = DONE) ?rows")
        case False
        with Inr x c d' True None that(1) show thesis by (auto simp: select_transaction_def)
      next
        case fin: True
        let ?d = "set_cycle k (\<lambda>c. if cy_active c = None then c\<lparr>cy_status := C_AWAITING_PUBLICATION\<rparr> else c) d"
        have "\<exists>ls. d' = ?d\<lparr>lifecycles := ls\<rparr>"
        proof (cases "cy_kind c = INITIAL")
          case True
          with Inr x c d' \<open>cy_status c = C_ACTIVE \<and> cy_active c = None\<close> None fin show ?thesis
            by (auto simp: select_transaction_def Let_def)
        next
          case False
          with Inr x c d' True None fin have "d' = ?d" by (simp add: select_transaction_def Let_def)
          then have "d' = ?d\<lparr>lifecycles := lifecycles ?d\<rparr>" by simp
          then show ?thesis ..
        qed
        with that(2) [OF c _ _ refl None] True fin show thesis by (auto simp: list_all_iff)
      qed
    qed
  qed
qed

lemma select_keeps:
  assumes step: "select_active_task now k d = (r, d')" and tab: "tables_ok d" and ok: "ownership_ok sha d"
  shows "tables_ok d' \<and> ownership_ok sha d'"
  using step
proof (rule select_effect)
  assume "d' = d"
  with tab ok show ?thesis by simp
next
  fix c rows ls
  let ?g = "\<lambda>c. if cy_active c = None then c\<lparr>cy_status := C_AWAITING_PUBLICATION\<rparr> else c"
  assume c: "cycle_of d k = Some c" "cy_active c = None"
    and rows: "rows = task_runs d k" "rows \<noteq> []" "\<forall>t \<in> set rows. tr_status t = DONE"
    and d': "d' = (set_cycle k ?g d)\<lparr>lifecycles := ls\<rparr>"
  have cok: "cycle_ok sha c (cycle_tasks d k)" using ok c(1) by (auto simp: ownership_ok_def)
  have "cycle_tasks d k \<noteq> []" using rows(1,2) task_runs_rows [of d k] by fastforce
  moreover have "\<forall>t \<in> set (cycle_tasks d k). tr_phase t = DONE"
    using rows cok task_runs_rows [of d k] by (auto simp: cycle_ok_def)
  ultimately have "owned_by_one (?g c) (cycle_tasks d k)" using c(2) by (auto simp: owned_by_one_def)
  then have new: "cycle_ok sha (?g c) (update_where (\<lambda>t. False) (\<lambda>t. t) (cycle_tasks d k))"
    by (intro cycle_ok_update [OF cok]) (simp_all add: same_key_def c update_where_def)
  have cs: "cycles (set_cycle k ?g d) = update_where (\<lambda>x. cy_id x = k) ?g (cycles d)"
    and ts: "tasks (set_cycle k ?g d) = update_where (\<lambda>t. False) (\<lambda>t. t) (tasks d)"
    by (simp_all add: set_cycle_def update_where_def)
  have "ownership_ok sha (set_cycle k ?g d)"
    by (rule ownership_update [OF tab ok c(1) cs ts _ _ _ _ _ new]) (auto simp: same_key_def c)
  moreover have "tables_ok (set_cycle k ?g d)" using tab
    by (simp add: set_cycle_def tables_set_cycles)
  ultimately show ?thesis by (simp add: d' lifecycle_frame)
next
  fix c rows and t :: task_row
  let ?p = "\<lambda>u. tr_id u = tr_id t \<and> tr_status u = PENDING"
  let ?g = "\<lambda>c. if cy_active c = None \<and> cy_status c = C_ACTIVE then c\<lparr>cy_active := Some (tr_task t)\<rparr> else c"
  assume c: "cycle_of d k = Some c" "cy_status c = C_ACTIVE" "cy_active c = None"
    and rows: "rows = task_runs d k" "find (eligible rows) rows = Some t"
    and d': "d' = d\<lparr>cycles := update_where (\<lambda>c. cy_id c = k \<and> cy_active c = None \<and> cy_status c = C_ACTIVE)
              (\<lambda>c. c\<lparr>cy_active := Some (tr_task t)\<rparr>) (cycles d),
            tasks := update_where ?p (enter PLANNING now) (tasks d)\<rparr>"
  have cok: "cycle_ok sha c (cycle_tasks d k)" using ok c(1) by (auto simp: ownership_ok_def)
  have t: "t \<in> set (cycle_tasks d k)" "eligible rows t"
    using find_SomeD [OF rows(2)] rows(1) task_runs_rows [of d k] by auto
  have st: "tr_status u = tr_phase u" if "u \<in> set (cycle_tasks d k)" for u
    using that cok by (simp add: cycle_ok_def)
  have dd: "deps_done (cycle_tasks d k) t"
    using eligible_deps_done [OF t(2)] st rows(1) task_runs_rows [of d k] by (simp add: deps_done_def)
  have pend: "tr_phase t = PENDING" "tr_status t = PENDING" using t st by (auto simp: eligible_def)
  have only: "?p v \<longleftrightarrow> v = t" if "v \<in> set (tasks d)" for v
    using that t(1) tab pend(2) unique_row [of tr_id "tasks d" v t] by (auto simp: tables_defs)
  have utask: "v = t" if "v \<in> set (cycle_tasks d k)" "tr_task v = tr_task t" for v
    using that t(1) tab unique_row [of "\<lambda>t. (tr_cycle t, tr_task t)" "tasks d" v t] by (auto simp: tables_defs)
  have idle: "idle v" if "v \<in> set (cycle_tasks d k)" for v
    using that cok c(2,3) by (auto simp: cycle_ok_def owned_by_one_def)
  let ?q = "\<lambda>u. tr_cycle u = k \<and> ?p u"
  have sel: "update_where ?p (enter PLANNING now) (tasks d) = update_where ?q (enter PLANNING now) (tasks d)"
    using only t(1) by (auto simp: update_where_def)
  have row: "u = enter PLANNING now t \<or> (u \<in> set (cycle_tasks d k) \<and> u \<noteq> t)"
    if "u \<in> set (update_where ?q (enter PLANNING now) (cycle_tasks d k))" for u
    using that only by (auto simp: set_update_where)
  have mem: "enter PLANNING now t \<in> set (update_where ?q (enter PLANNING now) (cycle_tasks d k))"
    using t(1) pend by (force simp: set_update_where)
  have "\<exists>u \<in> set (update_where ?q (enter PLANNING now) (cycle_tasks d k)). tr_task u = tr_task t"
    by (rule bexI [OF _ mem]) simp
  then have "owned_by_one (?g c) (update_where ?q (enter PLANNING now) (cycle_tasks d k))"
    using c(2,3) by (auto simp: owned_by_one_def busy_def dest!: row dest: utask idle)
  then have new: "cycle_ok sha (?g c) (update_where ?q (enter PLANNING now) (cycle_tasks d k))"
    using only dd pend by (intro cycle_ok_update [OF cok]) auto
  have cs: "cycles d' = update_where (\<lambda>x. cy_id x = k) ?g (cycles d)"
    by (auto simp: d' update_where_def)
  have ts: "tasks d' = update_where ?q (enter PLANNING now) (tasks d)"
    by (simp add: d' sel)
  have "ownership_ok sha d'"
    by (rule ownership_update [OF tab ok c(1) cs ts _ _ _ _ _ new]) (auto simp: c)
  moreover have "tables_ok d'" using tab by (simp add: d' tables_defs map_update_where)
  ultimately show ?thesis by simp
qed

section \<open>Every step keeps the constraints and the ownership\<close>

definition core_ok :: "digest \<Rightarrow> db \<Rightarrow> bool" where
  "core_ok sha d = (tables_ok d \<and> ownership_ok sha d)"

text \<open>What the evidence updates leave alone.\<close>

lemma evidence_frame [simp]:
  "cycles (invalidate_permits now k d) = cycles d" "tasks (invalidate_permits now k d) = tasks d"
  "cycles (invalidate_approvals now k d) = cycles d" "tasks (invalidate_approvals now k d) = tasks d"
  "cycles (supersede_plan pid d) = cycles d" "tasks (supersede_plan pid d) = tasks d"
  "cycles (supersede_open_plans k d) = cycles d" "tasks (supersede_open_plans k d) = tasks d"
  "cycles (set_task k f d) = cycles d" "tasks (set_cycle k g d) = tasks d"
  by (simp_all add: runtime_updates)

lemma insert_frame:
  "insert_plan p d = Inr d' \<Longrightarrow> cycles d' = cycles d \<and> tasks d' = tasks d"
  "insert_permit q d = Inr d' \<Longrightarrow> cycles d' = cycles d \<and> tasks d' = tasks d"
  "insert_execution x d = Inr d' \<Longrightarrow> cycles d' = cycles d \<and> tasks d' = tasks d"
  "insert_validation v d = Inr d' \<Longrightarrow> cycles d' = cycles d \<and> tasks d' = tasks d"
  "insert_result r d = Inr d' \<Longrightarrow> cycles d' = cycles d \<and> tasks d' = tasks d"
  "insert_approval a d = Inr d' \<Longrightarrow> cycles d' = cycles d \<and> tasks d' = tasks d"
  by (auto simp: insert_plan_def insert_permit_def insert_execution_def insert_validation_def
      insert_result_def insert_approval_def simp del: has_iff split: if_split_asm)

lemma core_move:
  assumes "core_ok sha d" and "owned_task d k p = Inr t" and "tables_ok d1"
    and "cycles d1 = cycles d" "tasks d1 = tasks d" and "d' = set_task k f d1"
    and "\<And>t. same_key t (f t)" and "tr_status (f t) = tr_phase (f t)" "busy (f t)"
  shows "core_ok sha d'"
proof -
  have "ownership_ok sha d'"
    using assms by (intro ownership_move [of d sha k p t d' f]) (auto simp: core_ok_def set_task_def)
  moreover have "tables_ok d'"
    using assms by (simp add: tables_set_task same_key_def)
  ultimately show ?thesis by (simp add: core_ok_def)
qed

lemma core_submit:
  assumes "core_ok sha d" and "submit_posted_plan sha now k text cid at d = (Inr p, d')"
  shows "core_ok sha d'"
  using assms(2)
proof (rule submit_effect)
  fix t q d1
  assume o: "owned_task d k PLANNING = Inr t"
    and i: "insert_plan q (invalidate_permits now k (supersede_open_plans k d)) = Inr d1"
    and d': "d' = set_task k (\<lambda>t. (enter WAITING_FOR_PLAN_APPROVAL now t)\<lparr>tr_plan := Some (pl_id q)\<rparr>) d1"
  have "tables_ok d1" using tables_insert_plan [OF i] assms(1) by (simp add: core_ok_def)
  then show ?thesis using insert_frame(1) [OF i]
    by (intro core_move [OF assms(1) o _ _ _ d']) (simp_all add: same_key_def busy_def)
qed

lemma core_authorize:
  assumes "core_ok sha d" and "owned_task d k WAITING_FOR_PLAN_APPROVAL = Inr t"
    and "authorize_plan sha now t p ev by at mode d = Inr (pid, d')"
  shows "core_ok sha d'"
  using assms(3)
proof (rule authorize_effect)
  fix d1
  let ?d = "d\<lparr>plans := update_where (\<lambda>q. pl_id q = pl_id p) (\<lambda>q. q\<lparr>pl_status := APPROVED,
    pl_approved_at := Some at, pl_approved_by := Some by, pl_approval_event := Some ev\<rparr>) (plans d)\<rparr>"
  assume i: "insert_permit (mk_permit sha now t p ev by mode) ?d = Inr d1"
    and "d' = set_task (tr_id t) (enter EXECUTING now) d1"
  moreover have "tr_id t = k" using assms(2) by (auto simp: owned_task_iff)
  ultimately have d': "d' = set_task k (enter EXECUTING now) d1" by simp
  have "tables_ok ?d" using assms(1) by (simp add: core_ok_def tables_plan_update)
  then have "tables_ok d1" by (rule tables_insert_permit [OF i])
  then show ?thesis using insert_frame(2) [OF i]
    by (intro core_move [OF assms(1,2) _ _ _ d']) (simp_all add: busy_def)
qed

lemma core_validation:
  assumes "core_ok sha d" and o: "owned_task d k VALIDATING = Inr t"
    and "record_validation sha now t v summary findings repairs evidence d = Inr (early, d')"
  shows "core_ok sha d'"
  using assms(3)
proof (rule record_validation_effect)
  assume "d' = d"
  with assms(1) show ?thesis by simp
next
  fix pid d1
  let ?f = "\<lambda>u. (enter (verdict_phase v) now u)
        \<lparr>tr_round := Suc (tr_round t), tr_feedback := tr_feedback t @ verdict_feedback summary repairs v,
         tr_failure := (if v = BLOCKED then Some (strip summary) else None)\<rparr>"
  assume i: "insert_validation (mk_validation sha t pid v summary findings repairs evidence) d = Inr d1"
    and d': "d' = set_task (tr_id t) ?f (verdict_effect now t summary v d1)"
  have k: "tr_id t = k" using o by (auto simp: owned_task_iff)
  have tab: "tables_ok d1" using tables_insert_validation [OF i] assms(1) by (simp add: core_ok_def)
  note fr = insert_frame(4) [OF i]
  show ?thesis
  proof (cases "v = BLOCKED")
    case False
    then have ve: "tables_ok (verdict_effect now t summary v d1)" "cycles (verdict_effect now t summary v d1) = cycles d"
      "tasks (verdict_effect now t summary v d1) = tasks d" "busy (?f t)"
      using tab fr by (cases v; simp add: busy_def)+
    have d'': "d' = set_task k ?f (verdict_effect now t summary v d1)" using d' k by simp
    show ?thesis by (rule core_move [OF assms(1) o ve(1-3) d'' _ _ ve(4)]) (simp_all add: same_key_def)
  next
    case True
    let ?g = "\<lambda>c. c\<lparr>cy_status := C_FAILED, cy_failure := Some (strip summary)\<rparr>"
    have "ownership_ok sha d'"
    proof (rule ownership_leave [OF _ _ o, where g = ?g and f = ?f])
      show "cycles d' = update_where (\<lambda>x. cy_id x = tr_cycle t) ?g (cycles d)"
        "tasks d' = update_where (\<lambda>t. tr_id t = k) ?f (tasks d)"
        using True d' fr k by (simp_all add: set_task_def set_cycle_def)
    qed (use assms(1) True in \<open>auto simp: core_ok_def same_key_def\<close>)
    moreover have "tables_ok d'" using True d' tab
      by (simp add: tables_set_task set_cycle_def tables_set_cycles)
    ultimately show ?thesis by (simp add: core_ok_def)
  qed
qed

lemma core_accept:
  assumes "core_ok sha d" and o: "owned_task d k WAITING_FOR_RESULT_APPROVAL = Inr t"
    and "accept_result sha now t occ ev by at m d = Inr (aid, d')"
  shows "core_ok sha d'"
  using assms(3)
proof (rule accept_result_effect)
  fix r d1 b
  let ?g = "\<lambda>c. if cy_active c = Some (tr_task t) then c\<lparr>cy_active := None\<rparr> else c"
  assume i: "insert_approval b d = Inr d1"
    and d': "d' = d1\<lparr>tasks := update_where (\<lambda>u. tr_id u = tr_id t) (enter DONE now) (tasks d1),
        cycles := update_where (\<lambda>c. cy_id c = tr_cycle t \<and> cy_active c = Some (tr_task t))
          (\<lambda>c. c\<lparr>cy_active := None\<rparr>) (cycles d1)\<rparr>"
  have k: "tr_id t = k" using o by (auto simp: owned_task_iff)
  have tab: "tables_ok d1" using tables_insert_approval [OF i] assms(1) by (simp add: core_ok_def)
  note fr = insert_frame(6) [OF i]
  have "ownership_ok sha d'"
  proof (rule ownership_leave [OF _ _ o, where g = ?g and f = "enter DONE now"])
    show "cycles d' = update_where (\<lambda>x. cy_id x = tr_cycle t) ?g (cycles d)"
      using d' fr by (auto simp: update_where_def)
    show "tasks d' = update_where (\<lambda>t. tr_id t = k) (enter DONE now) (tasks d)"
      using d' fr k by simp
  qed (use assms(1) in \<open>auto simp: core_ok_def\<close>)
  moreover have "tables_ok d'" using d' tab by (simp add: tables_defs map_update_where)
  ultimately show ?thesis by (simp add: core_ok_def)
qed

lemma core_finish_execution:
  assumes "core_ok sha d" and "finish_execution sha now k summary evidence d = (Inr r, d')"
  shows "core_ok sha d'"
  using assms(2)
proof (rule finish_execution_effect)
  fix t q and p :: plan_row and d1
  assume o: "owned_task d k EXECUTING = Inr t"
    and i: "insert_execution (mk_execution sha now t (pl_id p) q summary evidence) d = Inr d1"
    and d': "d' = set_task k (\<lambda>u. (enter VALIDATING now u)\<lparr>tr_attempt := Suc (tr_attempt t)\<rparr>) d1"
  have "tables_ok d1" using tables_insert_execution [OF i] assms(1) by (simp add: core_ok_def)
  then show ?thesis using insert_frame(3) [OF i]
    by (intro core_move [OF assms(1) o _ _ _ d']) (simp_all add: same_key_def busy_def)
qed

lemma core_publish_result:
  assumes "core_ok sha d" and "publish_validated_result sha now k cid at d = (Inr r, d')"
  shows "core_ok sha d'"
  using assms(2)
proof (rule publish_result_effect)
  fix t pid v x d1
  assume o: "owned_task d k VALIDATING = Inr t"
    and i: "insert_result (mk_result sha now t pid x v cid at) d = Inr d1"
    and d': "d' = set_task k (enter WAITING_FOR_RESULT_APPROVAL now) d1"
  have "tables_ok d1" using tables_insert_result [OF i] assms(1) by (simp add: core_ok_def)
  then show ?thesis using insert_frame(5) [OF i]
    by (intro core_move [OF assms(1) o _ _ _ d']) (simp_all add: busy_def)
qed

text \<open>Replanning and clarification only touch evidence flags and the owner's row.\<close>

lemma core_replan:
  assumes "core_ok sha d" and "owned_task d k p = Inr t"
    and "d' = set_task k (\<lambda>u. (enter PLANNING now u)\<lparr>tr_feedback := fb\<rparr>)
      (invalidate_approvals now k (invalidate_permits now k (supersede_plan pid d)))"
  shows "core_ok sha d'"
  using assms by (intro core_move [OF assms(1,2) _ _ _ assms(3)]) (simp_all add: core_ok_def same_key_def busy_def)

lemma core_replan_feedback:
  assumes "core_ok sha d" and "replan_from_feedback now k d = (Inr r, d')"
  shows "core_ok sha d'"
  using assms(2)
proof (rule replan_feedback_effect)
  fix t assume o: "owned_task d k WAITING_FOR_PLAN_APPROVAL = Inr t"
    and d': "d' = set_task k (enter PLANNING now) (invalidate_permits now k (supersede_plan (tr_plan t) d))"
  show ?thesis using assms(1)
    by (intro core_move [OF assms(1) o _ _ _ d']) (simp_all add: core_ok_def busy_def)
qed

lemma core_pause:
  assumes "core_ok sha d" and "pause_for_clarification now k occ d = (Inr r, d')"
  shows "core_ok sha d'"
  using assms(2)
proof (rule pause_effect)
  fix t p assume o: "owned_task d k p = Inr t"
    and d': "d' = set_task k (\<lambda>u. (enter WAITING_FOR_INPUT now u)
        \<lparr>tr_waiting := Some p, tr_clarification := Some occ\<rparr>) d"
  show ?thesis using assms(1)
    by (intro core_move [OF assms(1) o _ _ _ d']) (simp_all add: core_ok_def same_key_def busy_def)
qed

lemma core_resume:
  assumes "core_ok sha d" and "resume_clarification now k occ d = (Inr r, d')"
    and "\<And>t. t \<in> set (tasks d) \<Longrightarrow> tr_phase t = WAITING_FOR_INPUT \<Longrightarrow>
      tr_waiting t \<in> {Some PLANNING, Some EXECUTING, Some VALIDATING}"
  shows "core_ok sha d'"
  using assms(2)
proof (rule resume_effect)
  fix t p assume o: "owned_task d k WAITING_FOR_INPUT = Inr t" and w: "tr_waiting t = Some p"
    and d': "d' = set_task k (\<lambda>u. (enter p now u)\<lparr>tr_waiting := None, tr_clarification := None\<rparr>) d"
  have "p \<in> {PLANNING, EXECUTING, VALIDATING}" using o w assms(3) [of t] by (auto simp: owned_task_iff)
  then show ?thesis using assms(1)
    by (intro core_move [OF assms(1) o _ _ _ d']) (auto simp: core_ok_def same_key_def busy_def)
qed

lemma core_fail:
  assumes "core_ok sha d" and "fail_active_task now k reason d = (Inr r, d')"
  shows "core_ok sha d'"
  using assms(2)
proof (rule fail_effect)
  assume "d' = d"
  with assms(1) show ?thesis by simp
next
  fix c msg
  let ?g = "\<lambda>c. c\<lparr>cy_status := C_FAILED, cy_failure := Some msg\<rparr>"
  let ?f = "\<lambda>t. (enter FAILED now t)\<lparr>tr_failure := Some msg\<rparr>"
  assume c: "cycle_of d k = Some c" "cy_status c = C_ACTIVE"
    and d': "d' = set_cycle k ?g (case cy_active c of None \<Rightarrow> d
       | Some a \<Rightarrow> d\<lparr>tasks := update_where (\<lambda>t. tr_cycle t = k \<and> tr_task t = a) ?f (tasks d)\<rparr>)"
  have tab: "tables_ok d" and ok: "ownership_ok sha d" using assms(1) by (auto simp: core_ok_def)
  have cok: "cycle_ok sha c (cycle_tasks d k)" using ok c(1) by (auto simp: ownership_ok_def)
  have "tables_ok d'" using tab
    by (cases "cy_active c") (simp_all add: d' tables_defs set_cycle_def map_update_where)
  moreover have "ownership_ok sha d'"
  proof (cases "cy_active c")
    case None
    have "cycle_ok sha (?g c) (update_where (\<lambda>t. False) (\<lambda>t. t) (cycle_tasks d k))"
      using cok c(2) None by (intro cycle_ok_update [OF cok])
        (simp_all add: same_key_def update_where_def owned_by_one_def cycle_ok_def)
    then show ?thesis using d' None
      by (intro ownership_update [OF tab ok c(1), where g = ?g and p = "\<lambda>t. False" and f = "\<lambda>t. t"])
        (simp_all add: same_key_def set_cycle_def update_where_def)
  next
    case (Some a)
    then obtain t where t: "t \<in> set (cycle_tasks d k)" "tr_task t = a"
      using cok c(2) by (auto simp: cycle_ok_def owned_by_one_def)
    have "task_of d (tr_id t) = Some t" using t tab by (auto simp: tables_defs intro: lookup_unique)
    then have o: "owned_task d (tr_id t) (tr_phase t) = Inr t"
      using c Some t by (auto simp: owned_task_iff)
    have uid: "v = t" if "v \<in> set (tasks d)" "tr_id v = tr_id t \<or> tr_cycle v = k \<and> tr_task v = a" for v
      using that t tab unique_row [of tr_id "tasks d" v t]
        unique_row [of "\<lambda>t. (tr_cycle t, tr_task t)" "tasks d" v t] by (auto simp: tables_defs)
    have "update_where (\<lambda>t. tr_cycle t = k \<and> tr_task t = a) ?f (tasks d) = update_where (\<lambda>u. tr_id u = tr_id t) ?f (tasks d)"
      unfolding update_where_def using uid t by (intro map_cong) auto
    then have "tasks d' = update_where (\<lambda>u. tr_id u = tr_id t) ?f (tasks d)" using d' Some by (simp add: set_cycle_def)
    moreover have "cycles d' = update_where (\<lambda>x. cy_id x = tr_cycle t) ?g (cycles d)"
      using d' Some t by (simp add: set_cycle_def)
    ultimately show ?thesis
      by (intro ownership_leave [OF tab ok o, where g = ?g and f = ?f]) (simp_all add: same_key_def)
  qed
  ultimately show ?thesis by (simp add: core_ok_def)
qed

lemma core_published:
  assumes "core_ok sha d" and p: "\<And>c. p c \<Longrightarrow> cy_status c = C_AWAITING_PUBLICATION"
    and d': "d' = d\<lparr>cycles := update_where p (\<lambda>c. c\<lparr>cy_status := C_PUBLISHED\<rparr>) (cycles d)\<rparr>"
  shows "core_ok sha d'"
proof -
  let ?h = "\<lambda>c. if p c then c\<lparr>cy_status := C_PUBLISHED\<rparr> else c"
  have ok: "ownership_ok sha d" using assms(1) by (simp add: core_ok_def)
  have mem: "x \<in> set (cycles d') \<longleftrightarrow> (\<exists>y \<in> set (cycles d). x = ?h y)" for x
    by (simp add: d' mem_update_where)
  have ct: "tasks d' = tasks d" and cid: "cy_id (?h y) = cy_id y" for y by (simp_all add: d')
  have one: "cycle_ok sha (?h y) (cycle_tasks d (cy_id y))" if "y \<in> set (cycles d)" for y
    using that ok p [of y] by (auto simp: ownership_ok_def cycle_ok_def owned_by_one_def carries_spec_def)
  have two: "y = y'" if "y \<in> set (cycles d)" "y' \<in> set (cycles d)" "cy_status (?h y) = C_ACTIVE"
    "cy_status (?h y') = C_ACTIVE" "cy_thread (?h y) = cy_thread (?h y')" for y y'
    using that ok by (auto simp: ownership_ok_def one_active_def split: if_splits)
  have "cycle_ok sha x (cycle_tasks d' (cy_id x))" if "x \<in> set (cycles d')" for x
  proof -
    from that mem obtain y where y: "y \<in> set (cycles d)" and x: "x = ?h y" by blast
    show ?thesis unfolding x ct cid using y by (rule one)
  qed
  moreover have "x = x'" if "x \<in> set (cycles d')" "x' \<in> set (cycles d')" "cy_status x = C_ACTIVE"
    "cy_status x' = C_ACTIVE" "cy_thread x = cy_thread x'" for x x'
  proof -
    from that(1) mem obtain y where y: "y \<in> set (cycles d)" and x: "x = ?h y" by blast
    from that(2) mem obtain y' where y': "y' \<in> set (cycles d)" and x': "x' = ?h y'" by blast
    have "y = y'" using that(3-5) unfolding x x' by (rule two [OF y y'])
    with x x' show ?thesis by simp
  qed
  ultimately have "ownership_ok sha d'" by (simp add: ownership_ok_def one_active_def)
  moreover have "tables_ok d'" using assms(1) by (simp add: core_ok_def d' tables_set_cycles)
  ultimately show ?thesis by (simp add: core_ok_def)
qed

text \<open>
  The whole step relation. That a pause records the phase it came from is part of the evidence
  invariant, so it is a premise here.
\<close>

definition pauses_ok :: "db \<Rightarrow> bool" where
  "pauses_ok d = (\<forall>t \<in> set (tasks d). tr_phase t = WAITING_FOR_INPUT \<longrightarrow>
     tr_waiting t \<in> {Some PLANNING, Some EXECUTING, Some VALIDATING})"

lemma core_step:
  assumes "runtime_step sha d d'" and "core_ok sha d" and "pauses_ok d"
  shows "core_ok sha d'"
  using assms(1)
proof cases
  case step_other
  have "k \<in> th_id ` set (threads d')" if "k \<in> th_id ` set (threads d)" for k
  proof -
    from that obtain th where "thread_of d k = Some th"
      using lookup_None_iff [of th_id k "threads d"] by auto
    with step_other obtain th' where "thread_of d' k = Some th'" by (auto simp: same_workflow_def)
    then show ?thesis using lookup_None_iff [of th_id k "threads d'"] by auto
  qed
  then have "cy_thread ` set (cycles d) \<subseteq> th_id ` set (threads d')"
    using assms(2) by (auto simp: core_ok_def tables_ok_def refs_ok_def)
  moreover have "ownership_ok sha d' = ownership_ok sha d"
    using step_other by (simp add: same_workflow_def ownership_ok_def one_active_def)
  ultimately show ?thesis using step_other assms(2)
    unfolding same_workflow_def core_ok_def tables_defs by simp
next
  case (step_initialize known spec now thread_id n root ref kind seq r)
  with assms(2) show ?thesis using initialize_keeps by (metis core_ok_def)
next
  case (step_select now c r)
  with assms(2) show ?thesis using select_keeps by (metis core_ok_def)
next
  case (step_approve now k occ ev who auth at q)
  from step_approve(1) assms(2) show ?thesis
    by (elim approve_plan_effect) (rule core_authorize)
next
  case (step_auto_authorize now k q)
  from step_auto_authorize(1) assms(2) show ?thesis
    by (elim auto_authorize_effect) (rule core_authorize)
next
  case (step_replan_revision now k ids t)
  from step_replan_revision assms(2) show ?thesis
    by (elim replan_revision_effect) (rule core_replan)
next
  case (step_finish_validation now guard k v summary findings repairs evidence t)
  from step_finish_validation assms(2) show ?thesis
    by (elim finish_validation_effect) (rule core_validation)
next
  case (step_approve_result now k occ ev' who auth at mode a)
  from step_approve_result(1) assms(2) show ?thesis
    by (elim approve_result_effect) (rule core_accept)
next
  case (step_replan_result now k ev feedback t)
  from step_replan_result assms(2) show ?thesis
    by (elim replan_result_effect) (rule core_replan)
next
  case (step_resume now k occ t)
  show ?thesis using assms(3) by (intro core_resume [OF assms(2) step_resume]) (simp add: pauses_ok_def)
next
  case (step_published p)
  then show ?thesis by (intro core_published [OF assms(2)])
next
  case step_submit
  from core_submit [OF assms(2) step_submit] show ?thesis .
next
  case step_finish_execution
  from core_finish_execution [OF assms(2) step_finish_execution] show ?thesis .
next
  case step_publish_result
  from core_publish_result [OF assms(2) step_publish_result(1)] show ?thesis .
next
  case step_replan_feedback
  from core_replan_feedback [OF assms(2) step_replan_feedback] show ?thesis .
next
  case step_pause
  from core_pause [OF assms(2) step_pause] show ?thesis .
next
  case step_fail
  from core_fail [OF assms(2) step_fail] show ?thesis .
qed

end
