(* ===== verification/Evidence.thy ===== *)
theory Evidence
  imports Ownership
begin

text \<open>
  The chain of evidence behind each phase. A task that executes holds exactly one live permit,
  for exactly its current approved plan; one that is validated has a successful execution of
  the current attempt under that permit; one that waits for a result decision has the accepted
  validation of that attempt and the visible result; and one that is DONE has an approval of
  exactly that result.
\<close>

section \<open>The invariant of one task\<close>

definition live_permits :: "db \<Rightarrow> task_row \<Rightarrow> permit_row set" where
  "live_permits d t = {q \<in> set (permits_of d (tr_id t)). pm_invalidated q = None}"

definition exact_permit :: "permit_row \<Rightarrow> plan_row \<Rightarrow> bool" where
  "exact_permit q p = (pm_plan q = pl_id p \<and> pm_version q = pl_version p \<and> pm_digest q = pl_digest p)"

definition current :: "db \<Rightarrow> task_row \<Rightarrow> plan_row \<Rightarrow> bool" where
  "current d t p = (p \<in> set (plans_of d (tr_id t)) \<and> tr_plan t = Some (pl_id p))"

definition authorised :: "db \<Rightarrow> task_row \<Rightarrow> plan_row \<Rightarrow> permit_row \<Rightarrow> bool" where
  "authorised d t p q = (current d t p \<and> pl_status p = APPROVED \<and> exact_permit q p \<and> live_permits d t = {q})"

definition executed :: "db \<Rightarrow> task_row \<Rightarrow> plan_row \<Rightarrow> permit_row \<Rightarrow> execution_row \<Rightarrow> bool" where
  "executed d t p q x = (x \<in> set (executions_of d (tr_id t)) \<and> ex_plan x = pl_id p \<and>
     ex_attempt x = tr_attempt t \<and> ex_succeeded x \<and> ex_permit x = pm_id q)"

text \<open>In VALIDATING the only decision the current attempt can already have is an ACCEPT.\<close>

definition only_accepts :: "db \<Rightarrow> task_row \<Rightarrow> plan_row \<Rightarrow> bool" where
  "only_accepts d t p = (\<forall>v \<in> set (validations_of d (tr_id t)). va_plan v = pl_id p \<longrightarrow>
     va_attempt v = tr_attempt t \<longrightarrow> va_verdict v = ACCEPT \<and> va_round v = tr_round t)"

definition validated :: "db \<Rightarrow> task_row \<Rightarrow> plan_row \<Rightarrow> validation_row \<Rightarrow> bool" where
  "validated d t p v = (v \<in> set (validations_of d (tr_id t)) \<and> va_plan v = pl_id p \<and>
     va_attempt v = tr_attempt t \<and> va_verdict v = ACCEPT \<and> va_round v = tr_round t)"

definition published :: "db \<Rightarrow> task_row \<Rightarrow> plan_row \<Rightarrow> execution_row \<Rightarrow> validation_row \<Rightarrow> result_row \<Rightarrow> bool" where
  "published d t p x v r = (r \<in> set (results_of d (tr_id t)) \<and> re_plan r = pl_id p \<and>
     re_execution r = ex_id x \<and> re_validation r = va_id v)"

definition accepted :: "db \<Rightarrow> task_row \<Rightarrow> result_row \<Rightarrow> result_approval_row \<Rightarrow> bool" where
  "accepted d t r a = (a \<in> set (approvals_of d (tr_id t)) \<and> ra_result a = re_id r \<and>
     ra_invalidated a = None \<and> ra_plan a = re_plan r \<and> ra_execution a = re_execution r \<and>
     ra_validation a = re_validation r \<and> ra_occurrence a = re_occurrence r)"

definition chain ::
  "db \<Rightarrow> task_row \<Rightarrow> plan_row \<Rightarrow> permit_row \<Rightarrow> execution_row \<Rightarrow> validation_row \<Rightarrow> result_row \<Rightarrow> bool" where
  "chain d t p q x v r = (authorised d t p q \<and> executed d t p q x \<and> validated d t p v \<and> published d t p x v r)"

fun stage :: "task_phase \<Rightarrow> db \<Rightarrow> task_row \<Rightarrow> bool" where
  "stage PENDING d t = (live_permits d t = {})"
| "stage PLANNING d t = (live_permits d t = {})"
| "stage WAITING_FOR_PLAN_APPROVAL d t = (live_permits d t = {} \<and> (\<exists>p. current d t p \<and> pl_status p = POSTED))"
| "stage EXECUTING d t = (\<exists>p q. authorised d t p q)"
| "stage VALIDATING d t = (\<exists>p q x. authorised d t p q \<and> executed d t p q x \<and> only_accepts d t p)"
| "stage WAITING_FOR_RESULT_APPROVAL d t = (\<exists>p q x v r. chain d t p q x v r)"
| "stage DONE d t = (\<exists>p q x v r a. chain d t p q x v r \<and> accepted d t r a)"
| "stage WAITING_FOR_INPUT d t = False"
| "stage FAILED d t = True"

text \<open>The phase a task works in: a paused task keeps the phase it was paused in.\<close>

definition work_phase :: "task_row \<Rightarrow> task_phase" where
  "work_phase t = (if tr_phase t = WAITING_FOR_INPUT
     then (case tr_waiting t of None \<Rightarrow> WAITING_FOR_INPUT | Some p \<Rightarrow> p) else tr_phase t)"

definition history_ok :: "digest \<Rightarrow> db \<Rightarrow> task_row \<Rightarrow> bool" where
  "history_ok sha d t =
    ((\<forall>x \<in> set (executions_of d (tr_id t)). ex_attempt x \<le> tr_attempt t) \<and>
     (\<forall>v \<in> set (validations_of d (tr_id t)). va_attempt v \<le> tr_attempt t \<and> va_round v \<le> tr_round t) \<and>
     (\<forall>r \<in> set (results_of d (tr_id t)). \<exists>v \<in> set (validations_of d (tr_id t)). va_id v = re_validation r) \<and>
     (\<forall>p \<in> set (plans_of d (tr_id t)). pl_digest p = sha (strip (pl_text p)) \<and>
        starts_with (pl_occurrence p) ''plan-approval:''))"

definition provenance_ok :: "approval_mode \<Rightarrow> db \<Rightarrow> task_row \<Rightarrow> bool" where
  "provenance_ok m d t =
    ((\<forall>q \<in> set (permits_of d (tr_id t)). pm_mode q = m \<and>
        (m = BY_AUTO \<longrightarrow> pm_by q = AUTO_POLICY \<and> starts_auto_authority (pm_event q))) \<and>
     (\<forall>a \<in> set (approvals_of d (tr_id t)). ra_mode a = m))"

definition evidence_ok :: "digest \<Rightarrow> approval_mode \<Rightarrow> db \<Rightarrow> task_row \<Rightarrow> bool" where
  "evidence_ok sha m d t = (stage (work_phase t) d t \<and> history_ok sha d t \<and> provenance_ok m d t \<and>
     (tr_phase t = WAITING_FOR_INPUT \<longrightarrow> tr_waiting t \<in> {Some PLANNING, Some EXECUTING, Some VALIDATING}))"

definition evidence_inv :: "digest \<Rightarrow> db \<Rightarrow> bool" where
  "evidence_inv sha d = (\<forall>t \<in> set (tasks d). \<exists>m. interaction_mode d (tr_thread t) = Inr m \<and>
     evidence_ok sha (expected_mode m) d t)"

definition runtime_inv :: "digest \<Rightarrow> db \<Rightarrow> bool" where
  "runtime_inv sha d = (core_ok sha d \<and> evidence_inv sha d)"

lemmas link_defs = authorised_def executed_def validated_def published_def accepted_def current_def
  live_permits_def only_accepts_def exact_permit_def

lemmas evidence_defs = chain_def link_defs history_ok_def provenance_ok_def

section \<open>Frames\<close>

definition rows_of ::
  "db \<Rightarrow> string \<Rightarrow> plan_row list \<times> permit_row list \<times> execution_row list \<times> validation_row list \<times>
     result_row list \<times> result_approval_row list" where
  "rows_of d k = (plans_of d k, permits_of d k, executions_of d k, validations_of d k, results_of d k, approvals_of d k)"

lemma link_frame:
  assumes "rows_of d' (tr_id t) = rows_of d (tr_id t)"
  shows "live_permits d' t = live_permits d t" "current d' t = current d t" "authorised d' t = authorised d t"
    "executed d' t = executed d t" "validated d' t = validated d t" "published d' t = published d t"
    "accepted d' t = accepted d t" "only_accepts d' t = only_accepts d t" "chain d' t = chain d t"
proof -
  note rows = assms [unfolded rows_of_def prod.inject]
  show live: "live_permits d' t = live_permits d t" unfolding live_permits_def by (simp only: rows)
  show cur: "current d' t = current d t" unfolding current_def [abs_def] by (simp only: rows)
  show auth: "authorised d' t = authorised d t" unfolding authorised_def [abs_def] live cur ..
  show ex: "executed d' t = executed d t" unfolding executed_def [abs_def] by (simp only: rows)
  show va: "validated d' t = validated d t" unfolding validated_def [abs_def] by (simp only: rows)
  show pub: "published d' t = published d t" unfolding published_def [abs_def] by (simp only: rows)
  show "accepted d' t = accepted d t" unfolding accepted_def [abs_def] by (simp only: rows)
  show "only_accepts d' t = only_accepts d t" unfolding only_accepts_def [abs_def] by (simp only: rows)
  show "chain d' t = chain d t" unfolding chain_def [abs_def] auth ex va pub ..
qed

lemma stage_frame:
  assumes "rows_of d' (tr_id t) = rows_of d (tr_id t)"
  shows "stage ph d' t = stage ph d t"
  by (cases ph) (simp_all only: link_frame [OF assms] stage.simps)

lemma evidence_frame_rows:
  assumes "rows_of d' (tr_id t) = rows_of d (tr_id t)"
  shows "evidence_ok sha m d' t = evidence_ok sha m d t"
proof -
  note rows = assms [unfolded rows_of_def prod.inject]
  show ?thesis unfolding evidence_ok_def history_ok_def provenance_ok_def stage_frame [OF assms]
    by (simp only: rows)
qed

text \<open>A step that writes rows of one task run only.\<close>

lemma evidence_step:
  assumes tab: "tables_ok d" and inv: "evidence_inv sha d" and th: "threads d' = threads d"
    and ts: "tasks d' = update_where (\<lambda>t. tr_id t = k) f (tasks d)" and key: "\<And>t. same_key t (f t)"
    and frame: "\<And>u. u \<noteq> k \<Longrightarrow> rows_of d' u = rows_of d u"
    and new: "\<And>t m. t \<in> set (tasks d) \<Longrightarrow> tr_id t = k \<Longrightarrow> interaction_mode d (tr_thread t) = Inr m \<Longrightarrow>
      evidence_ok sha (expected_mode m) d t \<Longrightarrow> evidence_ok sha (expected_mode m) d' (f t)"
  shows "evidence_inv sha d'"
proof -
  have im: "interaction_mode d' s = interaction_mode d s" for s by (simp add: interaction_mode_def th)
  have "\<exists>m. interaction_mode d' (tr_thread u) = Inr m \<and> evidence_ok sha (expected_mode m) d' u"
    if u: "u \<in> set (tasks d')" for u
  proof -
    from u obtain t where t: "t \<in> set (tasks d)" "u = (if tr_id t = k then f t else t)"
      unfolding ts mem_update_where by blast
    from t(1) inv obtain m where m: "interaction_mode d (tr_thread t) = Inr m" "evidence_ok sha (expected_mode m) d t"
      by (auto simp: evidence_inv_def)
    have "tr_thread (f t) = tr_thread t" using key [of t] by (simp add: same_key_def)
    show ?thesis
    proof (cases "tr_id t = k")
      case True
      with t(2) m im \<open>tr_thread (f t) = tr_thread t\<close> new [OF t(1) True m] show ?thesis by auto
    next
      case False
      with t(2) m im evidence_frame_rows [OF frame [OF False]] show ?thesis by auto
    qed
  qed
  then show ?thesis by (simp add: evidence_inv_def)
qed

text \<open>The owner's form of it.\<close>

lemma evidence_owner:
  assumes tab: "tables_ok d" and inv: "evidence_inv sha d" and own: "owned_task d k p = Inr t"
    and th: "threads d' = threads d"
    and ts: "tasks d' = update_where (\<lambda>t. tr_id t = k) f (tasks d)" and key: "\<And>t. same_key t (f t)"
    and frame: "\<And>u. u \<noteq> k \<Longrightarrow> rows_of d' u = rows_of d u"
    and new: "\<And>i. interaction_mode d (tr_thread t) = Inr i \<Longrightarrow> evidence_ok sha (expected_mode i) d t \<Longrightarrow>
      evidence_ok sha (expected_mode i) d' (f t)"
  shows "evidence_inv sha d'"
proof (rule evidence_step [OF tab inv th ts key frame])
  fix u m assume u: "u \<in> set (tasks d)" "tr_id u = k" "interaction_mode d (tr_thread u) = Inr m"
    "evidence_ok sha (expected_mode m) d u"
  have t: "t \<in> set (tasks d)" "tr_id t = k" using own by (auto simp: owned_task_iff)
  have "u = t" using tab u t unique_row [of tr_id "tasks d" u t] by (auto simp: tables_defs)
  with u new [of m] show "evidence_ok sha (expected_mode m) d' (f u)" by simp
qed

lemma owner_evidence:
  assumes "evidence_inv sha d" and "owned_task d k p = Inr t"
  obtains i where "interaction_mode d (tr_thread t) = Inr i" "evidence_ok sha (expected_mode i) d t"
    "t \<in> set (tasks d)" "tr_id t = k" "tr_phase t = p"
proof -
  have "t \<in> set (tasks d)" "tr_id t = k" "tr_phase t = p" using assms(2) by (auto simp: owned_task_iff)
  with assms(1) that show thesis by (auto simp: evidence_inv_def)
qed

section \<open>What the shared updates do to the rows\<close>

lemma rows_of_simps [simp]:
  "rows_of (set_task k f d) = rows_of d" "rows_of (set_cycle c g d) = rows_of d"
  "rows_of (d\<lparr>cycles := cs\<rparr>) = rows_of d" "rows_of (d\<lparr>tasks := ts\<rparr>) = rows_of d"
  "rows_of (d\<lparr>lifecycles := ls\<rparr>) = rows_of d"
  by (simp_all add: fun_eq_iff rows_of_def runtime_updates)

lemma threads_simps [simp]:
  "threads (set_task k f d) = threads d" "threads (set_cycle c g d) = threads d"
  "threads (invalidate_permits now k d) = threads d" "threads (invalidate_approvals now k d) = threads d"
  "threads (supersede_plan pid d) = threads d" "threads (supersede_open_plans k d) = threads d"
  by (simp_all add: runtime_updates)

lemma rows_invalidate:
  assumes "u \<noteq> k"
  shows "rows_of (invalidate_permits now k d) u = rows_of d u"
    and "rows_of (invalidate_approvals now k d) u = rows_of d u"
    and "rows_of (supersede_open_plans k d) u = rows_of d u"
  using assms by (simp_all add: rows_of_def runtime_updates) (rule filter_update_other; auto)+

lemma rows_plan_update:
  assumes "tables_ok d" and "current d t p" and "u \<noteq> tr_id t" and "\<And>q. pl_task_run (f q) = pl_task_run q"
  shows "rows_of (d\<lparr>plans := update_where (\<lambda>q. pl_id q = pl_id p) f (plans d)\<rparr>) u = rows_of d u"
proof -
  have "q = p" if "q \<in> set (plans d)" "pl_id q = pl_id p" for q
    using assms(1,2) that unique_row [of pl_id "plans d" q p] by (auto simp: tables_defs current_def)
  then have "pl_task_run q \<noteq> u" if "q \<in> set (plans d)" "pl_id q = pl_id p" for q
    using that assms(2,3) by (auto simp: current_def)
  with assms(4) show ?thesis by (simp add: rows_of_def filter_update_other)
qed

lemma supersede_current:
  "current d t p \<Longrightarrow> supersede_plan (tr_plan t) d =
     d\<lparr>plans := update_where (\<lambda>q. pl_id q = pl_id p) (\<lambda>q. q\<lparr>pl_status := SUPERSEDED\<rparr>) (plans d)\<rparr>"
  by (simp add: supersede_plan_def current_def)

lemma rows_insert:
  "insert_plan p d = Inr d' \<Longrightarrow> u \<noteq> pl_task_run p \<Longrightarrow> rows_of d' u = rows_of d u"
  "insert_permit q d = Inr d' \<Longrightarrow> u \<noteq> pm_task_run q \<Longrightarrow> rows_of d' u = rows_of d u"
  "insert_execution x d = Inr d' \<Longrightarrow> u \<noteq> ex_task_run x \<Longrightarrow> rows_of d' u = rows_of d u"
  "insert_validation v d = Inr d' \<Longrightarrow> u \<noteq> va_task_run v \<Longrightarrow> rows_of d' u = rows_of d u"
  "insert_result r d = Inr d' \<Longrightarrow> u \<noteq> re_task_run r \<Longrightarrow> rows_of d' u = rows_of d u"
  "insert_approval a d = Inr d' \<Longrightarrow> u \<noteq> ra_task_run a \<Longrightarrow> rows_of d' u = rows_of d u"
  by (auto simp: rows_of_def insert_plan_def insert_permit_def insert_execution_def insert_validation_def
      insert_result_def insert_approval_def simp del: has_iff split: if_split_asm)

lemma threads_insert:
  "insert_plan p d = Inr d' \<Longrightarrow> threads d' = threads d"
  "insert_permit q d = Inr d' \<Longrightarrow> threads d' = threads d"
  "insert_execution x d = Inr d' \<Longrightarrow> threads d' = threads d"
  "insert_validation v d = Inr d' \<Longrightarrow> threads d' = threads d"
  "insert_result r d = Inr d' \<Longrightarrow> threads d' = threads d"
  "insert_approval a d = Inr d' \<Longrightarrow> threads d' = threads d"
  by (auto simp: insert_plan_def insert_permit_def insert_execution_def insert_validation_def
      insert_result_def insert_approval_def simp del: has_iff split: if_split_asm)

text \<open>Members of the updated tables.\<close>

lemma mem_invalidated:
  "q \<in> set (permits (invalidate_permits now k d)) \<longleftrightarrow> (\<exists>q0 \<in> set (permits d).
     q = (if pm_task_run q0 = k \<and> pm_invalidated q0 = None then q0\<lparr>pm_invalidated := Some now\<rparr> else q0))"
  "a \<in> set (approvals (invalidate_approvals now k d)) \<longleftrightarrow> (\<exists>a0 \<in> set (approvals d).
     a = (if ra_task_run a0 = k \<and> ra_invalidated a0 = None then a0\<lparr>ra_invalidated := Some now\<rparr> else a0))"
  "p \<in> set (plans (supersede_open_plans k d)) \<longleftrightarrow> (\<exists>p0 \<in> set (plans d).
     p = (if pl_task_run p0 = k \<and> pl_status p0 \<in> {POSTED, APPROVED} then p0\<lparr>pl_status := SUPERSEDED\<rparr> else p0))"
  "p \<in> set (plans (supersede_plan pid d)) \<longleftrightarrow> (\<exists>p0 \<in> set (plans d).
     p = (if Some (pl_id p0) = pid then p0\<lparr>pl_status := SUPERSEDED\<rparr> else p0))"
  by (simp_all add: runtime_updates mem_update_where)

lemma evidence_fields [simp]:
  "permits (supersede_open_plans k d) = permits d" "permits (supersede_plan pid d) = permits d"
  "permits (invalidate_approvals now k d) = permits d"
  "plans (invalidate_permits now k d) = plans d" "plans (invalidate_approvals now k d) = plans d"
  "executions (supersede_open_plans k d) = executions d" "executions (supersede_plan pid d) = executions d"
  "executions (invalidate_permits now k d) = executions d" "executions (invalidate_approvals now k d) = executions d"
  "validations (supersede_open_plans k d) = validations d" "validations (supersede_plan pid d) = validations d"
  "validations (invalidate_permits now k d) = validations d" "validations (invalidate_approvals now k d) = validations d"
  "results (supersede_open_plans k d) = results d" "results (supersede_plan pid d) = results d"
  "results (invalidate_permits now k d) = results d" "results (invalidate_approvals now k d) = results d"
  "approvals (supersede_open_plans k d) = approvals d" "approvals (supersede_plan pid d) = approvals d"
  "approvals (invalidate_permits now k d) = approvals d"
  by (simp_all add: runtime_updates)

text \<open>When the history and the provenance stay; replanning leaves no live permit.\<close>

lemma history_step:
  assumes "history_ok sha d t" and "tr_id u = tr_id t" "tr_attempt t \<le> tr_attempt u" "tr_round t \<le> tr_round u"
    and "\<And>x. x \<in> set (executions d') \<Longrightarrow> x \<notin> set (executions d) \<Longrightarrow> ex_attempt x \<le> tr_attempt u"
    and "\<And>v. v \<in> set (validations d') \<Longrightarrow> v \<notin> set (validations d) \<Longrightarrow> va_attempt v \<le> tr_attempt u \<and> va_round v \<le> tr_round u"
    and "set (validations d) \<subseteq> set (validations d')"
    and "\<And>r. r \<in> set (results d') \<Longrightarrow> r \<notin> set (results d) \<Longrightarrow> \<exists>v \<in> set (validations_of d' (tr_id t)). va_id v = re_validation r"
    and "\<And>p. p \<in> set (plans d') \<Longrightarrow> \<exists>p0 \<in> set (plans d). pl_task_run p = pl_task_run p0 \<and>
      pl_digest p = pl_digest p0 \<and> pl_text p = pl_text p0 \<and> pl_occurrence p = pl_occurrence p0"
  shows "history_ok sha d' u"
proof -
  note h = assms(1) [unfolded history_ok_def]
  have "ex_attempt x \<le> tr_attempt u" if "x \<in> set (executions_of d' (tr_id u))" for x
  proof (cases "x \<in> set (executions d)")
    case True
    with that assms(2) h have "ex_attempt x \<le> tr_attempt t" by simp
    with assms(3) show ?thesis by simp
  next
    case False
    with that assms(5) show ?thesis by simp
  qed
  moreover have "va_attempt v \<le> tr_attempt u \<and> va_round v \<le> tr_round u" if "v \<in> set (validations_of d' (tr_id u))" for v
  proof (cases "v \<in> set (validations d)")
    case True
    with that assms(2) h have "va_attempt v \<le> tr_attempt t" "va_round v \<le> tr_round t" by simp_all
    with assms(3,4) show ?thesis by simp
  next
    case False
    with that assms(6) show ?thesis by simp
  qed
  moreover have "\<exists>v \<in> set (validations_of d' (tr_id u)). va_id v = re_validation r" if "r \<in> set (results_of d' (tr_id u))" for r
  proof (cases "r \<in> set (results d)")
    case True
    with that assms(2) h obtain v where "v \<in> set (validations_of d (tr_id t))" "va_id v = re_validation r" by auto
    with assms(2,7) show ?thesis by auto
  next
    case False
    with that assms(2,8) show ?thesis by simp
  qed
  moreover have "pl_digest p = sha (strip (pl_text p)) \<and> starts_with (pl_occurrence p) ''plan-approval:''"
    if "p \<in> set (plans_of d' (tr_id u))" for p
  proof -
    from that assms(9) [of p] obtain p0 where p0: "p0 \<in> set (plans d)" "pl_task_run p = pl_task_run p0"
      "pl_digest p = pl_digest p0" "pl_text p = pl_text p0" "pl_occurrence p = pl_occurrence p0" by auto
    with that assms(2) have "p0 \<in> set (plans_of d (tr_id t))" by simp
    with h p0 show ?thesis by simp
  qed
  ultimately show ?thesis by (simp add: history_ok_def)
qed

lemma history_replan:
  assumes "history_ok sha d t" and "tr_id u = tr_id t" "tr_attempt u = tr_attempt t" "tr_round u = tr_round t"
    and "executions d' = executions d" "validations d' = validations d" "results d' = results d"
    and "\<And>p. p \<in> set (plans d') \<Longrightarrow> \<exists>p0 \<in> set (plans d). pl_task_run p = pl_task_run p0 \<and>
      pl_digest p = pl_digest p0 \<and> pl_text p = pl_text p0 \<and> pl_occurrence p = pl_occurrence p0"
  shows "history_ok sha d' u"
  by (rule history_step [OF assms(1,2)]) (use assms in auto)

lemma provenance_replan:
  assumes "provenance_ok m d t" and "tr_id u = tr_id t"
    and "\<And>q. q \<in> set (permits d') \<Longrightarrow> \<exists>q0 \<in> set (permits d). pm_task_run q = pm_task_run q0 \<and>
      pm_mode q = pm_mode q0 \<and> pm_by q = pm_by q0 \<and> pm_event q = pm_event q0"
    and "\<And>a. a \<in> set (approvals d') \<Longrightarrow> \<exists>a0 \<in> set (approvals d). ra_task_run a = ra_task_run a0 \<and> ra_mode a = ra_mode a0"
  shows "provenance_ok m d' u"
  using assms unfolding provenance_ok_def by fastforce

lemma live_invalidated: "tr_id t = k \<Longrightarrow> live_permits (invalidate_permits now k d) t = {}"
  by (auto simp: live_permits_def mem_invalidated split: if_splits)

lemma live_permits_cong: "permits d' = permits d \<Longrightarrow> tr_id u = tr_id t \<Longrightarrow> live_permits d' u = live_permits d t"
  by (simp add: live_permits_def)

section \<open>Every step keeps the evidence\<close>

lemma mk_plan_fields [simp]:
  "pl_task_run (mk_plan sha t n s c at) = tr_id t" "pl_digest (mk_plan sha t n s c at) = sha s"
  "pl_text (mk_plan sha t n s c at) = s" "pl_status (mk_plan sha t n s c at) = POSTED"
  "starts_with (pl_occurrence (mk_plan sha t n s c at)) ''plan-approval:''"
  by (simp_all add: mk_plan_def Let_def plan_occurrence_def)

lemma evidence_submit:
  assumes inv: "runtime_inv sha d" and step: "submit_posted_plan sha now k text cid at d = (Inr r, d')"
  shows "evidence_inv sha d'"
  using step
proof (rule submit_effect)
  fix t d1 and p :: plan_row
  let ?D = "invalidate_permits now k (supersede_open_plans k d)"
  let ?f = "\<lambda>t. (enter WAITING_FOR_PLAN_APPROVAL now t)\<lparr>tr_plan := Some (pl_id p)\<rparr>"
  assume o: "owned_task d k PLANNING = Inr t" and i: "insert_plan p ?D = Inr d1"
    and p: "p = mk_plan sha t (next_plan_version d k) (strip text) cid at"
    and d': "d' = set_task k ?f d1"
  have tab: "tables_ok d" and ev: "evidence_inv sha d" using inv by (auto simp: runtime_inv_def core_ok_def)
  have k: "tr_id t = k" using o by (auto simp: owned_task_iff)
  have d1: "d1 = ?D\<lparr>plans := plans ?D @ [p]\<rparr>" using i by (simp add: insert_plan_iff)
  show ?thesis
  proof (rule evidence_owner [OF tab ev o, where f = ?f])
    show "threads d' = threads d" by (simp add: d' threads_insert(1) [OF i])
    show "tasks d' = update_where (\<lambda>t. tr_id t = k) ?f (tasks d)" by (simp add: d' d1 set_task_def)
    show "same_key u (?f u)" for u by (simp add: same_key_def)
    show "rows_of d' u = rows_of d u" if "u \<noteq> k" for u
      using that rows_insert(1) [OF i, of u] p k by (simp add: d' rows_invalidate)
  next
    fix im assume "evidence_ok sha (expected_mode im) d t"
    then have h: "history_ok sha d t" and pr: "provenance_ok (expected_mode im) d t"
      by (simp_all add: evidence_ok_def)
    have rows: "plans d' = plans ?D @ [p]" "permits d' = permits ?D" "executions d' = executions d"
      "validations d' = validations d" "results d' = results d" "approvals d' = approvals d"
      by (simp_all add: d' d1 set_task_def)
    have "live_permits d' (?f t) = {}"
      using live_invalidated [of t k now "supersede_open_plans k d"] k rows(2) by (simp add: live_permits_def)
    moreover have "current d' (?f t) p" using p k by (simp add: current_def rows(1))
    ultimately have "stage WAITING_FOR_PLAN_APPROVAL d' (?f t)" using p by auto
    moreover have "history_ok sha ?D t"
      by (rule history_replan [OF h]) (auto simp: mem_invalidated split: if_splits)
    then have "history_ok sha d' (?f t)" using p rows by (auto simp: history_ok_def)
    moreover have "provenance_ok (expected_mode im) d' (?f t)"
      by (rule provenance_replan [OF pr]) (auto simp: rows(2,6) mem_invalidated split: if_splits)
    ultimately show "evidence_ok sha (expected_mode im) d' (?f t)"
      by (simp add: evidence_ok_def work_phase_def)
  qed
qed

text \<open>Approval of the posted plan, by a human or by the policy.\<close>

lemma mk_permit_fields [simp]:
  "pm_task_run (mk_permit sha now t p ev by m) = tr_id t" "pm_plan (mk_permit sha now t p ev by m) = pl_id p"
  "pm_version (mk_permit sha now t p ev by m) = pl_version p" "pm_digest (mk_permit sha now t p ev by m) = pl_digest p"
  "pm_mode (mk_permit sha now t p ev by m) = m" "pm_by (mk_permit sha now t p ev by m) = by"
  "pm_event (mk_permit sha now t p ev by m) = ev" "pm_invalidated (mk_permit sha now t p ev by m) = None"
  "pm_id (mk_permit sha now t p ev by m) = permit_id_for sha (tr_id t) p ev"
  by (simp_all add: mk_permit_def)

lemma evidence_authorize:
  assumes inv: "runtime_inv sha d" and o: "owned_task d k WAITING_FOR_PLAN_APPROVAL = Inr t"
    and pp: "posted_plan d t = Inr p"
    and step: "authorize_plan sha now t p ev by at (expected_mode im) d = Inr (pid, d')"
    and im: "interaction_mode d (tr_thread t) = Inr im"
    and new: "permit_of d' pid = Some q" "q \<notin> set (permits d)"
    and prov: "im = AUTO \<Longrightarrow> by = AUTO_POLICY \<and> ev = auto_authority p"
  shows "evidence_inv sha d'"
  using step
proof (rule authorize_effect)
  fix d1
  let ?g = "\<lambda>q. q\<lparr>pl_status := APPROVED, pl_approved_at := Some at, pl_approved_by := Some by,
    pl_approval_event := Some ev\<rparr>"
  let ?D = "d\<lparr>plans := update_where (\<lambda>q. pl_id q = pl_id p) ?g (plans d)\<rparr>"
  let ?q = "mk_permit sha now t p ev by (expected_mode im)"
  assume i: "insert_permit ?q ?D = Inr d1" and d': "d' = set_task (tr_id t) (enter EXECUTING now) d1"
    and pid: "pid = pm_id ?q"
  have tab: "tables_ok d" and evd: "evidence_inv sha d" using inv by (auto simp: runtime_inv_def core_ok_def)
  have k: "tr_id t = k" using o by (auto simp: owned_task_iff)
  have d1: "d1 = ?D\<lparr>permits := permits d @ [?q]\<rparr>"
  proof -
    have "permits d1 \<noteq> permits d" using new by (auto simp: d' set_task_def)
    then show ?thesis using i by (auto simp: insert_permit_iff simp del: mk_permit_fields)
  qed
  obtain i0 where e0: "interaction_mode d (tr_thread t) = Inr i0" "evidence_ok sha (expected_mode i0) d t"
    "tr_phase t = WAITING_FOR_PLAN_APPROVAL" using owner_evidence [OF evd o] .
  then obtain p' where p': "current d t p'" "live_permits d t = {}"
    by (auto simp: evidence_ok_def work_phase_def)
  have p: "p = p'" using p'(1) pp tab key_unique(1) [OF tab, of p p'] by (auto simp: posted_plan_iff current_def)
  have cur: "current d t p" using p p' by simp
  show ?thesis
  proof (rule evidence_owner [OF tab evd o, where f = "enter EXECUTING now"])
    show "threads d' = threads d" using threads_insert(2) [OF i] by (simp add: d')
    show "tasks d' = update_where (\<lambda>t. tr_id t = k) (enter EXECUTING now) (tasks d)"
      by (simp add: d' d1 set_task_def k)
    show "rows_of d' u = rows_of d u" if "u \<noteq> k" for u
      using that rows_insert(2) [OF i, of u] rows_plan_update [OF tab cur, of u ?g] k by (simp add: d')
  next
    fix i1 assume "interaction_mode d (tr_thread t) = Inr i1" and e: "evidence_ok sha (expected_mode i1) d t"
    then have i1: "i1 = im" and h: "history_ok sha d t" and pr: "provenance_ok (expected_mode im) d t"
      using im by (simp_all add: evidence_ok_def)
    let ?t = "enter EXECUTING now t"
    have rows: "plans d' = plans ?D" "permits d' = permits d @ [?q]" "executions d' = executions d"
      "validations d' = validations d" "results d' = results d" "approvals d' = approvals d"
      by (simp_all add: d' d1 set_task_def)
    have "?g p \<in> set (plans d')" using cur unfolding rows(1) by (auto simp: mem_update_where current_def)
    then have "current d' ?t (?g p)" using cur by (simp add: current_def)
    moreover have "live_permits d' ?t = {?q}" using p'(2) by (auto simp: live_permits_def rows(2))
    ultimately have "authorised d' ?t (?g p) ?q" by (simp add: authorised_def exact_permit_def)
    then have "stage EXECUTING d' ?t" by auto
    moreover have "history_ok sha d' ?t"
      by (rule history_replan [OF h]) (auto simp: rows mem_update_where split: if_splits)
    moreover have "provenance_ok (expected_mode im) d' ?t"
    proof -
      have "starts_auto_authority (auto_authority p)"
        using cur h by (auto simp: starts_auto_authority_def auto_authority_def history_ok_def current_def starts_with_iff)
      then show ?thesis using pr prov
        by (auto simp: provenance_ok_def expected_mode_def rows(2,6) split: if_splits)
    qed
    ultimately show "evidence_ok sha (expected_mode i1) d' ?t" using i1
      by (simp add: evidence_ok_def work_phase_def)
  qed simp
qed

text \<open>Replanning and clarification.\<close>

lemma evidence_replan:
  assumes inv: "runtime_inv sha d" and o: "owned_task d k ph = Inr t" and cur: "current d t p"
    and D: "D = invalidate_permits now k (supersede_plan (tr_plan t) d) \<or>
      D = invalidate_approvals now k (invalidate_permits now k (supersede_plan (tr_plan t) d))"
    and d': "d' = set_task k f D" and key: "\<And>t. same_key t (f t)"
    and f: "tr_phase (f t) = PLANNING" "tr_attempt (f t) = tr_attempt t" "tr_round (f t) = tr_round t"
  shows "evidence_inv sha d'"
proof -
  have tab: "tables_ok d" and ev: "evidence_inv sha d" using inv by (auto simp: runtime_inv_def core_ok_def)
  have k: "tr_id t = k" using o by (auto simp: owned_task_iff)
  have fk: "tr_id (f t) = k" using key [of t] k by (simp add: same_key_def)
  have rows: "plans d' = plans (supersede_plan (tr_plan t) d)" "permits d' = permits (invalidate_permits now k d)"
    "executions d' = executions d" "validations d' = validations d" "results d' = results d"
    "approvals d' = approvals d \<or> approvals d' = approvals (invalidate_approvals now k d)"
    using D d' by (auto simp: runtime_updates)
  have ap: "\<exists>a0 \<in> set (approvals d). ra_task_run a = ra_task_run a0 \<and> ra_mode a = ra_mode a0"
    if "a \<in> set (approvals d')" for a
    using rows(6) that by (elim disjE) (auto simp: mem_invalidated split: if_splits)
  show ?thesis
  proof (rule evidence_owner [OF tab ev o _ _ key])
    show "threads d' = threads d" using D d' by auto
    show "tasks d' = update_where (\<lambda>t. tr_id t = k) f (tasks d)" using D d' by (auto simp: set_task_def)
    show "rows_of d' u = rows_of d u" if "u \<noteq> k" for u
      using that D d' rows_plan_update [OF tab cur, of u] k
      by (auto simp: rows_invalidate supersede_current [OF cur])
  next
    fix i assume "evidence_ok sha (expected_mode i) d t"
    then have h: "history_ok sha d t" and pr: "provenance_ok (expected_mode i) d t"
      by (simp_all add: evidence_ok_def)
    have "live_permits d' (f t) = {}"
      using live_invalidated [OF fk, of now d] rows(2) by (simp add: live_permits_def)
    moreover have "history_ok sha d' (f t)"
      by (rule history_replan [OF h]) (auto simp: rows k fk f mem_invalidated split: if_splits)
    moreover have "provenance_ok (expected_mode i) d' (f t)"
      by (rule provenance_replan [OF pr _ _ ap]) (auto simp: rows(2) k fk mem_invalidated split: if_splits)
    ultimately show "evidence_ok sha (expected_mode i) d' (f t)"
      by (simp add: evidence_ok_def work_phase_def f)
  qed
qed

lemma stage_current:
  assumes "evidence_ok sha m d t" and "tr_phase t \<in> {WAITING_FOR_PLAN_APPROVAL, EXECUTING, VALIDATING, WAITING_FOR_RESULT_APPROVAL, DONE}"
  obtains p where "current d t p"
  using assms by (auto simp: evidence_ok_def work_phase_def chain_def authorised_def)

lemma stage_update:
  assumes "rows_of d' (tr_id t) = rows_of d (tr_id t)" and "tr_id u = tr_id t" "tr_plan u = tr_plan t"
    "tr_attempt u = tr_attempt t" "tr_round u = tr_round t"
  shows "stage ph d' u = stage ph d t"
proof -
  note rows = assms(1) [unfolded rows_of_def prod.inject]
  have "live_permits d' u = live_permits d t" unfolding live_permits_def by (simp only: rows assms)
  moreover have "current d' u = current d t" unfolding current_def [abs_def] by (simp only: rows assms)
  moreover from calculation have "authorised d' u = authorised d t" unfolding authorised_def [abs_def] by simp
  moreover have "executed d' u = executed d t" unfolding executed_def [abs_def] by (simp only: rows assms)
  moreover have "validated d' u = validated d t" unfolding validated_def [abs_def] by (simp only: rows assms)
  moreover have "published d' u = published d t" unfolding published_def [abs_def] by (simp only: rows assms)
  moreover have "accepted d' u = accepted d t" unfolding accepted_def [abs_def] by (simp only: rows assms)
  moreover have "only_accepts d' u = only_accepts d t" unfolding only_accepts_def [abs_def] by (simp only: rows assms)
  moreover from calculation have "chain d' u = chain d t" unfolding chain_def [abs_def] by simp
  ultimately show ?thesis by (cases ph) simp_all
qed

lemma evidence_pause_resume:
  assumes inv: "runtime_inv sha d" and o: "owned_task d k ph = Inr t" and d': "d' = set_task k f d"
    and key: "\<And>t. same_key t (f t)" and f: "tr_plan (f t) = tr_plan t" "tr_attempt (f t) = tr_attempt t"
      "tr_round (f t) = tr_round t" "work_phase (f t) = work_phase t"
      "tr_phase (f t) = WAITING_FOR_INPUT \<Longrightarrow> tr_waiting (f t) \<in> {Some PLANNING, Some EXECUTING, Some VALIDATING}"
  shows "evidence_inv sha d'"
proof -
  have tab: "tables_ok d" and ev: "evidence_inv sha d" using inv by (auto simp: runtime_inv_def core_ok_def)
  have k: "tr_id t = k" using o by (auto simp: owned_task_iff)
  have fk: "tr_id (f t) = tr_id t" using key [of t] by (simp add: same_key_def)
  show ?thesis
  proof (rule evidence_owner [OF tab ev o _ _ key])
    fix i assume e: "evidence_ok sha (expected_mode i) d t"
    have "stage (work_phase (f t)) d' (f t)"
      using e fk f unfolding evidence_ok_def f(4) by (subst stage_update [of d' t d]) (simp_all add: d')
    moreover have "history_ok sha d' (f t)" "provenance_ok (expected_mode i) d' (f t)"
      using e fk f by (simp_all add: evidence_ok_def history_ok_def provenance_ok_def d' set_task_def)
    ultimately show "evidence_ok sha (expected_mode i) d' (f t)"
      using f(5) by (simp add: evidence_ok_def)
  qed (simp_all add: d' set_task_def)
qed

text \<open>Execution: the permit the guard found is the one live permit of the task.\<close>

lemma mk_execution_fields [simp]:
  "ex_task_run (mk_execution sha now t pid q s e) = tr_id t" "ex_plan (mk_execution sha now t pid q s e) = pid"
  "ex_attempt (mk_execution sha now t pid q s e) = Suc (tr_attempt t)" "ex_succeeded (mk_execution sha now t pid q s e)"
  "ex_permit (mk_execution sha now t pid q s e) = pm_id q"
  by (simp_all add: mk_execution_def)

lemma current_plan_of:
  "tables_ok d \<Longrightarrow> current d t p \<Longrightarrow> tr_plan t = Some k \<Longrightarrow> plan_of d k = Some p' \<Longrightarrow> p' = p"
  by (rule key_unique(1)) (auto simp: current_def)

lemma evidence_finish_execution:
  assumes inv: "runtime_inv sha d" and step: "finish_execution sha now k summary evidence d = (Inr r, d')"
  shows "evidence_inv sha d'"
  using step
proof (rule finish_execution_effect)
  fix t q d1 and p :: plan_row
  let ?x = "mk_execution sha now t (pl_id p) q summary evidence"
  let ?f = "\<lambda>u. (enter VALIDATING now u)\<lparr>tr_attempt := Suc (tr_attempt t)\<rparr>"
  assume o: "owned_task d k EXECUTING = Inr t" and pp: "tr_plan t = Some (pl_id p)" "plan_of d (pl_id p) = Some p"
    and q: "live_permit_for d k p = Some q" and i: "insert_execution ?x d = Inr d1"
    and d': "d' = set_task k ?f d1"
  have tab: "tables_ok d" and ev: "evidence_inv sha d" using inv by (auto simp: runtime_inv_def core_ok_def)
  have k: "tr_id t = k" using o by (auto simp: owned_task_iff)
  have d1: "d1 = d\<lparr>executions := executions d @ [?x]\<rparr>" using i by (simp add: insert_execution_iff)
  have rows: "plans d' = plans d" "permits d' = permits d" "executions d' = executions d @ [?x]"
    "validations d' = validations d" "results d' = results d" "approvals d' = approvals d"
    by (simp_all add: d' d1 set_task_def)
  show ?thesis
  proof (rule evidence_owner [OF tab ev o, where f = ?f])
    show "threads d' = threads d" using threads_insert(3) [OF i] by (simp add: d')
    show "tasks d' = update_where (\<lambda>t. tr_id t = k) ?f (tasks d)" by (simp add: d' d1 set_task_def)
    show "same_key u (?f u)" for u by (simp add: same_key_def)
    show "rows_of d' u = rows_of d u" if "u \<noteq> k" for u
      using that rows_insert(3) [OF i, of u] k by (simp add: d')
  next
    fix im assume "evidence_ok sha (expected_mode im) d t"
    then have h: "history_ok sha d t" and pr: "provenance_ok (expected_mode im) d t"
      and st: "stage EXECUTING d t" using o by (auto simp: evidence_ok_def work_phase_def owned_task_iff)
    from st obtain p' q' where a: "authorised d t p' q'" by auto
    have p: "p' = p" using current_plan_of [OF tab _ pp] a by (auto simp: authorised_def)
    have "q \<in> live_permits d t" using live_permit_SomeD [OF q] k by (simp add: live_permits_def)
    with a have q': "q' = q" by (simp add: authorised_def)
    have "authorised d' (?f t) p q" using a p q' by (simp add: authorised_def current_def live_permits_def rows)
    moreover have "executed d' (?f t) p q ?x" by (simp add: executed_def rows)
    moreover have "only_accepts d' (?f t) p" using h by (fastforce simp: only_accepts_def history_ok_def rows)
    ultimately have "stage VALIDATING d' (?f t)" unfolding stage.simps by blast
    moreover have "history_ok sha d' (?f t)" by (rule history_step [OF h]) (auto simp: rows)
    moreover have "provenance_ok (expected_mode im) d' (?f t)"
      by (rule provenance_replan [OF pr]) (auto simp: rows)
    ultimately show "evidence_ok sha (expected_mode im) d' (?f t)" by (simp add: evidence_ok_def work_phase_def)
  qed
qed

text \<open>Validation: one decision per attempt.\<close>

lemma mk_validation_fields [simp]:
  "va_task_run (mk_validation sha t pid v s fs rs e) = tr_id t" "va_plan (mk_validation sha t pid v s fs rs e) = pid"
  "va_attempt (mk_validation sha t pid v s fs rs e) = tr_attempt t"
  "va_round (mk_validation sha t pid v s fs rs e) = Suc (tr_round t)"
  "va_verdict (mk_validation sha t pid v s fs rs e) = v"
  by (simp_all add: mk_validation_def)

lemma latest_validation_None:
  "latest_validation d k (Some pid) n = None \<longleftrightarrow>
     (\<forall>v \<in> set (validations d). \<not> (va_task_run v = k \<and> va_plan v = pid \<and> va_attempt v = n))"
  by (auto simp: latest_validation_def filter_empty_conv)

lemma evidence_validation:
  assumes inv: "runtime_inv sha d" and o: "owned_task d k VALIDATING = Inr t"
    and step: "record_validation sha now t v summary findings repairs evidence d = Inr (early, d')"
  shows "evidence_inv sha d'"
  using step
proof (rule record_validation_effect)
  assume "d' = d"
  with inv show ?thesis by (simp add: runtime_inv_def)
next
  fix pid d1
  let ?v = "mk_validation sha t pid v summary findings repairs evidence"
  let ?f = "\<lambda>u. (enter (verdict_phase v) now u)
        \<lparr>tr_round := Suc (tr_round t), tr_feedback := tr_feedback t @ verdict_feedback summary repairs v,
         tr_failure := (if v = BLOCKED then Some (strip summary) else None)\<rparr>"
  assume pid: "tr_plan t = Some pid" and none: "latest_validation d (tr_id t) (Some pid) (tr_attempt t) = None"
    and i: "insert_validation ?v d = Inr d1" and d': "d' = set_task (tr_id t) ?f (verdict_effect now t summary v d1)"
  have tab: "tables_ok d" and ev: "evidence_inv sha d" using inv by (auto simp: runtime_inv_def core_ok_def)
  have k: "tr_id t = k" using o by (auto simp: owned_task_iff)
  obtain i0 where e0: "evidence_ok sha (expected_mode i0) d t" "tr_phase t = VALIDATING" using owner_evidence [OF ev o] by metis
  then obtain p q x where a: "authorised d t p q" "executed d t p q x"
    by (auto simp: evidence_ok_def work_phase_def)
  have cur: "current d t p" using a by (simp add: authorised_def)
  have pid': "pid = pl_id p" using cur pid by (simp add: current_def)
  have d1: "d1 = d\<lparr>validations := validations d @ [?v]\<rparr>" using i by (simp add: insert_validation_iff)
  have same: "executions d' = executions d" "validations d' = validations d @ [?v]"
      "results d' = results d" "approvals d' = approvals d"
    by (cases v; simp add: d' d1 set_task_def set_cycle_def)+
  have rest: "v \<noteq> REPLAN \<Longrightarrow> plans d' = plans d \<and> permits d' = permits d"
    by (cases v) (simp_all add: d' d1 set_task_def set_cycle_def)
  have repl: "v = REPLAN \<Longrightarrow> plans d' = plans (supersede_plan (tr_plan t) d) \<and> permits d' = permits (invalidate_permits now k d)"
    by (simp add: d' d1 k runtime_updates)
  have pm: "\<exists>p0 \<in> set (plans d). pl_task_run p1 = pl_task_run p0 \<and> pl_digest p1 = pl_digest p0 \<and>
      pl_text p1 = pl_text p0 \<and> pl_occurrence p1 = pl_occurrence p0" if "p1 \<in> set (plans d')" for p1
    using that rest repl by (cases "v = REPLAN") (auto simp: mem_invalidated split: if_splits)
  have qm: "\<exists>q0 \<in> set (permits d). pm_task_run q1 = pm_task_run q0 \<and> pm_mode q1 = pm_mode q0 \<and>
      pm_by q1 = pm_by q0 \<and> pm_event q1 = pm_event q0" if "q1 \<in> set (permits d')" for q1
    using that rest repl by (cases "v = REPLAN") (auto simp: mem_invalidated split: if_splits)
  show ?thesis
  proof (rule evidence_owner [OF tab ev o, where f = ?f])
    show "threads d' = threads d" using threads_insert(4) [OF i] by (cases v) (simp_all add: d')
    show "tasks d' = update_where (\<lambda>t. tr_id t = k) ?f (tasks d)"
      by (cases v) (simp_all add: d' d1 set_task_def k)
    show "same_key u (?f u)" for u by (simp add: same_key_def)
    show "rows_of d' u = rows_of d u" if u: "u \<noteq> k" for u
    proof -
      have one: "rows_of d1 u = rows_of d u" using rows_insert(4) [OF i, of u] u k by simp
      let ?D = "invalidate_permits now k d1"
      have "current ?D t p" using cur by (simp add: current_def d1)
      moreover have "tables_ok ?D" using tables_insert_validation [OF i tab] by simp
      ultimately have "rows_of (supersede_plan (tr_plan t) ?D) u = rows_of ?D u"
        using rows_plan_update [of ?D t p u] u k by (simp add: supersede_current)
      with one u k show ?thesis by (cases v) (simp_all add: d' rows_invalidate)
    qed
  next
    fix im assume e: "evidence_ok sha (expected_mode im) d t"
    then have h: "history_ok sha d t" and pr: "provenance_ok (expected_mode im) d t" by (simp_all add: evidence_ok_def)
    have "stage (verdict_phase v) d' (?f t)"
    proof (cases v)
      case ACCEPT
      have "authorised d' (?f t) p q" "executed d' (?f t) p q x"
        using a ACCEPT rest by (simp_all add: authorised_def current_def live_permits_def executed_def same)
      moreover have "only_accepts d' (?f t) p"
        using none pid' ACCEPT by (auto simp: only_accepts_def latest_validation_None same)
      ultimately show ?thesis using ACCEPT by auto
    next
      case NEEDS_FIXES
      have "authorised d' (?f t) p q"
        using a NEEDS_FIXES rest by (simp add: authorised_def current_def live_permits_def)
      then show ?thesis using NEEDS_FIXES by auto
    next
      case REPLAN
      then show ?thesis using live_invalidated [of t k now d] repl k by (simp add: live_permits_def)
    qed simp
    moreover have "history_ok sha d' (?f t)" by (rule history_step [OF h _ _ _ _ _ _ _ pm]) (auto simp: same)
    moreover have "provenance_ok (expected_mode im) d' (?f t)"
      by (rule provenance_replan [OF pr _ qm]) (auto simp: same)
    moreover have "work_phase (?f t) = verdict_phase v" "tr_phase (?f t) \<noteq> WAITING_FOR_INPUT"
      by (cases v; simp add: work_phase_def)+
    ultimately show "evidence_ok sha (expected_mode im) d' (?f t)" by (simp add: evidence_ok_def)
  qed
qed

text \<open>Publication of the validated result and its approval.\<close>

lemma mk_result_fields [simp]:
  "re_task_run (mk_result sha now t pid x v c at) = tr_id t" "re_plan (mk_result sha now t pid x v c at) = pid"
  "re_execution (mk_result sha now t pid x v c at) = ex_id x" "re_validation (mk_result sha now t pid x v c at) = va_id v"
  by (simp_all add: mk_result_def Let_def)

lemma latest_validation_SomeD:
  "latest_validation d k (Some pid) n = Some v \<Longrightarrow>
     v \<in> set (validations_of d k) \<and> va_plan v = pid \<and> va_attempt v = n"
  unfolding latest_validation_def by (drule latest_by_in) simp

lemma exact_execution_SomeD:
  "exact_execution d k (Some pid) n = Some x \<Longrightarrow>
     x \<in> set (executions_of d k) \<and> ex_plan x = pid \<and> ex_attempt x = n"
  unfolding exact_execution_def by (drule find_SomeD) simp

lemma evidence_publish_result:
  assumes inv: "runtime_inv sha d" and step: "publish_validated_result sha now k cid at d = (Inr r, d')"
    and new: "r \<notin> set (results d)"
  shows "evidence_inv sha d'"
  using step
proof (rule publish_result_effect)
  fix t pid v x d1
  let ?r = "mk_result sha now t pid x v cid at"
  assume o: "owned_task d k VALIDATING = Inr t" and pid: "tr_plan t = Some pid"
    and v: "latest_validation d k (Some pid) (tr_attempt t) = Some v"
    and x: "exact_execution d k (Some pid) (tr_attempt t) = Some x"
    and acc: "va_verdict v = ACCEPT" "ex_succeeded x"
    and i: "insert_result ?r d = Inr d1" and d': "d' = set_task k (enter WAITING_FOR_RESULT_APPROVAL now) d1"
    and r: "result_of d' (re_id ?r) = Some r"
  let ?t = "enter WAITING_FOR_RESULT_APPROVAL now t"
  have tab: "tables_ok d" and ev: "evidence_inv sha d" using inv by (auto simp: runtime_inv_def core_ok_def)
  have k: "tr_id t = k" using o by (auto simp: owned_task_iff)
  have d1: "d1 = d\<lparr>results := results d @ [?r]\<rparr>"
  proof -
    have "results d1 \<noteq> results d" using new r by (auto simp: d' set_task_def)
    then show ?thesis using i by (auto simp: insert_result_iff simp del: mk_result_fields)
  qed
  have rows: "plans d' = plans d" "permits d' = permits d" "executions d' = executions d"
    "validations d' = validations d" "results d' = results d @ [?r]" "approvals d' = approvals d"
    by (simp_all add: d' d1 set_task_def)
  note v' = latest_validation_SomeD [OF v] and x' = exact_execution_SomeD [OF x]
  show ?thesis
  proof (rule evidence_owner [OF tab ev o, where f = "enter WAITING_FOR_RESULT_APPROVAL now"])
    show "threads d' = threads d" using threads_insert(5) [OF i] by (simp add: d')
    show "tasks d' = update_where (\<lambda>t. tr_id t = k) (enter WAITING_FOR_RESULT_APPROVAL now) (tasks d)"
      by (simp add: d' d1 set_task_def)
    show "rows_of d' u = rows_of d u" if "u \<noteq> k" for u
      using that rows_insert(5) [OF i, of u] k by (simp add: d')
  next
    fix im assume "evidence_ok sha (expected_mode im) d t"
    then have h: "history_ok sha d t" and pr: "provenance_ok (expected_mode im) d t"
      and st: "stage VALIDATING d t" using o by (auto simp: evidence_ok_def work_phase_def owned_task_iff)
    from st obtain p q y where a: "authorised d t p q" "executed d t p q y" "only_accepts d t p" by auto
    have p: "pl_id p = pid" using a(1) pid by (simp add: authorised_def current_def)
    have "y = x" using a(2) x' k by (intro key_unique(3) [OF tab]) (auto simp: executed_def)
    then have "executed d' ?t p q x" using a(2) by (simp add: executed_def rows)
    moreover have "authorised d' ?t p q" using a(1) by (simp add: authorised_def current_def live_permits_def rows)
    moreover have "validated d' ?t p v" using a(3) v' p k acc by (simp add: validated_def only_accepts_def rows)
    moreover have "published d' ?t p x v ?r" using p by (simp add: published_def rows)
    ultimately have "chain d' ?t p q x v ?r" by (simp add: chain_def)
    then have "stage WAITING_FOR_RESULT_APPROVAL d' ?t" unfolding stage.simps by blast
    moreover have "history_ok sha d' ?t"
      by (rule history_step [OF h]) (use v' k in \<open>auto simp: rows\<close>)
    moreover have "provenance_ok (expected_mode im) d' ?t" by (rule provenance_replan [OF pr]) (auto simp: rows)
    ultimately show "evidence_ok sha (expected_mode im) d' ?t" by (simp add: evidence_ok_def work_phase_def)
  qed simp
qed

text \<open>The result of the chain is the current one.\<close>

lemma current_result_chain:
  assumes tab: "tables_ok d" and h: "history_ok sha d t" and c: "chain d t p q x v r"
  shows "current_result d (tr_id t) = Some r"
proof -
  let ?rs = "filter (\<lambda>r. re_task_run r = tr_id t \<and> has va_id (re_validation r) (validations d)) (results d)"
  have r: "r \<in> set (results_of d (tr_id t))" "re_validation r = va_id v" "v \<in> set (validations_of d (tr_id t))"
    "va_round v = tr_round t" using c by (auto simp: chain_def published_def validated_def)
  have round_of: "validation_round_of d s = va_round w" if "w \<in> set (validations d)" "va_id w = re_validation s" for w s
    using that tab lookup_unique [of va_id "validations d" w] by (simp add: validation_round_of_def tables_defs)
  have "r \<in> set ?rs" using r by auto
  moreover have "(validation_round_of d s, re_id s) < (validation_round_of d r, re_id r)"
    if s: "s \<in> set ?rs" "s \<noteq> r" for s
  proof -
    have "s \<in> set (results_of d (tr_id t))" using s by simp
    with h obtain w where w: "w \<in> set (validations_of d (tr_id t))" "va_id w = re_validation s"
      by (auto simp: history_ok_def)
    have "va_round w \<noteq> va_round v"
    proof
      assume "va_round w = va_round v"
      then have "w = v" using w r by (intro key_unique(5) [OF tab]) auto
      then have "s = r" using w r s by (intro key_unique(7) [OF tab]) auto
      with s show False by simp
    qed
    moreover have "va_round w \<le> va_round v" using h w r by (auto simp: history_ok_def)
    ultimately have "validation_round_of d s < validation_round_of d r"
      using round_of [of w s] round_of [of v r] w r by simp
    then show ?thesis by (simp add: less_prod_def)
  qed
  ultimately show ?thesis unfolding current_result_def by (rule latest_by_greatest)
qed

lemma mk_result_approval_fields [simp]:
  "ra_result (mk_result_approval sha t r occ m ev by at) = re_id r" "ra_task_run (mk_result_approval sha t r occ m ev by at) = tr_id t"
  "ra_plan (mk_result_approval sha t r occ m ev by at) = re_plan r"
  "ra_execution (mk_result_approval sha t r occ m ev by at) = re_execution r"
  "ra_validation (mk_result_approval sha t r occ m ev by at) = re_validation r"
  "ra_occurrence (mk_result_approval sha t r occ m ev by at) = occ" "ra_mode (mk_result_approval sha t r occ m ev by at) = m"
  "ra_invalidated (mk_result_approval sha t r occ m ev by at) = None"
  by (simp_all add: mk_result_approval_def)

lemma evidence_accept:
  assumes inv: "runtime_inv sha d" and o: "owned_task d k WAITING_FOR_RESULT_APPROVAL = Inr t"
    and im: "interaction_mode d (tr_thread t) = Inr im"
    and step: "accept_result sha now t occ ev by at (expected_mode im) d = Inr (aid, d')"
    and new: "approval_of d' aid = Some a" "a \<notin> set (approvals d)"
  shows "evidence_inv sha d'"
  using step
proof (rule accept_result_effect)
  fix r d1 b
  assume r: "r \<in> set (results_of d (tr_id t))" "re_occurrence r = occ" "Some (re_plan r) = tr_plan t"
    "map_option re_id (current_result d (tr_id t)) = Some (re_id r)"
    and b: "b = mk_result_approval sha t r occ (expected_mode im) ev by at" and i: "insert_approval b d = Inr d1"
    and d': "d' = d1\<lparr>tasks := update_where (\<lambda>u. tr_id u = tr_id t) (enter DONE now) (tasks d1),
        cycles := update_where (\<lambda>c. cy_id c = tr_cycle t \<and> cy_active c = Some (tr_task t))
          (\<lambda>c. c\<lparr>cy_active := None\<rparr>) (cycles d1)\<rparr>"
  let ?t = "enter DONE now t"
  have tab: "tables_ok d" and evd: "evidence_inv sha d" using inv by (auto simp: runtime_inv_def core_ok_def)
  have k: "tr_id t = k" using o by (auto simp: owned_task_iff)
  have d1: "d1 = d\<lparr>approvals := approvals d @ [b]\<rparr>"
  proof -
    have "approvals d1 \<noteq> approvals d" using new by (auto simp: d')
    then show ?thesis using i by (auto simp: insert_approval_iff)
  qed
  have rows: "plans d' = plans d" "permits d' = permits d" "executions d' = executions d"
    "validations d' = validations d" "results d' = results d" "approvals d' = approvals d @ [b]"
    by (simp_all add: d' d1)
  show ?thesis
  proof (rule evidence_owner [OF tab evd o, where f = "enter DONE now"])
    show "threads d' = threads d" using threads_insert(6) [OF i] by (simp add: d')
    show "tasks d' = update_where (\<lambda>t. tr_id t = k) (enter DONE now) (tasks d)" by (simp add: d' d1 k)
    show "rows_of d' u = rows_of d u" if "u \<noteq> k" for u
      using that rows_insert(6) [OF i, of u] k b by (simp add: d')
  next
    fix i1 assume "interaction_mode d (tr_thread t) = Inr i1" "evidence_ok sha (expected_mode i1) d t"
    then have i1: "i1 = im" and h: "history_ok sha d t" and pr: "provenance_ok (expected_mode im) d t"
      and st: "stage WAITING_FOR_RESULT_APPROVAL d t"
      using im o by (auto simp: evidence_ok_def work_phase_def owned_task_iff)
    from st obtain p q x v r0 where c: "chain d t p q x v r0" by auto
    have "re_id r0 = re_id r" using current_result_chain [OF tab h c] r(4) by simp
    then have "r0 = r" using c r(1) by (intro key_unique(6) [OF tab]) (auto simp: chain_def published_def)
    with c have c: "chain d t p q x v r" by simp
    have "chain d' ?t p q x v r"
      using c by (simp add: chain_def authorised_def current_def live_permits_def executed_def validated_def
          published_def rows)
    moreover have "accepted d' ?t r b" using r(2) by (simp add: accepted_def b rows)
    ultimately have "stage DONE d' ?t" unfolding stage.simps by blast
    moreover have "history_ok sha d' ?t" by (rule history_step [OF h]) (auto simp: rows)
    moreover have "provenance_ok (expected_mode im) d' ?t" using pr by (auto simp: provenance_ok_def rows b)
    ultimately show "evidence_ok sha (expected_mode i1) d' ?t" using i1
      by (simp add: evidence_ok_def work_phase_def)
  qed simp
qed

text \<open>Steps that write no evidence row.\<close>

lemma evidence_no_rows:
  assumes ev: "evidence_inv sha d" and rows: "rows_of d' = rows_of d"
    and im: "\<And>s m. interaction_mode d s = Inr m \<Longrightarrow> interaction_mode d' s = Inr m"
    and ts: "\<And>u. u \<in> set (tasks d') \<Longrightarrow> \<exists>t \<in> set (tasks d). tr_id u = tr_id t \<and> tr_thread u = tr_thread t \<and>
      tr_attempt u = tr_attempt t \<and> tr_round u = tr_round t \<and>
      (u = t \<or> tr_phase u = FAILED \<or> tr_phase u = PLANNING \<and> tr_phase t = PENDING)"
  shows "evidence_inv sha d'"
  unfolding evidence_inv_def
proof
  fix u assume "u \<in> set (tasks d')"
  from ts [OF this] obtain t where t: "t \<in> set (tasks d)" "tr_id u = tr_id t" "tr_thread u = tr_thread t"
    "tr_attempt u = tr_attempt t" "tr_round u = tr_round t"
    and ph: "u = t \<or> tr_phase u = FAILED \<or> tr_phase u = PLANNING \<and> tr_phase t = PENDING" by blast
  obtain m where m: "interaction_mode d (tr_thread t) = Inr m" "evidence_ok sha (expected_mode m) d t"
    using ev t(1) by (auto simp: evidence_inv_def)
  have e: "evidence_ok sha (expected_mode m) d u"
  proof (cases "u = t")
    case False
    have "history_ok sha d u" "provenance_ok (expected_mode m) d u"
      using m(2) t by (simp_all add: evidence_ok_def history_ok_def provenance_ok_def)
    moreover have "live_permits d u = live_permits d t" using t by (simp add: live_permits_def)
    ultimately show ?thesis using False ph m(2) by (auto simp: evidence_ok_def work_phase_def)
  qed (use m in simp)
  have "evidence_ok sha (expected_mode m) d' u = evidence_ok sha (expected_mode m) d u"
    by (rule evidence_frame_rows) (simp add: rows)
  with e m(1) im t(3) show "\<exists>m. interaction_mode d' (tr_thread u) = Inr m \<and> evidence_ok sha (expected_mode m) d' u"
    by auto
qed

lemma evidence_fail:
  assumes "evidence_inv sha d" and "fail_active_task now k reason d = (Inr r, d')"
  shows "evidence_inv sha d'"
  using assms(2)
proof (rule fail_effect)
  fix c msg
  assume d': "d' = set_cycle k (\<lambda>c. c\<lparr>cy_status := C_FAILED, cy_failure := Some msg\<rparr>)
      (case cy_active c of None \<Rightarrow> d
       | Some a \<Rightarrow> d\<lparr>tasks := update_where (\<lambda>t. tr_cycle t = k \<and> tr_task t = a)
           (\<lambda>t. (enter FAILED now t)\<lparr>tr_failure := Some msg\<rparr>) (tasks d)\<rparr>)"
  show ?thesis
  proof (rule evidence_no_rows [OF assms(1)])
    show "rows_of d' = rows_of d" by (simp add: d' split: option.split)
    show "interaction_mode d s = Inr m \<Longrightarrow> interaction_mode d' s = Inr m" for s m
      by (simp add: d' interaction_mode_def set_cycle_def split: option.splits)
    fix u assume "u \<in> set (tasks d')"
    then show "\<exists>t \<in> set (tasks d). tr_id u = tr_id t \<and> tr_thread u = tr_thread t \<and>
      tr_attempt u = tr_attempt t \<and> tr_round u = tr_round t \<and>
      (u = t \<or> tr_phase u = FAILED \<or> tr_phase u = PLANNING \<and> tr_phase t = PENDING)"
      unfolding d' by (cases "cy_active c") (force simp: mem_update_where split: if_splits)+
  qed
qed (use assms(1) in simp)

lemma evidence_select:
  assumes inv: "runtime_inv sha d" and "select_active_task now k d = (r, d')"
  shows "evidence_inv sha d'"
  using assms(2)
proof (rule select_effect)
  have ev: "evidence_inv sha d" using inv by (simp add: runtime_inv_def)
  then show ?thesis if "d' = d" using that by simp
  show ?thesis if "d' = (set_cycle k (\<lambda>c. if cy_active c = None then c\<lparr>cy_status := C_AWAITING_PUBLICATION\<rparr> else c) d)\<lparr>lifecycles := ls\<rparr>"
    for ls using that by (intro evidence_no_rows [OF ev]) (auto simp: interaction_mode_def)
  fix c rows and t :: task_row
  assume rows: "rows = task_runs d k" "find (eligible rows) rows = Some t"
    and c: "cycle_of d k = Some c"
    and d': "d' = d\<lparr>cycles := update_where (\<lambda>c. cy_id c = k \<and> cy_active c = None \<and> cy_status c = C_ACTIVE)
              (\<lambda>c. c\<lparr>cy_active := Some (tr_task t)\<rparr>) (cycles d),
            tasks := update_where (\<lambda>u. tr_id u = tr_id t \<and> tr_status u = PENDING) (enter PLANNING now) (tasks d)\<rparr>"
  have t: "t \<in> set (cycle_tasks d k)" "tr_status t = PENDING"
    using find_SomeD [OF rows(2)] rows(1) task_runs_rows [of d k] by (auto simp: eligible_def)
  have "c \<in> set (cycles d)" "cy_id c = k" using c by auto
  with inv have "cycle_ok sha c (cycle_tasks d k)" by (auto simp: runtime_inv_def core_ok_def ownership_ok_def)
  with t have "tr_phase t = PENDING" by (simp add: cycle_ok_def)
  moreover have "u = t" if "u \<in> set (tasks d)" "tr_id u = tr_id t" for u
    using inv that t key_unique(9) [of d u t] by (auto simp: runtime_inv_def core_ok_def)
  ultimately have pend: "tr_phase u = PENDING" if "u \<in> set (tasks d)" "tr_id u = tr_id t" for u
    using that by metis
  show ?thesis
  proof (rule evidence_no_rows [OF ev])
    fix u assume "u \<in> set (tasks d')"
    then obtain v where v: "v \<in> set (tasks d)"
      "u = (if tr_id v = tr_id t \<and> tr_status v = PENDING then enter PLANNING now v else v)"
      by (auto simp: d' mem_update_where)
    then show "\<exists>t \<in> set (tasks d). tr_id u = tr_id t \<and> tr_thread u = tr_thread t \<and>
      tr_attempt u = tr_attempt t \<and> tr_round u = tr_round t \<and>
      (u = t \<or> tr_phase u = FAILED \<or> tr_phase u = PLANNING \<and> tr_phase t = PENDING)"
      using pend by (intro bexI [OF _ v(1)]) auto
  qed (simp_all add: d' interaction_mode_def)
qed

lemma no_rows: "key ` set rows \<subseteq> K \<Longrightarrow> k \<notin> K \<Longrightarrow> filter (\<lambda>r. key r = k) rows = []"
  by (auto simp: filter_empty_conv)

lemma evidence_initialize:
  assumes inv: "runtime_inv sha d" and step: "initialize_cycle sha now th n root spec ref kind seq d = (r, d')"
  shows "evidence_inv sha d'"
  using step
proof (rule initialize_effect)
  have ev: "evidence_inv sha d" and tab: "tables_ok d" using inv by (auto simp: runtime_inv_def core_ok_def)
  then show ?thesis if "d' = d" using that by simp
  fix d1
  let ?id = "workflow_cycle_id_for sha th n (ws_workflow_id spec)"
  let ?c = "new_cycle ?id th n root spec ref kind seq"
  let ?ts = "map (\<lambda>(j, t). new_task sha now ?id th n (ws_workflow_id spec) j t) (enumerate 0 (ws_tasks spec))"
  let ?d = "d'\<lparr>lifecycles := lifecycles d\<rparr>"
  assume c: "insert_cycle ?c d = Inr d1"
    and t: "insert_tasks (new_task sha now ?id th n (ws_workflow_id spec)) 0 (ws_tasks spec) d1 = Inr ?d"
  have d1: "d1 = d\<lparr>cycles := cycles d @ [?c]\<rparr>" and th: "th \<in> th_id ` set (threads d)"
    using c by (simp_all add: insert_cycle_iff)
  have eq: "?d = d1\<lparr>tasks := tasks d1 @ ?ts\<rparr>" by (rule insert_tasks_eq [OF t])
  have ts: "tasks d' = tasks d @ ?ts" and rows: "rows_of d' = rows_of d" and thr: "threads d' = threads d"
    using arg_cong [OF eq, of tasks] arg_cong [OF eq, of rows_of] arg_cong [OF eq, of threads] by (simp_all add: d1)
  have "tables_ok ?d" using tables_insert_tasks [OF t tables_insert_cycle [OF c tab]] .
  then have "distinct (map tr_id (tasks d'))" by (simp add: tables_ok_def ids_ok_def)
  then have "tr_id ` set (tasks d) \<inter> tr_id ` set ?ts = {}"
    unfolding ts map_append distinct_append set_map by blast
  then have fresh: "tr_id u \<notin> tr_id ` set (tasks d)" if "u \<in> set ?ts" for u
    using that by blast
  obtain m where m: "interaction_mode d th = Inr m"
    using th lookup_None_iff [of th_id th "threads d"] by (auto simp: interaction_mode_def split: option.split)
  have im: "interaction_mode d' s = interaction_mode d s" for s by (simp add: interaction_mode_def thr)
  have "\<exists>m. interaction_mode d' (tr_thread u) = Inr m \<and> evidence_ok sha (expected_mode m) d' u"
    if u: "u \<in> set (tasks d')" for u
  proof (cases "u \<in> set ?ts")
    case True
    have empty: "rows_of d (tr_id u) = ([], [], [], [], [], [])"
      using tab fresh [OF True] unfolding rows_of_def tables_ok_def refs_ok_def set_map
      by (elim conjE) (simp add: no_rows)
    have f: "tr_phase u = PENDING" "tr_thread u = th" using True by (auto simp: new_task_def)
    note e = empty [folded fun_cong [OF rows, of "tr_id u"], unfolded rows_of_def prod.inject]
    have "evidence_ok sha (expected_mode m) d' u"
      using f unfolding evidence_ok_def history_ok_def provenance_ok_def work_phase_def
      by (simp add: live_permits_def e del: set_filter)
    with f m im show ?thesis by auto
  next
    case False
    with u ts have u': "u \<in> set (tasks d)" by auto
    with ev obtain m where "interaction_mode d (tr_thread u) = Inr m" "evidence_ok sha (expected_mode m) d u"
      by (auto simp: evidence_inv_def)
    then show ?thesis using im evidence_frame_rows [of d' u d] rows by auto
  qed
  then show ?thesis by (simp add: evidence_inv_def)
qed

end
