(* ===== verification/Invariant.thy ===== *)
theory Invariant
  imports Evidence
begin

text \<open>
  Every step of the runtime keeps the whole invariant, so it holds in every database reached
  from one whose workflow tables are empty.
\<close>

section \<open>The step\<close>

lemma evidence_pauses: "evidence_inv sha d \<Longrightarrow> pauses_ok d"
  by (auto simp: evidence_inv_def evidence_ok_def pauses_ok_def)

lemma evidence_other:
  assumes "evidence_inv sha d" and "same_workflow d d'"
  shows "evidence_inv sha d'"
proof (rule evidence_no_rows [OF assms(1)])
  show "rows_of d' = rows_of d" using assms(2) by (simp add: same_workflow_def rows_of_def fun_eq_iff)
  show "interaction_mode d s = Inr m \<Longrightarrow> interaction_mode d' s = Inr m" for s m
    using assms(2) by (auto simp: same_workflow_def interaction_mode_def split: option.split_asm) fastforce
qed (use assms(2) in \<open>auto simp: same_workflow_def\<close>)

lemma evidence_published:
  assumes "evidence_inv sha d" and "d' = d\<lparr>cycles := cs\<rparr>"
  shows "evidence_inv sha d'"
  by (rule evidence_no_rows [OF assms(1)]) (auto simp: assms(2) interaction_mode_def)

text \<open>The plan an owner replans is its current one.\<close>

lemma owner_current:
  assumes "evidence_inv sha d" and "owned_task d k ph = Inr t"
    and "ph \<in> {WAITING_FOR_PLAN_APPROVAL, EXECUTING, VALIDATING, WAITING_FOR_RESULT_APPROVAL}"
  obtains p where "current d t p"
proof -
  obtain i where "evidence_ok sha (expected_mode i) d t" "tr_phase t = ph"
    using owner_evidence [OF assms(1,2)] by metis
  with assms(3) that show thesis by (auto elim!: stage_current)
qed

lemma evidence_replan_waiting:
  assumes inv: "runtime_inv sha d" and o: "owned_task d k ph = Inr t"
    and ph: "ph \<in> {WAITING_FOR_PLAN_APPROVAL, WAITING_FOR_RESULT_APPROVAL}"
    and d': "d' = set_task k (\<lambda>u. (enter PLANNING now u)\<lparr>tr_feedback := fb\<rparr>)
      (invalidate_approvals now k (invalidate_permits now k (supersede_plan (tr_plan t) d)))"
  shows "evidence_inv sha d'"
proof -
  have ev: "evidence_inv sha d" using inv by (simp add: runtime_inv_def)
  obtain p where "current d t p" using owner_current [OF ev o] ph by auto
  then show ?thesis by (rule evidence_replan [OF inv o _ disjI2 [OF refl] d']) (simp_all add: same_key_def)
qed

lemma evidence_runtime_step:
  assumes "runtime_step sha d d'" and inv: "runtime_inv sha d"
  shows "evidence_inv sha d'"
  using assms(1)
proof cases
  case step_other
  with inv show ?thesis by (auto simp: runtime_inv_def intro: evidence_other)
next
  case (step_published p)
  with inv show ?thesis by (auto simp: runtime_inv_def intro: evidence_published)
next
  case (step_initialize known spec now thread_id n root ref kind seq r)
  show ?thesis by (rule evidence_initialize [OF inv step_initialize(2)])
next
  case (step_select now c r)
  show ?thesis by (rule evidence_select [OF inv step_select])
next
  case (step_submit now k body cid at p)
  show ?thesis by (rule evidence_submit [OF inv step_submit])
next
  case (step_approve now k occ ev who auth at q)
  from step_approve(1) show ?thesis
  proof (rule approve_plan_effect)
    fix t and p :: plan_row and pid
    assume A: "interaction_mode d (tr_thread t) = Inr MANUAL" "owned_task d k WAITING_FOR_PLAN_APPROVAL = Inr t"
      "posted_plan d t = Inr p" "authorize_plan sha now t p ev who at BY_HUMAN d = Inr (pid, d')"
      "permit_of d' pid = Some q"
    show ?thesis
      by (rule evidence_authorize [OF inv A(2,3) _ A(1,5) step_approve(2)]) (use A(4) in \<open>simp_all add: expected_mode_def\<close>)
  qed
next
  case (step_auto_authorize now k q)
  from step_auto_authorize(1) show ?thesis
  proof (rule auto_authorize_effect)
    fix t and p :: plan_row and pid
    assume A: "interaction_mode d (tr_thread t) = Inr AUTO" "owned_task d k WAITING_FOR_PLAN_APPROVAL = Inr t"
      "posted_plan d t = Inr p" "authorize_plan sha now t p (auto_authority p) AUTO_POLICY now BY_AUTO d = Inr (pid, d')"
      "permit_of d' pid = Some q"
    show ?thesis
      by (rule evidence_authorize [OF inv A(2,3) _ A(1,5) step_auto_authorize(2)])
        (use A(4) in \<open>simp_all add: expected_mode_def\<close>)
  qed
next
  case (step_replan_feedback now k t')
  from step_replan_feedback show ?thesis
  proof (rule replan_feedback_effect)
    fix t assume o: "owned_task d k WAITING_FOR_PLAN_APPROVAL = Inr t"
      and d': "d' = set_task k (enter PLANNING now) (invalidate_permits now k (supersede_plan (tr_plan t) d))"
    obtain p where "current d t p" using owner_current [OF _ o] inv by (auto simp: runtime_inv_def)
    then show ?thesis by (rule evidence_replan [OF inv o _ disjI1 [OF refl] d']) simp_all
  qed
next
  case (step_replan_revision now k ids t')
  from step_replan_revision show ?thesis
    by (rule replan_revision_effect) (rule evidence_replan_waiting [OF inv])
next
  case (step_replan_result now k ev feedback t')
  from step_replan_result show ?thesis
  proof (rule replan_result_effect)
    fix t and p :: plan_row and entry
    assume A: "owned_task d k WAITING_FOR_RESULT_APPROVAL = Inr t" "tr_plan t = Some (pl_id p)"
      and d': "d' = set_task k (\<lambda>u. (enter PLANNING now u)\<lparr>tr_feedback := tr_feedback t @ [entry]\<rparr>)
        (invalidate_approvals now k (invalidate_permits now k (supersede_plan (Some (pl_id p)) d)))"
    show ?thesis by (rule evidence_replan_waiting [OF inv A(1) _ d' [folded A(2)]]) simp
  qed
next
  case (step_finish_execution now k summary evidence t)
  show ?thesis by (rule evidence_finish_execution [OF inv step_finish_execution])
next
  case (step_finish_validation now guard k v summary findings repairs evidence t)
  from step_finish_validation show ?thesis
    by (rule finish_validation_effect) (rule evidence_validation [OF inv])
next
  case (step_publish_result now k cid at r)
  show ?thesis by (rule evidence_publish_result [OF inv step_publish_result])
next
  case (step_approve_result now k occ ev' who auth at mode a)
  from step_approve_result(1) show ?thesis
  proof (rule approve_result_effect)
    fix t m im aid
    assume A: "interaction_mode d (tr_thread t) = Inr im" "m = expected_mode im"
      "owned_task d k WAITING_FOR_RESULT_APPROVAL = Inr t"
      "accept_result sha now t occ ev' who at m d = Inr (aid, d')" "approval_of d' aid = Some a"
    show ?thesis by (rule evidence_accept [OF inv A(3,1) A(4) [unfolded A(2)] A(5) step_approve_result(2)])
  qed
next
  case (step_pause now k occ t')
  from step_pause show ?thesis
  proof (rule pause_effect)
    fix t p assume A: "owned_task d k p = Inr t" "p \<in> {PLANNING, EXECUTING, VALIDATING}"
      and d': "d' = set_task k (\<lambda>u. (enter WAITING_FOR_INPUT now u)\<lparr>tr_waiting := Some p, tr_clarification := Some occ\<rparr>) d"
    have "tr_phase t = p" using A(1) by (auto simp: owned_task_iff)
    with A(2) show ?thesis
      by (intro evidence_pause_resume [OF inv A(1) d']) (auto simp: same_key_def work_phase_def)
  qed
next
  case (step_resume now k occ t')
  from step_resume show ?thesis
  proof (rule resume_effect)
    fix t p assume o: "owned_task d k WAITING_FOR_INPUT = Inr t" and w: "tr_waiting t = Some p"
      and d': "d' = set_task k (\<lambda>u. (enter p now u)\<lparr>tr_waiting := None, tr_clarification := None\<rparr>) d"
    have "t \<in> set (tasks d)" "tr_phase t = WAITING_FOR_INPUT" using o by (auto simp: owned_task_iff)
    with w inv have "p \<noteq> WAITING_FOR_INPUT" using evidence_pauses by (force simp: runtime_inv_def pauses_ok_def)
    with w o show ?thesis
      by (intro evidence_pause_resume [OF inv o d']) (auto simp: same_key_def work_phase_def owned_task_iff)
  qed
next
  case (step_fail now c reason c')
  with inv show ?thesis by (auto simp: runtime_inv_def intro: evidence_fail)
qed

theorem runtime_inv_step: "runtime_step sha d d' \<Longrightarrow> runtime_inv sha d \<Longrightarrow> runtime_inv sha d'"
  using core_step evidence_runtime_step evidence_pauses by (auto simp: runtime_inv_def)

lemma runtime_inv_initial: "initial_db d \<Longrightarrow> runtime_inv sha d"
  by (simp add: initial_db_def runtime_inv_def core_ok_def tables_defs ownership_ok_def one_active_def evidence_inv_def)

text \<open>The database of a workflow that was started empty and moved by the runtime.\<close>

interpretation runtime: invariant_machine initial_db "runtime_step sha" "runtime_inv sha" for sha
  by unfold_locales (auto intro: runtime_inv_initial runtime_inv_step)

abbreviation reachable :: "digest \<Rightarrow> db \<Rightarrow> bool" where
  "reachable sha \<equiv> reach initial_db (runtime_step sha)"

lemma reachable_step: "reachable sha d \<Longrightarrow> runtime_step sha d d' \<Longrightarrow> reachable sha d'"
  by (rule reach_step)

text \<open>The parts of the invariant, for a reachable database.\<close>

lemma reachable_core:
  assumes "reachable sha d"
  shows "tables_ok d" "ownership_ok sha d" "evidence_inv sha d"
  using runtime.reach_inv [OF assms] by (simp_all add: runtime_inv_def core_ok_def)

lemma reachable_task:
  assumes "reachable sha d" and "t \<in> set (tasks d)"
  obtains c i where "cycle_of d (tr_cycle t) = Some c" "cycle_ok sha c (cycle_tasks d (tr_cycle t))"
    "interaction_mode d (tr_thread t) = Inr i" "evidence_ok sha (expected_mode i) d t"
proof -
  note ok = reachable_core [OF assms(1)]
  obtain i where i: "interaction_mode d (tr_thread t) = Inr i" "evidence_ok sha (expected_mode i) d t"
    using ok(3) assms(2) by (auto simp: evidence_inv_def)
  have "tr_cycle t \<in> cy_id ` set (cycles d)" using ok(1) assms(2) by (auto simp: tables_ok_def refs_ok_def)
  then obtain c where c: "cycle_of d (tr_cycle t) = Some c"
    using lookup_None_iff [of cy_id "tr_cycle t" "cycles d"] by auto
  then have "c \<in> set (cycles d)" "cy_id c = tr_cycle t" by auto
  with ok(2) have "cycle_ok sha c (cycle_tasks d (tr_cycle t))" by (auto simp: ownership_ok_def)
  with that c i show thesis by blast
qed

end
