(* ===== verification/Example_Run.thy ===== *)
theory Example_Run
  imports Invariant
begin

text \<open>
  A concrete run of the runtime on a thread in MANUAL mode: the one task of a small workflow is
  planned, approved, executed, validated, published and accepted. Its databases are the
  instances on which the properties of the following theories are applied.
\<close>

definition demo_0 :: db where
  "demo_0 = \<lparr>threads = [\<lparr>th_id = ''t'', th_repo_id = 1, th_repo_full_name = ''o/r'', th_issue_number = 7,
       th_mode = MANUAL, th_config = None\<rparr>],
     lifecycles = [\<lparr>li_thread = ''t'', li_state = NOT_STARTED, li_root_event = ''e0'', li_cycle = None, li_digest = None\<rparr>],
     events = [], cycles = [], tasks = [], plans = [], permits = [], executions = [], validations = [],
     results = [], approvals = [], revision_inputs = [], reviews = [], outbox = [], consumptions = [], deferred = [],
     publications = [], learning_jobs = [], resolution_jobs = [],
     workspaces = [\<lparr>wk_thread = ''t'', wk_repo_id = 1, wk_repo_full_name = ''o/r'', wk_issue_number = 7,
       wk_source = ''/src'', wk_path = ''/work/t'', wk_branch = ''branch'', wk_base = ''base''\<rparr>],
     legacy_states = [], memory_candidates = [],
     repositories = [\<lparr>rp_id = 1, rp_full_name = ''o/r'', rp_observed_at = ''0''\<rparr>],
     poll_cursors = [], issue_contents = [], issue_metadata = [], pr_mappings = [], event_executions = [],
     config_generations = [], config_files = [], config_current = []\<rparr>"

abbreviation the_cycle :: string where "the_cycle \<equiv> ''workflow-cycle-ab''"
abbreviation the_task :: string where "the_task \<equiv> ''task-run-ab''"

definition demo_plan :: string where "demo_plan = plan_occurrence the_task ''task-plan-ab'' 1 ''ab''"

definition demo_result :: string where
  "demo_result = ''result-approval:task-run-ab:task-result-ab:task-execution-ab:validation-ab''"

abbreviation demo_evidence :: doc where
  "demo_evidence \<equiv> DMap [(''tool_observations'', DList [])]"
abbreviation demo_checks :: doc where
  "demo_checks \<equiv> DMap [(''validation_runs'', DList [DStr ''v1''])]"

definition demo_1 :: db where
  "demo_1 = snd (initialize_cycle example_sha ''1'' ''t'' 1 ''e0'' example_workflow None INITIAL None demo_0)"
definition demo_2 :: db where
  "demo_2 = snd (select_active_task ''2'' the_cycle demo_1)"
definition demo_3 :: db where
  "demo_3 = snd (submit_posted_plan example_sha ''3'' the_task ''the plan'' 11 ''3'' demo_2)"
definition demo_4 :: db where
  "demo_4 = snd (approve_plan example_sha ''4'' the_task demo_plan ''e1'' ''u'' True ''4'' demo_3)"
definition demo_5 :: db where
  "demo_5 = snd (finish_execution example_sha ''5'' the_task ''did it'' (Some demo_evidence) demo_4)"
definition demo_6 :: db where
  "demo_6 = snd (finish_validation example_sha ''6'' (\<lambda>_. None) the_task ACCEPT ''checked'' [] [] demo_checks demo_5)"
definition demo_7 :: db where
  "demo_7 = snd (publish_validated_result example_sha ''7'' the_task 12 ''7'' demo_6)"
definition demo_8 :: db where
  "demo_8 = snd (approve_result example_sha ''8'' the_task demo_result (Some ''e2'') ''u'' True ''8'' ''HUMAN'' demo_7)"
definition demo_9 :: db where
  "demo_9 = snd (select_active_task ''9'' the_cycle demo_8)"

lemma returned: "\<not> isl (fst x) \<Longrightarrow> x = (Inr (projr (fst x)), snd x)"
  by (cases x) (auto simp: isl_def split: sum.splits)

lemma demo_init: "initialize_cycle example_sha ''1'' ''t'' 1 ''e0'' example_workflow None INITIAL None demo_0 =
    (fst (initialize_cycle example_sha ''1'' ''t'' 1 ''e0'' example_workflow None INITIAL None demo_0), demo_1)"
  by (simp only: demo_1_def prod.collapse)

lemma demo_select: "select_active_task ''2'' the_cycle demo_1 = (fst (select_active_task ''2'' the_cycle demo_1), demo_2)"
  by (simp only: demo_2_def prod.collapse)

lemma demo_finish: "select_active_task ''9'' the_cycle demo_8 = (fst (select_active_task ''9'' the_cycle demo_8), demo_9)"
  by (simp only: demo_9_def prod.collapse)

lemma demo_submit: "\<not> isl (fst (submit_posted_plan example_sha ''3'' the_task ''the plan'' 11 ''3'' demo_2))"
  by code_simp

lemma demo_approve: "\<not> isl (fst (approve_plan example_sha ''4'' the_task demo_plan ''e1'' ''u'' True ''4'' demo_3))"
  by code_simp

lemma demo_execute: "\<not> isl (fst (finish_execution example_sha ''5'' the_task ''did it'' (Some demo_evidence) demo_4))"
  by code_simp

lemma demo_validate:
  "\<not> isl (fst (finish_validation example_sha ''6'' (\<lambda>_. None) the_task ACCEPT ''checked'' [] [] demo_checks demo_5))"
  by code_simp

lemma demo_publish: "\<not> isl (fst (publish_validated_result example_sha ''7'' the_task 12 ''7'' demo_6))"
  by code_simp

lemma demo_accept:
  "\<not> isl (fst (approve_result example_sha ''8'' the_task demo_result (Some ''e2'') ''u'' True ''8'' ''HUMAN'' demo_7))"
  by code_simp

lemmas demo_returns = demo_submit demo_approve demo_execute demo_validate demo_publish demo_accept

lemma no_permit: "permits demo_3 = []" by code_simp
lemma no_result: "results demo_6 = []" by code_simp
lemma no_approval: "approvals demo_7 = []" by code_simp

text \<open>Every database of the run is reachable.\<close>

lemma demo_reach:
  "reachable example_sha demo_0" "reachable example_sha demo_1" "reachable example_sha demo_2"
  "reachable example_sha demo_3" "reachable example_sha demo_4" "reachable example_sha demo_5"
  "reachable example_sha demo_6" "reachable example_sha demo_7" "reachable example_sha demo_8"
  "reachable example_sha demo_9"
proof -
  note ret = demo_returns [THEN returned, folded demo_3_def demo_4_def demo_5_def demo_6_def demo_7_def demo_8_def]
  show r0: "reachable example_sha demo_0" by (rule reach_start) (simp add: initial_db_def demo_0_def)
  have wf: "wf_spec example_sha BUILTIN_WORKFLOW_TOOLS example_workflow"
    using example_parses [of None] parse_workflow_spec_wf by blast
  show r1: "reachable example_sha demo_1"
    by (rule reachable_step [OF r0 step_initialize [OF wf demo_init]])
  show r2: "reachable example_sha demo_2"
    by (rule reachable_step [OF r1 step_select [OF demo_select]])
  show r3: "reachable example_sha demo_3" by (rule reachable_step [OF r2 step_submit [OF ret(1)]])
  show r4: "reachable example_sha demo_4"
    by (rule reachable_step [OF r3 step_approve [OF ret(2)]]) (simp only: no_permit list.set empty_iff not_False_eq_True)
  show r5: "reachable example_sha demo_5" by (rule reachable_step [OF r4 step_finish_execution [OF ret(3)]])
  show r6: "reachable example_sha demo_6" by (rule reachable_step [OF r5 step_finish_validation [OF ret(4)]])
  show r7: "reachable example_sha demo_7"
    by (rule reachable_step [OF r6 step_publish_result [OF ret(5)]]) (simp only: no_result list.set empty_iff not_False_eq_True)
  show r8: "reachable example_sha demo_8"
    by (rule reachable_step [OF r7 step_approve_result [OF ret(6)]]) (simp only: no_approval list.set empty_iff not_False_eq_True)
  show r9: "reachable example_sha demo_9"
    by (rule reachable_step [OF r8 step_select [OF demo_finish]])
qed

section \<open>Two tasks in AUTO mode\<close>

text \<open>The second task depends on the first; the run ends when the scheduler starts it.\<close>

abbreviation pair_sha :: digest where "pair_sha \<equiv> \<lambda>s. [last s]"

definition pair_workflow :: workflow_spec where
  "pair_workflow = (let t = hd (ws_tasks example_workflow);
       ts = [t, t\<lparr>ts_id := ''test'', ts_depends_on := [''build'']\<rparr>] in
     \<lparr>ws_version = 1, ws_workflow_id = ''pair'', ws_tasks = ts,
      ws_digest = ''}''\<rparr>)"

abbreviation pair_cycle :: string where "pair_cycle \<equiv> ''workflow-cycle-r''"
abbreviation pair_task :: string where "pair_task \<equiv> ''task-run-d''"

definition pair_0 :: db where
  "pair_0 = demo_0\<lparr>threads := map (\<lambda>t. t\<lparr>th_mode := AUTO\<rparr>) (threads demo_0)\<rparr>"
definition pair_1 :: db where
  "pair_1 = snd (initialize_cycle pair_sha ''1'' ''t'' 1 ''e0'' pair_workflow None INITIAL None pair_0)"
definition pair_2 :: db where
  "pair_2 = snd (select_active_task ''2'' pair_cycle pair_1)"
definition pair_3 :: db where
  "pair_3 = snd (submit_posted_plan pair_sha ''3'' pair_task ''the plan'' 11 ''3'' pair_2)"
definition pair_4 :: db where
  "pair_4 = snd (auto_authorize_plan pair_sha ''4'' pair_task pair_3)"
definition pair_5 :: db where
  "pair_5 = snd (finish_execution pair_sha ''5'' pair_task ''did it'' (Some demo_evidence) pair_4)"
definition pair_6 :: db where
  "pair_6 = snd (finish_validation pair_sha ''6'' (\<lambda>_. None) pair_task ACCEPT ''checked'' [] [] demo_checks pair_5)"
definition pair_7 :: db where
  "pair_7 = snd (publish_validated_result pair_sha ''7'' pair_task 12 ''7'' pair_6)"
definition pair_result :: string where "pair_result = re_occurrence (hd (results pair_7))"
definition pair_8 :: db where
  "pair_8 = snd (approve_result pair_sha ''8'' pair_task pair_result None AUTO_POLICY True ''8'' ''AUTO'' pair_7)"
definition pair_9 :: db where
  "pair_9 = snd (select_active_task ''9'' pair_cycle pair_8)"

lemma pair_parses:
  "parse_workflow_spec pair_sha BUILTIN_WORKFLOW_TOOLS None (canonical_document pair_workflow) = Inr pair_workflow"
  by code_simp

lemma pair_init: "initialize_cycle pair_sha ''1'' ''t'' 1 ''e0'' pair_workflow None INITIAL None pair_0 =
    (fst (initialize_cycle pair_sha ''1'' ''t'' 1 ''e0'' pair_workflow None INITIAL None pair_0), pair_1)"
  by (simp only: pair_1_def prod.collapse)

lemma pair_select: "select_active_task ''2'' pair_cycle pair_1 = (fst (select_active_task ''2'' pair_cycle pair_1), pair_2)"
  by (simp only: pair_2_def prod.collapse)

lemma pair_next: "select_active_task ''9'' pair_cycle pair_8 = (fst (select_active_task ''9'' pair_cycle pair_8), pair_9)"
  by (simp only: pair_9_def prod.collapse)

lemma pair_submit: "\<not> isl (fst (submit_posted_plan pair_sha ''3'' pair_task ''the plan'' 11 ''3'' pair_2))"
  by code_simp

lemma pair_approve: "\<not> isl (fst (auto_authorize_plan pair_sha ''4'' pair_task pair_3))"
  by code_simp

lemma pair_execute: "\<not> isl (fst (finish_execution pair_sha ''5'' pair_task ''did it'' (Some demo_evidence) pair_4))"
  by code_simp

lemma pair_validate:
  "\<not> isl (fst (finish_validation pair_sha ''6'' (\<lambda>_. None) pair_task ACCEPT ''checked'' [] [] demo_checks pair_5))"
  by code_simp

lemma pair_publish: "\<not> isl (fst (publish_validated_result pair_sha ''7'' pair_task 12 ''7'' pair_6))"
  by code_simp

lemma pair_accept:
  "\<not> isl (fst (approve_result pair_sha ''8'' pair_task pair_result None AUTO_POLICY True ''8'' ''AUTO'' pair_7))"
  by code_simp

lemmas pair_returns = pair_submit pair_approve pair_execute pair_validate pair_publish pair_accept

lemma pair_no_permit: "permits pair_3 = []" by code_simp
lemma pair_no_result: "results pair_6 = []" by code_simp
lemma pair_no_approval: "approvals pair_7 = []" by code_simp

lemma pair_reach:
  "reachable pair_sha pair_2" "reachable pair_sha pair_4" "reachable pair_sha pair_8" "reachable pair_sha pair_9"
proof -
  note ret = pair_returns [THEN returned, folded pair_3_def pair_4_def pair_5_def pair_6_def pair_7_def pair_8_def]
  have r0: "reachable pair_sha pair_0" by (rule reach_start) (simp add: initial_db_def demo_0_def pair_0_def)
  have wf: "wf_spec pair_sha BUILTIN_WORKFLOW_TOOLS pair_workflow"
    using pair_parses parse_workflow_spec_wf by blast
  have r1: "reachable pair_sha pair_1"
    by (rule reachable_step [OF r0 step_initialize [OF wf pair_init]])
  show r2: "reachable pair_sha pair_2"
    by (rule reachable_step [OF r1 step_select [OF pair_select]])
  have r3: "reachable pair_sha pair_3" by (rule reachable_step [OF r2 step_submit [OF ret(1)]])
  show r4: "reachable pair_sha pair_4"
    by (rule reachable_step [OF r3 step_auto_authorize [OF ret(2)]])
      (simp only: pair_no_permit list.set empty_iff not_False_eq_True)
  have r5: "reachable pair_sha pair_5" by (rule reachable_step [OF r4 step_finish_execution [OF ret(3)]])
  have r6: "reachable pair_sha pair_6" by (rule reachable_step [OF r5 step_finish_validation [OF ret(4)]])
  have r7: "reachable pair_sha pair_7"
    by (rule reachable_step [OF r6 step_publish_result [OF ret(5)]])
      (simp only: pair_no_result list.set empty_iff not_False_eq_True)
  show r8: "reachable pair_sha pair_8"
    by (rule reachable_step [OF r7 step_approve_result [OF ret(6)]])
      (simp only: pair_no_approval list.set empty_iff not_False_eq_True)
  show r9: "reachable pair_sha pair_9"
    by (rule reachable_step [OF r8 step_select [OF pair_next]])
qed

end
