(* ===== verification/Runtime_Properties.thy ===== *)
theory Runtime_Properties
  imports Example_Run
begin

text \<open>
  What the invariant says of the reachable databases: serial ownership, the order of the
  dependencies, the evidence behind accepted work, and the execution guard.
\<close>

section \<open>Ownership and order\<close>

lemma busy_owner:
  assumes "cycle_ok sha c ts" and "t \<in> set ts" and "busy t"
  shows "cy_status c = C_ACTIVE" "cy_active c = Some (tr_task t)"
  using assms by (auto simp: cycle_ok_def owned_by_one_def busy_def idle_def
      split: cycle_status.splits option.splits if_splits)

lemma reachable_busy:
  assumes "reachable sha d" and "t \<in> set (tasks d)" and "busy t"
  obtains c where "cycle_of d (tr_cycle t) = Some c" "cy_status c = C_ACTIVE" "cy_active c = Some (tr_task t)"
    "cy_thread c = tr_thread t"
proof -
  obtain c where c: "cycle_of d (tr_cycle t) = Some c" "cycle_ok sha c (cycle_tasks d (tr_cycle t))"
    using reachable_task [OF assms(1,2)] by metis
  have "t \<in> set (cycle_tasks d (tr_cycle t))" using assms(2) by simp
  with c assms(3) busy_owner [OF c(2) this] that show thesis by (auto simp: cycle_ok_def)
qed

text \<open>
  C1. Work on an issue thread is serial: in every reachable database at most one task of a thread
  is planned, executed, validated or waiting, and it is the task its ACTIVE cycle names as owner.
\<close>

theorem one_owner_per_thread:
  assumes "reachable sha d" and "t \<in> set (tasks d)" "busy t" and "u \<in> set (tasks d)" "busy u"
    and "tr_thread u = tr_thread t"
  shows "u = t \<and> (\<exists>c. cycle_of d (tr_cycle t) = Some c \<and> cy_status c = C_ACTIVE \<and> cy_active c = Some (tr_task t))"
proof -
  note ok = reachable_core [OF assms(1)]
  obtain c where c: "cycle_of d (tr_cycle t) = Some c" "cy_status c = C_ACTIVE" "cy_active c = Some (tr_task t)"
    "cy_thread c = tr_thread t" using reachable_busy [OF assms(1-3)] .
  obtain e where e: "cycle_of d (tr_cycle u) = Some e" "cy_status e = C_ACTIVE" "cy_active e = Some (tr_task u)"
    "cy_thread e = tr_thread u" using reachable_busy [OF assms(1,4,5)] .
  have "c \<in> set (cycles d)" "e \<in> set (cycles d)" using c(1) e(1) by auto
  then have "e = c" using ok(2) c e assms(6) unfolding ownership_ok_def one_active_def by metis
  moreover have "cy_id c = tr_cycle t" "cy_id e = tr_cycle u" using c(1) e(1) by blast+
  ultimately have "tr_cycle u = tr_cycle t" "tr_task u = tr_task t" using c(3) e(3) by simp_all
  then have "u = t" using key_unique(10) [OF ok(1)] assms by blast
  with c show ?thesis by blast
qed

theorem one_owner_per_thread_witness:
  "\<exists>t c. tasks demo_4 = [t] \<and> busy t \<and> cycle_of demo_4 (tr_cycle t) = Some c \<and> cy_active c = Some (tr_task t)"
proof -
  let ?t = "hd (tasks demo_4)"
  have t: "tasks demo_4 = [?t]" "busy ?t" by (code_simp, code_simp)
  have "?t \<in> set (tasks demo_4)" using t(1) by (metis list.set_intros(1))
  with one_owner_per_thread [OF demo_reach(5) this t(2) this t(2)] t show ?thesis by blast
qed

text \<open>C3. No task leaves PENDING before every task it depends on is DONE in the same cycle.\<close>

theorem dependencies_come_first:
  assumes "reachable sha d" and "t \<in> set (tasks d)" and "tr_phase t \<noteq> PENDING" and "k \<in> set (tr_deps t)"
  shows "\<exists>u \<in> set (tasks d). tr_cycle u = tr_cycle t \<and> tr_task u = k \<and> tr_phase u = DONE"
proof -
  obtain c where c: "cycle_ok sha c (cycle_tasks d (tr_cycle t))" using reachable_task [OF assms(1,2)] by metis
  have "t \<in> set (cycle_tasks d (tr_cycle t))" using assms(2) by simp
  with c assms(3) have "deps_done (cycle_tasks d (tr_cycle t)) t" by (simp add: cycle_ok_def)
  with assms(4) show ?thesis by (auto simp: deps_done_def)
qed

theorem dependencies_come_first_witness:
  "\<exists>t \<in> set (tasks pair_9). tr_phase t = PLANNING \<and> ''build'' \<in> set (tr_deps t) \<and>
    (\<exists>u \<in> set (tasks pair_9). tr_cycle u = tr_cycle t \<and> tr_task u = ''build'' \<and> tr_phase u = DONE)"
proof -
  have "map (\<lambda>t. (tr_phase t, tr_deps t)) (tasks pair_9) = [(DONE, []), (PLANNING, [''build''])]" by code_simp
  then obtain u t where t: "tasks pair_9 = [u, t]" "tr_phase t = PLANNING" "tr_deps t = [''build'']"
    by (auto simp: map_eq_Cons_conv)
  then have m: "t \<in> set (tasks pair_9)" "tr_phase t \<noteq> PENDING" "''build'' \<in> set (tr_deps t)" by simp_all
  show ?thesis
    by (rule bexI [OF _ m(1)], intro conjI)
      (fact t(2), fact m(3), fact dependencies_come_first [OF pair_reach(4) m])
qed

section \<open>Evidence\<close>

text \<open>
  C2. A task is DONE only with the whole chain of evidence in the store: its current plan is
  APPROVED and holds the one live permit, given under the thread's mode; the current attempt was
  executed with success under that permit and validated with ACCEPT; and the result of exactly
  that execution and validation carries a live approval of the same mode.
\<close>

theorem done_has_evidence:
  assumes "reachable sha d" and "t \<in> set (tasks d)" and "tr_phase t = DONE"
  shows "\<exists>m p q x v r a. interaction_mode d (tr_thread t) = Inr m \<and>
    p \<in> set (plans d) \<and> tr_plan t = Some (pl_id p) \<and> pl_task_run p = tr_id t \<and> pl_status p = APPROVED \<and>
    pl_digest p = sha (strip (pl_text p)) \<and>
    {q \<in> set (permits d). pm_task_run q = tr_id t \<and> pm_invalidated q = None} = {q} \<and>
    pm_plan q = pl_id p \<and> pm_version q = pl_version p \<and> pm_digest q = pl_digest p \<and> pm_mode q = expected_mode m \<and>
    x \<in> set (executions d) \<and> ex_task_run x = tr_id t \<and> ex_plan x = pl_id p \<and> ex_permit x = pm_id q \<and>
    ex_attempt x = tr_attempt t \<and> ex_succeeded x \<and>
    v \<in> set (validations d) \<and> va_task_run v = tr_id t \<and> va_plan v = pl_id p \<and> va_attempt v = tr_attempt t \<and>
    va_verdict v = ACCEPT \<and> va_round v = tr_round t \<and>
    r \<in> set (results d) \<and> re_task_run r = tr_id t \<and> re_plan r = pl_id p \<and> re_execution r = ex_id x \<and>
    re_validation r = va_id v \<and>
    a \<in> set (approvals d) \<and> ra_result a = re_id r \<and> ra_execution a = ex_id x \<and> ra_validation a = va_id v \<and>
    ra_occurrence a = re_occurrence r \<and> ra_invalidated a = None \<and> ra_mode a = expected_mode m"
proof -
  obtain i where i: "interaction_mode d (tr_thread t) = Inr i" "evidence_ok sha (expected_mode i) d t"
    using reachable_task [OF assms(1,2)] by metis
  then have h: "history_ok sha d t" and pr: "provenance_ok (expected_mode i) d t" and "stage DONE d t"
    using assms(3) by (auto simp: evidence_ok_def work_phase_def)
  then obtain p q x v r a where c: "chain d t p q x v r" and a: "accepted d t r a" by auto
  have p: "p \<in> set (plans d)" "pl_task_run p = tr_id t" "tr_plan t = Some (pl_id p)" "pl_status p = APPROVED"
    "exact_permit q p" and live: "live_permits d t = {q}"
    using c by (auto simp: chain_def authorised_def current_def)
  have "q \<in> live_permits d t" using live by simp
  then have q: "q \<in> set (permits_of d (tr_id t))" by (simp add: live_permits_def)
  have "{q \<in> set (permits d). pm_task_run q = tr_id t \<and> pm_invalidated q = None} = {q}"
    using live by (simp add: live_permits_def conj_assoc)
  moreover have "pm_mode q = expected_mode i" using pr q by (simp add: provenance_ok_def)
  moreover have "ra_mode a = expected_mode i" using pr a by (simp add: provenance_ok_def accepted_def)
  moreover have "pl_digest p = sha (strip (pl_text p))" using h p by (simp add: history_ok_def)
  ultimately show ?thesis using i p c a
    unfolding chain_def executed_def validated_def published_def accepted_def exact_permit_def
    by (intro exI [of _ i] exI [of _ p] exI [of _ q] exI [of _ x] exI [of _ v] exI [of _ r] exI [of _ a])
      (simp only: set_filter mem_Collect_eq simp_thms)
qed

theorem done_has_evidence_witness:
  "\<exists>t \<in> set (tasks demo_9). tr_phase t = DONE \<and>
    (\<exists>a \<in> set (approvals demo_9). \<exists>r \<in> set (results demo_9). ra_result a = re_id r \<and> re_task_run r = tr_id t \<and>
       ra_mode a = expected_mode MANUAL)"
proof -
  let ?t = "hd (tasks demo_9)"
  have "length (tasks demo_9) = 1" "tr_phase ?t = DONE" "tr_thread ?t = ''t''" by (code_simp, code_simp, code_simp)
  then have t: "?t \<in> set (tasks demo_9)" by (cases "tasks demo_9") simp_all
  have m: "interaction_mode demo_9 ''t'' = Inr MANUAL" by code_simp
  show ?thesis using done_has_evidence [OF demo_reach(10) t \<open>tr_phase ?t = DONE\<close>] t
    unfolding \<open>tr_thread ?t = ''t''\<close> m using \<open>tr_phase ?t = DONE\<close> by (elim exE conjE) (metis sum.inject(2))
qed

section \<open>The execution guard\<close>

lemma latest_by_single: "set rows = {r} \<Longrightarrow> latest_by key rows = Some r"
  by (rule latest_by_greatest) auto

lemma live_permit_authorised:
  assumes "authorised d t p q"
  shows "live_permit_for d (tr_id t) p = Some q"
proof -
  have live: "live_permits d t = {q}" and ex: "exact_permit q p" using assms by (auto simp: authorised_def)
  have "set (filter (\<lambda>m. pm_task_run m = tr_id t \<and> pm_plan m = pl_id p \<and> pm_version m = pl_version p \<and>
      pm_digest m = pl_digest p \<and> pm_invalidated m = None) (permits d)) = {m \<in> live_permits d t. exact_permit m p}"
    by (auto simp: live_permits_def exact_permit_def)
  also have "\<dots> = {q}" using live ex by auto
  finally show ?thesis unfolding live_permit_for_def by (rule latest_by_single)
qed

text \<open>
  The execution guard is exact: in a reachable database it lets a task through precisely when
  the task is executing, or is paused in the middle of an execution.
\<close>

theorem authorized_iff_executing:
  assumes "reachable sha d" and "task_of d k = Some t"
  shows "(\<exists>q. assert_execution_authorized d k = Inr q) \<longleftrightarrow>
    tr_phase t = EXECUTING \<or> (tr_phase t = WAITING_FOR_INPUT \<and> tr_waiting t = Some EXECUTING)"
proof
  assume "\<exists>q. assert_execution_authorized d k = Inr q"
  then show "tr_phase t = EXECUTING \<or> (tr_phase t = WAITING_FOR_INPUT \<and> tr_waiting t = Some EXECUTING)"
    using assms(2) by (auto simp: assert_execution_authorized_def unwind_op task_def split: if_splits)
next
  assume ph: "tr_phase t = EXECUTING \<or> (tr_phase t = WAITING_FOR_INPUT \<and> tr_waiting t = Some EXECUTING)"
  have t: "t \<in> set (tasks d)" "tr_id t = k" using assms(2) by auto
  note tab = reachable_core(1) [OF assms(1)]
  obtain i where i: "interaction_mode d (tr_thread t) = Inr i" "evidence_ok sha (expected_mode i) d t"
    using reachable_task [OF assms(1) t(1)] by metis
  have "busy t" using ph by (auto simp: busy_def)
  then obtain c where c: "cycle_of d (tr_cycle t) = Some c" "cy_status c = C_ACTIVE" "cy_active c = Some (tr_task t)"
    using reachable_busy [OF assms(1) t(1)] by metis
  have st: "stage EXECUTING d t" and pr: "provenance_ok (expected_mode i) d t"
    using i(2) ph by (auto simp: evidence_ok_def work_phase_def)
  then obtain p q where a: "authorised d t p q" by auto
  then have p: "tr_plan t = Some (pl_id p)" "p \<in> set (plans d)" "pl_status p = APPROVED"
    by (auto simp: authorised_def current_def)
  have plan: "plan_of d (pl_id p) = Some p" using p(2) tab by (intro lookup_unique) (auto simp: tables_defs)
  note lp = live_permit_authorised [OF a, unfolded t(2)]
  have "q \<in> live_permits d t" using a by (simp add: authorised_def)
  then have q: "pm_mode q = expected_mode i"
    "\<not> (expected_mode i = BY_AUTO \<and> (pm_by q \<noteq> AUTO_POLICY \<or> \<not> starts_auto_authority (pm_event q)))"
    using pr by (auto simp: provenance_ok_def live_permits_def)
  have "assert_execution_authorized d k = Inr q"
    using assms(2) ph c i(1) p plan lp q by (auto simp: assert_execution_authorized_def guard_iffs read_defs)
  then show "\<exists>q. assert_execution_authorized d k = Inr q" ..
qed

theorem authorized_iff_executing_witness: "\<exists>q. assert_execution_authorized demo_4 the_task = Inr q"
proof -
  have "\<not> Option.is_none (task_of demo_4 the_task)" "map_option tr_phase (task_of demo_4 the_task) = Some EXECUTING"
    by (code_simp, code_simp)
  then obtain t where "task_of demo_4 the_task = Some t" "tr_phase t = EXECUTING" by auto
  with authorized_iff_executing [OF demo_reach(5) this(1)] show ?thesis by simp
qed

end
