(* ===== verification/Progress.thy ===== *)
theory Progress
  imports Example_Run
begin

text \<open>
  Progress of the scheduler and of the persisted specification: an active cycle without an owner
  always has a next task or is complete, and the specification of every cycle can be read back.
\<close>

section \<open>The next task\<close>

lemma finite_task_edges: "finite (task_edges ts)"
proof -
  have "task_edges ts = (\<Union>t \<in> set ts. Pair (ts_id t) ` set (ts_depends_on t))" by (auto simp: task_edges_def)
  then show ?thesis by simp
qed

lemma same_position:
  assumes "map f xs = map g ys" and "map f' xs = map g' ys" and "x \<in> set xs"
  shows "\<exists>y \<in> set ys. f x = g y \<and> f' x = g' y"
proof -
  obtain i where i: "i < length xs" "x = xs ! i" using assms(3) by (metis in_set_conv_nth)
  have len: "length xs = length ys" using assms(1) by (metis length_map)
  have "f x = g (ys ! i)" "f' x = g' (ys ! i)" using assms(1,2) i len by (metis nth_map)+
  with i len show ?thesis by (metis nth_mem)
qed

text \<open>A set of unfinished tasks has one whose dependencies are outside it.\<close>

lemma first_unfinished:
  assumes "carries_spec sha c ts" and "t \<in> set ts" and "P t"
  obtains u where "u \<in> set ts" "P u" "\<And>k. k \<in> set (tr_deps u) \<Longrightarrow> \<exists>v \<in> set ts. tr_task v = k"
    "\<And>v. v \<in> set ts \<Longrightarrow> tr_task v \<in> set (tr_deps u) \<Longrightarrow> \<not> P v"
proof -
  obtain known and w :: workflow_spec where w: "wf_tasks known (ws_tasks w)" "map tr_task ts = map ts_id (ws_tasks w)"
    "map tr_deps ts = map ts_depends_on (ws_tasks w)"
    using assms(1) unfolding carries_spec_def wf_spec_def by (elim exE conjE) (rule that; assumption)
  let ?E = "task_edges (ws_tasks w)" and ?Q = "tr_task ` {u \<in> set ts. P u}"
  have "wf (?E\<inverse>)" using w(1) by (intro finite_acyclic_wf_converse finite_task_edges) (simp add: wf_tasks_def)
  moreover have "tr_task t \<in> ?Q" using assms(2,3) by blast
  ultimately obtain z where z: "z \<in> ?Q" "\<And>y. (z, y) \<in> ?E \<Longrightarrow> y \<notin> ?Q"
    by (rule wfE_min) (meson converse_iff)
  then obtain u where u: "u \<in> set ts" "P u" "z = tr_task u" by blast
  obtain s where s: "s \<in> set (ws_tasks w)" "tr_task u = ts_id s" "tr_deps u = ts_depends_on s"
    using same_position [OF w(2,3) u(1)] by blast
  have "\<exists>v \<in> set ts. tr_task v = k" if "k \<in> set (tr_deps u)" for k
  proof -
    have "k \<in> ts_id ` set (ws_tasks w)" using that s w(1) unfolding wf_tasks_def by auto
    then have "k \<in> set (map tr_task ts)" using w(2) by (metis set_map)
    then show ?thesis by auto
  qed
  moreover have "\<not> P v" if "v \<in> set ts" "tr_task v \<in> set (tr_deps u)" for v
  proof -
    have "(z, tr_task v) \<in> ?E" using s that(2) u(3) by (auto simp: task_edges_def)
    from z(2) [OF this] that(1) show ?thesis by blast
  qed
  ultimately show thesis using that u by blast
qed

lemma find_mem: "find P xs = Some x \<Longrightarrow> x \<in> set xs \<and> P x"
  by (auto simp: find_Some_iff)

lemma task_in_cycle_row:
  assumes "t \<in> set (tasks d)"
  shows "\<exists>u. task_in_cycle d (tr_cycle t) (tr_task t) = Some u \<and> u \<in> set (tasks d) \<and> tr_cycle u = tr_cycle t \<and>
    tr_task u = tr_task t"
proof (cases "task_in_cycle d (tr_cycle t) (tr_task t)")
  case None
  then show ?thesis using assms by (auto simp: task_in_cycle_def find_None_iff)
next
  case (Some u)
  then have "u \<in> set (tasks d) \<and> tr_cycle u = tr_cycle t \<and> tr_task u = tr_task t"
    unfolding task_in_cycle_def by (rule find_mem)
  with Some show ?thesis by blast
qed

lemma row_of_key:
  assumes "distinct (map f xs)" and "x \<in> set xs"
  shows "lookup f (f x) xs = Some x"
proof -
  obtain y where "lookup f (f x) xs = Some y" using assms(2) lookup_None_iff [of f "f x" xs] by fastforce
  moreover from this have "y \<in> set xs" "f y = f x" by auto
  ultimately show ?thesis using assms by (metis inj_on_eq_iff distinct_map)
qed

lemma idle_has_eligible:
  assumes "carries_spec sha c ts" and "\<forall>t \<in> set ts. idle t \<and> tr_status t = tr_phase t"
    and "\<not> (\<forall>t \<in> set ts. tr_phase t = DONE)"
  shows "find (eligible ts) ts \<noteq> None"
proof -
  obtain t where "t \<in> set ts" "tr_phase t \<noteq> DONE" using assms(3) by blast
  then obtain u where u: "u \<in> set ts" "tr_phase u \<noteq> DONE"
    and deps: "\<And>k. k \<in> set (tr_deps u) \<Longrightarrow> \<exists>v \<in> set ts. tr_task v = k"
    and "\<And>v. v \<in> set ts \<Longrightarrow> tr_task v \<in> set (tr_deps u) \<Longrightarrow> \<not> tr_phase v \<noteq> DONE"
    using first_unfinished [OF assms(1), of t "\<lambda>t. tr_phase t \<noteq> DONE"] by blast
  then have done_deps: "\<And>v. v \<in> set ts \<Longrightarrow> tr_task v \<in> set (tr_deps u) \<Longrightarrow> tr_phase v = DONE" by blast
  have dist: "distinct (map tr_task ts)" using assms(1) by (auto simp: carries_spec_def wf_spec_def wf_tasks_def)
  have "map_option tr_status (lookup tr_task k ts) = Some DONE" if k: "k \<in> set (tr_deps u)" for k
  proof -
    obtain v where v: "v \<in> set ts" "tr_task v = k" using deps [OF k] by blast
    with done_deps k assms(2) have "tr_status v = DONE" by auto
    with row_of_key [OF dist v(1)] v(2) show ?thesis by simp
  qed
  moreover have "tr_status u = PENDING" using u assms(2) by (auto simp: idle_def)
  ultimately have "eligible ts u" by (simp add: eligible_def list_all_iff)
  with u(1) show ?thesis by (auto simp: find_None_iff)
qed

text \<open>
  C10. The scheduler never deadlocks: in every reachable database, for an ACTIVE cycle that no task
  owns, \<open>select_active_task\<close> either starts a task in PLANNING, or all tasks are DONE and the
  cycle moves on to AWAITING_PUBLICATION.
\<close>

theorem scheduler_progress:
  assumes "reachable sha d" and "cycle_of d k = Some c" and "cy_status c = C_ACTIVE" and "cy_active c = None"
  shows "(\<exists>t d'. select_active_task now k d = (Inr (Some t), d') \<and> t \<in> set (tasks d') \<and> tr_cycle t = k \<and>
            tr_phase t = PLANNING) \<or>
         (\<exists>d' c'. select_active_task now k d = (Inr None, d') \<and> cycle_of d' k = Some c' \<and>
            cy_status c' = C_AWAITING_PUBLICATION \<and> (\<forall>t \<in> set (task_runs d k). tr_phase t = DONE))"
proof -
  note ok = reachable_core [OF assms(1)]
  have c: "c \<in> set (cycles d)" "cy_id c = k" using assms(2) by auto
  with ok(2) have cyc: "cycle_ok sha c (cycle_tasks d k)" by (auto simp: ownership_ok_def)
  then have spec: "carries_spec sha c (cycle_tasks d k)" by (simp add: cycle_ok_def)
  let ?rows = "task_runs d k"
  note rows = task_runs_eq [OF spec]
  have idle: "\<forall>t \<in> set ?rows. idle t \<and> tr_status t = tr_phase t"
    using cyc assms(3,4) by (simp add: rows cycle_ok_def owned_by_one_def)
  show ?thesis
  proof (cases "find (eligible ?rows) ?rows")
    case None
    then have all_done: "\<forall>t \<in> set ?rows. tr_phase t = DONE"
      using idle_has_eligible [of sha c ?rows] spec idle by (auto simp: rows)
    have "?rows \<noteq> [] \<and> list_all (\<lambda>t. tr_status t = DONE) ?rows"
      using carries_spec_nonempty [OF spec] all_done idle by (simp add: rows list_all_iff)
    with None assms(2-4) have "\<exists>d'. select_active_task now k d = (Inr None, d') \<and>
      cycles d' = cycles (set_cycle k (\<lambda>c. if cy_active c = None then c\<lparr>cy_status := C_AWAITING_PUBLICATION\<rparr> else c) d)"
      by (simp add: select_active_task_def select_transaction_def Let_def)
    then obtain d' where d': "select_active_task now k d = (Inr None, d')"
      "cycles d' = update_where (\<lambda>c. cy_id c = k)
        (\<lambda>c. if cy_active c = None then c\<lparr>cy_status := C_AWAITING_PUBLICATION\<rparr> else c) (cycles d)"
      by (auto simp: set_cycle_def)
    have "cycle_of d' k = Some (c\<lparr>cy_status := C_AWAITING_PUBLICATION\<rparr>)"
      using assms(2,4) c(2) by (simp add: d'(2) lookup_update_where)
    with d'(1) all_done show ?thesis by simp
  next
    case (Some t)
    then have "t \<in> set (cycle_tasks d k)" "eligible ?rows t" using find_mem [OF Some] by (simp_all add: rows)
    then have t: "t \<in> set (tasks d)" "tr_cycle t = k" "tr_status t = PENDING" by (simp_all add: eligible_def)
    let ?d = "d\<lparr>cycles := update_where (\<lambda>c. cy_id c = k \<and> cy_active c = None \<and> cy_status c = C_ACTIVE)
        (\<lambda>c. c\<lparr>cy_active := Some (tr_task t)\<rparr>) (cycles d),
      tasks := update_where (\<lambda>u. tr_id u = tr_id t \<and> tr_status u = PENDING) (enter PLANNING now) (tasks d)\<rparr>"
    have sel: "select_active_task now k d = (active_task ?d k, ?d)"
      using Some assms(2-4) by (simp add: select_active_task_def select_transaction_def Let_def)
    have "cycle_of ?d k = Some (c\<lparr>cy_active := Some (tr_task t)\<rparr>)"
      using assms(2-4) c(2) by (simp add: lookup_update_where)
    moreover have "\<exists>u. task_in_cycle ?d k (tr_task t) = Some u \<and> u \<in> set (tasks ?d) \<and> tr_cycle u = k \<and> tr_phase u = PLANNING"
    proof -
      have m: "enter PLANNING now t \<in> set (tasks ?d)"
        using t by (auto simp: update_where_def intro: image_eqI [of _ _ t])
      obtain u where u: "task_in_cycle ?d k (tr_task t) = Some u"
        and u': "u \<in> set (tasks ?d)" "tr_cycle u = k" "tr_task u = tr_task t"
        using task_in_cycle_row [OF m] t(2) by auto
      then obtain v where v: "v \<in> set (tasks d)" "tr_cycle v = k" "tr_task v = tr_task t"
        "u = (if tr_id v = tr_id t \<and> tr_status v = PENDING then enter PLANNING now v else v)"
        by (auto simp: update_where_def split: if_splits)
      with key_unique(10) [OF ok(1) v(1) t(1)] t have "v = t" by simp
      with v(4) t(3) have "u = enter PLANNING now t" by simp
      with u u' show ?thesis by simp
    qed
    ultimately have "\<exists>u. active_task ?d k = Inr (Some u) \<and> u \<in> set (tasks ?d) \<and> tr_cycle u = k \<and> tr_phase u = PLANNING"
      by (auto simp: active_task_def cycle_def)
    with sel show ?thesis by auto
  qed
qed

theorem scheduler_progress_witness:
  "\<exists>t d'. select_active_task ''9'' pair_cycle pair_8 = (Inr (Some t), d') \<and> tr_phase t = PLANNING"
proof -
  have c: "map_option (\<lambda>c. (cy_status c, cy_active c)) (cycle_of pair_8 pair_cycle) = Some (C_ACTIVE, None)" by code_simp
  then obtain c where c: "cycle_of pair_8 pair_cycle = Some c" "cy_status c = C_ACTIVE" "cy_active c = None" by auto
  have "\<not> (\<forall>t \<in> set (task_runs pair_8 pair_cycle). tr_phase t = DONE)" by code_simp
  with scheduler_progress [OF pair_reach(3) c, of "''9''"] show ?thesis by blast
qed

section \<open>The persisted specification\<close>

lemma persisted_tools_canonical: "persisted_tools (canonical_document w) = Some (all_tools w)"
proof -
  have ph: "persisted_phase_tools (task_document t) ''planning'' = Some (ph_tools (ts_planning t))"
    "persisted_phase_tools (task_document t) ''execution'' = Some (ph_tools (ts_execution t))"
    "persisted_phase_tools (task_document t) ''validation'' = Some (ph_tools (ts_validation t))" for t
    by (simp_all add: persisted_phase_tools_def task_document_def phase_document_def comp_def)
  have "collect_tools (concat (map (\<lambda>t. map (Pair (task_document t)) [''planning'', ''execution'', ''validation'']) ts)) =
    Some (concat (map (\<lambda>t. concat (map ph_tools (all_phases t))) ts))" for ts
    by (induction ts) (simp_all add: ph all_phases_def)
  then show ?thesis
    by (simp add: persisted_tools_def canonical_document_def document_of_def all_tools_def comp_def)
qed

text \<open>
  C27. The specification of every cycle of a reachable database is recovered exactly from the row
  that persists it: the same canonical document and digest, and the declared tasks are the task
  rows of the cycle, in order.
\<close>

theorem persisted_spec_recovered:
  assumes "reachable sha d" and "cycle_of d k = Some c"
  shows "\<exists>w. spec_for_cycle sha d k = Inr w \<and> canonical_document w = cy_spec c \<and> ws_digest w = cy_digest c \<and>
    map tr_task (task_runs d k) = map ts_id (ws_tasks w) \<and> map tr_deps (task_runs d k) = map ts_depends_on (ws_tasks w)"
proof -
  have c: "c \<in> set (cycles d)" "cy_id c = k" using assms(2) by auto
  then have spec: "carries_spec sha c (cycle_tasks d k)"
    using reachable_core(2) [OF assms(1)] by (auto simp: ownership_ok_def cycle_ok_def)
  then obtain known w where wf: "wf_spec sha known w" and w: "cy_spec c = canonical_document w"
    "cy_workflow_id c = ws_workflow_id w" "cy_version c = ws_version w" "cy_digest c = ws_digest w"
    "map tr_task (cycle_tasks d k) = map ts_id (ws_tasks w)"
    "map tr_deps (cycle_tasks d k) = map ts_depends_on (ws_tasks w)"
    unfolding carries_spec_def by (elim exE conjE) (rule that; assumption)
  have "parse_workflow_spec sha (all_tools w) None (cy_spec c) = Inr w"
    unfolding w(1) by (rule parse_canonical_document [OF wf_spec_tools [OF wf]]) simp
  then have "spec_for_cycle sha d k = Inr w"
    using assms(2) w(2-4) by (simp add: spec_for_cycle_def w(1) persisted_tools_canonical)
  with w show ?thesis by (simp add: task_runs_eq [OF spec])
qed

theorem persisted_spec_recovered_witness:
  "\<exists>c w. cycle_of pair_9 pair_cycle = Some c \<and> spec_for_cycle pair_sha pair_9 pair_cycle = Inr w \<and> ws_digest w = cy_digest c"
proof -
  have "cycle_of pair_9 pair_cycle \<noteq> None" by code_simp
  then obtain c where "cycle_of pair_9 pair_cycle = Some c" by blast
  with persisted_spec_recovered [OF pair_reach(4) this] show ?thesis by blast
qed

end
