(* ===== verification/History.thy ===== *)
theory History
  imports Example_Run "HOL-Library.Sublist"
begin

text \<open>
  What a run of the runtime can do over time: the transition table of a task's phases, and the
  append-only record of plans, permits, executions, validations, results and approvals.
\<close>

section \<open>The append-only record\<close>

definition plan_fact where
  "plan_fact p = (pl_id p, pl_task_run p, pl_cycle p, pl_version p, pl_text p, pl_digest p, pl_posted_at p, pl_occurrence p)"

definition permit_fact where
  "permit_fact q = (pm_id q, pm_task_run q, pm_cycle q, pm_plan q, pm_version q, pm_digest q, pm_event q, pm_by q, pm_mode q)"

definition approval_fact where
  "approval_fact a = (ra_id a, ra_result a, ra_task_run a, ra_plan a, ra_execution a, ra_validation a, ra_occurrence a,
     ra_mode a, ra_by a, ra_event a, ra_approved_at a)"

definition keeps_records :: "db \<Rightarrow> db \<Rightarrow> bool" where
  "keeps_records d d' = (prefix (executions d) (executions d') \<and> prefix (validations d) (validations d') \<and>
     prefix (results d) (results d') \<and> prefix (map plan_fact (plans d)) (map plan_fact (plans d')) \<and>
     prefix (map permit_fact (permits d)) (map permit_fact (permits d')) \<and>
     prefix (map approval_fact (approvals d)) (map approval_fact (approvals d')) \<and>
     (\<forall>q \<in> set (permits d). pm_invalidated q \<noteq> None \<longrightarrow> q \<in> set (permits d')) \<and>
     (\<forall>a \<in> set (approvals d). ra_invalidated a \<noteq> None \<longrightarrow> a \<in> set (approvals d')))"

lemma keeps_refl [simp]: "keeps_records d d"
  by (simp add: keeps_records_def)

lemma keeps_trans: "keeps_records d d1 \<Longrightarrow> keeps_records d1 d2 \<Longrightarrow> keeps_records d d2"
  unfolding keeps_records_def by (meson prefix_order.trans)

lemma keeps_same:
  assumes "executions d2 = executions d1" "validations d2 = validations d1" "results d2 = results d1"
    "plans d2 = plans d1" "permits d2 = permits d1" "approvals d2 = approvals d1"
  shows "keeps_records d d2 = keeps_records d d1"
  by (simp add: keeps_records_def assms)

lemma keeps_task [simp]: "keeps_records d (set_task k f d1) = keeps_records d d1"
  by (rule keeps_same) (simp_all add: set_task_def)

lemma keeps_cycle [simp]: "keeps_records d (set_cycle k f d1) = keeps_records d d1"
  by (rule keeps_same) (simp_all add: set_cycle_def)

lemma keeps_tables [simp]:
  "keeps_records d (d1\<lparr>tasks := ts\<rparr>) = keeps_records d d1" "keeps_records d (d1\<lparr>cycles := cs\<rparr>) = keeps_records d d1"
  "keeps_records d (d1\<lparr>lifecycles := ls\<rparr>) = keeps_records d d1"
  by (rule keeps_same; simp)+

lemma untouched_row: "q \<in> set rows \<Longrightarrow> \<not> p q \<Longrightarrow> q \<in> set (update_where p f rows)"
  unfolding mem_update_where by (rule bexI [of _ q]) simp_all

lemma keeps_permit_update:
  assumes "\<And>q. permit_fact (f q) = permit_fact q" and "\<And>q. p q \<Longrightarrow> pm_invalidated q = None"
  shows "keeps_records d (d\<lparr>permits := update_where p f (permits d)\<rparr>)"
  using assms by (auto simp: keeps_records_def map_update_where intro: untouched_row)

lemma keeps_approval_update:
  assumes "\<And>q. approval_fact (f q) = approval_fact q" and "\<And>q. p q \<Longrightarrow> ra_invalidated q = None"
  shows "keeps_records d (d\<lparr>approvals := update_where p f (approvals d)\<rparr>)"
  using assms by (auto simp: keeps_records_def map_update_where intro: untouched_row)

lemma keeps_plan_update:
  assumes "\<And>q. plan_fact (f q) = plan_fact q"
  shows "keeps_records d (d\<lparr>plans := update_where p f (plans d)\<rparr>)"
  using assms by (simp add: keeps_records_def map_update_where)

lemma keeps_updates:
  "keeps_records d (invalidate_permits now k d)" "keeps_records d (invalidate_approvals now k d)"
  "keeps_records d (supersede_plan pid d)" "keeps_records d (supersede_open_plans k d)"
  unfolding invalidate_permits_def invalidate_approvals_def supersede_plan_def supersede_open_plans_def
  by (intro keeps_permit_update keeps_approval_update keeps_plan_update;
      simp add: permit_fact_def approval_fact_def plan_fact_def)+

lemma keeps_inserts:
  "insert_plan p d = Inr d' \<Longrightarrow> keeps_records d d'" "insert_permit q d = Inr d' \<Longrightarrow> keeps_records d d'"
  "insert_execution x d = Inr d' \<Longrightarrow> keeps_records d d'" "insert_validation v d = Inr d' \<Longrightarrow> keeps_records d d'"
  "insert_result r d = Inr d' \<Longrightarrow> keeps_records d d'" "insert_approval a d = Inr d' \<Longrightarrow> keeps_records d d'"
  by (auto simp: insert_iffs keeps_records_def)

lemma keeps_replan:
  "keeps_records d (invalidate_permits now k (supersede_plan pid d))"
  "keeps_records d (invalidate_approvals now k (invalidate_permits now k (supersede_plan pid d)))"
  by (meson keeps_updates keeps_trans)+

lemma keeps_authorize:
  assumes "authorize_plan sha now t p ev who at mode d = Inr (k, d')"
  shows "keeps_records d d'"
  using assms
proof (rule authorize_effect)
  fix d1
  let ?d = "d\<lparr>plans := update_where (\<lambda>q. pl_id q = pl_id p)
    (\<lambda>q. q\<lparr>pl_status := APPROVED, pl_approved_at := Some at, pl_approved_by := Some who,
       pl_approval_event := Some ev\<rparr>) (plans d)\<rparr>"
  assume i: "insert_permit (mk_permit sha now t p ev who mode) ?d = Inr d1"
    and d': "d' = set_task (tr_id t) (enter EXECUTING now) d1"
  have "keeps_records d ?d" by (rule keeps_plan_update) (simp add: plan_fact_def)
  from keeps_trans [OF this keeps_inserts(2) [OF i]] show ?thesis by (simp add: d')
qed

lemma keeps_validation:
  assumes "record_validation sha now t v summary findings repairs evidence d = Inr (early, d')"
  shows "keeps_records d d'"
  using assms
proof (rule record_validation_effect)
  fix pid d1
  assume i: "insert_validation (mk_validation sha t pid v summary findings repairs evidence) d = Inr d1"
    and d': "d' = set_task (tr_id t) (\<lambda>u. (enter (verdict_phase v) now u)
        \<lparr>tr_round := Suc (tr_round t), tr_feedback := tr_feedback t @ verdict_feedback summary repairs v,
         tr_failure := (if v = BLOCKED then Some (strip summary) else None)\<rparr>)
      (verdict_effect now t summary v d1)"
  have "keeps_records d1 (verdict_effect now t summary v d1)"
    by (cases v) (auto intro: keeps_trans keeps_updates)
  with keeps_trans [OF keeps_inserts(4) [OF i]] show ?thesis by (simp add: d')
qed simp

lemma keeps_step:
  assumes "runtime_step sha d d'"
  shows "keeps_records d d'"
  using assms
proof cases
  case step_other
  then show ?thesis by (simp add: same_workflow_def keeps_records_def)
next
  case (step_initialize known spec now th n root ref kind seq r)
  from step_initialize(2) show ?thesis
  proof (rule initialize_effect)
    let ?id = "workflow_cycle_id_for sha th n (ws_workflow_id spec)"
    fix d1
    assume i: "insert_cycle (new_cycle ?id th n root spec ref kind seq) d = Inr d1"
      and t: "insert_tasks (new_task sha now ?id th n (ws_workflow_id spec)) 0 (ws_tasks spec) d1 =
        Inr (d'\<lparr>lifecycles := lifecycles d\<rparr>)"
    have "keeps_records d d1" using i by (simp add: insert_cycle_iff)
    with insert_tasks_eq [OF t] have "keeps_records d (d'\<lparr>lifecycles := lifecycles d\<rparr>)" by simp
    then show ?thesis by simp
  qed simp
next
  case (step_select now c r)
  then show ?thesis by (rule select_effect) simp_all
next
  case (step_submit now k body cid at p)
  then show ?thesis
  proof (rule submit_effect)
    fix t q d1
    assume i: "insert_plan q (invalidate_permits now k (supersede_open_plans k d)) = Inr d1"
      and d': "d' = set_task k (\<lambda>t. (enter WAITING_FOR_PLAN_APPROVAL now t)\<lparr>tr_plan := Some (pl_id q)\<rparr>) d1"
    have "keeps_records d d1" by (rule keeps_trans [OF _ keeps_inserts(1) [OF i]]) (meson keeps_updates keeps_trans)
    then show ?thesis by (simp add: d')
  qed
next
  case (step_approve now k occ ev who auth at q)
  then show ?thesis by (auto elim!: approve_plan_effect intro: keeps_authorize)
next
  case (step_auto_authorize now k q)
  then show ?thesis by (auto elim!: auto_authorize_effect intro: keeps_authorize)
next
  case (step_replan_feedback now k t)
  then show ?thesis by (rule replan_feedback_effect) (simp add: keeps_replan)
next
  case (step_replan_revision now k ids t)
  then show ?thesis by (rule replan_revision_effect) (simp add: keeps_replan)
next
  case (step_finish_execution now k summary evidence t)
  then show ?thesis by (rule finish_execution_effect) (simp add: keeps_inserts)
next
  case (step_finish_validation now guard k v summary findings repairs evidence t)
  then show ?thesis by (auto elim!: finish_validation_effect intro: keeps_validation)
next
  case (step_publish_result now k cid at r)
  from step_publish_result(1) show ?thesis by (rule publish_result_effect) (simp add: keeps_inserts)
next
  case (step_approve_result now k occ ev who auth at mode a)
  from step_approve_result(1) show ?thesis
  proof (rule approve_result_effect)
    fix t m aid
    assume "accept_result sha now t occ ev who at m d = Inr (aid, d')"
    then show ?thesis by (rule accept_result_effect) (simp add: keeps_inserts)
  qed
next
  case (step_replan_result now k ev feedback t)
  then show ?thesis by (rule replan_result_effect) (simp add: keeps_replan)
next
  case (step_pause now k occ t)
  then show ?thesis by (rule pause_effect) simp
next
  case (step_resume now k occ t)
  then show ?thesis by (rule resume_effect) simp
next
  case (step_fail now c reason c')
  then show ?thesis by (rule fail_effect) (auto split: option.splits)
next
  case (step_published p)
  then show ?thesis by simp
qed

text \<open>
  C11. Along every run the record only grows: executions, validations and results are appended and
  never rewritten, a plan keeps its text, digest, version and approval occurrence, a permit and
  an approval keep what they authorise and by whom, and one that was invalidated stays so.
\<close>

theorem record_append_only:
  assumes "(runtime_step sha)\<^sup>*\<^sup>* d d'"
  shows "keeps_records d d'"
  using assms by induction (auto intro: keeps_trans keeps_step)

theorem record_append_only_witness: "keeps_records demo_8 demo_9"
  by (rule record_append_only [OF r_into_rtranclp [of "runtime_step example_sha"]]) (rule step_select [OF demo_finish])

section \<open>The life of a task\<close>

text \<open>The phases a task may go to; the loop at VALIDATING records an ACCEPT.\<close>

fun next_phases :: "task_phase \<Rightarrow> task_phase set" where
  "next_phases PENDING = {PLANNING}"
| "next_phases PLANNING = {WAITING_FOR_PLAN_APPROVAL, WAITING_FOR_INPUT, FAILED}"
| "next_phases WAITING_FOR_PLAN_APPROVAL = {EXECUTING, PLANNING, FAILED}"
| "next_phases EXECUTING = {VALIDATING, WAITING_FOR_INPUT, FAILED}"
| "next_phases VALIDATING =
     {VALIDATING, EXECUTING, PLANNING, WAITING_FOR_RESULT_APPROVAL, WAITING_FOR_INPUT, FAILED}"
| "next_phases WAITING_FOR_RESULT_APPROVAL = {DONE, PLANNING, FAILED}"
| "next_phases WAITING_FOR_INPUT = {PLANNING, EXECUTING, VALIDATING, FAILED}"
| "next_phases DONE = {}"
| "next_phases FAILED = {}"

definition evolves :: "task_row \<Rightarrow> task_row \<Rightarrow> bool" where
  "evolves t u = (same_key t u \<and> (u = t \<or> tr_phase u \<in> next_phases (tr_phase t)) \<and>
     tr_attempt t \<le> tr_attempt u \<and> tr_round t \<le> tr_round u \<and>
     (tr_phase t = WAITING_FOR_INPUT \<longrightarrow> u = t \<or> tr_phase u = FAILED \<or> Some (tr_phase u) = tr_waiting t))"

definition tasks_evolve :: "db \<Rightarrow> db \<Rightarrow> bool" where
  "tasks_evolve d d' = (\<forall>t \<in> set (tasks d). \<exists>u \<in> set (tasks d'). evolves t u)"

lemma evolves_refl [simp]: "evolves t t"
  by (simp add: evolves_def same_key_def)

lemma tasks_evolve_same: "tasks d' = tasks d \<Longrightarrow> tasks_evolve d d'"
  unfolding tasks_evolve_def by (metis evolves_refl)

lemma tasks_evolve_append: "tasks d' = tasks d @ ts \<Longrightarrow> tasks_evolve d d'"
  unfolding tasks_evolve_def by (metis evolves_refl UnI1 set_append)

lemma tasks_evolve_update:
  assumes "tasks d' = update_where p f (tasks d)" and "\<And>t. t \<in> set (tasks d) \<Longrightarrow> p t \<Longrightarrow> evolves t (f t)"
  shows "tasks_evolve d d'"
proof -
  have "\<exists>u \<in> set (tasks d'). evolves t u" if t: "t \<in> set (tasks d)" for t
  proof (rule bexI)
    show "evolves t (if p t then f t else t)" using assms(2) [OF t] by simp
    show "(if p t then f t else t) \<in> set (tasks d')" unfolding assms(1) mem_update_where using t by blast
  qed
  then show ?thesis by (simp add: tasks_evolve_def)
qed

text \<open>A move of the owner: the updated row is the one the guard has read.\<close>

lemma tasks_evolve_owner:
  assumes "tables_ok d" and "owned_task d k p = Inr t" and "tasks d' = update_where (\<lambda>u. tr_id u = k) f (tasks d)"
    and "evolves t (f t)"
  shows "tasks_evolve d d'"
proof (rule tasks_evolve_update [OF assms(3)])
  fix u assume u: "u \<in> set (tasks d)" "tr_id u = k"
  have t: "t \<in> set (tasks d)" "tr_id t = k" using assms(2) by (auto simp: owned_task_iff)
  with key_unique(9) [OF assms(1) u(1) t(1)] u(2) have "u = t" by simp
  with assms(4) show "evolves u (f u)" by simp
qed

lemma tasks_set_task: "tasks (set_task k f d) = update_where (\<lambda>u. tr_id u = k) f (tasks d)"
  by (simp add: set_task_def)

lemma evolve_authorize:
  assumes "tables_ok d" and "owned_task d k WAITING_FOR_PLAN_APPROVAL = Inr t"
    and "authorize_plan sha now t p ev who at mode d = Inr (pid, d')"
  shows "tasks_evolve d d'"
  using assms(3)
proof (rule authorize_effect)
  fix d1
  assume i: "insert_permit (mk_permit sha now t p ev who mode) (d\<lparr>plans := update_where (\<lambda>q. pl_id q = pl_id p)
      (\<lambda>q. q\<lparr>pl_status := APPROVED, pl_approved_at := Some at, pl_approved_by := Some who,
         pl_approval_event := Some ev\<rparr>) (plans d)\<rparr>) = Inr d1"
    and d': "d' = set_task (tr_id t) (enter EXECUTING now) d1"
  have "tr_id t = k" "tr_phase t = WAITING_FOR_PLAN_APPROVAL" using assms(2) by (auto simp: owned_task_iff)
  then show ?thesis using insert_frame(2) [OF i] d'
    by (intro tasks_evolve_owner [OF assms(1,2)]) (auto simp: tasks_set_task evolves_def)
qed

lemma evolve_validation:
  assumes "tables_ok d" and o: "owned_task d k VALIDATING = Inr t"
    and "record_validation sha now t v summary findings repairs evidence d = Inr (early, d')"
  shows "tasks_evolve d d'"
  using assms(3)
proof (rule record_validation_effect)
  fix pid d1
  assume i: "insert_validation (mk_validation sha t pid v summary findings repairs evidence) d = Inr d1"
    and d': "d' = set_task (tr_id t) (\<lambda>u. (enter (verdict_phase v) now u)
        \<lparr>tr_round := Suc (tr_round t), tr_feedback := tr_feedback t @ verdict_feedback summary repairs v,
         tr_failure := (if v = BLOCKED then Some (strip summary) else None)\<rparr>)
      (verdict_effect now t summary v d1)"
  have "tasks (verdict_effect now t summary v d1) = tasks d" by (cases v) (simp_all add: insert_frame(4) [OF i])
  moreover have t: "tr_id t = k" "tr_phase t = VALIDATING" using o by (auto simp: owned_task_iff)
  ultimately have "tasks d' = update_where (\<lambda>u. tr_id u = k) (\<lambda>u. (enter (verdict_phase v) now u)
        \<lparr>tr_round := Suc (tr_round t), tr_feedback := tr_feedback t @ verdict_feedback summary repairs v,
         tr_failure := (if v = BLOCKED then Some (strip summary) else None)\<rparr>) (tasks d)"
    by (simp add: d' tasks_set_task)
  then show ?thesis
  proof (rule tasks_evolve_owner [OF assms(1) o])
    have "verdict_phase v \<in> next_phases VALIDATING" by (cases v) simp_all
    then show "evolves t ((enter (verdict_phase v) now t)
        \<lparr>tr_round := Suc (tr_round t), tr_feedback := tr_feedback t @ verdict_feedback summary repairs v,
         tr_failure := (if v = BLOCKED then Some (strip summary) else None)\<rparr>)"
      using t by (simp add: evolves_def same_key_def)
  qed
qed (simp add: tasks_evolve_same)

lemma evolve_step:
  assumes "runtime_step sha d d'" and "reachable sha d"
  shows "tasks_evolve d d'"
proof -
  note tab = reachable_core(1) [OF assms(2)]
  have pause: "pauses_ok d" by (rule evidence_pauses [OF reachable_core(3) [OF assms(2)]])
  note move = tasks_evolve_owner [OF tab]
  from assms(1) show ?thesis
  proof cases
    case step_other
    then show ?thesis by (simp add: same_workflow_def tasks_evolve_same)
  next
    case (step_initialize known spec now th n root ref kind seq r)
    from step_initialize(2) show ?thesis
    proof (rule initialize_effect)
      let ?id = "workflow_cycle_id_for sha th n (ws_workflow_id spec)"
      fix d1
      assume i: "insert_cycle (new_cycle ?id th n root spec ref kind seq) d = Inr d1"
        and t: "insert_tasks (new_task sha now ?id th n (ws_workflow_id spec)) 0 (ws_tasks spec) d1 =
          Inr (d'\<lparr>lifecycles := lifecycles d\<rparr>)"
      have "tasks (d'\<lparr>lifecycles := lifecycles d\<rparr>) = tasks d @
          map (\<lambda>(j, u). new_task sha now ?id th n (ws_workflow_id spec) j u) (enumerate 0 (ws_tasks spec))"
        using insert_tasks_eq [OF t] i by (simp add: insert_cycle_iff)
      then show ?thesis by (intro tasks_evolve_append) simp
    qed (simp add: tasks_evolve_same)
  next
    case (step_select now c r)
    then show ?thesis
    proof (rule select_effect)
      fix c' rows and t :: task_row
      assume d': "d' = d\<lparr>cycles := update_where (\<lambda>x. cy_id x = c \<and> cy_active x = None \<and> cy_status x = C_ACTIVE)
            (\<lambda>x. x\<lparr>cy_active := Some (tr_task t)\<rparr>) (cycles d),
          tasks := update_where (\<lambda>u. tr_id u = tr_id t \<and> tr_status u = PENDING) (enter PLANNING now) (tasks d)\<rparr>"
      have "tr_phase u = PENDING" if u: "u \<in> set (tasks d)" "tr_status u = PENDING" for u
      proof -
        obtain x :: cycle_row where "cycle_ok sha x (cycle_tasks d (tr_cycle u))" using reachable_task [OF assms(2) u(1)] by metis
        moreover have "u \<in> set (cycle_tasks d (tr_cycle u))" using u(1) by simp
        ultimately show ?thesis using u(2) by (simp add: cycle_ok_def)
      qed
      then show ?thesis using d'
        by (intro tasks_evolve_update [where p = "\<lambda>u. tr_id u = tr_id t \<and> tr_status u = PENDING"])
          (auto simp: evolves_def)
    qed (simp_all add: tasks_evolve_same)
  next
    case (step_submit now k body cid at p)
    then show ?thesis
    proof (rule submit_effect)
      fix t q d1
      assume o: "owned_task d k PLANNING = Inr t"
        and i: "insert_plan q (invalidate_permits now k (supersede_open_plans k d)) = Inr d1"
        and d': "d' = set_task k (\<lambda>t. (enter WAITING_FOR_PLAN_APPROVAL now t)\<lparr>tr_plan := Some (pl_id q)\<rparr>) d1"
      have "tr_phase t = PLANNING" using o by (simp add: owned_task_iff)
      then show ?thesis using insert_frame(1) [OF i]
        by (intro move [OF o]) (auto simp: d' tasks_set_task evolves_def same_key_def)
    qed
  next
    case (step_approve now k occ ev who auth at q)
    then show ?thesis by (auto elim!: approve_plan_effect intro: evolve_authorize [OF tab])
  next
    case (step_auto_authorize now k q)
    then show ?thesis by (auto elim!: auto_authorize_effect intro: evolve_authorize [OF tab])
  next
    case (step_replan_feedback now k t)
    then show ?thesis by (elim replan_feedback_effect) (rule move, assumption, auto simp: tasks_set_task evolves_def owned_task_iff)
  next
    case (step_replan_revision now k ids t)
    then show ?thesis
      by (elim replan_revision_effect) (rule move, assumption, auto simp: tasks_set_task evolves_def same_key_def owned_task_iff)
  next
    case (step_finish_execution now k summary evidence t)
    then show ?thesis
    proof (rule finish_execution_effect)
      fix t p q d1
      assume o: "owned_task d k EXECUTING = Inr t"
        and i: "insert_execution (mk_execution sha now t (pl_id p) q summary evidence) d = Inr d1"
        and d': "d' = set_task k (\<lambda>u. (enter VALIDATING now u)\<lparr>tr_attempt := Suc (tr_attempt t)\<rparr>) d1"
      then show ?thesis using insert_frame(3) [OF i]
        by (intro move [OF o]) (auto simp: tasks_set_task evolves_def same_key_def owned_task_iff)
    qed
  next
    case (step_finish_validation now guard k v summary findings repairs evidence t)
    then show ?thesis by (auto elim!: finish_validation_effect intro: evolve_validation [OF tab])
  next
    case (step_publish_result now k cid at r)
    from step_publish_result(1) show ?thesis
    proof (rule publish_result_effect)
      fix t pid v x d1
      assume o: "owned_task d k VALIDATING = Inr t"
        and i: "insert_result (mk_result sha now t pid x v cid at) d = Inr d1"
        and d': "d' = set_task k (enter WAITING_FOR_RESULT_APPROVAL now) d1"
      then show ?thesis using insert_frame(5) [OF i]
        by (intro move [OF o]) (auto simp: tasks_set_task evolves_def owned_task_iff)
    qed
  next
    case (step_approve_result now k occ ev who auth at mode a)
    from step_approve_result(1) show ?thesis
    proof (rule approve_result_effect)
      fix t m aid
      assume o: "owned_task d k WAITING_FOR_RESULT_APPROVAL = Inr t"
        and "accept_result sha now t occ ev who at m d = Inr (aid, d')"
      from this(2) show ?thesis
      proof (rule accept_result_effect)
        fix r d1 b
        assume i: "insert_approval b d = Inr d1"
          and d': "d' = d1\<lparr>tasks := update_where (\<lambda>u. tr_id u = tr_id t) (enter DONE now) (tasks d1),
            cycles := update_where (\<lambda>c. cy_id c = tr_cycle t \<and> cy_active c = Some (tr_task t))
              (\<lambda>c. c\<lparr>cy_active := None\<rparr>) (cycles d1)\<rparr>"
        have "tr_id t = k" "tr_phase t = WAITING_FOR_RESULT_APPROVAL" using o by (auto simp: owned_task_iff)
        then show ?thesis using insert_frame(6) [OF i] by (intro move [OF o]) (auto simp: d' evolves_def)
      qed
    qed
  next
    case (step_replan_result now k ev feedback t)
    then show ?thesis
      by (elim replan_result_effect) (rule move, assumption, auto simp: tasks_set_task evolves_def same_key_def owned_task_iff)
  next
    case (step_pause now k occ t)
    then show ?thesis
      by (elim pause_effect) (rule move, assumption, auto simp: tasks_set_task evolves_def same_key_def owned_task_iff)
  next
    case (step_resume now k occ t)
    then show ?thesis
    proof (rule resume_effect)
      fix t p
      assume o: "owned_task d k WAITING_FOR_INPUT = Inr t" and w: "tr_waiting t = Some p"
        and d': "d' = set_task k (\<lambda>u. (enter p now u)\<lparr>tr_waiting := None, tr_clarification := None\<rparr>) d"
      have "t \<in> set (tasks d)" "tr_phase t = WAITING_FOR_INPUT" using o by (auto simp: owned_task_iff)
      then have "p \<in> {PLANNING, EXECUTING, VALIDATING}" using pause w by (auto simp: pauses_ok_def)
      then show ?thesis using w \<open>tr_phase t = WAITING_FOR_INPUT\<close>
        by (intro move [OF o]) (auto simp: d' tasks_set_task evolves_def same_key_def)
    qed
  next
    case (step_fail now c reason c')
    then show ?thesis
    proof (rule fail_effect)
      fix x msg
      assume x: "cycle_of d c = Some x" "cy_status x = C_ACTIVE"
        and d': "d' = set_cycle c (\<lambda>c. c\<lparr>cy_status := C_FAILED, cy_failure := Some msg\<rparr>)
          (case cy_active x of None \<Rightarrow> d
           | Some a \<Rightarrow> d\<lparr>tasks := update_where (\<lambda>t. tr_cycle t = c \<and> tr_task t = a)
               (\<lambda>t. (enter FAILED now t)\<lparr>tr_failure := Some msg\<rparr>) (tasks d)\<rparr>)"
      show ?thesis
      proof (cases "cy_active x")
        case None
        then show ?thesis by (simp add: d' tasks_evolve_same)
      next
        case (Some a)
        have "tr_phase t \<notin> {PENDING, DONE, FAILED}" if t: "t \<in> set (tasks d)" "tr_cycle t = c" "tr_task t = a" for t
        proof -
          have "cycle_ok sha x (cycle_tasks d c)"
            using reachable_core(2) [OF assms(2)] x(1) by (auto simp: ownership_ok_def)
          then show ?thesis using t x(2) Some by (auto simp: cycle_ok_def owned_by_one_def busy_def)
        qed
        then have "evolves t ((enter FAILED now t)\<lparr>tr_failure := Some msg\<rparr>)"
          if "t \<in> set (tasks d)" "tr_cycle t = c \<and> tr_task t = a" for t
          using that by (cases "tr_phase t") (auto simp: evolves_def same_key_def)
        then show ?thesis using Some
          by (intro tasks_evolve_update [where p = "\<lambda>t. tr_cycle t = c \<and> tr_task t = a"]) (simp_all add: d')
      qed
    qed (simp add: tasks_evolve_same)
  next
    case (step_published p)
    then show ?thesis by (simp add: tasks_evolve_same)
  qed
qed

text \<open>
  C29. A task only moves along the transition table of its phases: its row never disappears or changes
  identity, its attempt and round counters never decrease, and a task paused for clarification
  returns exactly to the phase it was paused in (or fails).
\<close>

theorem task_moves_legal:
  assumes "reachable sha d" and "runtime_step sha d d'" and "t \<in> set (tasks d)"
  shows "\<exists>u \<in> set (tasks d'). same_key t u \<and> (u = t \<or> tr_phase u \<in> next_phases (tr_phase t)) \<and>
    tr_attempt t \<le> tr_attempt u \<and> tr_round t \<le> tr_round u \<and>
    (tr_phase t = WAITING_FOR_INPUT \<longrightarrow> u = t \<or> tr_phase u = FAILED \<or> Some (tr_phase u) = tr_waiting t)"
  using evolve_step [OF assms(2,1)] assms(3) unfolding tasks_evolve_def evolves_def by blast

theorem task_moves_legal_witness:
  "\<exists>t u. t \<in> set (tasks demo_8) \<and> tr_phase t = DONE \<and> u \<in> set (tasks demo_9) \<and> same_key t u \<and> tr_attempt t \<le> tr_attempt u"
proof -
  have "map tr_phase (tasks demo_8) = [DONE]" by code_simp
  then obtain t where t: "t \<in> set (tasks demo_8)" "tr_phase t = DONE" by (auto simp: map_eq_Cons_conv)
  with task_moves_legal [OF demo_reach(9) step_select [OF demo_finish] t(1)] show ?thesis by blast
qed

text \<open>
  DONE and FAILED are final: along every run from a reachable database the row of such a task
  stays exactly as it is.
\<close>

theorem finished_tasks_stay:
  assumes "reachable sha d" and "(runtime_step sha)\<^sup>*\<^sup>* d d'" and "t \<in> set (tasks d)" and "tr_phase t \<in> {DONE, FAILED}"
  shows "t \<in> set (tasks d')"
proof -
  from assms(2,1) have "reachable sha d' \<and> t \<in> set (tasks d')"
  proof (induction rule: rtranclp_induct)
    case base
    with assms(3) show ?case by simp
  next
    case (step d1 d2)
    then have r: "reachable sha d1" "t \<in> set (tasks d1)" by simp_all
    have "\<exists>u \<in> set (tasks d2). evolves t u" using evolve_step [OF step.hyps(2) r(1)] r(2) by (simp add: tasks_evolve_def)
    then have "t \<in> set (tasks d2)" using assms(4) by (auto simp: evolves_def)
    with reachable_step [OF r(1) step.hyps(2)] show ?case by simp
  qed
  then show ?thesis by simp
qed

theorem finished_tasks_stay_witness:
  "\<exists>t. t \<in> set (tasks demo_8) \<and> tr_phase t = DONE \<and> t \<in> set (tasks demo_9)"
proof -
  have "map tr_phase (tasks demo_8) = [DONE]" by code_simp
  then obtain t where t: "t \<in> set (tasks demo_8)" "tr_phase t = DONE" by (auto simp: map_eq_Cons_conv)
  have "t \<in> set (tasks demo_9)"
    by (rule finished_tasks_stay [OF demo_reach(9) r_into_rtranclp [of "runtime_step example_sha", OF step_select [OF demo_finish]] t(1)])
      (simp add: t(2))
  with t show ?thesis by blast
qed

end
