(* ===== verification/Guards.thy ===== *)
theory Guards
  imports Example_Run
begin

text \<open>
  The guards of the transitions: an operation that raises has not changed anything, a plan is
  approved under exactly the stated conditions, replanning revokes the authority to execute, a
  clarification returns to where it started, and a repeated ACCEPT is a no-op.
\<close>

section \<open>Errors\<close>

definition raises_unchanged :: "('s, 'a) op \<Rightarrow> 's \<Rightarrow> bool" where
  "raises_unchanged f d = (\<forall>e d'. f d = (Inl e, d') \<longrightarrow> d' = d)"

lemma raises_commit:
  assumes "\<And>x d1. r = Inr (x, d1) \<Longrightarrow> \<exists>y. k x d1 = (Inr y, d1)" and "and_then (commit d r) k = (Inl e, d')"
  shows "d' = d"
proof (cases r)
  case (Inl x)
  with assms(2) show ?thesis by simp
next
  case (Inr x)
  obtain y d1 where x: "x = (y, d1)" by (cases x)
  with assms(1) Inr obtain z where "k y d1 = (Inr z, d1)" by blast
  with assms(2) show ?thesis by (simp add: Inr x)
qed

lemma task_after_set:
  assumes "\<And>t. tr_id (f t) = tr_id t"
  shows "task_of (set_task k f d) k = map_option f (task_of d k)"
  using assms by (cases "task_of d k") (auto simp: set_task_def lookup_update_where)

lemma frame_task [simp]:
  "task_of (invalidate_permits now k' d) k = task_of d k" "task_of (invalidate_approvals now k' d) k = task_of d k"
  "task_of (supersede_plan pid d) k = task_of d k" "task_of (supersede_open_plans k' d) k = task_of d k"
  by (simp_all add: runtime_updates)

lemma raises_submit: "raises_unchanged (submit_posted_plan sha now k body cid at) d"
proof -
  have "\<exists>y. plan d1 pid = Inr y"
    if t: "bindE (owned_task d k PLANNING) (\<lambda>t :: task_row.
         let p = mk_plan sha t (next_plan_version d k) (strip body) cid at in
         bindE (insert_plan p (invalidate_permits now k (supersede_open_plans k d)))
           (\<lambda>d1. Inr (pl_id p, set_task k
              (\<lambda>t. (enter WAITING_FOR_PLAN_APPROVAL now t)\<lparr>tr_plan := Some (pl_id p)\<rparr>) d1))) = Inr (pid, d1)" for pid d1
  proof -
    from t obtain t p d2 where i: "insert_plan p (invalidate_permits now k (supersede_open_plans k d)) = Inr d2"
      and d1: "pid = pl_id p" "d1 = set_task k (\<lambda>t. (enter WAITING_FOR_PLAN_APPROVAL now t)\<lparr>tr_plan := Some (pl_id p)\<rparr>) d2"
      by (auto simp: bindE_Inr_iff Let_def)
    have "p \<in> set (plans d1)" using i by (simp add: d1 insert_plan_iff set_task_def)
    then have "plan_of d1 pid \<noteq> None" using d1(1) lookup_None_iff [of pl_id pid "plans d1"] by auto
    then show ?thesis by (auto simp: plan_iff)
  qed
  then show ?thesis
    unfolding raises_unchanged_def submit_posted_plan_def
    by (auto split: if_split_asm elim!: raises_commit [rotated])
qed

text \<open>The transitions that hand back the task row.\<close>

lemma raises_task:
  assumes "\<And>x d1. r = Inr (x, d1) \<Longrightarrow> task_of d1 k \<noteq> None"
    and "and_then (commit d r) (\<lambda>_ d1. (task d1 k, d1)) = (Inl e, d')"
  shows "d' = d"
  by (rule raises_commit [OF _ assms(2)]) (use assms(1) task_iff in blast)

lemma permit_after_authorize:
  assumes "authorize_plan sha now t p ev who at mode d = Inr (pid, d')"
  shows "\<exists>q. permit_of d' pid = Some q"
proof -
  from assms obtain d1 where i: "insert_permit (mk_permit sha now t p ev who mode)
        (d\<lparr>plans := update_where (\<lambda>q. pl_id q = pl_id p)
           (\<lambda>q. q\<lparr>pl_status := APPROVED, pl_approved_at := Some at, pl_approved_by := Some who,
              pl_approval_event := Some ev\<rparr>) (plans d)\<rparr>) = Inr d1"
    and d': "d' = set_task (tr_id t) (enter EXECUTING now) d1"
    and pid: "pid = pm_id (mk_permit sha now t p ev who mode)"
    by (rule authorize_effect)
  from i have "pm_id (mk_permit sha now t p ev who mode) \<in> pm_id ` set (permits d1)"
    by (auto simp: insert_permit_iff)
  moreover have "permits d' = permits d1" by (simp add: d' set_task_def)
  ultimately have "permit_of d' pid \<noteq> None" by (simp only: pid lookup_None_iff not_not)
  then show ?thesis by (rule not_None_eq [THEN iffD1])
qed

text \<open>The transitions that hand back the permit.\<close>

lemma raises_permit:
  assumes "\<And>pid d1. r = Inr (pid, d1) \<Longrightarrow>
      \<exists>sha now t p ev who at mode. authorize_plan sha now t p ev who at mode d = Inr (pid, d1)"
    and "and_then (commit d r) (\<lambda>pid d1. (permit d1 pid, d1)) = (Inl e, d')"
  shows "d' = d"
proof (rule raises_commit [OF _ assms(2)])
  fix pid d1
  assume "r = Inr (pid, d1)"
  with assms(1) obtain sha now t p ev who at mode
    where "authorize_plan sha now t p ev who at mode d = Inr (pid, d1)" by metis
  from permit_after_authorize [OF this] obtain q where "permit_of d1 pid = Some q" ..
  then show "\<exists>y. (permit d1 pid, d1) = return y d1" by (simp add: permit_def)
qed

lemma raises_approve: "raises_unchanged (approve_plan sha now k occ ev who auth at) d"
  unfolding raises_unchanged_def approve_plan_def
  by (auto split: if_split_asm sum.split_asm elim!: raises_permit [rotated])
    (auto simp: bindE_Inr_iff split: if_split_asm, metis)

lemma raises_auto_authorize: "raises_unchanged (auto_authorize_plan sha now k) d"
  unfolding raises_unchanged_def auto_authorize_plan_def
  by (auto split: if_split_asm sum.split_asm elim!: raises_permit [rotated])
    (auto simp: bindE_Inr_iff split: if_split_asm, metis)

lemma raises_replan_feedback: "raises_unchanged (replan_from_feedback now k) d"
  unfolding raises_unchanged_def replan_from_feedback_def
  by (auto elim!: raises_task [rotated])
    (auto simp: bindE_Inr_iff owned_task_iff task_after_set)

lemma raises_replan_revision: "raises_unchanged (replan_for_revision_inputs now k ids) d"
  unfolding raises_unchanged_def replan_for_revision_inputs_def
  by (auto split: if_split_asm elim!: raises_task [rotated])
    (auto simp: bindE_Inr_iff task_iff task_after_set split: if_split_asm option.split_asm)

lemma raises_finish_execution: "raises_unchanged (finish_execution sha now k summary evidence) d"
  unfolding raises_unchanged_def finish_execution_def
  by (auto split: if_split_asm sum.split_asm elim!: raises_task [rotated])
    (auto simp: bindE_Inr_iff owned_task_iff task_after_set insert_execution_iff split: option.split_asm)

lemma raises_replan_result: "raises_unchanged (replan_from_result_feedback now k ev feedback) d"
  unfolding raises_unchanged_def replan_from_result_feedback_def
  by (auto split: if_split_asm elim!: raises_task [rotated])
    (auto simp: bindE_Inr_iff owned_task_iff task_after_set split: option.split_asm)

lemma raises_pause: "raises_unchanged (pause_for_clarification now k occ) d"
  unfolding raises_unchanged_def pause_for_clarification_def
  by (auto split: if_split_asm sum.split_asm elim!: raises_task [rotated])
    (auto simp: bindE_Inr_iff owned_task_iff task_after_set)

lemma raises_resume: "raises_unchanged (resume_clarification now k occ) d"
  unfolding raises_unchanged_def resume_clarification_def
  by (auto split: if_split_asm elim!: raises_task [rotated])
    (auto simp: bindE_Inr_iff owned_task_iff task_after_set split: if_split_asm option.split_asm)

lemma raises_finish_validation: "raises_unchanged (finish_validation sha now guard k v s fs rs ev) d"
proof -
  have "\<exists>y. (case early of Some t \<Rightarrow> return t d1 | None \<Rightarrow> (task d1 k, d1)) = (Inr y, d1)"
    if r: "bindE (owned_task d k VALIDATING) (\<lambda>t. record_validation sha now t v s fs rs ev d) = Inr (early, d1)"
    for early d1
  proof -
    from r obtain t where t: "task_of d k = Some t" and "record_validation sha now t v s fs rs ev d = Inr (early, d1)"
      by (auto simp: bindE_Inr_iff owned_task_iff)
    from this(2) show ?thesis
    proof (rule record_validation_effect)
      fix pid d2
      assume i: "insert_validation (mk_validation sha t pid v s fs rs ev) d = Inr d2" and "early = None"
        and "d1 = set_task (tr_id t) (\<lambda>u. (enter (verdict_phase v) now u)
          \<lparr>tr_round := Suc (tr_round t), tr_feedback := tr_feedback t @ verdict_feedback s rs v,
           tr_failure := (if v = BLOCKED then Some (strip s) else None)\<rparr>) (verdict_effect now t s v d2)"
      moreover have "task_of (verdict_effect now t s v d2) k = Some t"
        using t i by (cases v) (auto simp: insert_validation_iff runtime_updates)
      moreover have "tr_id t = k" using t by auto
      ultimately show ?thesis by (simp add: task_def task_after_set)
    qed simp
  qed
  then show ?thesis
    unfolding raises_unchanged_def finish_validation_def
    by (auto split: if_split_asm option.split_asm elim!: raises_commit [rotated])
qed


section \<open>Approval of a plan\<close>

lemma authorize_succeeds:
  assumes "owned_task d k f = Inr t" "posted_plan d t = Inr p"
  shows "\<exists>pid d1. authorize_plan sha now t p ev who at mode d = Inr (pid, d1)"
proof -
  have "tr_id t \<in> tr_id ` set (tasks d)" "tr_cycle t \<in> cy_id ` set (cycles d)" "pl_id p \<in> pl_id ` set (plans d)"
    using assms by (simp_all only: guard_iffs) (auto dest: lookup_image)
  moreover have "pl_id ` set (update_where (\<lambda>q. pl_id q = pl_id p) (\<lambda>q. q\<lparr>pl_status := APPROVED,
      pl_approved_at := Some at, pl_approved_by := Some who, pl_approval_event := Some ev\<rparr>) (plans d)) =
      pl_id ` set (plans d)"
    by (rule keys_update_where) simp
  ultimately show ?thesis
    by (simp add: authorize_plan_def insert_permit_def bindE_Inr_iff mk_permit_def Let_def)
qed

definition approvable :: "string \<Rightarrow> string \<Rightarrow> string \<Rightarrow> db \<Rightarrow> bool" where
  "approvable k occ at d =
    (case task_of d k of
       None \<Rightarrow> False
     | Some t \<Rightarrow>
         interaction_mode d (tr_thread t) = Inr MANUAL \<and> tr_phase t = WAITING_FOR_PLAN_APPROVAL \<and>
         (case cycle_of d (tr_cycle t) of
            None \<Rightarrow> False | Some c \<Rightarrow> cy_status c = C_ACTIVE \<and> cy_active c = Some (tr_task t)) \<and>
         (case current_plan d t of
            None \<Rightarrow> False
          | Some p \<Rightarrow> pl_status p = POSTED \<and> pl_occurrence p = occ \<and> pl_posted_at p < at))"

lemma approvable_iff:
  "approvable k occ at d \<longleftrightarrow> (\<exists>t p. owned_task d k WAITING_FOR_PLAN_APPROVAL = Inr t \<and>
     interaction_mode d (tr_thread t) = Inr MANUAL \<and> posted_plan d t = Inr p \<and>
     pl_occurrence p = occ \<and> pl_posted_at p < at)"
  by (auto simp: approvable_def guard_iffs current_plan_def split: option.split_asm option.splits)

text \<open>
  A plan is approved exactly when the approver's permission was proven, the approval
  carries an event and a name, the thread is in MANUAL mode, the task waits for plan approval
  and owns the active cycle, and the comment answers the occurrence of the plan that is
  posted now and was written after it.
\<close>

theorem plan_approved_exactly_when:
  "(\<exists>q d'. approve_plan sha now k occ ev who auth at d = (Inr q, d')) \<longleftrightarrow>
     auth \<and> ev \<noteq> [] \<and> who \<noteq> [] \<and> approvable k occ at d"
  (is "?L \<longleftrightarrow> ?R")
proof
  assume ?L
  then show ?R unfolding approvable_iff by (blast elim: approve_plan_effect)
next
  assume r: ?R
  then obtain t p where t: "owned_task d k WAITING_FOR_PLAN_APPROVAL = Inr t"
    and m: "interaction_mode d (tr_thread t) = Inr MANUAL" and p: "posted_plan d t = Inr p"
    and g: "pl_occurrence p = occ" "pl_posted_at p < at"
    unfolding approvable_iff by blast
  obtain pid d1 where a: "authorize_plan sha now t p ev who at BY_HUMAN d = Inr (pid, d1)"
    using authorize_succeeds [OF t p] by blast
  from t have "task d k = Inr t" by (simp add: owned_task_iff task_iff)
  with r t m p g a permit_after_authorize [OF a] show ?L
    by (auto simp: approve_plan_def permit_def)
qed

section \<open>Replanning revokes the authority to execute\<close>

definition no_authority :: "string \<Rightarrow> db \<Rightarrow> bool" where
  "no_authority k d = list_all (\<lambda>q. pm_task_run q = k \<longrightarrow> pm_invalidated q \<noteq> None) (permits d)"

lemma no_authority_live: "no_authority k d \<Longrightarrow> live_permit_for d k p = None"
  by (auto simp: no_authority_def live_permit_for_def list_all_iff filter_empty_conv)

lemma no_authority_invalidated:
  assumes "permits d' = permits (invalidate_permits now k d)"
  shows "no_authority k d'"
  unfolding no_authority_def assms
  by (simp add: invalidate_permits_def list_all_iff all_update_where)

lemma planning_after:
  assumes "owned_task d k p = Inr t" and "tasks d1 = tasks d" and "\<And>u. tr_id (f u) = tr_id u" "tr_phase (f t) = PLANNING"
  shows "\<exists>u. task_of (set_task k f d1) k = Some u \<and> tr_phase u = PLANNING"
proof -
  have "task_of d1 k = Some t" using assms(1,2) by (simp add: owned_task_iff)
  with assms(3,4) show ?thesis by (simp add: task_after_set)
qed

lemma superseded_after:
  assumes "tr_plan t = Some pid" "plans d' = plans (supersede_plan (tr_plan t) d)"
  shows "list_all (\<lambda>p. pl_id p = pid \<longrightarrow> pl_status p = SUPERSEDED) (plans d')"
  unfolding assms(2) by (simp add: supersede_plan_def assms(1) list_all_iff all_update_where)

text \<open>
  C8. Every way back to planning -- feedback on the plan, feedback on the result, and a batch
  of revision comments -- puts the task into PLANNING, leaves it without a live permit and
  its old plan superseded, so that nothing approved before can be executed afterwards.
\<close>

theorem replanning_revokes_authority:
  assumes "replan_from_feedback now k d = (Inr r, d') \<or> replan_for_revision_inputs now k ids d = (Inr r, d') \<or>
    replan_from_result_feedback now k ev body d = (Inr r, d')"
    and "task_of d k = Some t" "tr_plan t = Some pid"
  shows "tr_phase r = PLANNING \<and> task_of d' k = Some r \<and> no_authority k d' \<and> live_permit_for d' k p = None \<and>
    list_all (\<lambda>q. pl_id q = pid \<longrightarrow> pl_status q = SUPERSEDED) (plans d')"
proof -
  obtain f d1 p where o: "owned_task d k p = Inr t" and f: "\<And>u. tr_id (f u) = tr_id u" "tr_phase (f t) = PLANNING"
    and d1: "tasks d1 = tasks d" "permits d1 = permits (invalidate_permits now k (supersede_plan (tr_plan t) d))"
    "plans d1 = plans (supersede_plan (tr_plan t) d)" and d': "d' = set_task k f d1"
    using assms(1)
  proof (elim disjE)
    assume "replan_from_feedback now k d = (Inr r, d')"
    then show thesis
      by (rule replan_feedback_effect)
        (rule that [of WAITING_FOR_PLAN_APPROVAL "enter PLANNING now"],
          auto simp: guard_iffs assms(2) invalidate_permits_def supersede_plan_def split: option.split)
  next
    assume "replan_for_revision_inputs now k ids d = (Inr r, d')"
    then show thesis
      by (rule replan_revision_effect)
        (rule that, auto simp: guard_iffs assms(2) invalidate_permits_def invalidate_approvals_def
          supersede_plan_def split: option.split)
  next
    assume "replan_from_result_feedback now k ev body d = (Inr r, d')"
    then show thesis
      by (rule replan_result_effect)
        (rule that, auto simp: guard_iffs assms(2) invalidate_permits_def invalidate_approvals_def
          supersede_plan_def split: option.split)
  qed
  have r: "task_of d' k = Some r"
    using assms(1) by (auto simp: replan_from_feedback_def replan_for_revision_inputs_def
        replan_from_result_feedback_def and_then_return_iff task_iff split: if_split_asm)
  obtain u where "task_of d' k = Some u" "tr_phase u = PLANNING"
    using planning_after [where f = f, OF o d1(1) f] d' by blast
  moreover have "no_authority k d'"
    by (rule no_authority_invalidated [where now = now and d = "supersede_plan (tr_plan t) d"])
      (simp add: d' set_task_def d1(2))
  moreover have "list_all (\<lambda>q. pl_id q = pid \<longrightarrow> pl_status q = SUPERSEDED) (plans d')"
    by (rule superseded_after [OF assms(3), where d = d]) (simp add: d' set_task_def d1(3))
  ultimately show ?thesis using r by (simp add: no_authority_live)
qed

theorem replanning_revokes_authority_witness:
  "no_authority the_task (snd (replan_from_feedback ''5'' the_task demo_3))"
proof -
  have "replan_from_feedback ''5'' the_task demo_3 =
      (Inr (projr (fst (replan_from_feedback ''5'' the_task demo_3))), snd (replan_from_feedback ''5'' the_task demo_3))"
    by (rule returned) code_simp
  moreover have "task_of demo_3 the_task = Some (the (task_of demo_3 the_task))" by code_simp
  moreover have "tr_plan (the (task_of demo_3 the_task)) = Some ''task-plan-ab''" by code_simp
  ultimately show ?thesis using replanning_revokes_authority by blast
qed

section \<open>Clarification\<close>

text \<open>
  A question asked while planning, executing or validating is a detour: answering its
  occurrence brings the task back to the phase it asked from, with its plan, attempt and
  round counters as they were, and no other table is touched.
\<close>

theorem clarification_returns_to_its_phase:
  assumes "owned_task d k p = Inr t" "p \<in> {PLANNING, EXECUTING, VALIDATING}"
  shows "snd (resume_clarification now' k occ (snd (pause_for_clarification now k occ d))) =
    set_task k (\<lambda>u. (enter p now' u)\<lparr>tr_waiting := None, tr_clarification := None\<rparr>) d"
proof -
  let ?w = "\<lambda>u. (enter WAITING_FOR_INPUT now u)\<lparr>tr_waiting := Some p, tr_clarification := Some occ\<rparr>"
  let ?b = "\<lambda>u. (enter p now' u)\<lparr>tr_waiting := None, tr_clarification := None\<rparr>"
  have t: "task_of d k = Some t" "tr_phase t = p" using assms(1) by (simp_all add: owned_task_iff)
  have pause: "snd (pause_for_clarification now k occ d) = set_task k ?w d"
    using assms t by (simp add: pause_for_clarification_def task_def task_after_set)
  have "owned_task (set_task k ?w d) k WAITING_FOR_INPUT = Inr (?w t)"
    using assms(1) task_after_set [of ?w k d] by (auto simp: owned_task_iff runtime_updates)
  then have "snd (resume_clarification now' k occ (set_task k ?w d)) = set_task k ?b (set_task k ?w d)"
    by (simp add: resume_clarification_def task_def task_after_set t(1))
  also have "\<dots> = set_task k ?b d"
    by (simp add: set_task_def update_where_def enter_def)
  finally show ?thesis by (simp only: pause)
qed

theorem clarification_returns_to_its_phase_witness:
  "snd (resume_clarification ''4'' the_task ''q'' (snd (pause_for_clarification ''3'' the_task ''q'' demo_2))) =
    set_task the_task (\<lambda>u. (enter PLANNING ''4'' u)\<lparr>tr_waiting := None, tr_clarification := None\<rparr>) demo_2"
proof (rule clarification_returns_to_its_phase)
  show "owned_task demo_2 the_task PLANNING = Inr (projr (owned_task demo_2 the_task PLANNING))" by code_simp
qed simp

section \<open>Repeated validation\<close>

text \<open>
  An ACCEPT that is delivered again, with the same summary, findings, repairs and evidence,
  is answered with the task as it stands and records nothing, so that a replay of the gateway
  cannot validate an attempt twice.
\<close>

theorem repeated_accept_is_noop:
  assumes "finish_validation sha now guard k ACCEPT s fs rs ev d = (Inr t, d')"
  shows "finish_validation sha now' guard k ACCEPT s fs rs ev d' = (Inr t, d')"
proof -
  from assms obtain u early where u: "owned_task d k VALIDATING = Inr u" and g: "\<not> blank s" "is_map ev" "items ev \<noteq> []"
    "guard (validation_payload ACCEPT s fs rs ev) = None"
    and r: "record_validation sha now u ACCEPT s fs rs ev d = Inr (early, d')"
    by (rule finish_validation_effect)
  have "early = None \<Longrightarrow> task_of d' k = Some t" "early = Some e \<Longrightarrow> e = t" for e
    using assms u g r by (auto simp: finish_validation_def task_iff)
  from r show ?thesis
  proof (rule record_validation_effect)
    assume e: "early = Some u" and d': "d' = d"
    from r have "record_validation sha now' u ACCEPT s fs rs ev d = Inr (Some u, d)"
      unfolding e d' by (auto simp: record_validation_def bindE_Inr_iff split: option.splits if_split_asm)
    moreover have "u = t" using \<open>early = Some u \<Longrightarrow> u = t\<close> e .
    ultimately show ?thesis using u g by (simp add: finish_validation_def d')
  next
    fix pid d1
    assume e: "early = None" and pid: "tr_plan u = Some pid"
      and none: "latest_validation d (tr_id u) (Some pid) (tr_attempt u) = None"
      and i: "insert_validation (mk_validation sha u pid ACCEPT s fs rs ev) d = Inr d1"
      and d': "d' = set_task (tr_id u) (\<lambda>w. (enter (verdict_phase ACCEPT) now w)
        \<lparr>tr_round := Suc (tr_round u), tr_feedback := tr_feedback u @ verdict_feedback s rs ACCEPT,
         tr_failure := (if ACCEPT = BLOCKED then Some (strip s) else None)\<rparr>) (verdict_effect now u s ACCEPT d1)"
    let ?v = "mk_validation sha u pid ACCEPT s fs rs ev"
    have v: "validations d' = validations d @ [?v]" "cycles d' = cycles d"
      using i by (simp_all add: d' set_task_def insert_validation_iff)
    have k: "task_of d k = Some u" "tr_id u = k" using u by (auto simp: owned_task_iff)
    have t: "task_of d' k = Some t" using \<open>early = None \<Longrightarrow> task_of d' k = Some t\<close> e by simp
    then have tu: "t = (enter VALIDATING now u)
        \<lparr>tr_round := Suc (tr_round u), tr_feedback := tr_feedback u @ verdict_feedback s rs ACCEPT, tr_failure := None\<rparr>"
      using k i by (simp add: d' task_after_set insert_validation_iff)
    have "owned_task d' k VALIDATING = Inr t"
      using u t by (auto simp: owned_task_iff v tu)
    moreover have "latest_validation d' (tr_id t) (Some pid) (tr_attempt t) = Some ?v"
      using none by (simp add: latest_validation_def v tu mk_validation_def)
    then have "record_validation sha now' t ACCEPT s fs rs ev d' = Inr (Some t, d')"
      using pid by (simp add: record_validation_def tu same_decision_def mk_validation_def)
    ultimately show ?thesis using g by (simp add: finish_validation_def)
  qed
qed

theorem repeated_accept_is_noop_witness:
  "finish_validation example_sha ''9'' (\<lambda>_. None) the_task ACCEPT ''checked'' [] [] demo_checks demo_6 =
    (Inr (projr (fst (finish_validation example_sha ''6'' (\<lambda>_. None) the_task ACCEPT ''checked'' [] [] demo_checks demo_5))), demo_6)"
  by (rule repeated_accept_is_noop [OF demo_validate [THEN returned, folded demo_6_def]])

end
