(* ===== verification/Inbox.thy ===== *)
theory Inbox
  imports Lifecycle
begin

text \<open>
  The durable inputs of a thread (\<open>github_store.py\<close>): the classification of every routed event,
  the revision inbox, the dispositions and the two-stage claims of inputs, the feedback reviews
  and the outbox of workflow comments.
\<close>

section \<open>Messages and identities (workflow_messages.py)\<close>

definition UNSOLICITED_ACK_MESSAGE :: string where
  "UNSOLICITED_ACK_MESSAGE =
     ''Got it. I've saved this suggestion. SWEForge is currently working on the '' @
     ''active workflow, so I won't interrupt the work already in progress. I'll '' @
     ''review this suggestion at the next safe revision boundary and incorporate '' @
     ''it if applicable.''"

definition PLAN_DEFERRED_FEEDBACK_MESSAGE :: string where
  "PLAN_DEFERRED_FEEDBACK_MESSAGE =
     ''This suggestion is separate from the current plan, so the active plan has '' @
     ''not been changed.\<newline>\<newline>'' @
     ''Please reply with `@agent approve` to proceed with the current plan, or send '' @
     ''feedback specifically related to this plan.\<newline>\<newline>'' @
     ''I've saved the separate suggestion and will review it in the follow-up '' @
     ''revision loop after the current workflow completes.''"

definition RESULT_DEFERRED_FEEDBACK_MESSAGE :: string where
  "RESULT_DEFERRED_FEEDBACK_MESSAGE =
     ''This suggestion is separate from the current validated result, so the '' @
     ''current result has not been changed.\<newline>\<newline>'' @
     ''Please reply with `@agent approve` to accept the current result, or send '' @
     ''feedback specifically related to this implementation.\<newline>\<newline>'' @
     ''I've saved the separate suggestion and will review it in the follow-up '' @
     ''revision loop after the current workflow completes.''"

definition revision_ack_marker :: "string \<Rightarrow> string" where
  "revision_ack_marker k = ''<!-- sweforge:revision-input-ack:'' @ k @ '' -->''"

definition deferred_feedback_marker :: "string \<Rightarrow> string" where
  "deferred_feedback_marker k = ''<!-- sweforge:feedback-deferred:'' @ k @ '' -->''"

definition outbox_id_for :: "digest \<Rightarrow> string \<Rightarrow> string \<Rightarrow> string" where
  "outbox_id_for sha event_key message_kind = stable sha ''workflow-message'' [event_key, message_kind]"

definition revision_input_id_for :: "digest \<Rightarrow> string \<Rightarrow> string" where
  "revision_input_id_for sha event_key = stable sha ''revision-input'' [event_key]"

section \<open>Dispositions and the outbox\<close>

definition newline :: string where "newline = [CHR 0x0A]"

definition enqueue_workflow_comment ::
  "digest \<Rightarrow> string \<Rightarrow> string \<Rightarrow> string \<Rightarrow> string \<Rightarrow> string \<Rightarrow> string \<Rightarrow> db \<Rightarrow> err + db" where
  "enqueue_workflow_comment sha event_key thread_id message_kind marker body now d =
     insert_outbox \<lparr>ob_id = outbox_id_for sha event_key message_kind, ob_event = event_key,
       ob_thread = thread_id, ob_kind = message_kind, ob_marker = marker, ob_body = body,
       ob_status = O_PENDING, ob_comment = None, ob_error = None, ob_created_at = now,
       ob_next_attempt_at = now, ob_delivered_at = None\<rparr> d"

definition latest_cycle_id :: "db \<Rightarrow> string \<Rightarrow> nat" where
  "latest_cycle_id d thread_id = max0 (map cy_cycle_id (filter (\<lambda>c. cy_thread c = thread_id) (cycles d)))"

definition record_disposition :: "string \<Rightarrow> string \<Rightarrow> nat \<Rightarrow> string \<Rightarrow> string \<Rightarrow> db \<Rightarrow> err + db" where
  "record_disposition event_key thread_id cycle_id status recorded_at d =
     insert_consumption \<lparr>co_event = event_key, co_thread = thread_id, co_cycle_id = cycle_id,
       co_status = status, co_claimed_at = recorded_at, co_consumed_at = Some recorded_at,
       co_occurrence = None\<rparr> d"

definition cycle_root_event :: "db \<Rightarrow> string \<Rightarrow> source_event option" where
  "cycle_root_event d root_input_id =
    (case event_of d root_input_id of
       Some e \<Rightarrow> Some e
     | None \<Rightarrow>
         (case lookup df_id root_input_id (deferred d) of
            Some f \<Rightarrow> event_of d (df_event f)
          | None \<Rightarrow>
              (case revision_input_of d root_input_id of
                 Some r \<Rightarrow> event_of d (ri_event r)
               | None \<Rightarrow> None)))"

section \<open>Classification\<close>

text \<open>The latest ACTIVE cycle of a thread and the task it names.\<close>

definition open_cycle :: "db \<Rightarrow> string \<Rightarrow> cycle_row option" where
  "open_cycle d thread_id =
     latest_by cy_cycle_id (filter (\<lambda>c. cy_thread c = thread_id \<and> cy_status c = C_ACTIVE) (cycles d))"

text \<open>When the occurrence a waiting task shows became visible.\<close>

definition latest_posted_result :: "db \<Rightarrow> string \<Rightarrow> result_row option" where
  "latest_posted_result d task_run_id = latest_by (validation_round_of d)
     (filter (\<lambda>r. re_task_run r = task_run_id \<and> has va_id (re_validation r) (validations d)) (results d))"

definition interaction_threshold :: "db \<Rightarrow> task_row \<Rightarrow> string" where
  "interaction_threshold d t =
    (if tr_phase t = WAITING_FOR_PLAN_APPROVAL
     then (case current_plan d t of None \<Rightarrow> tr_updated_at t | Some p \<Rightarrow> pl_posted_at p)
     else if tr_phase t = WAITING_FOR_RESULT_APPROVAL
     then (case latest_posted_result d (tr_id t) of None \<Rightarrow> tr_updated_at t | Some r \<Rightarrow> re_posted_at r)
     else tr_updated_at t)"

definition waiting_phase :: "task_phase \<Rightarrow> bool" where
  "waiting_phase p = (p \<in> {WAITING_FOR_PLAN_APPROVAL, WAITING_FOR_RESULT_APPROVAL, WAITING_FOR_INPUT})"

definition matches_open_interaction :: "db \<Rightarrow> source_event \<Rightarrow> string \<Rightarrow> bool" where
  "matches_open_interaction d event thread_id =
    (starts_with_agent_invocation (ev_body event) \<and>
     (case open_cycle d thread_id of
        None \<Rightarrow> False
      | Some c \<Rightarrow>
          (case cy_active c of
             None \<Rightarrow> False
           | Some k \<Rightarrow> k \<noteq> [] \<and>
               (case task_in_cycle d (cy_id c) k of
                  None \<Rightarrow> False
                | Some t \<Rightarrow> waiting_phase (tr_phase t) \<and>
                    (case cycle_root_event d (cy_root_input c) of
                       None \<Rightarrow> False
                     | Some root \<Rightarrow> same_generic_target event root \<and>
                         after_posted_at event (interaction_threshold d t))))))"

datatype disposition =
    INITIAL_ROOT | IGNORED | PENDING_INITIAL_SELECTION | LEGACY_WORKFLOW_INPUT
  | EXPECTED_RESPONSE | STALE_APPROVAL | REVISION_QUEUED

definition has_declarative :: "db \<Rightarrow> string \<Rightarrow> bool" where
  "has_declarative d thread_id = list_ex (\<lambda>c. cy_thread c = thread_id) (cycles d)"

definition new_revision_input :: "digest \<Rightarrow> string \<Rightarrow> string \<Rightarrow> string \<Rightarrow> string \<Rightarrow> revision_input_row" where
  "new_revision_input sha event_key thread_id reason queued_at =
     \<lparr>ri_id = revision_input_id_for sha event_key, ri_event = event_key, ri_thread = thread_id,
      ri_residual = None, ri_reason = reason, ri_status = I_PENDING, ri_queued_at = queued_at,
      ri_cycle = None\<rparr>"

definition queue_revision_input :: "digest \<Rightarrow> string \<Rightarrow> string \<Rightarrow> string \<Rightarrow> db \<Rightarrow> err + disposition \<times> db" where
  "queue_revision_input sha event_key thread_id queued_at d =
    (let rid = revision_input_id_for sha event_key; marker = revision_ack_marker rid in
     bindE (insert_revision_input (new_revision_input sha event_key thread_id ''UNSOLICITED_STEERING'' queued_at) d)
     (\<lambda>d1. bindE (record_disposition event_key thread_id (latest_cycle_id d1 thread_id) ''REVISION_QUEUED'' queued_at d1)
     (\<lambda>d2. bindE (enqueue_workflow_comment sha event_key thread_id ''REVISION_INPUT_ACK'' marker
                (marker @ newline @ UNSOLICITED_ACK_MESSAGE) queued_at d2)
     (\<lambda>d3. Inr (REVISION_QUEUED, d3)))))"

definition classify_revision_input :: "digest \<Rightarrow> string \<Rightarrow> string \<Rightarrow> string \<Rightarrow> db \<Rightarrow> err + disposition \<times> db" where
  "classify_revision_input sha event_key thread_id queued_at d =
    (case (event_of d event_key, lifecycle_of d thread_id) of
       (Some event, Some lc) \<Rightarrow>
         if event_key = li_root_event lc then Inr (INITIAL_ROOT, d)
         else if \<not> is_actionable_source_event (ev_kind event) (ev_body event) then Inr (IGNORED, d)
         else if li_state lc = NOT_STARTED \<and> \<not> has_declarative d thread_id \<and> thread_id \<notin> set (legacy_states d)
         then Inr (PENDING_INITIAL_SELECTION, d)
         else if \<not> has_declarative d thread_id \<and> thread_id \<in> set (legacy_states d)
         then Inr (LEGACY_WORKFLOW_INPUT, d)
         else if matches_open_interaction d event thread_id then Inr (EXPECTED_RESPONSE, d)
         else if is_exact_agent_approval (ev_body event)
         then bindE (record_disposition event_key thread_id (latest_cycle_id d thread_id) ''STALE_APPROVAL'' queued_at d)
           (\<lambda>d1. Inr (STALE_APPROVAL, d1))
         else queue_revision_input sha event_key thread_id queued_at d
     | _ \<Rightarrow> Inl (RuntimeError ''routed SourceEvent lifecycle is missing''))"

definition source_events_for_thread :: "db \<Rightarrow> string \<Rightarrow> source_event list" where
  "source_events_for_thread d thread_id =
     order_by (\<lambda>e. (ev_updated_at e, ev_discovered_at e, ev_key e))
       (filter (\<lambda>e. ev_thread e = Some thread_id) (events d))"

fun route_rows :: "digest \<Rightarrow> string \<Rightarrow> string \<Rightarrow> source_event list \<Rightarrow> db \<Rightarrow> err + string list \<times> db" where
  "route_rows sha thread_id now [] d = Inr ([], d)"
| "route_rows sha thread_id now (e # es) d =
     bindE (classify_revision_input sha (ev_key e) thread_id
              (if ev_discovered_at e = [] then now else ev_discovered_at e) d)
       (\<lambda>(disp, d1). bindE (route_rows sha thread_id now es d1)
         (\<lambda>(ks, d2). Inr (if disp = REVISION_QUEUED then ev_key e # ks else ks, d2)))"

definition route_unmatched_inputs :: "digest \<Rightarrow> string \<Rightarrow> string \<Rightarrow> (db, string list) op" where
  "route_unmatched_inputs sha now thread_id d =
     commit d (route_rows sha thread_id now
       (filter (\<lambda>e. consumption_of d (ev_key e) = None) (source_events_for_thread d thread_id)) d)"

section \<open>Dispositions and claims\<close>

definition record_input_disposition :: "string \<Rightarrow> string \<Rightarrow> nat \<Rightarrow> string \<Rightarrow> string \<Rightarrow> (db, consumption_row option) op" where
  "record_input_disposition event_key thread_id cycle_id status recorded_at d =
     and_then (commit d (bindE (record_disposition event_key thread_id cycle_id status recorded_at d)
         (\<lambda>d1. Inr ((), d1))))
       (\<lambda>_ d1. return (consumption_of d1 event_key) d1)"

text \<open>
  The bound row is read back after the commit; a row bound to another occurrence makes the call
  raise with the insert (a no-op in that case) committed.
\<close>

definition claim_input_for_resume ::
  "string \<Rightarrow> string \<Rightarrow> nat \<Rightarrow> string \<Rightarrow> string \<Rightarrow> string \<Rightarrow> (db, consumption_row) op" where
  "claim_input_for_resume event_key thread_id cycle_id status occurrence claimed_at d =
     and_then (commit d (bindE (insert_consumption
         \<lparr>co_event = event_key, co_thread = thread_id, co_cycle_id = cycle_id, co_status = status,
          co_claimed_at = claimed_at, co_consumed_at = None, co_occurrence = Some occurrence\<rparr> d)
         (\<lambda>d1. Inr ((), d1))))
       (\<lambda>_ d1. case consumption_of d1 event_key of
          None \<Rightarrow> raise (RuntimeError ''assertion'') d1
        | Some r \<Rightarrow>
            if co_occurrence r \<noteq> Some occurrence \<or> co_status r \<noteq> status
            then raise (ValueError ''human input is already bound to another occurrence'') d1
            else return r d1)"

definition finish_input_resume :: "string \<Rightarrow> string \<Rightarrow> string option \<Rightarrow> (db, consumption_row option) op" where
  "finish_input_resume event_key applied_at status d =
    (let d1 = d\<lparr>consumptions := update_where (\<lambda>r. co_event r = event_key \<and> co_consumed_at r = None)
           (\<lambda>r. r\<lparr>co_consumed_at := Some applied_at,
                  co_status := (case status of None \<Rightarrow> co_status r | Some s \<Rightarrow> s)\<rparr>) (consumptions d)\<rparr>
     in return (consumption_of d1 event_key) d1)"

definition pending_resume_claim :: "db \<Rightarrow> string \<Rightarrow> consumption_row option" where
  "pending_resume_claim d thread_id =
    (case order_by (\<lambda>r. (co_claimed_at r, co_event r))
            (filter (\<lambda>r. co_thread r = thread_id \<and> co_consumed_at r = None \<and> co_occurrence r \<noteq> None)
               (consumptions d)) of
       [] \<Rightarrow> None | r # rs \<Rightarrow> Some r)"

text \<open>Deferred follow-ups.\<close>

definition insert_deferred :: "deferred_row \<Rightarrow> db \<Rightarrow> err + db" where
  "insert_deferred r d =
    (if has df_id (df_id r) (deferred d) then Inr d
     else if \<not> has ev_key (df_event r) (events d) \<or> \<not> has th_id (df_thread r) (threads d)
     then Inl (IntegrityError ''deferred_followups'')
     else Inr (d\<lparr>deferred := deferred d @ [r]\<rparr>))"

definition deferred_followup :: "db \<Rightarrow> string \<Rightarrow> string option \<Rightarrow> deferred_row option" where
  "deferred_followup d event_key deferred_id =
    (case deferred_id of
       None \<Rightarrow>
         (case order_by (\<lambda>r. (df_queued_at r, df_id r)) (filter (\<lambda>r. df_event r = event_key) (deferred d)) of
            [] \<Rightarrow> None | r # rs \<Rightarrow> Some r)
     | Some k \<Rightarrow> find (\<lambda>r. df_id r = k \<and> df_event r = event_key) (deferred d))"

definition text_or_empty :: "string option \<Rightarrow> string" where
  "text_or_empty s = (case s of None \<Rightarrow> [] | Some x \<Rightarrow> x)"

definition deferred_id_for :: "digest \<Rightarrow> string \<Rightarrow> string option \<Rightarrow> string" where
  "deferred_id_for sha event_key residual = stable sha ''deferred'' [event_key, text_or_empty residual]"

definition defer_followup ::
  "digest \<Rightarrow> string \<Rightarrow> string \<Rightarrow> nat \<Rightarrow> string \<Rightarrow> string option \<Rightarrow> string option \<Rightarrow> (db, deferred_row option) op" where
  "defer_followup sha event_key thread_id cycle_id queued_at residual disposition_status d =
    (let did = deferred_id_for sha event_key residual in
     and_then (commit d
       (bindE (insert_deferred \<lparr>df_id = did, df_event = event_key, df_thread = thread_id, df_queued = True,
            df_residual = residual, df_queued_at = queued_at, df_consumed_cycle = None\<rparr> d)
       (\<lambda>d1. bindE (insert_revision_input \<lparr>ri_id = revision_input_id_for sha did, ri_event = event_key,
            ri_thread = thread_id, ri_residual = residual, ri_reason = ''CLARIFICATION_RESIDUAL'',
            ri_status = I_PENDING, ri_queued_at = queued_at, ri_cycle = None\<rparr> d1)
       (\<lambda>d2. case disposition_status of
          None \<Rightarrow> Inr ((), d2)
        | Some s \<Rightarrow> bindE (record_disposition event_key thread_id cycle_id s queued_at d2) (\<lambda>d3. Inr ((), d3))))))
       (\<lambda>_ d1. return (deferred_followup d1 event_key (Some did)) d1))"

definition deferred_followups :: "db \<Rightarrow> string \<Rightarrow> (deferred_row \<times> source_event) list" where
  "deferred_followups d thread_id =
     order_by (\<lambda>(r, e). (ev_updated_at e, ev_discovered_at e, ev_key e))
       (concat (map (\<lambda>r. case event_of d (df_event r) of None \<Rightarrow> [] | Some e \<Rightarrow> [(r, e)])
         (filter (\<lambda>r. df_thread r = thread_id \<and> df_queued r) (deferred d))))"

text \<open>\<open>after_event_key\<close>: only the events behind that one, when it is an event of the thread.\<close>

definition unconsumed_inputs :: "db \<Rightarrow> string \<Rightarrow> string option \<Rightarrow> source_event list" where
  "unconsumed_inputs d thread_id after_key =
    (let rows = source_events_for_thread d thread_id;
         rest = (case after_key of
           None \<Rightarrow> rows
         | Some k \<Rightarrow> if k \<in> set (map ev_key rows)
                     then drop 1 (dropWhile (\<lambda>e. ev_key e \<noteq> k) rows) else rows)
     in filter (\<lambda>e. consumption_of d (ev_key e) = None \<and> deferred_followup d (ev_key e) None = None) rest)"

section \<open>The revision inbox\<close>

definition pending_revision_inputs :: "db \<Rightarrow> string \<Rightarrow> (revision_input_row \<times> source_event) list" where
  "pending_revision_inputs d thread_id =
     order_by (\<lambda>(r, e). (ev_updated_at e, ri_queued_at r, ri_id r))
       (concat (map (\<lambda>r. case event_of d (ri_event r) of None \<Rightarrow> [] | Some e \<Rightarrow> [(r, e)])
         (filter (\<lambda>r. ri_thread r = thread_id \<and> ri_status r = I_PENDING) (revision_inputs d))))"

definition revision_inputs_for_cycle :: "db \<Rightarrow> string \<Rightarrow> bool \<Rightarrow> (revision_input_row \<times> source_event) list" where
  "revision_inputs_for_cycle d workflow_cycle_id include_consumed =
     order_by (\<lambda>(r, e). (ev_updated_at e, ri_queued_at r, ri_id r))
       (concat (map (\<lambda>r. case event_of d (ri_event r) of None \<Rightarrow> [] | Some e \<Rightarrow> [(r, e)])
         (filter (\<lambda>r. ri_cycle r = Some workflow_cycle_id \<and> (include_consumed \<or> ri_status r = BATCHED))
            (revision_inputs d))))"

text \<open>The rows a batch takes: all pending ones of the thread, or the pending ones among the ids.\<close>

definition batch_selects :: "string \<Rightarrow> string list option \<Rightarrow> revision_input_row \<Rightarrow> bool" where
  "batch_selects thread_id ids r = (ri_thread r = thread_id \<and> ri_status r = I_PENDING \<and>
     (case ids of None \<Rightarrow> True | Some ks \<Rightarrow> ri_id r \<in> set ks))"

definition batch_revision_inputs ::
  "string \<Rightarrow> string \<Rightarrow> string list option \<Rightarrow> (db, (revision_input_row \<times> source_event) list) op" where
  "batch_revision_inputs thread_id workflow_cycle_id ids d =
     and_then (commit d
       (case find (\<lambda>c. cy_id c = workflow_cycle_id \<and> cy_thread c = thread_id \<and> cy_kind c = REVISION
                       \<and> cy_status c = C_ACTIVE) (cycles d) of
          None \<Rightarrow> Inl (ValueError ''revision input batch target is not active'')
        | Some c \<Rightarrow>
            if (case ids of None \<Rightarrow> False | Some ks \<Rightarrow> ks \<noteq> [] \<and>
                  rowcount (batch_selects thread_id ids) (revision_inputs d) \<noteq> length (remdups ks))
            then Inl (ValueError ''selected revision input batch changed'')
            else
              let rs = update_where (batch_selects thread_id ids)
                    (\<lambda>r. r\<lparr>ri_status := BATCHED, ri_cycle := Some workflow_cycle_id\<rparr>) (revision_inputs d)
              in Inr ((), d\<lparr>revision_inputs := rs,
                   deferred := update_where
                     (\<lambda>f. df_thread f = thread_id \<and> df_queued f \<and>
                        list_ex (\<lambda>r. ri_cycle r = Some workflow_cycle_id \<and> ri_event r = df_event f \<and>
                          text_or_empty (ri_residual r) = text_or_empty (df_residual f)) rs)
                     (\<lambda>f. f\<lparr>df_queued := False, df_consumed_cycle := Some (cy_cycle_id c)\<rparr>) (deferred d)\<rparr>)))
       (\<lambda>_ d1. return (revision_inputs_for_cycle d1 workflow_cycle_id True) d1)"

definition consume_revision_inputs :: "string \<Rightarrow> string \<Rightarrow> (db, nat) op" where
  "consume_revision_inputs thread_id workflow_cycle_id d =
    (let p = (\<lambda>r. ri_thread r = thread_id \<and> ri_cycle r = Some workflow_cycle_id \<and> ri_status r = BATCHED) in
     return (rowcount p (revision_inputs d))
       (d\<lparr>revision_inputs := update_where p (\<lambda>r. r\<lparr>ri_status := CONSUMED\<rparr>) (revision_inputs d)\<rparr>))"

end
