(* ===== verification/Feedback.thy ===== *)
theory Feedback
  imports Inbox
begin

text \<open>
  Feedback on a visible plan or result: the durable review of one event, its two outcomes
  (replan the task, or defer the event to the revision inbox), and the outbox the workflow
  comments are delivered from.
\<close>

section \<open>Reviews\<close>

definition parse_feedback_kind :: "string \<Rightarrow> feedback_kind option" where
  "parse_feedback_kind s =
    (if s = ''PLAN'' then Some PLAN_FEEDBACK else if s = ''RESULT'' then Some RESULT_FEEDBACK else None)"

fun feedback_kind_value :: "feedback_kind \<Rightarrow> string" where
  "feedback_kind_value PLAN_FEEDBACK = ''PLAN''"
| "feedback_kind_value RESULT_FEEDBACK = ''RESULT''"

fun feedback_phase :: "feedback_kind \<Rightarrow> task_phase" where
  "feedback_phase PLAN_FEEDBACK = WAITING_FOR_PLAN_APPROVAL"
| "feedback_phase RESULT_FEEDBACK = WAITING_FOR_RESULT_APPROVAL"

definition feedback_review_id_for :: "digest \<Rightarrow> string \<Rightarrow> feedback_kind \<Rightarrow> string \<Rightarrow> string" where
  "feedback_review_id_for sha event_key kind occurrence =
     stable sha ''feedback-review'' [event_key, feedback_kind_value kind, occurrence]"

text \<open>The occurrence a waiting task currently shows, as the review reads it.\<close>

definition visible_occurrence :: "db \<Rightarrow> task_row \<Rightarrow> feedback_kind \<Rightarrow> string option" where
  "visible_occurrence d t kind =
    (case kind of
       PLAN_FEEDBACK \<Rightarrow> map_option pl_occurrence (current_plan d t)
     | RESULT_FEEDBACK \<Rightarrow> map_option re_occurrence
         (latest_by re_created_at (filter (\<lambda>r. re_task_run r = tr_id t) (results d))))"

definition new_review ::
  "digest \<Rightarrow> string \<Rightarrow> task_row \<Rightarrow> string \<Rightarrow> feedback_kind \<Rightarrow> string \<Rightarrow> string \<Rightarrow> feedback_review_row" where
  "new_review sha now t event_key kind occurrence feedback =
     \<lparr>fr_id = feedback_review_id_for sha event_key kind occurrence, fr_event = event_key,
      fr_thread = tr_thread t, fr_cycle = tr_cycle t, fr_task_run = tr_id t, fr_kind = kind,
      fr_occurrence = occurrence, fr_text = take 4000 (strip feedback), fr_status = REVIEWING,
      fr_created_at = now\<rparr>"

definition open_review ::
  "digest \<Rightarrow> string \<Rightarrow> string \<Rightarrow> string \<Rightarrow> feedback_kind \<Rightarrow> string \<Rightarrow> string \<Rightarrow> db \<Rightarrow> err + unit \<times> db" where
  "open_review sha now event_key task_run_id kind occurrence feedback d =
    (case task_of d task_run_id of
       None \<Rightarrow> Inl (ValueError ''feedback occurrence is no longer active'')
     | Some t \<Rightarrow>
         (case find (\<lambda>e. ev_key e = event_key \<and> ev_thread e = Some (tr_thread t)) (events d) of
            None \<Rightarrow> Inl (ValueError ''feedback occurrence is no longer active'')
          | Some event \<Rightarrow>
              if tr_phase t \<noteq> feedback_phase kind
              then Inl (ValueError ''feedback occurrence is no longer active'')
              else
                (case (case cycle_of d (tr_cycle t) of None \<Rightarrow> None
                       | Some c \<Rightarrow> cycle_root_event d (cy_root_input c)) of
                   None \<Rightarrow> Inl (ValueError ''feedback does not target the active interaction'')
                 | Some root \<Rightarrow>
                     if \<not> same_generic_target event root
                     then Inl (ValueError ''feedback does not target the active interaction'')
                     else if visible_occurrence d t kind \<noteq> Some occurrence
                     then Inl (ValueError ''feedback approval occurrence is stale'')
                     else if consumption_of d event_key \<noteq> None
                     then Inl (ValueError ''feedback event was already consumed'')
                     else bindE (insert_review (new_review sha now t event_key kind occurrence feedback) d)
                       (\<lambda>d1. bindE (record_disposition event_key (tr_thread t) (tr_cycle_id t)
                                (feedback_kind_value kind @ ''_FEEDBACK_REVIEW'') now d1)
                         (\<lambda>d2. Inr ((), d2))))))"

definition begin_feedback_review ::
  "digest \<Rightarrow> string \<Rightarrow> string \<Rightarrow> string \<Rightarrow> string \<Rightarrow> string \<Rightarrow> string \<Rightarrow> (db, feedback_review_row option) op" where
  "begin_feedback_review sha now event_key task_run_id kind_name occurrence feedback d =
    (case parse_feedback_kind kind_name of
       None \<Rightarrow> raise (ValueError ''feedback review kind is invalid'') d
     | Some kind \<Rightarrow>
         let review_id = feedback_review_id_for sha event_key kind occurrence in
         case find (\<lambda>r. fr_event r = event_key) (reviews d) of
           Some r \<Rightarrow>
             if fr_id r \<noteq> review_id then raise (ValueError ''feedback event is bound to another occurrence'') d
             else return (Some r) d
         | None \<Rightarrow>
             and_then (commit d (open_review sha now event_key task_run_id kind occurrence feedback d))
               (\<lambda>_ d1. return (review_of d1 review_id) d1))"

text \<open>\<open>feedback_review_for_task\<close>: at most one review of the given status, or an error.\<close>

definition feedback_review_for_task :: "db \<Rightarrow> string \<Rightarrow> review_status \<Rightarrow> err + feedback_review_row option" where
  "feedback_review_for_task d task_run_id status =
    (let rows = filter (\<lambda>r. fr_task_run r = task_run_id \<and> fr_status r = status) (reviews d) in
     if 1 < length rows then Inl (RuntimeError ''multiple active feedback reviews are ambiguous'')
     else Inr (case rows of [] \<Rightarrow> None | r # rs \<Rightarrow> Some r))"

definition set_review_status :: "string \<Rightarrow> review_status \<Rightarrow> review_status \<Rightarrow> db \<Rightarrow> db" where
  "set_review_status review_id old new d = d\<lparr>reviews :=
     update_where (\<lambda>r. fr_id r = review_id \<and> fr_status r = old) (\<lambda>r. r\<lparr>fr_status := new\<rparr>) (reviews d)\<rparr>"

definition occurrence_still_exact :: "db \<Rightarrow> task_row \<Rightarrow> feedback_review_row \<Rightarrow> bool" where
  "occurrence_still_exact d t r =
    (case fr_kind r of
       PLAN_FEEDBACK \<Rightarrow> map_option pl_occurrence (current_plan d t) = Some (fr_occurrence r)
     | RESULT_FEEDBACK \<Rightarrow>
         list_ex (\<lambda>x. re_task_run x = tr_id t \<and> re_occurrence x = fr_occurrence r) (results d))"

fun deferred_message :: "feedback_kind \<Rightarrow> string \<times> string" where
  "deferred_message PLAN_FEEDBACK = (''PLAN_FEEDBACK_DEFERRED'', PLAN_DEFERRED_FEEDBACK_MESSAGE)"
| "deferred_message RESULT_FEEDBACK = (''RESULT_FEEDBACK_DEFERRED'', RESULT_DEFERRED_FEEDBACK_MESSAGE)"

definition defer_transaction :: "digest \<Rightarrow> string \<Rightarrow> string \<Rightarrow> db \<Rightarrow> err + feedback_review_row option \<times> db" where
  "defer_transaction sha now review_id d =
    (case review_of d review_id of
       None \<Rightarrow> Inl (ValueError ''feedback review does not exist'')
     | Some r \<Rightarrow>
         if fr_status r = DEFERRED_WAITING then Inr (Some r, d)
         else if fr_status r \<noteq> REVIEWING then Inl (ValueError ''feedback review is no longer deferable'')
         else
           (case task_of d (fr_task_run r) of
              None \<Rightarrow> Inl (ValueError ''feedback review became stale'')
            | Some t \<Rightarrow>
                if tr_phase t \<noteq> feedback_phase (fr_kind r) then Inl (ValueError ''feedback review became stale'')
                else if \<not> occurrence_still_exact d t r
                then Inl (ValueError ''feedback approval occurrence became stale'')
                else
                  let marker = deferred_feedback_marker review_id; msg = deferred_message (fr_kind r) in
                  bindE (insert_revision_input (new_revision_input sha (fr_event r) (fr_thread r)
                      (''DEFERRED_'' @ feedback_kind_value (fr_kind r) @ ''_FEEDBACK'') now) d)
                  (\<lambda>d1. bindE (enqueue_workflow_comment sha (fr_event r) (fr_thread r) (fst msg) marker
                      (marker @ newline @ snd msg) now d1)
                  (\<lambda>d2. Inr (None, set_review_status review_id REVIEWING DEFERRED_WAITING d2)))))"

definition defer_feedback_to_revision :: "digest \<Rightarrow> string \<Rightarrow> string \<Rightarrow> (db, feedback_review_row option) op" where
  "defer_feedback_to_revision sha now review_id d =
     and_then (commit d (defer_transaction sha now review_id d))
       (\<lambda>early d1. case early of Some r \<Rightarrow> return (Some r) d1 | None \<Rightarrow> return (review_of d1 review_id) d1)"

text \<open>\<open>WorkflowRuntime.resolve_current_feedback_replan\<close> and \<open>close_deferred_feedback\<close>.\<close>

definition resolve_current_feedback_replan :: "string \<Rightarrow> string \<Rightarrow> (db, task_row) op" where
  "resolve_current_feedback_replan now review_id d =
    (case review_of d review_id of
       None \<Rightarrow> raise (ValueError ''feedback review does not exist'') d
     | Some r \<Rightarrow>
         (case task d (fr_task_run r) of
            Inl e \<Rightarrow> raise e d
          | Inr t \<Rightarrow>
              if fr_status r = R_REPLAN then return t d
              else if fr_status r \<noteq> REVIEWING
              then raise (ValueError ''feedback review is no longer replannable'') d
              else and_then
                (if tr_phase t = PLANNING then return t d
                 else if fr_kind r = PLAN_FEEDBACK then replan_from_feedback now (fr_task_run r) d
                 else replan_from_result_feedback now (fr_task_run r) (fr_event r) (fr_text r) d)
                (\<lambda>_ d1. let d2 = set_review_status review_id REVIEWING R_REPLAN d1
                         in (task d2 (fr_task_run r), d2))))"

definition close_deferred_feedback :: "string \<Rightarrow> (db, unit) op" where
  "close_deferred_feedback review_id d = return () (set_review_status review_id DEFERRED_WAITING CLOSED d)"

section \<open>The outbox\<close>

definition pending_workflow_comments :: "db \<Rightarrow> string \<Rightarrow> string option \<Rightarrow> outbox_row list" where
  "pending_workflow_comments d thread_id due_at =
     order_by (\<lambda>r. (ob_created_at r, ob_id r))
       (filter (\<lambda>r. ob_thread r = thread_id \<and> ob_status r = O_PENDING \<and>
          (case due_at of None \<Rightarrow> True | Some t \<Rightarrow> ob_next_attempt_at r \<le> t)) (outbox d))"

definition parse_outbox_status :: "string \<Rightarrow> outbox_status option" where
  "parse_outbox_status s =
    (if s = ''PENDING'' then Some O_PENDING else if s = ''DELIVERED'' then Some DELIVERED
     else if s = ''AMBIGUOUS'' then Some AMBIGUOUS else None)"

definition update_workflow_comment ::
  "string \<Rightarrow> string \<Rightarrow> string \<Rightarrow> int option \<Rightarrow> string option \<Rightarrow> string option \<Rightarrow> (db, outbox_row option) op" where
  "update_workflow_comment outbox_id status now comment_id error next_attempt_at d =
    (case parse_outbox_status status of
       None \<Rightarrow> raise (ValueError ''workflow comment status is invalid'') d
     | Some st \<Rightarrow>
         let p = (\<lambda>r. ob_id r = outbox_id);
             d1 = d\<lparr>outbox := update_where p
               (\<lambda>r. r\<lparr>ob_status := st, ob_comment := comment_id, ob_error := error,
                  ob_next_attempt_at := (case next_attempt_at of None \<Rightarrow> ob_next_attempt_at r | Some t \<Rightarrow> t),
                  ob_delivered_at := (if st = DELIVERED then Some now else ob_delivered_at r)\<rparr>) (outbox d)\<rparr>
         in if rowcount p (outbox d) \<noteq> 1 then raise (ValueError ''workflow comment does not exist'') d
            else return (lookup ob_id outbox_id (outbox d1)) d1)"

end
