(* ===== verification/Policy.thy ===== *)
theory Policy
  imports Feedback
begin

text \<open>
  The tool policy of the workflow agent (\<open>workflow_middleware.py\<close>): the snapshot of the runtime
  state every decision re-reads, the tools each phase may call, the guard in front of every
  call, and the stricter policies of the delegated and the static investigator. Tools are their
  names; the request objects of the agent framework, the prompt texts and the tracing are left
  out.
\<close>

section \<open>Tool classes\<close>

definition MUTATING_TOOLS :: "string set" where
  "MUTATING_TOOLS = {''write_file'', ''edit_file'', ''execute''}"

definition RESEARCH_TOOLS :: "string set" where
  "RESEARCH_TOOLS = {''ls'', ''read_file'', ''glob'', ''grep'', ''search_issue_memory''}"

definition HARNESS_EXECUTION_TOOLS :: "string set" where
  "HARNESS_EXECUTION_TOOLS = {''write_todos''}"

definition ROOT_LIFECYCLE_SERVICES :: "string set" where
  "ROOT_LIFECYCLE_SERVICES = {''request_clarification''}"

text \<open>The operator's classification of further tools: \<open>tool_effects\<close>, a mapping.\<close>

type_synonym effects = "(string \<times> string) list"

definition with_effect :: "string \<Rightarrow> effects \<Rightarrow> string set" where
  "with_effect e es = set (map fst (filter (\<lambda>(n, x). x = e) es))"

lemma with_effect_iff: "n \<in> with_effect e es \<longleftrightarrow> (n, e) \<in> set es"
  by (force simp: with_effect_def)

section \<open>Snapshots\<close>

record snapshot =
  sn_workflow_id :: string
  sn_digest :: string
  sn_cycle :: string
  sn_cycle_id :: nat
  sn_task :: string
  sn_task_run :: string
  sn_phase :: task_phase
  sn_skill :: string
  sn_tools :: "string set"
  sn_skills :: "string list"
  sn_review :: "string option"
  sn_review_kind :: "feedback_kind option"
  sn_review_status :: "review_status option"
  sn_plan :: "string option"
  sn_attempt :: nat

definition current_review :: "db \<Rightarrow> string \<Rightarrow> err + feedback_review_row option" where
  "current_review d task_run_id =
     bindE (feedback_review_for_task d task_run_id REVIEWING) (\<lambda>r.
       if r \<noteq> None then Inr r else feedback_review_for_task d task_run_id DEFERRED_WAITING)"

fun reviewed_phase :: "feedback_kind \<Rightarrow> task_phase" where
  "reviewed_phase PLAN_FEEDBACK = PLANNING"
| "reviewed_phase RESULT_FEEDBACK = VALIDATING"

text \<open>The phase whose policy applies; \<open>tool\<close> is the gateway being replayed, if any.\<close>

definition policy_phase :: "task_row \<Rightarrow> feedback_review_row option \<Rightarrow> string option \<Rightarrow> task_phase" where
  "policy_phase t review tool =
    (if tr_phase t = WAITING_FOR_INPUT \<and> tool = Some ''request_clarification'' \<and> tr_waiting t \<noteq> None
     then the (tr_waiting t)
     else case review of
       Some r \<Rightarrow> reviewed_phase (fr_kind r)
     | None \<Rightarrow>
         if tr_phase t = WAITING_FOR_PLAN_APPROVAL \<and> tool = Some ''submit_plan'' then PLANNING
         else if tr_phase t = WAITING_FOR_RESULT_APPROVAL \<and> tool = Some ''finish_validation'' then VALIDATING
         else tr_phase t)"

definition runnable :: "task_phase \<Rightarrow> bool" where
  "runnable p = (p \<in> {PLANNING, EXECUTING, VALIDATING})"

definition new_snapshot ::
  "cycle_row \<Rightarrow> task_row \<Rightarrow> feedback_review_row option \<Rightarrow> task_phase \<Rightarrow> phase_spec \<Rightarrow> snapshot" where
  "new_snapshot c t review p ps =
     \<lparr>sn_workflow_id = cy_workflow_id c, sn_digest = cy_digest c, sn_cycle = cy_id c,
      sn_cycle_id = cy_cycle_id c, sn_task = tr_task t, sn_task_run = tr_id t, sn_phase = p,
      sn_skill = ph_skill ps, sn_tools = set (ph_tools ps), sn_skills = phase_skills ps,
      sn_review = map_option fr_id review, sn_review_kind = map_option fr_kind review,
      sn_review_status = map_option fr_status review, sn_plan = tr_plan t, sn_attempt = tr_attempt t\<rparr>"

definition snapshot_for_replay :: "db \<Rightarrow> string \<Rightarrow> workflow_spec \<Rightarrow> string option \<Rightarrow> err + snapshot" where
  "snapshot_for_replay d workflow_cycle_id spec tool =
     bindE (cycle d workflow_cycle_id) (\<lambda>c. bindE (active_task d workflow_cycle_id) (\<lambda>a.
       case a of
         None \<Rightarrow> Inl (PermissionError ''workflow has no active task'')
       | Some t \<Rightarrow>
           if cy_active c \<noteq> Some (tr_task t) then Inl (PermissionError ''workflow has no active task'')
           else bindE (current_review d (tr_id t)) (\<lambda>review.
             let p = policy_phase t review tool in
             if \<not> runnable p then Inl (PermissionError ''workflow phase is not runnable'')
             else bindE (phase_policy spec t) (\<lambda>ps. Inr (new_snapshot c t review p ps)))))"

definition replay_tool :: "string \<Rightarrow> string option" where
  "replay_tool kind = map_of
     [(''PLAN_APPROVAL'', ''submit_plan''), (''PLAN_FEEDBACK'', ''submit_plan''),
      (''RESULT_APPROVAL'', ''finish_validation''), (''RESULT_FEEDBACK'', ''finish_validation''),
      (''CLARIFICATION_RESPONSE'', ''request_clarification'')] kind"

definition resume_snapshot :: "db \<Rightarrow> string \<Rightarrow> workflow_spec \<Rightarrow> string \<Rightarrow> err + snapshot" where
  "resume_snapshot d workflow_cycle_id spec kind =
    (case replay_tool kind of
       None \<Rightarrow> Inl (PermissionError ''workflow resume kind is invalid'')
     | Some tool \<Rightarrow> snapshot_for_replay d workflow_cycle_id spec (Some tool))"

section \<open>The root policy\<close>

fun phase_gateway :: "task_phase \<Rightarrow> string" where
  "phase_gateway PLANNING = ''submit_plan''"
| "phase_gateway EXECUTING = ''finish_execution''"
| "phase_gateway VALIDATING = ''finish_validation''"
| "phase_gateway p = []"

definition allowed_tools :: "snapshot \<Rightarrow> effects \<Rightarrow> string set" where
  "allowed_tools s es =
    (if sn_review_status s = Some REVIEWING
     then (sn_tools s \<inter> (RESEARCH_TOOLS \<union> with_effect ''read'' es)) \<union>
          {''task'', ''replan_current_feedback'', ''defer_current_feedback_to_revision'',
           phase_gateway (sn_phase s)}
     else if sn_review_status s = Some DEFERRED_WAITING
     then {''defer_current_feedback_to_revision''}
     else (if sn_phase s \<in> {PLANNING, VALIDATING}
           then sn_tools s - MUTATING_TOOLS - with_effect ''mutate'' es else sn_tools s) \<union>
          (if sn_phase s = VALIDATING then {''run_validation''} else {}) \<union>
          (if sn_phase s = EXECUTING then HARNESS_EXECUTION_TOOLS else {}) \<union>
          ROOT_LIFECYCLE_SERVICES \<union> {phase_gateway (sn_phase s), ''task''})"

section \<open>Skill paths\<close>

text \<open>\<open>str\<close> of a \<open>PurePosixPath\<close> with one leading slash.\<close>

definition posix_path :: "string \<Rightarrow> string" where
  "posix_path path = ''/'' @ join ''/'' (posix_parts path)"

text \<open>
  \<open>args.get("file_path") or args.get("path")\<close>: the first value that is neither missing nor
  empty. The text of a value that is not a string never starts with a slash, so it is
  represented by the empty path, which the guard lets through in the same way.
\<close>

fun truthy :: "doc \<Rightarrow> bool" where
  "truthy (DMap kvs) = (kvs \<noteq> [])"
| "truthy (DList xs) = (xs \<noteq> [])"
| "truthy (DStr s) = (s \<noteq> [])"
| "truthy (DInt i) = (i \<noteq> 0)"
| "truthy (DBool b) = b"
| "truthy DNull = False"

definition path_argument :: "(string \<times> doc) list \<Rightarrow> string" where
  "path_argument args =
     str_of (if truthy (dget args ''file_path'') then dget args ''file_path'' else dget args ''path'')"

definition canonical_skill_path :: "string \<Rightarrow> string" where
  "canonical_skill_path name = ''/skills/'' @ name @ ''/SKILL.md''"

definition non_canonical :: "string \<Rightarrow> bool" where
  "non_canonical path =
    (CHR 0x5C \<in> set path \<or> CHR ''%'' \<in> set path \<or> CHR 0x00 \<in> set path \<or>
     list_ex (\<lambda>p. p \<in> {[], ''.'', ''..''}) (tl (split_on CHR ''/'' path)) \<or> posix_path path \<noteq> path)"

definition reject_inactive_skill_path :: "string \<Rightarrow> (string \<times> doc) list \<Rightarrow> snapshot \<Rightarrow> err + string option" where
  "reject_inactive_skill_path name args s =
    (if name \<noteq> ''read_file'' then Inr None
     else let path = path_argument args in
       if \<not> starts_with path ''/skills/'' then Inr None
       else if non_canonical path then Inl (PermissionError ''non-canonical skill path is forbidden'')
       else case posix_parts path of
         dir # skill # rest \<Rightarrow>
           if rest = [] \<or> dir \<noteq> ''skills'' then Inl (PermissionError ''non-canonical skill path is forbidden'')
           else if skill \<notin> set (if sn_skills s = [] then [sn_skill s] else sn_skills s)
           then Inl (PermissionError ''inactive task/phase skill access is forbidden'')
           else if \<not> valid_id skill then Inl (ValueError ''skill name is malformed'')
           else Inr (if path = canonical_skill_path skill then Some skill else None)
       | _ \<Rightarrow> Inl (PermissionError ''non-canonical skill path is forbidden''))"

section \<open>Guarded calls\<close>

text \<open>
  The decision of \<open>wrap_tool_call\<close>: an error, or the skill whose reading is traced. The tool
  itself runs behind it.
\<close>

definition authorize_call ::
  "db \<Rightarrow> string \<Rightarrow> workflow_spec \<Rightarrow> effects \<Rightarrow> string \<Rightarrow> (string \<times> doc) list \<Rightarrow> err + string option" where
  "authorize_call d workflow_cycle_id spec es name args =
     bindE (snapshot_for_replay d workflow_cycle_id spec (Some name)) (\<lambda>s.
       if name \<notin> allowed_tools s es then Inl (PermissionError ''tool is forbidden'')
       else bindE (if sn_phase s = EXECUTING \<and> name \<noteq> ''task''
                   then bindE (assert_execution_authorized d (sn_task_run s)) (\<lambda>q. Inr ())
                   else Inr ())
              (\<lambda>_. reject_inactive_skill_path name args s))"

text \<open>\<open>wrap_model_call\<close>: the tools the model is shown.\<close>

definition offered_tools ::
  "db \<Rightarrow> string \<Rightarrow> workflow_spec \<Rightarrow> effects \<Rightarrow> string list \<Rightarrow> err + string list" where
  "offered_tools d workflow_cycle_id spec es tools =
     bindE (snapshot_for_replay d workflow_cycle_id spec None)
       (\<lambda>s. Inr (filter (\<lambda>n. n \<in> allowed_tools s es) tools))"

section \<open>Investigators\<close>

definition research_tools :: "effects \<Rightarrow> string set" where
  "research_tools es = (RESEARCH_TOOLS \<union> with_effect ''read'' es) - HARNESS_EXECUTION_TOOLS - ROOT_LIFECYCLE_SERVICES"

definition authorize_delegated ::
  "db \<Rightarrow> string \<Rightarrow> workflow_spec \<Rightarrow> effects \<Rightarrow> string \<Rightarrow> (string \<times> doc) list \<Rightarrow> err + string option" where
  "authorize_delegated d workflow_cycle_id spec es name args =
     bindE (snapshot_for_replay d workflow_cycle_id spec None) (\<lambda>s.
       if name \<notin> sn_tools s \<inter> research_tools es then Inl (PermissionError ''delegated tool is forbidden'')
       else reject_inactive_skill_path name args s)"

definition offered_delegated ::
  "db \<Rightarrow> string \<Rightarrow> workflow_spec \<Rightarrow> effects \<Rightarrow> string list \<Rightarrow> err + string list" where
  "offered_delegated d workflow_cycle_id spec es tools =
     bindE (snapshot_for_replay d workflow_cycle_id spec None)
       (\<lambda>s. Inr (filter (\<lambda>n. n \<in> sn_tools s \<inter> research_tools es) tools))"

definition authorize_investigator :: "string \<Rightarrow> err + unit" where
  "authorize_investigator name =
    (if name \<in> RESEARCH_TOOLS then Inr () else Inl (PermissionError ''investigator tool is forbidden''))"

definition offered_investigator :: "string list \<Rightarrow> string list" where
  "offered_investigator tools = filter (\<lambda>n. n \<in> RESEARCH_TOOLS) tools"

section \<open>Skills shown to the model\<close>

text \<open>
  \<open>read_skill\<close> and \<open>parse_skill_metadata\<close> (name and description of a skill file, a YAML reader)
  are arguments; only the former's blank results and the latter's errors matter here.
\<close>

fun catalog_items ::
  "(string \<Rightarrow> string) \<Rightarrow> (string \<Rightarrow> string \<Rightarrow> (string \<times> string \<times> string) option) \<Rightarrow> string list \<Rightarrow> string list \<Rightarrow>
   err + (string \<times> string \<times> string) list" where
  "catalog_items read_skill metadata seen [] = Inr []"
| "catalog_items read_skill metadata seen (k # ks) =
    (case metadata k (read_skill k) of
       None \<Rightarrow> Inl (PermissionError ''required workflow skill metadata is invalid'')
     | Some item \<Rightarrow>
         if fst item \<in> set seen then Inl (PermissionError ''duplicate active skill metadata'')
         else bindE (catalog_items read_skill metadata (fst item # seen) ks) (\<lambda>rest. Inr (item # rest)))"

definition nl :: string where "nl = [CHR 0x0A]"

definition rendered_skills ::
  "(string \<Rightarrow> string) \<Rightarrow> (string \<Rightarrow> string \<Rightarrow> (string \<times> string \<times> string) option) \<Rightarrow> snapshot \<Rightarrow> err + string" where
  "rendered_skills read_skill metadata s =
    (case (if sn_skills s = [] then [sn_skill s] else sn_skills s) of
       [skill] \<Rightarrow>
         if blank (read_skill skill) then Inl (PermissionError ''required workflow skill is missing'')
         else Inr (''[Trusted skill: '' @ skill @ '']'' @ nl @ read_skill skill)
     | skills \<Rightarrow>
         if ''read_file'' \<notin> sn_tools s
         then Inl (PermissionError ''multi-skill discovery requires phase-authorized read_file'')
         else bindE (catalog_items read_skill metadata [] skills) (\<lambda>its. Inr (join nl
           (''Trusted skills available for this task/phase:'' #
            concat (map (\<lambda>(n, descr, path). [''- '' @ n @ '': '' @ descr, ''  Load: '' @ path]) its) @
            [''Read the SKILL.md for skills relevant to the current work '' @
             ''before using their procedural guidance. Do not load unrelated '' @
             ''skills merely because they are available.'']))))"

end
