(* ===== verification/Tool_Safety.thy ===== *)
theory Tool_Safety
  imports Policy Example_Run
begin

text \<open>
  What the tool policy guarantees: a call that can change the work tree needs a live permit,
  the tools shown to a model are the tools it may call, a delegated agent only reads, and a
  read of a skill file stays inside the active skills.
\<close>

section \<open>Snapshots\<close>

lemma review_for_task_mem:
  assumes "feedback_review_for_task d k st = Inr (Some r)"
  shows "r \<in> set (reviews d) \<and> fr_task_run r = k \<and> fr_status r = st"
proof -
  obtain rs where "filter (\<lambda>r. fr_task_run r = k \<and> fr_status r = st) (reviews d) = r # rs"
    using assms by (auto simp: feedback_review_for_task_def Let_def split: if_split_asm list.split_asm)
  then have "r \<in> set (filter (\<lambda>r. fr_task_run r = k \<and> fr_status r = st) (reviews d))" by simp
  then show ?thesis by simp
qed

lemma current_review_status:
  assumes "current_review d k = Inr (Some r)"
  shows "fr_status r \<in> {REVIEWING, DEFERRED_WAITING}"
  using assms by (auto simp: current_review_def bindE_Inr_iff dest!: review_for_task_mem split: if_split_asm)

lemma snapshot_effect:
  assumes "snapshot_for_replay d k spec tool = Inr s"
  obtains c t review ps where "cycle d k = Inr c" "active_task d k = Inr (Some t)" "cy_active c = Some (tr_task t)"
    and "current_review d (tr_id t) = Inr review" "runnable (policy_phase t review tool)"
    and "phase_policy spec t = Inr ps" "s = new_snapshot c t review (policy_phase t review tool) ps"
  using assms
  by (auto simp: snapshot_for_replay_def bindE_Inr_iff Let_def split: option.split_asm if_split_asm)

text \<open>A snapshot that is in EXECUTING outside a clarification is the snapshot of a task that executes.\<close>

lemma executing_snapshot:
  assumes "snapshot_for_replay d k spec tool = Inr s" "sn_phase s = EXECUTING" "tool \<noteq> Some ''request_clarification''"
  shows "\<exists>t. active_task d k = Inr (Some t) \<and> tr_phase t = EXECUTING \<and> sn_task_run s = tr_id t"
proof -
  obtain c t review ps where *: "active_task d k = Inr (Some t)" "s = new_snapshot c t review (policy_phase t review tool) ps"
    using assms(1) by (rule snapshot_effect)
  with assms(2,3) have "tr_phase t = EXECUTING"
    by (cases review; cases "fr_kind (the review)") (auto simp: new_snapshot_def policy_phase_def split: if_split_asm)
  with * show ?thesis by (simp add: new_snapshot_def)
qed

section \<open>Mutation needs a permit\<close>

text \<open>The tools with a fixed meaning in the lifecycle, none of which changes the work tree.\<close>

definition lifecycle_tools :: "string set" where
  "lifecycle_tools = {''submit_plan'', ''finish_execution'', ''finish_validation'', ''task'', ''run_validation'',
     ''request_clarification'', ''replan_current_feedback'', ''defer_current_feedback_to_revision'', ''write_todos''}"

text \<open>A tool that changes the work tree: built in, or classified so by the operator.\<close>

definition changes_tree :: "effects \<Rightarrow> string \<Rightarrow> bool" where
  "changes_tree es name = ((name \<in> MUTATING_TOOLS \<or> (name, ''mutate'') \<in> set es) \<and>
     (name, ''read'') \<notin> set es \<and> name \<notin> RESEARCH_TOOLS \<and> name \<notin> lifecycle_tools)"

lemma allowed_changes_executing:
  assumes "name \<in> allowed_tools s es" "changes_tree es name" "runnable (sn_phase s)"
  shows "sn_phase s = EXECUTING"
  using assms
  by (cases "sn_phase s")
    (auto simp: allowed_tools_def changes_tree_def with_effect_iff runnable_def lifecycle_tools_def
      ROOT_LIFECYCLE_SERVICES_def split: if_split_asm)

text \<open>
  C4. A call of a tool that changes the work tree is let through only while the active task
  executes under a live permit for its current approved plan; no other phase, no open
  feedback review and no workflow text can open that gate.
\<close>

theorem mutation_needs_live_permit:
  assumes "authorize_call d k spec es name args = Inr r" "changes_tree es name"
  shows "\<exists>t q. active_task d k = Inr (Some t) \<and> tr_phase t = EXECUTING \<and>
    assert_execution_authorized d (tr_id t) = Inr q"
proof -
  obtain s where s: "snapshot_for_replay d k spec (Some name) = Inr s" and a: "name \<in> allowed_tools s es"
    and x: "sn_phase s = EXECUTING \<Longrightarrow> name \<noteq> ''task'' \<Longrightarrow> \<exists>q. assert_execution_authorized d (sn_task_run s) = Inr q"
    using assms(1) by (auto simp: authorize_call_def bindE_Inr_iff split: if_split_asm)
  have "runnable (sn_phase s)" using s by (rule snapshot_effect) (simp add: new_snapshot_def)
  then have e: "sn_phase s = EXECUTING" by (rule allowed_changes_executing [OF a assms(2)])
  have n: "name \<noteq> ''task''" "Some name \<noteq> Some ''request_clarification''"
    using assms(2) by (auto simp: changes_tree_def lifecycle_tools_def)
  obtain t where "active_task d k = Inr (Some t)" "tr_phase t = EXECUTING" "sn_task_run s = tr_id t"
    using executing_snapshot [OF s e n(2)] by blast
  with x [OF e n(1)] show ?thesis by auto
qed

theorem mutation_needs_live_permit_witness:
  "\<exists>t q. active_task demo_4 the_cycle = Inr (Some t) \<and> tr_phase t = EXECUTING \<and>
    assert_execution_authorized demo_4 (tr_id t) = Inr q"
proof (rule mutation_needs_live_permit)
  show "authorize_call demo_4 the_cycle example_workflow [] ''write_file'' [] = Inr None" by code_simp
  show "changes_tree [] ''write_file''" by code_simp
qed

section \<open>Shown tools and accepted calls\<close>

text \<open>
  The contract between the filter in front of the model and the guard in front of the call:
  what is shown is not refused as forbidden, and what is hidden cannot be called.
\<close>

locale tool_policy =
  fixes offer :: "string list \<Rightarrow> err + string list"
    and call :: "string \<Rightarrow> err + 'a"
    and forbidden :: err
  assumes shown_subset: "offer tools = Inr shown \<Longrightarrow> set shown \<subseteq> set tools"
    and shown_passes: "offer tools = Inr shown \<Longrightarrow> n \<in> set shown \<Longrightarrow> call n \<noteq> Inl forbidden"
    and hidden_fails: "offer tools = Inr shown \<Longrightarrow> n \<in> set tools \<Longrightarrow> n \<notin> set shown \<Longrightarrow> isl (call n)"
begin

lemma accepted_was_shown:
  "offer tools = Inr shown \<Longrightarrow> n \<in> set tools \<Longrightarrow> call n = Inr x \<Longrightarrow> n \<in> set shown"
  using hidden_fails by force

lemma shown_exactly:
  assumes "offer tools = Inr shown" "\<And>n. n \<in> set tools \<Longrightarrow> isl (call n) \<Longrightarrow> call n = Inl forbidden"
  shows "set shown = {n \<in> set tools. \<not> isl (call n)}"
  using assms shown_subset shown_passes hidden_fails by blast

end

lemma reject_not_forbidden:
  "reject_inactive_skill_path name args s \<noteq> Inl (PermissionError ''tool is forbidden'')"
  "reject_inactive_skill_path name args s \<noteq> Inl (PermissionError ''delegated tool is forbidden'')"
  by (auto simp: reject_inactive_skill_path_def Let_def split: list.split)

lemma execution_guard_not_forbidden:
  "assert_execution_authorized d k \<noteq> Inl (PermissionError ''tool is forbidden'')"
  by (auto simp: assert_execution_authorized_def bindE_Inl_iff task_def cycle_def plan_def interaction_mode_def
      split: option.split_asm if_split_asm)

text \<open>Replaying a gateway or answering a question only moves the phase of a task that waits.\<close>

lemma policy_phase_same:
  assumes "runnable (policy_phase t None None)"
  shows "policy_phase t None tool = policy_phase t None None"
  using assms by (cases "tr_phase t") (simp_all add: policy_phase_def runnable_def)

lemma policy_phase_reviewed:
  "n \<noteq> ''request_clarification'' \<Longrightarrow> policy_phase t (Some r) (Some n) = policy_phase t (Some r) None"
  by (simp add: policy_phase_def)

lemma clarification_in_review:
  assumes "fr_status r \<in> {REVIEWING, DEFERRED_WAITING}"
  shows "''request_clarification'' \<in> allowed_tools (new_snapshot c t (Some r) p ps) es \<longleftrightarrow>
    ''request_clarification'' \<in> allowed_tools (new_snapshot c t (Some r) q ps) es"
proof -
  have "phase_gateway x \<noteq> ''request_clarification''" for x by (cases x) simp_all
  then show ?thesis using assms not_sym by (fastforce simp: allowed_tools_def new_snapshot_def)
qed

lemma no_permission_error:
  shows "cycle d k \<noteq> Inl (PermissionError m)"
    and "active_task d k \<noteq> Inl (PermissionError m)"
    and "feedback_review_for_task d k' st \<noteq> Inl (PermissionError m)"
    and "current_review d k' \<noteq> Inl (PermissionError m)"
    and "phase_policy spec t \<noteq> Inl (PermissionError m)"
proof -
  show c: "cycle d k \<noteq> Inl (PermissionError m)" by (simp add: cycle_def split: option.split)
  show "active_task d k \<noteq> Inl (PermissionError m)"
    by (simp add: active_task_def bindE_Inl_iff c split: option.split)
  show r: "feedback_review_for_task d k' st \<noteq> Inl (PermissionError m)" for st
    by (simp add: feedback_review_for_task_def Let_def)
  show "current_review d k' \<noteq> Inl (PermissionError m)"
    by (simp add: current_review_def bindE_Inl_iff r)
  show "phase_policy spec t \<noteq> Inl (PermissionError m)"
    by (simp add: phase_policy_def split: option.split task_phase.split)
qed

lemma snapshot_not_forbidden: "snapshot_for_replay d k spec tool \<noteq> Inl (PermissionError ''tool is forbidden'')"
  by (simp add: snapshot_for_replay_def bindE_Inl_iff no_permission_error Let_def split: option.split)

lemma snapshot_same_tools:
  assumes "snapshot_for_replay d k spec None = Inr s" "snapshot_for_replay d k spec (Some n) = Inr s'"
  shows "n \<in> allowed_tools s' es \<longleftrightarrow> n \<in> allowed_tools s es"
proof -
  obtain c t review ps where 1: "cycle d k = Inr c" "active_task d k = Inr (Some t)"
    "current_review d (tr_id t) = Inr review" "phase_policy spec t = Inr ps"
    and s: "runnable (policy_phase t review None)" "s = new_snapshot c t review (policy_phase t review None) ps"
    using assms(1) by (rule snapshot_effect)
  obtain p' where s': "s' = new_snapshot c t review (policy_phase t review (Some n)) ps"
    using assms(2) by (rule snapshot_effect) (use 1 in auto)
  show ?thesis
  proof (cases review)
    case None
    with s s' policy_phase_same show ?thesis by metis
  next
    case (Some r)
    with 1(3) current_review_status have r: "fr_status r \<in> {REVIEWING, DEFERRED_WAITING}" by blast
    show ?thesis
    proof (cases "n = ''request_clarification''")
      case True
      show ?thesis unfolding s(2) s' Some True by (rule clarification_in_review [OF r])
    next
      case False
      show ?thesis unfolding s(2) s' Some policy_phase_reviewed [OF False] ..
    qed
  qed
qed

interpretation root: tool_policy "offered_tools d k spec es" "\<lambda>n. authorize_call d k spec es n (args n)"
  "PermissionError ''tool is forbidden''" for d k spec es args
proof
  fix tools shown
  assume "offered_tools d k spec es tools = Inr shown"
  then obtain s where s: "snapshot_for_replay d k spec None = Inr s"
    and shown: "shown = filter (\<lambda>n. n \<in> allowed_tools s es) tools"
    by (auto simp: offered_tools_def bindE_Inr_iff)
  show "set shown \<subseteq> set tools" by (simp add: shown)
  fix n
  have sn: "(\<exists>s'. snapshot_for_replay d k spec (Some n) = Inr s' \<and> (n \<in> allowed_tools s' es \<longleftrightarrow> n \<in> allowed_tools s es)) \<or>
      isl (snapshot_for_replay d k spec (Some n))"
    using snapshot_same_tools [OF s] by (cases "snapshot_for_replay d k spec (Some n)") auto
  show "authorize_call d k spec es n (args n) \<noteq> Inl (PermissionError ''tool is forbidden'')" if "n \<in> set shown"
  proof
    assume "authorize_call d k spec es n (args n) = Inl (PermissionError ''tool is forbidden'')"
    with that sn show False
      by (auto simp: shown authorize_call_def bindE_Inl_iff reject_not_forbidden execution_guard_not_forbidden
          snapshot_not_forbidden split: if_split_asm)
  qed
  show "isl (authorize_call d k spec es n (args n))" if "n \<in> set tools" "n \<notin> set shown"
    using that sn by (auto simp: shown authorize_call_def isl_def)
qed

interpretation delegated: tool_policy "offered_delegated d k spec es" "\<lambda>n. authorize_delegated d k spec es n (args n)"
  "PermissionError ''delegated tool is forbidden''" for d k spec es args
  by unfold_locales
    (auto simp: offered_delegated_def authorize_delegated_def bindE_Inr_iff reject_not_forbidden)

interpretation investigator: tool_policy "\<lambda>ts. Inr (offered_investigator ts)" authorize_investigator
  "PermissionError ''investigator tool is forbidden''"
  by unfold_locales (auto simp: offered_investigator_def authorize_investigator_def)

text \<open>
  The model is shown exactly what it may call: a tool that was shown is never refused as
  forbidden, and a call of a tool that was hidden is an error.
\<close>

theorem shown_tools_are_callable:
  assumes "offered_tools d k spec es tools = Inr shown" "n \<in> set tools"
  shows "(if n \<in> set shown then authorize_call d k spec es n args \<noteq> Inl (PermissionError ''tool is forbidden'')
     else isl (authorize_call d k spec es n args))"
  using root.shown_passes [OF assms(1), where args = "\<lambda>_. args"]
    root.hidden_fails [OF assms, where args = "\<lambda>_. args"] by simp

theorem shown_tools_are_callable_witness:
  "isl (authorize_call demo_2 the_cycle example_workflow [] ''write_file'' [])"
proof -
  have "offered_tools demo_2 the_cycle example_workflow [] [''write_file'', ''submit_plan''] = Inr [''submit_plan'']"
    by code_simp
  from shown_tools_are_callable [OF this, of "''write_file''" "[]"] show ?thesis by simp
qed

section \<open>Delegated agents\<close>

text \<open>
  A delegated investigator can only call a read-only tool that the workflow lists for the
  current phase, and never one that the root agent could not call in the same state.
\<close>

theorem delegated_only_reads:
  assumes "authorize_delegated d k spec es name args = Inr r"
  shows "(name \<in> RESEARCH_TOOLS \<or> (name, ''read'') \<in> set es) \<and> \<not> changes_tree es name \<and>
    (\<exists>t ps. active_task d k = Inr (Some t) \<and> phase_policy spec t = Inr ps \<and> name \<in> set (ph_tools ps))"
proof -
  obtain s where s: "snapshot_for_replay d k spec None = Inr s" and n: "name \<in> sn_tools s" "name \<in> research_tools es"
    using assms by (auto simp: authorize_delegated_def bindE_Inr_iff split: if_split_asm)
  from s have "\<exists>t ps. active_task d k = Inr (Some t) \<and> phase_policy spec t = Inr ps \<and> name \<in> set (ph_tools ps)"
    by (rule snapshot_effect) (use n in \<open>auto simp: new_snapshot_def\<close>)
  with n(2) show ?thesis by (auto simp: research_tools_def with_effect_iff changes_tree_def)
qed

theorem delegated_only_reads_witness:
  "\<exists>t ps. active_task demo_2 the_cycle = Inr (Some t) \<and> phase_policy example_workflow t = Inr ps \<and>
    ''ls'' \<in> set (ph_tools ps)"
proof -
  have "authorize_delegated demo_2 the_cycle example_workflow [] ''ls'' [] = Inr None" by code_simp
  from delegated_only_reads [OF this] show ?thesis by (elim conjE)
qed

section \<open>Skill files\<close>

text \<open>
  A read below \<open>/skills/\<close> passes only for a normalised path -- its own \<open>PurePosixPath\<close>,
  with no dot segment, backslash, percent sign or NUL -- whose first directory names a skill
  that is active for the phase; it is recorded as a skill load exactly for \<open>SKILL.md\<close>.
\<close>

theorem skill_reads_stay_inside:
  assumes "reject_inactive_skill_path ''read_file'' args s = Inr r" "path_argument args = path"
    "starts_with path ''/skills/''"
  shows "\<exists>skill rest. path = ''/'' @ join ''/'' (''skills'' # skill # rest) \<and> rest \<noteq> [] \<and>
    skill \<in> set (if sn_skills s = [] then [sn_skill s] else sn_skills s) \<and> valid_id skill \<and>
    list_all (\<lambda>p. p \<notin> {[], ''.'', ''..''}) rest \<and> set path \<inter> {CHR 0x5C, CHR ''%'', CHR 0x00} = {} \<and>
    r = (if path = canonical_skill_path skill then Some skill else None)"
proof -
  from assms obtain skill rest where ok: "\<not> non_canonical path" and parts: "posix_parts path = ''skills'' # skill # rest"
    and rest: "rest \<noteq> []" "skill \<in> set (if sn_skills s = [] then [sn_skill s] else sn_skills s)" "valid_id skill"
    and r: "r = (if path = canonical_skill_path skill then Some skill else None)"
    by (auto simp: reject_inactive_skill_path_def Let_def split: if_split_asm list.split_asm)
  from ok have "posix_path path = path" and chars: "CHR 0x5C \<notin> set path" "CHR ''%'' \<notin> set path" "CHR 0x00 \<notin> set path"
    and dots: "\<not> list_ex (\<lambda>p. p \<in> {[], ''.'', ''..''}) (tl (split_on CHR ''/'' path))"
    by (simp_all add: non_canonical_def)
  then have path: "path = ''/'' @ join ''/'' (''skills'' # skill # rest)" by (simp add: posix_path_def parts)
  let ?y = "join ''/'' (''skills'' # skill # rest)"
  have sp: "split_on CHR ''/'' path = [] # split_on CHR ''/'' ?y" using path by simp
  then have "set rest \<subseteq> set (split_on CHR ''/'' ?y)"
    using arg_cong [OF parts, of set] by (simp add: posix_parts_def) blast
  with dots sp have "list_all (\<lambda>p. p \<notin> {[], ''.'', ''..''}) rest"
    by (simp add: list_ex_iff list_all_iff) blast
  with path rest chars r show ?thesis by (intro exI [of _ skill] exI [of _ rest] conjI) simp_all
qed

definition demo_snapshot :: snapshot where
  "demo_snapshot = new_snapshot (hd (cycles demo_2)) (hd (tasks demo_2)) None PLANNING
     \<lparr>ph_skill = ''a'', ph_tools = [''read_file''], ph_additional = []\<rparr>"

theorem skill_reads_stay_inside_witness:
  "\<exists>skill rest. ''/skills/a/SKILL.md'' = ''/'' @ join ''/'' (''skills'' # skill # rest)"
proof -
  have "reject_inactive_skill_path ''read_file'' [(''path'', DStr ''/skills/a/SKILL.md'')] demo_snapshot = Inr (Some ''a'')"
    by code_simp
  moreover have "path_argument [(''path'', DStr ''/skills/a/SKILL.md'')] = ''/skills/a/SKILL.md''" by code_simp
  moreover have "starts_with ''/skills/a/SKILL.md'' ''/skills/''" by code_simp
  ultimately show ?thesis by (blast dest: skill_reads_stay_inside)
qed

end
