(* ===== verification/Example_Thread.thy ===== *)
theory Example_Thread
  imports Example_Run
begin

text \<open>
  The example run with the comments of its issue: the databases on which the properties of the
  inbox, the dispatcher, the controller and the publication are applied.
\<close>

definition demo_event :: "string \<Rightarrow> string \<Rightarrow> string \<Rightarrow> source_event" where
  "demo_event k at body = \<lparr>ev_key = k, ev_repo_id = 1, ev_repo_full_name = ''o/r'', ev_source_id = k, ev_thread = Some ''t'',
     ev_kind = Issue_Comment, ev_updated_at = at, ev_created_at = Some at, ev_discovered_at = at,
     ev_surface = ISSUE, ev_subject_kind = Issue_Subject, ev_subject = 7, ev_author = Some ''u'', ev_body = body, ev_review_root = None,
     ev_anchor = no_anchor\<rparr>"

text \<open>An issue, and a suggestion that arrives while its task is being planned.\<close>

definition inbox_demo :: db where
  "inbox_demo = demo_2\<lparr>events := [demo_event ''e0'' ''2024-01-01T00:00:00Z'' ''@agent build'',
     demo_event ''e5'' ''2024-01-02T00:00:00Z'' ''@agent also test'']\<rparr>"

text \<open>The plan posted on a date, and a reply to it.\<close>

definition demo_waiting :: db where
  "demo_waiting = (snd (submit_posted_plan example_sha ''3'' the_task ''the plan'' 11 ''2024-01-02T00:00:00Z'' demo_2))
     \<lparr>events := [demo_event ''e0'' ''2024-01-01T00:00:00Z'' ''@agent build'',
        demo_event ''e1'' ''2024-01-03T00:00:00Z'' ''@agent approve'']\<rparr>"

lemma demo_waiting_tables: "tables_ok demo_waiting"
proof -
  let ?s = "submit_posted_plan example_sha ''3'' the_task ''the plan'' 11 ''2024-01-02T00:00:00Z'' demo_2"
  have "?s = (Inr (projr (fst ?s)), snd ?s)" by (rule returned) code_simp
  from reachable_core(1) [OF reachable_step [OF demo_reach(3) step_submit [OF this]]]
  show ?thesis by (simp add: demo_waiting_def tables_defs)
qed

text \<open>The finished run with the GitHub events behind it.\<close>

definition demo_done :: db where
  "demo_done = demo_9\<lparr>events := [demo_event ''e0'' ''0'' ''@agent build'', demo_event ''e1'' ''4'' ''@agent approve'',
     demo_event ''e2'' ''8'' ''@agent approve'']\<rparr>"

lemma demo_done_tables: "tables_ok demo_done"
  using reachable_core(1) [OF demo_reach(10)] by (simp add: demo_done_def tables_defs)

lemma returned_value: "fst x = Inr y \<Longrightarrow> x = (Inr y, snd x)"
  by (cases x) simp

end
