(* ===== verification/Inbox_Properties.thy ===== *)
theory Inbox_Properties
  imports Feedback Example_Thread
begin

text \<open>
  What the inbox of a thread guarantees: routing settles every event once, an input answers one
  occurrence, a queued revision input is kept until one cycle consumes it, and a feedback review
  or its deferral leaves the work in progress alone.
\<close>

section \<open>Routing only appends\<close>

definition inbox_extends :: "db \<Rightarrow> db \<Rightarrow> bool" where
  "inbox_extends d d' \<longleftrightarrow> (\<exists>rs cs os. d' = d\<lparr>revision_inputs := revision_inputs d @ rs,
     consumptions := consumptions d @ cs, outbox := outbox d @ os\<rparr>)"

lemma extends_refl [intro, simp]: "inbox_extends d d"
  unfolding inbox_extends_def by (rule exI [of _ "[]"])+ simp

lemma extends_trans [trans]:
  assumes "inbox_extends d e" "inbox_extends e f"
  shows "inbox_extends d f"
proof -
  from assms obtain rs cs os rs' cs' os' where
    e: "e = d\<lparr>revision_inputs := revision_inputs d @ rs, consumptions := consumptions d @ cs, outbox := outbox d @ os\<rparr>"
    and "f = e\<lparr>revision_inputs := revision_inputs e @ rs', consumptions := consumptions e @ cs', outbox := outbox e @ os'\<rparr>"
    unfolding inbox_extends_def by blast
  then have "f = d\<lparr>revision_inputs := revision_inputs d @ (rs @ rs'), consumptions := consumptions d @ (cs @ cs'),
      outbox := outbox d @ (os @ os')\<rparr>" by simp
  then show ?thesis unfolding inbox_extends_def by blast
qed

lemma extends_by:
  "inbox_extends d (d\<lparr>revision_inputs := revision_inputs d @ rs\<rparr>)"
  "inbox_extends d (d\<lparr>consumptions := consumptions d @ cs\<rparr>)"
  "inbox_extends d (d\<lparr>outbox := outbox d @ os\<rparr>)"
  unfolding inbox_extends_def
  by (rule exI [of _ rs], rule exI [of _ "[]"], rule exI [of _ "[]"], simp)
    (rule exI [of _ "[]"], rule exI [of _ cs], rule exI [of _ "[]"], simp,
     rule exI [of _ "[]"], rule exI [of _ "[]"], rule exI [of _ os], simp)

lemma extends_insert:
  "insert_revision_input r d = Inr d' \<Longrightarrow> inbox_extends d d'"
  "record_disposition e th c st at d = Inr d' \<Longrightarrow> inbox_extends d d'"
  "enqueue_workflow_comment sha e th kind m b at d = Inr d' \<Longrightarrow> inbox_extends d d'"
  by (auto simp: insert_revision_input_def record_disposition_def enqueue_workflow_comment_def
      insert_consumption_def insert_outbox_def split: if_split_asm intro: extends_by)

lemma disposition_recorded:
  "record_disposition e th c st at d = Inr d' \<Longrightarrow> consumption_of d' e \<noteq> None"
  by (auto simp: record_disposition_def insert_consumption_def has_def lookup_None_iff split: if_split_asm)

lemma consumption_kept: "inbox_extends d d' \<Longrightarrow> consumption_of d e \<noteq> None \<Longrightarrow> consumption_of d' e \<noteq> None"
  by (auto simp: inbox_extends_def table_simps)

text \<open>What a disposition did to the database.\<close>

lemma classify_cases:
  assumes "classify_revision_input sha k th at d = Inr (disp, d')"
  obtains "d' = d" "disp \<notin> {STALE_APPROVAL, REVISION_QUEUED}"
  | "inbox_extends d d'" "consumption_of d' k \<noteq> None" "disp \<in> {STALE_APPROVAL, REVISION_QUEUED}"
proof -
  have "inbox_extends d d' \<and> consumption_of d' k \<noteq> None \<and> disp = REVISION_QUEUED"
    if q: "queue_revision_input sha k th at d = Inr (disp, d')"
  proof -
    from q obtain d1 d2 where
      "insert_revision_input (new_revision_input sha k th ''UNSOLICITED_STEERING'' at) d = Inr d1"
      and r: "record_disposition k th (latest_cycle_id d1 th) ''REVISION_QUEUED'' at d1 = Inr d2"
      and o: "enqueue_workflow_comment sha k th ''REVISION_INPUT_ACK'' (revision_ack_marker (revision_input_id_for sha k))
          (revision_ack_marker (revision_input_id_for sha k) @ newline @ UNSOLICITED_ACK_MESSAGE) at d2 = Inr d'"
      and disp: "disp = REVISION_QUEUED"
      by (auto simp: queue_revision_input_def Let_def bindE_Inr_iff)
    then have "inbox_extends d d1" "inbox_extends d1 d2" "inbox_extends d2 d'" by (auto dest: extends_insert)
    moreover from this have "consumption_of d' k \<noteq> None"
      using consumption_kept disposition_recorded [OF r] by blast
    ultimately show ?thesis using disp by (blast intro: extends_trans)
  qed
  with assms that show thesis
    by (auto simp: classify_revision_input_def bindE_Inr_iff dest: extends_insert disposition_recorded
        split: option.split_asm if_split_asm)
qed

section \<open>Routing is idempotent\<close>

text \<open>Every cycle's root input names a stored event.\<close>

definition rooted :: "db \<Rightarrow> bool" where
  "rooted d = list_all (\<lambda>c. cycle_root_event d (cy_root_input c) \<noteq> None) (cycles d)"

lemma extends_views:
  assumes "inbox_extends d d'"
  shows "events d' = events d" "lifecycles d' = lifecycles d" "legacy_states d' = legacy_states d" "cycles d' = cycles d"
    "has_declarative d' th = has_declarative d th" "open_cycle d' th = open_cycle d th"
    "task_in_cycle d' k tk = task_in_cycle d k tk" "interaction_threshold d' t = interaction_threshold d t"
    "source_events_for_thread d' th = source_events_for_thread d th"
proof -
  obtain rs cs os where d': "d' = d\<lparr>revision_inputs := revision_inputs d @ rs, consumptions := consumptions d @ cs,
      outbox := outbox d @ os\<rparr>"
    using assms unfolding inbox_extends_def by blast
  show "events d' = events d" "lifecycles d' = lifecycles d" "legacy_states d' = legacy_states d" "cycles d' = cycles d"
    "has_declarative d' th = has_declarative d th" "open_cycle d' th = open_cycle d th"
    "task_in_cycle d' k tk = task_in_cycle d k tk" "source_events_for_thread d' th = source_events_for_thread d th"
    by (simp_all add: d' has_declarative_def open_cycle_def task_in_cycle_def source_events_for_thread_def)
  have v: "plans d' = plans d" "results d' = results d" "validations d' = validations d" by (simp_all add: d')
  show "interaction_threshold d' t = interaction_threshold d t"
    unfolding interaction_threshold_def current_plan_def latest_posted_result_def validation_round_of_def v ..
qed

lemma extends_root:
  assumes "inbox_extends d d'" "cycle_root_event d k \<noteq> None"
  shows "cycle_root_event d' k = cycle_root_event d k"
  using assms unfolding inbox_extends_def cycle_root_event_def
  by (auto simp: table_simps split: option.split option.split_asm)

lemma extends_rooted: "inbox_extends d d' \<Longrightarrow> rooted d \<Longrightarrow> rooted d'"
  using extends_root extends_views(4) by (fastforce simp: rooted_def list_all_iff)

lemma extends_matches:
  assumes "inbox_extends d d'" "rooted d"
  shows "matches_open_interaction d' e th = matches_open_interaction d e th"
proof (cases "open_cycle d th")
  case None
  then show ?thesis by (simp add: matches_open_interaction_def extends_views [OF assms(1)])
next
  case (Some c)
  then have "c \<in> set (cycles d)" by (auto simp: open_cycle_def)
  then have "cycle_root_event d' (cy_root_input c) = cycle_root_event d (cy_root_input c)"
    using assms(2) extends_root [OF assms(1)] by (auto simp: rooted_def list_all_iff)
  then show ?thesis
    by (simp only: matches_open_interaction_def extends_views [OF assms(1)] Some option.case)
qed

text \<open>An event that was left where it is, is left there again, whatever was queued meanwhile.\<close>

definition settled :: "digest \<Rightarrow> string \<Rightarrow> db \<Rightarrow> source_event \<Rightarrow> bool" where
  "settled sha th d e \<longleftrightarrow> (\<exists>disp. disp \<notin> {STALE_APPROVAL, REVISION_QUEUED} \<and>
     (\<forall>at. classify_revision_input sha (ev_key e) th at d = Inr (disp, d)))"

lemma untouched_by:
  "\<not> (\<exists>x. bindE r (\<lambda>d1. Inr (STALE_APPROVAL, d1)) = Inr (disp, x)) \<or> disp = STALE_APPROVAL"
  "\<not> (\<exists>x. queue_revision_input sha k th at d = Inr (disp, x)) \<or> disp = REVISION_QUEUED"
  by (auto simp: queue_revision_input_def Let_def bindE_Inr_iff)

lemma classify_stable:
  assumes "classify_revision_input sha k th at d = Inr (disp, d1)" "disp \<notin> {STALE_APPROVAL, REVISION_QUEUED}"
    and "inbox_extends d d'" "rooted d"
  shows "classify_revision_input sha k th at' d' = Inr (disp, d')"
proof -
  note same = extends_views [OF assms(3)] extends_matches [OF assms(3,4)]
  obtain e l where "event_of d k = Some e" "lifecycle_of d th = Some l"
    using assms(1) by (auto simp: classify_revision_input_def split: option.split_asm)
  then show ?thesis
    using assms(1,2) untouched_by
    by (fastforce simp: classify_revision_input_def same split: if_split_asm if_split)
qed

text \<open>What a pass over the events leaves behind: each is consumed or settled.\<close>

lemma settled_extends: "settled sha th d e \<Longrightarrow> inbox_extends d d' \<Longrightarrow> rooted d \<Longrightarrow> settled sha th d' e"
  unfolding settled_def using classify_stable by blast

lemma route_rows_settles:
  assumes "route_rows sha th now es d = Inr (ks, d')" "rooted d"
  shows "inbox_extends d d' \<and> (\<forall>e \<in> set es. consumption_of d' (ev_key e) \<noteq> None \<or> settled sha th d' e)"
  using assms
proof (induction es arbitrary: d ks)
  case Nil
  then show ?case by simp
next
  case (Cons e es)
  from Cons.prems(1) obtain disp d1 ks' where
    c: "classify_revision_input sha (ev_key e) th (if ev_discovered_at e = [] then now else ev_discovered_at e) d = Inr (disp, d1)"
    and r: "route_rows sha th now es d1 = Inr (ks', d')"
    by (auto simp: bindE_Inr_iff)
  from c have "inbox_extends d d1 \<and> (consumption_of d1 (ev_key e) \<noteq> None \<or> settled sha th d1 e)"
  proof (cases rule: classify_cases)
    case 1
    with c Cons.prems(2) have "settled sha th d1 e" unfolding settled_def using classify_stable extends_refl by metis
    with 1 show ?thesis by simp
  next
    case 2
    then show ?thesis by simp
  qed
  then have d1: "inbox_extends d d1" "rooted d1" and
    e: "consumption_of d1 (ev_key e) \<noteq> None \<or> settled sha th d1 e"
    using extends_rooted Cons.prems(2) by blast+
  from Cons.IH [OF r d1(2)] have d': "inbox_extends d1 d'"
    and es: "\<forall>e \<in> set es. consumption_of d' (ev_key e) \<noteq> None \<or> settled sha th d' e" by blast+
  from e have "consumption_of d' (ev_key e) \<noteq> None \<or> settled sha th d' e"
    using consumption_kept [OF d'] settled_extends [OF _ d' d1(2)] by blast
  with es extends_trans [OF d1(1) d'] show ?case by simp
qed

lemma route_rows_settled:
  "\<forall>e \<in> set es. settled sha th d e \<Longrightarrow> route_rows sha th now es d = Inr ([], d)"
proof (induction es)
  case (Cons e es)
  then obtain disp where "disp \<notin> {STALE_APPROVAL, REVISION_QUEUED}"
    "\<And>at. classify_revision_input sha (ev_key e) th at d = Inr (disp, d)"
    unfolding settled_def by fastforce
  with Cons show ?case by simp
qed simp

text \<open>
  C31. Routing the unmatched comments of a thread is idempotent: a second pass, at any later
  time, queues nothing and changes nothing, so a restart of the worker neither duplicates a
  suggestion nor acknowledges it twice.
\<close>

theorem routing_is_idempotent:
  assumes "route_unmatched_inputs sha now th d = (Inr ks, d')" "rooted d"
  shows "route_unmatched_inputs sha now' th d' = (Inr [], d')"
proof -
  let ?open = "\<lambda>d. filter (\<lambda>e. consumption_of d (ev_key e) = None) (source_events_for_thread d th)"
  have r: "route_rows sha th now (?open d) d = Inr (ks, d')"
    using assms(1) by (simp add: route_unmatched_inputs_def commit_return_iff)
  note out = route_rows_settles [OF r assms(2)]
  have "set (?open d') \<subseteq> set (?open d)"
    using consumption_kept [OF conjunct1 [OF out]] extends_views(9) [OF conjunct1 [OF out], of th]
    by (fastforce simp del: not_None_eq)
  then have "\<forall>e \<in> set (?open d'). settled sha th d' e" using conjunct2 [OF out] by auto
  then show ?thesis by (simp add: route_unmatched_inputs_def route_rows_settled)
qed

theorem routing_is_idempotent_witness:
  "route_unmatched_inputs example_sha ''2'' ''t'' (snd (route_unmatched_inputs example_sha ''1'' ''t'' inbox_demo)) =
     (Inr [], snd (route_unmatched_inputs example_sha ''1'' ''t'' inbox_demo))"
proof (rule routing_is_idempotent)
  have "fst (route_unmatched_inputs example_sha ''1'' ''t'' inbox_demo) = Inr [''e5'']" by code_simp
  then show "route_unmatched_inputs example_sha ''1'' ''t'' inbox_demo =
      (Inr [''e5''], snd (route_unmatched_inputs example_sha ''1'' ''t'' inbox_demo))"
    by (rule returned_value)
  show "rooted inbox_demo" by code_simp
qed

section \<open>Claims\<close>

text \<open>
  An input is bound once: after a claim of a comment for an occurrence, the same claim
  returns the same row unchanged, and a claim for another occurrence or purpose is refused.
\<close>

theorem claim_binds_once:
  assumes "claim_input_for_resume e th n st occ at d = (Inr r, d1)"
  shows "claim_input_for_resume e th' n' st' occ' at' d1 =
    (if st' = st \<and> occ' = occ then Inr r else Inl (ValueError ''human input is already bound to another occurrence''), d1)"
proof -
  from assms have r: "consumption_of d1 e = Some r" "co_occurrence r = Some occ" "co_status r = st"
    by (auto simp: claim_input_for_resume_def and_then_return_iff commit_return_iff split: option.split_asm if_split_asm)
  then have "has co_event e (consumptions d1)"
    by (auto simp: has_def lookup_None_iff [symmetric] dest: lookup_SomeD)
  with r show ?thesis by (auto simp: claim_input_for_resume_def insert_consumption_def)
qed

theorem claim_binds_once_witness:
  "fst (claim_input_for_resume ''e5'' ''t'' 1 ''APPROVED'' ''o2'' ''3''
     (snd (claim_input_for_resume ''e5'' ''t'' 1 ''APPROVED'' ''o1'' ''2'' inbox_demo))) =
   Inl (ValueError ''human input is already bound to another occurrence'')"
proof -
  let ?c = "claim_input_for_resume ''e5'' ''t'' 1 ''APPROVED'' ''o1'' ''2'' inbox_demo"
  have "?c = (Inr (projr (fst ?c)), snd ?c)" by (rule returned) code_simp
  from claim_binds_once [OF this, of "''t''" 1 "''APPROVED''" "''o2''" "''3''"] show ?thesis by simp
qed

section \<open>No input is lost\<close>

fun input_stage :: "input_status \<Rightarrow> nat" where
  "input_stage I_PENDING = 0"
| "input_stage BATCHED = 1"
| "input_stage CONSUMED = 2"

text \<open>The statuses in the order in which an input passes through them.\<close>

instantiation input_status :: linorder
begin

definition less_eq_input_status :: "input_status \<Rightarrow> input_status \<Rightarrow> bool" where
  "less_eq_input_status a b = (input_stage a \<le> input_stage b)"

definition less_input_status :: "input_status \<Rightarrow> input_status \<Rightarrow> bool" where
  "less_input_status a b = (input_stage a < input_stage b)"

lemma input_stage_inject: "input_stage a = input_stage b \<Longrightarrow> a = b"
  by (cases a; cases b) simp_all

instance
  by standard (auto simp: less_eq_input_status_def less_input_status_def intro: input_stage_inject)

end

text \<open>
  How a row may develop: what was said never changes, the status only advances, and once a
  cycle has taken the row it keeps it.
\<close>

definition input_evolves :: "revision_input_row \<Rightarrow> revision_input_row \<Rightarrow> bool" where
  "input_evolves r r' = (ri_id r' = ri_id r \<and> ri_event r' = ri_event r \<and> ri_thread r' = ri_thread r \<and>
     ri_residual r' = ri_residual r \<and> ri_reason r' = ri_reason r \<and> ri_queued_at r' = ri_queued_at r \<and>
     ri_status r \<le> ri_status r' \<and>
     (ri_status r \<noteq> I_PENDING \<longrightarrow> ri_cycle r' = ri_cycle r))"

definition inputs_kept :: "db \<Rightarrow> db \<Rightarrow> bool" where
  "inputs_kept d d' = (length (revision_inputs d) \<le> length (revision_inputs d') \<and>
     list_all2 input_evolves (revision_inputs d) (take (length (revision_inputs d)) (revision_inputs d')))"

lemma input_evolves_refl [simp]: "input_evolves r r"
  by (simp add: input_evolves_def)

lemma inputs_kept_append:
  assumes "revision_inputs d' = revision_inputs d @ rs"
  shows "inputs_kept d d'"
  unfolding inputs_kept_def assms by (simp add: list_all2_same)

lemma inputs_kept_same: "revision_inputs d' = revision_inputs d \<Longrightarrow> inputs_kept d d'"
  by (rule inputs_kept_append [of _ _ "[]"]) simp

lemma inputs_kept_update:
  assumes "revision_inputs d' = update_where p f (revision_inputs d)" "\<And>r. p r \<Longrightarrow> input_evolves r (f r)"
  shows "inputs_kept d d'"
  unfolding inputs_kept_def assms(1) update_where_def
  by (simp add: list_all2_map2 list.rel_refl_strong assms(2))

lemma inputs_kept_commit:
  assumes "\<And>x d'. r = Inr (x, d') \<Longrightarrow> inputs_kept d d'" and "\<And>x d1. inputs_kept d d1 \<Longrightarrow> inputs_kept d (snd (k x d1))"
  shows "inputs_kept d (snd (and_then (commit d r) k))"
  using assms by (cases r) (auto simp: inputs_kept_same)

lemma extends_kept: "inbox_extends d d' \<Longrightarrow> inputs_kept d d'"
  unfolding inbox_extends_def by (auto intro: inputs_kept_append)

lemma route_rows_extends: "route_rows sha th now es d = Inr (ks, d') \<Longrightarrow> inbox_extends d d'"
proof (induction es arbitrary: d ks)
  case (Cons e es)
  then obtain disp d1 ks' where
    "classify_revision_input sha (ev_key e) th (if ev_discovered_at e = [] then now else ev_discovered_at e) d = Inr (disp, d1)"
    and r: "route_rows sha th now es d1 = Inr (ks', d')"
    by (auto simp: bindE_Inr_iff)
  then have "inbox_extends d d1" by (cases rule: classify_cases) simp_all
  also from Cons.IH [OF r] have "inbox_extends d1 d'" .
  finally show ?case .
qed simp

lemma route_keeps: "inputs_kept d (snd (route_unmatched_inputs sha now th d))"
  by (cases "route_rows sha th now (filter (\<lambda>e. consumption_of d (ev_key e) = None) (source_events_for_thread d th)) d")
    (auto simp: route_unmatched_inputs_def inputs_kept_same dest!: route_rows_extends intro: extends_kept)

lemma batch_keeps: "inputs_kept d (snd (batch_revision_inputs th k ids d))"
  unfolding batch_revision_inputs_def
proof (rule inputs_kept_commit)
  fix x d'
  assume "(case find (\<lambda>c. cy_id c = k \<and> cy_thread c = th \<and> cy_kind c = REVISION \<and> cy_status c = C_ACTIVE) (cycles d) of
      None \<Rightarrow> Inl (ValueError ''revision input batch target is not active'')
    | Some c \<Rightarrow>
        if (case ids of None \<Rightarrow> False | Some ks \<Rightarrow> ks \<noteq> [] \<and>
              rowcount (batch_selects th ids) (revision_inputs d) \<noteq> length (remdups ks))
        then Inl (ValueError ''selected revision input batch changed'')
        else
          let rs = update_where (batch_selects th ids)
                (\<lambda>r. r\<lparr>ri_status := BATCHED, ri_cycle := Some k\<rparr>) (revision_inputs d)
          in Inr ((), d\<lparr>revision_inputs := rs,
               deferred := update_where
                 (\<lambda>f. df_thread f = th \<and> df_queued f \<and>
                    list_ex (\<lambda>r. ri_cycle r = Some k \<and> ri_event r = df_event f \<and>
                      text_or_empty (ri_residual r) = text_or_empty (df_residual f)) rs)
                 (\<lambda>f. f\<lparr>df_queued := False, df_consumed_cycle := Some (cy_cycle_id c)\<rparr>) (deferred d)\<rparr>)) = Inr (x, d')"
  then have "revision_inputs d' = update_where (batch_selects th ids)
      (\<lambda>r. r\<lparr>ri_status := BATCHED, ri_cycle := Some k\<rparr>) (revision_inputs d)"
    by (auto simp: Let_def split: option.split_asm if_split_asm)
  then show "inputs_kept d d'"
    by (rule inputs_kept_update) (simp add: batch_selects_def input_evolves_def less_eq_input_status_def)
qed simp

lemma consume_keeps: "inputs_kept d (snd (consume_revision_inputs th k d))"
  by (rule inputs_kept_update [where p = "\<lambda>r. ri_thread r = th \<and> ri_cycle r = Some k \<and> ri_status r = BATCHED"
        and f = "\<lambda>r. r\<lparr>ri_status := CONSUMED\<rparr>"]) (simp_all add: consume_revision_inputs_def Let_def input_evolves_def less_eq_input_status_def)

lemma insert_input_kept: "insert_revision_input r d = Inr d' \<Longrightarrow> inputs_kept d d'"
  by (rule extends_kept [OF extends_insert(1)])

lemma inputs_kept_trans_same:
  "inputs_kept d d1 \<Longrightarrow> revision_inputs d2 = revision_inputs d1 \<Longrightarrow> inputs_kept d d2"
  by (simp add: inputs_kept_def)

lemma followup_keeps: "inputs_kept d (snd (defer_followup sha e th n at residual st d))"
proof -
  have same: "revision_inputs d1 = revision_inputs d" if "insert_deferred f d = Inr d1" for f d1
    using that by (auto simp: insert_deferred_def split: if_split_asm)
  have disp: "revision_inputs d3 = revision_inputs d2" if "record_disposition e th n st' at d2 = Inr d3" for st' d2 d3
    using that by (auto simp: record_disposition_def insert_consumption_def split: if_split_asm)
  show ?thesis
    unfolding defer_followup_def Let_def
    by (rule inputs_kept_commit)
      (auto simp: bindE_Inr_iff split: option.split_asm dest!: same disp insert_input_kept
        simp: inputs_kept_def)
qed

lemma deferral_effect:
  assumes "defer_transaction sha now rid d = Inr (early, d')"
  obtains r where "review_of d rid = Some r" "fr_status r = DEFERRED_WAITING" "early = Some r" "d' = d"
  | r d1 d2 where "review_of d rid = Some r" "fr_status r = REVIEWING" "early = None"
    and "has ri_id (revision_input_id_for sha (fr_event r)) (revision_inputs d1)" "inbox_extends d d1" "inbox_extends d1 d2"
    and "d' = set_review_status rid REVIEWING DEFERRED_WAITING d2"
proof -
  from assms consider r where "review_of d rid = Some r" "fr_status r = DEFERRED_WAITING" "early = Some r" "d' = d"
  | r d1 d2 i k m b where "review_of d rid = Some r" "fr_status r = REVIEWING" "early = None"
    and "insert_revision_input (new_revision_input sha (fr_event r) (fr_thread r) i now) d = Inr d1"
    and "enqueue_workflow_comment sha (fr_event r) (fr_thread r) k m b now d1 = Inr d2"
    and "d' = set_review_status rid REVIEWING DEFERRED_WAITING d2"
    by (auto simp: defer_transaction_def Let_def bindE_Inr_iff split: option.split_asm if_split_asm)
  then show thesis
  proof cases
    case 1
    with that(1) show thesis by blast
  next
    case 2
    from 2(4) have "has ri_id (revision_input_id_for sha (fr_event r)) (revision_inputs d1)"
      by (auto simp: insert_revision_input_def new_revision_input_def split: if_split_asm)
    with 2 extends_insert(1) [OF 2(4)] extends_insert(3) [OF 2(5)] that(2) show thesis by blast
  qed
qed

lemma deferral_keeps: "inputs_kept d (snd (defer_feedback_to_revision sha now rid d))"
proof -
  have "inputs_kept d d'" if "defer_transaction sha now rid d = Inr (early, d')" for early d'
    using that
  proof (cases rule: deferral_effect)
    case (2 r d1 d2)
    then have "inbox_extends d d2" by (blast intro: extends_trans)
    then show ?thesis by (rule inputs_kept_trans_same [OF extends_kept]) (simp add: 2 set_review_status_def)
  qed (simp add: inputs_kept_same)
  then show ?thesis
    unfolding defer_feedback_to_revision_def by (rule inputs_kept_commit) (auto split: option.split)
qed

text \<open>
  C32. A queued suggestion is never lost or rewritten: routing, deferral of feedback or of a
  residual, batching and consumption keep every row of the revision inbox with its text and
  origin, only advance its status, and never move it from one cycle to another.
\<close>

theorem no_input_is_lost:
  "inputs_kept d (snd (route_unmatched_inputs sha now th d)) \<and>
   inputs_kept d (snd (defer_followup sha e th n at residual st d)) \<and>
   inputs_kept d (snd (defer_feedback_to_revision sha now rid d)) \<and>
   inputs_kept d (snd (batch_revision_inputs th k ids d)) \<and>
   inputs_kept d (snd (consume_revision_inputs th k d))"
  by (intro conjI route_keeps followup_keeps deferral_keeps batch_keeps consume_keeps)

section \<open>Feedback reviews\<close>

definition same_work :: "db \<Rightarrow> db \<Rightarrow> bool" where
  "same_work d d' = (cycles d' = cycles d \<and> tasks d' = tasks d \<and> plans d' = plans d \<and> permits d' = permits d \<and>
     executions d' = executions d \<and> validations d' = validations d \<and> results d' = results d \<and> approvals d' = approvals d)"

lemma extends_same_work: "inbox_extends d d' \<Longrightarrow> same_work d d'"
  unfolding inbox_extends_def same_work_def by auto

text \<open>
  Deferring feedback is invisible to the work in progress. Whether it returns or raises, no
  cycle, task, plan, permit, execution, validation, result or approval changes; when it returns,
  the review waits, and a review that was open has put its event into the revision inbox.
\<close>

theorem deferral_leaves_work_alone:
  "case defer_feedback_to_revision sha now rid d of
     (Inl e, d') \<Rightarrow> d' = d
   | (Inr None, d') \<Rightarrow> False
   | (Inr (Some r), d') \<Rightarrow> same_work d d' \<and> review_of d' rid = Some r \<and> fr_status r = DEFERRED_WAITING \<and>
       (if map_option fr_status (review_of d rid) = Some REVIEWING
        then has ri_id (revision_input_id_for sha (fr_event r)) (revision_inputs d') else d' = d)"
proof (cases "defer_transaction sha now rid d")
  case (Inl e)
  then show ?thesis by (simp add: defer_feedback_to_revision_def)
next
  case (Inr p)
  obtain early d' where p: "p = (early, d')" by (cases p)
  from Inr have "defer_transaction sha now rid d = Inr (early, d')" by (simp add: p)
  then show ?thesis
  proof (cases rule: deferral_effect)
    case (1 r)
    with Inr p show ?thesis by (simp add: defer_feedback_to_revision_def same_work_def)
  next
    case (2 r d1 d2)
    have ext: "inbox_extends d d2" using 2 by (blast intro: extends_trans)
    then have "review_of d2 rid = Some r" "fr_id r = rid" using 2(1) by (auto simp: inbox_extends_def)
    then have rev: "review_of d' rid = Some (r\<lparr>fr_status := DEFERRED_WAITING\<rparr>)"
      by (simp add: 2(2,7) set_review_status_def lookup_update_where)
    have "same_work d d'" "revision_inputs d' = revision_inputs d2"
      using extends_same_work [OF ext] by (simp_all add: 2(7) set_review_status_def same_work_def)
    moreover have "has ri_id (revision_input_id_for sha (fr_event r)) (revision_inputs d2)"
      using 2(4,6) by (auto simp: inbox_extends_def)
    ultimately show ?thesis
      using Inr p 2(1,2,3) rev by (simp add: defer_feedback_to_revision_def)
  qed
qed

end
