(* ===== verification/Publication.thy ===== *)
theory Publication
  imports Inbox
begin

text \<open>
  Publication of a completed workflow (\<open>github_store.py\<close>): the proof that a thread's current cycle
  may be published, the publication rows, the closing of the published lifecycle, and the
  accepted material later readers take from it.
\<close>

section \<open>The persisted specification\<close>

definition lifecycle_parts :: "string \<Rightarrow> nat \<Rightarrow> string \<Rightarrow> string list" where
  "lifecycle_parts thread_id cycle_id root_input_id = [thread_id, show_nat cycle_id, root_input_id]"

definition publication_id_for :: "digest \<Rightarrow> string \<Rightarrow> nat \<Rightarrow> string \<Rightarrow> string" where
  "publication_id_for sha thread_id cycle_id root = stable sha ''publication'' (lifecycle_parts thread_id cycle_id root)"

definition memory_learning_id_for :: "digest \<Rightarrow> string \<Rightarrow> nat \<Rightarrow> string \<Rightarrow> string" where
  "memory_learning_id_for sha thread_id cycle_id root = stable sha ''learning'' (lifecycle_parts thread_id cycle_id root)"

definition resolution_id_for :: "digest \<Rightarrow> string \<Rightarrow> nat \<Rightarrow> string \<Rightarrow> string" where
  "resolution_id_for sha thread_id cycle_id root = stable sha ''resolution'' (lifecycle_parts thread_id cycle_id root)"

text \<open>The declared tasks of a persisted document, when it is the document of the cycle.\<close>

definition declared_tasks :: "digest \<Rightarrow> cycle_row \<Rightarrow> doc list option" where
  "declared_tasks sha c =
    (case map_of (items (cy_spec c)) ''tasks'' of
       Some (DList ts) \<Rightarrow>
         if dget (items (cy_spec c)) ''workflow_id'' = DStr (cy_workflow_id c)
            \<and> eq_int (dget (items (cy_spec c)) ''version'') (cy_version c)
            \<and> sha (dumps_compact (cy_spec c)) = cy_digest c \<and> ts \<noteq> []
         then Some ts else None
     | _ \<Rightarrow> None)"

definition declared_ids :: "doc list \<Rightarrow> doc list option" where
  "declared_ids ts = those (map (\<lambda>t. map_of (items t) ''id'') ts)"

definition declared_deps :: "doc \<Rightarrow> doc" where
  "declared_deps t = (case map_of (items t) ''depends_on'' of None \<Rightarrow> DList [] | Some v \<Rightarrow> v)"

section \<open>One task\<close>

definition filled :: "string option \<Rightarrow> bool" where
  "filled s = (case s of None \<Rightarrow> False | Some x \<Rightarrow> x \<noteq> [])"

text \<open>The task row belongs to the cycle, matches its declaration and is finished.\<close>

definition task_is_declared :: "cycle_row \<Rightarrow> nat \<Rightarrow> task_row \<Rightarrow> doc \<Rightarrow> bool" where
  "task_is_declared c index t decl =
    (tr_index t = index \<and> map_of (items decl) ''id'' = Some (DStr (tr_task t)) \<and>
     tr_thread t = cy_thread c \<and> tr_cycle_id t = cy_cycle_id c \<and> tr_workflow_id t = cy_workflow_id c \<and>
     strs (tr_deps t) = declared_deps decl \<and> tr_status t = DONE \<and> tr_phase t = DONE \<and>
     filled (tr_plan t) \<and> tr_waiting t = None \<and> tr_clarification t = None)"

definition plan_is_approved :: "digest \<Rightarrow> cycle_row \<Rightarrow> task_row \<Rightarrow> plan_row \<Rightarrow> bool" where
  "plan_is_approved sha c t p =
    (pl_task_run p = tr_id t \<and> pl_cycle p = cy_id c \<and> pl_task p = tr_task t \<and> 1 \<le> pl_version p \<and>
     sha (strip (pl_text p)) = pl_digest p \<and> 0 < pl_comment p \<and> pl_status p = APPROVED \<and>
     filled (pl_approved_at p) \<and> filled (pl_approved_by p) \<and> filled (pl_approval_event p))"

definition same_location :: "source_event \<Rightarrow> source_event \<Rightarrow> bool" where
  "same_location e root = (ev_surface e = ev_surface root \<and> ev_subject e = ev_subject root)"

text \<open>The GitHub event behind a human approval.\<close>

definition human_event_ok ::
  "source_event option \<Rightarrow> source_event \<Rightarrow> string option \<Rightarrow> string option \<Rightarrow> string \<Rightarrow> bool" where
  "human_event_ok event root by at posted_at =
    (case event of
       None \<Rightarrow> False
     | Some e \<Rightarrow> ev_author e = by \<and> ev_created_at e = at \<and>
         (case ev_created_at e of None \<Rightarrow> False | Some s \<Rightarrow> posted_at < s) \<and>
         is_exact_agent_approval (ev_body e) \<and> same_location e root)"

definition same_review_thread :: "source_event option \<Rightarrow> source_event \<Rightarrow> bool" where
  "same_review_thread event root =
    (case event of
       None \<Rightarrow> True
     | Some e \<Rightarrow> \<not> (ev_surface root = PR_INLINE_REVIEW \<and> ev_review_root e \<noteq> ev_review_root root))"

definition runs_of :: "doc \<Rightarrow> string \<Rightarrow> doc" where
  "runs_of evidence k = dget (items evidence) k"

definition execution_proof :: "cycle_row \<Rightarrow> permit_row \<Rightarrow> execution_row \<Rightarrow> bool" where
  "execution_proof c q x = (ex_cycle x = cy_id c \<and> ex_permit x = pm_id q \<and> ex_succeeded x \<and>
     is_map (ex_evidence x) \<and> is_list (runs_of (ex_evidence x) ''tool_observations''))"

definition validation_proof :: "cycle_row \<Rightarrow> plan_row \<Rightarrow> execution_row \<Rightarrow> validation_row \<Rightarrow> bool" where
  "validation_proof c p x v = (va_cycle v = cy_id c \<and> va_plan v = pl_id p \<and> va_attempt v = ex_attempt x \<and>
     va_verdict v = ACCEPT \<and> is_map (va_evidence v) \<and>
     is_list (runs_of (va_evidence v) ''validation_runs'') \<and> elems (runs_of (va_evidence v) ''validation_runs'') \<noteq> [])"

definition approval_proof ::
  "cycle_row \<Rightarrow> task_row \<Rightarrow> plan_row \<Rightarrow> execution_row \<Rightarrow> validation_row \<Rightarrow> result_row \<Rightarrow> result_approval_row \<Rightarrow> bool" where
  "approval_proof c t p x v r a = (\<not> starts_with (re_occurrence r) ''plan-approval:'' \<and>
     ra_task_run a = tr_id t \<and> ra_cycle a = cy_id c \<and> ra_plan a = pl_id p \<and> ra_execution a = ex_id x \<and>
     ra_validation a = va_id v \<and> ra_occurrence a = re_occurrence r)"

text \<open>Who authorised the plan and the result, under the thread's mode.\<close>

definition authority_proof ::
  "db \<Rightarrow> source_event \<Rightarrow> approval_mode \<Rightarrow> plan_row \<Rightarrow> permit_row \<Rightarrow> result_row \<Rightarrow> result_approval_row \<Rightarrow> bool" where
  "authority_proof d root mode p q r a =
    (pm_mode q = mode \<and> ra_mode a = mode \<and>
     (case mode of
        BY_HUMAN \<Rightarrow>
          let plan_event = event_of d (text_or_empty (pl_approval_event p));
              result_event = (case ra_event a of None \<Rightarrow> None | Some k \<Rightarrow> event_of d k)
          in human_event_ok plan_event root (pl_approved_by p) (pl_approved_at p) (pl_posted_at p) \<and>
             same_review_thread plan_event root \<and>
             human_event_ok result_event root (Some (ra_by a)) (Some (ra_approved_at a)) (re_posted_at r) \<and>
             same_review_thread result_event root
      | BY_AUTO \<Rightarrow>
          pm_by q = AUTO_POLICY \<and> starts_auto_authority (pm_event q) \<and>
          ra_event a = None \<and> ra_by a = AUTO_POLICY))"

definition task_acceptance ::
  "digest \<Rightarrow> db \<Rightarrow> cycle_row \<Rightarrow> source_event \<Rightarrow> approval_mode \<Rightarrow> nat \<Rightarrow> task_row \<Rightarrow> doc \<Rightarrow>
   (plan_row \<times> execution_row \<times> validation_row) option" where
  "task_acceptance sha d c root mode index t decl =
    (if \<not> task_is_declared c index t decl then None
     else case current_plan d t of
       None \<Rightarrow> None
     | Some p \<Rightarrow>
         if \<not> plan_is_approved sha c t p then None
         else
           (case (latest_by ex_completed_at (filter (\<lambda>x. ex_task_run x = tr_id t \<and> ex_plan x = pl_id p
                     \<and> ex_attempt x = tr_attempt t) (executions d)),
                  last_validation d (tr_id t), live_permit_for d (tr_id t) p) of
              (Some x, Some v, Some q) \<Rightarrow>
                (case find (\<lambda>r. re_task_run r = tr_id t \<and> re_plan r = pl_id p \<and> re_execution r = ex_id x
                              \<and> re_validation r = va_id v) (results d) of
                   None \<Rightarrow> None
                 | Some r \<Rightarrow>
                     (case find (\<lambda>a. ra_result a = re_id r \<and> ra_invalidated a = None) (approvals d) of
                        None \<Rightarrow> None
                      | Some a \<Rightarrow>
                          if pm_cycle q = cy_id c \<and> Some (pm_event q) = pl_approval_event p
                             \<and> Some (pm_by q) = pl_approved_by p \<and> authority_proof d root mode p q r a
                             \<and> execution_proof c q x \<and> validation_proof c p x v \<and> approval_proof c t p x v r a
                          then Some (p, x, v) else None))
            | _ \<Rightarrow> None))"

text \<open>The loop over the tasks; it keeps the latest completion time and the last task's proof.\<close>

fun tasks_acceptance ::
  "digest \<Rightarrow> db \<Rightarrow> cycle_row \<Rightarrow> source_event \<Rightarrow> approval_mode \<Rightarrow> nat \<Rightarrow> (task_row \<times> doc) list \<Rightarrow>
   string \<times> (plan_row \<times> execution_row \<times> validation_row) option \<Rightarrow>
   (string \<times> (plan_row \<times> execution_row \<times> validation_row) option) option" where
  "tasks_acceptance sha d c root mode index [] acc = Some acc"
| "tasks_acceptance sha d c root mode index ((t, decl) # rest) acc =
    (case task_acceptance sha d c root mode index t decl of
       None \<Rightarrow> None
     | Some (p, x, v) \<Rightarrow>
         tasks_acceptance sha d c root mode (Suc index) rest (max (fst acc) (ex_completed_at x), Some (p, x, v)))"

section \<open>The publication target\<close>

record publication_target =
  pt_id :: string
  pt_event :: string
  pt_thread :: string
  pt_cycle_id :: nat
  pt_root_input :: string
  pt_repo_id :: int
  pt_repo_full_name :: string
  pt_issue_number :: int
  pt_branch :: string
  pt_plan :: string
  pt_plan_version :: nat
  pt_attempt :: string
  pt_review :: string
  pt_completed_at :: string
  pt_workflow_cycle :: "string option"
  pt_declarative :: bool

definition publication_root :: "db \<Rightarrow> string \<Rightarrow> source_event option" where
  "publication_root d root_input =
    (case event_of d root_input of
       Some e \<Rightarrow> Some e
     | None \<Rightarrow>
         (case (if starts_with root_input ''deferred-''
                then (case lookup df_id root_input (deferred d) of
                        None \<Rightarrow> None | Some f \<Rightarrow> event_of d (df_event f))
                else None) of
            Some e \<Rightarrow> Some e
          | None \<Rightarrow>
              if starts_with root_input ''revision-input-''
              then (case revision_input_of d root_input of
                      None \<Rightarrow> None | Some r \<Rightarrow> event_of d (ri_event r))
              else None))"

text \<open>The initial workflow is complete, and a revision cycle is derived from exactly that workflow.\<close>

definition initial_authority :: "db \<Rightarrow> string \<Rightarrow> cycle_row \<Rightarrow> bool" where
  "initial_authority d thread_id c =
    (case lifecycle_of d thread_id of
       None \<Rightarrow> False
     | Some l \<Rightarrow> li_state l \<in> {COMPLETE, L_PUBLISHED} \<and>
         (case (case li_cycle l of None \<Rightarrow> None | Some k \<Rightarrow> cycle_of d k) of
            None \<Rightarrow> False
          | Some i \<Rightarrow> cy_thread i = thread_id \<and> cy_kind i = INITIAL \<and> Some (cy_digest i) = li_digest l \<and>
              cy_status i \<in> {C_AWAITING_PUBLICATION, C_PUBLISHED} \<and>
              (cy_kind c = REVISION \<longrightarrow>
                 cy_spec_ref c = Some (''derived:'' @ cy_id i @ '':'' @ cy_digest i) \<and>
                 cy_workflow_id c = ''revision-'' @ take 16 (cy_digest i) \<and> cy_revision_sequence c \<noteq> None)))"

definition publishable_cycle :: "db \<Rightarrow> string \<Rightarrow> cycle_row option" where
  "publishable_cycle d thread_id =
    (if list_ex (\<lambda>r. ri_thread r = thread_id \<and> ri_status r = I_PENDING) (revision_inputs d) then None
     else case latest_cycle d thread_id of
       None \<Rightarrow> None
     | Some c \<Rightarrow> if cy_status c = C_AWAITING_PUBLICATION \<and> cy_active c = None \<and> initial_authority d thread_id c
                 then Some c else None)"

definition declarative_publication_target :: "digest \<Rightarrow> db \<Rightarrow> string \<Rightarrow> publication_target option" where
  "declarative_publication_target sha d thread_id =
    (case publishable_cycle d thread_id of
       None \<Rightarrow> None
     | Some c \<Rightarrow>
         (case declared_tasks sha c of
            None \<Rightarrow> None
          | Some declared \<Rightarrow>
              (case declared_ids declared of
                 None \<Rightarrow> None
               | Some ids \<Rightarrow>
                   let ts = task_runs d (cy_id c) in
                   if \<not> distinct ids \<or> length ts \<noteq> length ids then None
                   else
                     (case (publication_root d (cy_root_input c), thread_of d thread_id) of
                        (Some root, Some th) \<Rightarrow>
                          (case tasks_acceptance sha d c root (expected_mode (th_mode th)) 0 (zip ts declared) ([], None) of
                             Some (completed, Some (p, x, v)) \<Rightarrow>
                               (case workspace_of d thread_id of
                                  None \<Rightarrow> None
                                | Some w \<Rightarrow> Some
                                    \<lparr>pt_id = publication_id_for sha thread_id (cy_cycle_id c) (cy_root_input c),
                                     pt_event = ev_key root, pt_thread = thread_id, pt_cycle_id = cy_cycle_id c,
                                     pt_root_input = cy_root_input c, pt_repo_id = th_repo_id th,
                                     pt_repo_full_name = th_repo_full_name th,
                                     pt_issue_number = th_issue_number th, pt_branch = wk_branch w,
                                     pt_plan = pl_id p, pt_plan_version = pl_version p, pt_attempt = ex_id x,
                                     pt_review = va_id v, pt_completed_at = completed,
                                     pt_workflow_cycle = Some (cy_id c), pt_declarative = True\<rparr>)
                           | _ \<Rightarrow> None)
                      | _ \<Rightarrow> None))))"

text \<open>
  \<open>_publication_target\<close>: once a thread has a declarative cycle, the earlier workflow has no say.
  What that workflow answers for the other threads is the argument \<open>legacy\<close>.
\<close>

definition target_of ::
  "digest \<Rightarrow> (db \<Rightarrow> string \<Rightarrow> publication_target option) \<Rightarrow> db \<Rightarrow> string \<Rightarrow> publication_target option" where
  "target_of sha legacy d thread_id =
    (case declarative_publication_target sha d thread_id of
       Some t \<Rightarrow> Some t
     | None \<Rightarrow> if has_declarative d thread_id then None else legacy d thread_id)"

end
