(* ===== verification/Publishing.thy ===== *)
theory Publishing
  imports Publication
begin

text \<open>
  The rows of \<open>logical_publications\<close>: ensuring, updating, retrying and finalizing a publication, the
  choice of the next one, and the accepted material of the cycles it covers.
\<close>

section \<open>Publication rows\<close>

abbreviation publication_for_id :: "db \<Rightarrow> string \<Rightarrow> publication_row option" where
  "publication_for_id d k \<equiv> lookup pb_id k (publications d)"

definition resumable :: "publication_status \<Rightarrow> bool" where
  "resumable s = (s \<in> {P_PENDING, COMMITTED, PUSHED, PR_CREATED, COMMENTED})"

definition insert_publication :: "publication_row \<Rightarrow> db \<Rightarrow> err + db" where
  "insert_publication r d =
    (if has pb_id (pb_id r) (publications d)
        \<or> has (\<lambda>p. (pb_thread p, pb_cycle_id p, pb_root_input p)) (pb_thread r, pb_cycle_id r, pb_root_input r) (publications d)
        \<or> \<not> has ev_key (pb_event r) (events d) \<or> \<not> has th_id (pb_thread r) (threads d)
     then Inl (IntegrityError ''logical_publications'')
     else Inr (d\<lparr>publications := publications d @ [r]\<rparr>))"

definition new_publication :: "publication_target \<Rightarrow> publication_row" where
  "new_publication t =
     \<lparr>pb_id = pt_id t, pb_event = pt_event t, pb_thread = pt_thread t, pb_cycle_id = pt_cycle_id t,
      pb_root_input = pt_root_input t, pb_repo_id = pt_repo_id t, pb_repo_full_name = pt_repo_full_name t,
      pb_issue_number = pt_issue_number t, pb_status = P_PENDING, pb_branch = pt_branch t,
      pb_local_sha = None, pb_remote_sha = None, pb_pr_number = None, pb_pr_url = None,
      pb_comment = None, pb_error = None\<rparr>"

type_synonym legacy_target = "db \<Rightarrow> string \<Rightarrow> publication_target option"

definition ensure_publication :: "digest \<Rightarrow> legacy_target \<Rightarrow> string \<Rightarrow> (db, publication_row option) op" where
  "ensure_publication sha legacy thread_id d =
     and_then (commit d
       (case target_of sha legacy d thread_id of
          None \<Rightarrow> Inl (ValueError ''publication is blocked until a matching ACCEPT review'')
        | Some t \<Rightarrow>
            if has pb_id (pt_id t) (publications d) then Inr (pt_id t, d)
            else bindE (insert_publication (new_publication t) d) (\<lambda>d1. Inr (pt_id t, d1))))
       (\<lambda>k d1. return (publication_for_id d1 k) d1)"

definition publication_is_current :: "digest \<Rightarrow> legacy_target \<Rightarrow> db \<Rightarrow> string \<Rightarrow> bool" where
  "publication_is_current sha legacy d publication_id =
    (case publication_for_id d publication_id of
       None \<Rightarrow> False
     | Some r \<Rightarrow> map_option pt_id (target_of sha legacy d (pb_thread r)) = Some publication_id)"

text \<open>The keyword arguments of \<open>update_publication\<close>; any other name is rejected.\<close>

datatype publication_field =
    Local_Commit_Sha "string option" | Remote_Commit_Sha "string option" | Pr_Number "int option"
  | Pr_Url "string option" | Comment_Id "int option" | Error_Message "string option" | Unknown_Field string

fun known_field :: "publication_field \<Rightarrow> bool" where
  "known_field (Unknown_Field s) = False"
| "known_field f = True"

fun assign_field :: "publication_field \<Rightarrow> publication_row \<Rightarrow> publication_row" where
  "assign_field (Local_Commit_Sha v) r = r\<lparr>pb_local_sha := v\<rparr>"
| "assign_field (Remote_Commit_Sha v) r = r\<lparr>pb_remote_sha := v\<rparr>"
| "assign_field (Pr_Number v) r = r\<lparr>pb_pr_number := v\<rparr>"
| "assign_field (Pr_Url v) r = r\<lparr>pb_pr_url := v\<rparr>"
| "assign_field (Comment_Id v) r = r\<lparr>pb_comment := v\<rparr>"
| "assign_field (Error_Message v) r = r\<lparr>pb_error := v\<rparr>"
| "assign_field (Unknown_Field s) r = r"

definition update_publication ::
  "string \<Rightarrow> publication_status \<Rightarrow> publication_field list \<Rightarrow> (db, publication_row option) op" where
  "update_publication publication_id status assignments d =
    (if \<not> list_all known_field assignments then raise (ValueError ''unknown publication fields'') d
     else
       let p = (\<lambda>r. pb_id r = publication_id) in
       if rowcount p (publications d) \<noteq> 1 then raise (ValueError ''publication does not exist'') d
       else
         let d1 = d\<lparr>publications := update_where p (\<lambda>r. fold assign_field assignments (r\<lparr>pb_status := status\<rparr>)) (publications d)\<rparr>
         in return (publication_for_id d1 publication_id) d1)"

definition retry_publication :: "string \<Rightarrow> (db, publication_row option) op" where
  "retry_publication publication_id d =
    (case publication_for_id d publication_id of
       None \<Rightarrow> raise (ValueError ''publication does not exist'') d
     | Some r \<Rightarrow>
         if pb_status r \<noteq> P_FAILED then raise (ValueError ''only failed publications can be retried'') d
         else update_publication publication_id P_PENDING [Error_Message None] d)"

text \<open>
  \<open>next_publication\<close>: the candidates are the threads waiting for publication in either workflow
  (\<open>legacy_waiting\<close> names those of the earlier one), in the order of their ids.
\<close>

definition publication_candidates ::
  "digest \<Rightarrow> legacy_target \<Rightarrow> string list \<Rightarrow> db \<Rightarrow> string option \<Rightarrow> publication_target list" where
  "publication_candidates sha legacy legacy_waiting d publication_id =
    (let ths = sort (remdups (legacy_waiting @
           map cy_thread (filter (\<lambda>c. cy_status c = C_AWAITING_PUBLICATION) (cycles d))));
         ts = concat (map (\<lambda>k. case target_of sha legacy d k of None \<Rightarrow> [] | Some t \<Rightarrow> [t]) ths)
     in filter (\<lambda>t. (case publication_id of None \<Rightarrow> True | Some k \<Rightarrow> pt_id t = k) \<and>
          (case publication_for_id d (pt_id t) of None \<Rightarrow> True | Some r \<Rightarrow> resumable (pb_status r))) ts)"

definition next_publication ::
  "digest \<Rightarrow> legacy_target \<Rightarrow> string list \<Rightarrow> string option \<Rightarrow> (db, publication_row option) op" where
  "next_publication sha legacy legacy_waiting publication_id d =
    (case order_by (\<lambda>t. (pt_completed_at t, pt_id t))
            (publication_candidates sha legacy legacy_waiting d publication_id) of
       [] \<Rightarrow> return None d
     | t # ts \<Rightarrow> ensure_publication sha legacy (pt_thread t) d)"

section \<open>Closing a lifecycle\<close>

text \<open>\<open>INSERT ... ON CONFLICT DO NOTHING\<close> of the learning and the resolution job.\<close>

definition no_case :: resolved_case where
  "no_case = \<lparr>rc_task = [], rc_symptom = [], rc_cause = [], rc_fix = [], rc_components = [], rc_changed = [],
     rc_validation = [], rc_terms = [], rc_limitations = []\<rparr>"

definition new_learning :: "digest \<Rightarrow> string \<Rightarrow> publication_target \<Rightarrow> learning_row" where
  "new_learning sha now t =
     \<lparr>jb_id = memory_learning_id_for sha (pt_thread t) (pt_cycle_id t) (pt_root_input t), jb_event = pt_event t,
      jb_thread = pt_thread t, jb_cycle_id = pt_cycle_id t, jb_root_input = pt_root_input t, jb_repo_id = pt_repo_id t,
      jb_status = J_PENDING, jb_attempts = 0, jb_error = None, jb_created_at = now, jb_updated_at = now,
      le_accepted = 0, le_rejected = 0, le_proposal = ''{}''\<rparr>"

definition metadata_of :: "db \<Rightarrow> int \<Rightarrow> int \<Rightarrow> metadata_row option" where
  "metadata_of d repo_id number = find (\<lambda>m. im_repo m = repo_id \<and> im_issue m = number) (issue_metadata d)"

definition new_resolution :: "digest \<Rightarrow> string \<Rightarrow> publication_target \<Rightarrow> string \<Rightarrow> db \<Rightarrow> resolution_row" where
  "new_resolution sha now t publication_id d =
     \<lparr>jb_id = resolution_id_for sha (pt_thread t) (pt_cycle_id t) (pt_root_input t), jb_event = pt_event t,
      jb_thread = pt_thread t, jb_cycle_id = pt_cycle_id t, jb_root_input = pt_root_input t, jb_repo_id = pt_repo_id t,
      jb_status = J_PENDING, jb_attempts = 0, jb_error = None, jb_created_at = now, jb_updated_at = now,
      rs_issue = pt_issue_number t,
      rs_title = (case metadata_of d (pt_repo_id t) (pt_issue_number t) of None \<Rightarrow> [] | Some m \<Rightarrow> im_title m),
      rs_description = (case metadata_of d (pt_repo_id t) (pt_issue_number t) of None \<Rightarrow> [] | Some m \<Rightarrow> im_body m),
      rs_case = no_case, rs_plan = Some (pt_plan t), rs_publication = Some publication_id, rs_commit = None,
      rs_pr_number = None, rs_pr_url = None\<rparr>"

definition add_job :: "'a job_row_scheme \<Rightarrow> 'a job_row_scheme list \<Rightarrow> 'a job_row_scheme list" where
  "add_job j js = (if has jb_id (jb_id j) js then js else js @ [j])"

definition enqueue_jobs :: "digest \<Rightarrow> string \<Rightarrow> publication_target \<Rightarrow> string \<Rightarrow> db \<Rightarrow> db" where
  "enqueue_jobs sha now t publication_id d = d\<lparr>
     learning_jobs := add_job (new_learning sha now t) (learning_jobs d),
     resolution_jobs := add_job (new_resolution sha now t publication_id d) (resolution_jobs d)\<rparr>"

definition close_cycles :: "publication_target \<Rightarrow> string \<Rightarrow> db \<Rightarrow> db" where
  "close_cycles t k d = d\<lparr>
     cycles := update_where (\<lambda>c. cy_status c = C_AWAITING_PUBLICATION \<and>
         (cy_id c = k \<and> cy_active c = None \<or> cy_thread c = pt_thread t \<and> cy_cycle_id c < pt_cycle_id t))
       (\<lambda>c. c\<lparr>cy_status := C_PUBLISHED\<rparr>) (cycles d),
     lifecycles := update_where (\<lambda>l. li_thread l = pt_thread t \<and> li_state l \<in> {COMPLETE, L_PUBLISHED})
       (\<lambda>l. l\<lparr>li_state := L_PUBLISHED\<rparr>) (lifecycles d)\<rparr>"

definition close_declarative :: "publication_target \<Rightarrow> string \<Rightarrow> db \<Rightarrow> err + db" where
  "close_declarative t k d =
    (if rowcount (\<lambda>c. cy_id c = k \<and> cy_status c = C_AWAITING_PUBLICATION \<and> cy_active c = None) (cycles d) \<noteq> 1
     then Inl (ValueError ''workflow state changed during finalization'')
     else if rowcount (\<lambda>l. li_thread l = pt_thread t \<and> li_state l \<in> {COMPLETE, L_PUBLISHED}) (lifecycles d) \<noteq> 1
     then Inl (ValueError ''initial workflow publication state is missing'')
     else Inr (close_cycles t k d))"

text \<open>
  What the earlier workflow changes in its own tables for a target of its own is the argument
  \<open>legacy_close\<close>.
\<close>

definition finalize_publication ::
  "digest \<Rightarrow> legacy_target \<Rightarrow> (publication_target \<Rightarrow> db \<Rightarrow> err + db) \<Rightarrow> string \<Rightarrow> string \<Rightarrow> (db, learning_row option) op" where
  "finalize_publication sha legacy legacy_close now publication_id d =
     and_then (commit d
       (case publication_for_id d publication_id of
          None \<Rightarrow> Inl (ValueError ''publication does not exist'')
        | Some r \<Rightarrow>
            if pb_status r \<notin> {COMPLETED, NO_CHANGES}
            then Inl (ValueError ''publication has no publishable outcome yet'')
            else
              (case target_of sha legacy d (pb_thread r) of
                 None \<Rightarrow> Inl (ValueError ''publication is stale for the current workflow cycle'')
               | Some t \<Rightarrow>
                   if pt_id t \<noteq> publication_id
                   then Inl (ValueError ''publication is stale for the current workflow cycle'')
                   else bindE (case pt_workflow_cycle t of
                            Some k \<Rightarrow> if pt_declarative t then close_declarative t k d else legacy_close t d
                          | None \<Rightarrow> legacy_close t d)
                     (\<lambda>d1. Inr (memory_learning_id_for sha (pt_thread t) (pt_cycle_id t) (pt_root_input t),
                        enqueue_jobs sha now t publication_id d1)))))
       (\<lambda>k d1. return (lookup jb_id k (learning_jobs d1)) d1)"

section \<open>Accepted material\<close>

record accepted_task =
  ac_cycle_id :: nat
  ac_cycle :: string
  ac_kind :: cycle_kind
  ac_revision :: "nat option"
  ac_task :: string
  ac_index :: nat
  ac_plan :: string
  ac_plan_text :: string
  ac_execution :: string
  ac_execution_summary :: string
  ac_validation :: string
  ac_validation_summary :: string

definition material_authority :: "permit_row \<Rightarrow> result_approval_row \<Rightarrow> bool" where
  "material_authority q a = (ra_mode a = pm_mode q \<and>
     (case ra_mode a of
        BY_AUTO \<Rightarrow> ra_event a = None \<and> ra_by a = AUTO_POLICY \<and> pm_by q = AUTO_POLICY
          \<and> starts_auto_authority (pm_event q)
      | BY_HUMAN \<Rightarrow> filled (ra_event a)))"

definition accepted_task_material :: "digest \<Rightarrow> db \<Rightarrow> cycle_row \<Rightarrow> nat \<Rightarrow> task_row \<Rightarrow> doc \<Rightarrow> accepted_task option" where
  "accepted_task_material sha d c index t decl =
    (if \<not> task_is_declared c index t decl then None
     else case current_plan d t of
       None \<Rightarrow> None
     | Some p \<Rightarrow>
         if \<not> plan_is_approved sha c t p then None
         else
           (case (exact_execution d (tr_id t) (Some (pl_id p)) (tr_attempt t),
                  find (\<lambda>v. va_task_run v = tr_id t \<and> va_plan v = pl_id p \<and> va_attempt v = tr_attempt t
                          \<and> va_round v = tr_round t) (validations d)) of
              (Some x, Some v) \<Rightarrow>
                (case (find (\<lambda>q. pm_id q = ex_permit x \<and> pm_invalidated q = None) (permits d),
                       find (\<lambda>r. re_task_run r = tr_id t \<and> re_plan r = pl_id p \<and> re_execution r = ex_id x
                               \<and> re_validation r = va_id v) (results d)) of
                   (Some q, Some r) \<Rightarrow>
                     (case find (\<lambda>a. ra_result a = re_id r \<and> ra_invalidated a = None) (approvals d) of
                        None \<Rightarrow> None
                      | Some a \<Rightarrow>
                          if pm_task_run q = tr_id t \<and> pm_cycle q = cy_id c \<and> pm_plan q = pl_id p
                             \<and> pm_version q = pl_version p \<and> pm_digest q = pl_digest p
                             \<and> execution_proof c q x \<and> validation_proof c p x v
                             \<and> re_cycle r = cy_id c \<and> 0 < re_comment r
                             \<and> approval_proof c t p x v r a \<and> material_authority q a
                          then Some \<lparr>ac_cycle_id = cy_cycle_id c, ac_cycle = cy_id c, ac_kind = cy_kind c,
                              ac_revision = cy_revision_sequence c, ac_task = tr_task t, ac_index = tr_index t,
                              ac_plan = pl_id p, ac_plan_text = pl_text p, ac_execution = ex_id x,
                              ac_execution_summary = ex_summary x, ac_validation = va_id v,
                              ac_validation_summary = va_summary v\<rparr>
                          else None)
                 | _ \<Rightarrow> None)
            | _ \<Rightarrow> None))"

fun accepted_tasks :: "digest \<Rightarrow> db \<Rightarrow> cycle_row \<Rightarrow> nat \<Rightarrow> (task_row \<times> doc) list \<Rightarrow> accepted_task list option" where
  "accepted_tasks sha d c index [] = Some []"
| "accepted_tasks sha d c index ((t, decl) # rest) =
    (case accepted_task_material sha d c index t decl of
       None \<Rightarrow> None
     | Some m \<Rightarrow> map_option (Cons m) (accepted_tasks sha d c (Suc index) rest))"

definition accepted_cycle_material :: "digest \<Rightarrow> db \<Rightarrow> cycle_row \<Rightarrow> accepted_task list option" where
  "accepted_cycle_material sha d c =
    (if cy_status c \<notin> {C_AWAITING_PUBLICATION, C_PUBLISHED} then None
     else case declared_tasks sha c of
       None \<Rightarrow> None
     | Some declared \<Rightarrow>
         let ts = task_runs d (cy_id c) in
         if length ts \<noteq> length declared then None else accepted_tasks sha d c 0 (zip ts declared))"

definition accepted_lifecycle_material :: "digest \<Rightarrow> db \<Rightarrow> string \<Rightarrow> nat \<Rightarrow> nat option \<Rightarrow> accepted_task list" where
  "accepted_lifecycle_material sha d thread_id first_id last_id =
     concat (map (\<lambda>c. case accepted_cycle_material sha d c of None \<Rightarrow> [] | Some m \<Rightarrow> m)
       (order_by cy_cycle_id (filter (\<lambda>c. cy_thread c = thread_id \<and> first_id \<le> cy_cycle_id c \<and>
          (case last_id of None \<Rightarrow> True | Some n \<Rightarrow> cy_cycle_id c \<le> n)) (cycles d))))"

record publication_generation =
  pg_publication :: string
  pg_thread :: string
  pg_first :: nat
  pg_last :: nat
  pg_cycles :: "nat list"
  pg_previous :: "string option"
  pg_previous_sha :: "string option"

text \<open>The rows of publications whose lifecycle has been finalized: the join with the learning jobs.\<close>

definition finalized :: "db \<Rightarrow> publication_row \<Rightarrow> bool" where
  "finalized d p = list_ex (\<lambda>j. jb_thread j = pb_thread p \<and> jb_cycle_id j = pb_cycle_id p
     \<and> jb_root_input j = pb_root_input p) (learning_jobs d)"

definition previous_publication :: "db \<Rightarrow> publication_row \<Rightarrow> publication_row option" where
  "previous_publication d p = latest_by pb_cycle_id (filter (\<lambda>q. finalized d q \<and> pb_thread q = pb_thread p
     \<and> pb_cycle_id q < pb_cycle_id p \<and> pb_status q \<in> {COMPLETED, NO_CHANGES}) (publications d))"

definition previous_commit :: "db \<Rightarrow> publication_row \<Rightarrow> string option" where
  "previous_commit d p =
    (case previous_publication d p of
       None \<Rightarrow> None
     | Some q \<Rightarrow>
         if filled (pb_remote_sha q) then pb_remote_sha q
         else case latest_by pb_cycle_id (filter (\<lambda>q. finalized d q \<and> pb_thread q = pb_thread p
                \<and> pb_cycle_id q < pb_cycle_id p \<and> pb_remote_sha q \<noteq> None) (publications d)) of
           None \<Rightarrow> None | Some q \<Rightarrow> pb_remote_sha q)"

definition publication_generation :: "digest \<Rightarrow> db \<Rightarrow> string \<Rightarrow> err + publication_generation" where
  "publication_generation sha d publication_id =
    (case publication_for_id d publication_id of
       None \<Rightarrow> Inl (ValueError ''publication does not exist'')
     | Some p \<Rightarrow>
         if \<not> finalized d p then Inl (ValueError ''publication has not been finalized'')
         else
           let boundary = (case previous_publication d p of None \<Rightarrow> 0 | Some q \<Rightarrow> pb_cycle_id q);
               cs = order_by cy_cycle_id (filter (\<lambda>c. cy_thread c = pb_thread p \<and> boundary < cy_cycle_id c
                      \<and> cy_cycle_id c \<le> pb_cycle_id p) (cycles d));
               ids = (if cs = [] then [pb_cycle_id p] else map cy_cycle_id cs)
           in if cs \<noteq> [] \<and> ids \<noteq> [Suc boundary..<Suc (pb_cycle_id p)]
              then Inl (ValueError ''publication generation has a cycle gap'')
              else if list_ex (\<lambda>c. accepted_cycle_material sha d c = None) cs
              then Inl (ValueError ''publication generation contains an unaccepted cycle'')
              else Inr \<lparr>pg_publication = publication_id, pg_thread = pb_thread p, pg_first = Suc boundary,
                   pg_last = pb_cycle_id p, pg_cycles = ids,
                   pg_previous = map_option pb_id (previous_publication d p),
                   pg_previous_sha = previous_commit d p\<rparr>)"

end
