(* ===== verification/Publication_Properties.thy ===== *)
theory Publication_Properties
  imports Publishing Example_Thread
begin

text \<open>
  What the publication layer guarantees: its own proof of acceptance implies the runtime's, a
  pending suggestion blocks it, and a cycle is finalized once.
\<close>

section \<open>The publication proof refines the runtime's\<close>

text \<open>A task run has at most one permit that was not withdrawn.\<close>

definition one_live_permit :: "db \<Rightarrow> bool" where
  "one_live_permit d = list_all (\<lambda>t. length (filter (\<lambda>q. pm_task_run q = tr_id t \<and> pm_invalidated q = None) (permits d)) \<le> 1)
     (tasks d)"

lemma live_permit_is_found:
  assumes "one_live_permit d" "t \<in> set (tasks d)" "live_permit_for d (tr_id t) p = Some q"
  shows "find (\<lambda>m. pm_task_run m = tr_id t \<and> pm_plan m = pl_id p \<and> pm_version m = pl_version p \<and>
    pm_digest m = pl_digest p \<and> pm_invalidated m = None) (permits d) = Some q"
proof -
  let ?live = "filter (\<lambda>q. pm_task_run q = tr_id t \<and> pm_invalidated q = None) (permits d)"
  let ?P = "\<lambda>m. pm_task_run m = tr_id t \<and> pm_plan m = pl_id p \<and> pm_version m = pl_version p \<and>
    pm_digest m = pl_digest p \<and> pm_invalidated m = None"
  have q: "q \<in> set (permits d)" "?P q" using live_permit_SomeD [OF assms(3)] by auto
  then have "find ?P (permits d) \<noteq> None" by (auto simp: find_None_iff)
  then obtain m where m: "find ?P (permits d) = Some m" by blast
  from find_SomeD [OF this] have mq: "m \<in> set ?live" "q \<in> set ?live" using q by auto
  have "length ?live \<le> 1" using assms(1,2) unfolding one_live_permit_def list_all_iff by blast
  with mq have "m = q" by (cases ?live) auto
  with m show ?thesis by simp
qed

lemma latest_is_exact:
  assumes "tables_ok d" "latest_by ex_completed_at (filter (\<lambda>x. ex_task_run x = k \<and> ex_plan x = pid \<and> ex_attempt x = n)
    (executions d)) = Some x"
  shows "exact_execution d k (Some pid) n = Some x"
proof -
  let ?P = "\<lambda>x. ex_task_run x = k \<and> Some (ex_plan x) = Some pid \<and> ex_attempt x = n"
  from assms(2) have x: "x \<in> set (executions d)" "?P x" by (auto dest: latest_by_SomeD)
  then have "find ?P (executions d) \<noteq> None" by (auto simp: find_None_iff)
  then obtain y where y: "find ?P (executions d) = Some y" by blast
  from find_SomeD [OF this] x have "y = x" using key_unique(3) [OF assms(1)] by metis
  with y show ?thesis by (simp add: exact_execution_def)
qed

lemma accepted_is_publishable:
  assumes "task_acceptance sha d c root mode i t decl = Some (p, x, v)" "tables_ok d" "one_live_permit d" "t \<in> set (tasks d)"
  shows "current_plan d t = Some p \<and> pl_status p = APPROVED \<and> sha (strip (pl_text p)) = pl_digest p \<and>
    tr_status t = DONE \<and> tr_thread t = cy_thread c \<and> task_publishable sha d t p mode"
proof -
  obtain q r a where dec: "task_is_declared c i t decl" and p: "current_plan d t = Some p" "plan_is_approved sha c t p"
    and x: "latest_by ex_completed_at (filter (\<lambda>x. ex_task_run x = tr_id t \<and> ex_plan x = pl_id p
              \<and> ex_attempt x = tr_attempt t) (executions d)) = Some x"
    and v: "last_validation d (tr_id t) = Some v" and q: "live_permit_for d (tr_id t) p = Some q"
    and r: "find (\<lambda>r. re_task_run r = tr_id t \<and> re_plan r = pl_id p \<and> re_execution r = ex_id x
              \<and> re_validation r = va_id v) (results d) = Some r"
    and a: "find (\<lambda>a. ra_result a = re_id r \<and> ra_invalidated a = None) (approvals d) = Some a"
    and ok: "authority_proof d root mode p q r a" "execution_proof c q x" "validation_proof c p x v"
      "approval_proof c t p x v r a"
    using assms(1) by (auto simp: task_acceptance_def split: if_split_asm option.split_asm)
  note q' = live_permit_is_found [OF assms(3,4) q] and x' = latest_is_exact [OF assms(2) x]
  have "task_publishable sha d t p mode"
    using ok by (simp add: task_publishable_def x' v q' r a authority_proof_def execution_proof_def
        validation_proof_def approval_proof_def runs_of_def)
  with dec p show ?thesis by (simp add: task_is_declared_def plan_is_approved_def)
qed

lemma acceptance_of_all:
  assumes "tasks_acceptance sha d c root mode i (zip ts ds) acc = Some acc'" "length ts = length ds"
    "tables_ok d" "one_live_permit d" "set ts \<subseteq> set (tasks d)"
    and m: "interaction_mode d (cy_thread c) = Inr m" "mode = expected_mode m"
  shows "tasks_publishable sha d ts = Inr True \<and> (\<forall>t \<in> set ts. tr_status t = DONE)"
  using assms(1,2,5)
proof (induction ts arbitrary: i acc ds)
  case Nil
  then show ?case by simp
next
  case (Cons t ts)
  then obtain decl ds' where ds: "ds = decl # ds'" by (cases ds) auto
  with Cons.prems obtain p x v where a: "task_acceptance sha d c root mode i t decl = Some (p, x, v)"
    and rest: "tasks_acceptance sha d c root mode (Suc i) (zip ts ds') (max (fst acc) (ex_completed_at x), Some (p, x, v)) = Some acc'"
    by (auto split: option.split_asm)
  have "tasks_publishable sha d ts = Inr True \<and> (\<forall>t \<in> set ts. tr_status t = DONE)"
    by (rule Cons.IH [OF rest]) (use Cons.prems ds in auto)
  moreover have "t \<in> set (tasks d)" using Cons.prems by simp
  note ok = accepted_is_publishable [OF a assms(3,4) this]
  then obtain k where "tr_plan t = Some k" "plan d k = Inr p"
    by (auto simp: current_plan_def plan_iff split: option.split_asm)
  ultimately show ?case using ok m by simp
qed

lemma target_effect:
  assumes "declarative_publication_target sha d th = Some t"
  obtains c declared ids root trow completed pxv where "publishable_cycle d th = Some c"
    and "declared_tasks sha c = Some declared" "declared_ids declared = Some ids"
    and "length (task_runs d (cy_id c)) = length ids" "thread_of d th = Some trow"
    and "tasks_acceptance sha d c root (expected_mode (th_mode trow)) 0 (zip (task_runs d (cy_id c)) declared) ([], None)
      = Some (completed, Some pxv)"
    and "pt_workflow_cycle t = Some (cy_id c)" "pt_declarative t" "pt_thread t = th" "pt_cycle_id t = cy_cycle_id c"
    and "pt_id t = publication_id_for sha th (cy_cycle_id c) (cy_root_input c)"
  using assms by (auto simp: declarative_publication_target_def Let_def split: option.split_asm if_split_asm prod.split_asm)

lemma publishable_cycle_effect:
  assumes "publishable_cycle d th = Some c"
  shows "latest_cycle d th = Some c \<and> c \<in> set (cycles d) \<and> cy_thread c = th \<and> cy_status c = C_AWAITING_PUBLICATION \<and>
    cy_active c = None \<and> \<not> list_ex (\<lambda>r. ri_thread r = th \<and> ri_status r = I_PENDING) (revision_inputs d)"
proof -
  from assms have "latest_cycle d th = Some c" "cy_status c = C_AWAITING_PUBLICATION" "cy_active c = None"
    "\<not> list_ex (\<lambda>r. ri_thread r = th \<and> ri_status r = I_PENDING) (revision_inputs d)"
    by (auto simp: publishable_cycle_def split: option.split_asm if_split_asm)
  moreover from this(1) have "c \<in> set (cycles d) \<and> cy_thread c = th" by (auto simp: latest_cycle_def dest: latest_by_SomeD)
  ultimately show ?thesis by blast
qed

text \<open>
  The two proofs of publishability agree in the direction that matters: whenever the store
  finds a publication target, the runtime's own eligibility check of that cycle returns True --
  every task is DONE under an approved plan of the recorded digest, executed under its permit,
  validated with ACCEPT and approved in the thread's mode.
\<close>

theorem target_is_eligible:
  assumes "declarative_publication_target sha d th = Some t" "tables_ok d" "one_live_permit d"
  shows "\<exists>k. pt_workflow_cycle t = Some k \<and> publication_is_eligible sha d k = Inr True"
proof -
  obtain c declared ids root trow completed pxv where c: "publishable_cycle d th = Some c"
    and dec: "declared_tasks sha c = Some declared" "declared_ids declared = Some ids"
    and len: "length (task_runs d (cy_id c)) = length ids" and th: "thread_of d th = Some trow"
    and acc: "tasks_acceptance sha d c root (expected_mode (th_mode trow)) 0 (zip (task_runs d (cy_id c)) declared) ([], None)
      = Some (completed, Some pxv)" and k: "pt_workflow_cycle t = Some (cy_id c)"
    using assms(1) by (rule target_effect)
  note c' = publishable_cycle_effect [OF c]
  have "length ids = length declared"
    using dec(2) those_length by (fastforce simp: declared_ids_def)
  then have l: "length (task_runs d (cy_id c)) = length declared" by (simp add: len)
  have "declared \<noteq> []" using dec(1) by (auto simp: declared_tasks_def split: option.split_asm doc.split_asm if_split_asm)
  then have ne: "task_runs d (cy_id c) \<noteq> []" using l by auto
  have m: "interaction_mode d (cy_thread c) = Inr (th_mode trow)" using c' th by (simp add: interaction_mode_def)
  have "set (task_runs d (cy_id c)) \<subseteq> set (tasks d)" by (auto simp: task_runs_def)
  from acceptance_of_all [OF acc l assms(2,3) this m refl]
  have all: "tasks_publishable sha d (task_runs d (cy_id c)) = Inr True"
    "\<not> list_ex (\<lambda>t. tr_status t \<noteq> DONE) (task_runs d (cy_id c))"
    by (simp_all add: list_ex_iff)
  have "distinct (map cy_id (cycles d))" using assms(2) by (simp add: tables_defs)
  then have "cycle d (cy_id c) = Inr c" using c' by (simp add: cycle_iff lookup_unique)
  then have "publication_is_eligible sha d (cy_id c) = Inr True"
    using c' ne all by (simp add: publication_is_eligible_def)
  with k show ?thesis by blast
qed

lemma demo_done_target: "\<not> Option.is_none (declarative_publication_target example_sha demo_done ''t'')"
  by code_simp

theorem target_is_eligible_witness: "\<exists>k. publication_is_eligible example_sha demo_done k = Inr True"
proof -
  obtain t where t: "declarative_publication_target example_sha demo_done ''t'' = Some t"
    using demo_done_target by (auto simp: Option.is_none_def)
  have "one_live_permit demo_done" by code_simp
  with target_is_eligible [OF t demo_done_tables] show ?thesis by blast
qed

section \<open>Finalization\<close>

lemma latest_cycle_update:
  assumes "\<And>c. cy_thread (f c) = cy_thread c" "\<And>c. cy_cycle_id (f c) = cy_cycle_id c"
  shows "latest_cycle (d\<lparr>cycles := update_where p f (cycles d)\<rparr>) th =
    map_option (\<lambda>c. if p c then f c else c) (latest_cycle d th)"
proof -
  have "filter (\<lambda>c. cy_thread c = th) (update_where p f (cycles d)) =
      map (\<lambda>c. if p c then f c else c) (filter (\<lambda>c. cy_thread c = th) (cycles d))"
    by (subst filter_update) (simp_all add: assms update_where_def)
  then show ?thesis by (simp add: latest_cycle_def latest_by_map assms)
qed

lemma finalize_effect:
  assumes "finalize_publication sha legacy lc now pid d = (Inr j, d')"
  obtains r t d1 where "publication_for_id d pid = Some r" "pb_status r \<in> {COMPLETED, NO_CHANGES}"
    and "target_of sha legacy d (pb_thread r) = Some t" "pt_id t = pid"
    and "(case pt_workflow_cycle t of Some k \<Rightarrow> if pt_declarative t then close_declarative t k d else lc t d
          | None \<Rightarrow> lc t d) = Inr d1"
    and "d' = enqueue_jobs sha now t pid d1"
    and "j = lookup jb_id (memory_learning_id_for sha (pt_thread t) (pt_cycle_id t) (pt_root_input t)) (learning_jobs d')"
proof -
  from assms obtain r t d1 where "publication_for_id d pid = Some r" "pb_status r \<in> {COMPLETED, NO_CHANGES}"
    "target_of sha legacy d (pb_thread r) = Some t" "pt_id t = pid"
    "(case pt_workflow_cycle t of Some k \<Rightarrow> if pt_declarative t then close_declarative t k d else lc t d
      | None \<Rightarrow> lc t d) = Inr d1"
    "d' = enqueue_jobs sha now t pid d1"
    "j = lookup jb_id (memory_learning_id_for sha (pt_thread t) (pt_cycle_id t) (pt_root_input t)) (learning_jobs d')"
    unfolding finalize_publication_def
    by (simp add: and_then_return_iff commit_return_iff)
      (elim exE conjE, auto simp: bindE_Inr_iff split: option.split_asm if_split_asm)
  with that show thesis by blast
qed

lemma latest_is_declarative:
  assumes "latest_cycle d th = Some c"
  shows "has_declarative d th"
proof -
  have "c \<in> set (cycles d)" "cy_thread c = th"
    using latest_by_SomeD [OF assms [unfolded latest_cycle_def]] by simp_all
  then show ?thesis unfolding has_declarative_def list_ex_iff by blast
qed

text \<open>
  C33. A workflow is finalized once. When the publication of a declarative cycle is finalized, the
  cycle becomes PUBLISHED and its learning job exists; the thread then has no publication
  target, and finalizing the same publication again is refused as stale.
\<close>

theorem finalized_once:
  assumes "finalize_publication sha legacy lc now pid d = (Inr j, d')" "publication_for_id d pid = Some r"
    and "declarative_publication_target sha d (pb_thread r) = Some t"
  shows "j \<noteq> None \<and> target_of sha legacy d' (pb_thread r) = None \<and>
    map_option cy_status (latest_cycle d' (pb_thread r)) = Some C_PUBLISHED \<and>
    finalize_publication sha legacy lc now pid d' =
      (Inl (ValueError ''publication is stale for the current workflow cycle''), d')"
proof -
  let ?th = "pb_thread r"
  obtain c where c: "publishable_cycle d ?th = Some c" and t: "pt_workflow_cycle t = Some (cy_id c)" "pt_declarative t"
    using assms(3) by (rule target_effect)
  note c' = publishable_cycle_effect [OF c]
  have tt: "target_of sha legacy d ?th = Some t" using assms(3) by (simp add: target_of_def)
  from assms(1) obtain d1 where st: "pb_status r \<in> {COMPLETED, NO_CHANGES}" and close: "close_declarative t (cy_id c) d = Inr d1"
    and d': "d' = enqueue_jobs sha now t pid d1"
    and j: "j = lookup jb_id (memory_learning_id_for sha (pt_thread t) (pt_cycle_id t) (pt_root_input t)) (learning_jobs d')"
    by (rule finalize_effect) (use assms(2) tt t in auto)
  have d1: "d1 = close_cycles t (cy_id c) d" using close by (simp add: close_declarative_def split: if_split_asm)
  have "latest_cycle d' ?th = Some (c\<lparr>cy_status := C_PUBLISHED\<rparr>)"
    using c' unfolding d' d1 enqueue_jobs_def close_cycles_def
    by (simp add: latest_cycle_def) (simp add: latest_cycle_update [unfolded latest_cycle_def, simplified])
  moreover from this have no: "declarative_publication_target sha d' ?th = None"
    by (simp add: declarative_publication_target_def publishable_cycle_def)
  moreover have "has_declarative d' ?th" by (rule latest_is_declarative) (rule calculation(1))
  ultimately have tgt: "target_of sha legacy d' ?th = None" "map_option cy_status (latest_cycle d' ?th) = Some C_PUBLISHED"
    by (simp_all add: target_of_def)
  have "publication_for_id d' pid = Some r" using assms(2) by (simp add: d' d1 enqueue_jobs_def close_cycles_def)
  moreover have "j \<noteq> None"
    unfolding j d' by (auto simp: enqueue_jobs_def add_job_def new_learning_def lookup_None_iff)
  ultimately show ?thesis using tgt st by (simp add: finalize_publication_def)
qed

definition demo_published :: db where
  "demo_published = demo_done\<lparr>publications := [\<lparr>pb_id = ''publication-ab'', pb_event = ''e0'', pb_thread = ''t'',
     pb_cycle_id = 1, pb_root_input = ''e0'', pb_repo_id = 1, pb_repo_full_name = ''o/r'', pb_issue_number = 7,
     pb_status = COMPLETED, pb_branch = ''branch'', pb_local_sha = None, pb_remote_sha = Some ''c0ffee'',
     pb_pr_number = Some 3, pb_pr_url = None, pb_comment = None, pb_error = None\<rparr>]\<rparr>"

theorem finalized_once_witness:
  "target_of example_sha (\<lambda>d k. None) (snd (finalize_publication example_sha (\<lambda>d k. None) (\<lambda>t d. Inr d)
     ''9'' ''publication-ab'' demo_published)) ''t'' = None"
proof -
  let ?f = "finalize_publication example_sha (\<lambda>d k. None) (\<lambda>t d. Inr d) ''9'' ''publication-ab'' demo_published"
  have f: "?f = (Inr (projr (fst ?f)), snd ?f)" by (rule returned) code_simp
  obtain r where r: "publication_for_id demo_published ''publication-ab'' = Some r" "pb_thread r = ''t''"
    by (simp add: demo_published_def lookup_Cons)
  have "\<not> Option.is_none (declarative_publication_target example_sha demo_published ''t'')" by code_simp
  then obtain t where "declarative_publication_target example_sha demo_published (pb_thread r) = Some t"
    by (auto simp: Option.is_none_def r)
  from finalized_once [OF f r(1) this] r(2) show ?thesis by metis
qed

end
