(* ===== verification/Dispatch.thy ===== *)
theory Dispatch
  imports Publishing Feedback
begin

text \<open>
  Which threads the dispatcher runs (\<open>github_store.py\<close>): the bounded backoff after a failure and
  the durable predicate that decides whether a thread has work.
\<close>

section \<open>Backoff\<close>

record failure_row =
  fl_thread :: string
  fl_count :: nat
  fl_next :: string
  fl_error :: string

definition backoff_delay :: "nat \<Rightarrow> nat \<Rightarrow> nat" where
  "backoff_delay base_seconds count = min 3600 (base_seconds * 2 ^ min (count - 1) 10)"

text \<open>
  \<open>later now n\<close> stands for the time stamp \<open>n\<close> seconds after \<open>now\<close>.
\<close>

definition record_dispatcher_failure ::
  "(string \<Rightarrow> nat \<Rightarrow> string) \<Rightarrow> string \<Rightarrow> string \<Rightarrow> string \<Rightarrow> nat \<Rightarrow> failure_row list \<Rightarrow> failure_row list" where
  "record_dispatcher_failure later thread_id now error base_seconds fs =
    (let count = (case lookup fl_thread thread_id fs of None \<Rightarrow> 1 | Some f \<Rightarrow> Suc (fl_count f));
         row = \<lparr>fl_thread = thread_id, fl_count = count, fl_next = later now (backoff_delay base_seconds count),
                fl_error = take 1000 error\<rparr>
     in if has fl_thread thread_id fs then update_where (\<lambda>f. fl_thread f = thread_id) (\<lambda>f. row) fs
        else fs @ [row])"

definition clear_dispatcher_failure :: "string \<Rightarrow> failure_row list \<Rightarrow> failure_row list" where
  "clear_dispatcher_failure thread_id fs = filter (\<lambda>f. fl_thread f \<noteq> thread_id) fs"

section \<open>Runnable threads\<close>

text \<open>An unconsumed input that answers what the task shows.\<close>

definition answers :: "source_event \<Rightarrow> string \<Rightarrow> source_event \<Rightarrow> bool" where
  "answers root posted_at item =
     (same_generic_target item root \<and> after_posted_at item posted_at \<and> starts_with_agent_invocation (ev_body item))"

definition awaiting_runnable :: "digest \<Rightarrow> legacy_target \<Rightarrow> db \<Rightarrow> cycle_row \<Rightarrow> bool" where
  "awaiting_runnable sha legacy d c =
    (pending_revision_inputs d (cy_thread c) \<noteq> [] \<or>
     (case publication_for_id d (publication_id_for sha (cy_thread c) (cy_cycle_id c) (cy_root_input c)) of
        None \<Rightarrow> target_of sha legacy d (cy_thread c) \<noteq> None
      | Some r \<Rightarrow> resumable (pb_status r)))"

definition waiting_runnable :: "db \<Rightarrow> cycle_row \<Rightarrow> source_event list \<Rightarrow> task_row \<Rightarrow> bool" where
  "waiting_runnable d c pending t =
    (case cycle_root_event d (cy_root_input c) of
       None \<Rightarrow> False
     | Some root \<Rightarrow>
         (case tr_phase t of
            WAITING_FOR_PLAN_APPROVAL \<Rightarrow>
              (case current_plan d t of None \<Rightarrow> False | Some p \<Rightarrow> list_ex (answers root (pl_posted_at p)) pending)
          | WAITING_FOR_RESULT_APPROVAL \<Rightarrow>
              (case current_result d (tr_id t) of None \<Rightarrow> False | Some r \<Rightarrow> list_ex (answers root (re_posted_at r)) pending)
          | WAITING_FOR_INPUT \<Rightarrow> list_ex (answers root (tr_updated_at t)) pending
          | _ \<Rightarrow> False))"

definition owner_runnable :: "db \<Rightarrow> cycle_row \<Rightarrow> source_event list \<Rightarrow> err + bool" where
  "owner_runnable d c pending =
    (case (case cy_active c of None \<Rightarrow> None | Some k \<Rightarrow> task_in_cycle d (cy_id c) k) of
       None \<Rightarrow> Inr True
     | Some t \<Rightarrow>
         if tr_phase t \<in> {PLANNING, EXECUTING, VALIDATING} \<or> pending_resume_claim d (cy_thread c) \<noteq> None
         then Inr True
         else bindE (feedback_review_for_task d (tr_id t) REVIEWING) (\<lambda>review.
           if review \<noteq> None then Inr True
           else if tr_phase t \<in> {WAITING_FOR_PLAN_APPROVAL, WAITING_FOR_RESULT_APPROVAL}
           then bindE (interaction_mode d (cy_thread c)) (\<lambda>m.
             if m = AUTO then Inr True else Inr (waiting_runnable d c pending t))
           else Inr (waiting_runnable d c pending t)))"

text \<open>\<open>jobs_pending\<close>: an unfinished learning or resolution job of the thread.\<close>

definition declarative_thread_runnable ::
  "digest \<Rightarrow> legacy_target \<Rightarrow> (string \<Rightarrow> bool) \<Rightarrow> string \<Rightarrow> db \<Rightarrow> cycle_row \<Rightarrow> source_event list \<Rightarrow> bool \<Rightarrow> err + bool" where
  "declarative_thread_runnable sha legacy jobs_pending now d c pending actionable =
    (if pending_workflow_comments d (cy_thread c) (Some now) \<noteq> [] then Inr True
     else case cy_status c of
       C_FAILED \<Rightarrow> Inr False
     | C_PUBLISHED \<Rightarrow> Inr (jobs_pending (cy_thread c) \<or> deferred_followups d (cy_thread c) \<noteq> [] \<or>
         pending_revision_inputs d (cy_thread c) \<noteq> [] \<or> actionable)
     | C_AWAITING_PUBLICATION \<Rightarrow> Inr (awaiting_runnable sha legacy d c)
     | C_ACTIVE \<Rightarrow> owner_runnable d c pending)"

text \<open>
  What the earlier workflow answers for a thread that has its state and no declarative cycle is
  the argument \<open>legacy_runnable\<close>.
\<close>

definition is_thread_runnable ::
  "digest \<Rightarrow> legacy_target \<Rightarrow> (db \<Rightarrow> string \<Rightarrow> bool) \<Rightarrow> (string \<Rightarrow> bool) \<Rightarrow> failure_row list \<Rightarrow> string \<Rightarrow> db \<Rightarrow> string \<Rightarrow> err + bool" where
  "is_thread_runnable sha legacy legacy_runnable jobs_pending fs now d thread_id =
    (if (case lookup fl_thread thread_id fs of None \<Rightarrow> False | Some f \<Rightarrow> now < fl_next f) then Inr False
     else case thread_of d thread_id of
       None \<Rightarrow> Inr False
     | Some th \<Rightarrow>
         let pending = unconsumed_inputs d thread_id None;
             actionable = list_ex (\<lambda>e. is_actionable_source_event (ev_kind e) (ev_body e)) pending
         in case latest_cycle d thread_id of
              Some c \<Rightarrow> declarative_thread_runnable sha legacy jobs_pending now d c pending actionable
            | None \<Rightarrow> if thread_id \<in> set (legacy_states d) then Inr (legacy_runnable d thread_id) else Inr actionable)"

end
