(* ===== verification/Dispatch_Properties.thy ===== *)
theory Dispatch_Properties
  imports Dispatch Example_Thread
begin

text \<open>
  What the dispatcher guarantees: the backoff is bounded and only delays the thread that failed,
  and an answer to the interaction a thread shows always makes the thread runnable.
\<close>

section \<open>Backoff\<close>

text \<open>
  C39. The delay after the \<open>n\<close>-th failure never exceeds an hour, never shrinks from one failure to
  the next, and is at least the base delay (capped at an hour), however large the counter.
\<close>

theorem backoff_is_bounded:
  "backoff_delay base n \<le> 3600 \<and> backoff_delay base n \<le> backoff_delay base (Suc n) \<and>
   min 3600 base \<le> backoff_delay base n \<and> backoff_delay base (n + 11) = backoff_delay base 11"
proof -
  have "(2::nat) ^ min (n - 1) 10 \<le> 2 ^ min (Suc n - 1) 10" by (rule power_increasing) auto
  then have "base * 2 ^ min (n - 1) 10 \<le> base * 2 ^ min (Suc n - 1) 10" by (rule mult_le_mono2)
  moreover have "base \<le> base * 2 ^ min (n - 1) 10" by simp
  ultimately show ?thesis by (simp add: backoff_delay_def min_le_iff_disj)
qed

lemma failure_recorded:
  "lookup fl_thread k (record_dispatcher_failure later th now e base fs) =
    (if k = th then Some \<lparr>fl_thread = th,
         fl_count = (case lookup fl_thread th fs of None \<Rightarrow> 1 | Some f \<Rightarrow> Suc (fl_count f)),
         fl_next = later now (backoff_delay base (case lookup fl_thread th fs of None \<Rightarrow> 1 | Some f \<Rightarrow> Suc (fl_count f))),
         fl_error = take 1000 e\<rparr>
     else lookup fl_thread k fs)"
proof (cases "lookup fl_thread th fs")
  case None
  then have "th \<notin> fl_thread ` set fs" by (simp add: lookup_None_iff)
  then show ?thesis
    by (auto simp: record_dispatcher_failure_def Let_def None table_simps split: option.split)
next
  case (Some f)
  then have "th \<in> fl_thread ` set fs" using lookup_None_iff [of fl_thread th fs] by simp
  then have "record_dispatcher_failure later th now e base fs = update_where (\<lambda>f. fl_thread f = th)
      (\<lambda>_. \<lparr>fl_thread = th, fl_count = Suc (fl_count f), fl_next = later now (backoff_delay base (Suc (fl_count f))),
         fl_error = take 1000 e\<rparr>) fs"
    by (simp add: record_dispatcher_failure_def Let_def Some)
  then show ?thesis by (simp add: Some lookup_replace)
qed

lemma clear_lookup: "lookup fl_thread k (clear_dispatcher_failure th fs) = (if k = th then None else lookup fl_thread k fs)"
  by (induction fs) (auto simp: clear_dispatcher_failure_def table_simps)

lemma runnable_cong:
  assumes "lookup fl_thread k fs = lookup fl_thread k fs'"
  shows "is_thread_runnable sha legacy lr jobs fs at d k = is_thread_runnable sha legacy lr jobs fs' at d k"
  by (simp only: is_thread_runnable_def assms)

text \<open>
  A failure of a thread keeps exactly that thread back: until its delay has passed it is not
  runnable, every other thread is as runnable as before, and clearing the failure makes the
  thread as runnable as if it had never failed.
\<close>

theorem failure_delays_only_its_thread:
  "(let fs' = record_dispatcher_failure later th now e base fs;
        until = later now (backoff_delay base (case lookup fl_thread th fs of None \<Rightarrow> 1 | Some f \<Rightarrow> Suc (fl_count f)))
    in is_thread_runnable sha legacy lr jobs fs' at d k =
         (if k = th then
            (if at < until then Inr False else is_thread_runnable sha legacy lr jobs [] at d th)
          else is_thread_runnable sha legacy lr jobs fs at d k) \<and>
       is_thread_runnable sha legacy lr jobs (clear_dispatcher_failure th fs') at d k =
         (if k = th then is_thread_runnable sha legacy lr jobs [] at d th
          else is_thread_runnable sha legacy lr jobs fs at d k))"
proof -
  let ?fs = "record_dispatcher_failure later th now e base fs"
  let ?until = "later now (backoff_delay base (case lookup fl_thread th fs of None \<Rightarrow> 1 | Some f \<Rightarrow> Suc (fl_count f)))"
  have "is_thread_runnable sha legacy lr jobs ?fs at d th =
      (if at < ?until then Inr False else is_thread_runnable sha legacy lr jobs [] at d th)"
    by (simp add: is_thread_runnable_def failure_recorded table_simps)
  moreover have "is_thread_runnable sha legacy lr jobs ?fs at d k = is_thread_runnable sha legacy lr jobs fs at d k" if "k \<noteq> th"
    by (rule runnable_cong) (simp add: failure_recorded that)
  moreover have "is_thread_runnable sha legacy lr jobs (clear_dispatcher_failure th ?fs) at d k =
      is_thread_runnable sha legacy lr jobs (if k = th then [] else fs) at d k"
    by (rule runnable_cong) (simp add: clear_lookup failure_recorded table_simps)
  ultimately show ?thesis by (simp only: Let_def) simp
qed

section \<open>Answers\<close>

text \<open>The plan or the result that a waiting task shows exists.\<close>

definition shown :: "db \<Rightarrow> task_row \<Rightarrow> bool" where
  "shown d t = (if tr_phase t = WAITING_FOR_PLAN_APPROVAL then current_plan d t \<noteq> None
     else if tr_phase t = WAITING_FOR_RESULT_APPROVAL then current_result d (tr_id t) \<noteq> None else True)"

text \<open>A result rests on a validation of its own task run.\<close>

definition own_validations :: "db \<Rightarrow> bool" where
  "own_validations d = list_all (\<lambda>r. case validation_of d (re_validation r) of
     None \<Rightarrow> True | Some v \<Rightarrow> va_task_run v = re_task_run r) (results d)"

text \<open>The two readings of the result on show, ordered by round and by round and id, agree.\<close>

lemma same_result_on_show:
  assumes "tables_ok d" "own_validations d"
  shows "latest_posted_result d k = current_result d k"
proof -
  let ?rows = "filter (\<lambda>r. re_task_run r = k \<and> has va_id (re_validation r) (validations d)) (results d)"
  have round: "\<exists>v \<in> set (validations d). va_id v = re_validation r \<and> va_task_run v = k \<and> validation_round_of d r = va_round v"
    if r: "r \<in> set ?rows" for r
  proof -
    have "validation_of d (re_validation r) \<noteq> None" using r by (auto simp: lookup_None_iff)
    then obtain v where v: "validation_of d (re_validation r) = Some v" by blast
    moreover have "va_task_run v = k" using assms(2) r v by (auto simp: own_validations_def list_all_iff)
    ultimately show ?thesis by (auto simp: validation_round_of_def dest: lookup_SomeD)
  qed
  have inj: "r = s" if r: "r \<in> set ?rows" and s: "s \<in> set ?rows"
    and eq: "validation_round_of d r = validation_round_of d s" for r s
  proof -
    from round [OF r] round [OF s] eq key_unique(5) [OF assms(1)] have "re_validation r = re_validation s" by metis
    then show ?thesis using r s key_unique(7) [OF assms(1)] by simp
  qed
  show ?thesis
  proof (cases "current_result d k")
    case None
    then show ?thesis by (simp add: current_result_def latest_posted_result_def)
  next
    case (Some r)
    then have m: "r \<in> set ?rows"
      and le: "\<And>s. s \<in> set ?rows \<Longrightarrow> (validation_round_of d s, re_id s) \<le> (validation_round_of d r, re_id r)"
      unfolding current_result_def by (blast dest: latest_by_SomeD)+
    have "latest_by (validation_round_of d) ?rows = Some r"
    proof (rule latest_by_greatest [OF m])
      fix s assume s: "s \<in> set ?rows" "s \<noteq> r"
      with le [OF s(1)] inj [OF s(1) m] show "validation_round_of d s < validation_round_of d r"
        by (auto simp: less_eq_prod_def le_less)
    qed
    then show ?thesis by (simp add: Some latest_posted_result_def)
  qed
qed

lemma matches_effect:
  assumes "matches_open_interaction d e th"
  obtains c k t root where "open_cycle d th = Some c" "cy_active c = Some k" "task_in_cycle d (cy_id c) k = Some t"
    and "waiting_phase (tr_phase t)" "cycle_root_event d (cy_root_input c) = Some root" "same_generic_target e root"
    and "after_posted_at e (interaction_threshold d t)" "starts_with_agent_invocation (ev_body e)"
  using assms by (auto simp: matches_open_interaction_def split: option.split_asm)

lemma answered_waits:
  assumes "cycle_root_event d (cy_root_input c) = Some root" "waiting_phase (tr_phase t)" "shown d t"
    and "latest_posted_result d (tr_id t) = current_result d (tr_id t)"
    and "e \<in> set pending" "same_generic_target e root" "after_posted_at e (interaction_threshold d t)"
    and "starts_with_agent_invocation (ev_body e)"
  shows "waiting_runnable d c pending t"
  using assms
  by (cases "tr_phase t")
    (auto simp: waiting_runnable_def waiting_phase_def shown_def interaction_threshold_def answers_def list_ex_iff)

text \<open>
  C30. No answer is overlooked: when an unconsumed comment answers what the active task of the
  thread's latest cycle shows, and the thread is not backing off, the dispatcher finds the
  thread runnable -- the scan for work and the classification of inputs agree on what an
  answer is.
\<close>

theorem answer_makes_thread_runnable:
  assumes "matches_open_interaction d e th" "e \<in> set (unconsumed_inputs d th None)"
    and "latest_cycle d th = open_cycle d th" "thread_of d th \<noteq> None" "lookup fl_thread th fs = None"
    and "tables_ok d" "own_validations d"
    and "list_all (\<lambda>t. shown d t \<and> \<not> isl (feedback_review_for_task d (tr_id t) REVIEWING)) (tasks d)"
  shows "is_thread_runnable sha legacy lr jobs fs now d th = Inr True"
proof -
  obtain c k t root where c: "open_cycle d th = Some c" and k: "cy_active c = Some k" "task_in_cycle d (cy_id c) k = Some t"
    and ph: "waiting_phase (tr_phase t)" and root: "cycle_root_event d (cy_root_input c) = Some root"
    and e: "same_generic_target e root" "after_posted_at e (interaction_threshold d t)"
      "starts_with_agent_invocation (ev_body e)"
    using assms(1) by (rule matches_effect)
  have cy: "cy_thread c = th" "cy_status c = C_ACTIVE"
    using c by (auto simp: open_cycle_def dest: latest_by_SomeD)
  have "t \<in> set (tasks d)" using k(2) by (auto simp: task_in_cycle_def dest: find_SomeD)
  then have t: "shown d t" "\<not> isl (feedback_review_for_task d (tr_id t) REVIEWING)"
    using assms(8) by (auto simp: list_all_iff)
  have w: "waiting_runnable d c (unconsumed_inputs d th None) t"
    by (rule answered_waits [OF root ph t(1) same_result_on_show [OF assms(6,7)] assms(2) e])
  obtain review where review: "feedback_review_for_task d (tr_id t) REVIEWING = Inr review"
    using t(2) by (cases "feedback_review_for_task d (tr_id t) REVIEWING") auto
  obtain th_row where th: "thread_of d th = Some th_row" using assms(4) by blast
  have "owner_runnable d c (unconsumed_inputs d th None) = Inr True"
    by (simp add: owner_runnable_def k review w interaction_mode_def cy th)
  then show ?thesis
    by (simp add: is_thread_runnable_def assms(3,5) th c declarative_thread_runnable_def cy Let_def)
qed

theorem answer_makes_thread_runnable_witness:
  "is_thread_runnable example_sha (\<lambda>d k. None) (\<lambda>d k. False) (\<lambda>k. False) [] ''2024-01-04T00:00:00Z'' demo_waiting ''t'' = Inr True"
proof (rule answer_makes_thread_runnable)
  show "matches_open_interaction demo_waiting (demo_event ''e1'' ''2024-01-03T00:00:00Z'' ''@agent approve'') ''t''"
    by code_simp
  show "demo_event ''e1'' ''2024-01-03T00:00:00Z'' ''@agent approve'' \<in> set (unconsumed_inputs demo_waiting ''t'' None)"
    by code_simp
  show "latest_cycle demo_waiting ''t'' = open_cycle demo_waiting ''t''" by code_simp
  have "\<not> Option.is_none (thread_of demo_waiting ''t'')" by code_simp
  then show "thread_of demo_waiting ''t'' \<noteq> None" by (auto simp: Option.is_none_def)
  show "lookup fl_thread ''t'' [] = None" by (simp add: table_simps)
  show "own_validations demo_waiting" by code_simp
  show "list_all (\<lambda>t. shown demo_waiting t \<and> \<not> isl (feedback_review_for_task demo_waiting (tr_id t) REVIEWING))
      (tasks demo_waiting)" by code_simp
  show "tables_ok demo_waiting" by (rule demo_waiting_tables)
qed

end
