(* ===== verification/Delivery.thy ===== *)
theory Delivery
  imports Feedback
begin

text \<open>
  Comments on GitHub: the marker-reconciled delivery of the outbox
  (\<open>workflow_comment_delivery.py\<close>) and the comments the driver posts for plans, results and
  clarifications (\<open>workflow_driver.py\<close>). The GitHub client is an argument: listing the comments
  of a conversation and creating one, on a state \<open>'w\<close> of the outside world.
\<close>

section \<open>The client\<close>

record comment =
  cm_id :: int
  cm_body :: "string option"
  cm_created :: "string option"

text \<open>A conversation: repository, subject number and, for an inline review, the comment replied to.\<close>

record conversation =
  cv_repo :: string
  cv_subject :: int
  cv_inline :: bool
  cv_reply_to :: string

text \<open>
  \<open>repository\<close>, then \<open>comments\<close> or \<open>review_comments_for_pull_request\<close>; \<open>create_comment\<close> or
  \<open>create_review_comment_reply\<close>. Every call may raise.
\<close>

record 'w client =
  list_comments :: "'w \<Rightarrow> conversation \<Rightarrow> err + comment list"
  create_comment :: "conversation \<Rightarrow> string \<Rightarrow> ('w, comment) op"

definition conversation_of :: "source_event \<Rightarrow> conversation" where
  "conversation_of e =
     \<lparr>cv_repo = ev_repo_full_name e, cv_subject = ev_subject e, cv_inline = (ev_surface e = PR_INLINE_REVIEW),
      cv_reply_to = (if ev_surface e \<noteq> PR_INLINE_REVIEW then []
        else if text_or_empty (ev_review_root e) \<noteq> [] then text_or_empty (ev_review_root e) else ev_source_id e)\<rparr>"

text \<open>\<open>marker in body\<close>\<close>

fun has_infix :: "string \<Rightarrow> string \<Rightarrow> bool" where
  "has_infix m [] = (m = [])"
| "has_infix m (c # cs) = (starts_with (c # cs) m \<or> has_infix m cs)"

definition marked :: "string \<Rightarrow> comment \<Rightarrow> bool" where
  "marked marker c = has_infix marker (text_or_empty (cm_body c))"

definition post_response :: "'w client \<Rightarrow> string \<Rightarrow> conversation \<Rightarrow> string \<Rightarrow> ('w, comment) op" where
  "post_response cl actor cv body w =
    (if cv_inline cv \<and> cv_reply_to cv = []
     then raise (RuntimeError (''inline '' @ actor @ '' response target is missing'')) w
     else create_comment cl cv body w)"

text \<open>
  Reconcile by marker: \<open>None\<close> when more than one comment carries it, the one that does, or a new
  comment. \<open>actor\<close> is the word the two implementations differ in when a reply has no target.
\<close>

definition reconcile_comment :: "'w client \<Rightarrow> string \<Rightarrow> conversation \<Rightarrow> string \<Rightarrow> string \<Rightarrow> ('w, comment option) op" where
  "reconcile_comment cl actor cv marker body w =
    (case list_comments cl w cv of
       Inl e \<Rightarrow> raise e w
     | Inr cs \<Rightarrow>
         (case filter (marked marker) cs of
            [] \<Rightarrow> and_then (post_response cl actor cv body w) (\<lambda>c w1. return (Some c) w1)
          | [c] \<Rightarrow> return (Some c) w
          | _ \<Rightarrow> return None w))"

section \<open>The outbox\<close>

fun error_text :: "err \<Rightarrow> string" where
  "error_text (ValueError s) = ''ValueError: '' @ s"
| "error_text (PermissionError s) = ''PermissionError: '' @ s"
| "error_text (RuntimeError s) = ''RuntimeError: '' @ s"
| "error_text (IntegrityError s) = ''IntegrityError: '' @ s"
| "error_text (KeyError s) = ''KeyError: '' @ s"
| "error_text (TypeError s) = ''TypeError: '' @ s"
| "error_text (WorkspaceError s) = ''WorkspaceError: '' @ s"
| "error_text (Other_Error c s) = c @ '': '' @ s"

text \<open>
  One record of \<open>deliver_pending_workflow_comments\<close>: the row's new status, comment id, error and
  next attempt, and how many comments were delivered. \<open>later now n\<close> is the time stamp \<open>n\<close>
  seconds after \<open>now\<close>.
\<close>

definition deliver_one ::
  "'w client \<Rightarrow> (string \<Rightarrow> nat \<Rightarrow> string) \<Rightarrow> string \<Rightarrow> outbox_row \<Rightarrow> 'w \<times> db \<Rightarrow> (err + nat) \<times> 'w \<times> db" where
  "deliver_one cl later now r s =
    (let w = fst s; d = snd s;
         write = (\<lambda>n w1 status cid e next.
           (case update_workflow_comment (ob_id r) status now cid e next d of
              (Inl e, d1) \<Rightarrow> (Inl e, w1, d1) | (Inr _, d1) \<Rightarrow> (Inr n, w1, d1)))
     in case event_of d (ob_event r) of
       None \<Rightarrow> write 0 w ''AMBIGUOUS'' None (Some ''source event is missing'') None
     | Some e \<Rightarrow>
         (case reconcile_comment cl ''workflow'' (conversation_of e) (ob_marker r) (ob_body r) w of
            (Inl x, w1) \<Rightarrow> write 0 w1 ''PENDING'' None (Some (take 500 (error_text x))) (Some (later now 60))
          | (Inr None, w1) \<Rightarrow> write 0 w1 ''AMBIGUOUS'' None (Some ''multiple marker-matching comments'') None
          | (Inr (Some c), w1) \<Rightarrow> write 1 w1 ''DELIVERED'' (Some (cm_id c)) None None))"

fun deliver_all ::
  "'w client \<Rightarrow> (string \<Rightarrow> nat \<Rightarrow> string) \<Rightarrow> string \<Rightarrow> outbox_row list \<Rightarrow> 'w \<times> db \<Rightarrow> (err + nat) \<times> 'w \<times> db" where
  "deliver_all cl later now [] s = return 0 s"
| "deliver_all cl later now (r # rs) s =
     and_then (deliver_one cl later now r s)
       (\<lambda>n s1. and_then (deliver_all cl later now rs s1) (\<lambda>m s2. return (n + m) s2))"

definition deliver_pending_workflow_comments ::
  "'w client \<Rightarrow> (string \<Rightarrow> nat \<Rightarrow> string) \<Rightarrow> string \<Rightarrow> string \<Rightarrow> ('w \<times> db, nat) op" where
  "deliver_pending_workflow_comments cl later thread_id now s =
     deliver_all cl later now (pending_workflow_comments (snd s) thread_id (Some now)) s"

section \<open>Comments of the driver\<close>

definition PLAN_FOOTER :: string where
  "PLAN_FOOTER =
     ''Reply with `@agent approve` to execute this exact plan, or reply with '' @
     ''feedback specifically related to this plan.\<newline>\<newline>'' @
     ''Please wait until the current workflow completes before sending separate '' @
     ''requests. If you send a separate suggestion now, SWEForge will save it for '' @
     ''the follow-up revision loop.''"

definition RESULT_FOOTER :: string where
  "RESULT_FOOTER =
     ''Reply with `@agent approve` to accept this validated result, or reply with '' @
     ''feedback specifically related to this implementation.\<newline>\<newline>'' @
     ''Separate requests will be saved for the follow-up revision loop rather than '' @
     ''changing the current result.''"

definition root_of :: "db \<Rightarrow> cycle_row \<Rightarrow> err + source_event" where
  "root_of d c =
    (case cycle_root_event d (cy_root_input c) of
       None \<Rightarrow> Inl (RuntimeError ''workflow root SourceEvent disappeared'') | Some e \<Rightarrow> Inr e)"

definition plan_marker :: "digest \<Rightarrow> string \<Rightarrow> nat \<Rightarrow> string \<Rightarrow> string" where
  "plan_marker sha task_run_id version plan_text =
     ''<!-- sweforge:task-plan:'' @ task_run_id @ '':v'' @ show_nat version @ '':'' @ sha (strip plan_text) @ '' -->''"

text \<open>The dash of the heading is written in UTF-8.\<close>

definition plan_body :: "string \<Rightarrow> string \<Rightarrow> nat \<Rightarrow> string \<Rightarrow> interaction_mode \<Rightarrow> string" where
  "plan_body marker task_id version plan_text m =
     marker @ newline @ ''### SWEForge task `'' @ task_id @ ''` plan '' @ [CHR 0xE2, CHR 0x80, CHR 0x94] @ '' v'' @
     show_nat version @ newline @ newline @ strip plan_text @ newline @ newline @
     (if m = AUTO
      then ''AUTO mode is enabled. This exact plan has been recorded and SWEForge will proceed automatically.''
      else PLAN_FOOTER)"

text \<open>The comment's id and its creation time, or the clock's when it has none.\<close>

definition posted :: "string \<Rightarrow> string \<Rightarrow> comment option \<Rightarrow> 'w \<Rightarrow> (err + int \<times> string) \<times> 'w" where
  "posted now ambiguous c w =
    (case c of
       None \<Rightarrow> raise (RuntimeError ambiguous) w
     | Some x \<Rightarrow> return (cm_id x, if text_or_empty (cm_created x) = [] then now else text_or_empty (cm_created x)) w)"

definition publish_plan ::
  "digest \<Rightarrow> 'w client \<Rightarrow> string \<Rightarrow> db \<Rightarrow> cycle_row \<Rightarrow> string \<Rightarrow> string \<Rightarrow> string \<Rightarrow> ('w, int \<times> string) op" where
  "publish_plan sha cl now d c task_run_id task_id plan_text w =
    (case root_of d c of
       Inl e \<Rightarrow> raise e w
     | Inr root \<Rightarrow>
         (let version = next_plan_version d task_run_id; marker = plan_marker sha task_run_id version plan_text in
          case interaction_mode d (cy_thread c) of
            Inl e \<Rightarrow> raise e w
          | Inr m \<Rightarrow>
              and_then (reconcile_comment cl ''review'' (conversation_of root) marker (plan_body marker task_id version plan_text m) w)
                (posted now ''multiple matching task plan comments are ambiguous'')))"

definition result_marker :: "digest \<Rightarrow> string \<Rightarrow> string option \<Rightarrow> execution_row \<Rightarrow> validation_row \<Rightarrow> string" where
  "result_marker sha task_run_id plan_id x v =
     ''<!-- sweforge:task-result:'' @
     take 24 (sha (join nul [task_run_id, text_or_empty plan_id, ex_id x, va_id v])) @ '' -->''"

definition result_body :: "string \<Rightarrow> string \<Rightarrow> execution_row \<Rightarrow> validation_row \<Rightarrow> interaction_mode \<Rightarrow> string" where
  "result_body marker task_id x v m =
     marker @ newline @ ''### SWEForge task `'' @ task_id @ ''` implementation ready for review'' @ newline @ newline @
     ''The approved plan has been executed and validation passed.'' @ newline @ newline @
     ''Execution:'' @ newline @ ''- '' @ take 2000 (ex_summary x) @ newline @ newline @
     ''Validation:'' @ newline @ ''- '' @ take 2000 (va_summary v) @ newline @ ''- Verdict: ACCEPT'' @ newline @ newline @
     (if m = AUTO then ''AUTO mode is enabled; SWEForge will accept this exact result automatically.''
      else RESULT_FOOTER)"

definition publish_result ::
  "digest \<Rightarrow> 'w client \<Rightarrow> string \<Rightarrow> db \<Rightarrow> cycle_row \<Rightarrow> string \<Rightarrow> string \<Rightarrow> ('w, int \<times> string) op" where
  "publish_result sha cl now d c task_run_id task_id w =
    (case task d task_run_id of
       Inl e \<Rightarrow> raise e w
     | Inr t \<Rightarrow>
         (case (exact_execution d task_run_id (tr_plan t) (tr_attempt t),
                latest_validation d task_run_id (tr_plan t) (tr_attempt t)) of
            (Some x, Some v) \<Rightarrow>
              if va_verdict v \<noteq> ACCEPT then raise (RuntimeError ''exact accepted validation is missing'') w
              else
                (case (root_of d c, interaction_mode d (cy_thread c)) of
                   (Inr root, Inr m) \<Rightarrow>
                     (let marker = result_marker sha task_run_id (tr_plan t) x v in
                      and_then (reconcile_comment cl ''review'' (conversation_of root) marker (result_body marker task_id x v m) w)
                        (posted now ''multiple matching task result comments are ambiguous''))
                 | (Inl e, _) \<Rightarrow> raise e w
                 | (_, Inl e) \<Rightarrow> raise e w)
          | _ \<Rightarrow> raise (RuntimeError ''exact accepted validation is missing'') w))"

definition publish_clarification ::
  "'w client \<Rightarrow> db \<Rightarrow> cycle_row \<Rightarrow> string \<Rightarrow> string \<Rightarrow> string \<Rightarrow> ('w, unit) op" where
  "publish_clarification cl d c occurrence question reason w =
    (case root_of d c of
       Inl e \<Rightarrow> raise e w
     | Inr root \<Rightarrow>
         (let marker = ''<!-- sweforge:clarification:'' @ occurrence @ '' -->'' in
          and_then (reconcile_comment cl ''review'' (conversation_of root) marker
              (marker @ newline @ ''### SWEForge needs input'' @ newline @ newline @ question @ newline @ newline @
               ''Reason: '' @ reason @ newline @ newline @ ''Reply with `@agent <answer>`.'') w)
            (\<lambda>r w1. case r of None \<Rightarrow> raise (RuntimeError ''multiple clarification comments are ambiguous'') w1
                     | Some _ \<Rightarrow> return () w1)))"

end
