(* ===== verification/Delivery_Properties.thy ===== *)
theory Delivery_Properties
  imports Delivery Example_Thread
begin

text \<open>
  What the delivery of comments guarantees: a comment that carries its marker is posted at most
  once, whatever is retried, and an outbox row is settled by one delivery.
\<close>

section \<open>Markers\<close>

lemma has_infix_prefix: "has_infix m (m @ s)"
  by (cases "m @ s") (auto, metis starts_with_append)

section \<open>The client\<close>

text \<open>
  What the code relies on of GitHub: a comment that was created carries the text it was created
  with, is listed afterwards, and creating it leaves the listed comments alone.
\<close>

definition keeps_comments :: "'w client \<Rightarrow> bool" where
  "keeps_comments cl \<longleftrightarrow> (\<forall>cv body w c w1 cs.
     create_comment cl cv body w = (Inr c, w1) \<longrightarrow> list_comments cl w cv = Inr cs \<longrightarrow>
     cm_body c = Some body \<and> list_comments cl w1 cv = Inr (cs @ [c]))"

text \<open>A client that keeps its comments in a list.\<close>

definition memory_client :: "(conversation \<times> comment) list client" where
  "memory_client = \<lparr>list_comments = (\<lambda>w cv. Inr (map snd (filter (\<lambda>x. fst x = cv) w))),
     create_comment = (\<lambda>cv body w.
       let c = \<lparr>cm_id = int (length w), cm_body = Some body, cm_created = Some ''2024-01-01T00:00:00Z''\<rparr>
       in return c (w @ [(cv, c)]))\<rparr>"

lemma memory_client_keeps: "keeps_comments memory_client"
  by (auto simp: keeps_comments_def memory_client_def Let_def)

section \<open>Posting once\<close>

lemma reconcile_again:
  assumes "keeps_comments cl" "has_infix marker body"
    and "reconcile_comment cl actor cv marker body w = (Inr (Some c), w1)"
  shows "reconcile_comment cl actor' cv marker body' w1 = (Inr (Some c), w1)"
proof -
  obtain cs where cs: "list_comments cl w cv = Inr cs"
    using assms(3) by (auto simp: reconcile_comment_def split: sum.split_asm)
  show ?thesis
  proof (cases "filter (marked marker) cs")
    case Nil
    with assms(3) cs have "create_comment cl cv body w = (Inr c, w1)"
      by (auto simp: reconcile_comment_def and_then_return_iff post_response_def split: if_split_asm)
    with assms(1) cs have "cm_body c = Some body" "list_comments cl w1 cv = Inr (cs @ [c])"
      unfolding keeps_comments_def by blast+
    with assms(2) Nil show ?thesis by (simp add: reconcile_comment_def marked_def text_or_empty_def)
  next
    case (Cons x xs)
    with assms(3) cs have "xs = []" "x = c" "w1 = w" by (auto simp: reconcile_comment_def split: list.split_asm)
    with Cons cs show ?thesis by (simp add: reconcile_comment_def)
  qed
qed

text \<open>
  C37. A plan is posted at most once: publishing the same text of the same version again -- after a
  crash, at any later time, or by a replayed gateway -- finds the comment that is already there
  and leaves the conversation unchanged.
\<close>

theorem plan_is_posted_once:
  assumes "keeps_comments cl" "publish_plan sha cl now d c k tk body w = (Inr (cid, at), w1)"
  shows "\<exists>at'. publish_plan sha cl now' d c k tk body w1 = (Inr (cid, at'), w1)"
proof -
  let ?m = "plan_marker sha k (next_plan_version d k) body"
  from assms(2) obtain root m x where root: "root_of d c = Inr root" and m: "interaction_mode d (cy_thread c) = Inr m"
    and r: "reconcile_comment cl ''review'' (conversation_of root) ?m (plan_body ?m tk (next_plan_version d k) body m) w
      = (Inr (Some x), w1)" and "cid = cm_id x"
    by (auto simp: publish_plan_def Let_def and_then_return_iff posted_def split: sum.split_asm option.split_asm)
  moreover have "has_infix ?m (plan_body ?m tk (next_plan_version d k) body m)"
    unfolding plan_body_def by (rule has_infix_prefix)
  ultimately have "reconcile_comment cl ''review'' (conversation_of root) ?m
      (plan_body ?m tk (next_plan_version d k) body m) w1 = (Inr (Some x), w1)"
    using reconcile_again [OF assms(1)] by blast
  then show ?thesis by (simp add: publish_plan_def Let_def root m posted_def \<open>cid = cm_id x\<close>)
qed

text \<open>A GitHub that already holds the comment of the example run's plan, found under its marker.\<close>

abbreviation post_demo where
  "post_demo \<equiv> publish_plan example_sha memory_client ''1'' inbox_demo (hd (cycles demo_2)) the_task ''build'' ''the plan''"

theorem plan_is_posted_once_witness:
  "length (snd (post_demo [])) = 1 \<and> snd (post_demo (snd (post_demo []))) = snd (post_demo [])"
proof -
  have "fst (post_demo []) = Inr (0, ''2024-01-01T00:00:00Z'')" "length (snd (post_demo [])) = 1" by (code_simp, code_simp)
  moreover from this(1) have "post_demo [] = (Inr (0, ''2024-01-01T00:00:00Z''), snd (post_demo []))"
    by (cases "post_demo []") simp
  from plan_is_posted_once [OF memory_client_keeps this, of "''1''"]
  have "snd (post_demo (snd (post_demo []))) = snd (post_demo [])" by auto
  ultimately show ?thesis by simp
qed

section \<open>The outbox\<close>

text \<open>What an update of an outbox row writes.\<close>

definition row_update :: "string \<Rightarrow> outbox_status \<Rightarrow> int option \<Rightarrow> string option \<Rightarrow> string option \<Rightarrow> outbox_row \<Rightarrow> outbox_row" where
  "row_update now st cid err at r = r\<lparr>ob_status := st, ob_comment := cid, ob_error := err,
     ob_next_attempt_at := (case at of None \<Rightarrow> ob_next_attempt_at r | Some t \<Rightarrow> t),
     ob_delivered_at := (if st = DELIVERED then Some now else ob_delivered_at r)\<rparr>"

lemma write_back:
  assumes "update_workflow_comment k st now cid err at d = (Inr x, d')"
  shows "\<exists>s. parse_outbox_status st = Some s \<and>
    d' = d\<lparr>outbox := update_where (\<lambda>r. ob_id r = k) (row_update now s cid err at) (outbox d)\<rparr>"
  using assms by (auto simp: update_workflow_comment_def Let_def row_update_def [abs_def] split: option.split_asm if_split_asm)

lemma deliver_one_effect:
  assumes "deliver_one cl later now r (w, d) = (Inr n, w', d')"
  obtains st cid err at where
    "d' = d\<lparr>outbox := update_where (\<lambda>x. ob_id x = ob_id r) (row_update now st cid err at) (outbox d)\<rparr>"
    and "if n = 1 then st = DELIVERED \<and> cid \<noteq> None
         else n = 0 \<and> (if st = AMBIGUOUS then True else st = O_PENDING \<and> at = Some (later now 60))"
proof -
  obtain v st cid err at d1 where u: "update_workflow_comment (ob_id r) st now cid err at d = (Inr v, d1)" and "d' = d1"
    and st: "st = ''DELIVERED'' \<and> cid \<noteq> None \<and> n = 1 \<or> st = ''AMBIGUOUS'' \<and> n = 0 \<or>
      st = ''PENDING'' \<and> at = Some (later now 60) \<and> n = 0"
    using assms unfolding deliver_one_def Let_def
    by (auto split: option.split_asm sum.split_asm prod.split_asm)
  obtain s where s: "parse_outbox_status st = Some s"
    "d' = d\<lparr>outbox := update_where (\<lambda>x. ob_id x = ob_id r) (row_update now s cid err at) (outbox d)\<rparr>"
    using write_back [OF u] \<open>d' = d1\<close> by blast
  show thesis by (rule that [OF s(2)]) (use st s(1) in \<open>auto simp: parse_outbox_status_def\<close>)
qed

text \<open>
  One delivery settles one row: a delivered row becomes DELIVERED with the id of its comment
  and is not due again; a row that could not be delivered keeps its text and is either
  AMBIGUOUS or due again a minute later; no other row and no other table changes.
\<close>

theorem delivery_settles_its_row:
  assumes "deliver_one cl later now r (w, d) = (Inr n, w', d')" "lookup ob_id (ob_id r) (outbox d) = Some r"
  shows "(\<exists>r'. lookup ob_id (ob_id r) (outbox d') = Some r' \<and> ob_body r' = ob_body r \<and> ob_marker r' = ob_marker r \<and>
      (if n = 1 then ob_status r' = DELIVERED \<and> ob_comment r' \<noteq> None \<and> ob_delivered_at r' = Some now
       else n = 0 \<and> (if ob_status r' = AMBIGUOUS then True
                     else ob_status r' = O_PENDING \<and> ob_next_attempt_at r' = later now 60))) \<and>
    (if k = ob_id r then True else lookup ob_id k (outbox d') = lookup ob_id k (outbox d)) \<and> d'\<lparr>outbox := outbox d\<rparr> = d"
  using assms(1)
proof (rule deliver_one_effect)
  fix st cid err at
  assume d': "d' = d\<lparr>outbox := update_where (\<lambda>x. ob_id x = ob_id r) (row_update now st cid err at) (outbox d)\<rparr>"
    and n: "if n = 1 then st = DELIVERED \<and> cid \<noteq> None
      else n = 0 \<and> (if st = AMBIGUOUS then True else st = O_PENDING \<and> at = Some (later now 60))"
  have l: "lookup ob_id j (outbox d') = map_option (\<lambda>x. if ob_id x = ob_id r then row_update now st cid err at x else x)
      (lookup ob_id j (outbox d))" for j
    unfolding d' by (simp add: lookup_update_where row_update_def)
  have "lookup ob_id (ob_id r) (outbox d') = Some (row_update now st cid err at r)"
    unfolding l assms(2) by simp
  moreover have "lookup ob_id k (outbox d') = lookup ob_id k (outbox d)" if "k \<noteq> ob_id r"
    unfolding l using that by (cases "lookup ob_id k (outbox d)") auto
  moreover have "d'\<lparr>outbox := outbox d\<rparr> = d" by (simp add: d')
  ultimately show ?thesis using n by (auto simp: row_update_def)
qed

definition outbox_demo :: db where
  "outbox_demo = inbox_demo\<lparr>outbox := [\<lparr>ob_id = ''m'', ob_event = ''e0'', ob_thread = ''t'', ob_kind = ''ACK'',
     ob_marker = ''<!-- m -->'', ob_body = ''<!-- m --> thanks'', ob_status = O_PENDING, ob_comment = None, ob_error = None,
     ob_created_at = ''1'', ob_next_attempt_at = ''1'', ob_delivered_at = None\<rparr>]\<rparr>"

theorem delivery_settles_its_row_witness:
  "fst (deliver_one memory_client (\<lambda>s n. s) ''2'' (hd (outbox outbox_demo)) ([], outbox_demo)) = Inr 1 \<and>
   (\<exists>r'. lookup ob_id ''m'' (outbox (snd (snd (deliver_one memory_client (\<lambda>s n. s) ''2'' (hd (outbox outbox_demo))
      ([], outbox_demo))))) = Some r' \<and> ob_status r' = DELIVERED)"
proof -
  let ?x = "deliver_one memory_client (\<lambda>s n. s) ''2'' (hd (outbox outbox_demo)) ([], outbox_demo)"
  have n: "fst ?x = Inr 1" by code_simp
  then have x: "?x = (Inr 1, fst (snd ?x), snd (snd ?x))" by (cases ?x) simp
  have "lookup ob_id (ob_id (hd (outbox outbox_demo))) (outbox outbox_demo) = Some (hd (outbox outbox_demo))"
    "ob_id (hd (outbox outbox_demo)) = ''m''"
    by (simp_all add: outbox_demo_def lookup_Cons)
  with delivery_settles_its_row [OF x this(1)] n show ?thesis by auto
qed

end
