(* ===== verification/Gateways.thy ===== *)
theory Gateways
  imports Feedback
begin

text \<open>
  The lifecycle gateways the agent calls (\<open>workflow_tools.py\<close>). A gateway that waits for a human
  calls the framework's \<open>interrupt\<close>, which suspends it; when the thread is resumed the framework
  runs the gateway again from its start and the same call returns the resume value. A call
  therefore has the argument \<open>resume\<close>: \<open>None\<close> is a first run, which ends at the interrupt, and
  \<open>Some v\<close> a replay that is given \<open>v\<close>. Publishing comments is an argument (see \<open>Delivery\<close>); tracing is
  left out.
\<close>

section \<open>Interrupts and resumes\<close>

record interrupt =
  in_kind :: string
  in_occurrence :: string
  in_cycle :: string
  in_task_run :: string
  in_task :: string
  in_artifacts :: "string list"

text \<open>
  The mapping a resume delivers; a key that is missing is the empty text, \<open>None\<close> or \<open>False\<close>, which
  the gateways treat alike. Any other value of the framework is \<open>Not_A_Mapping\<close>.
\<close>

record payload =
  py_kind :: string
  py_occurrence :: string
  py_event :: string
  py_by :: string
  py_at :: string
  py_authorized :: bool
  py_review :: "string option"
  py_answer :: string

datatype resume = Not_A_Mapping | Mapping payload

text \<open>
  What a gateway hands back: a suspension, a message to the agent, or the instruction to decide
  an exact feedback review (whose text is not modelled).
\<close>

datatype outcome = Suspend interrupt | Reply string | Review feedback_review_row

definition with_active ::
  "db \<Rightarrow> string \<Rightarrow> (task_row \<Rightarrow> (err + 'a) \<times> db) \<Rightarrow> (err + 'a) \<times> db" where
  "with_active d workflow_cycle_id k =
    (case active_task d workflow_cycle_id of
       Inl e \<Rightarrow> raise e d
     | Inr None \<Rightarrow> raise (PermissionError ''workflow has no active task'') d
     | Inr (Some t) \<Rightarrow> k t)"

text \<open>\<open>interrupt(payload)\<close>\<close>

definition interrupted ::
  "interrupt \<Rightarrow> resume option \<Rightarrow> db \<Rightarrow> (resume \<Rightarrow> db \<Rightarrow> (err + outcome) \<times> db) \<Rightarrow> (err + outcome) \<times> db" where
  "interrupted i resume d k = (case resume of None \<Rightarrow> return (Suspend i) d | Some v \<Rightarrow> k v d)"

definition plan_interrupt :: "string \<Rightarrow> task_row \<Rightarrow> plan_row \<Rightarrow> interrupt" where
  "plan_interrupt c t p = \<lparr>in_kind = ''PLAN_APPROVAL'', in_occurrence = pl_occurrence p, in_cycle = c,
     in_task_run = tr_id t, in_task = tr_task t,
     in_artifacts = [pl_id p, show_nat (pl_version p), pl_digest p]\<rparr>"

definition result_interrupt :: "string \<Rightarrow> task_row \<Rightarrow> result_row \<Rightarrow> interrupt" where
  "result_interrupt c t r = \<lparr>in_kind = ''RESULT_APPROVAL'', in_occurrence = re_occurrence r, in_cycle = c,
     in_task_run = tr_id t, in_task = tr_task t,
     in_artifacts = [re_plan r, re_execution r, re_validation r, re_id r]\<rparr>"

text \<open>The feedback branch of a replay: the review named by the resume, on the shown occurrence.\<close>

definition bound_review :: "db \<Rightarrow> string \<Rightarrow> string \<Rightarrow> payload \<Rightarrow> string \<Rightarrow> (err + outcome) \<times> db" where
  "bound_review d subject task_run_id v occurrence =
    (if py_occurrence v \<noteq> occurrence then raise (PermissionError (subject @ '' feedback occurrence is stale'')) d
     else case feedback_review_for_task d task_run_id REVIEWING of
       Inl e \<Rightarrow> raise e d
     | Inr None \<Rightarrow> raise (PermissionError (subject @ '' feedback review binding is stale'')) d
     | Inr (Some r) \<Rightarrow>
         if Some (fr_id r) \<noteq> py_review v \<or> fr_occurrence r \<noteq> occurrence
         then raise (PermissionError (subject @ '' feedback review binding is stale'')) d
         else return (Review r) d)"

definition approve_plan_from :: "digest \<Rightarrow> string \<Rightarrow> string \<Rightarrow> payload \<Rightarrow> (db, permit_row) op" where
  "approve_plan_from sha now task_run_id v =
     approve_plan sha now task_run_id (py_occurrence v) (py_event v) (py_by v) (py_authorized v) (py_at v)"

definition approve_result_from :: "digest \<Rightarrow> string \<Rightarrow> string \<Rightarrow> payload \<Rightarrow> (db, result_approval_row) op" where
  "approve_result_from sha now task_run_id v =
     approve_result sha now task_run_id (py_occurrence v) (Some (py_event v)) (py_by v) (py_authorized v) (py_at v) ''HUMAN''"

section \<open>submit_plan\<close>

definition replayed_plan :: "digest \<Rightarrow> db \<Rightarrow> task_row \<Rightarrow> string \<Rightarrow> err + plan_row option" where
  "replayed_plan sha d t plan_text =
    (case tr_plan t of
       None \<Rightarrow> Inr None
     | Some k \<Rightarrow>
         if k = [] then Inr None
         else bindE (plan d k) (\<lambda>p. Inr
           (if pl_digest p = sha (strip plan_text) \<and> tr_phase t \<in> {WAITING_FOR_PLAN_APPROVAL, EXECUTING}
            then Some p else None)))"

type_synonym publish_plan = "string \<Rightarrow> string \<Rightarrow> string \<Rightarrow> err + int \<times> string"

definition posted_plan_for ::
  "digest \<Rightarrow> string \<Rightarrow> publish_plan \<Rightarrow> task_row \<Rightarrow> string \<Rightarrow> (db, plan_row) op" where
  "posted_plan_for sha now publish t plan_text d =
    (case replayed_plan sha d t plan_text of
       Inl e \<Rightarrow> raise e d
     | Inr (Some p) \<Rightarrow> return p d
     | Inr None \<Rightarrow>
         if tr_phase t \<noteq> PLANNING then raise (PermissionError ''only planning may submit a new plan'') d
         else case publish (tr_id t) (tr_task t) plan_text of
           Inl e \<Rightarrow> raise e d
         | Inr (comment_id, posted_at) \<Rightarrow> submit_posted_plan sha now (tr_id t) plan_text comment_id posted_at d)"

definition auto_plan :: "digest \<Rightarrow> string \<Rightarrow> (db \<Rightarrow> bool) \<Rightarrow> string \<Rightarrow> (db, outcome) op" where
  "auto_plan sha now ready task_run_id d =
    (case task d task_run_id of
       Inl e \<Rightarrow> raise e d
     | Inr waiting \<Rightarrow>
         and_then (if tr_phase waiting = WAITING_FOR_PLAN_APPROVAL \<and> ready d
                   then and_then (auto_authorize_plan sha now task_run_id d) (\<lambda>_ d1. return () d1)
                   else return () d)
           (\<lambda>_ d1. return (Reply (if ready d
              then ''Exact AUTO plan authorization recorded. Continue in EXECUTING.''
              else ''AUTO plan is waiting for queued revision input reconciliation.'')) d1))"

definition submit_plan_gateway ::
  "digest \<Rightarrow> string \<Rightarrow> publish_plan \<Rightarrow> (db \<Rightarrow> bool) \<Rightarrow> string \<Rightarrow> string \<Rightarrow> resume option \<Rightarrow> (db, outcome) op" where
  "submit_plan_gateway sha now publish ready c plan_text resume d =
     with_active d c (\<lambda>t. and_then (posted_plan_for sha now publish t plan_text d) (\<lambda>p d1.
       case interaction_mode d1 (tr_thread t) of
         Inl e \<Rightarrow> raise e d1
       | Inr AUTO \<Rightarrow> auto_plan sha now ready (tr_id t) d1
       | Inr MANUAL \<Rightarrow> interrupted (plan_interrupt c t p) resume d1 (\<lambda>v d1.
           case v of
             Not_A_Mapping \<Rightarrow> raise (PermissionError ''plan approval resume payload is invalid'') d1
           | Mapping v \<Rightarrow>
               if py_kind v = ''PLAN_FEEDBACK'' then bound_review d1 ''plan'' (tr_id t) v (pl_occurrence p)
               else if py_kind v \<noteq> ''PLAN_APPROVAL''
               then raise (PermissionError ''plan approval resume payload is invalid'') d1
               else and_then (approve_plan_from sha now (tr_id t) v d1)
                 (\<lambda>_ d2. return (Reply ''Exact plan approval accepted. Continue in EXECUTING.'') d2))))"

section \<open>finish_execution\<close>

definition finish_execution_gateway ::
  "digest \<Rightarrow> string \<Rightarrow> doc list \<Rightarrow> string \<Rightarrow> string \<Rightarrow> doc \<Rightarrow> (db, outcome) op" where
  "finish_execution_gateway sha now observations c summary evidence d =
    (if \<not> is_map evidence \<or> items evidence = [] then raise (ValueError ''execution evidence is required'') d
     else with_active d c (\<lambda>t.
       and_then (finish_execution sha now (tr_id t) summary
           (Some (DMap [(''reported'', evidence), (''tool_observations'', DList observations)])) d)
         (\<lambda>_ d1. return (Reply ''Execution recorded. Continue in VALIDATING.'') d1)))"

section \<open>finish_validation\<close>

fun phase_value :: "task_phase \<Rightarrow> string" where
  "phase_value PENDING = ''PENDING''"
| "phase_value PLANNING = ''PLANNING''"
| "phase_value WAITING_FOR_PLAN_APPROVAL = ''WAITING_FOR_PLAN_APPROVAL''"
| "phase_value EXECUTING = ''EXECUTING''"
| "phase_value VALIDATING = ''VALIDATING''"
| "phase_value WAITING_FOR_RESULT_APPROVAL = ''WAITING_FOR_RESULT_APPROVAL''"
| "phase_value WAITING_FOR_INPUT = ''WAITING_FOR_INPUT''"
| "phase_value DONE = ''DONE''"
| "phase_value FAILED = ''FAILED''"

type_synonym publish_result = "db \<Rightarrow> string \<Rightarrow> string \<Rightarrow> err + int \<times> string"

record decision =
  dn_verdict :: verdict
  dn_summary :: string
  dn_findings :: "doc list"
  dn_repairs :: "string list"
  dn_evidence :: doc

text \<open>
  The validating branch: \<open>Inl\<close> of the inner sum is a decision other than ACCEPT, \<open>Inr\<close> the
  published result. \<open>runs\<close> is \<open>None\<close> when no validation tool is bound.
\<close>

definition validate_and_publish ::
  "digest \<Rightarrow> string \<Rightarrow> (doc \<Rightarrow> err option) \<Rightarrow> publish_result \<Rightarrow> doc list option \<Rightarrow> task_row \<Rightarrow> decision \<Rightarrow>
   (db, task_row + result_row) op" where
  "validate_and_publish sha now guard publish runs t dn d =
    (if runs = Some [] then raise (ValueError ''run_validation evidence is required'') d
     else and_then (finish_validation sha now guard (tr_id t) (dn_verdict dn) (dn_summary dn) (dn_findings dn)
         (dn_repairs dn) (DMap [(''reported'', dn_evidence dn),
            (''validation_runs'', DList (case runs of None \<Rightarrow> [] | Some rs \<Rightarrow> rs))]) d)
       (\<lambda>u d1.
         if dn_verdict dn \<noteq> ACCEPT then return (Inl u) d1
         else case publish d1 (tr_id t) (tr_task t) of
           Inl e \<Rightarrow> raise e d1
         | Inr (comment_id, posted_at) \<Rightarrow>
             and_then (publish_validated_result sha now (tr_id t) comment_id posted_at d1)
               (\<lambda>r d2. return (Inr r) d2)))"

definition result_for ::
  "digest \<Rightarrow> string \<Rightarrow> (doc \<Rightarrow> err option) \<Rightarrow> publish_result \<Rightarrow> doc list option \<Rightarrow> task_row \<Rightarrow> decision \<Rightarrow>
   (db, task_row + result_row) op" where
  "result_for sha now guard publish runs t dn d =
    (if tr_phase t = VALIDATING then validate_and_publish sha now guard publish runs t dn d
     else if tr_phase t = WAITING_FOR_RESULT_APPROVAL
     then (case current_result d (tr_id t) of
             None \<Rightarrow> raise (RuntimeError ''waiting task has no exact result'') d
           | Some r \<Rightarrow> return (Inr r) d)
     else raise (PermissionError ''only validation may submit a result'') d)"

definition auto_result :: "digest \<Rightarrow> string \<Rightarrow> (db \<Rightarrow> bool) \<Rightarrow> string \<Rightarrow> (db, outcome) op" where
  "auto_result sha now ready task_run_id d =
    (if \<not> ready d
     then return (Reply ''AUTO result is waiting for queued revision input reconciliation.'') d
     else and_then (auto_accept_result sha now task_run_id d)
       (\<lambda>_ d1. return (Reply ''Exact AUTO result acceptance recorded. Task is DONE.'') d1))"

definition finish_validation_gateway ::
  "digest \<Rightarrow> string \<Rightarrow> (doc \<Rightarrow> err option) \<Rightarrow> publish_result \<Rightarrow> (db \<Rightarrow> bool) \<Rightarrow> doc list option \<Rightarrow> string \<Rightarrow>
   decision \<Rightarrow> resume option \<Rightarrow> (db, outcome) op" where
  "finish_validation_gateway sha now guard publish ready runs c dn resume d =
     with_active d c (\<lambda>t. and_then (result_for sha now guard publish runs t dn d) (\<lambda>x d1.
       case x of
         Inl u \<Rightarrow> return (Reply (''Validation recorded. Task phase is now '' @ phase_value (tr_phase u) @ ''.'')) d1
       | Inr r \<Rightarrow>
           (case interaction_mode d1 (tr_thread t) of
              Inl e \<Rightarrow> raise e d1
            | Inr AUTO \<Rightarrow> auto_result sha now ready (tr_id t) d1
            | Inr MANUAL \<Rightarrow> interrupted (result_interrupt c t r) resume d1 (\<lambda>v d1.
                case v of
                  Not_A_Mapping \<Rightarrow> raise (PermissionError ''result approval resume payload is invalid'') d1
                | Mapping v \<Rightarrow>
                    if py_kind v = ''RESULT_FEEDBACK'' then bound_review d1 ''result'' (tr_id t) v (re_occurrence r)
                    else if py_kind v \<noteq> ''RESULT_APPROVAL''
                    then raise (PermissionError ''result approval resume payload is invalid'') d1
                    else and_then (approve_result_from sha now (tr_id t) v d1)
                      (\<lambda>_ d2. return (Reply ''Exact validated result approval accepted. Task is DONE.'') d2)))))"

section \<open>Feedback decisions\<close>

definition replan_current_feedback :: "string \<Rightarrow> string \<Rightarrow> (db, outcome) op" where
  "replan_current_feedback now c d =
     with_active d c (\<lambda>t.
       case feedback_review_for_task d (tr_id t) REVIEWING of
         Inl e \<Rightarrow> raise e d
       | Inr None \<Rightarrow> raise (PermissionError ''there is no exact active feedback review'') d
       | Inr (Some r) \<Rightarrow>
           and_then (resolve_current_feedback_replan now (fr_id r) d)
             (\<lambda>_ d1. return (Reply (''Relevant feedback outcome recorded. Build one cumulative replacement '' @
                ''plan for the same task and call submit_plan.'')) d1))"

text \<open>The review to defer: the one already waiting, or the one in review, deferred now.\<close>

definition deferred_review :: "digest \<Rightarrow> string \<Rightarrow> task_row \<Rightarrow> (db, feedback_review_row) op" where
  "deferred_review sha now t d =
    (case feedback_review_for_task d (tr_id t) DEFERRED_WAITING of
       Inl e \<Rightarrow> raise e d
     | Inr (Some r) \<Rightarrow> return r d
     | Inr None \<Rightarrow>
         (case feedback_review_for_task d (tr_id t) REVIEWING of
            Inl e \<Rightarrow> raise e d
          | Inr None \<Rightarrow> raise (PermissionError ''there is no exact active feedback review'') d
          | Inr (Some r) \<Rightarrow>
              and_then (defer_feedback_to_revision sha now (fr_id r) d)
                (\<lambda>x d1. case x of None \<Rightarrow> raise (TypeError ''feedback review disappeared'') d1
                         | Some r1 \<Rightarrow> return r1 d1)))"

definition retained_interrupt :: "db \<Rightarrow> string \<Rightarrow> task_row \<Rightarrow> feedback_review_row \<Rightarrow> err + interrupt" where
  "retained_interrupt d c t r =
    (case fr_kind r of
       PLAN_FEEDBACK \<Rightarrow> bindE (plan d (text_or_empty (tr_plan t))) (\<lambda>p. Inr (plan_interrupt c t p))
     | RESULT_FEEDBACK \<Rightarrow>
         (case current_result d (tr_id t) of
            None \<Rightarrow> Inl (RuntimeError ''deferred result feedback lost its result'')
          | Some x \<Rightarrow> Inr (result_interrupt c t x)))"

definition ends_with :: "string \<Rightarrow> string \<Rightarrow> bool" where
  "ends_with s e = starts_with (rev s) (rev e)"

text \<open>The replay of a deferred decision: another feedback, or the approval that was retained.\<close>

definition settle_deferred :: "digest \<Rightarrow> string \<Rightarrow> task_row \<Rightarrow> feedback_review_row \<Rightarrow> resume \<Rightarrow> (db, outcome) op" where
  "settle_deferred sha now t r v d =
    (case v of
       Not_A_Mapping \<Rightarrow> raise (PermissionError ''deferred feedback resume payload is invalid'') d
     | Mapping v \<Rightarrow>
         if ends_with (py_kind v) ''_FEEDBACK''
         then and_then (close_deferred_feedback (fr_id r) d) (\<lambda>_ d1.
           case feedback_review_for_task d1 (tr_id t) REVIEWING of
             Inl e \<Rightarrow> raise e d1
           | Inr None \<Rightarrow> raise (PermissionError ''next feedback review binding is stale'') d1
           | Inr (Some x) \<Rightarrow>
               if Some (fr_id x) \<noteq> py_review v
               then raise (PermissionError ''next feedback review binding is stale'') d1
               else return (Review x) d1)
         else and_then
           (if fr_kind r = PLAN_FEEDBACK \<and> py_kind v = ''PLAN_APPROVAL''
            then and_then (approve_plan_from sha now (tr_id t) v d) (\<lambda>_ d1. return () d1)
            else if fr_kind r = RESULT_FEEDBACK \<and> py_kind v = ''RESULT_APPROVAL''
            then and_then (approve_result_from sha now (tr_id t) v d) (\<lambda>_ d1. return () d1)
            else raise (PermissionError ''deferred feedback approval kind is invalid'') d)
           (\<lambda>_ d1. and_then (close_deferred_feedback (fr_id r) d1)
              (\<lambda>_ d2. return (Reply ''Exact retained approval accepted. Continue the current workflow.'') d2)))"

text \<open>\<open>deliver\<close> is the delivery of the outbox; it only writes that table.\<close>

definition defer_current_feedback ::
  "digest \<Rightarrow> string \<Rightarrow> (db, unit) op \<Rightarrow> string \<Rightarrow> resume option \<Rightarrow> (db, outcome) op" where
  "defer_current_feedback sha now deliver c resume d =
     with_active d c (\<lambda>t.
       and_then (deferred_review sha now t d) (\<lambda>r d1.
       and_then (deliver d1) (\<lambda>_ d2.
         case retained_interrupt d2 c t r of
           Inl e \<Rightarrow> raise e d2
         | Inr i \<Rightarrow> interrupted i resume d2 (settle_deferred sha now t r))))"

section \<open>request_clarification\<close>

definition clarification_occurrence :: "digest \<Rightarrow> task_row \<Rightarrow> string \<Rightarrow> string \<Rightarrow> string" where
  "clarification_occurrence sha t question reason =
    (case tr_clarification t of
       Some k \<Rightarrow> k
     | None \<Rightarrow> ''clarification:'' @ tr_id t @ '':'' @
         take 24 (sha (join nul [tr_id t, phase_value (tr_phase t), question, reason])))"

definition request_clarification ::
  "digest \<Rightarrow> string \<Rightarrow> string \<Rightarrow> string \<Rightarrow> string \<Rightarrow> string \<Rightarrow> string list \<Rightarrow> resume option \<Rightarrow> (db, outcome) op" where
  "request_clarification sha now c question reason answer_type choices resume d =
     with_active d c (\<lambda>t.
       let kind = map upper answer_type; occurrence = clarification_occurrence sha t question reason in
       if kind \<notin> set [''TEXT'', ''VALUE'', ''BOOLEAN'', ''CHOICE'']
       then raise (ValueError ''unsupported clarification answer type'') d
       else if kind = ''CHOICE'' \<and> choices = []
       then raise (ValueError ''CHOICE clarification requires choices'') d
       else and_then
         (if tr_phase t \<noteq> WAITING_FOR_INPUT
          then and_then (pause_for_clarification now (tr_id t) occurrence d) (\<lambda>_ d1. return () d1)
          else return () d)
         (\<lambda>_ d1. interrupted
            \<lparr>in_kind = ''CLARIFICATION'', in_occurrence = occurrence, in_cycle = c, in_task_run = tr_id t,
             in_task = tr_task t, in_artifacts = take 2000 question # take 2000 reason # kind # choices\<rparr>
            resume d1 (\<lambda>v d1.
              case v of
                Not_A_Mapping \<Rightarrow> raise (PermissionError ''clarification resume payload is invalid'') d1
              | Mapping v \<Rightarrow>
                  if py_kind v \<noteq> ''CLARIFICATION_RESPONSE'' \<or> py_occurrence v \<noteq> occurrence
                  then raise (PermissionError ''clarification resume payload is invalid'') d1
                  else and_then (resume_clarification now (tr_id t) occurrence d1)
                    (\<lambda>_ d2. return (Reply (''Clarification answer received: '' @ py_answer v)) d2))))"

end
