(* ===== verification/Gateway_Properties.thy ===== *)
theory Gateway_Properties
  imports Gateways Example_Thread
begin

text \<open>
  What the gateways guarantee when the framework runs them again: a gateway that was suspended on
  an interrupt finds the plan it posted, shows the same interrupt and publishes nothing.
\<close>

lemma active_task_iff:
  "active_task d c = Inr (Some t) \<longleftrightarrow>
    (\<exists>cy k. cycle_of d c = Some cy \<and> cy_active cy = Some k \<and> task_in_cycle d c k = Some t)"
  by (auto simp: active_task_def bindE_Inr_iff cycle_iff split: option.split_asm option.split)

lemma active_after_set:
  assumes "active_task d c = Inr (Some t)" "cycles d1 = cycles d" "tasks d1 = tasks d" "tr_id t = k"
    and "\<And>t. tr_cycle (f t) = tr_cycle t" "\<And>t. tr_task (f t) = tr_task t"
  shows "active_task (set_task k f d1) c = Inr (Some (f t))"
  using assms by (auto simp: active_task_iff task_in_cycle_def set_task_def find_update_where)

lemma posted_is_replayed:
  assumes "active_task d c = Inr (Some t)" "posted_plan_for sha now publish t body d = (Inr p, d1)"
  shows "\<exists>t1. active_task d1 c = Inr (Some t1) \<and> tr_id t1 = tr_id t \<and> tr_task t1 = tr_task t \<and> tr_thread t1 = tr_thread t \<and>
    replayed_plan sha d1 t1 body = Inr (Some p)"
proof (cases "replayed_plan sha d t body")
  case (Inl e)
  with assms(2) show ?thesis by (simp add: posted_plan_for_def)
next
  case (Inr q)
  show ?thesis
  proof (cases q)
    case (Some p')
    with Inr assms(2) have "p' = p" "d1 = d" by (simp_all add: posted_plan_for_def)
    with Inr Some assms(1) show ?thesis by blast
  next
    case None
    with Inr assms(2) obtain cid at where s: "submit_posted_plan sha now (tr_id t) body cid at d = (Inr p, d1)"
      by (auto simp: posted_plan_for_def split: if_split_asm sum.split_asm prod.split_asm)
    then obtain t' m d2 where t': "owned_task d (tr_id t) PLANNING = Inr t'"
      and m: "m = mk_plan sha t' (next_plan_version d (tr_id t)) (strip body) cid at"
      and i: "insert_plan m (invalidate_permits now (tr_id t) (supersede_open_plans (tr_id t) d)) = Inr d2"
      and d1: "d1 = set_task (tr_id t) (\<lambda>t. (enter WAITING_FOR_PLAN_APPROVAL now t)\<lparr>tr_plan := Some (pl_id m)\<rparr>) d2"
      and p: "plan_of d1 (pl_id m) = Some p"
      by (rule submit_effect)
    have d2: "cycles d2 = cycles d" "tasks d2 = tasks d"
      using i by (simp_all add: insert_plan_iff runtime_updates)
    have "plan_of d1 (pl_id m) = Some m"
      using i by (auto simp: d1 insert_plan_iff set_task_def table_simps lookup_None_iff [THEN iffD2] image_iff
          split: option.split)
    with p have "p = m" by simp
    let ?t1 = "(enter WAITING_FOR_PLAN_APPROVAL now t)\<lparr>tr_plan := Some (pl_id m)\<rparr>"
    have "active_task d1 c = Inr (Some ?t1)" unfolding d1 by (rule active_after_set [OF assms(1) d2 refl]) simp_all
    moreover have "pl_id m \<noteq> []" by (simp add: m mk_plan_def Let_def stable_def)
    moreover have "pl_digest m = sha (strip body)" by (simp add: m mk_plan_def Let_def)
    ultimately show ?thesis using p \<open>p = m\<close> by (auto simp: replayed_plan_def plan_def)
  qed
qed

text \<open>The resumed half of \<open>submit_plan\<close>, from the plan it shows.\<close>

definition plan_answered :: "digest \<Rightarrow> string \<Rightarrow> string \<Rightarrow> string \<Rightarrow> resume \<Rightarrow> (db, outcome) op" where
  "plan_answered sha now k occ v d =
    (case v of
       Not_A_Mapping \<Rightarrow> raise (PermissionError ''plan approval resume payload is invalid'') d
     | Mapping v \<Rightarrow>
         if py_kind v = ''PLAN_FEEDBACK'' then bound_review d ''plan'' k v occ
         else if py_kind v \<noteq> ''PLAN_APPROVAL''
         then raise (PermissionError ''plan approval resume payload is invalid'') d
         else and_then (approve_plan_from sha now k v d)
           (\<lambda>_ d2. return (Reply ''Exact plan approval accepted. Continue in EXECUTING.'') d2))"

lemma auto_plan_replies: "auto_plan sha now ready k d \<noteq> (Inr (Suspend i), d')"
  by (auto simp: auto_plan_def and_then_return_iff split: sum.split)

text \<open>
  C34. A suspended \<open>submit_plan\<close> can be run again at any time: it shows the same interrupt and leaves
  the database as it is, whatever the publisher would do; and a resume goes straight to the
  decision on the plan that was shown, so that one call of the gateway posts one plan.
\<close>

theorem suspended_plan_is_not_posted_again:
  assumes "submit_plan_gateway sha now publish ready c body None d = (Inr (Suspend i), d1)"
  shows "submit_plan_gateway sha now' publish' ready' c body None d1 = (Inr (Suspend i), d1) \<and>
    submit_plan_gateway sha now' publish' ready' c body (Some v) d1 =
      plan_answered sha now' (in_task_run i) (in_occurrence i) v d1"
proof -
  obtain t where t: "active_task d c = Inr (Some t)"
    using assms by (cases "active_task d c"; cases "projr (active_task d c)") (auto simp: submit_plan_gateway_def with_active_def)
  obtain p d2 where p2: "posted_plan_for sha now publish t body d = (Inr p, d2)"
    using assms t by (auto simp: submit_plan_gateway_def with_active_def and_then_return_iff)
  note r = assms [unfolded submit_plan_gateway_def with_active_def t, simplified, simplified p2, simplified]
  obtain m where m2: "interaction_mode d2 (tr_thread t) = Inr m"
    using r by (cases "interaction_mode d2 (tr_thread t)") auto
  with r auto_plan_replies have mm: "m = MANUAL" by (cases m) auto
  then have "d2 = d1" "i = plan_interrupt c t p" using r m2 by (simp_all add: interrupted_def)
  with mm m2 p2 have p: "posted_plan_for sha now publish t body d = (Inr p, d1)" and i: "i = plan_interrupt c t p"
    and m: "interaction_mode d1 (tr_thread t) = Inr MANUAL" by auto
  from posted_is_replayed [OF t p] obtain t1 where t1: "active_task d1 c = Inr (Some t1)" "tr_id t1 = tr_id t"
    "tr_task t1 = tr_task t" "tr_thread t1 = tr_thread t" "replayed_plan sha d1 t1 body = Inr (Some p)"
    by blast
  have "posted_plan_for sha now' publish' t1 body d1 = (Inr p, d1)" by (simp add: posted_plan_for_def t1(5))
  with t1 m show ?thesis
    by (cases v) (simp_all add: submit_plan_gateway_def with_active_def interrupted_def plan_answered_def i plan_interrupt_def)
qed

text \<open>The gateway of the example run, suspended on its plan.\<close>

abbreviation demo_gateway where
  "demo_gateway publish v d \<equiv> submit_plan_gateway example_sha ''3'' publish (\<lambda>d. True) the_cycle ''the plan'' v d"

theorem suspended_plan_is_not_posted_again_witness:
  "map pl_id (plans (snd (demo_gateway (\<lambda>k t b. Inr (12, ''4'')) None
     (snd (demo_gateway (\<lambda>k t b. Inr (11, ''3'')) None demo_2))))) = [''task-plan-ab'']"
proof -
  let ?r = "demo_gateway (\<lambda>k t b. Inr (11, ''3'')) None demo_2"
  have "case fst ?r of Inr (Suspend i) \<Rightarrow> True | _ \<Rightarrow> False" by code_simp
  then obtain i where "fst ?r = Inr (Suspend i)" by (auto split: sum.split_asm outcome.split_asm)
  then have r: "?r = (Inr (Suspend i), snd ?r)" by (rule returned_value)
  have "map pl_id (plans (snd ?r)) = [''task-plan-ab'']" by code_simp
  with suspended_plan_is_not_posted_again [OF r] show ?thesis by simp
qed

end
