(* ===== verification/Controller.thy ===== *)
theory Controller
  imports Gateways Publication
begin

text \<open>
  The controller (\<open>workflow_controller.py\<close>): one tick of a thread. It routes the inbox, settles
  claims, selects the active task, turns human inputs into resume payloads, drives the agent and
  closes completed cycles. The agent driver, the workspace, the GitHub permission lookup and the
  delivery of comments are the fields of an environment; one clock reading stands for those of a
  tick. The file lock around a tick and the tracing are left out.
\<close>

section \<open>The task of an event (execution.py)\<close>

text \<open>\<open>_MENTION_RE.sub("", body)\<close>: \<open>prev\<close> is the original character in front, if any.\<close>

function drop_mentions :: "char option \<Rightarrow> string \<Rightarrow> string" where
  "drop_mentions prev [] = []"
| "drop_mentions prev (c # cs) =
    (if \<not> (case prev of None \<Rightarrow> False | Some b \<Rightarrow> is_word b) \<and>
        (case match_token ''@agent'' (c # cs) of None \<Rightarrow> False | Some r \<Rightarrow> no_word_ahead r)
     then drop_mentions (Some (cs ! 4)) (drop 5 cs)
     else c # drop_mentions (Some c) cs)"
  by pat_completeness auto

termination by (relation "measure (length \<circ> snd)") auto

text \<open>\<open>re.sub(r"[ \t]{2,}", " ", s)\<close>\<close>

definition is_blank :: "char \<Rightarrow> bool" where
  "is_blank c = (c = CHR '' '' \<or> c = CHR 0x09)"

function squeeze :: "string \<Rightarrow> string" where
  "squeeze [] = []"
| "squeeze (c # cs) =
    (if is_blank c \<and> cs \<noteq> [] \<and> is_blank (hd cs) then CHR '' '' # squeeze (dropWhile is_blank cs)
     else c # squeeze cs)"
  by pat_completeness auto

termination by (relation "measure length") (auto simp: length_dropWhile_le le_imp_less_Suc)

definition normalize_task :: "string \<Rightarrow> err + string" where
  "normalize_task body =
    (let s = strip (squeeze (drop_mentions None body)) in
     if s = [] then Inl (ValueError ''@agent mention did not contain a task'') else Inr s)"

section \<open>The environment\<close>

text \<open>
  \<open>has_interrupt d task_run kind occurrence\<close> is the driver's proof of a pending interrupt;
  \<open>drive\<close> runs the agent, with a resume or (\<open>None\<close>) a prompt; \<open>reconcile\<close> re-posts clarification
  questions; \<open>permission repo login\<close> is the collaborator permission GitHub reports.
\<close>

record env =
  has_interrupt :: "db \<Rightarrow> string \<Rightarrow> string \<Rightarrow> string \<Rightarrow> err + bool"
  drive :: "string \<Rightarrow> string \<Rightarrow> payload option \<Rightarrow> (db, unit) op"
  reconcile :: "string \<Rightarrow> string \<Rightarrow> db \<Rightarrow> err + unit"
  permission :: "string \<Rightarrow> string \<Rightarrow> err + string"
  workspace :: "cycle_row \<Rightarrow> (db, unit) op"
  deliver :: "string \<Rightarrow> (db, unit) op"

definition authorized_approver :: "env \<Rightarrow> string \<Rightarrow> string option \<Rightarrow> bool" where
  "authorized_approver en repo login =
    (text_or_empty login \<noteq> [] \<and>
     (case permission en repo (text_or_empty login) of
        Inl e \<Rightarrow> False | Inr p \<Rightarrow> map lower p \<in> set [''admin'', ''maintain'', ''write'']))"

section \<open>Starting cycles\<close>

definition begin_revision :: "digest \<Rightarrow> env \<Rightarrow> string \<Rightarrow> string \<Rightarrow> (db, cycle_row option) op" where
  "begin_revision sha en now thread_id d =
    (case pending_revision_inputs d thread_id of
       [] \<Rightarrow> return None d
     | (r, e) # rest \<Rightarrow>
         (case lifecycle_of d thread_id of
            None \<Rightarrow> return None d
          | Some l \<Rightarrow>
              if li_state l \<notin> {COMPLETE, L_PUBLISHED} then return None d
              else if text_or_empty (li_cycle l) = []
              then raise (RuntimeError ''revision authority has no persisted initial workflow'') d
              else case bindE (spec_for_cycle sha d (text_or_empty (li_cycle l)))
                  (\<lambda>w. bindE (derive_revision_spec sha w) (\<lambda>rev. Inr (w, rev))) of
                Inl e \<Rightarrow> raise e d
              | Inr (initial_spec, revision_spec) \<Rightarrow>
                  and_then (initialize_cycle sha now thread_id (next_cycle_id d thread_id) (ri_id r) revision_spec
                      (Some (''derived:'' @ text_or_empty (li_cycle l) @ '':'' @ ws_digest initial_spec)) REVISION
                      (Some (next_revision_sequence d thread_id)) d)
                    (\<lambda>c d1. and_then (batch_revision_inputs thread_id (cy_id c) None d1)
                      (\<lambda>_ d2. and_then (workspace en c d2) (\<lambda>_ d3. return (Some c) d3)))))"

definition begin_cycle ::
  "digest \<Rightarrow> env \<Rightarrow> string \<Rightarrow> workflow_spec \<Rightarrow> string option \<Rightarrow> string \<Rightarrow> (db, cycle_row option) op" where
  "begin_cycle sha en now spec spec_ref thread_id d =
    (case lifecycle_of d thread_id of
       None \<Rightarrow> return None d
     | Some l \<Rightarrow>
         (case li_state l of
            LEGACY_BLOCKED \<Rightarrow> return None d
          | NOT_STARTED \<Rightarrow>
              (let n = next_cycle_id d thread_id in
               and_then (initialize_cycle sha now thread_id n (li_root_event l) spec spec_ref INITIAL None d)
                 (\<lambda>c d1. and_then (activate_initial_workflow thread_id (cy_id c) (cy_digest c) d1)
                   (\<lambda>_ d2. and_then (record_input_disposition (li_root_event l) thread_id n ''CYCLE_ROOT'' now d2)
                     (\<lambda>_ d3. and_then (workspace en c d3) (\<lambda>_ d4. return (Some c) d4)))))
          | L_ACTIVE \<Rightarrow> return None d
          | COMPLETE \<Rightarrow> begin_revision sha en now thread_id d
          | L_PUBLISHED \<Rightarrow> begin_revision sha en now thread_id d))"

section \<open>Closing cycles\<close>

definition settle_completed_cycle :: "digest \<Rightarrow> env \<Rightarrow> string \<Rightarrow> cycle_row \<Rightarrow> (db, cycle_row) op" where
  "settle_completed_cycle sha en now c d =
     and_then
       (if cy_kind c = INITIAL
        then (case publication_is_eligible sha d (cy_id c) of
                Inl e \<Rightarrow> raise e d
              | Inr ok \<Rightarrow>
                  if \<not> ok then raise (RuntimeError ''initial workflow completion proof is incomplete'') d
                  else complete_initial_workflow (cy_thread c) (cy_id c) d)
        else and_then (consume_revision_inputs (cy_thread c) (cy_id c) d) (\<lambda>_ d1. return () d1))
       (\<lambda>_ d1. and_then (begin_revision sha en now (cy_thread c) d1)
         (\<lambda>next d2. case next of
            None \<Rightarrow> return c d2
          | Some n \<Rightarrow> and_then (select_active_task now (cy_id n) d2) (\<lambda>_ d3. (cycle d3 (cy_id n), d3))))"

definition settle_revision_steering :: "string \<Rightarrow> cycle_row \<Rightarrow> task_row \<Rightarrow> (db, bool) op" where
  "settle_revision_steering now c t d =
    (if cy_kind c \<noteq> REVISION \<or> tr_phase t \<notin> {WAITING_FOR_PLAN_APPROVAL, WAITING_FOR_RESULT_APPROVAL}
     then return False d
     else
       let ids = map (\<lambda>(r, e). ri_id r)
             (filter (\<lambda>(r, e). ri_reason r = ''UNSOLICITED_STEERING'') (pending_revision_inputs d (cy_thread c))) in
       if ids = [] then return False d
       else and_then (batch_revision_inputs (cy_thread c) (cy_id c) (Some ids) d)
         (\<lambda>_ d1. and_then (replan_for_revision_inputs now (tr_id t) ids d1) (\<lambda>_ d2. return True d2)))"

section \<open>The root input\<close>

text \<open>
  \<open>_root_event\<close>; the prompts use the body of the root, or the residual text of a deferred or
  revision input.
\<close>

definition root_event :: "db \<Rightarrow> cycle_row \<Rightarrow> err + source_event" where
  "root_event d c =
    (case cycle_root_event d (cy_root_input c) of
       None \<Rightarrow> Inl (RuntimeError ''workflow root SourceEvent disappeared'') | Some e \<Rightarrow> Inr e)"

definition deferred_text_for_event :: "db \<Rightarrow> string \<Rightarrow> string \<Rightarrow> string option" where
  "deferred_text_for_event d event_key deferred_id =
    (case find (\<lambda>f. df_id f = deferred_id \<and> df_event f = event_key \<and> df_residual f \<noteq> None) (deferred d) of
       None \<Rightarrow> None | Some f \<Rightarrow> df_residual f)"

definition or_body :: "string option \<Rightarrow> string \<Rightarrow> string" where
  "or_body residual body = (if text_or_empty residual = [] then body else text_or_empty residual)"

definition root_body :: "db \<Rightarrow> cycle_row \<Rightarrow> source_event \<Rightarrow> err + string" where
  "root_body d c root =
    (if starts_with (cy_root_input c) ''deferred-''
     then Inr (or_body (deferred_text_for_event d (ev_key root) (cy_root_input c)) (ev_body root))
     else if starts_with (cy_root_input c) ''revision-input-''
     then (case revision_input_of d (cy_root_input c) of
             None \<Rightarrow> Inl (RuntimeError ''revision root input disappeared'')
           | Some r \<Rightarrow>
               (case event_of d (ri_event r) of
                  None \<Rightarrow> Inl (RuntimeError ''revision root input disappeared'')
                | Some e \<Rightarrow> Inr (or_body (ri_residual r) (ev_body e))))
     else Inr (ev_body root))"

text \<open>
  The requests \<open>_phase_prompt\<close> puts in the prompt, or the error it raises: the root request, the
  original request (None when it is missing) and the batched inputs. The rest of the prompt is
  text around them.
\<close>

fun normalize_all :: "string list \<Rightarrow> err + string list" where
  "normalize_all [] = Inr []"
| "normalize_all (b # bs) = bindE (normalize_task b) (\<lambda>s. bindE (normalize_all bs) (\<lambda>ss. Inr (s # ss)))"

definition phase_requests :: "db \<Rightarrow> cycle_row \<Rightarrow> err + string \<times> string option \<times> string list" where
  "phase_requests d c =
     bindE (root_event d c) (\<lambda>root. bindE (root_body d c root) (\<lambda>body. bindE (normalize_task body) (\<lambda>request.
       if cy_kind c \<noteq> REVISION then Inr (request, None, [])
       else bindE (normalize_all (map (\<lambda>(r, e). or_body (ri_residual r) (ev_body e))
                (revision_inputs_for_cycle d (cy_id c) True))) (\<lambda>inputs.
         case lifecycle_of d (cy_thread c) of
           None \<Rightarrow> Inr (request, None, inputs)
         | Some l \<Rightarrow>
             (case event_of d (li_root_event l) of
                None \<Rightarrow> Inr (request, None, inputs)
              | Some e \<Rightarrow> bindE (normalize_task (ev_body e)) (\<lambda>original. Inr (request, Some original, inputs)))))))"

section \<open>Claims\<close>

definition interrupt_kind :: "string \<Rightarrow> string option" where
  "interrupt_kind kind = map_of
     [(''PLAN_APPROVAL'', ''PLAN_APPROVAL''), (''RESULT_APPROVAL'', ''RESULT_APPROVAL''),
      (''CLARIFICATION_RESPONSE'', ''CLARIFICATION'')] kind"

datatype claim_verdict = APPLIED | CLAIM_SUPERSEDED

text \<open>
  The decision about an occurrence, from the rows that carry it: the event of some permit of the
  plan, or of some approval of the result. SQLite returns the first match of the unordered query;
  rows are scanned in insertion order.
\<close>

definition decided_plan :: "db \<Rightarrow> string \<Rightarrow> string option" where
  "decided_plan d occurrence =
     map_option pm_event (find (\<lambda>q. list_ex (\<lambda>p. pl_id p = pm_plan q \<and> pl_occurrence p = occurrence) (plans d)) (permits d))"

definition decided_result :: "db \<Rightarrow> string \<Rightarrow> string option option" where
  "decided_result d occurrence = map_option ra_event (find (\<lambda>a. ra_occurrence a = occurrence) (approvals d))"

definition verdict_of :: "db \<Rightarrow> consumption_row \<Rightarrow> claim_verdict option" where
  "verdict_of d claim =
    (let occurrence = text_or_empty (co_occurrence claim) in
     if co_status claim = ''PLAN_APPROVAL''
     then (if \<not> has pl_occurrence occurrence (plans d) then Some CLAIM_SUPERSEDED
           else case decided_plan d occurrence of
             None \<Rightarrow> None
           | Some k \<Rightarrow> Some (if k = co_event claim then APPLIED else CLAIM_SUPERSEDED))
     else if co_status claim = ''RESULT_APPROVAL''
     then (if \<not> has re_occurrence occurrence (results d) then Some CLAIM_SUPERSEDED
           else case decided_result d occurrence of
             None \<Rightarrow> None
           | Some k \<Rightarrow> Some (if k = Some (co_event claim) then APPLIED else CLAIM_SUPERSEDED))
     else if co_status claim = ''CLARIFICATION_RESPONSE''
     then (if list_ex (\<lambda>t. tr_clarification t = Some occurrence \<and> tr_phase t = WAITING_FOR_INPUT) (tasks d)
           then None else Some APPLIED)
     else Some CLAIM_SUPERSEDED)"

definition settle_resume_claim :: "string \<Rightarrow> cycle_row \<Rightarrow> (db, unit) op" where
  "settle_resume_claim now c d =
    (case pending_resume_claim d (cy_thread c) of
       None \<Rightarrow> return () d
     | Some claim \<Rightarrow>
         (case (if interrupt_kind (co_status claim) \<noteq> None then verdict_of d claim else Some CLAIM_SUPERSEDED) of
            None \<Rightarrow> return () d
          | Some v \<Rightarrow>
              and_then (finish_input_resume (co_event claim) now (if v = APPLIED then None else Some ''STALE'') d)
                (\<lambda>_ d1. return () d1)))"

definition mark_resume_applied :: "string \<Rightarrow> payload option \<Rightarrow> (db, unit) op" where
  "mark_resume_applied now resume d =
    (case resume of
       None \<Rightarrow> return () d
     | Some v \<Rightarrow>
         if interrupt_kind (py_kind v) = None \<or> py_event v = [] then return () d
         else and_then (finish_input_resume (py_event v) now None d) (\<lambda>_ d1. return () d1))"

text \<open>\<open>_claimed_resume\<close>: replay a claim on exactly this kind and occurrence.\<close>

definition claimed_resume ::
  "env \<Rightarrow> string \<Rightarrow> cycle_row \<Rightarrow> task_row \<Rightarrow> string \<Rightarrow> string \<Rightarrow> (source_event \<Rightarrow> err + payload) \<Rightarrow> (db, payload option) op" where
  "claimed_resume en now c t kind occurrence build d =
    (case pending_resume_claim d (cy_thread c) of
       None \<Rightarrow> return None d
     | Some claim \<Rightarrow>
         if co_status claim \<noteq> kind \<or> co_occurrence claim \<noteq> Some occurrence then return None d
         else case event_of d (co_event claim) of
           None \<Rightarrow> and_then (finish_input_resume (co_event claim) now (Some ''STALE'') d) (\<lambda>_ d1. return None d1)
         | Some e \<Rightarrow>
             (case has_interrupt en d (tr_id t) (text_or_empty (interrupt_kind kind)) occurrence of
                Inl x \<Rightarrow> raise x d
              | Inr False \<Rightarrow> return None d
              | Inr True \<Rightarrow> (case build e of Inl x \<Rightarrow> raise x d | Inr v \<Rightarrow> return (Some v) d)))"

definition claim_input :: "string \<Rightarrow> source_event \<Rightarrow> cycle_row \<Rightarrow> string \<Rightarrow> string \<Rightarrow> (db, consumption_row) op" where
  "claim_input now e c status occurrence =
     claim_input_for_resume (ev_key e) (cy_thread c) (cy_cycle_id c) status occurrence now"

definition consume :: "string \<Rightarrow> source_event \<Rightarrow> cycle_row \<Rightarrow> string \<Rightarrow> (db, consumption_row option) op" where
  "consume now e c status = record_input_disposition (ev_key e) (cy_thread c) (cy_cycle_id c) status now"

section \<open>Resumes\<close>

text \<open>
  The payloads; \<open>py_answer\<close> also holds the feedback text, which no gateway reads.
\<close>

definition approval_payload :: "string \<Rightarrow> string \<Rightarrow> source_event \<Rightarrow> payload" where
  "approval_payload kind occurrence e =
     \<lparr>py_kind = kind, py_occurrence = occurrence, py_event = ev_key e, py_by = text_or_empty (ev_author e),
      py_at = text_or_empty (ev_created_at e), py_authorized = True, py_review = None, py_answer = []\<rparr>"

definition feedback_payload :: "feedback_kind \<Rightarrow> string \<Rightarrow> string \<Rightarrow> string \<Rightarrow> string \<Rightarrow> payload" where
  "feedback_payload kind occurrence event_key review_id text =
     \<lparr>py_kind = feedback_kind_value kind @ ''_FEEDBACK'', py_occurrence = occurrence, py_event = event_key, py_by = [],
      py_at = [], py_authorized = False, py_review = Some review_id, py_answer = text\<rparr>"

definition clarification_payload :: "string \<Rightarrow> source_event \<Rightarrow> err + payload" where
  "clarification_payload occurrence e = bindE (normalize_task (ev_body e)) (\<lambda>answer. Inr
     \<lparr>py_kind = ''CLARIFICATION_RESPONSE'', py_occurrence = occurrence, py_event = ev_key e, py_by = [],
      py_at = [], py_authorized = False, py_review = None, py_answer = answer\<rparr>)"

definition approval_kind :: "feedback_kind \<Rightarrow> string" where
  "approval_kind kind = feedback_kind_value kind @ ''_APPROVAL''"

text \<open>The loop over the unconsumed inputs of \<open>_plan_wait_resume\<close> and \<open>_result_wait_resume\<close>.\<close>

fun scan_approvals ::
  "digest \<Rightarrow> env \<Rightarrow> string \<Rightarrow> cycle_row \<Rightarrow> task_row \<Rightarrow> source_event \<Rightarrow> feedback_kind \<Rightarrow> string \<Rightarrow> string \<Rightarrow>
   source_event list \<Rightarrow> (db, payload option) op" where
  "scan_approvals sha en now c t root kind occurrence posted_at [] d = return None d"
| "scan_approvals sha en now c t root kind occurrence posted_at (e # es) d =
    (if \<not> same_target e root \<or> \<not> after (ev_created_at e) posted_at
     then scan_approvals sha en now c t root kind occurrence posted_at es d
     else case has_interrupt en d (tr_id t) (approval_kind kind) occurrence of
       Inl x \<Rightarrow> raise x d
     | Inr False \<Rightarrow> (case reconcile en (cy_id c) (tr_id t) d of Inl x \<Rightarrow> raise x d | Inr _ \<Rightarrow> return None d)
     | Inr True \<Rightarrow>
         if is_exact_agent_approval (ev_body e)
         then (if \<not> authorized_approver en (ev_repo_full_name root) (ev_author e)
               then and_then (consume now e c ''STALE'' d)
                 (\<lambda>_. scan_approvals sha en now c t root kind occurrence posted_at es)
               else and_then (claim_input now e c (approval_kind kind) occurrence d)
                 (\<lambda>_ d1. return (Some (approval_payload (approval_kind kind) occurrence e)) d1))
         else if starts_with_agent_invocation (ev_body e)
         then (case normalize_task (ev_body e) of
                 Inl x \<Rightarrow> raise x d
               | Inr text \<Rightarrow>
                   and_then (begin_feedback_review sha now (ev_key e) (tr_id t) (feedback_kind_value kind) occurrence text d)
                     (\<lambda>r d1. case r of
                        None \<Rightarrow> raise (TypeError ''feedback review disappeared'') d1
                      | Some r \<Rightarrow> return (Some (feedback_payload kind occurrence (ev_key e) (fr_id r) text)) d1))
         else scan_approvals sha en now c t root kind occurrence posted_at es d)"

text \<open>What both waiting branches do once they know the occurrence and when it was posted.\<close>

definition approval_wait_resume ::
  "digest \<Rightarrow> env \<Rightarrow> string \<Rightarrow> cycle_row \<Rightarrow> task_row \<Rightarrow> feedback_kind \<Rightarrow> string \<Rightarrow> string \<Rightarrow> (db, payload option) op" where
  "approval_wait_resume sha en now c t kind occurrence posted_at d =
    (case feedback_review_for_task d (tr_id t) REVIEWING of
       Inl x \<Rightarrow> raise x d
     | Inr (Some r) \<Rightarrow>
         if fr_kind r \<noteq> kind \<or> fr_occurrence r \<noteq> occurrence
         then raise (RuntimeError ''active feedback review is stale'') d
         else (case event_of d (fr_event r) of
                 None \<Rightarrow> raise (RuntimeError ''active feedback event disappeared'') d
               | Some e \<Rightarrow>
                   (case has_interrupt en d (tr_id t) (approval_kind kind) occurrence of
                      Inl x \<Rightarrow> raise x d
                    | Inr False \<Rightarrow> return None d
                    | Inr True \<Rightarrow> return (Some (feedback_payload kind occurrence (ev_key e) (fr_id r) (fr_text r))) d))
     | Inr None \<Rightarrow>
         (case root_event d c of
            Inl x \<Rightarrow> raise x d
          | Inr root \<Rightarrow>
              and_then (claimed_resume en now c t (approval_kind kind) occurrence
                  (\<lambda>e. Inr (approval_payload (approval_kind kind) occurrence e)) d)
                (\<lambda>replayed d1. case replayed of
                   Some v \<Rightarrow> return (Some v) d1
                 | None \<Rightarrow> scan_approvals sha en now c t root kind occurrence posted_at
                     (unconsumed_inputs d1 (cy_thread c) None) d1)))"

definition plan_wait_resume ::
  "digest \<Rightarrow> env \<Rightarrow> string \<Rightarrow> cycle_row \<Rightarrow> task_row \<Rightarrow> (db, payload option) op" where
  "plan_wait_resume sha en now c t d =
    (case tr_plan t of
       None \<Rightarrow> raise (RuntimeError ''waiting task has no current plan'') d
     | Some k \<Rightarrow>
         (case plan d k of
            Inl x \<Rightarrow> raise x d
          | Inr p \<Rightarrow> approval_wait_resume sha en now c t PLAN_FEEDBACK (pl_occurrence p) (pl_posted_at p) d))"

definition result_wait_resume ::
  "digest \<Rightarrow> env \<Rightarrow> string \<Rightarrow> cycle_row \<Rightarrow> task_row \<Rightarrow> (db, payload option) op" where
  "result_wait_resume sha en now c t d =
    (case current_result d (tr_id t) of
       None \<Rightarrow> raise (RuntimeError ''waiting task has no current validated result'') d
     | Some r \<Rightarrow> approval_wait_resume sha en now c t RESULT_FEEDBACK (re_occurrence r) (re_posted_at r) d)"

fun scan_answers ::
  "string \<Rightarrow> cycle_row \<Rightarrow> source_event \<Rightarrow> string \<Rightarrow> string \<Rightarrow> source_event list \<Rightarrow> (db, payload option) op" where
  "scan_answers now c root occurrence updated [] d = return None d"
| "scan_answers now c root occurrence updated (e # es) d =
    (if \<not> same_target e root \<or> \<not> after (ev_created_at e) updated
     then scan_answers now c root occurrence updated es d
     else if is_exact_agent_approval (ev_body e)
     then and_then (consume now e c ''STALE_APPROVAL'' d) (\<lambda>_. scan_answers now c root occurrence updated es)
     else if starts_with_agent_invocation (ev_body e)
     then and_then (claim_input now e c ''CLARIFICATION_RESPONSE'' occurrence d)
       (\<lambda>_ d1. case clarification_payload occurrence e of Inl x \<Rightarrow> raise x d1 | Inr v \<Rightarrow> return (Some v) d1)
     else scan_answers now c root occurrence updated es d)"

definition clarification_resume :: "env \<Rightarrow> string \<Rightarrow> cycle_row \<Rightarrow> task_row \<Rightarrow> (db, payload option) op" where
  "clarification_resume en now c t d =
    (let occurrence = text_or_empty (tr_clarification t) in
     if occurrence = [] then raise (RuntimeError ''waiting clarification occurrence is missing'') d
     else case root_event d c of
       Inl x \<Rightarrow> raise x d
     | Inr root \<Rightarrow>
         and_then (claimed_resume en now c t ''CLARIFICATION_RESPONSE'' occurrence (clarification_payload occurrence) d)
           (\<lambda>replayed d1. case replayed of
              Some v \<Rightarrow> return (Some v) d1
            | None \<Rightarrow>
                (case has_interrupt en d1 (tr_id t) ''CLARIFICATION'' occurrence of
                   Inl x \<Rightarrow> raise x d1
                 | Inr False \<Rightarrow> (case reconcile en (cy_id c) (tr_id t) d1 of Inl x \<Rightarrow> raise x d1 | Inr _ \<Rightarrow> return None d1)
                 | Inr True \<Rightarrow>
                     (case task d1 (tr_id t) of
                        Inl x \<Rightarrow> raise x d1
                      | Inr u \<Rightarrow> scan_answers now c root occurrence (tr_updated_at u)
                          (unconsumed_inputs d1 (cy_thread c) None) d1))))"

section \<open>One tick\<close>

record controller_result =
  ct_thread :: string
  ct_status :: string
  ct_cycle :: "string option"
  ct_task :: "string option"
  ct_phase :: "task_phase option"

fun cycle_status_value :: "cycle_status \<Rightarrow> string" where
  "cycle_status_value C_ACTIVE = ''ACTIVE''"
| "cycle_status_value C_AWAITING_PUBLICATION = ''AWAITING_PUBLICATION''"
| "cycle_status_value C_PUBLISHED = ''PUBLISHED''"
| "cycle_status_value C_FAILED = ''FAILED''"

definition task_result :: "cycle_row \<Rightarrow> task_row \<Rightarrow> string \<Rightarrow> controller_result" where
  "task_result c t status = \<lparr>ct_thread = cy_thread c, ct_status = status, ct_cycle = Some (cy_id c),
     ct_task = Some (tr_task t), ct_phase = Some (tr_phase t)\<rparr>"

definition thread_result :: "string \<Rightarrow> string \<Rightarrow> string option \<Rightarrow> string option \<Rightarrow> task_row option \<Rightarrow> controller_result" where
  "thread_result thread_id status c task_id t = \<lparr>ct_thread = thread_id, ct_status = status, ct_cycle = c,
     ct_task = task_id, ct_phase = map_option tr_phase t\<rparr>"

text \<open>Publication of a completed cycle, possibly moving on to a revision cycle and its owner.\<close>

definition settle_to_next ::
  "digest \<Rightarrow> env \<Rightarrow> string \<Rightarrow> cycle_row \<Rightarrow> task_row option \<Rightarrow> (db, cycle_row \<times> task_row option) op" where
  "settle_to_next sha en now c t d =
    (if cy_status c \<noteq> C_AWAITING_PUBLICATION then return (c, t) d
     else and_then (settle_completed_cycle sha en now c d) (\<lambda>s d1.
       if cy_id s = cy_id c then return (c, t) d1
       else and_then (active_task d1 (cy_id s), d1) (\<lambda>u d2. return (s, u) d2)))"

text \<open>The end of a tick that drove the agent.\<close>

definition finish_tick :: "digest \<Rightarrow> env \<Rightarrow> string \<Rightarrow> string \<Rightarrow> cycle_row \<Rightarrow> (db, controller_result) op" where
  "finish_tick sha en now thread_id c d =
     and_then (cycle d (cy_id c), d) (\<lambda>fc d1. and_then (active_task d1 (cy_id c), d1) (\<lambda>ft d2.
     and_then
       (case ft of
          Some t \<Rightarrow>
            and_then (settle_revision_steering now fc t d2) (\<lambda>steered d3.
              if steered then and_then (task d3 (tr_id t), d3) (\<lambda>u d4. return (fc, Some u) d4)
              else return (fc, Some t) d3)
        | None \<Rightarrow>
            and_then (select_active_task now (cy_id c) d2) (\<lambda>s d3.
              and_then (cycle d3 (cy_id c), d3) (\<lambda>fc2 d4. return (fc2, s) d4)))
       (\<lambda>(fc, ft) d5. and_then (settle_to_next sha en now fc ft d5) (\<lambda>(fc, ft) d6.
          return (thread_result thread_id (cycle_status_value (cy_status fc)) (Some (cy_id fc)) (cy_active fc) ft) d6))))"

text \<open>
  A branch that waits for approval: \<open>None\<close> when the agent was driven, the tick's result otherwise.
\<close>

definition missing_interrupt ::
  "env \<Rightarrow> task_row \<Rightarrow> string \<Rightarrow> feedback_review_row option \<Rightarrow> db \<Rightarrow> err + bool" where
  "missing_interrupt en t kind retained d =
    (case retained of
       None \<Rightarrow> Inr False
     | Some r \<Rightarrow> bindE (has_interrupt en d (tr_id t) kind (fr_occurrence r)) (\<lambda>b. Inr (\<not> b)))"

definition drive_approval ::
  "env \<Rightarrow> string \<Rightarrow> cycle_row \<Rightarrow> task_row \<Rightarrow> feedback_kind \<Rightarrow> payload option \<Rightarrow> (db, controller_result option) op" where
  "drive_approval en now c t kind resume d =
    (case resume of
       Some v \<Rightarrow>
         and_then (drive en (cy_id c) (tr_id t) (Some v) d)
           (\<lambda>_ d1. and_then (mark_resume_applied now (Some v) d1) (\<lambda>_ d2. return None d2))
     | None \<Rightarrow>
         and_then (feedback_review_for_task d (tr_id t) REVIEWING, d) (\<lambda>reviewing d1.
         and_then (feedback_review_for_task d1 (tr_id t) DEFERRED_WAITING, d1) (\<lambda>retained d2.
         and_then (missing_interrupt en t (approval_kind kind) retained d2, d2) (\<lambda>missing d3.
           if reviewing \<noteq> None \<or> missing
           then and_then (drive en (cy_id c) (tr_id t) None d3) (\<lambda>_ d4. return None d4)
           else and_then (reconcile en (cy_id c) (tr_id t) d3, d3)
             (\<lambda>_ d4. return (Some (task_result c t (''WAITING_FOR_'' @ approval_kind kind))) d4)))))"

definition auto_accept_tick :: "digest \<Rightarrow> env \<Rightarrow> string \<Rightarrow> cycle_row \<Rightarrow> task_row \<Rightarrow> (db, controller_result) op" where
  "auto_accept_tick sha en now c t d =
     and_then (auto_accept_result sha now (tr_id t) d) (\<lambda>_ d1.
     and_then (select_active_task now (cy_id c) d1) (\<lambda>fresh d2.
     and_then (cycle d2 (cy_id c), d2) (\<lambda>fc d3.
     and_then (settle_to_next sha en now fc fresh d3) (\<lambda>(fc, fresh) d4.
       return (thread_result (cy_thread c) (cycle_status_value (cy_status fc)) (Some (cy_id fc))
         (map_option tr_task fresh) fresh) d4))))"

definition drive_phase ::
  "digest \<Rightarrow> env \<Rightarrow> string \<Rightarrow> cycle_row \<Rightarrow> task_row \<Rightarrow> interaction_mode \<Rightarrow> (db, controller_result option) op" where
  "drive_phase sha en now c t mode d =
    (case tr_phase t of
       WAITING_FOR_PLAN_APPROVAL \<Rightarrow>
         if mode = AUTO
         then and_then (auto_authorize_plan sha now (tr_id t) d) (\<lambda>_ d1.
           and_then (task d1 (tr_id t), d1) (\<lambda>u d2. return (Some (task_result c u ''ACTIVE'')) d2))
         else and_then (plan_wait_resume sha en now c t d) (drive_approval en now c t PLAN_FEEDBACK)
     | WAITING_FOR_RESULT_APPROVAL \<Rightarrow>
         if mode = AUTO then and_then (auto_accept_tick sha en now c t d) (\<lambda>r d1. return (Some r) d1)
         else and_then (result_wait_resume sha en now c t d) (drive_approval en now c t RESULT_FEEDBACK)
     | WAITING_FOR_INPUT \<Rightarrow>
         and_then (clarification_resume en now c t d) (\<lambda>resume d1.
           case resume of
             None \<Rightarrow> and_then (reconcile en (cy_id c) (tr_id t) d1, d1)
               (\<lambda>_ d2. return (Some (task_result c t ''WAITING_FOR_INPUT'')) d2)
           | Some v \<Rightarrow> and_then (drive en (cy_id c) (tr_id t) (Some v) d1)
               (\<lambda>_ d2. and_then (mark_resume_applied now (Some v) d2) (\<lambda>_ d3. return None d3)))
     | _ \<Rightarrow>
         and_then (phase_requests d c, d) (\<lambda>_ d1.
           and_then (drive en (cy_id c) (tr_id t) None d1) (\<lambda>_ d2. return None d2)))"

text \<open>The tick of an active cycle, from the selection of its task on.\<close>

definition tick_active :: "digest \<Rightarrow> env \<Rightarrow> string \<Rightarrow> string \<Rightarrow> cycle_row \<Rightarrow> (db, controller_result) op" where
  "tick_active sha en now thread_id c0 d =
     and_then (select_active_task now (cy_id c0) d) (\<lambda>selected d1.
     and_then (cycle d1 (cy_id c0), d1) (\<lambda>c d2.
       case selected of
         None \<Rightarrow>
           (let idle = thread_result thread_id (cycle_status_value (cy_status c)) (Some (cy_id c)) None None in
            if cy_status c \<noteq> C_AWAITING_PUBLICATION then return idle d2
            else and_then (settle_completed_cycle sha en now c d2) (\<lambda>s d3.
              if cy_status s \<noteq> C_ACTIVE then return idle d3
              else and_then (active_task d3 (cy_id s), d3) (\<lambda>u d4.
                case u of None \<Rightarrow> raise (RuntimeError ''assertion'') d4
                | Some t \<Rightarrow> return (task_result s t ''ACTIVE'') d4)))
       | Some t \<Rightarrow>
           and_then (workspace en c d2) (\<lambda>_ d3.
           and_then (spec_for_cycle sha d3 (cy_id c), d3) (\<lambda>_ d4.
           and_then (settle_revision_steering now c t d4) (\<lambda>steered d5.
             if steered then and_then (task d5 (tr_id t), d5) (\<lambda>u d6. return (task_result c u ''ACTIVE'') d6)
             else and_then (interaction_mode d5 (cy_thread c), d5) (\<lambda>mode d6.
               and_then (drive_phase sha en now c t mode d6) (\<lambda>r d7.
                 case r of Some x \<Rightarrow> return x d7 | None \<Rightarrow> finish_tick sha en now thread_id c d7)))))))"

definition tick_cycle :: "digest \<Rightarrow> env \<Rightarrow> string \<Rightarrow> string \<Rightarrow> cycle_row \<Rightarrow> (db, controller_result) op" where
  "tick_cycle sha en now thread_id c d =
     and_then (settle_resume_claim now c d) (\<lambda>_ d1.
       case cy_status c of
         C_FAILED \<Rightarrow> and_then (active_task d1 (cy_id c), d1)
           (\<lambda>t d2. return (thread_result thread_id ''FAILED'' (Some (cy_id c)) (cy_active c) t) d2)
       | C_AWAITING_PUBLICATION \<Rightarrow>
           and_then (settle_completed_cycle sha en now c d1) (\<lambda>s d2.
             if cy_status s = C_ACTIVE
             then and_then (active_task d2 (cy_id s), d2) (\<lambda>t d3.
               case t of None \<Rightarrow> raise (RuntimeError ''revision cycle has no active owner'') d3
               | Some t \<Rightarrow> return (task_result s t ''ACTIVE'') d3)
             else return (thread_result thread_id ''AWAITING_PUBLICATION'' (Some (cy_id s)) None None) d2)
       | _ \<Rightarrow> tick_active sha en now thread_id c d1)"

definition advance_locked ::
  "digest \<Rightarrow> env \<Rightarrow> string \<Rightarrow> workflow_spec \<Rightarrow> string option \<Rightarrow> string \<Rightarrow> (db, controller_result) op" where
  "advance_locked sha en now spec spec_ref thread_id d =
     and_then (route_unmatched_inputs sha now thread_id d) (\<lambda>_ d1.
     and_then (deliver en thread_id d1) (\<lambda>_ d2.
       case cycle_for_thread d2 thread_id of
         Some c \<Rightarrow> tick_cycle sha en now thread_id c d2
       | None \<Rightarrow>
           and_then (begin_cycle sha en now spec spec_ref thread_id d2) (\<lambda>b d3.
             case b of
               None \<Rightarrow> return (thread_result thread_id ''IDLE'' None None None) d3
             | Some c \<Rightarrow> tick_cycle sha en now thread_id c d3)))"

end
