(* ===== verification/Control_Properties.thy ===== *)
theory Control_Properties
  imports Controller Example_Thread
begin

text \<open>
  What the controller and the gateways guarantee: the text of a request is cleaned, only an
  authorised approver can turn a comment into an approval, and the replay of a gateway publishes
  nothing new; and where a comment or a claim blocks the thread.
\<close>

section \<open>The text of a request\<close>

text \<open>No two spaces or tabs next to each other.\<close>

fun single_blanks :: "string \<Rightarrow> bool" where
  "single_blanks (a # b # cs) = (\<not> (is_blank a \<and> is_blank b) \<and> single_blanks (b # cs))"
| "single_blanks cs = True"

lemma single_blanks_Cons:
  "single_blanks (a # cs) \<longleftrightarrow> (cs = [] \<or> \<not> (is_blank a \<and> is_blank (hd cs))) \<and> single_blanks cs"
  by (cases cs) auto

lemma hd_squeeze: "s \<noteq> [] \<Longrightarrow> squeeze s \<noteq> [] \<and> (\<not> is_blank (hd s) \<longrightarrow> hd (squeeze s) = hd s)"
  by (cases s) auto

lemma single_blanks_squeeze: "single_blanks (squeeze s)"
proof (induction s rule: squeeze.induct)
  case (2 c cs)
  show ?case
  proof (cases "is_blank c \<and> cs \<noteq> [] \<and> is_blank (hd cs)")
    case True
    let ?r = "dropWhile is_blank cs"
    have "squeeze ?r = [] \<or> \<not> is_blank (hd (squeeze ?r))"
    proof (cases ?r)
      case (Cons x xs)
      then have "\<not> is_blank x" using hd_dropWhile [of is_blank cs] by simp
      with Cons hd_squeeze [of ?r] show ?thesis by simp
    next
      case Nil
      show ?thesis unfolding Nil by simp
    qed
    with True 2(1) show ?thesis by (simp add: single_blanks_Cons)
  next
    case False
    then have "squeeze (c # cs) = c # squeeze cs" by (rule squeeze.simps(2) [THEN trans, OF if_not_P])
    moreover have "squeeze cs = [] \<or> \<not> (is_blank c \<and> is_blank (hd (squeeze cs)))"
      using False hd_squeeze [of cs] by (cases cs) auto
    ultimately show ?thesis using 2(2) False by (auto simp: single_blanks_Cons)
  qed
qed simp

lemma single_blanks_infix:
  "single_blanks (a @ b @ c) \<Longrightarrow> single_blanks b"
proof (induction a)
  case Nil
  then show ?case
  proof (induction b)
    case (Cons x xs)
    then show ?case by (cases xs) (auto simp: single_blanks_Cons)
  qed simp
qed (auto simp: single_blanks_Cons)

lemma squeeze_length: "length (squeeze s) \<le> length s"
proof (induction s rule: squeeze.induct)
  case (2 c cs)
  then show ?case using length_dropWhile_le [of is_blank cs] by (auto intro: order_trans)
qed simp

lemma drop_mentions_length: "length (drop_mentions p s) \<le> length s"
  by (induction p s rule: drop_mentions.induct) auto

lemma strip_infix: "\<exists>a c. s = a @ strip s @ c"
proof -
  let ?t = "dropWhile is_space s"
  have "s = takeWhile is_space s @ ?t" by simp
  moreover have "?t = strip s @ rev (takeWhile is_space (rev ?t))"
    unfolding strip_def by (metis rev_append rev_rev_ident takeWhile_dropWhile_id)
  ultimately show ?thesis by metis
qed

text \<open>
  What is handed to the agent is clean: the normalised request is not empty, has no space at
  either end and no two blanks next to each other, and is no longer than the comment; and the
  only way normalisation fails is a comment that is empty once its mentions are dropped.
\<close>

theorem normalized_request_is_clean:
  "case normalize_task body of
     Inr s \<Rightarrow> s \<noteq> [] \<and> strip s = s \<and> single_blanks s \<and> length s \<le> length body
   | Inl e \<Rightarrow> e = ValueError ''@agent mention did not contain a task'' \<and> blank (squeeze (drop_mentions None body))"
proof -
  let ?q = "squeeze (drop_mentions None body)"
  obtain a c where q: "?q = a @ strip ?q @ c" using strip_infix by blast
  then have "single_blanks (strip ?q)" using single_blanks_squeeze single_blanks_infix by metis
  moreover have "length (strip ?q) \<le> length ?q" by (subst q) simp
  then have "length (strip ?q) \<le> length body"
    using squeeze_length [of "drop_mentions None body"] drop_mentions_length [of None body] by linarith
  ultimately show ?thesis by (simp add: normalize_task_def Let_def)
qed

section \<open>Who can approve\<close>

lemma scan_authorised:
  assumes "scan_approvals sha en now c t root kind occ at es d = (Inr (Some v), d')" "py_kind v = approval_kind kind"
  shows "\<exists>e \<in> set es. same_target e root \<and> after (ev_created_at e) at \<and> is_exact_agent_approval (ev_body e) \<and>
    authorized_approver en (ev_repo_full_name root) (ev_author e) \<and> v = approval_payload (approval_kind kind) occ e \<and>
    map_option co_occurrence (consumption_of d' (ev_key e)) = Some (Some occ)"
  using assms
proof (induction es arbitrary: d)
  case Nil
  then show ?case by simp
next
  case (Cons e es)
  have kinds: "feedback_kind_value kind @ ''_FEEDBACK'' \<noteq> approval_kind kind" by (simp add: approval_kind_def)
  show ?case
  proof (cases "same_target e root \<and> after (ev_created_at e) at \<and> is_exact_agent_approval (ev_body e) \<and>
      authorized_approver en (ev_repo_full_name root) (ev_author e)")
    case True
    with Cons.prems have "\<exists>r. claim_input now e c (approval_kind kind) occ d = (Inr r, d') \<and>
        v = approval_payload (approval_kind kind) occ e"
      by (auto simp: and_then_return_iff split: sum.split_asm bool.split_asm)
    then have "map_option co_occurrence (consumption_of d' (ev_key e)) = Some (Some occ)"
      by (auto simp: claim_input_def claim_input_for_resume_def and_then_return_iff split: option.split_asm if_split_asm)
    with True \<open>\<exists>r. _\<close> show ?thesis by auto
  next
    case False
    with Cons.prems kinds obtain d1 where "scan_approvals sha en now c t root kind occ at es d1 = (Inr (Some v), d')"
      by (auto simp: and_then_return_iff feedback_payload_def split: sum.split_asm bool.split_asm if_split_asm option.split_asm)
    from Cons.IH [OF this Cons.prems(2)] show ?thesis by auto
  qed
qed

text \<open>The same for a claim that is replayed.\<close>

lemma claimed_effect:
  assumes "claimed_resume en now c t kind occ build d = (Inr (Some v), d')"
  shows "d' = d \<and> (\<exists>claim e. pending_resume_claim d (cy_thread c) = Some claim \<and> co_status claim = kind \<and>
    co_occurrence claim = Some occ \<and> event_of d (co_event claim) = Some e \<and> build e = Inr v)"
  using assms
  by (auto simp: claimed_resume_def and_then_return_iff split: option.split_asm if_split_asm sum.split_asm bool.split_asm)

lemma claimed_keeps:
  assumes "claimed_resume en now c t kind occ build d = (Inr None, d1)"
  shows "events d1 = events d"
  using assms
  by (auto simp: claimed_resume_def and_then_return_iff finish_input_resume_def Let_def
      split: option.split_asm if_split_asm sum.split_asm bool.split_asm)

definition approved_by :: "env \<Rightarrow> db \<Rightarrow> source_event \<Rightarrow> string \<Rightarrow> source_event \<Rightarrow> bool" where
  "approved_by en d root at e = (e \<in> set (events d) \<and> same_target e root \<and> after (ev_created_at e) at \<and>
     is_exact_agent_approval (ev_body e) \<and> authorized_approver en (ev_repo_full_name root) (ev_author e))"

lemma wait_authorised:
  assumes "approval_wait_resume sha en now c t kind occ at d = (Inr (Some v), d')" "py_kind v = approval_kind kind"
  shows "\<exists>root e. root_event d c = Inr root \<and> v = approval_payload (approval_kind kind) occ e \<and>
    (approved_by en d root at e \<or> (\<exists>claim. pending_resume_claim d (cy_thread c) = Some claim \<and>
       co_status claim = approval_kind kind \<and> co_occurrence claim = Some occ \<and> event_of d (co_event claim) = Some e))"
proof -
  have kinds: "feedback_kind_value kind @ ''_FEEDBACK'' \<noteq> approval_kind kind" by (simp add: approval_kind_def)
  obtain root where root: "root_event d c = Inr root"
    and r: "and_then (claimed_resume en now c t (approval_kind kind) occ
        (\<lambda>e. Inr (approval_payload (approval_kind kind) occ e)) d)
      (\<lambda>replayed d1. case replayed of Some v \<Rightarrow> return (Some v) d1
         | None \<Rightarrow> scan_approvals sha en now c t root kind occ at (unconsumed_inputs d1 (cy_thread c) None) d1)
      = (Inr (Some v), d')"
    using assms kinds
    by (auto simp: approval_wait_resume_def feedback_payload_def
        split: sum.split_asm option.split_asm if_split_asm bool.split_asm)
  from r obtain x d1 where x: "claimed_resume en now c t (approval_kind kind) occ
        (\<lambda>e. Inr (approval_payload (approval_kind kind) occ e)) d = (Inr x, d1)"
    and k: "(case x of Some v \<Rightarrow> return (Some v) d1
         | None \<Rightarrow> scan_approvals sha en now c t root kind occ at (unconsumed_inputs d1 (cy_thread c) None) d1)
      = (Inr (Some v), d')"
    unfolding and_then_return_iff by blast
  show ?thesis
  proof (cases x)
    case (Some y)
    with k have "y = v" by simp
    with claimed_effect [OF x [unfolded Some]] root show ?thesis by auto
  next
    case None
    with k have "scan_approvals sha en now c t root kind occ at (unconsumed_inputs d1 (cy_thread c) None) d1
        = (Inr (Some v), d')" by simp
    from scan_authorised [OF this assms(2)] obtain e where e: "e \<in> set (unconsumed_inputs d1 (cy_thread c) None)"
      "same_target e root" "after (ev_created_at e) at" "is_exact_agent_approval (ev_body e)"
      "authorized_approver en (ev_repo_full_name root) (ev_author e)" "v = approval_payload (approval_kind kind) occ e"
      by blast
    have "e \<in> set (events d)" using e(1) claimed_keeps [OF x [unfolded None]]
      by (auto simp: unconsumed_inputs_def source_events_for_thread_def Let_def)
    with e root show ?thesis by (auto simp: approved_by_def)
  qed
qed


definition demo_env :: env where
  "demo_env = \<lparr>has_interrupt = (\<lambda>d t k occ. Inr True), drive = (\<lambda>c t v d. return () d),
     reconcile = (\<lambda>c t d. Inr ()), permission = (\<lambda>r u. Inr ''write''), workspace = (\<lambda>c d. return () d),
     deliver = (\<lambda>th d. return () d)\<rparr>"


section \<open>Where a thread is stuck\<close>

text \<open>
  A reply that consists of a mention only blocks the approvals behind it: when the first
  comment that answers the plan or result has no text besides \<open>@agent\<close>, the scan raises before
  it has recorded anything, so that the next tick meets the same comment again; what is behind
  it, an approval included, is never looked at.
\<close>

theorem bare_mention_blocks_approvals:
  assumes "same_target e root" "after (ev_created_at e) at"
    and "has_interrupt en d (tr_id t) (approval_kind kind) occ = Inr True"
    and "starts_with_agent_invocation (ev_body e)" "\<not> is_exact_agent_approval (ev_body e)"
    and "blank (squeeze (drop_mentions None (ev_body e)))"
  shows "scan_approvals sha en now c t root kind occ at (e # es) d =
    (Inl (ValueError ''@agent mention did not contain a task''), d)"
  using assms by (simp add: normalize_task_def)

theorem bare_mention_blocks_approvals_witness:
  "scan_approvals example_sha demo_env ''5'' (hd (cycles demo_waiting)) (hd (tasks demo_waiting))
     (demo_event ''e0'' ''2024-01-01T00:00:00Z'' ''@agent build'') PLAN_FEEDBACK demo_plan ''2024-01-02T00:00:00Z''
     [demo_event ''e7'' ''2024-01-03T00:00:00Z'' ''@agent'', demo_event ''e8'' ''2024-01-04T00:00:00Z'' ''@agent approve'']
     demo_waiting = (Inl (ValueError ''@agent mention did not contain a task''), demo_waiting)"
proof (rule bare_mention_blocks_approvals)
  let ?e = "demo_event ''e7'' ''2024-01-03T00:00:00Z'' ''@agent''"
  show "same_target ?e (demo_event ''e0'' ''2024-01-01T00:00:00Z'' ''@agent build'')"
    "after (ev_created_at ?e) ''2024-01-02T00:00:00Z''" "starts_with_agent_invocation (ev_body ?e)"
    "\<not> is_exact_agent_approval (ev_body ?e)" "blank (squeeze (drop_mentions None (ev_body ?e)))"
    by (code_simp, code_simp, code_simp, code_simp, code_simp)
  show "has_interrupt demo_env demo_waiting (tr_id (hd (tasks demo_waiting))) (approval_kind PLAN_FEEDBACK) demo_plan = Inr True"
    by (simp add: demo_env_def)
qed

text \<open>
  A claimed approval whose plan was superseded before it could be applied stays claimed: the
  plan's row still carries the occurrence and no permit refers to it, so the claim is never
  settled, remains the pending claim of the thread, and keeps the tick from changing anything.
\<close>

theorem superseded_claim_is_never_settled:
  assumes "pending_resume_claim d (cy_thread c) = Some claim" "co_status claim = ''PLAN_APPROVAL''"
    and "plan_of d k = Some p" "pl_status p = SUPERSEDED" "co_occurrence claim = Some (pl_occurrence p)"
    and "list_all (\<lambda>q. list_all (\<lambda>p'. pl_id p' = pm_plan q \<longrightarrow> pl_occurrence p' \<noteq> pl_occurrence p) (plans d)) (permits d)"
  shows "settle_resume_claim now c d = return () d"
proof -
  have "decided_plan d (pl_occurrence p) = None"
    using assms(6) by (auto simp: decided_plan_def find_None_iff list_ex_iff list_all_iff)
  moreover have "has pl_occurrence (pl_occurrence p) (plans d)" using assms(3) by auto
  ultimately have "verdict_of d claim = None"
    using assms(2,5) by (simp add: verdict_of_def Let_def text_or_empty_def)
  moreover have "interrupt_kind ''PLAN_APPROVAL'' \<noteq> None" by (simp add: interrupt_kind_def)
  ultimately show ?thesis using assms(1,2) by (simp add: settle_resume_claim_def)
qed

text \<open>An approval is claimed, and a revision batch supersedes the plan before it is applied.\<close>

definition orphan_demo :: db where
  "orphan_demo = snd (replan_from_feedback ''6'' the_task
     (snd (claim_input_for_resume ''e1'' ''t'' 1 ''PLAN_APPROVAL'' demo_plan ''5'' demo_waiting)))"

theorem superseded_claim_is_never_settled_witness:
  "settle_resume_claim ''9'' (hd (cycles orphan_demo)) orphan_demo = return () orphan_demo"
proof -
  let ?claim = "the (pending_resume_claim orphan_demo (cy_thread (hd (cycles orphan_demo))))"
  let ?p = "the (plan_of orphan_demo ''task-plan-ab'')"
  have "\<not> Option.is_none (pending_resume_claim orphan_demo (cy_thread (hd (cycles orphan_demo))))"
    "\<not> Option.is_none (plan_of orphan_demo ''task-plan-ab'')" by (code_simp, code_simp)
  then have "pending_resume_claim orphan_demo (cy_thread (hd (cycles orphan_demo))) = Some ?claim"
    "plan_of orphan_demo ''task-plan-ab'' = Some ?p" by (auto simp: Option.is_none_def)
  moreover have "co_status ?claim = ''PLAN_APPROVAL''" "pl_status ?p = SUPERSEDED"
    "co_occurrence ?claim = Some (pl_occurrence ?p)" by (code_simp, code_simp, code_simp)
  moreover have "permits orphan_demo = []" by code_simp
  ultimately show ?thesis by (intro superseded_claim_is_never_settled [where k = "''task-plan-ab''" and p = ?p]) simp_all
qed

end
