(* ===== verification/Revision_Properties.thy ===== *)
theory Revision_Properties
  imports Controller Example_Thread
begin

text \<open>
  What the start of a revision cycle guarantees: it takes the whole inbox of the thread, so that
  the loop that settles a completed cycle starts one revision at a time and comes to rest.
\<close>

text \<open>Preparing the work tree does not touch the inbox.\<close>

definition workspace_keeps_inbox :: "env \<Rightarrow> bool" where
  "workspace_keeps_inbox en \<longleftrightarrow> (\<forall>c d u d'. workspace en c d = (Inr u, d') \<longrightarrow> revision_inputs d' = revision_inputs d)"

lemma insert_tasks_inbox: "insert_tasks row i ts d = Inr d' \<Longrightarrow> revision_inputs d' = revision_inputs d"
  by (induction row i ts d rule: insert_tasks.induct) (auto simp: bindE_Inr_iff insert_task_iff)

lemma initialize_inbox:
  assumes "initialize_cycle sha now th n root spec ref kind seq d = (r, d')"
  shows "revision_inputs d' = revision_inputs d"
  using assms
proof (rule initialize_effect)
  fix d1
  assume "insert_cycle (new_cycle (workflow_cycle_id_for sha th n (ws_workflow_id spec)) th n root spec ref kind seq) d = Inr d1"
    and "insert_tasks (new_task sha now (workflow_cycle_id_for sha th n (ws_workflow_id spec)) th n (ws_workflow_id spec))
      0 (ws_tasks spec) d1 = Inr (d'\<lparr>lifecycles := lifecycles d\<rparr>)"
  then show ?thesis by (auto simp: insert_cycle_iff dest: insert_tasks_inbox)
qed simp

lemma batch_effect:
  assumes "batch_revision_inputs th k ids d = (Inr rows, d')"
  shows "revision_inputs d' = update_where (batch_selects th ids)
    (\<lambda>r. r\<lparr>ri_status := BATCHED, ri_cycle := Some k\<rparr>) (revision_inputs d)"
  using assms
  by (auto simp: batch_revision_inputs_def and_then_return_iff commit_return_iff Let_def
      split: option.split_asm if_split_asm)

lemma begin_revision_effect:
  assumes "begin_revision sha en now th d = (Inr (Some c), d')"
  obtains r ref spec d1 rows d2 u where
    "initialize_cycle sha now th (next_cycle_id d th) r spec ref REVISION (Some (next_revision_sequence d th)) d = (Inr c, d1)"
    and "batch_revision_inputs th (cy_id c) None d1 = (Inr rows, d2)" and "workspace en c d2 = (Inr u, d')"
  using assms
  by (auto simp: begin_revision_def and_then_return_iff
      split: list.split_asm option.split_asm if_split_asm sum.split_asm prod.split_asm)

lemma none_pending:
  assumes "\<And>r. r \<in> set (revision_inputs d) \<Longrightarrow> \<not> (ri_thread r = th \<and> ri_status r = I_PENDING)"
  shows "pending_revision_inputs d th = []"
proof -
  have "filter (\<lambda>r. ri_thread r = th \<and> ri_status r = I_PENDING) (revision_inputs d) = []"
    using assms by (simp add: filter_empty_conv)
  then show ?thesis by (simp add: pending_revision_inputs_def order_by_def)
qed

text \<open>
  C36. A revision cycle takes every suggestion that is pending on its thread, and nothing else, and
  an immediate second attempt starts no further cycle: the settling of completed cycles ends
  with the inbox empty.
\<close>

theorem revision_takes_the_inbox:
  assumes "begin_revision sha en now th d = (Inr (Some c), d')" "workspace_keeps_inbox en"
  shows "revision_inputs d' = update_where (\<lambda>r. ri_thread r = th \<and> ri_status r = I_PENDING)
      (\<lambda>r. r\<lparr>ri_status := BATCHED, ri_cycle := Some (cy_id c)\<rparr>) (revision_inputs d) \<and>
    begin_revision sha en now' th d' = (Inr None, d')"
proof -
  obtain r ref spec d1 rows d2 u where
    i: "initialize_cycle sha now th (next_cycle_id d th) r spec ref REVISION (Some (next_revision_sequence d th)) d = (Inr c, d1)"
    and b: "batch_revision_inputs th (cy_id c) None d1 = (Inr rows, d2)" and w: "workspace en c d2 = (Inr u, d')"
    using assms(1) by (rule begin_revision_effect)
  have "revision_inputs d' = revision_inputs d2" using assms(2) w unfolding workspace_keeps_inbox_def by blast
  then have d': "revision_inputs d' = update_where (\<lambda>r. ri_thread r = th \<and> ri_status r = I_PENDING)
      (\<lambda>r. r\<lparr>ri_status := BATCHED, ri_cycle := Some (cy_id c)\<rparr>) (revision_inputs d)"
    using batch_effect [OF b] initialize_inbox [OF i] by (simp add: batch_selects_def [abs_def])
  have "\<not> (ri_thread x = th \<and> ri_status x = I_PENDING)" if x: "x \<in> set (revision_inputs d')" for x
  proof -
    obtain y where "x = (if ri_thread y = th \<and> ri_status y = I_PENDING
        then y\<lparr>ri_status := BATCHED, ri_cycle := Some (cy_id c)\<rparr> else y)"
      using x unfolding d' mem_update_where by blast
    then show ?thesis by (cases "ri_thread y = th \<and> ri_status y = I_PENDING") auto
  qed
  then have "pending_revision_inputs d' th = []" by (rule none_pending)
  then show ?thesis using d' by (simp add: begin_revision_def)
qed

text \<open>
  The finished workflow of the example, known under another cycle id and without its task rows,
  with one suggestion in the inbox.
\<close>

definition revision_demo :: db where
  "revision_demo = demo_done\<lparr>cycles := map (\<lambda>c. c\<lparr>cy_id := ''c1''\<rparr>) (cycles demo_done), tasks := [],
     lifecycles := map (\<lambda>l. l\<lparr>li_cycle := Some ''c1''\<rparr>) (lifecycles demo_done),
     revision_inputs := [\<lparr>ri_id = ''i1'', ri_event = ''e1'', ri_thread = ''t'', ri_residual = None,
       ri_reason = ''UNSOLICITED_STEERING'', ri_status = I_PENDING, ri_queued_at = ''9'', ri_cycle = None\<rparr>]\<rparr>"

definition idle_env :: env where
  "idle_env = \<lparr>has_interrupt = (\<lambda>d t k occ. Inr False), drive = (\<lambda>c t v d. return () d),
     reconcile = (\<lambda>c t d. Inr ()), permission = (\<lambda>r u. Inr ''none''), workspace = (\<lambda>c d. return () d),
     deliver = (\<lambda>th d. return () d)\<rparr>"

theorem revision_takes_the_inbox_witness:
  "begin_revision example_sha idle_env ''11'' ''t'' (snd (begin_revision example_sha idle_env ''10'' ''t'' revision_demo)) =
    (Inr None, snd (begin_revision example_sha idle_env ''10'' ''t'' revision_demo))"
proof -
  let ?r = "begin_revision example_sha idle_env ''10'' ''t'' revision_demo"
  have "case fst ?r of Inr (Some c) \<Rightarrow> True | _ \<Rightarrow> False" by code_simp
  then obtain c where "fst ?r = Inr (Some c)" by (auto split: sum.split_asm option.split_asm)
  moreover have "workspace_keeps_inbox idle_env" by (simp add: workspace_keeps_inbox_def idle_env_def)
  ultimately show ?thesis using revision_takes_the_inbox [OF returned_value] by blast
qed

end
