(* ===== verification/Clock.thy ===== *)
theory Clock
  imports Github_Models
begin

text \<open>
  The time stamps the store writes itself: \<open>datetime.isoformat()\<close> of an instant in UTC with the
  offset written as \<open>Z\<close>, as \<open>GitHubPoller._timestamp\<close> and the poll cursors of \<open>github_poller.py\<close> use
  it, and the proof that reading such a text back gives the same instant. An instant is counted
  in microseconds, as in \<open>Github_Models\<close>; the years 1 to 9999 are those of Python's calendar.
\<close>

section \<open>Calendar\<close>

text \<open>Days before the first of January of a year, and before the first of a month.\<close>

definition days_before_year :: "int \<Rightarrow> int" where
  "days_before_year y = 365 * (y - 1) + (y - 1) div 4 - (y - 1) div 100 + (y - 1) div 400"

lemma div_pred: "0 < k \<Longrightarrow> (y :: int) div k = (y - 1) div k + (if k dvd y then 1 else 0)"
proof -
  assume k: "0 < k"
  show ?thesis
  proof (cases "k dvd y")
    case True
    then obtain q where q: "y = k * q" ..
    have "(y - 1) div k = q - 1"
      by (rule int_div_pos_eq [of _ _ _ "k - 1"]) (use k q in \<open>auto simp: algebra_simps\<close>)
    with True k q show ?thesis by simp
  next
    case False
    then have r: "0 < y mod k" using k by (simp add: dvd_eq_mod_eq_0 order_less_le)
    have "(y - 1) div k = y div k"
      by (rule int_div_pos_eq [of _ _ _ "y mod k - 1"])
        (use k r pos_mod_bound [OF k, of y] in \<open>auto simp: algebra_simps\<close>)
    with False show ?thesis by simp
  qed
qed

lemma days_of_year: "days_before_year (y + 1) = days_before_year y + (if leap y then 366 else 365)"
proof -
  have mult: "100 dvd y \<longrightarrow> 4 dvd y" "400 dvd y \<longrightarrow> 100 dvd y"
    by (rule impI, erule dvd_trans [rotated], simp)+
  have leap: "leap y \<longleftrightarrow> 4 dvd y \<and> (\<not> 100 dvd y \<or> 400 dvd y)" by (simp only: leap_def dvd_eq_mod_eq_0)
  have sum: "A' = A + p \<Longrightarrow> B' = B + q \<Longrightarrow> C' = C + r \<Longrightarrow>
    365 * y + A' - B' + C' = 365 * (y - 1) + A - B + C + 365 + p - q + r" for A A' B B' C C' p q r :: int
    by (simp add: algebra_simps)
  have days: "days_before_year (y + 1) = days_before_year y + 365 + (if 4 dvd y then 1 else 0)
      - (if 100 dvd y then 1 else 0) + (if 400 dvd y then 1 else 0)"
    unfolding days_before_year_def add_diff_cancel_right' by (rule sum; rule div_pred; rule zero_less_numeral)
  have cases: "(b \<longrightarrow> a) \<Longrightarrow> (c \<longrightarrow> b) \<Longrightarrow> (l \<longleftrightarrow> a \<and> (\<not> b \<or> c)) \<Longrightarrow>
      x = z + 365 + (if a then 1 else 0) - (if b then 1 else 0) + (if c then 1 else 0) \<Longrightarrow>
      x = z + (if l then 366 else 365)" for a b c l and x z :: int
    by (cases a; cases b; cases c) simp_all
  show ?thesis by (rule cases [OF mult leap days])
qed

lemma days_mono: "a \<le> b \<Longrightarrow> days_before_year a \<le> days_before_year b"
proof (induction b rule: int_ge_induct)
  case (step b)
  then show ?case by (simp add: days_of_year)
qed simp

text \<open>The year of an ordinal day, searched upwards from \<open>y\<close>.\<close>

function year_from :: "int \<Rightarrow> int \<Rightarrow> int" where
  "year_from y n = (if days_before_year (y + 1) < n then year_from (y + 1) n else y)"
  by pat_completeness auto

termination by (relation "measure (\<lambda>(y, n). nat (n - days_before_year y))") (auto simp: days_of_year split: if_split_asm)

declare year_from.simps [simp del]

lemma year_from_correct:
  "days_before_year y < n \<Longrightarrow>
     days_before_year (year_from y n) < n \<and> n \<le> days_before_year (year_from y n + 1) \<and> y \<le> year_from y n"
proof (induction y n rule: year_from.induct)
  case (1 y n)
  then show ?case by (subst (1 2 3) year_from.simps) auto
qed

fun month_from :: "int list \<Rightarrow> int \<Rightarrow> int \<Rightarrow> int \<times> int" where
  "month_from [] m r = (m, r)"
| "month_from (l # ls) m r = (if r \<le> l then (m, r) else month_from ls (m + 1) (r - l))"

lemma month_from_correct:
  assumes "1 \<le> r" "r \<le> sum_list ls" "month_from ls m r = (k, d)"
  shows "m \<le> k \<and> k < m + int (length ls) \<and> 1 \<le> d \<and> d \<le> ls ! nat (k - m) \<and> r = sum_list (take (nat (k - m)) ls) + d"
  using assms
proof (induction ls m r rule: month_from.induct)
  case (1 m r)
  then show ?case by simp
next
  case (2 l ls m r)
  show ?case
  proof (cases "r \<le> l")
    case True
    with "2.prems" show ?thesis by auto
  next
    case False
    then have ih: "m + 1 \<le> k \<and> k < m + 1 + int (length ls) \<and> 1 \<le> d \<and> d \<le> ls ! nat (k - (m + 1)) \<and>
        r - l = sum_list (take (nat (k - (m + 1))) ls) + d"
      using "2.IH" "2.prems" by simp
    then have "nat (k - m) = Suc (nat (k - (m + 1)))" by linarith
    with ih show ?thesis by simp
  qed
qed

definition date_of_ordinal :: "int \<Rightarrow> int \<times> int \<times> int" where
  "date_of_ordinal n =
     (let y = year_from ((n - 1) div 366 + 1) n; (m, d) = month_from (month_lengths y) 1 (n - days_before_year y)
      in (y, m, d))"

lemma start_year:
  assumes "1 \<le> n"
  shows "days_before_year ((n - 1) div 366 + 1) < n"
proof -
  let ?k = "(n - 1) div 366"
  have "0 \<le> ?k" "366 * ?k \<le> n - 1" using assms by (auto simp: pos_imp_zdiv_nonneg_iff minus_mod_eq_mult_div [symmetric])
  moreover have "?k div 4 \<le> ?k" "?k div 400 \<le> ?k div 100"
    using zdiv_mono2 [OF \<open>0 \<le> ?k\<close>, of 1 4] zdiv_mono2 [OF \<open>0 \<le> ?k\<close>, of 100 400] by simp_all
  ultimately show ?thesis by (simp add: days_before_year_def)
qed

lemma sum_month_lengths: "sum_list (month_lengths y) = (if leap y then 366 else 365)"
  by (simp add: month_lengths_def)

lemma ordinal_of_date:
  assumes "1 \<le> n" "date_of_ordinal n = (y, m, d)"
  shows "ordinal_day y m d = Some n \<and> 1 \<le> y \<and> 1 \<le> m \<and> m \<le> 12 \<and> 1 \<le> d \<and> d \<le> 31"
proof -
  let ?s = "(n - 1) div 366 + 1"
  have y: "y = year_from ?s n" and md: "month_from (month_lengths y) 1 (n - days_before_year y) = (m, d)"
    using assms(2) by (auto simp: date_of_ordinal_def Let_def split: prod.splits)
  from year_from_correct [OF start_year [OF assms(1)]] y
  have b: "days_before_year y < n" "n \<le> days_before_year (y + 1)" "?s \<le> y" by auto
  have len: "length (month_lengths y) = 12" by (simp add: month_lengths_def)
  have r: "1 \<le> n - days_before_year y" "n - days_before_year y \<le> sum_list (month_lengths y)"
    using b by (simp_all add: sum_month_lengths days_of_year)
  from month_from_correct [OF r md] len
  have c: "1 \<le> m" "m \<le> 12" "1 \<le> d" "d \<le> month_lengths y ! nat (m - 1)"
    "n - days_before_year y = sum_list (take (nat (m - 1)) (month_lengths y)) + d" by auto
  have "1 \<le> y" using b(3) assms(1) by (simp add: pos_imp_zdiv_nonneg_iff)
  moreover have "month_lengths y ! nat (m - 1) \<le> 31"
  proof -
    have "month_lengths y ! nat (m - 1) \<in> set (month_lengths y)" using c(2) len by (intro nth_mem) auto
    then show ?thesis by (auto simp: month_lengths_def split: if_splits)
  qed
  ultimately show ?thesis using c by (simp add: ordinal_day_def days_before_year_def)
qed

section \<open>Digits\<close>

text \<open>\<open>f"{v:0nd}"\<close>: the last \<open>n\<close> decimal digits.\<close>

fun pad :: "nat \<Rightarrow> nat \<Rightarrow> string" where
  "pad 0 v = []"
| "pad (Suc n) v = pad n (v div 10) @ [digit_char (v mod 10)]"

lemma length_pad [simp]: "length (pad n v) = n"
  by (induction n arbitrary: v) auto

lemma digit_char_digit: "k < 10 \<Longrightarrow> is_digit (digit_char k) \<and> of_char (digit_char k) = (48 + int k)"
proof -
  assume "k < 10"
  then have "(of_char (char_of (48 + k) :: char) :: nat) = 48 + k" by simp
  then have "(of_char (char_of (48 + k) :: char) :: int) = 48 + int k"
    by (metis of_nat_of_char of_nat_add of_nat_numeral)
  with \<open>k < 10\<close> show ?thesis by (simp add: is_digit_def digit_char_def Let_def)
qed

lemma pad_digits: "list_all is_digit (pad n v)"
  by (induction n arbitrary: v) (auto simp: digit_char_digit)

lemma pad_value: "v < 10 ^ n \<Longrightarrow> foldl (\<lambda>v c. 10 * v + (of_char c - 48)) 0 (pad n v) = int v"
proof (induction n arbitrary: v)
  case 0
  then show ?case by simp
next
  case (Suc n)
  then have "v div 10 < 10 ^ n" by (simp add: mult.commute less_mult_imp_div_less)
  with Suc.IH show ?case by (simp add: digit_char_digit) presburger
qed

lemma digits_pad: "v < 10 ^ n \<Longrightarrow> digits n (pad n v @ s) = Some (int v, s)"
  using pad_digits [of n v] by (simp add: digits_def pad_value)

section \<open>isoformat\<close>

text \<open>The fraction is written only when it is not zero, and then with six digits.\<close>

definition fraction_text :: "nat \<Rightarrow> string" where
  "fraction_text us = (if us = 0 then [] else CHR ''.'' # pad 6 us)"

definition utc_text :: "int \<Rightarrow> string" where
  "utc_text t =
     (let us = t mod 1000000; s = t div 1000000; (y, m, d) = date_of_ordinal (s div 86400); r = s mod 86400
      in pad 4 (nat y) @ ''-'' @ pad 2 (nat m) @ ''-'' @ pad 2 (nat d) @ ''T'' @
         pad 2 (nat (r div 3600)) @ '':'' @ pad 2 (nat (r mod 3600 div 60)) @ '':'' @ pad 2 (nat (r mod 60)) @
         fraction_text (nat us) @ ''Z'')"

text \<open>\<open>GitHubPoller._timestamp\<close>: the clock must be aware.\<close>

definition clock_text :: "datetime \<Rightarrow> err + string" where
  "clock_text now = (case now of
     Naive t \<Rightarrow> Inl (ValueError ''poller clock must return an aware datetime'')
   | Aware t \<Rightarrow> Inr (utc_text t))"

definition in_calendar :: "int \<Rightarrow> bool" where
  "in_calendar t = (1 \<le> t div 86400000000 \<and> t div 86400000000 \<le> 3652059)"

lemma utc_suffix_append: "utc_suffix (s @ t) = utc_suffix s @ utc_suffix t"
  by (simp add: utc_suffix_def)

lemma utc_suffix_plain: "CHR ''Z'' \<notin> set s \<Longrightarrow> utc_suffix s = s"
  by (induction s) (auto simp: utc_suffix_def)

lemma pad_plain: "CHR ''Z'' \<notin> set (pad n v)"
proof -
  have "\<not> is_digit (CHR ''Z'')" by (simp add: is_digit_def)
  with pad_digits [of n v] show ?thesis by (auto simp: list_all_iff)
qed

lemma year_bound:
  assumes "1 \<le> n" "n \<le> 3652059" "date_of_ordinal n = (y, m, d)"
  shows "y \<le> 9999"
proof (rule ccontr)
  assume "\<not> y \<le> 9999"
  then have y: "9999 \<le> y - 1" by simp
  have "days_before_year y < n"
    using year_from_correct [OF start_year [OF assms(1)]] assms(3)
    by (auto simp: date_of_ordinal_def Let_def split: prod.splits)
  moreover have "days_before_year 10000 \<le> days_before_year y" using y by (intro days_mono) simp
  then have "3652059 \<le> days_before_year y" by (simp add: days_before_year_def)
  ultimately show False using assms(2) by simp
qed

section \<open>Reading a written instant\<close>

lemma parse_fraction_pad:
  assumes "us < 1000000" "\<not> is_digit c"
  shows "parse_fraction (pad 6 us @ c # s) = Some (int us, c # s)"
proof -
  have a: "\<forall>x \<in> set (pad 6 us). is_digit x" using pad_digits by (simp add: list_all_iff)
  then have t: "takeWhile is_digit (pad 6 us @ c # s) = pad 6 us" "dropWhile is_digit (pad 6 us @ c # s) = c # s"
    using assms(2) by simp_all
  have "pad 6 us \<noteq> []" by (metis length_pad list.size(3) zero_neq_numeral)
  moreover have "digits 6 (pad 6 us) = Some (int us, [])" using digits_pad [of us 6 "[]"] assms(1) by simp
  ultimately show ?thesis by (simp add: parse_fraction_def t Let_def)
qed

lemma parse_seconds_text:
  assumes "sec < 60" "us < 1000000"
  shows "parse_seconds (CHR '':'' # pad 2 sec @ fraction_text us @ ''+00:00'') = Some (int sec, int us, ''+00:00'')"
proof -
  have "digits 2 (pad 2 sec @ r) = Some (int sec, r)" for r using assms(1) by (intro digits_pad) simp
  moreover have "\<not> is_digit (CHR ''+'')" by (simp add: is_digit_def)
  ultimately show ?thesis
    using parse_fraction_pad [OF assms(2), of "CHR ''+''" "''00:00''"] assms(1)
    by (simp add: parse_seconds_def fraction_text_def)
qed

lemma parse_hh_mm_text:
  assumes "h < 24" "m < 60"
  shows "parse_hh_mm (pad 2 h @ CHR '':'' # pad 2 m @ s) = Some (60 * int h + int m, s)"
  using digits_pad [of h 2] digits_pad [of m 2] assms by (simp add: parse_hh_mm_def)

lemma parse_date_text:
  assumes "ordinal_day (int y) (int m) (int d) = Some n" "y < 10000" "m < 100" "d < 100"
  shows "parse_date (pad 4 y @ CHR ''-'' # pad 2 m @ CHR ''-'' # pad 2 d @ s) = Some (n, s)"
  using digits_pad [of y 4] digits_pad [of m 2] digits_pad [of d 2] assms by (simp add: parse_date_def)

lemma utc_offset: "parse_offset t ''+00:00'' = Some (Aware t)"
proof -
  have "parse_hh_mm ''00:00'' = Some (0, [])" by code_simp
  then show ?thesis by (simp add: parse_offset_def)
qed

lemma time_parts:
  fixes r :: int
  assumes "0 \<le> r" "r < 86400"
  shows "nat (r div 3600) < 24" "nat (r mod 3600 div 60) < 60" "nat (r mod 60) < 60"
    "(60 * int (nat (r div 3600)) + int (nat (r mod 3600 div 60))) * 60 + int (nat (r mod 60)) = r"
proof -
  have "r div 3600 < 24" using zdiv_mono1 [of r 86399 3600] assms(2) by simp
  then show "nat (r div 3600) < 24" by simp
  show "nat (r mod 3600 div 60) < 60" "nat (r mod 60) < 60" by auto
  have "r mod 3600 mod 60 = r mod 60" by (rule mod_mod_cancel) simp
  then have R: "r mod 3600 div 60 * 60 + r mod 60 = r mod 3600" using div_mult_mod_eq [of "r mod 3600" 60] by (simp only:)
  have sum: "A * 3600 + R = r \<Longrightarrow> B * 60 + C = R \<Longrightarrow> (60 * A + B) * 60 + C = r" for A B C R :: int by simp
  have "0 \<le> r div 3600" "0 \<le> r mod 3600 div 60" "0 \<le> r mod 60"
    using assms by (simp_all add: pos_imp_zdiv_nonneg_iff)
  have i: "int (nat (r div 3600)) = r div 3600" "int (nat (r mod 3600 div 60)) = r mod 3600 div 60"
    "int (nat (r mod 60)) = r mod 60"
    by (rule nat_0_le; fact)+
  show "(60 * int (nat (r div 3600)) + int (nat (r mod 3600 div 60))) * 60 + int (nat (r mod 60)) = r"
    unfolding i by (rule sum [OF div_mult_mod_eq R])
qed

lemma instant_parts:
  fixes t :: int
  shows "(t div 86400000000 * 86400 + t div 1000000 mod 86400) * 1000000 + t mod 1000000 = t"
    "t div 1000000 div 86400 = t div 86400000000"
proof -
  show d: "t div 1000000 div 86400 = t div 86400000000" by (simp add: zdiv_zmult2_eq [symmetric])
  show "(t div 86400000000 * 86400 + t div 1000000 mod 86400) * 1000000 + t mod 1000000 = t"
    unfolding d [symmetric] by simp
qed

lemma from_iso_text:
  assumes "ordinal_day (int y) (int m) (int d) = Some n" "y < 10000" "m < 100" "d < 100"
    and "h < 24" "mi < 60" "sec < 60" "us < 1000000"
  shows "from_iso (pad 4 y @ CHR ''-'' # pad 2 m @ CHR ''-'' # pad 2 d @ CHR ''T'' # pad 2 h @ CHR '':'' # pad 2 mi @
      CHR '':'' # pad 2 sec @ fraction_text us @ ''+00:00'') =
    Some (Aware ((n * 86400 + (60 * int h + int mi) * 60 + int sec) * 1000000 + int us))"
  using parse_date_text [OF assms(1-4)] parse_hh_mm_text [OF assms(5,6)] parse_seconds_text [OF assms(7,8)]
  by (simp add: from_iso_def utc_offset)

theorem utc_text_roundtrip:
  assumes "in_calendar t"
  shows "parse_timestamp (utc_text t) = Some (Aware t)"
proof -
  let ?n = "t div 86400000000" and ?r = "t div 1000000 mod 86400" and ?us = "nat (t mod 1000000)"
  obtain y m d where ymd: "date_of_ordinal ?n = (y, m, d)" using prod_cases3 by blast
  have n: "1 \<le> ?n" "?n \<le> 3652059" using assms by (simp_all add: in_calendar_def)
  from ordinal_of_date [OF n(1) ymd] year_bound [OF n ymd]
  have o: "ordinal_day (int (nat y)) (int (nat m)) (int (nat d)) = Some ?n" "nat y < 10000" "nat m < 100" "nat d < 100"
    by auto
  have r: "0 \<le> ?r" "?r < 86400" and us: "?us < 1000000" by auto
  let ?rest = "CHR ''T'' # pad 2 (nat (?r div 3600)) @ CHR '':'' # pad 2 (nat (?r mod 3600 div 60)) @
      CHR '':'' # pad 2 (nat (?r mod 60)) @ fraction_text ?us"
  have "CHR ''Z'' \<notin> set (pad 4 (nat y) @ CHR ''-'' # pad 2 (nat m) @ CHR ''-'' # pad 2 (nat d) @ ?rest)"
    by (simp add: pad_plain fraction_text_def)
  then have plain: "utc_suffix ((pad 4 (nat y) @ CHR ''-'' # pad 2 (nat m) @ CHR ''-'' # pad 2 (nat d) @ ?rest) @ ''Z'') =
      (pad 4 (nat y) @ CHR ''-'' # pad 2 (nat m) @ CHR ''-'' # pad 2 (nat d) @ ?rest) @ ''+00:00''"
    using utc_suffix_plain utc_suffix_append [of _ "''Z''"] by (simp add: utc_suffix_def)
  have "utc_text t = (pad 4 (nat y) @ CHR ''-'' # pad 2 (nat m) @ CHR ''-'' # pad 2 (nat d) @ ?rest) @ ''Z''"
    by (simp only: utc_text_def Let_def instant_parts(2) ymd prod.case append.assoc append_Cons append_Nil)
  then have "utc_suffix (utc_text t) =
      (pad 4 (nat y) @ CHR ''-'' # pad 2 (nat m) @ CHR ''-'' # pad 2 (nat d) @ ?rest) @ ''+00:00''"
    by (simp only: plain)
  then have "parse_timestamp (utc_text t) = Some (Aware ((?n * 86400 +
      (60 * int (nat (?r div 3600)) + int (nat (?r mod 3600 div 60))) * 60 + int (nat (?r mod 60))) * 1000000 + int ?us))"
    using from_iso_text [OF o time_parts(1-3) [OF r] us] by (simp only: parse_timestamp_def append_Cons append.assoc append_Nil)
  also have "\<dots> = Some (Aware t)"
  proof -
    have "int ?us = t mod 1000000" by simp
    moreover have "(?n * 86400 + X * 60 + Y) * 1000000 + U = t" if "X * 60 + Y = ?r" "U = t mod 1000000" for X Y U
      using instant_parts(1) [of t] that by (simp only: add.assoc)
    ultimately show ?thesis using time_parts(4) [OF r] by (simp only:)
  qed
  finally show ?thesis .
qed

end
