(* ===== verification/Intake.thy ===== *)
theory Intake
  imports Inbox Clock
begin

text \<open>
  Ingestion: one pass of \<open>GitHubPoller\<close> (\<open>github_poller.py\<close>) over the four event streams of a
  repository, and the operations of \<open>github_store.py\<close> behind it -- cursors, observed issue contents,
  issue metadata, the batch insert with its routing to issue threads, and the mapping of pull
  requests to threads. The GitHub client is the argument \<open>source_client\<close>.
\<close>

section \<open>Events as the poller builds them\<close>

text \<open>\<open>SourceEvent\<close> of \<open>github_models.py\<close>.\<close>

record polled_event =
  pe_repo_id :: int
  pe_repo_full_name :: string
  pe_kind :: source_kind
  pe_source_id :: string
  pe_updated_at :: string
  pe_created_at :: "string option"
  pe_subject_kind :: subject_kind
  pe_subject :: int
  pe_author :: "string option"
  pe_body :: string
  pe_surface :: origin_surface
  pe_review_root :: "string option"
  pe_anchor :: anchor
  pe_labels :: "string list"

fun kind_value :: "source_kind \<Rightarrow> string" where
  "kind_value Issue = ''issue''"
| "kind_value Issue_Comment = ''issue_comment''"
| "kind_value Review_Comment = ''review_comment''"
| "kind_value Pull_Request_Review = ''pull_request_review''"

definition event_key :: "polled_event \<Rightarrow> string" where
  "event_key e = join '':'' [show_int (pe_repo_id e), kind_value (pe_kind e), pe_source_id e, pe_updated_at e]"

text \<open>The row \<open>record_batch\<close> writes for an event.\<close>

definition event_row :: "polled_event \<Rightarrow> string option \<Rightarrow> string \<Rightarrow> source_event" where
  "event_row e thread_id now =
     \<lparr>ev_key = event_key e, ev_repo_id = pe_repo_id e, ev_repo_full_name = pe_repo_full_name e,
      ev_source_id = pe_source_id e, ev_thread = thread_id, ev_kind = pe_kind e, ev_updated_at = pe_updated_at e,
      ev_created_at = pe_created_at e, ev_discovered_at = now, ev_surface = pe_surface e,
      ev_subject_kind = pe_subject_kind e, ev_subject = pe_subject e, ev_author = pe_author e, ev_body = pe_body e,
      ev_review_root = pe_review_root e, ev_anchor = pe_anchor e\<rparr>"

section \<open>Inserts\<close>

definition insert_thread :: "thread_row \<Rightarrow> db \<Rightarrow> err + db" where
  "insert_thread r d =
    (if has th_id (th_id r) (threads d)
        \<or> has (\<lambda>t. (th_repo_id t, th_issue_number t)) (th_repo_id r, th_issue_number r) (threads d)
        \<or> \<not> has rp_id (th_repo_id r) (repositories d)
        \<or> (case th_config r of None \<Rightarrow> False | Some g \<Rightarrow> \<not> has gn_id g (config_generations d))
     then Inl (IntegrityError ''issue_threads'')
     else Inr (d\<lparr>threads := threads d @ [r]\<rparr>))"

text \<open>\<open>INSERT OR IGNORE\<close>.\<close>

definition insert_event :: "source_event \<Rightarrow> db \<Rightarrow> err + db" where
  "insert_event r d =
    (if has ev_key (ev_key r) (events d) then Inr d
     else if \<not> has rp_id (ev_repo_id r) (repositories d)
        \<or> (case ev_thread r of None \<Rightarrow> False | Some k \<Rightarrow> \<not> has th_id k (threads d))
     then Inl (IntegrityError ''source_events'')
     else Inr (d\<lparr>events := events d @ [r]\<rparr>))"

definition insert_lifecycle :: "lifecycle_row \<Rightarrow> db \<Rightarrow> err + db" where
  "insert_lifecycle r d =
    (if has li_thread (li_thread r) (lifecycles d) then Inr d
     else if \<not> has th_id (li_thread r) (threads d) then Inl (IntegrityError ''thread_workflow_lifecycle_v1'')
     else Inr (d\<lparr>lifecycles := lifecycles d @ [r]\<rparr>))"

text \<open>\<open>ON CONFLICT ... DO UPDATE\<close>: the row with the key is replaced in place.\<close>

definition upsert :: "('r \<Rightarrow> 'k) \<Rightarrow> 'r \<Rightarrow> 'r list \<Rightarrow> 'r list" where
  "upsert key r rows =
    (if has key (key r) rows then update_where (\<lambda>x. key x = key r) (\<lambda>_. r) rows else rows @ [r])"

definition known_repository :: "int \<Rightarrow> string \<Rightarrow> db \<Rightarrow> err + unit" where
  "known_repository repo_id table d =
    (if has rp_id repo_id (repositories d) then Inr () else Inl (IntegrityError table))"

section \<open>Repositories, cursors and metadata\<close>

text \<open>The names of the observed repositories are unique, too.\<close>

definition upsert_repository :: "int \<Rightarrow> string \<Rightarrow> string \<Rightarrow> (db, unit) op" where
  "upsert_repository repo_id full_name observed_at d =
     (if list_ex (\<lambda>r. rp_full_name r = full_name \<and> rp_id r \<noteq> repo_id) (repositories d)
      then raise (IntegrityError ''repositories'') d
      else return () (d\<lparr>repositories :=
        upsert rp_id \<lparr>rp_id = repo_id, rp_full_name = full_name, rp_observed_at = observed_at\<rparr> (repositories d)\<rparr>))"

definition poll_cursor :: "db \<Rightarrow> int \<Rightarrow> string \<Rightarrow> cursor_row option" where
  "poll_cursor d repo_id stream = lookup (\<lambda>c. (cu_repo c, cu_stream c)) (repo_id, stream) (poll_cursors d)"

definition set_cursor :: "int \<Rightarrow> string \<Rightarrow> string \<Rightarrow> string option \<Rightarrow> string \<Rightarrow> db \<Rightarrow> err + db" where
  "set_cursor repo_id stream since etag polled_at d =
     bindE (known_repository repo_id ''poll_cursors'' d) (\<lambda>_.
       Inr (d\<lparr>poll_cursors := upsert (\<lambda>c. (cu_repo c, cu_stream c))
         \<lparr>cu_repo = repo_id, cu_stream = stream, cu_since = since, cu_etag = etag, cu_polled_at = polled_at\<rparr>
         (poll_cursors d)\<rparr>))"

text \<open>\<open>upsert_issue_metadata\<close>: an older observation does not replace a newer one.\<close>

definition upsert_issue_metadata :: "int \<Rightarrow> int \<Rightarrow> string \<Rightarrow> string \<Rightarrow> string \<Rightarrow> (db, unit) op" where
  "upsert_issue_metadata repo_id number title body observed_at d =
     commit d (bindE (known_repository repo_id ''issue_metadata'' d) (\<lambda>_.
       let r = \<lparr>im_repo = repo_id, im_issue = number, im_title = title, im_body = body, im_observed_at = observed_at\<rparr>
       in Inr ((), d\<lparr>issue_metadata :=
         (if has (\<lambda>m. (im_repo m, im_issue m)) (repo_id, number) (issue_metadata d)
          then update_where (\<lambda>m. im_repo m = repo_id \<and> im_issue m = number \<and> im_observed_at m \<le> observed_at)
                 (\<lambda>_. r) (issue_metadata d)
          else issue_metadata d @ [r])\<rparr>)))"

section \<open>Contents of issues\<close>

abbreviation content_key :: "observation_row \<Rightarrow> int \<times> string" where
  "content_key r \<equiv> (oc_repo r, oc_source r)"

text \<open>A body that is NULL is kept as the empty text.\<close>

definition upsert_issue_content ::
  "digest \<Rightarrow> int \<Rightarrow> string \<Rightarrow> int \<Rightarrow> string \<Rightarrow> string \<Rightarrow> db \<Rightarrow> err + db" where
  "upsert_issue_content sha repo_id source_id number body observed_at d =
     bindE (known_repository repo_id ''issue_content_observations'' d) (\<lambda>_.
       Inr (d\<lparr>issue_contents := upsert content_key
         \<lparr>oc_repo = repo_id, oc_source = source_id, oc_issue = number, oc_hash = sha body, oc_body = body,
          oc_observed_at = observed_at\<rparr> (issue_contents d)\<rparr>))"

definition observe_issue_content ::
  "digest \<Rightarrow> int \<Rightarrow> string \<Rightarrow> int \<Rightarrow> string \<Rightarrow> string \<Rightarrow> (db, unit) op" where
  "observe_issue_content sha repo_id source_id number body observed_at d =
     commit d (bindE (upsert_issue_content sha repo_id source_id number body observed_at d) (\<lambda>d1. Inr ((), d1)))"

text \<open>
  \<open>_is_new_issue_content\<close>: whether an issue event carries a body other than the latest known one;
  in every case its body becomes the latest known one. A database that predates the observations
  is compared with its newest stored event of the issue.
\<close>

definition latest_issue_event :: "db \<Rightarrow> polled_event \<Rightarrow> source_event option" where
  "latest_issue_event d e = latest_by (\<lambda>x. (ev_updated_at x, ev_discovered_at x))
     (filter (\<lambda>x. ev_repo_id x = pe_repo_id e \<and> ev_kind x = Issue \<and> ev_source_id x = pe_source_id e) (events d))"

definition known_issue_content :: "digest \<Rightarrow> db \<Rightarrow> polled_event \<Rightarrow> bool" where
  "known_issue_content sha d e =
    (case lookup content_key (pe_repo_id e, pe_source_id e) (issue_contents d) of
       Some r \<Rightarrow> oc_hash r = sha (pe_body e)
     | None \<Rightarrow> (case latest_issue_event d e of None \<Rightarrow> False | Some x \<Rightarrow> sha (ev_body x) = sha (pe_body e)))"

definition is_new_issue_content :: "digest \<Rightarrow> polled_event \<Rightarrow> db \<Rightarrow> err + bool \<times> db" where
  "is_new_issue_content sha e d =
    (if pe_kind e \<noteq> Issue then Inr (True, d)
     else bindE (upsert_issue_content sha (pe_repo_id e) (pe_source_id e) (pe_subject e) (pe_body e) (pe_updated_at e) d)
       (\<lambda>d1. Inr (\<not> known_issue_content sha d e, d1)))"

section \<open>Snapshots that the earlier workflow has resolved\<close>

definition published_root :: "db \<Rightarrow> string \<Rightarrow> bool" where
  "published_root d k = list_ex (\<lambda>p. pb_event p = k \<and> pb_root_input p = k \<and> pb_status p \<in> {COMPLETED, NO_CHANGES})
     (publications d)"

definition resolved_execution :: "db \<Rightarrow> string \<Rightarrow> bool" where
  "resolved_execution d k =
    (case lookup ee_event k (event_executions d) of
       None \<Rightarrow> False
     | Some x \<Rightarrow> ee_status x = SKIPPED \<or> ee_status x = SUCCEEDED \<and> published_root d k)"

definition has_resolved_issue_snapshot :: "db \<Rightarrow> polled_event \<Rightarrow> bool" where
  "has_resolved_issue_snapshot d e =
    (pe_kind e = Issue \<and>
     list_ex (\<lambda>x. ev_repo_id x = pe_repo_id e \<and> ev_kind x = Issue \<and> ev_source_id x = pe_source_id e
        \<and> ev_body x = pe_body e \<and> resolved_execution d (ev_key x)) (events d))"

definition earlier_snapshot :: "source_event \<Rightarrow> source_event \<Rightarrow> bool" where
  "earlier_snapshot earlier later =
    (ev_repo_id earlier = ev_repo_id later \<and> ev_kind earlier = Issue \<and> ev_kind later = Issue
     \<and> ev_source_id earlier = ev_source_id later \<and> ev_body earlier = ev_body later
     \<and> (ev_updated_at earlier < ev_updated_at later
        \<or> ev_updated_at earlier = ev_updated_at later \<and> ev_key earlier < ev_key later))"

text \<open>One row of the join per pair of a later event without execution and a resolved earlier one.\<close>

definition redundant_events :: "db \<Rightarrow> source_event list" where
  "redundant_events d =
     concat (map (\<lambda>later. map (\<lambda>_. later) (filter (\<lambda>earlier. earlier_snapshot earlier later
         \<and> resolved_execution d (ev_key earlier)) (events d)))
       (filter (\<lambda>later. \<not> has ee_event (ev_key later) (event_executions d)) (events d)))"

definition skipped_execution :: "string \<Rightarrow> source_event \<Rightarrow> string \<Rightarrow> event_execution_row" where
  "skipped_execution now e thread_id =
     \<lparr>ee_event = ev_key e, ee_thread = thread_id, ee_status = SKIPPED, ee_attempts = 0,
      ee_started_at = ev_discovered_at e, ee_completed_at = Some now, ee_response = None,
      ee_error = Some ''duplicate unchanged issue snapshot after resolved event'', ee_workspace = None\<rparr>"

fun insert_skipped :: "string \<Rightarrow> source_event list \<Rightarrow> db \<Rightarrow> err + db" where
  "insert_skipped now [] d = Inr d"
| "insert_skipped now (e # es) d =
    (case ev_thread e of
       None \<Rightarrow> Inl (IntegrityError ''event_executions'')
     | Some k \<Rightarrow>
         if has ee_event (ev_key e) (event_executions d) then Inl (IntegrityError ''event_executions'')
         else insert_skipped now es (d\<lparr>event_executions := event_executions d @ [skipped_execution now e k]\<rparr>))"

definition repair_redundant_issue_events :: "string \<Rightarrow> db \<Rightarrow> err + db" where
  "repair_redundant_issue_events now d = insert_skipped now (redundant_events d) d"

section \<open>Routing to threads\<close>

record batch_result =
  br_persisted :: nat
  br_created :: nat
  br_routed :: nat
  br_unrouted :: nat
  br_threads :: "string list"

definition empty_batch :: batch_result where
  "empty_batch = \<lparr>br_persisted = 0, br_created = 0, br_routed = 0, br_unrouted = 0, br_threads = []\<rparr>"

definition thread_id_for :: "int \<Rightarrow> int \<Rightarrow> string" where
  "thread_id_for repo_id number = ''github:'' @ show_int repo_id @ '':issue:'' @ show_int number"

definition mapped_thread :: "db \<Rightarrow> int \<Rightarrow> int \<Rightarrow> string option" where
  "mapped_thread d repo_id number =
     map_option mp_thread (lookup (\<lambda>m. (mp_repo m, mp_number m)) (repo_id, number) (pr_mappings d))"

definition mode_of_labels :: "string list \<Rightarrow> interaction_mode" where
  "mode_of_labels labels = (if list_ex (\<lambda>l. map lower l = ''auto'') labels then AUTO else MANUAL)"

definition new_thread :: "db \<Rightarrow> polled_event \<Rightarrow> thread_row" where
  "new_thread d e =
     \<lparr>th_id = thread_id_for (pe_repo_id e) (pe_subject e), th_repo_id = pe_repo_id e,
      th_repo_full_name = pe_repo_full_name e, th_issue_number = pe_subject e, th_mode = mode_of_labels (pe_labels e),
      th_config = map_option cc_generation (lookup cc_repo (pe_repo_id e) (config_current d))\<rparr>"

definition resolve_thread :: "polled_event \<Rightarrow> batch_result \<Rightarrow> db \<Rightarrow> err + (string option \<times> batch_result) \<times> db" where
  "resolve_thread e r d =
    (if pe_subject_kind e = Pull_Request
     then (case mapped_thread d (pe_repo_id e) (pe_subject e) of
             Some k \<Rightarrow> Inr ((Some k, r\<lparr>br_routed := Suc (br_routed r)\<rparr>), d)
           | None \<Rightarrow> Inr ((None, r\<lparr>br_unrouted := Suc (br_unrouted r)\<rparr>), d))
     else
       let k = thread_id_for (pe_repo_id e) (pe_subject e) in
       if has (\<lambda>t. (th_repo_id t, th_issue_number t)) (pe_repo_id e, pe_subject e) (threads d)
       then Inr ((Some k, r\<lparr>br_routed := Suc (br_routed r)\<rparr>), d)
       else bindE (insert_thread (new_thread d e) d)
         (\<lambda>d1. Inr ((Some k, r\<lparr>br_created := Suc (br_created r), br_threads := br_threads r @ [k],
              br_routed := Suc (br_routed r)\<rparr>), d1)))"

definition new_lifecycle :: "string \<Rightarrow> string \<Rightarrow> lifecycle_row" where
  "new_lifecycle thread_id key =
     \<lparr>li_thread = thread_id, li_state = NOT_STARTED, li_root_event = key, li_cycle = None, li_digest = None\<rparr>"

text \<open>What is stored for an event that passed the checks.\<close>

definition store_event :: "digest \<Rightarrow> string \<Rightarrow> polled_event \<Rightarrow> batch_result \<Rightarrow> db \<Rightarrow> err + batch_result \<times> db" where
  "store_event sha now e r d =
     bindE (resolve_thread e r d) (\<lambda>((thread, r1), d1).
     bindE (insert_event (event_row e thread now) d1) (\<lambda>d2.
     bindE (case thread of
              None \<Rightarrow> Inr d2
            | Some k \<Rightarrow> bindE (insert_lifecycle (new_lifecycle k (event_key e)) d2)
                (\<lambda>d3. bindE (classify_revision_input sha (event_key e) k now d3) (\<lambda>(disp, d4). Inr d4)))
       (\<lambda>d5. Inr (r1\<lparr>br_persisted := Suc (br_persisted r1)\<rparr>, d5))))"

definition ingest_event :: "digest \<Rightarrow> int \<Rightarrow> string \<Rightarrow> polled_event \<Rightarrow> batch_result \<Rightarrow> db \<Rightarrow> err + batch_result \<times> db" where
  "ingest_event sha repo_id now e r d =
    (if pe_repo_id e \<noteq> repo_id then Inl (ValueError ''event repository does not match the batch'')
     else if has ev_key (event_key e) (events d) then Inr (r, d)
     else bindE (is_new_issue_content sha e d) (\<lambda>(new, d1).
       if \<not> new then Inr (r, d1)
       else if pe_kind e = Issue \<and> \<not> is_actionable_source_event (pe_kind e) (pe_body e) then Inr (r, d1)
       else if has_resolved_issue_snapshot d1 e then Inr (r, d1)
       else store_event sha now e r d1))"

fun ingest_all :: "digest \<Rightarrow> int \<Rightarrow> string \<Rightarrow> polled_event list \<Rightarrow> batch_result \<Rightarrow> db \<Rightarrow> err + batch_result \<times> db" where
  "ingest_all sha repo_id now [] r d = Inr (r, d)"
| "ingest_all sha repo_id now (e # es) r d =
     bindE (ingest_event sha repo_id now e r d) (\<lambda>(r1, d1). ingest_all sha repo_id now es r1 d1)"

definition record_batch ::
  "digest \<Rightarrow> int \<Rightarrow> string \<Rightarrow> polled_event list \<Rightarrow> string \<Rightarrow> string option \<Rightarrow> string \<Rightarrow> (db, batch_result) op" where
  "record_batch sha repo_id stream es since etag polled_at d =
     commit d (bindE (repair_redundant_issue_events polled_at d) (\<lambda>d1.
       bindE (ingest_all sha repo_id polled_at es empty_batch d1) (\<lambda>(r, d2).
       bindE (set_cursor repo_id stream since etag polled_at d2) (\<lambda>d3. Inr (r, d3)))))"

text \<open>The comments that arrived before the pull request was mapped join its thread.\<close>

definition adopt_events :: "int \<Rightarrow> int \<Rightarrow> string \<Rightarrow> db \<Rightarrow> db" where
  "adopt_events repo_id number thread_id d = d\<lparr>events := update_where
     (\<lambda>e. ev_repo_id e = repo_id \<and> ev_subject_kind e = Pull_Request \<and> ev_subject e = number \<and> ev_thread e = None)
     (\<lambda>e. e\<lparr>ev_thread := Some thread_id\<rparr>) (events d)\<rparr>"

definition register_pr_mapping :: "int \<Rightarrow> int \<Rightarrow> string \<Rightarrow> (db, unit) op" where
  "register_pr_mapping repo_id number thread_id d =
     commit d
       (if map_option th_repo_id (thread_of d thread_id) \<noteq> Some repo_id
        then Inl (ValueError ''PR mapping thread must belong to the repository'')
        else case mapped_thread d repo_id number of
          Some k \<Rightarrow> if k \<noteq> thread_id then Inl (ValueError ''PR mapping already points to another thread'')
            else Inr ((), adopt_events repo_id number thread_id d)
        | None \<Rightarrow> bindE (known_repository repo_id ''pr_thread_mappings'' d) (\<lambda>_.
            Inr ((), adopt_events repo_id number thread_id
              (d\<lparr>pr_mappings := pr_mappings d @ [\<lparr>mp_repo = repo_id, mp_number = number, mp_thread = thread_id\<rparr>]\<rparr>))))"

end
