(* ===== verification/Poller.thy ===== *)
theory Poller
  imports Intake
begin

text \<open>
  One polling pass of \<open>github_poller.py\<close>: the query of each stream from its cursor, the
  normalization of the items GitHub returns into events, and the sum of the batch results. The
  client's calls are the fields of \<open>source_client\<close>; an item is the decoded JSON object, in which
  a missing key and a null value are both \<open>None\<close>.
\<close>

section \<open>Items and the client\<close>

record gh_item =
  gi_id :: int
  gi_number :: "int option"
  gi_title :: "string option"
  gi_body :: "string option"
  gi_updated_at :: "string option"
  gi_created_at :: "string option"
  gi_submitted_at :: "string option"
  gi_pull_request :: bool
  gi_labels :: "string option list"
  gi_user :: "string option"
  gi_issue_url :: "string option"
  gi_pull_url :: "string option"
  gi_reply_to :: "int option"
  gi_anchor :: anchor

record repository_ref =
  rr_id :: int
  rr_full_name :: string
  rr_default_branch :: string

record poll_response =
  pr_items :: "gh_item list"
  pr_etag :: "string option"
  pr_not_modified :: bool

datatype stream = Issues | Issue_Comments | Review_Comments | Pull_Request_Reviews

fun stream_name :: "stream \<Rightarrow> string" where
  "stream_name Issues = ''issues''"
| "stream_name Issue_Comments = ''issue_comments''"
| "stream_name Review_Comments = ''review_comments''"
| "stream_name Pull_Request_Reviews = ''pull_request_reviews''"

definition STREAMS :: "stream list" where
  "STREAMS = [Issues, Issue_Comments, Review_Comments, Pull_Request_Reviews]"

record source_client =
  sc_repository :: "string \<Rightarrow> err + repository_ref"
  sc_stream :: "stream \<Rightarrow> repository_ref \<Rightarrow> string \<Rightarrow> string option \<Rightarrow> err + poll_response"
  sc_issue :: "repository_ref \<Rightarrow> int \<Rightarrow> err + gh_item"

definition classify_subject :: "gh_item \<Rightarrow> subject_kind" where
  "classify_subject item = (if gi_pull_request item then Pull_Request else Issue_Subject)"

text \<open>
  \<open>_number_from_url\<close>: the first \<open>/issues/<digits>\<close> or \<open>/pulls/<digits>\<close> that is followed by the end
  of the text, a final newline or a slash.
\<close>

definition number_end :: "string \<Rightarrow> bool" where
  "number_end s = (s = [] \<or> s = newline \<or> hd s = CHR ''/'')"

definition number_at :: "string \<Rightarrow> string \<Rightarrow> int option" where
  "number_at pre s =
    (if \<not> starts_with s pre then None
     else let r = drop (length pre) s; ds = takeWhile is_digit r
          in if ds \<noteq> [] \<and> number_end (dropWhile is_digit r) then map_option fst (digits (length ds) ds) else None)"

fun find_number :: "string \<Rightarrow> int option" where
  "find_number [] = None"
| "find_number (c # cs) =
    (case number_at ''/issues/'' (c # cs) of
       Some n \<Rightarrow> Some n
     | None \<Rightarrow> (case number_at ''/pulls/'' (c # cs) of Some n \<Rightarrow> Some n | None \<Rightarrow> find_number cs))"

definition number_from_url :: "string option \<Rightarrow> err + int" where
  "number_from_url url =
    (case find_number (case url of None \<Rightarrow> [] | Some u \<Rightarrow> u) of
       None \<Rightarrow> Inl (ValueError ''GitHub object did not include a recognizable subject URL'')
     | Some n \<Rightarrow> Inr n)"

section \<open>Events of an item\<close>

definition required :: "string \<Rightarrow> 'a option \<Rightarrow> err + 'a" where
  "required key v = (case v of None \<Rightarrow> Inl (KeyError key) | Some x \<Rightarrow> Inr x)"

text \<open>\<open>a or b\<close> on texts: an empty text counts as missing.\<close>

definition or_else :: "string option \<Rightarrow> string option \<Rightarrow> string option" where
  "or_else a b = (if a = None \<or> a = Some [] then b else a)"

definition polled_event_of ::
  "repository_ref \<Rightarrow> source_kind \<Rightarrow> gh_item \<Rightarrow> subject_kind \<Rightarrow> int \<Rightarrow> string \<Rightarrow> origin_surface \<Rightarrow> string list \<Rightarrow>
   err + polled_event" where
  "polled_event_of repo kind item subject number body surface labels =
     bindE (required ''updated_at'' (gi_updated_at item)) (\<lambda>updated.
       Inr \<lparr>pe_repo_id = rr_id repo, pe_repo_full_name = rr_full_name repo, pe_kind = kind,
         pe_source_id = show_int (gi_id item), pe_updated_at = updated,
         pe_created_at = or_else (gi_created_at item) (gi_submitted_at item),
         pe_subject_kind = subject, pe_subject = number, pe_author = gi_user item, pe_body = body, pe_surface = surface,
         pe_review_root = (if kind = Review_Comment
           then Some (show_int (case gi_reply_to item of Some r \<Rightarrow> r | None \<Rightarrow> gi_id item)) else None),
         pe_anchor = gi_anchor item, pe_labels = labels\<rparr>)"

definition labels_of :: "gh_item \<Rightarrow> string list" where
  "labels_of item = concat (map (\<lambda>l. case l of None \<Rightarrow> [] | Some v \<Rightarrow> [v]) (gi_labels item))"

definition text_of :: "string option \<Rightarrow> string" where
  "text_of v = (case v of None \<Rightarrow> [] | Some s \<Rightarrow> s)"

definition observed_stamp :: "gh_item \<Rightarrow> string \<Rightarrow> string" where
  "observed_stamp item observed = text_of (or_else (gi_updated_at item) (Some observed))"

definition snapshot_issue :: "repository_ref \<Rightarrow> gh_item \<Rightarrow> int \<Rightarrow> string \<Rightarrow> (db, unit) op" where
  "snapshot_issue repo item number observed d =
    (if gi_title item = None \<and> gi_body item = None then return () d
     else upsert_issue_metadata (rr_id repo) number (text_of (gi_title item)) (text_of (gi_body item))
            (observed_stamp item observed) d)"

fun stream_kind :: "stream \<Rightarrow> source_kind" where
  "stream_kind Issues = Issue"
| "stream_kind Pull_Request_Reviews = Pull_Request_Review"
| "stream_kind _ = Issue_Comment"

text \<open>\<open>contains_agent_mention\<close> and \<open>starts_with_agent_invocation\<close> answer False on a missing body.\<close>

definition actionable_item :: "stream \<Rightarrow> gh_item \<Rightarrow> bool" where
  "actionable_item stream item =
    (case gi_body item of None \<Rightarrow> False | Some b \<Rightarrow> is_actionable_source_event (stream_kind stream) b)"

text \<open>The state of the generator: the classified subjects and the database.\<close>

type_synonym poll_state = "(int \<times> subject_kind) list \<times> db"

definition on_db :: "(db \<Rightarrow> (err + 'a) \<times> db) \<Rightarrow> (poll_state, 'a) op" where
  "on_db f s = (let (r, d) = f (snd s) in (r, (fst s, d)))"

definition lift_err :: "err + 'a \<Rightarrow> ('s, 'a) op" where
  "lift_err r s = (r, s)"

text \<open>An item of the stream \<open>issues\<close>.\<close>

definition normalize_issue :: "digest \<Rightarrow> repository_ref \<Rightarrow> string \<Rightarrow> gh_item \<Rightarrow> (poll_state, polled_event list) op" where
  "normalize_issue sha repo observed item s =
    (if gi_pull_request item then return [] s
     else and_then (lift_err (required ''number'' (gi_number item)) s) (\<lambda>number s.
       and_then (on_db (snapshot_issue repo item number observed) s) (\<lambda>_ s.
         if \<not> actionable_item Issues item
         then and_then (on_db (observe_issue_content sha (rr_id repo) (show_int (gi_id item)) number
                 (text_of (gi_body item)) (observed_stamp item observed)) s) (\<lambda>_ s. return [] s)
         else and_then (lift_err (polled_event_of repo Issue item Issue_Subject number (text_of (gi_body item)) ISSUE
                 (labels_of item)) s)
           (\<lambda>e s. return [e] s))))"

text \<open>The subject of a comment: looked up once per number, with a snapshot of the fetched issue.\<close>

definition classified ::
  "source_client \<Rightarrow> repository_ref \<Rightarrow> string \<Rightarrow> int \<Rightarrow> (poll_state, subject_kind \<times> string list) op" where
  "classified cl repo observed number s =
    (case map_of (fst s) number of
       Some k \<Rightarrow> return (k, []) s
     | None \<Rightarrow>
         and_then (lift_err (sc_issue cl repo number) s) (\<lambda>payload s.
           let k = classify_subject payload in
           and_then (on_db (snapshot_issue repo payload number observed) ((number, k) # fst s, snd s)) (\<lambda>_ s.
             return (k, if k = Issue_Subject then labels_of payload else []) s)))"

definition normalize_comment ::
  "source_client \<Rightarrow> repository_ref \<Rightarrow> string \<Rightarrow> gh_item \<Rightarrow> (poll_state, polled_event list) op" where
  "normalize_comment cl repo observed item s =
    (if \<not> actionable_item Issue_Comments item then return [] s
     else and_then (lift_err (number_from_url (gi_issue_url item)) s) (\<lambda>number s.
       and_then (classified cl repo observed number s) (\<lambda>(k, labels) s.
         and_then (lift_err (polled_event_of repo Issue_Comment item k number (text_of (gi_body item))
               (if k = Pull_Request then PR_CONVERSATION else ISSUE) labels) s)
           (\<lambda>e s. return [e] s))))"

definition normalize_review ::
  "stream \<Rightarrow> repository_ref \<Rightarrow> gh_item \<Rightarrow> (poll_state, polled_event list) op" where
  "normalize_review stream repo item s =
    (if \<not> actionable_item stream item then return [] s
     else and_then (lift_err (number_from_url (gi_pull_url item)) s) (\<lambda>number s.
       and_then (lift_err (if stream = Review_Comments
           then polled_event_of repo Review_Comment item Pull_Request number (text_of (gi_body item)) PR_INLINE_REVIEW []
           else polled_event_of repo Pull_Request_Review item Pull_Request number (text_of (gi_body item)) PR_REVIEW []) s)
         (\<lambda>e s. return [e] s)))"

definition normalize_item ::
  "digest \<Rightarrow> source_client \<Rightarrow> repository_ref \<Rightarrow> stream \<Rightarrow> string \<Rightarrow> gh_item \<Rightarrow> (poll_state, polled_event list) op" where
  "normalize_item sha cl repo stream observed item =
    (case stream of
       Issues \<Rightarrow> normalize_issue sha repo observed item
     | Issue_Comments \<Rightarrow> normalize_comment cl repo observed item
     | _ \<Rightarrow> normalize_review stream repo item)"

fun normalize_items ::
  "digest \<Rightarrow> source_client \<Rightarrow> repository_ref \<Rightarrow> stream \<Rightarrow> string \<Rightarrow> gh_item list \<Rightarrow> (poll_state, polled_event list) op" where
  "normalize_items sha cl repo stream observed [] s = return [] s"
| "normalize_items sha cl repo stream observed (i # is) s =
     and_then (normalize_item sha cl repo stream observed i s) (\<lambda>es s.
       and_then (normalize_items sha cl repo stream observed is s) (\<lambda>fs s. return (es @ fs) s))"

section \<open>Cursors\<close>

text \<open>
  The instant of an \<open>updated_at\<close>. GitHub's time stamps carry the zone; one without a zone would be
  read in the zone of the machine and is refused here.
\<close>

definition instant_of :: "string \<Rightarrow> err + int" where
  "instant_of s = (case parse_timestamp s of
     None \<Rightarrow> Inl (ValueError ''Invalid isoformat string'')
   | Some (Naive t) \<Rightarrow> Inl (TypeError ''can't compare offset-naive and offset-aware datetimes'')
   | Some (Aware t) \<Rightarrow> Inr t)"

fun instants_of :: "string list \<Rightarrow> err + int list" where
  "instants_of [] = Inr []"
| "instants_of (x # xs) = bindE (instant_of x) (\<lambda>t. bindE (instants_of xs) (\<lambda>ts. Inr (t # ts)))"

definition update_stamps :: "gh_item list \<Rightarrow> string list" where
  "update_stamps is = concat (map (\<lambda>i. case gi_updated_at i of None \<Rightarrow> [] | Some u \<Rightarrow> if u = [] then [] else [u]) is)"

definition next_since :: "int \<Rightarrow> string \<Rightarrow> poll_response \<Rightarrow> err + poll_response \<times> string" where
  "next_since overlap since r =
    (if pr_not_modified r \<or> pr_items r = [] then Inr (r, since)
     else bindE (instants_of (update_stamps (pr_items r))) (\<lambda>ts.
       if ts = [] then Inr (r, since)
       else Inr (\<lparr>pr_items = pr_items r, pr_etag = None, pr_not_modified = False\<rparr>, utc_text (Max (set ts) - overlap))))"

record poller_settings =
  ps_lookback :: int
  ps_overlap :: int

text \<open>The defaults of the constructor: ten minutes and thirty seconds.\<close>

definition default_settings :: poller_settings where
  "default_settings = \<lparr>ps_lookback = 600000000, ps_overlap = 30000000\<rparr>"

definition fetch ::
  "source_client \<Rightarrow> poller_settings \<Rightarrow> repository_ref \<Rightarrow> stream \<Rightarrow> string \<Rightarrow> db \<Rightarrow> err + poll_response \<times> string" where
  "fetch cl ps repo stream observed d =
     bindE (case poll_cursor d (rr_id repo) (stream_name stream) of
              Some c \<Rightarrow> Inr (cu_since c, cu_etag c)
            | None \<Rightarrow> bindE (instant_of observed) (\<lambda>t. Inr (utc_text (t - ps_lookback ps), None)))
       (\<lambda>(since, etag). bindE (sc_stream cl stream repo since etag) (next_since (ps_overlap ps) since))"

section \<open>A polling pass\<close>

record poll_result =
  po_repositories :: nat
  po_discovered :: nat
  po_persisted :: nat
  po_created :: nat
  po_routed :: nat
  po_unrouted :: nat

definition no_result :: poll_result where
  "no_result = \<lparr>po_repositories = 0, po_discovered = 0, po_persisted = 0, po_created = 0, po_routed = 0, po_unrouted = 0\<rparr>"

definition result_for_batch :: "polled_event list \<Rightarrow> batch_result \<Rightarrow> poll_result" where
  "result_for_batch es b = \<lparr>po_repositories = 0, po_discovered = length es, po_persisted = br_persisted b,
     po_created = br_created b, po_routed = br_routed b, po_unrouted = br_unrouted b\<rparr>"

definition add_result :: "poll_result \<Rightarrow> poll_result \<Rightarrow> poll_result" where
  "add_result l r = \<lparr>po_repositories = po_repositories l + po_repositories r, po_discovered = po_discovered l + po_discovered r,
     po_persisted = po_persisted l + po_persisted r, po_created = po_created l + po_created r,
     po_routed = po_routed l + po_routed r, po_unrouted = po_unrouted l + po_unrouted r\<rparr>"

definition poll_stream ::
  "digest \<Rightarrow> source_client \<Rightarrow> poller_settings \<Rightarrow> repository_ref \<Rightarrow> string \<Rightarrow> stream \<Rightarrow> (poll_state, poll_result) op" where
  "poll_stream sha cl ps repo observed stream s =
     and_then (lift_err (fetch cl ps repo stream observed (snd s)) s) (\<lambda>(response, since) s.
     and_then (normalize_items sha cl repo stream observed (pr_items response) s) (\<lambda>es s.
     and_then (on_db (record_batch sha (rr_id repo) (stream_name stream) es since (pr_etag response) observed) s)
       (\<lambda>b s. return (result_for_batch es b) s)))"

fun poll_streams ::
  "digest \<Rightarrow> source_client \<Rightarrow> poller_settings \<Rightarrow> repository_ref \<Rightarrow> string \<Rightarrow> stream list \<Rightarrow> poll_result \<Rightarrow>
   (poll_state, poll_result) op" where
  "poll_streams sha cl ps repo observed [] acc s = return acc s"
| "poll_streams sha cl ps repo observed (st # sts) acc s =
     and_then (poll_stream sha cl ps repo observed st s) (\<lambda>r.
       poll_streams sha cl ps repo observed sts (add_result acc r))"

definition poll_repository ::
  "digest \<Rightarrow> source_client \<Rightarrow> poller_settings \<Rightarrow> datetime \<Rightarrow> string \<Rightarrow> (db, poll_result) op" where
  "poll_repository sha cl ps now full_name d =
    (case sc_repository cl full_name of
       Inl e \<Rightarrow> raise e d
     | Inr repo \<Rightarrow>
         (case clock_text now of
            Inl e \<Rightarrow> raise e d
          | Inr observed \<Rightarrow>
              and_then (upsert_repository (rr_id repo) (rr_full_name repo) observed d) (\<lambda>_ d1.
                let (r, s) = poll_streams sha cl ps repo observed STREAMS (no_result\<lparr>po_repositories := 1\<rparr>) ([], d1)
                in (r, snd s))))"

fun poll :: "digest \<Rightarrow> source_client \<Rightarrow> poller_settings \<Rightarrow> datetime \<Rightarrow> string list \<Rightarrow> poll_result \<Rightarrow> (db, poll_result) op" where
  "poll sha cl ps now [] acc d = return acc d"
| "poll sha cl ps now (name # names) acc d =
     and_then (poll_repository sha cl ps now name d) (\<lambda>r. poll sha cl ps now names (add_result acc r))"

section \<open>Context of an event for a prompt\<close>

text \<open>\<open>format_source_context\<close> of \<open>github_models.py\<close>: the bounded provenance of a request.\<close>

definition shown :: "string \<Rightarrow> string option \<Rightarrow> string" where
  "shown dflt v = text_of (or_else v (Some dflt))"

definition shown_line :: "int option \<Rightarrow> int option \<Rightarrow> string" where
  "shown_line a b =
    (if a \<noteq> None \<and> a \<noteq> Some 0 then show_int (the a)
     else if b \<noteq> None \<and> b \<noteq> Some 0 then show_int (the b) else ''(unknown)'')"

definition inline_review_lines :: "source_event \<Rightarrow> string \<Rightarrow> string option \<Rightarrow> string list" where
  "inline_review_lines e request current =
    (let a = ev_anchor e;
         ls = [''[GitHub PR #'' @ show_int (ev_subject e) @ '' inline review comment by '' @ shown ''unknown'' (ev_author e) @ '']'',
               ''File: '' @ shown ''(unknown)'' (an_path a),
               ''Lines: '' @ shown_line (an_start_line a) (an_line a) @ ''-'' @ shown_line (an_line a) (an_start_line a),
               ''Side: '' @ shown ''(unknown)'' (or_else (an_start_side a) (an_side a)),
               ''Review anchor commit: '' @ shown ''(unknown)'' (an_commit a),
               ''Original anchor commit: '' @ shown ''(unknown)'' (an_original_commit a),
               ''Immutable diff context:'',
               take 6000 (shown ''(not provided)'' (an_diff_hunk a)),
               ''User request:'',
               take 4000 request] @
              (case or_else current None of
                 None \<Rightarrow> []
               | Some c \<Rightarrow> [''Current repository context (supplemental):'', take 6000 c])
     in if or_else (an_original_commit a) None \<noteq> None \<and> an_commit a \<noteq> an_original_commit a
        then take 6 ls @ [''The review anchor may be outdated; do not assume the current line number is authoritative.''] @ drop 6 ls
        else ls)"

definition format_source_context :: "source_event \<Rightarrow> string \<Rightarrow> string option \<Rightarrow> string" where
  "format_source_context e request current =
    (case ev_surface e of
       PR_INLINE_REVIEW \<Rightarrow> join newline (inline_review_lines e request current)
     | PR_REVIEW \<Rightarrow> join newline
         [''[GitHub PR #'' @ show_int (ev_subject e) @ '' submitted review by '' @ shown ''unknown'' (ev_author e) @ '']'',
          ''Review state: '' @ shown ''(unknown)'' (an_review_state (ev_anchor e)),
          ''Review anchor commit: '' @ shown ''(unknown)'' (an_commit (ev_anchor e)),
          ''User request:'', take 4000 request]
     | surface \<Rightarrow> ''[GitHub '' @ (if surface = ISSUE then ''issue'' else ''PR conversation'') @ '' #'' @
         show_int (ev_subject e) @ '' comment by '' @ shown ''unknown'' (ev_author e) @ '']'' @ newline @ take 4000 request)"

end
