(* ===== verification/Frames.thy ===== *)
theory Frames
  imports Prelude
begin

text \<open>
  What an operation leaves alone: a reflexive and transitive relation between the state before
  and after, kept by sequencing and by transactions. Components interpret it on the relations
  their operations keep.
\<close>

locale state_frame =
  fixes keeps :: "'s \<Rightarrow> 's \<Rightarrow> bool"
  assumes keeps_refl: "keeps s s"
    and keeps_trans: "keeps s t \<Longrightarrow> keeps t u \<Longrightarrow> keeps s u"
begin

lemma and_then_keeps:
  assumes "keeps s (snd r)" "\<And>x t. r = (Inr x, t) \<Longrightarrow> keeps t (snd (k x t))"
  shows "keeps s (snd (and_then r k))"
proof (cases r)
  case (Pair a t)
  then show ?thesis using assms by (cases a) (auto intro: keeps_trans)
qed

lemma commit_keeps:
  assumes "\<And>x t. r = Inr (x, t) \<Longrightarrow> keeps s t"
  shows "keeps s (snd (commit s r))"
  using assms by (cases r) (auto intro: keeps_refl)

lemma return_keeps: "keeps s (snd (return x s))" and raise_keeps: "keeps s (snd (raise e s))"
  by (simp_all add: keeps_refl)

end

text \<open>Lists that only grow at the end.\<close>

definition grows :: "'a list \<Rightarrow> 'a list \<Rightarrow> bool" where
  "grows xs ys = (\<exists>zs. ys = xs @ zs)"

lemma grows_refl [simp, intro]: "grows xs xs"
  by (simp add: grows_def)

lemma grows_append [simp, intro]: "grows xs (xs @ ys)"
  by (simp add: grows_def)

lemma grows_trans [trans]: "grows xs ys \<Longrightarrow> grows ys zs \<Longrightarrow> grows xs zs"
  by (auto simp: grows_def)

lemma grows_subset: "grows xs ys \<Longrightarrow> set xs \<subseteq> set ys"
  by (auto simp: grows_def)

lemma grows_lookup: "grows xs ys \<Longrightarrow> lookup key k xs = Some r \<Longrightarrow> lookup key k ys = Some r"
  by (auto simp: grows_def table_simps)

end
