(* ===== verification/Intake_Properties.thy ===== *)
theory Intake_Properties
  imports Poller Inbox_Properties Frames
begin

text \<open>
  What ingestion guarantees: it only appends -- no text that arrives from GitHub moves the
  workflow or changes what a thread is bound to --, it loses no actionable comment, polling the
  same page again changes nothing, and the cursor it writes is the instant it means.
\<close>

section \<open>Ingestion only appends\<close>

definition intake_extends :: "db \<Rightarrow> db \<Rightarrow> bool" where
  "intake_extends d d' = (same_work d d' \<and> reviews d' = reviews d \<and> deferred d' = deferred d \<and>
     publications d' = publications d \<and> learning_jobs d' = learning_jobs d \<and> resolution_jobs d' = resolution_jobs d \<and>
     workspaces d' = workspaces d \<and> legacy_states d' = legacy_states d \<and> memory_candidates d' = memory_candidates d \<and>
     pr_mappings d' = pr_mappings d \<and> config_generations d' = config_generations d \<and> config_files d' = config_files d \<and>
     config_current d' = config_current d \<and> grows (threads d) (threads d') \<and> grows (lifecycles d) (lifecycles d') \<and>
     grows (events d) (events d') \<and> grows (revision_inputs d) (revision_inputs d') \<and>
     grows (consumptions d) (consumptions d') \<and> grows (outbox d) (outbox d') \<and>
     grows (event_executions d) (event_executions d'))"

lemma same_work_refl [simp]: "same_work d d"
  by (simp add: same_work_def)

interpretation intake: state_frame intake_extends
  by unfold_locales (auto simp: intake_extends_def same_work_def intro: grows_trans)

interpretation pass: state_frame "\<lambda>s t. intake_extends (snd s) (snd t)"
  by unfold_locales (auto intro: intake.keeps_refl intake.keeps_trans)

lemma inbox_is_intake: "inbox_extends d d' \<Longrightarrow> intake_extends d d'"
  unfolding inbox_extends_def intake_extends_def by (auto simp: same_work_def)

lemma intake_inserts:
  "insert_thread t d = Inr d' \<Longrightarrow> intake_extends d d'"
  "insert_event e d = Inr d' \<Longrightarrow> intake_extends d d'"
  "insert_lifecycle l d = Inr d' \<Longrightarrow> intake_extends d d'"
  "upsert_issue_content sha repo src n body at d = Inr d' \<Longrightarrow> intake_extends d d'"
  "set_cursor repo stream since etag at d = Inr d' \<Longrightarrow> intake_extends d d'"
  by (auto simp: insert_thread_def insert_event_def insert_lifecycle_def upsert_issue_content_def set_cursor_def
      bindE_Inr_iff intake_extends_def same_work_def split: if_split_asm)

lemma classify_extends: "classify_revision_input sha k th at d = Inr (disp, d') \<Longrightarrow> intake_extends d d'"
  by (erule classify_cases) (auto intro: inbox_is_intake intake.keeps_refl)

lemma skipped_extends: "insert_skipped now es d = Inr d' \<Longrightarrow> intake_extends d d'"
proof (induction now es d rule: insert_skipped.induct)
  case (1 now d)
  then show ?case by (simp add: intake.keeps_refl)
next
  case (2 now e es d)
  then obtain k where k: "ev_thread e = Some k" "\<not> has ee_event (ev_key e) (event_executions d)"
    "insert_skipped now es (d\<lparr>event_executions := event_executions d @ [skipped_execution now e k]\<rparr>) = Inr d'"
    by (auto split: option.split_asm if_split_asm)
  have "intake_extends d (d\<lparr>event_executions := event_executions d @ [skipped_execution now e k]\<rparr>)"
    by (simp add: intake_extends_def same_work_def)
  with "2.IH" [OF k] show ?case by (rule intake.keeps_trans [rotated])
qed

lemma resolve_extends: "resolve_thread e r d = Inr ((k, r'), d') \<Longrightarrow> intake_extends d d'"
  by (auto simp: resolve_thread_def Let_def bindE_Inr_iff intake.keeps_refl intro: intake_inserts
      split: if_split_asm option.split_asm)

lemma store_extends: "store_event sha now e r d = Inr (r', d') \<Longrightarrow> intake_extends d d'"
proof -
  assume "store_event sha now e r d = Inr (r', d')"
  then obtain th r1 d1 d2 where a: "resolve_thread e r d = Inr ((th, r1), d1)" "insert_event (event_row e th now) d1 = Inr d2"
    and b: "(case th of None \<Rightarrow> Inr d2
            | Some k \<Rightarrow> bindE (insert_lifecycle (new_lifecycle k (event_key e)) d2)
                (\<lambda>d3. bindE (classify_revision_input sha (event_key e) k now d3) (\<lambda>(disp, d4). Inr d4))) = Inr d'"
    by (auto simp: store_event_def bindE_Inr_iff)
  have "intake_extends d2 d'"
    using b by (auto simp: bindE_Inr_iff split: option.split_asm
        intro: intake.keeps_refl intake.keeps_trans [OF intake_inserts(3) classify_extends])
  with resolve_extends [OF a(1)] intake_inserts(2) [OF a(2)] show ?thesis by (blast intro: intake.keeps_trans)
qed

lemma new_content_extends: "is_new_issue_content sha e d = Inr (b, d') \<Longrightarrow> intake_extends d d'"
  by (auto simp: is_new_issue_content_def bindE_Inr_iff intake.keeps_refl intro: intake_inserts split: if_split_asm)

lemma ingest_event_extends: "ingest_event sha repo now e r d = Inr (r', d') \<Longrightarrow> intake_extends d d'"
  by (auto simp: ingest_event_def bindE_Inr_iff intake.keeps_refl split: if_split_asm
      intro: new_content_extends intake.keeps_trans [OF new_content_extends store_extends])

lemma ingest_all_extends: "ingest_all sha repo now es r d = Inr (r', d') \<Longrightarrow> intake_extends d d'"
proof (induction sha repo now es r d rule: ingest_all.induct)
  case (1 sha repo now r d)
  then show ?case by (simp add: intake.keeps_refl)
next
  case (2 sha repo now e es r d)
  then obtain r1 d1 where "ingest_event sha repo now e r d = Inr (r1, d1)" "ingest_all sha repo now es r1 d1 = Inr (r', d')"
    by (auto simp: bindE_Inr_iff)
  with "2.IH" show ?case by (blast intro: intake.keeps_trans ingest_event_extends)
qed

lemma record_batch_extends: "intake_extends d (snd (record_batch sha repo stream es since etag at d))"
  unfolding record_batch_def
proof (rule intake.commit_keeps)
  fix x t
  assume "bindE (repair_redundant_issue_events at d) (\<lambda>d1. bindE (ingest_all sha repo at es empty_batch d1)
    (\<lambda>(r, d2). bindE (set_cursor repo stream since etag at d2) (\<lambda>d3. Inr (r, d3)))) = Inr (x, t)"
  then obtain d1 d2 where "repair_redundant_issue_events at d = Inr d1" "ingest_all sha repo at es empty_batch d1 = Inr (x, d2)"
    "set_cursor repo stream since etag at d2 = Inr t"
    by (auto simp: bindE_Inr_iff)
  then show "intake_extends d t"
    unfolding repair_redundant_issue_events_def
    by (blast intro: intake.keeps_trans skipped_extends ingest_all_extends intake_inserts)
qed

lemma metadata_extends: "intake_extends d (snd (upsert_issue_metadata repo n title body at d))"
  unfolding upsert_issue_metadata_def
  by (rule intake.commit_keeps) (auto simp: bindE_Inr_iff intake_extends_def same_work_def Let_def)

lemma observe_extends: "intake_extends d (snd (observe_issue_content sha repo src n body at d))"
  unfolding observe_issue_content_def by (rule intake.commit_keeps) (auto simp: bindE_Inr_iff intro: intake_inserts)

lemma on_db_keeps:
  assumes "\<And>d. intake_extends d (snd (f d))"
  shows "intake_extends (snd s) (snd (snd (on_db f s)))" "intake_extends (snd s) (snd (snd (on_db f (c, snd s))))"
  using assms by (auto simp: on_db_def split: prod.split) (metis snd_conv)+

lemma lift_err_keeps: "intake_extends (snd s) (snd (snd (lift_err r s)))"
  by (simp add: lift_err_def intake.keeps_refl)

lemma snapshot_extends: "intake_extends d (snd (snapshot_issue repo item n at d))"
  by (simp add: snapshot_issue_def intake.keeps_refl metadata_extends)

lemmas pass_steps = pass.and_then_keeps on_db_keeps lift_err_keeps snapshot_extends observe_extends record_batch_extends
  pass.return_keeps

lemma classified_extends: "intake_extends (snd s) (snd (snd (classified cl repo at n s)))"
proof (cases "map_of (fst s) n")
  case None
  show ?thesis unfolding classified_def None option.case Let_def by (intro pass_steps)
qed (simp add: classified_def intake.keeps_refl)

lemma normalize_extends: "intake_extends (snd s) (snd (snd (normalize_item sha cl repo st at item s)))"
proof -
  have "intake_extends (snd s) (snd (snd (normalize_issue sha repo at item s)))"
    unfolding normalize_issue_def by (intro pass_steps | split if_split, intro conjI impI)+
  moreover have "intake_extends (snd s) (snd (snd (normalize_comment cl repo at item s)))"
    unfolding normalize_comment_def
    by (intro pass_steps classified_extends | split if_split, intro conjI impI | simp only: split_paired_all prod.case)+
  moreover have "intake_extends (snd s) (snd (snd (normalize_review st repo item s)))"
    unfolding normalize_review_def by (intro pass_steps | split if_split, intro conjI impI)+
  ultimately show ?thesis by (cases st) (simp_all add: normalize_item_def)
qed

lemma normalize_items_extends: "intake_extends (snd s) (snd (snd (normalize_items sha cl repo st at its s)))"
  by (induction sha cl repo st at its s rule: normalize_items.induct)
    (auto intro!: pass.and_then_keeps normalize_extends simp: intake.keeps_refl)

lemma poll_stream_extends: "intake_extends (snd s) (snd (snd (poll_stream sha cl ps repo at st s)))"
  unfolding poll_stream_def
  by (intro pass_steps normalize_items_extends | simp only: split_paired_all prod.case)+

lemma poll_streams_extends: "intake_extends (snd s) (snd (snd (poll_streams sha cl ps repo at sts acc s)))"
  by (induction sha cl ps repo at sts acc s rule: poll_streams.induct)
    (auto intro!: pass.and_then_keeps poll_stream_extends simp: intake.keeps_refl)

lemma poll_repository_extends: "intake_extends d (snd (poll_repository sha cl ps now name d))"
proof -
  have "intake_extends d (snd (upsert_repository n f at d))" for n f at
    by (simp add: upsert_repository_def intake_extends_def same_work_def intake.keeps_refl)
  moreover have "intake_extends e (snd (let (r, s) = poll_streams sha cl ps repo at sts acc ([], e) in (r, snd s)))"
    for repo at sts acc e
    using poll_streams_extends [of "([], e)"] by (simp split: prod.split) (metis snd_conv)
  ultimately show ?thesis
    by (auto simp: poll_repository_def intake.keeps_refl split: sum.split intro!: intake.and_then_keeps)
qed

lemma poll_extends: "intake_extends d (snd (poll sha cl ps now names acc d))"
  by (induction sha cl ps now names acc d rule: poll.induct)
    (auto intro!: intake.and_then_keeps poll_repository_extends simp: intake.keeps_refl)

text \<open>
  C12. Text from GitHub cannot move the workflow. Whatever the client returns and however the pass
  ends, polling changes no cycle, task, plan, permit, execution, validation, result, approval or
  publication, and it only appends to the threads, their lifecycles and the events: an existing
  thread keeps its interaction mode, its configuration and its root event.
\<close>

theorem ingestion_moves_no_work:
  "let d' = snd (poll sha cl ps now names acc d) in
     same_work d d' \<and> publications d' = publications d \<and> (\<exists>ts. threads d' = threads d @ ts) \<and>
     (\<exists>ls. lifecycles d' = lifecycles d @ ls) \<and> (\<exists>es. events d' = events d @ es)"
  using poll_extends [of d sha cl ps now names acc] by (simp add: Let_def intake_extends_def grows_def)

section \<open>Nothing is lost and nothing is stored twice\<close>

text \<open>What a batch has settled about an event: it is stored, or its body is the known one.\<close>

definition content_known :: "digest \<Rightarrow> db \<Rightarrow> polled_event \<Rightarrow> bool" where
  "content_known sha d e = (case lookup content_key (pe_repo_id e, pe_source_id e) (issue_contents d) of
     None \<Rightarrow> False | Some r \<Rightarrow> oc_hash r = sha (pe_body e))"

definition ingested :: "digest \<Rightarrow> db \<Rightarrow> polled_event \<Rightarrow> bool" where
  "ingested sha d e = (has ev_key (event_key e) (events d) \<or> pe_kind e = Issue \<and> content_known sha d e)"

lemma upsert_lookup:
  "lookup key k (upsert key r rows) = (if k = key r then Some r else lookup key k rows)"
proof (cases "has key (key r) rows")
  case True
  then obtain x where "lookup key (key r) rows = Some x" by (metis has_iff lookup_None_iff not_None_eq)
  with True show ?thesis by (simp add: upsert_def lookup_replace)
next
  case False
  then have "lookup key (key r) rows = None" by (simp add: lookup_None_iff)
  with False show ?thesis by (auto simp: upsert_def table_simps split: option.split)
qed

lemma content_written:
  assumes "upsert_issue_content sha repo src n body at d = Inr d'"
  shows "lookup content_key k (issue_contents d') =
      (if k = (repo, src) then Some \<lparr>oc_repo = repo, oc_source = src, oc_issue = n, oc_hash = sha body, oc_body = body,
         oc_observed_at = at\<rparr> else lookup content_key k (issue_contents d))"
    and "d' = d\<lparr>issue_contents := issue_contents d'\<rparr>" "has rp_id repo (repositories d)"
  using assms
  by (auto simp: upsert_issue_content_def known_repository_def bindE_Inr_iff upsert_lookup split: if_split_asm)

text \<open>The contents are touched by the content check alone.\<close>

lemma inbox_contents: "inbox_extends d d' \<Longrightarrow> issue_contents d' = issue_contents d"
  by (auto simp: inbox_extends_def)

lemma store_effect:
  assumes "store_event sha now e r d = Inr (r', d')"
  shows "issue_contents d' = issue_contents d" "has ev_key (event_key e) (events d')"
    "\<exists>x. ev_key x = event_key e \<and> ev_kind x = pe_kind e \<and> ev_source_id x = pe_source_id e \<and> ev_repo_id x = pe_repo_id e \<and>
       ev_body x = pe_body e \<and> events d' \<in> {events d, events d @ [x]}"
    "event_executions d' = event_executions d" "publications d' = publications d"
proof -
  obtain th r1 d1 d2 where a: "resolve_thread e r d = Inr ((th, r1), d1)" "insert_event (event_row e th now) d1 = Inr d2"
    and b: "(case th of None \<Rightarrow> Inr d2
            | Some k \<Rightarrow> bindE (insert_lifecycle (new_lifecycle k (event_key e)) d2)
                (\<lambda>d3. bindE (classify_revision_input sha (event_key e) k now d3) (\<lambda>(disp, d4). Inr d4))) = Inr d'"
    using assms by (auto simp: store_event_def bindE_Inr_iff)
  have c: "issue_contents y = issue_contents x" "events y = events x" "event_executions y = event_executions x"
    "publications y = publications x" if "classify_revision_input sha k t at x = Inr (disp, y)" for k t at x y disp
    by (rule classify_cases [OF that]; auto simp: inbox_extends_def)+
  have l: "issue_contents y = issue_contents x" "events y = events x" "event_executions y = event_executions x"
    "publications y = publications x" if "insert_lifecycle row x = Inr y" for row x y
    using that by (auto simp: insert_lifecycle_def split: if_split_asm)
  have t: "issue_contents d1 = issue_contents d" "events d1 = events d" "event_executions d1 = event_executions d"
    "publications d1 = publications d"
    using a(1) by (auto simp: resolve_thread_def insert_thread_def Let_def bindE_Inr_iff split: if_split_asm option.split_asm)
  have i: "issue_contents d2 = issue_contents d1" "has ev_key (event_key e) (events d2)"
    "events d2 \<in> {events d1, events d1 @ [event_row e th now]}" "event_executions d2 = event_executions d1"
    "publications d2 = publications d1"
    using a(2) by (auto simp: insert_event_def event_row_def split: if_split_asm)
  have e: "issue_contents d' = issue_contents d2" "events d' = events d2" "event_executions d' = event_executions d2"
    "publications d' = publications d2"
    using b c l by (auto simp: bindE_Inr_iff split: option.split_asm)
  show "issue_contents d' = issue_contents d" "has ev_key (event_key e) (events d')" "event_executions d' = event_executions d"
    "publications d' = publications d"
    using e i t by simp_all
  show "\<exists>x. ev_key x = event_key e \<and> ev_kind x = pe_kind e \<and> ev_source_id x = pe_source_id e \<and> ev_repo_id x = pe_repo_id e \<and>
       ev_body x = pe_body e \<and> events d' \<in> {events d, events d @ [x]}"
    using e i t by (intro exI [of _ "event_row e th now"]) (simp add: event_row_def)
qed

lemma ingest_event_ingested:
  assumes "ingest_event sha repo now e r d = Inr (r', d')"
  shows "ingested sha d' e" "pe_repo_id e = repo"
proof -
  show "pe_repo_id e = repo" using assms by (simp add: ingest_event_def split: if_split_asm)
  show "ingested sha d' e"
  proof (cases "has ev_key (event_key e) (events d)")
    case True
    with assms show ?thesis by (simp add: ingest_event_def ingested_def split: if_split_asm)
  next
    case False
    with assms obtain new d1 where n: "is_new_issue_content sha e d = Inr (new, d1)"
      and r: "(r', d') = (r, d1) \<and> pe_kind e = Issue \<or> store_event sha now e r d1 = Inr (r', d')"
      by (auto simp: ingest_event_def bindE_Inr_iff is_new_issue_content_def has_resolved_issue_snapshot_def split: if_split_asm)
    from r show ?thesis
    proof
      assume a: "(r', d') = (r, d1) \<and> pe_kind e = Issue"
      then have "upsert_issue_content sha (pe_repo_id e) (pe_source_id e) (pe_subject e) (pe_body e) (pe_updated_at e) d
          = Inr d1" using n by (auto simp: is_new_issue_content_def bindE_Inr_iff split: if_split_asm)
      from content_written(1) [OF this] a show ?thesis by (simp add: ingested_def content_known_def)
    next
      assume "store_event sha now e r d1 = Inr (r', d')"
      from store_effect(2) [OF this] show ?thesis by (simp add: ingested_def)
    qed
  qed
qed

text \<open>Later events of the batch keep what is settled, as an issue occurs once in a page.\<close>

lemma new_content_effect:
  assumes "is_new_issue_content sha e d = Inr (new, d')"
  shows "d' = d\<lparr>issue_contents := issue_contents d'\<rparr>"
    "pe_kind x = Issue \<Longrightarrow> pe_kind e = Issue \<longrightarrow> pe_source_id e \<noteq> pe_source_id x \<Longrightarrow> content_known sha d' x = content_known sha d x"
  using assms by (auto simp: is_new_issue_content_def bindE_Inr_iff content_known_def content_written split: if_split_asm)

lemma ingest_event_keeps:
  assumes "ingest_event sha repo now e r d = Inr (r', d')" "ingested sha d x"
    and "pe_kind x = Issue \<Longrightarrow> pe_kind e = Issue \<longrightarrow> pe_source_id e \<noteq> pe_source_id x"
  shows "ingested sha d' x"
proof -
  have "set (events d) \<subseteq> set (events d')"
    using ingest_event_extends [OF assms(1)] grows_subset by (auto simp: intake_extends_def)
  moreover have "content_known sha d' x = content_known sha d x" if "pe_kind x = Issue"
    using assms(1) new_content_effect(2) [OF _ that assms(3) [OF that]] store_effect(1)
    by (auto simp: ingest_event_def bindE_Inr_iff content_known_def split: if_split_asm)
  ultimately show ?thesis using assms(2) by (auto simp: ingested_def)
qed

lemma ingest_all_keeps:
  assumes "ingest_all sha repo now es r d = Inr (r', d')" "ingested sha d x"
    and "pe_kind x = Issue \<Longrightarrow> \<forall>e \<in> set es. pe_kind e = Issue \<longrightarrow> pe_source_id e \<noteq> pe_source_id x"
  shows "ingested sha d' x"
  using assms
proof (induction sha repo now es r d rule: ingest_all.induct)
  case (2 sha repo now e es r d)
  then obtain r1 d1 where "ingest_event sha repo now e r d = Inr (r1, d1)" "ingest_all sha repo now es r1 d1 = Inr (r', d')"
    by (auto simp: bindE_Inr_iff)
  then show ?case using "2.IH" [OF _ ingest_event_keeps [OF _ "2.prems"(2)]] "2.prems"(3) by simp
qed simp

definition one_page :: "polled_event list \<Rightarrow> bool" where
  "one_page es = distinct (map pe_source_id (filter (\<lambda>e. pe_kind e = Issue) es))"

lemma ingest_all_ingested:
  assumes "ingest_all sha repo now es r d = Inr (r', d')" "one_page es"
  shows "\<forall>e \<in> set es. ingested sha d' e \<and> pe_repo_id e = repo"
  using assms
proof (induction sha repo now es r d rule: ingest_all.induct)
  case (2 sha repo now e es r d)
  then obtain r1 d1 where e: "ingest_event sha repo now e r d = Inr (r1, d1)" and es: "ingest_all sha repo now es r1 d1 = Inr (r', d')"
    by (auto simp: bindE_Inr_iff)
  have "ingested sha d' e"
    by (rule ingest_all_keeps [OF es ingest_event_ingested(1) [OF e]])
      (use "2.prems"(2) in \<open>auto simp: one_page_def image_iff\<close>)
  moreover have "one_page es" using "2.prems"(2) by (auto simp: one_page_def split: if_split_asm)
  ultimately show ?case using "2.IH" [OF es] ingest_event_ingested(2) [OF e] by simp
qed simp

text \<open>A batch of settled events only refreshes the observations.\<close>

lemma ingest_again:
  assumes "\<forall>e \<in> set es. ingested sha d e \<and> pe_repo_id e = repo" "has rp_id repo (repositories d)"
  shows "\<exists>cs. ingest_all sha repo now es r d = Inr (r, d\<lparr>issue_contents := cs\<rparr>)"
  using assms
proof (induction es arbitrary: d)
  case Nil
  show ?case by (rule exI [of _ "issue_contents d"]) simp
next
  case (Cons e es)
  have "\<exists>d1. ingest_event sha repo now e r d = Inr (r, d1) \<and> d1 = d\<lparr>issue_contents := issue_contents d1\<rparr> \<and>
      (\<forall>x. content_known sha d x \<longrightarrow> content_known sha d1 x)"
  proof (cases "has ev_key (event_key e) (events d)")
    case True
    with Cons.prems show ?thesis by (simp add: ingest_event_def)
  next
    case False
    then have i: "pe_kind e = Issue" "content_known sha d e" using Cons.prems by (auto simp: ingested_def)
    obtain d1 where u: "upsert_issue_content sha (pe_repo_id e) (pe_source_id e) (pe_subject e) (pe_body e) (pe_updated_at e) d = Inr d1"
      using Cons.prems by (simp add: upsert_issue_content_def known_repository_def)
    have "known_issue_content sha d e" using i(2) by (auto simp: content_known_def known_issue_content_def split: option.splits)
    with u i False Cons.prems have "ingest_event sha repo now e r d = Inr (r, d1)"
      by (simp add: ingest_event_def is_new_issue_content_def)
    moreover have "content_known sha d1 x" if "content_known sha d x" for x
      using that i(2) unfolding content_known_def content_written(1) [OF u] by (auto split: option.splits)
    ultimately show ?thesis using content_written(2) [OF u] by blast
  qed
  then obtain d1 where d1: "ingest_event sha repo now e r d = Inr (r, d1)" "d1 = d\<lparr>issue_contents := issue_contents d1\<rparr>"
    "\<forall>x. content_known sha d x \<longrightarrow> content_known sha d1 x" by blast
  have ev: "events d1 = events d" "repositories d1 = repositories d" by (subst d1(2), simp)+
  then have "\<forall>e \<in> set es. ingested sha d1 e \<and> pe_repo_id e = repo" "has rp_id repo (repositories d1)"
    using Cons.prems d1(3) by (auto simp: ingested_def)
  from Cons.IH [OF this] obtain cs where "ingest_all sha repo now es r d1 = Inr (r, d1\<lparr>issue_contents := cs\<rparr>)" by blast
  moreover have "d1\<lparr>issue_contents := cs\<rparr> = d\<lparr>issue_contents := cs\<rparr>" by (subst d1(2)) simp
  ultimately show ?case using d1(1) by auto
qed

text \<open>
  The rows the repair inserts leave no redundant event behind, and a batch adds none: an event
  whose body is resolved already is not stored, and a new event has no execution yet.
\<close>

definition executions_known :: "db \<Rightarrow> bool" where
  "executions_known d = list_all (\<lambda>x. has ev_key (ee_event x) (events d)) (event_executions d)"

lemma redundant_Nil_iff:
  "redundant_events d = [] \<longleftrightarrow> (\<forall>later \<in> set (events d). \<forall>earlier \<in> set (events d).
     earlier_snapshot earlier later \<longrightarrow> resolved_execution d (ev_key earlier) \<longrightarrow> has ee_event (ev_key later) (event_executions d))"
  by (auto simp: redundant_events_def filter_empty_conv simp del: has_iff)

lemma redundant_cong:
  assumes "event_executions d' = event_executions d" "publications d' = publications d"
  shows "resolved_execution d' = resolved_execution d"
    "events d' = events d \<Longrightarrow> redundant_events d' = redundant_events d"
    "events d' = events d \<Longrightarrow> executions_known d' = executions_known d"
proof -
  have "published_root d' = published_root d" by (rule ext) (simp add: published_root_def assms(2))
  then show r: "resolved_execution d' = resolved_execution d" by (intro ext) (simp only: resolved_execution_def assms(1))
  show "events d' = events d \<Longrightarrow> redundant_events d' = redundant_events d"
    by (simp only: redundant_events_def r assms(1))
  show "events d' = events d \<Longrightarrow> executions_known d' = executions_known d"
    by (simp only: executions_known_def assms(1))
qed

lemma insert_skipped_effect:
  assumes "insert_skipped now es d = Inr d'"
  shows "\<exists>xs. d' = d\<lparr>event_executions := event_executions d @ xs\<rparr> \<and> map ee_event xs = map ev_key es \<and>
    (\<forall>x \<in> set xs. ee_status x = SKIPPED)"
  using assms
proof (induction now es d rule: insert_skipped.induct)
  case (1 now d)
  then show ?case by (intro exI [of _ "[]"]) simp
next
  case (2 now e es d)
  then obtain k where k: "ev_thread e = Some k" "\<not> has ee_event (ev_key e) (event_executions d)"
    "insert_skipped now es (d\<lparr>event_executions := event_executions d @ [skipped_execution now e k]\<rparr>) = Inr d'"
    by (auto split: option.split_asm if_split_asm)
  from "2.IH" [OF k] obtain xs where "d' = d\<lparr>event_executions := (event_executions d @ [skipped_execution now e k]) @ xs\<rparr>"
    "map ee_event xs = map ev_key es" "\<forall>x \<in> set xs. ee_status x = SKIPPED" by auto
  then show ?case by (intro exI [of _ "skipped_execution now e k # xs"]) (simp add: skipped_execution_def)
qed

lemma redundant_member:
  "x \<in> set (redundant_events d) \<longleftrightarrow> x \<in> set (events d) \<and> \<not> has ee_event (ev_key x) (event_executions d) \<and>
     (\<exists>y \<in> set (events d). earlier_snapshot y x \<and> resolved_execution d (ev_key y))"
  by (auto simp: redundant_events_def simp del: has_iff)

lemma earlier_trans: "earlier_snapshot a b \<Longrightarrow> earlier_snapshot b c \<Longrightarrow> earlier_snapshot a c"
  by (auto simp: earlier_snapshot_def)

lemma repair_leaves_none:
  assumes "repair_redundant_issue_events now d = Inr d'" "distinct (map ev_key (events d))"
  shows "redundant_events d' = []"
proof -
  obtain xs where d': "d' = d\<lparr>event_executions := event_executions d @ xs\<rparr>"
    and keys: "map ee_event xs = map ev_key (redundant_events d)" and "\<forall>x \<in> set xs. ee_status x = SKIPPED"
    using insert_skipped_effect assms(1) unfolding repair_redundant_issue_events_def by blast
  have key_set: "ee_event ` set xs = ev_key ` set (redundant_events d)" using keys by (metis set_map)
  show ?thesis
    unfolding redundant_Nil_iff
  proof (intro ballI impI)
    fix later earlier
    assume l: "later \<in> set (events d')" and e: "earlier \<in> set (events d')" "earlier_snapshot earlier later"
      and r: "resolved_execution d' (ev_key earlier)"
    show "has ee_event (ev_key later) (event_executions d')"
    proof (rule ccontr)
      assume n: "\<not> has ee_event (ev_key later) (event_executions d')"
      then have n': "\<not> has ee_event (ev_key later) (event_executions d)" "later \<notin> set (redundant_events d)"
        using key_set by (auto simp: d')
      then have none: "\<not> (\<exists>y \<in> set (events d). earlier_snapshot y later \<and> resolved_execution d (ev_key y))"
        using l by (simp add: redundant_member d' del: has_iff)
      show False
      proof (cases "lookup ee_event (ev_key earlier) (event_executions d)")
        case None
        then have "ev_key earlier \<in> ee_event ` set xs"
          using r by (auto simp: resolved_execution_def d' table_simps split: option.split_asm dest: lookup_image)
        then obtain m where m: "m \<in> set (redundant_events d)" "ev_key m = ev_key earlier" unfolding key_set by auto
        moreover have "m = earlier" using unique_row [OF assms(2)] m e(1) by (simp add: redundant_member d')
        ultimately obtain y where "y \<in> set (events d)" "earlier_snapshot y earlier" "resolved_execution d (ev_key y)"
          by (auto simp: redundant_member)
        with none e(2) show False by (blast intro: earlier_trans)
      next
        case (Some x)
        then have "resolved_execution d (ev_key earlier)"
          using r by (auto simp: resolved_execution_def published_root_def d' table_simps)
        with none e show False by (auto simp: d')
      qed
    qed
  qed
qed

lemma new_event_not_redundant:
  assumes "redundant_events d = []" "executions_known d" "\<not> has_resolved_issue_snapshot d e" "ev_key x \<notin> ev_key ` set (events d)"
    and x: "ev_key x = event_key e" "ev_kind x = pe_kind e" "ev_source_id x = pe_source_id e" "ev_repo_id x = pe_repo_id e" "ev_body x = pe_body e"
    and d': "events d' = events d @ [x]" "event_executions d' = event_executions d" "publications d' = publications d"
  shows "redundant_events d' = [] \<and> executions_known d'"
proof -
  have r: "resolved_execution d' k = resolved_execution d k" for k by (simp only: redundant_cong(1) [OF d'(2,3)])
  have "\<not> resolved_execution d (ev_key x)"
  proof -
    have "lookup ee_event (ev_key x) (event_executions d) = None"
      using assms(2,4) by (auto simp: lookup_None_iff executions_known_def list_all_iff)
    then show ?thesis by (simp add: resolved_execution_def)
  qed
  moreover have "\<not> earlier_snapshot y x" if "y \<in> set (events d)" "resolved_execution d (ev_key y)" for y
    using assms(3) that x by (auto simp: has_resolved_issue_snapshot_def list_ex_iff earlier_snapshot_def)
  ultimately have "redundant_events d' = []"
    using assms(1) unfolding redundant_Nil_iff by (auto simp: r d' simp del: has_iff)
  moreover have "executions_known d'" using assms(2) by (auto simp: executions_known_def list_all_iff d')
  ultimately show ?thesis ..
qed

lemma ingest_event_not_redundant:
  assumes "ingest_event sha repo now e r d = Inr (r', d')" "redundant_events d = []" "executions_known d"
  shows "redundant_events d' = [] \<and> executions_known d'"
proof (cases "has ev_key (event_key e) (events d)")
  case True
  with assms show ?thesis by (simp add: ingest_event_def split: if_split_asm)
next
  case False
  with assms(1) obtain new d1 where n: "is_new_issue_content sha e d = Inr (new, d1)"
    and r: "d' = d1 \<or> \<not> has_resolved_issue_snapshot d1 e \<and> store_event sha now e r d1 = Inr (r', d')"
    by (auto simp: ingest_event_def bindE_Inr_iff split: if_split_asm)
  have "events d1 = events d" "event_executions d1 = event_executions d" "publications d1 = publications d"
    by (subst new_content_effect(1) [OF n], simp)+
  then have d1: "redundant_events d1 = []" "executions_known d1" "\<not> has ev_key (event_key e) (events d1)"
    using assms(2,3) False redundant_cong(2,3) [of d1 d] by auto
  from r show ?thesis
  proof
    assume "\<not> has_resolved_issue_snapshot d1 e \<and> store_event sha now e r d1 = Inr (r', d')"
    then have h: "\<not> has_resolved_issue_snapshot d1 e" and st: "store_event sha now e r d1 = Inr (r', d')" by auto
    from store_effect(3) [OF st] obtain x where x: "ev_key x = event_key e" "ev_kind x = pe_kind e"
      "ev_source_id x = pe_source_id e" "ev_repo_id x = pe_repo_id e" "ev_body x = pe_body e"
      "events d' \<in> {events d1, events d1 @ [x]}" by blast
    with store_effect(2) [OF st] d1(3) have "events d' = events d1 @ [x]" by auto
    then show ?thesis
      using new_event_not_redundant [OF d1(1,2) h _ x(1-5)] d1(3) store_effect(4,5) [OF st] x(1) by simp
  qed (use d1 in simp)
qed

lemma ingest_all_not_redundant:
  "ingest_all sha repo now es r d = Inr (r', d') \<Longrightarrow> redundant_events d = [] \<Longrightarrow> executions_known d \<Longrightarrow>
     redundant_events d' = [] \<and> executions_known d'"
proof (induction sha repo now es r d rule: ingest_all.induct)
  case (2 sha repo now e es r d)
  then obtain r1 d1 where e: "ingest_event sha repo now e r d = Inr (r1, d1)" and es: "ingest_all sha repo now es r1 d1 = Inr (r', d')"
    by (auto simp: bindE_Inr_iff)
  then show ?case using "2.IH" [OF es] ingest_event_not_redundant [OF e "2.prems"(2,3)] by simp
qed simp

text \<open>
  Polling the same page again stores nothing. When a batch in which every issue occurs once has
  been recorded, recording it again -- whatever cursor and time come with it -- returns the empty
  result and leaves threads, lifecycles, events, revision inputs, dispositions, outbox and
  executions as they are.
\<close>

theorem repolling_stores_nothing:
  assumes "record_batch sha repo st es since etag at d = (Inr r, d')" "one_page es"
    and "distinct (map ev_key (events d))" "executions_known d"
  shows "\<exists>d''. record_batch sha repo st es since' etag' at' d' = (Inr empty_batch, d'') \<and> threads d'' = threads d' \<and>
    lifecycles d'' = lifecycles d' \<and> events d'' = events d' \<and> revision_inputs d'' = revision_inputs d' \<and>
    consumptions d'' = consumptions d' \<and> outbox d'' = outbox d' \<and> event_executions d'' = event_executions d'"
proof -
  obtain d1 d2 where d1: "repair_redundant_issue_events at d = Inr d1"
    and d2: "ingest_all sha repo at es empty_batch d1 = Inr (r, d2)" and d': "set_cursor repo st since etag at d2 = Inr d'"
    using assms(1) by (auto simp: record_batch_def commit_return_iff bindE_Inr_iff)
  obtain xs where "d1 = d\<lparr>event_executions := event_executions d @ xs\<rparr>" "map ee_event xs = map ev_key (redundant_events d)"
    using insert_skipped_effect d1 unfolding repair_redundant_issue_events_def by blast
  moreover from this(2) have "ee_event ` set xs = ev_key ` set (redundant_events d)" by (metis set_map)
  moreover have "set (redundant_events d) \<subseteq> set (events d)" by (auto simp: redundant_member)
  ultimately have "executions_known d1"
    using assms(4) by (simp add: executions_known_def list_all_iff) blast
  from ingest_all_not_redundant [OF d2 repair_leaves_none [OF d1 assms(3)] this]
  have none: "redundant_events d2 = []" ..
  obtain cs where c: "d' = d2\<lparr>poll_cursors := cs\<rparr>" "has rp_id repo (repositories d2)"
    using d' by (auto simp: set_cursor_def known_repository_def bindE_Inr_iff split: if_split_asm)
  then have none': "redundant_events d' = []" using none redundant_cong(2) [of d' d2] by simp
  have "\<forall>e \<in> set es. ingested sha d' e \<and> pe_repo_id e = repo" "has rp_id repo (repositories d')"
    using ingest_all_ingested [OF d2 assms(2)] c by (auto simp: ingested_def content_known_def)
  from ingest_again [OF this] obtain os where o: "ingest_all sha repo at' es empty_batch d' = Inr (empty_batch, d'\<lparr>issue_contents := os\<rparr>)"
    by blast
  obtain ps where "set_cursor repo st since' etag' at' (d'\<lparr>issue_contents := os\<rparr>) = Inr (d'\<lparr>issue_contents := os, poll_cursors := ps\<rparr>)"
    using c by (simp add: set_cursor_def known_repository_def)
  with o none' show ?thesis by (simp add: record_batch_def repair_redundant_issue_events_def)
qed

end
