(* ===== verification/Poll_Properties.thy ===== *)
theory Poll_Properties
  imports Intake_Properties Example_Thread
begin

text \<open>
  Properties of a whole pass over a stream: every actionable comment of the page is stored, the
  cursor written is the instant it means, and pull requests keep their thread; and the concrete
  databases on which the properties of the ingestion are applied.
\<close>

section \<open>A first contact\<close>

definition observed_demo :: db where
  "observed_demo = demo_0\<lparr>threads := [], lifecycles := [], workspaces := []\<rparr>"

definition demo_item :: "int \<Rightarrow> string \<Rightarrow> string \<Rightarrow> gh_item" where
  "demo_item i at body = \<lparr>gi_id = i, gi_number = Some 7, gi_title = Some ''Crash'', gi_body = Some body,
     gi_updated_at = Some at, gi_created_at = Some at, gi_submitted_at = None, gi_pull_request = False,
     gi_labels = [Some ''bug'', Some ''Auto''], gi_user = Some ''u'', gi_issue_url = Some ''https://x/issues/7'',
     gi_pull_url = None, gi_reply_to = None, gi_anchor = no_anchor\<rparr>"

definition demo_client :: source_client where
  "demo_client = \<lparr>sc_repository = \<lambda>n. Inr \<lparr>rr_id = 1, rr_full_name = n, rr_default_branch = ''main''\<rparr>,
     sc_stream = \<lambda>st repo since etag. Inr \<lparr>pr_items =
         (if st = Issues then [demo_item 90 ''2024-01-01T00:01:00Z'' ''@agent build'']
          else if st = Issue_Comments then [demo_item 91 ''2024-01-01T00:02:00Z'' ''@agent use C'',
            demo_item 92 ''2024-01-01T00:03:00Z'' ''thanks''] else []),
       pr_etag = Some ''etag'', pr_not_modified = False\<rparr>,
     sc_issue = \<lambda>repo n. Inr (demo_item 90 ''2024-01-01T00:01:00Z'' ''@agent build'')\<rparr>"

definition demo_page :: poll_response where
  "demo_page = projr (sc_stream demo_client Issue_Comments \<lparr>rr_id = 1, rr_full_name = ''o/r'', rr_default_branch = ''main''\<rparr> [] None)"

definition demo_instants :: "int list" where
  "demo_instants = [63839750520000000, 63839750580000000]"

definition demo_repo :: repository_ref where
  "demo_repo = \<lparr>rr_id = 1, rr_full_name = ''o/r'', rr_default_branch = ''main''\<rparr>"

definition demo_polled :: "polled_event list" where
  "demo_polled = [\<lparr>pe_repo_id = 1, pe_repo_full_name = ''o/r'', pe_kind = Issue, pe_source_id = ''90'',
     pe_updated_at = ''2024-01-01T00:01:00Z'', pe_created_at = None, pe_subject_kind = Issue_Subject, pe_subject = 7,
     pe_author = Some ''u'', pe_body = ''@agent build'', pe_surface = ISSUE, pe_review_root = None,
     pe_anchor = no_anchor, pe_labels = []\<rparr>]"

lemma granted_pair: "\<not> isl q \<Longrightarrow> q = Inr (fst (projr q), snd (projr q))"
  by (cases q) auto

theorem repolling_stores_nothing_witness:
  "\<exists>d'. length (events d') = 1 \<and>
     fst (record_batch example_sha 1 ''issues'' demo_polled ''s2'' None ''t2'' d') = Inr empty_batch \<and>
     events (snd (record_batch example_sha 1 ''issues'' demo_polled ''s2'' None ''t2'' d')) = events d'"
proof -
  let ?f = "record_batch example_sha 1 ''issues'' demo_polled ''s1'' None ''t1'' observed_demo"
  have "\<not> isl (fst ?f)" by code_simp
  then have f: "?f = (Inr (projr (fst ?f)), snd ?f)" by (rule returned)
  have "one_page demo_polled" "distinct (map ev_key (events observed_demo))" "executions_known observed_demo"
    by (code_simp, code_simp, code_simp)
  from repolling_stores_nothing [OF f this, of "''s2''" None "''t2''"]
  obtain d'' where "record_batch example_sha 1 ''issues'' demo_polled ''s2'' None ''t2'' (snd ?f) = (Inr empty_batch, d'')"
    "events d'' = events (snd ?f)" by blast
  moreover have "length (events (snd ?f)) = 1" by code_simp
  ultimately show ?thesis by (intro exI [of _ "snd ?f"]) simp
qed

section \<open>No actionable comment is lost\<close>

text \<open>The key under which an item of a stream is stored.\<close>

fun comment_kind :: "stream \<Rightarrow> source_kind" where
  "comment_kind Issues = Issue"
| "comment_kind Issue_Comments = Issue_Comment"
| "comment_kind Review_Comments = Review_Comment"
| "comment_kind Pull_Request_Reviews = Pull_Request_Review"

definition item_key :: "repository_ref \<Rightarrow> stream \<Rightarrow> gh_item \<Rightarrow> string" where
  "item_key repo st item =
     join '':'' [show_int (rr_id repo), kind_value (comment_kind st), show_int (gi_id item), text_of (gi_updated_at item)]"

lemma polled_event_key:
  assumes "polled_event_of repo kind item subject n body surface ls = Inr e"
  shows "event_key e = join '':'' [show_int (rr_id repo), kind_value kind, show_int (gi_id item), text_of (gi_updated_at item)]"
    "pe_kind e = kind"
  using assms by (auto simp: polled_event_of_def required_def bindE_Inr_iff event_key_def text_of_def split: option.split_asm)

lemma lift_err_return: "lift_err r s = (Inr x, t) \<longleftrightarrow> r = Inr x \<and> t = s"
  by (auto simp: lift_err_def)

lemma normalize_item_comment:
  assumes "normalize_item sha cl repo st at item s = (Inr es, s')" "actionable_item st item" "st \<noteq> Issues"
  shows "\<exists>e \<in> set es. event_key e = item_key repo st item \<and> pe_kind e \<noteq> Issue"
proof (cases st)
  case Issue_Comments
  then show ?thesis
    using assms polled_event_key
    by (fastforce simp: normalize_item_def normalize_comment_def and_then_return_iff lift_err_return item_key_def)
next
  case Review_Comments
  then show ?thesis
    using assms polled_event_key
    by (fastforce simp: normalize_item_def normalize_review_def and_then_return_iff lift_err_return item_key_def)
next
  case Pull_Request_Reviews
  then show ?thesis
    using assms polled_event_key
    by (fastforce simp: normalize_item_def normalize_review_def and_then_return_iff lift_err_return item_key_def)
qed (use assms in simp)

lemma normalize_items_comment:
  assumes "normalize_items sha cl repo st at its s = (Inr es, s')" "item \<in> set its" "actionable_item st item" "st \<noteq> Issues"
  shows "\<exists>e \<in> set es. event_key e = item_key repo st item \<and> pe_kind e \<noteq> Issue"
  using assms(1,2)
proof (induction its arbitrary: s es s')
  case (Cons i its)
  then obtain es1 es2 s1 s2 where n: "normalize_item sha cl repo st at i s = (Inr es1, s1)"
    and m: "normalize_items sha cl repo st at its s1 = (Inr es2, s2)" and es: "es = es1 @ es2"
    by (auto simp: and_then_return_iff)
  show ?case
  proof (cases "item = i")
    case True
    with normalize_item_comment [OF n, of] assms(3,4) show ?thesis by (auto simp: es)
  next
    case False
    with Cons.prems Cons.IH [OF m] show ?thesis by (auto simp: es)
  qed
qed simp

lemma comment_stored:
  assumes "ingest_all sha repo now es r d = Inr (r', d')" "e \<in> set es" "pe_kind e \<noteq> Issue"
  shows "has ev_key (event_key e) (events d')"
  using assms(1,2)
proof (induction sha repo now es r d rule: ingest_all.induct)
  case (2 sha repo now x es r d)
  then obtain r1 d1 where x: "ingest_event sha repo now x r d = Inr (r1, d1)" and es: "ingest_all sha repo now es r1 d1 = Inr (r', d')"
    by (auto simp: bindE_Inr_iff)
  show ?case
  proof (cases "e \<in> set es")
    case True
    with "2.IH" [OF es] show ?thesis by simp
  next
    case False
    then have "x = e" using "2.prems"(2) by simp
    then have "ingested sha d1 e" using ingest_event_ingested(1) [OF x] by simp
    then have "has ev_key (event_key e) (events d1)" using assms(3) by (simp add: ingested_def)
    then show ?thesis using ingest_all_extends [OF es] grows_subset by (fastforce simp: intake_extends_def)
  qed
qed simp

text \<open>
  C13. No actionable comment is lost. When a pass over a comment stream returns, every comment of the
  page that starts with an invocation of the agent is stored under its key, wherever the thread
  stands in its workflow.
\<close>

theorem no_comment_is_lost:
  assumes "poll_stream sha cl ps repo at st s = (Inr r, s')" "fetch cl ps repo st at (snd s) = Inr (response, since)"
    and "item \<in> set (pr_items response)" "actionable_item st item" "st \<noteq> Issues"
  shows "has ev_key (item_key repo st item) (events (snd s'))"
proof -
  obtain es s1 b s2 where n: "normalize_items sha cl repo st at (pr_items response) s = (Inr es, s1)"
    and b: "on_db (record_batch sha (rr_id repo) (stream_name st) es since (pr_etag response) at) s1 = (Inr b, s')"
    using assms(1,2) by (auto simp: poll_stream_def and_then_return_iff lift_err_return)
  then have "record_batch sha (rr_id repo) (stream_name st) es since (pr_etag response) at (snd s1) = (Inr b, snd s')"
    by (auto simp: on_db_def split: prod.splits)
  then obtain d1 d2 where "ingest_all sha (rr_id repo) at es empty_batch d1 = Inr (b, d2)" "events (snd s') = events d2"
    by (auto simp: record_batch_def commit_return_iff bindE_Inr_iff set_cursor_def dest: sym)
  with normalize_items_comment [OF n assms(3-5)] comment_stored show ?thesis by metis
qed

theorem no_comment_is_lost_witness:
  "\<exists>s' :: poll_state. has ev_key (item_key demo_repo Issue_Comments (demo_item 91 ''2024-01-01T00:02:00Z'' ''@agent use C'')) (events (snd s'))"
proof -
  let ?s = "([] :: (int \<times> subject_kind) list, observed_demo)" and ?at = "''2024-01-01T00:05:00Z''"
  let ?f = "poll_stream example_sha demo_client default_settings demo_repo ?at Issue_Comments ?s"
    and ?q = "fetch demo_client default_settings demo_repo Issue_Comments ?at (snd ?s)"
  have "\<not> isl (fst ?f)" by code_simp
  then have f: "?f = (Inr (projr (fst ?f)), snd ?f)" by (rule returned)
  have "\<not> isl ?q" by code_simp
  then have q: "?q = Inr (fst (projr ?q), snd (projr ?q))" by (rule granted_pair)
  have m: "demo_item 91 ''2024-01-01T00:02:00Z'' ''@agent use C'' \<in> set (pr_items (fst (projr ?q)))"
    by code_simp
  have a: "actionable_item Issue_Comments (demo_item 91 ''2024-01-01T00:02:00Z'' ''@agent use C'')"
    by code_simp
  show ?thesis by (intro exI, rule no_comment_is_lost [OF f q m a]) (rule stream.distinct)
qed

section \<open>The cursor\<close>

lemma next_since_moves:
  assumes "next_since overlap since page = Inr (response, until)"
    and "\<not> pr_not_modified page" "instants_of (update_stamps (pr_items page)) = Inr ts" "ts \<noteq> []"
  shows "pr_items response = pr_items page" "pr_etag response = None" "until = utc_text (Max (set ts) - overlap)"
proof -
  have "pr_items page \<noteq> []" using assms(3,4) by (auto simp: update_stamps_def)
  with assms show "pr_items response = pr_items page" "pr_etag response = None" "until = utc_text (Max (set ts) - overlap)"
    by (auto simp: next_since_def)
qed

text \<open>
  The cursor a pass leaves behind is the instant it means. When the page carried time stamps, the
  stored \<open>since\<close> reads back as the latest of them less the overlap, and the entity tag is dropped: the
  next query asks again, unconditionally, for whatever changed in the last thirty seconds seen.
\<close>

theorem cursor_overlaps_last_page:
  assumes "poll_stream sha cl ps repo at st s = (Inr r, s')"
    and "fetch cl ps repo st at (snd s) = next_since (ps_overlap ps) since page"
    and "\<not> pr_not_modified page" "instants_of (update_stamps (pr_items page)) = Inr ts" "ts \<noteq> []"
    and "in_calendar (Max (set ts) - ps_overlap ps)"
  shows "\<exists>c. poll_cursor (snd s') (rr_id repo) (stream_name st) = Some c \<and> cu_etag c = None
    \<and> parse_timestamp (cu_since c) = Some (Aware (Max (set ts) - ps_overlap ps))"
proof -
  obtain response until es s1 b where q: "next_since (ps_overlap ps) since page = Inr (response, until)"
    and b: "on_db (record_batch sha (rr_id repo) (stream_name st) es until (pr_etag response) at) s1 = (Inr b, s')"
    using assms(1,2) by (auto simp: poll_stream_def and_then_return_iff lift_err_return)
  then have "record_batch sha (rr_id repo) (stream_name st) es until (pr_etag response) at (snd s1) = (Inr b, snd s')"
    by (auto simp: on_db_def split: prod.splits)
  then obtain d where "set_cursor (rr_id repo) (stream_name st) until (pr_etag response) at d = Inr (snd s')"
    by (auto simp: record_batch_def commit_return_iff bindE_Inr_iff dest: sym)
  then have "poll_cursor (snd s') (rr_id repo) (stream_name st) =
      Some \<lparr>cu_repo = rr_id repo, cu_stream = stream_name st, cu_since = until, cu_etag = pr_etag response, cu_polled_at = at\<rparr>"
    by (auto simp: set_cursor_def poll_cursor_def bindE_Inr_iff upsert_lookup dest: sym)
  then show ?thesis
    using next_since_moves [OF q assms(3-5)] utc_text_roundtrip [OF assms(6)] by simp
qed

theorem cursor_overlaps_last_page_witness:
  "\<exists>(s' :: poll_state) c. poll_cursor (snd s') (rr_id demo_repo) (stream_name Issue_Comments) = Some c \<and> cu_etag c = None
    \<and> parse_timestamp (cu_since c) = Some (Aware (Max (set demo_instants) - ps_overlap default_settings))"
proof -
  let ?s = "([] :: (int \<times> subject_kind) list, observed_demo)" and ?at = "''2024-01-01T00:05:00Z''"
  let ?f = "poll_stream example_sha demo_client default_settings demo_repo ?at Issue_Comments ?s"
    and ?q = "fetch demo_client default_settings demo_repo Issue_Comments ?at (snd ?s)"
  have "\<not> isl (fst ?f)" by code_simp
  then have f: "?f = (Inr (projr (fst ?f)), snd ?f)" by (rule returned)
  have q: "?q = next_since (ps_overlap default_settings) ''2023-12-31T23:55:00+00:00'' demo_page" by code_simp
  have n: "\<not> pr_not_modified demo_page" by code_simp
  have t: "instants_of (update_stamps (pr_items demo_page)) = Inr demo_instants" by code_simp
  have e: "demo_instants \<noteq> []" by (simp add: demo_instants_def)
  have c: "in_calendar (Max (set demo_instants) - ps_overlap default_settings)" by code_simp
  from cursor_overlaps_last_page [OF f q n t e c] show ?thesis by blast
qed

section \<open>Pull requests keep their thread\<close>

lemma adopt_leaves_none:
  assumes "e \<in> set (events (adopt_events repo_id number k d))"
  shows "\<not> (ev_repo_id e = repo_id \<and> ev_subject_kind e = Pull_Request \<and> ev_subject e = number \<and> ev_thread e = None)"
proof -
  let ?P = "\<lambda>x. ev_repo_id x = repo_id \<and> ev_subject_kind x = Pull_Request \<and> ev_subject x = number \<and> ev_thread x = None"
  obtain x where "e = (if ?P x then x\<lparr>ev_thread := Some k\<rparr> else x)"
    using assms by (simp add: adopt_events_def mem_update_where) blast
  then show ?thesis by (cases "?P x") simp_all
qed

lemma mapped_thread_events [simp]: "mapped_thread (d\<lparr>events := es\<rparr>) = mapped_thread d"
  by (simp add: mapped_thread_def fun_eq_iff)

lemma register_pr_mapping_cases:
  assumes "register_pr_mapping repo_id number k d = (Inr (), d')"
  shows "mapped_thread d repo_id number \<in> {None, Some k}"
    and "d' = adopt_events repo_id number k (if mapped_thread d repo_id number = None
      then d\<lparr>pr_mappings := pr_mappings d @ [\<lparr>mp_repo = repo_id, mp_number = number, mp_thread = k\<rparr>]\<rparr> else d)"
proof -
  have "mapped_thread d repo_id number \<in> {None, Some k} \<and> d' = adopt_events repo_id number k
      (if mapped_thread d repo_id number = None
       then d\<lparr>pr_mappings := pr_mappings d @ [\<lparr>mp_repo = repo_id, mp_number = number, mp_thread = k\<rparr>]\<rparr> else d)"
    using assms unfolding register_pr_mapping_def commit_return_iff
    by (cases "mapped_thread d repo_id number"; cases "map_option th_repo_id (thread_of d k) = Some repo_id")
      (simp_all add: bindE_Inr_iff split: if_split_asm)
  then show "mapped_thread d repo_id number \<in> {None, Some k}"
    and "d' = adopt_events repo_id number k (if mapped_thread d repo_id number = None
      then d\<lparr>pr_mappings := pr_mappings d @ [\<lparr>mp_repo = repo_id, mp_number = number, mp_thread = k\<rparr>]\<rparr> else d)"
    by auto
qed

lemma register_pr_mapping_maps:
  assumes "register_pr_mapping repo_id number k d = (Inr (), d')"
  shows "mapped_thread d' repo_id number = Some k" "publications d' = publications d"
  using register_pr_mapping_cases(1) [OF assms] unfolding register_pr_mapping_cases(2) [OF assms]
  by (auto simp: adopt_events_def mapped_thread_def lookup_append table_simps split: option.splits)

text \<open>
  A pull request keeps its thread. Once registered for a thread of its repository it is mapped to
  that thread, no stored comment of it is left without a thread, the mappings of the other pull
  requests are what they were, and a later registration for any other thread is refused and
  changes nothing.
\<close>

theorem pull_request_keeps_its_thread:
  assumes "register_pr_mapping repo_id number k d = (Inr (), d')"
  shows "mapped_thread d' repo_id number = Some k
    \<and> list_all (\<lambda>e. \<not> (ev_repo_id e = repo_id \<and> ev_subject_kind e = Pull_Request \<and> ev_subject e = number
        \<and> ev_thread e = None)) (events d')
    \<and> ((r, n) \<noteq> (repo_id, number) \<longrightarrow> mapped_thread d' r n = mapped_thread d r n)
    \<and> (k' \<noteq> k \<longrightarrow> (\<exists>m. register_pr_mapping repo_id number k' d' = (Inl (ValueError m), d')))"
proof (intro conjI impI)
  note r = register_pr_mapping_cases [OF assms]
  show m: "mapped_thread d' repo_id number = Some k"
    using assms by (rule register_pr_mapping_maps)
  show "list_all (\<lambda>e. \<not> (ev_repo_id e = repo_id \<and> ev_subject_kind e = Pull_Request \<and> ev_subject e = number
      \<and> ev_thread e = None)) (events d')"
    unfolding r(2) list_all_iff using adopt_leaves_none by blast
  show "mapped_thread d' r n = mapped_thread d r n" if "(r, n) \<noteq> (repo_id, number)"
    using that unfolding r(2)
    by (auto simp: adopt_events_def mapped_thread_def lookup_append table_simps split: option.splits)
  show "\<exists>m. register_pr_mapping repo_id number k' d' = (Inl (ValueError m), d')" if "k' \<noteq> k"
    using that by (simp add: register_pr_mapping_def m commit_def)
qed

theorem pull_request_keeps_its_thread_witness:
  "\<exists>d'. mapped_thread d' 1 12 = Some ''t'' \<and> (\<exists>m. register_pr_mapping 1 12 ''u'' d' = (Inl (ValueError m), d'))"
proof -
  let ?f = "register_pr_mapping 1 12 ''t'' demo_0"
  have "\<not> isl (fst ?f)" by code_simp
  then have f: "?f = (Inr (), snd ?f)" using returned [of ?f] by simp
  from pull_request_keeps_its_thread [OF f, of 1 12 "''u''"]
  show ?thesis by (intro exI [of _ "snd ?f"]) simp
qed

section \<open>Snapshots resolved twice\<close>

lemma skipped_fresh:
  "insert_skipped now es d = Inr d' \<Longrightarrow>
   distinct (map ev_key es) \<and> (\<forall>e \<in> set es. \<not> has ee_event (ev_key e) (event_executions d))"
proof (induction now es d rule: insert_skipped.induct)
  case (2 now e es d)
  then obtain k where k: "ev_thread e = Some k" "\<not> has ee_event (ev_key e) (event_executions d)"
    "insert_skipped now es (d\<lparr>event_executions := event_executions d @ [skipped_execution now e k]\<rparr>) = Inr d'"
    by (auto split: option.split_asm if_split_asm)
  from "2.IH" [OF k] k(2) show ?case by (auto simp: skipped_execution_def)
qed simp

lemma skipped_refusal:
  "insert_skipped now es d = Inl e \<Longrightarrow> e = IntegrityError ''event_executions''"
  by (induction now es d rule: insert_skipped.induct) (auto split: option.split_asm if_split_asm)

lemma filter_two:
  assumes "x \<in> set xs" "y \<in> set xs" "x \<noteq> y" "P x" "P y"
  shows "\<exists>a b zs. filter P xs = a # b # zs"
proof -
  have "x \<in> set (filter P xs)" "y \<in> set (filter P xs)" using assms by auto
  with assms(3) show ?thesis by (cases "filter P xs" rule: remdups_adj.cases) auto
qed

lemma redundant_twice:
  assumes "later \<in> set (events d)" "\<not> has ee_event (ev_key later) (event_executions d)"
    and "a \<in> set (events d)" "b \<in> set (events d)" "a \<noteq> b"
    and "earlier_snapshot a later" "resolved_execution d (ev_key a)"
    and "earlier_snapshot b later" "resolved_execution d (ev_key b)"
  shows "\<not> distinct (redundant_events d)"
proof -
  let ?before = "\<lambda>later. map (\<lambda>_. later) (filter (\<lambda>e. earlier_snapshot e later \<and> resolved_execution d (ev_key e)) (events d))"
  obtain x y zs where "filter (\<lambda>e. earlier_snapshot e later \<and> resolved_execution d (ev_key e)) (events d) = x # y # zs"
    using filter_two [OF assms(3,4,5), of "\<lambda>e. earlier_snapshot e later \<and> resolved_execution d (ev_key e)"] assms(6-9) by auto
  then have "\<not> distinct (?before later)" by simp
  moreover have "?before later \<in> set (map ?before (filter (\<lambda>l. \<not> has ee_event (ev_key l) (event_executions d)) (events d)))"
    using assms(1,2) by auto
  ultimately show ?thesis unfolding redundant_events_def distinct_concat_iff by blast
qed

text \<open>
  Two resolved snapshots stop the ingestion. When an issue event without an execution has two
  earlier events of the same body that are both resolved, the repair that opens every batch inserts
  its row twice: every pass over every stream fails with a constraint error, whatever the page
  brought, and leaves the database as it was, so the next pass fails the same way.
\<close>

theorem two_resolved_snapshots_stop_ingestion:
  assumes "later \<in> set (events d)" "\<not> has ee_event (ev_key later) (event_executions d)"
    and "a \<in> set (events d)" "b \<in> set (events d)" "a \<noteq> b"
    and "earlier_snapshot a later" "resolved_execution d (ev_key a)"
    and "earlier_snapshot b later" "resolved_execution d (ev_key b)"
  shows "record_batch sha repo_id stream es since etag now d = (Inl (IntegrityError ''event_executions''), d)"
proof (cases "insert_skipped now (redundant_events d) d")
  case (Inl e)
  then show ?thesis
    by (simp add: record_batch_def repair_redundant_issue_events_def skipped_refusal [OF Inl] commit_def)
next
  case (Inr d')
  from skipped_fresh [OF this] have "distinct (redundant_events d)" by (simp add: distinct_map)
  with redundant_twice [OF assms] show ?thesis by simp
qed

definition demo_snapshot :: "string \<Rightarrow> string \<Rightarrow> source_event" where
  "demo_snapshot key at = \<lparr>ev_key = key, ev_repo_id = 1, ev_repo_full_name = ''o/r'', ev_source_id = ''90'',
     ev_thread = Some ''t'', ev_kind = Issue, ev_updated_at = at, ev_created_at = None, ev_discovered_at = at,
     ev_surface = ISSUE, ev_subject_kind = Issue_Subject, ev_subject = 7, ev_author = Some ''u'',
     ev_body = ''@agent build'', ev_review_root = None, ev_anchor = no_anchor\<rparr>"

definition stuck_demo :: db where
  "stuck_demo = demo_0\<lparr>events := [demo_snapshot ''a'' ''2024-01-01'', demo_snapshot ''b'' ''2024-01-02'',
       demo_snapshot ''c'' ''2024-01-03''],
     event_executions := map (\<lambda>k. \<lparr>ee_event = k, ee_thread = ''t'', ee_status = SKIPPED, ee_attempts = 0,
       ee_started_at = ''2024-01-01'', ee_completed_at = Some ''2024-01-02'', ee_response = None, ee_error = None,
       ee_workspace = None\<rparr>) [''a'', ''b'']\<rparr>"

theorem two_resolved_snapshots_stop_ingestion_witness:
  "record_batch example_sha 1 ''issues'' [] ''s'' None ''t'' stuck_demo = (Inl (IntegrityError ''event_executions''), stuck_demo)"
proof -
  have e: "demo_snapshot ''c'' ''2024-01-03'' \<in> set (events stuck_demo)"
    "demo_snapshot ''a'' ''2024-01-01'' \<in> set (events stuck_demo)"
    "demo_snapshot ''b'' ''2024-01-02'' \<in> set (events stuck_demo)"
    by (simp_all add: stuck_demo_def)
  have n: "\<not> has ee_event (ev_key (demo_snapshot ''c'' ''2024-01-03'')) (event_executions stuck_demo)" by code_simp
  have d: "demo_snapshot ''a'' ''2024-01-01'' \<noteq> demo_snapshot ''b'' ''2024-01-02''" by (simp add: demo_snapshot_def)
  have "earlier_snapshot (demo_snapshot ''a'' ''2024-01-01'') (demo_snapshot ''c'' ''2024-01-03'')"
    "resolved_execution stuck_demo (ev_key (demo_snapshot ''a'' ''2024-01-01''))"
    "earlier_snapshot (demo_snapshot ''b'' ''2024-01-02'') (demo_snapshot ''c'' ''2024-01-03'')"
    "resolved_execution stuck_demo (ev_key (demo_snapshot ''b'' ''2024-01-02''))"
    by (code_simp, code_simp, code_simp, code_simp)
  from two_resolved_snapshots_stop_ingestion [OF e(1) n e(2,3) d this] show ?thesis .
qed

section \<open>A name that moves to another repository\<close>

text \<open>
  A repository that was replaced by another one of the same name is never polled again: the name is
  unique in the table, and the row that holds it is never released.
\<close>

lemma renamed_repository_is_refused:
  assumes "sc_repository cl name = Inr repo" "clock_text now = Inr at"
    and "r \<in> set (repositories d)" "rp_full_name r = rr_full_name repo" "rp_id r \<noteq> rr_id repo"
  shows "poll sha cl ps now (name # names) acc d = (Inl (IntegrityError ''repositories''), d)"
proof -
  have "list_ex (\<lambda>r. rp_full_name r = rr_full_name repo \<and> rp_id r \<noteq> rr_id repo) (repositories d)"
    using assms(3-5) by (auto simp: list_ex_iff)
  then show ?thesis by (simp add: poll_repository_def upsert_repository_def assms(1,2))
qed

end
