(* ===== verification/Publisher.thy ===== *)
theory Publisher
  imports Publishing Poller Delivery
begin

text \<open>
  The publisher of \<open>github_publisher.py\<close>: one publication is taken from the store, its branch is
  committed and pushed, its pull request and its comment are created, and every step is recorded
  before the next one. Git, the token provider and the GitHub API are the argument \<open>outside\<close>, a
  state \<open>'w\<close> of the world with the calls the code makes on it.
\<close>

section \<open>The world of the publisher\<close>

text \<open>A finished process, with its output decoded.\<close>

record git_result =
  gr_code :: int
  gr_out :: string
  gr_err :: string

record pull =
  pu_number :: int
  pu_url :: "string option"

text \<open>
  \<open>run_git\<close> runs \<open>git\<close> with arguments in a directory; \<open>run_git_auth\<close> the same with the credentials of a
  token in its environment; \<open>process_error\<close> is the text of a \<open>CalledProcessError\<close>. \<open>real_path\<close> is \<open>Path(...).expanduser().resolve()\<close>.
\<close>

record 'w outside = "'w client" +
  run_git :: "string \<Rightarrow> string list \<Rightarrow> 'w \<Rightarrow> git_result \<times> 'w"
  run_git_auth :: "string \<Rightarrow> string \<Rightarrow> string list \<Rightarrow> 'w \<Rightarrow> git_result \<times> 'w"
  process_error :: "string list \<Rightarrow> int \<Rightarrow> string"
  real_path :: "string \<Rightarrow> string"
  directory :: "'w \<Rightarrow> string \<Rightarrow> bool"
  remote_url :: "string \<Rightarrow> err + string"
  write_token :: "'w \<Rightarrow> string \<Rightarrow> err + string"
  repository_named :: "'w \<Rightarrow> string \<Rightarrow> err + repository_ref"
  pull_requests :: "'w \<Rightarrow> repository_ref \<Rightarrow> string \<Rightarrow> string \<Rightarrow> err + pull list"
  create_pull_request :: "repository_ref \<Rightarrow> string \<Rightarrow> string \<Rightarrow> string \<Rightarrow> string \<Rightarrow> ('w, pull) op"

record publisher_settings =
  gs_name :: string
  gs_email :: string

section \<open>Git\<close>

abbreviation git_error :: "string \<Rightarrow> string" where
  "git_error e \<equiv> (if strip e = [] then ''unknown error'' else strip e)"

definition git :: "'w outside \<Rightarrow> string \<Rightarrow> string list \<Rightarrow> ('w, string) op" where
  "git out path args w =
    (let (r, w1) = run_git out path args w
     in if gr_code r \<noteq> 0 then raise (WorkspaceError (''git operation failed: '' @ git_error (gr_err r))) w1
        else return (strip (gr_out r)) w1)"

text \<open>\<open>text.replace(token, "[REDACTED]")\<close>, from the left and without overlaps.\<close>

fun replace_all :: "nat \<Rightarrow> string \<Rightarrow> string \<Rightarrow> string \<Rightarrow> string" where
  "replace_all 0 old new s = s"
| "replace_all (Suc n) old new [] = []"
| "replace_all (Suc n) old new (c # cs) =
    (if old \<noteq> [] \<and> starts_with (c # cs) old then new @ replace_all n old new (drop (length old) (c # cs))
     else c # replace_all n old new cs)"

definition redacted :: "string \<Rightarrow> string \<Rightarrow> string" where
  "redacted token s = replace_all (length s) token ''[REDACTED]'' s"

definition git_with_auth :: "'w outside \<Rightarrow> string \<Rightarrow> string \<Rightarrow> string list \<Rightarrow> ('w, string) op" where
  "git_with_auth out path token args w =
    (let (r, w1) = run_git_auth out path token args w
     in if gr_code r \<noteq> 0
        then raise (WorkspaceError (''git remote operation failed: '' @ git_error (redacted token (gr_err r)))) w1
        else return (strip (gr_out r)) w1)"

text \<open>\<open>subprocess.run(..., check=True)\<close>.\<close>

definition git_checked :: "'w outside \<Rightarrow> string \<Rightarrow> string list \<Rightarrow> ('w, string) op" where
  "git_checked out path args w =
    (let (r, w1) = run_git out path args w
     in if gr_code r \<noteq> 0
        then raise (Other_Error ''CalledProcessError'' (process_error out (''git'' # args) (gr_code r))) w1
        else return (gr_out r) w1)"

definition verify_workspace :: "'w outside \<Rightarrow> string \<Rightarrow> string \<Rightarrow> string \<Rightarrow> ('w, unit) op" where
  "verify_workspace out path branch base w =
     and_then (git out path [''branch'', ''--show-current''] w) (\<lambda>current w.
       if current \<noteq> branch then raise (WorkspaceError ''workspace branch does not match persisted metadata'') w
       else and_then (git out path [''merge-base'', ''--is-ancestor'', base, ''HEAD''] w) (\<lambda>_ w. return () w))"

abbreviation zero_byte :: char where
  "zero_byte \<equiv> CHR 0x00"

text \<open>The names of a diff, then those of the untracked files, sorted and without duplicates.\<close>

definition untracked :: "string \<Rightarrow> string list" where
  "untracked status = concat (map (\<lambda>i. if 3 \<le> length i \<and> take 2 i = ''??'' then [drop 3 i] else [])
     (butlast (split_on zero_byte status)))"

definition changed_files :: "'w outside \<Rightarrow> string \<Rightarrow> string \<Rightarrow> ('w, string list) op" where
  "changed_files out path base w =
     and_then (git_checked out path [''diff'', ''--name-only'', ''-z'', ''--find-renames'', base, ''--''] w) (\<lambda>diff w.
     and_then (git_checked out path [''status'', ''--porcelain=v1'', ''-z'', ''--untracked-files=all''] w) (\<lambda>status w.
       return (sort (remdups (filter (\<lambda>i. i \<noteq> []) (split_on zero_byte diff) @ untracked status))) w))"

section \<open>Paths that may be published\<close>

definition FORBIDDEN :: "string list" where
  "FORBIDDEN = [''.env'', ''.pem'', ''.key'', ''.sqlite'', ''.db'']"

definition is_absolute :: "string \<Rightarrow> bool" where
  "is_absolute path = starts_with path ''/''"

definition path_name :: "string \<Rightarrow> string" where
  "path_name path = (case rev (posix_parts path) of [] \<Rightarrow> [] | p # ps \<Rightarrow> p)"

text \<open>\<open>PurePath.suffix\<close>: from the last dot, which is neither the first nor the last character.\<close>

definition path_suffix :: "string \<Rightarrow> string" where
  "path_suffix path =
    (let name = path_name path; ext = takeWhile (\<lambda>c. c \<noteq> CHR ''.'') (rev name); stem = drop (length ext) (rev name)
     in if 2 \<le> length stem \<and> ext \<noteq> [] then CHR ''.'' # rev ext else [])"

definition unsafe_path :: "string \<Rightarrow> bool" where
  "unsafe_path path = (is_absolute path \<or> list_ex (\<lambda>p. p = ''..'' \<or> p = ''.sweforge'') (posix_parts path))"

definition credential_path :: "string \<Rightarrow> bool" where
  "credential_path path = (path_name path \<in> set FORBIDDEN \<or> path_suffix path \<in> set FORBIDDEN)"

fun validate_paths :: "string list \<Rightarrow> err + unit" where
  "validate_paths [] = Inr ()"
| "validate_paths (p # ps) =
    (if unsafe_path p then Inl (WorkspaceError (''refusing unsafe publication path: '' @ p))
     else if credential_path p then Inl (WorkspaceError (''refusing credential or runtime artifact: '' @ p))
     else validate_paths ps)"

section \<open>Push\<close>

definition branch_ref :: "string \<Rightarrow> string" where
  "branch_ref branch = ''refs/heads/'' @ branch"

text \<open>\<open>result.split()[0]\<close>\<close>

definition first_word :: "string \<Rightarrow> string" where
  "first_word s = takeWhile (\<lambda>c. \<not> is_space c) (dropWhile is_space s)"

definition remote_head :: "'w outside \<Rightarrow> string \<Rightarrow> string \<Rightarrow> string \<Rightarrow> string \<Rightarrow> ('w, string) op" where
  "remote_head out path remote branch token w =
     git_with_auth out path token [''ls-remote'', ''--heads'', remote, branch_ref branch] w"

definition push_branch ::
  "'w outside \<Rightarrow> string \<Rightarrow> string \<Rightarrow> string \<Rightarrow> string \<Rightarrow> string \<Rightarrow> ('w, string) op" where
  "push_branch out path remote branch local_sha token w =
     and_then (remote_head out path remote branch token w) (\<lambda>listed w.
       let remote_sha = first_word listed in
       if remote_sha = local_sha then return remote_sha w
       else
         let (r, w1) = (if remote_sha = [] then (\<lparr>gr_code = 0, gr_out = [], gr_err = []\<rparr>, w)
               else run_git out path [''merge-base'', ''--is-ancestor'', remote_sha, local_sha] w)
         in if gr_code r \<noteq> 0
            then raise (WorkspaceError ''remote IssueThread branch has diverged; refusing to force-push'') w1
            else and_then (git_with_auth out path token
                   [''push'', remote, branch_ref branch @ '':'' @ branch_ref branch] w1) (\<lambda>_ w.
              and_then (remote_head out path remote branch token w) (\<lambda>listed w.
                if blank listed then raise (Other_Error ''IndexError'' ''list index out of range'') w
                else return (first_word listed) w)))"

section \<open>The recorded row\<close>

record 'w stage =
  world :: 'w
  store :: db

definition in_world :: "('w, 'a) op \<Rightarrow> ('w stage, 'a) op" where
  "in_world f s = (let (r, w) = f (world s) in (r, s\<lparr>world := w\<rparr>))"

definition in_store :: "(db, 'a) op \<Rightarrow> ('w stage, 'a) op" where
  "in_store f s = (let (r, d) = f (store s) in (r, s\<lparr>store := d\<rparr>))"

definition on_error :: "err + 'a \<Rightarrow> ('s, 'a) op" where
  "on_error r s = (r, s)"

text \<open>\<open>publication = self.store.update_publication(...)\<close>: the row as it is now.\<close>

definition record_step ::
  "string \<Rightarrow> publication_status \<Rightarrow> publication_field list \<Rightarrow> ('w stage, publication_row) op" where
  "record_step k status assigned s =
     and_then (in_store (update_publication k status assigned) s) (\<lambda>r s.
       case r of Some p \<Rightarrow> return p s | None \<Rightarrow> raise (ValueError ''publication does not exist'') s)"

section \<open>What is published\<close>

text \<open>\<open>declarative_publication_summary\<close>: the accepted summaries of the lifecycle, bounded.\<close>

definition summary_block :: "cycle_row \<Rightarrow> task_row \<Rightarrow> execution_row \<Rightarrow> string" where
  "summary_block c t x =
    (if cy_kind c = INITIAL then ''### '' @ tr_task t @ newline @ ex_summary x
     else ''### revision '' @ (case cy_revision_sequence c of None \<Rightarrow> ''None'' | Some n \<Rightarrow> show_nat n) @ newline @ ex_summary x)"

definition summary_rows :: "db \<Rightarrow> string \<Rightarrow> nat \<Rightarrow> (cycle_row \<times> task_row \<times> execution_row) list" where
  "summary_rows d thread_id last_id =
     order_by (\<lambda>(c, t, x). (cy_cycle_id c, tr_index t))
       (concat (map (\<lambda>c. concat (map (\<lambda>t. map (\<lambda>x. (c, t, x))
           (filter (\<lambda>x. ex_task_run x = tr_id t \<and> ex_attempt x = tr_attempt t) (executions d)))
         (filter (\<lambda>t. tr_cycle t = cy_id c) (tasks d))))
         (filter (\<lambda>c. cy_thread c = thread_id \<and> cy_cycle_id c \<le> last_id
            \<and> cy_status c \<in> {C_AWAITING_PUBLICATION, C_PUBLISHED}) (cycles d))))"

definition declarative_publication_summary :: "db \<Rightarrow> string \<Rightarrow> string option" where
  "declarative_publication_summary d k =
    (case publication_for_id d k of
       None \<Rightarrow> None
     | Some p \<Rightarrow>
         (case find (\<lambda>c. cy_thread c = pb_thread p \<and> cy_cycle_id c = pb_cycle_id p \<and> cy_root_input c = pb_root_input p)
             (cycles d) of
            None \<Rightarrow> None
          | Some c \<Rightarrow> Some (take 12000 (join (newline @ newline)
              (''SWEForge completed the declared workflow tasks:'' #
               map (\<lambda>(c, t, x). summary_block c t x) (summary_rows d (pb_thread p) (cy_cycle_id c)))))))"

text \<open>An execution of the earlier workflow, as the store returns it for a lifecycle.\<close>

record earlier_execution =
  xe_succeeded :: bool
  xe_start :: "string option"
  xe_end :: "string option"
  xe_dirty :: bool
  xe_response :: "string option"

text \<open>
  What both workflows hand to the publisher: the base to compare with, the head the workflow left,
  whether it left the tree dirty, and the body of the pull request.
\<close>

record material =
  ma_declarative :: bool
  ma_start :: string
  ma_end :: string
  ma_dirty :: bool
  ma_body :: string

definition earlier_material :: "earlier_execution \<Rightarrow> err + material" where
  "earlier_material x =
    (case (or_else (xe_start x) None, or_else (xe_end x) None) of
       (Some a, Some b) \<Rightarrow> Inr \<lparr>ma_declarative = False, ma_start = a, ma_end = b, ma_dirty = xe_dirty x,
          ma_body = take 12000 (shown ''SWEForge execution completed.'' (xe_response x))\<rparr>
     | _ \<Rightarrow> Inl (WorkspaceError ''workflow is missing its Git baseline''))"

definition declarative_material :: "string \<Rightarrow> string \<Rightarrow> string \<Rightarrow> err + material" where
  "declarative_material summary base head =
    (if base = [] \<or> head = [] then Inl (WorkspaceError ''workflow is missing its Git baseline'')
     else Inr \<lparr>ma_declarative = True, ma_start = base, ma_end = head, ma_dirty = False, ma_body = summary\<rparr>)"

section \<open>The stages\<close>

definition git_status :: "'w outside \<Rightarrow> string \<Rightarrow> ('w, string) op" where
  "git_status out path w = git out path [''status'', ''--porcelain''] w"

definition git_head :: "'w outside \<Rightarrow> string \<Rightarrow> ('w, string) op" where
  "git_head out path w = git out path [''rev-parse'', ''HEAD''] w"

text \<open>Stage and commit whatever the workflow left in the tree.\<close>

definition commit_tree :: "'w outside \<Rightarrow> publisher_settings \<Rightarrow> string \<Rightarrow> int \<Rightarrow> ('w, unit) op" where
  "commit_tree out gs path issue w =
     and_then (git_status out path w) (\<lambda>status w.
       if status = [] then return () w
       else
         and_then (git out path [''add'', ''-A'', ''--'', ''.''] w) (\<lambda>_ w.
         and_then (git out path [''-c'', ''user.name='' @ gs_name gs, ''-c'', ''user.email='' @ gs_email gs, ''commit'',
             ''-m'', ''sweforge: address issue #'' @ show_int issue] w) (\<lambda>_ w. return () w)))"

definition commit_stage ::
  "'w outside \<Rightarrow> publisher_settings \<Rightarrow> string \<Rightarrow> string \<Rightarrow> publication_row \<Rightarrow> ('w stage, publication_row \<times> string) op" where
  "commit_stage out gs path base p s =
    (case pb_local_sha p of
       Some sha \<Rightarrow>
         and_then (in_world (git out path [''merge-base'', ''--is-ancestor'', sha, ''HEAD'']) s) (\<lambda>_ s. return (p, sha) s)
     | None \<Rightarrow>
         and_then (in_world (commit_tree out gs path (pb_issue_number p)) s) (\<lambda>_ s.
         and_then (in_world (git_head out path) s) (\<lambda>sha s.
           if sha = base then raise (WorkspaceError ''changed files did not produce a commit'') s
           else and_then (record_step (pb_id p) COMMITTED [Local_Commit_Sha (Some sha)] s)
                  (\<lambda>p s. return (p, sha) s))))"

definition push_stage :: "'w outside \<Rightarrow> string \<Rightarrow> string \<Rightarrow> publication_row \<Rightarrow> ('w stage, publication_row) op" where
  "push_stage out path sha p s =
     and_then (on_error (remote_url out (pb_repo_full_name p)) s) (\<lambda>remote s.
     and_then (on_error (write_token out (world s) (pb_repo_full_name p)) s) (\<lambda>token s.
     and_then (in_world (push_branch out path remote (pb_branch p) sha token) s) (\<lambda>remote_sha s.
     and_then (in_world (git_status out path) s) (\<lambda>status s.
       if status \<noteq> [] then raise (WorkspaceError ''workspace is dirty after publication commit'') s
       else record_step (pb_id p) PUSHED [Remote_Commit_Sha (Some remote_sha)] s))))"

definition issue_text :: "publication_row \<Rightarrow> string" where
  "issue_text p = ''SWEForge: address issue #'' @ show_int (pb_issue_number p)"

definition find_or_create_pull ::
  "'w outside \<Rightarrow> repository_ref \<Rightarrow> string \<Rightarrow> publication_row \<Rightarrow> ('w, pull) op" where
  "find_or_create_pull out repo body p w =
    (case pull_requests out w repo (pb_branch p) (rr_default_branch repo) of
       Inl e \<Rightarrow> raise e w
     | Inr [] \<Rightarrow> create_pull_request out repo (pb_branch p) (rr_default_branch repo) (issue_text p) body w
     | Inr [x] \<Rightarrow> return x w
     | Inr _ \<Rightarrow> raise (WorkspaceError ''multiple matching GitHub pull requests are ambiguous'') w)"

definition pull_stage ::
  "'w outside \<Rightarrow> repository_ref \<Rightarrow> string \<Rightarrow> publication_row \<Rightarrow> ('w stage, publication_row \<times> int) op" where
  "pull_stage out repo body p s =
     and_then
       (case pb_pr_number p of
          Some n \<Rightarrow> return (p, n) s
        | None \<Rightarrow>
            and_then (in_world (find_or_create_pull out repo body p) s) (\<lambda>x s.
            and_then (record_step (pb_id p) PR_CREATED [Pr_Number (Some (pu_number x)), Pr_Url (pu_url x)] s)
              (\<lambda>p s. return (p, pu_number x) s)))
       (\<lambda>(p, n) s. and_then (in_store (register_pr_mapping (pb_repo_id p) n (pb_thread p)) s) (\<lambda>_ s. return (p, n) s))"

definition publication_comment_marker :: "string \<Rightarrow> string" where
  "publication_comment_marker k = ''<!-- sweforge:publication:'' @ k @ '' -->''"

definition publication_comment_markers :: "publication_row \<Rightarrow> string list" where
  "publication_comment_markers p = publication_comment_marker (pb_id p) #
     (if pb_root_input p = pb_event p then [publication_comment_marker (pb_event p)] else [])"

definition issue_conversation :: "repository_ref \<Rightarrow> int \<Rightarrow> conversation" where
  "issue_conversation repo n = \<lparr>cv_repo = rr_full_name repo, cv_subject = n, cv_inline = False, cv_reply_to = []\<rparr>"

definition find_or_create_comment ::
  "'w outside \<Rightarrow> repository_ref \<Rightarrow> int \<Rightarrow> publication_row \<Rightarrow> ('w, int) op" where
  "find_or_create_comment out repo pr p w =
    (let cv = issue_conversation repo (pb_issue_number p)
     in case list_comments out w cv of
       Inl e \<Rightarrow> raise e w
     | Inr cs \<Rightarrow>
         (case filter (\<lambda>c. list_ex (\<lambda>m. marked m c) (publication_comment_markers p)) cs of
            [] \<Rightarrow> and_then (create_comment out cv (publication_comment_marker (pb_id p) @ newline @
                   ''SWEForge published PR #'' @ show_int pr @ '': '' @ shown ''(URL unavailable)'' (pb_pr_url p)) w)
                 (\<lambda>c w. return (cm_id c) w)
          | [c] \<Rightarrow> return (cm_id c) w
          | _ \<Rightarrow> raise (WorkspaceError ''multiple publication comments are ambiguous'') w))"

definition comment_stage :: "'w outside \<Rightarrow> repository_ref \<Rightarrow> int \<Rightarrow> publication_row \<Rightarrow> ('w stage, unit) op" where
  "comment_stage out repo pr p s =
     and_then (case pb_comment p of Some c \<Rightarrow> return c s | None \<Rightarrow> in_world (find_or_create_comment out repo pr p) s)
       (\<lambda>c s. and_then (record_step (pb_id p) COMMENTED [Comment_Id (Some c)] s) (\<lambda>_ s.
        and_then (record_step (pb_id p) COMPLETED [] s) (\<lambda>_ s. return () s)))"

text \<open>From the first commit to the comment; the row in hand is the one read back after each step.\<close>

definition deliver_changes ::
  "'w outside \<Rightarrow> publisher_settings \<Rightarrow> string \<Rightarrow> string \<Rightarrow> string \<Rightarrow> publication_row \<Rightarrow> ('w stage, unit) op" where
  "deliver_changes out gs path base body p s =
     and_then (commit_stage out gs path base p s) (\<lambda>(p, sha) s.
     and_then (push_stage out path sha p s) (\<lambda>p s.
     and_then (on_error (repository_named out (world s) (pb_repo_full_name p)) s) (\<lambda>repo s.
     and_then (pull_stage out repo body p s) (\<lambda>(p, n) s.
       comment_stage out repo n p s))))"

section \<open>Publication of one row\<close>

datatype outcome = NO_WORK | BUSY | O_FAILED | O_NO_CHANGES | O_COMPLETED

record publication_result =
  px_status :: outcome
  px_publication :: "string option"
  px_error :: "string option"
  px_event :: "string option"

definition publication_result :: "outcome \<Rightarrow> publication_row \<Rightarrow> string option \<Rightarrow> publication_result" where
  "publication_result status p e =
     \<lparr>px_status = status, px_publication = Some (pb_id p), px_error = e, px_event = Some (pb_event p)\<rparr>"

text \<open>The earlier workflow, as far as the publisher asks it.\<close>

record earlier_workflow =
  ew_target :: legacy_target
  ew_waiting :: "string list"
  ew_execution :: "db \<Rightarrow> publication_row \<Rightarrow> earlier_execution option"

definition material_of ::
  "'w outside \<Rightarrow> earlier_workflow \<Rightarrow> workspace_row \<Rightarrow> publication_row \<Rightarrow> ('w stage, material) op" where
  "material_of out ew ws p s =
     and_then (in_world (verify_workspace out (real_path out (wk_path ws)) (wk_branch ws) (wk_base ws)) s) (\<lambda>_ s.
       case declarative_publication_summary (store s) (pb_id p) of
         Some summary \<Rightarrow> and_then (in_world (git_head out (real_path out (wk_path ws))) s)
           (\<lambda>head s. on_error (declarative_material summary (wk_base ws) head) s)
       | None \<Rightarrow> (case ew_execution ew (store s) p of
           None \<Rightarrow> raise (WorkspaceError ''successful workflow workspace is unavailable'') s
         | Some x \<Rightarrow> on_error (earlier_material x) s))"

definition publishable_workspace :: "'w outside \<Rightarrow> earlier_workflow \<Rightarrow> publication_row \<Rightarrow> 'w stage \<Rightarrow> err + workspace_row" where
  "publishable_workspace out ew p s =
    (case workspace_of (store s) (pb_thread p) of
       None \<Rightarrow> Inl (WorkspaceError ''successful workflow workspace is unavailable'')
     | Some ws \<Rightarrow>
         if declarative_publication_summary (store s) (pb_id p) = None \<and>
            (case ew_execution ew (store s) p of None \<Rightarrow> True | Some x \<Rightarrow> \<not> xe_succeeded x)
         then Inl (WorkspaceError ''successful workflow workspace is unavailable'')
         else if \<not> directory out (world s) (real_path out (wk_path ws))
         then Inl (WorkspaceError ''persisted workspace directory is missing'')
         else Inr ws)"

definition no_changes :: "publication_row \<Rightarrow> ('w stage, publication_result) op" where
  "no_changes p s =
     and_then (record_step (pb_id p) NO_CHANGES [] s) (\<lambda>_ s. return (publication_result O_NO_CHANGES p None) s)"

text \<open>What follows once the head and the status of the work tree are known.\<close>

definition publish_tree ::
  "'w outside \<Rightarrow> publisher_settings \<Rightarrow> string \<Rightarrow> string \<Rightarrow> publication_row \<Rightarrow> material \<Rightarrow> string \<Rightarrow> string \<Rightarrow>
   ('w stage, publication_result) op" where
  "publish_tree out gs path base p m head status s =
    (let declarative_same = (ma_declarative m \<and> head = ma_start m \<and> status = []);
         earlier_same = (\<not> ma_declarative m \<and> ma_end m = ma_start m \<and> \<not> ma_dirty m \<and> head = ma_start m)
     in if earlier_same \<and> status \<noteq> [] then raise (WorkspaceError ''workspace became dirty after execution'') s
        else if declarative_same \<or> earlier_same then no_changes p s
        else
          and_then (in_world (changed_files out path (ma_start m)) s) (\<lambda>changed s.
            if changed = [] then no_changes p s
            else
              and_then (on_error (validate_paths changed) s) (\<lambda>_ s.
              and_then (deliver_changes out gs path base (ma_body m) p s)
                (\<lambda>_ s. return (publication_result O_COMPLETED p None) s))))"

definition publish ::
  "digest \<Rightarrow> 'w outside \<Rightarrow> earlier_workflow \<Rightarrow> publisher_settings \<Rightarrow> publication_row \<Rightarrow> ('w stage, publication_result) op" where
  "publish sha out ew gs p s =
    (if \<not> publication_is_current sha (ew_target ew) (store s) (pb_id p)
     then raise (WorkspaceError ''publication is not authorized by completed validated task state'') s
     else
       and_then (on_error (publishable_workspace out ew p s) s) (\<lambda>ws s.
         let path = real_path out (wk_path ws) in
         and_then (material_of out ew ws p s) (\<lambda>m s.
         and_then (in_world (git_head out path) s) (\<lambda>head s.
         and_then (in_world (git_status out path) s) (\<lambda>status s.
           publish_tree out gs path (wk_base ws) p m head status s)))))"

text \<open>\<open>locked\<close>: another process holds the lock of the publication's thread.\<close>

definition publish_one ::
  "digest \<Rightarrow> 'w outside \<Rightarrow> earlier_workflow \<Rightarrow> publisher_settings \<Rightarrow> (string \<Rightarrow> bool) \<Rightarrow> string option \<Rightarrow>
   ('w stage, publication_result) op" where
  "publish_one sha out ew gs locked k s =
     and_then (in_store (next_publication sha (ew_target ew) (ew_waiting ew) k) s) (\<lambda>chosen s.
       case chosen of
         None \<Rightarrow> return \<lparr>px_status = NO_WORK, px_publication = k, px_error = None, px_event = None\<rparr> s
       | Some p \<Rightarrow>
           if locked (pb_thread p) then return (publication_result BUSY p None) s
           else (case publish sha out ew gs p s of
             (Inr r, s) \<Rightarrow> return r s
           | (Inl e, s) \<Rightarrow>
               and_then (in_store (update_publication (pb_id p) P_FAILED [Error_Message (Some (error_text e))]) s)
                 (\<lambda>_ s. return (publication_result O_FAILED p (Some (error_text e))) s)))"

end
