(* ===== verification/Publisher_Calls.thy ===== *)
theory Publisher_Calls
  imports Publisher Poll_Properties
begin

text \<open>
  What the publisher does to the outside world, as the calls it may have made: a relation
  \<open>moved\<close> that holds between two states of the world when the second one is reached by calls of a
  given set. The frame lemmas carry it through the stages, with the row each stage hands on.
\<close>

section \<open>Calls on the outside world\<close>

datatype outside_call =
    Git string "string list"
  | Git_Auth string string "string list"
  | Open_Pull repository_ref string string string string
  | Post conversation string

fun call :: "'w outside \<Rightarrow> outside_call \<Rightarrow> 'w \<Rightarrow> 'w" where
  "call out (Git path args) w = snd (run_git out path args w)"
| "call out (Git_Auth path token args) w = snd (run_git_auth out path token args w)"
| "call out (Open_Pull repo head base title body) w = snd (create_pull_request out repo head base title body w)"
| "call out (Post cv body) w = snd (create_comment out cv body w)"

inductive moved :: "'w outside \<Rightarrow> (outside_call \<Rightarrow> bool) \<Rightarrow> 'w \<Rightarrow> 'w \<Rightarrow> bool" for out A where
  stays: "moved out A w w"
| goes: "A c \<Longrightarrow> moved out A (call out c w) w' \<Longrightarrow> moved out A w w'"

lemma moved_one: "A c \<Longrightarrow> moved out A w (call out c w)"
  by (rule goes) (auto intro: stays)

lemma moved_trans: "moved out A w w1 \<Longrightarrow> moved out A w1 w2 \<Longrightarrow> moved out A w w2"
  by (induction rule: moved.induct) (auto intro: goes)

lemma moved_mono: "moved out A w w' \<Longrightarrow> (\<And>c. A c \<Longrightarrow> B c) \<Longrightarrow> moved out B w w'"
  by (induction rule: moved.induct) (auto intro: stays goes)

interpretation outer: state_frame "moved out A" for out :: "'w outside" and A
  by unfold_locales (rule stays, rule moved_trans)

interpretation stage: state_frame "\<lambda>s s' :: 'w stage. moved out A (world s) (world s')" for out :: "'w outside" and A
  by unfold_locales (rule stays, rule moved_trans)

section \<open>The calls of a publication\<close>

definition reading :: "string list \<Rightarrow> bool" where
  "reading args = (args \<noteq> [] \<and> hd args \<in> {''branch'', ''merge-base'', ''rev-parse'', ''status'', ''diff''})"

definition committing :: "string list \<Rightarrow> bool" where
  "committing args = (args = [''add'', ''-A'', ''--'', ''.''] \<or>
     (\<exists>n e m. args = [''-c'', ''user.name='' @ n, ''-c'', ''user.email='' @ e, ''commit'', ''-m'', m]))"

fun read_call :: "string \<Rightarrow> outside_call \<Rightarrow> bool" where
  "read_call path (Git dir args) = (dir = path \<and> reading args)"
| "read_call path c = False"

text \<open>
  What the publication of a row may do: read in its work tree; commit there unless a commit is
  recorded; list and push its own branch, never with a force option or a forced refspec; open a
  pull request from its branch unless one is recorded; comment on its issue unless a comment is
  recorded.
\<close>

fun publication_call :: "string \<Rightarrow> publication_row \<Rightarrow> outside_call \<Rightarrow> bool" where
  "publication_call path p (Git dir args) = (dir = path \<and> (reading args \<or> pb_local_sha p = None \<and> committing args))"
| "publication_call path p (Git_Auth dir token args) = (dir = path \<and>
     (\<exists>remote. args = [''ls-remote'', ''--heads'', remote, branch_ref (pb_branch p)]
       \<or> args = [''push'', remote, branch_ref (pb_branch p) @ '':'' @ branch_ref (pb_branch p)]))"
| "publication_call path p (Open_Pull repo head base title body) =
     (pb_pr_number p = None \<and> head = pb_branch p \<and> base = rr_default_branch repo)"
| "publication_call path p (Post cv body) =
     (pb_comment p = None \<and> cv_subject cv = pb_issue_number p \<and> \<not> cv_inline cv)"

lemma reading_simps [simp]:
  "reading (''branch'' # xs)" "reading (''merge-base'' # xs)" "reading (''rev-parse'' # xs)" "reading (''status'' # xs)"
  "reading (''diff'' # xs)"
  by (simp_all add: reading_def)

lemma git_moved:
  assumes "A (Git path args)"
  shows "moved out A w (snd (git out path args w))" "moved out A w (snd (git_checked out path args w))"
  using moved_one [of A, OF assms, of out w] by (auto simp: git_def git_checked_def split: prod.split)

lemma git_auth_moved:
  assumes "A (Git_Auth path token args)"
  shows "moved out A w (snd (git_with_auth out path token args w))"
  using moved_one [of A, OF assms, of out w] by (auto simp: git_with_auth_def split: prod.split)

lemmas world_steps = stays outer.and_then_keeps git_moved git_auth_moved

lemma reads_moved:
  assumes "\<And>args. reading args \<Longrightarrow> A (Git path args)"
  shows "moved out A w (snd (verify_workspace out path branch base w))"
    and "moved out A w (snd (changed_files out path start w))"
    and "moved out A w (snd (git_status out path w))"
    and "moved out A w (snd (git_head out path w))"
  using assms unfolding verify_workspace_def changed_files_def git_status_def git_head_def
  by (auto intro!: world_steps)

lemma commit_tree_moved:
  assumes "\<And>args. reading args \<or> committing args \<Longrightarrow> A (Git path args)"
  shows "moved out A w (snd (commit_tree out gs path issue w))"
  unfolding commit_tree_def git_status_def
  by (auto intro!: world_steps assms simp: committing_def)

lemma push_branch_moved:
  assumes "\<And>args. reading args \<Longrightarrow> A (Git path args)"
    and "\<And>remote. A (Git_Auth path token [''ls-remote'', ''--heads'', remote, branch_ref branch])"
    and "\<And>remote. A (Git_Auth path token [''push'', remote, branch_ref branch @ '':'' @ branch_ref branch])"
  shows "moved out A w (snd (push_branch out path remote branch local_sha token w))"
proof -
  have m: "moved out A v (snd (run_git out path [''merge-base'', ''--is-ancestor'', a, b] v))" for v a b
    using moved_one [of A "Git path [''merge-base'', ''--is-ancestor'', a, b]" out v] assms(1) by simp
  have p: "moved out A v (snd (and_then (git_with_auth out path token
        [''push'', remote, branch_ref branch @ '':'' @ branch_ref branch] v) (\<lambda>_ w.
      and_then (remote_head out path remote branch token w) (\<lambda>listed w.
        if blank listed then raise (Other_Error ''IndexError'' ''list index out of range'') w
        else return (first_word listed) w))))" for v
    unfolding remote_head_def by (auto intro!: world_steps assms assms(3) [simplified])
  have rest: "moved out A v (snd (let remote_sha = first_word listed in
      if remote_sha = local_sha then return remote_sha v
      else let (r, w1) = (if remote_sha = [] then (\<lparr>gr_code = 0, gr_out = [], gr_err = []\<rparr>, v)
               else run_git out path [''merge-base'', ''--is-ancestor'', remote_sha, local_sha] v)
        in if gr_code r \<noteq> 0
           then raise (WorkspaceError ''remote IssueThread branch has diverged; refusing to force-push'') w1
           else and_then (git_with_auth out path token
                   [''push'', remote, branch_ref branch @ '':'' @ branch_ref branch] w1) (\<lambda>_ w.
              and_then (remote_head out path remote branch token w) (\<lambda>listed w.
                if blank listed then raise (Other_Error ''IndexError'' ''list index out of range'') w
                else return (first_word listed) w))))" for v listed
  proof (cases "first_word listed = local_sha \<or> first_word listed = []")
    case True
    then show ?thesis using p [of v] by (auto simp: Let_def intro: stays)
  next
    case False
    obtain r w1 where g: "run_git out path [''merge-base'', ''--is-ancestor'', first_word listed, local_sha] v = (r, w1)"
      by (cases "run_git out path [''merge-base'', ''--is-ancestor'', first_word listed, local_sha] v")
    then have "moved out A v w1" using m [of v "first_word listed" local_sha] by simp
    with False g moved_trans [OF this p] show ?thesis by (simp only: Let_def if_False prod.case) simp
  qed
  have "moved out A w (snd (remote_head out path remote branch token w))"
    unfolding remote_head_def by (intro git_auth_moved assms)
  then show ?thesis unfolding push_branch_def by (rule outer.and_then_keeps) (rule rest)
qed

section \<open>The recorded row\<close>

text \<open>The row in hand is the one the store has.\<close>

definition in_hand :: "publication_row \<Rightarrow> 'w stage \<Rightarrow> bool" where
  "in_hand p s = (publication_for_id (store s) (pb_id p) = Some p)"

lemma assign_field_id [simp]: "pb_id (assign_field f r) = pb_id r"
  by (cases f) simp_all

lemma assign_fields_id [simp]: "pb_id (fold assign_field fs r) = pb_id r"
  by (induction fs arbitrary: r) simp_all

lemma record_step_effect:
  assumes "record_step (pb_id p) status fs s = (Inr q, s')" "in_hand p s"
  shows "q = fold assign_field fs (p\<lparr>pb_status := status\<rparr>)" "world s' = world s" "in_hand q s'"
    and "\<exists>ps. store s' = (store s)\<lparr>publications := ps\<rparr>"
proof -
  obtain r d where u: "update_publication (pb_id p) status fs (store s) = (Inr r, d)" and s': "s' = s\<lparr>store := d\<rparr>" and r: "r = Some q"
    using assms(1) by (auto simp: record_step_def and_then_return_iff in_store_def split: prod.splits option.splits)
  then have d: "d = (store s)\<lparr>publications := update_where (\<lambda>r. pb_id r = pb_id p)
      (\<lambda>r. fold assign_field fs (r\<lparr>pb_status := status\<rparr>)) (publications (store s))\<rparr>" and l: "publication_for_id d (pb_id p) = Some q"
    by (auto simp: update_publication_def Let_def split: if_split_asm)
  from l show q: "q = fold assign_field fs (p\<lparr>pb_status := status\<rparr>)"
    using assms(2) by (auto simp: d in_hand_def lookup_update_where)
  from l show "in_hand q s'" by (simp add: s' in_hand_def q)
  show "world s' = world s" "\<exists>ps. store s' = (store s)\<lparr>publications := ps\<rparr>" by (auto simp: s' d)
qed

lemma in_world_return: "in_world f s = (Inr x, s') \<longleftrightarrow> (\<exists>w. f (world s) = (Inr x, w) \<and> s' = s\<lparr>world := w\<rparr>)"
  by (auto simp: in_world_def split: prod.splits)

lemma in_world_store: "in_world f s = (Inr x, s') \<Longrightarrow> store s' = store s"
  by (auto simp: in_world_return)

lemma in_store_return: "in_store f s = (Inr x, s') \<longleftrightarrow> (\<exists>d. f (store s) = (Inr x, d) \<and> s' = s\<lparr>store := d\<rparr>)"
  by (auto simp: in_store_def split: prod.splits)

lemma on_error_return [simp]: "on_error r s = (Inr x, s') \<longleftrightarrow> r = Inr x \<and> s' = s"
  by (auto simp: on_error_def)

lemma stage_one:
  "moved out A (world s) (snd (f (world s))) \<Longrightarrow> moved out A (world s) (world (snd (in_world f s)))"
  "moved out A (world s) (world (snd (in_store g s)))"
  "moved out A (world s) (world (snd (on_error r s)))"
  by (auto simp: in_world_def in_store_def on_error_def split: prod.split intro: stays)

lemma record_step_stays: "world (snd (record_step k status fs s)) = world s"
  by (auto simp: record_step_def in_store_def and_then_def split: prod.splits sum.splits option.splits)

lemma record_step_moved: "moved out A (world s) (world (snd (record_step k status fs s)))"
  by (simp add: record_step_stays stays)

lemmas stage_steps = stays stage.and_then_keeps stage_one record_step_moved

section \<open>The stages stay within their calls\<close>

text \<open>A later row of the same publication may do no more than the row the publication started from.\<close>

definition same_publication :: "publication_row \<Rightarrow> publication_row \<Rightarrow> bool" where
  "same_publication p q = (pb_id q = pb_id p \<and> pb_branch q = pb_branch p \<and> pb_thread q = pb_thread p
     \<and> pb_repo_id q = pb_repo_id p \<and> pb_issue_number q = pb_issue_number p
     \<and> (pb_pr_number q = None \<longrightarrow> pb_pr_number p = None) \<and> (pb_comment q = None \<longrightarrow> pb_comment p = None))"

lemma same_publication_trans: "same_publication p q \<Longrightarrow> same_publication q r \<Longrightarrow> same_publication p r"
  by (simp add: same_publication_def)

lemma commit_stage_moved:
  "moved out (publication_call path p) (world s) (world (snd (commit_stage out gs path base p s)))"
  unfolding commit_stage_def
  by (auto intro!: stage_steps commit_tree_moved reads_moved git_moved split: option.split)

lemma commit_stage_return:
  assumes "commit_stage out gs path base p s = (Inr (q, sha), s')" "in_hand p s"
  shows "in_hand q s' \<and> pb_local_sha q = Some sha \<and> same_publication p q"
proof (cases "pb_local_sha p")
  case None
  then obtain s1 s2 where w: "in_world (commit_tree out gs path (pb_issue_number p)) s = (Inr (), s1)"
      "in_world (git_head out path) s1 = (Inr sha, s2)"
    and r: "record_step (pb_id p) COMMITTED [Local_Commit_Sha (Some sha)] s2 = (Inr q, s')"
    using assms(1) by (auto simp: commit_stage_def and_then_return_iff split: if_split_asm)
  have "in_hand p s2" using assms(2) w [THEN in_world_store] by (simp add: in_hand_def)
  from record_step_effect [OF r this] show ?thesis by (simp add: same_publication_def)
next
  case (Some c)
  with assms show ?thesis
    by (auto simp: commit_stage_def and_then_return_iff same_publication_def in_hand_def dest: in_world_store)
qed

lemma push_stage_moved:
  assumes "same_publication p q"
  shows "moved out (publication_call path p) (world s) (world (snd (push_stage out path sha q s)))"
  using assms unfolding push_stage_def same_publication_def
  by (auto intro!: stage_steps push_branch_moved reads_moved)

lemma push_stage_return:
  assumes "push_stage out path sha p s = (Inr q, s')" "in_hand p s"
  shows "in_hand q s' \<and> pb_local_sha q = pb_local_sha p \<and> pb_remote_sha q \<noteq> None \<and> same_publication p q"
proof -
  obtain remote token remote_sha s1 s2 status where
      "in_world (push_branch out path remote (pb_branch p) sha token) s = (Inr remote_sha, s1)"
      "in_world (git_status out path) s1 = (Inr status, s2)"
    and r: "record_step (pb_id p) PUSHED [Remote_Commit_Sha (Some remote_sha)] s2 = (Inr q, s')"
    using assms(1) by (auto simp: push_stage_def and_then_return_iff split: if_split_asm)
  from this(1,2) [THEN in_world_store] have "in_hand p s2" using assms(2) by (simp add: in_hand_def)
  from record_step_effect [OF r this] show ?thesis by (simp add: same_publication_def)
qed

lemma find_or_create_pull_moved:
  assumes "same_publication p q" "pb_pr_number q = None"
  shows "moved out (publication_call path p) w (snd (find_or_create_pull out repo body q w))"
proof -
  have "publication_call path p (Open_Pull repo (pb_branch q) (rr_default_branch repo) (issue_text q) body)"
    using assms by (simp add: same_publication_def)
  from moved_one [of "publication_call path p", OF this, of out w] show ?thesis
    by (auto simp: find_or_create_pull_def split: sum.split list.split intro: stays)
qed

lemma pull_stage_moved:
  assumes "same_publication p q"
  shows "moved out (publication_call path p) (world s) (world (snd (pull_stage out repo body q s)))"
  unfolding pull_stage_def
  by (auto intro!: stage_steps find_or_create_pull_moved assms split: option.split)

lemma pull_stage_return:
  assumes "pull_stage out repo body p s = (Inr (q, n), s')" "in_hand p s"
  shows "in_hand q s' \<and> pb_local_sha q = pb_local_sha p \<and> pb_remote_sha q = pb_remote_sha p \<and> same_publication p q
    \<and> pb_pr_number q = Some n \<and> mapped_thread (store s') (pb_repo_id p) n = Some (pb_thread p)"
proof -
  obtain s1 where r: "in_store (register_pr_mapping (pb_repo_id q) n (pb_thread q)) s1 = (Inr (), s')"
    and q: "in_hand q s1 \<and> pb_local_sha q = pb_local_sha p \<and> pb_remote_sha q = pb_remote_sha p \<and> same_publication p q
      \<and> pb_pr_number q = Some n"
  proof (cases "pb_pr_number p")
    case None
    then obtain x s1 s2 where w: "in_world (find_or_create_pull out repo body p) s = (Inr x, s1)"
      and u: "record_step (pb_id p) PR_CREATED [Pr_Number (Some (pu_number x)), Pr_Url (pu_url x)] s1 = (Inr q, s2)"
      and n: "n = pu_number x" and r: "in_store (register_pr_mapping (pb_repo_id q) n (pb_thread q)) s2 = (Inr (), s')"
      using assms(1) by (auto simp: pull_stage_def and_then_return_iff)
    have "in_hand p s1" using assms(2) in_world_store [OF w] by (simp add: in_hand_def)
    from record_step_effect [OF u this] r n show ?thesis by (intro that) (simp_all add: same_publication_def)
  next
    case (Some m)
    with assms show ?thesis by (intro that) (auto simp: pull_stage_def and_then_return_iff same_publication_def)
  qed
  then obtain d where d: "register_pr_mapping (pb_repo_id q) n (pb_thread q) (store s1) = (Inr (), d)" "s' = s1\<lparr>store := d\<rparr>"
    by (auto simp: in_store_return)
  from register_pr_mapping_maps [OF d(1)] q show ?thesis
    by (auto simp: d(2) in_hand_def same_publication_def)
qed

lemma find_or_create_comment_moved:
  assumes "same_publication p q" "pb_comment q = None"
  shows "moved out (publication_call path p) w (snd (find_or_create_comment out repo n q w))"
proof -
  have "publication_call path p (Post (issue_conversation repo (pb_issue_number q)) b)" for b
    using assms by (simp add: same_publication_def issue_conversation_def)
  from moved_one [of "publication_call path p", OF this, of out w] show ?thesis
    unfolding find_or_create_comment_def Let_def
    by (auto split: sum.split list.split intro!: outer.and_then_keeps intro: stays)
qed

lemma comment_stage_moved:
  assumes "same_publication p q"
  shows "moved out (publication_call path p) (world s) (world (snd (comment_stage out repo n q s)))"
  unfolding comment_stage_def
  by (auto intro!: stage_steps find_or_create_comment_moved assms split: option.split)

lemma comment_stage_return:
  assumes "comment_stage out repo n p s = (Inr u, s')" "in_hand p s"
  shows "\<exists>q c. publication_for_id (store s') (pb_id p) = Some q \<and> pb_status q = COMPLETED \<and> pb_comment q = Some c
    \<and> pb_local_sha q = pb_local_sha p \<and> pb_remote_sha q = pb_remote_sha p \<and> pb_pr_number q = pb_pr_number p
    \<and> pr_mappings (store s') = pr_mappings (store s)"
proof -
  obtain c s1 s2 q1 q2 where "store s1 = store s"
    and a: "record_step (pb_id p) COMMENTED [Comment_Id (Some c)] s1 = (Inr q1, s2)"
    and b: "record_step (pb_id p) COMPLETED [] s2 = (Inr q2, s')"
    using assms(1) by (auto simp: comment_stage_def and_then_return_iff split: option.split_asm dest: in_world_store)
  then have "in_hand p s1" using assms(2) by (simp add: in_hand_def)
  note q1 = record_step_effect [OF a this]
  have "pb_id q1 = pb_id p" by (simp add: q1(1))
  with b have b': "record_step (pb_id q1) COMPLETED [] s2 = (Inr q2, s')" by simp
  note q2 = record_step_effect [OF b' q1(3)]
  have "pr_mappings (store s') = pr_mappings (store s)"
    using q1(4) q2(4) \<open>store s1 = store s\<close> by auto
  with q1(1) q2(1,3) show ?thesis by (simp add: in_hand_def)
qed

lemma deliver_changes_moved:
  assumes "in_hand p s"
  shows "moved out (publication_call path p) (world s) (world (snd (deliver_changes out gs path base body p s)))"
proof -
  have push: "moved out (publication_call path p) (world t) (world (snd (push_stage out path sha q t)))"
    if "commit_stage out gs path base p s = (Inr (q, sha), t)" for q sha t
    using commit_stage_return [OF that assms] push_stage_moved by blast
  have rest: "moved out (publication_call path p) (world t) (world (snd (and_then (pull_stage out repo body q t)
      (\<lambda>(p, n). comment_stage out repo n p))))" if q: "same_publication p q" "in_hand q t" for q t repo
  proof (rule stage.and_then_keeps [OF pull_stage_moved [OF q(1)]])
    fix x u
    assume "pull_stage out repo body q t = (Inr x, u)"
    moreover obtain r n where x: "x = (r, n)" by (cases x)
    ultimately have "same_publication p r" using pull_stage_return [OF _ q(2)] q(1) same_publication_trans by blast
    then show "moved out (publication_call path p) (world u)
        (world (snd ((case x of (p, n) \<Rightarrow> comment_stage out repo n p) u)))"
      by (simp add: x comment_stage_moved)
  qed
  show ?thesis
    unfolding deliver_changes_def
    using commit_stage_return [OF _ assms] push_stage_return same_publication_trans
    by (fastforce intro!: stage.and_then_keeps commit_stage_moved push rest stage_one)
qed

end
