(* ===== verification/Publisher_Properties.thy ===== *)
theory Publisher_Properties
  imports Publisher_Calls Publication_Properties
begin

text \<open>
  Properties of the publisher: it keeps to its calls, nothing leaves the work tree before the
  checks, what it reports is recorded, and published work is accepted work. The witnesses run it
  on a small world that counts what was done to it.
\<close>

section \<open>Before the first change\<close>

text \<open>Only read calls so far, and nothing recorded.\<close>

definition read_to :: "'w outside \<Rightarrow> string \<Rightarrow> 'w stage \<Rightarrow> 'w stage \<Rightarrow> bool" where
  "read_to out path s t = (moved out (read_call path) (world s) (world t) \<and> store t = store s)"

interpretation reads: state_frame "read_to out path" for out :: "'w outside" and path
  by unfold_locales (auto simp: read_to_def intro: stays moved_trans)

lemma read_in_world:
  "moved out (read_call path) (world s) (snd (f (world s))) \<Longrightarrow> read_to out path s (snd (in_world f s))"
  by (auto simp: read_to_def in_world_def split: prod.split)

lemma read_on_error: "read_to out path s (snd (on_error r s))"
  by (simp add: on_error_def reads.keeps_refl)

lemma read_then:
  assumes "read_to out path s t" "read_to out path t (snd (f t))" "\<And>e u. read_to out path s u \<Longrightarrow> P (Inl e, u)"
    and "\<And>x u. f t = (Inr x, u) \<Longrightarrow> read_to out path s u \<Longrightarrow> P (k x u)"
  shows "P (and_then (f t) k)"
proof (cases "f t")
  case (Pair r u)
  then have "read_to out path s u" using assms(1,2) reads.keeps_trans [of out path s t u] by simp
  then show ?thesis using assms(3,4) Pair by (cases r) auto
qed

lemma material_of_reads: "read_to out (real_path out (wk_path ws)) s (snd (material_of out ew ws p s))"
  unfolding material_of_def
  by (auto intro!: reads.and_then_keeps read_in_world reads_moved read_on_error reads.keeps_refl split: option.split)

lemma no_changes_world: "world (snd (no_changes p s)) = world s"
  by (auto simp: no_changes_def and_then_def record_step_stays [of "pb_id p" NO_CHANGES "[]" s, symmetric] split: prod.split sum.split)

definition publishable_path :: "string \<Rightarrow> bool" where
  "publishable_path f = (\<not> unsafe_path f \<and> \<not> credential_path f)"

lemma validate_paths_iff: "validate_paths fs = Inr () \<longleftrightarrow> list_all publishable_path fs"
  by (induction fs) (auto simp: publishable_path_def)

text \<open>
  What holds of every end of a publication: after reading only, with nothing to publish, or after
  the changed files have passed the checks.
\<close>

abbreviation delivered :: "'w outside \<Rightarrow> publisher_settings \<Rightarrow> string \<Rightarrow> string \<Rightarrow> string \<Rightarrow> publication_row \<Rightarrow>
    ('w stage, publication_result) op" where
  "delivered out gs path base body p s \<equiv>
     and_then (deliver_changes out gs path base body p s) (\<lambda>_ s. return (publication_result O_COMPLETED p None) s)"

lemma publish_tree_gate:
  assumes u: "read_to out path s u"
    and reading: "\<And>e u. read_to out path s u \<Longrightarrow> P (Inl e, u)"
    and unchanged: "\<And>u. read_to out path s u \<Longrightarrow> P (no_changes p u)"
    and delivery: "\<And>start changed u v body. read_to out path s u \<Longrightarrow>
      in_world (changed_files out path start) u = (Inr changed, v) \<Longrightarrow> read_to out path s v \<Longrightarrow> changed \<noteq> [] \<Longrightarrow>
      list_all publishable_path changed \<Longrightarrow> P (delivered out gs path base body p v)"
  shows "P (publish_tree out gs path base p m head status u)"
proof -
  have "P (and_then (in_world (changed_files out path (ma_start m)) u) (\<lambda>changed s.
      if changed = [] then no_changes p s
      else and_then (on_error (validate_paths changed) s) (\<lambda>_ s. delivered out gs path base (ma_body m) p s)))"
  proof (rule read_then [where P = P and f = "in_world (changed_files out path (ma_start m))", OF u _ reading])
    show "read_to out path u (snd (in_world (changed_files out path (ma_start m)) u))"
      by (auto intro!: read_in_world reads_moved)
  next
    fix changed v
    assume c: "in_world (changed_files out path (ma_start m)) u = (Inr changed, v)" "read_to out path s v"
    show "P (if changed = [] then no_changes p v
      else and_then (on_error (validate_paths changed) v) (\<lambda>_ s. delivered out gs path base (ma_body m) p s))"
    proof (cases "validate_paths changed")
      case (Inl e)
      then show ?thesis using reading [OF c(2)] unchanged [OF c(2)] by (simp add: on_error_def)
    next
      case (Inr x)
      then have "list_all publishable_path changed" using validate_paths_iff by simp
      then show ?thesis using Inr unchanged [OF c(2)] delivery [OF u c] by (simp add: on_error_def)
    qed
  qed
  then show ?thesis using reading [OF u] unchanged [OF u] by (simp add: publish_tree_def Let_def)
qed

lemma publish_gate:
  assumes reading: "\<And>e u. read_to out path s u \<Longrightarrow> P (Inl e, u)"
    and unchanged: "\<And>u. read_to out path s u \<Longrightarrow> P (no_changes p u)"
    and delivery: "\<And>base start changed u v body. publication_is_current sha (ew_target ew) (store s) (pb_id p) \<Longrightarrow>
      read_to out path s u \<Longrightarrow>
      in_world (changed_files out path start) u = (Inr changed, v) \<Longrightarrow> read_to out path s v \<Longrightarrow> changed \<noteq> [] \<Longrightarrow>
      list_all publishable_path changed \<Longrightarrow> P (delivered out gs path base body p v)"
    and path: "\<And>ws. workspace_of (store s) (pb_thread p) = Some ws \<Longrightarrow> path = real_path out (wk_path ws)"
  shows "P (publish sha out ew gs p s)"
proof (cases "publication_is_current sha (ew_target ew) (store s) (pb_id p)")
  case False
  then show ?thesis using reading [OF reads.keeps_refl] by (simp add: publish_def)
next
  case current: True
  show ?thesis
  proof (cases "publishable_workspace out ew p s")
    case (Inl e)
    then show ?thesis using reading [OF reads.keeps_refl] by (simp add: publish_def on_error_def)
  next
    case (Inr ws)
    then have "workspace_of (store s) (pb_thread p) = Some ws"
      by (auto simp: publishable_workspace_def split: option.split_asm if_split_asm)
    then have dir: "real_path out (wk_path ws) = path" using path by simp
    have tree: "P (publish_tree out gs path (wk_base ws) p m head status u)" if "read_to out path s u" for m head status u
      by (rule publish_tree_gate [where P = P, OF that]) (rule reading unchanged delivery [OF current]; assumption)+
    have status: "P (and_then (in_world (git_status out path) u)
        (\<lambda>status s. publish_tree out gs path (wk_base ws) p m head status s))" if "read_to out path s u" for m head u
      by (rule read_then [where P = P and f = "in_world (git_status out path)", OF that _ reading tree]) (auto intro!: read_in_world reads_moved)
    have head: "P (and_then (in_world (git_head out path) u) (\<lambda>head s. and_then (in_world (git_status out path) s)
        (\<lambda>status s. publish_tree out gs path (wk_base ws) p m head status s)))" if "read_to out path s u" for m u
      by (rule read_then [where P = P and f = "in_world (git_head out path)", OF that _ reading status]) (auto intro!: read_in_world reads_moved)
    have "P (and_then (material_of out ew ws p s) (\<lambda>m s. and_then (in_world (git_head out path) s) (\<lambda>head s.
        and_then (in_world (git_status out path) s) (\<lambda>status s. publish_tree out gs path (wk_base ws) p m head status s))))"
      by (rule read_then [where P = P and f = "material_of out ew ws p", OF reads.keeps_refl [of out path s] _ reading head])
        (use material_of_reads [of out ws s ew p] dir in simp)
    then show ?thesis using current Inr by (simp add: publish_def on_error_def Let_def dir)
  qed
qed

section \<open>Properties of the publisher\<close>

definition publication_path :: "'w outside \<Rightarrow> db \<Rightarrow> publication_row \<Rightarrow> string" where
  "publication_path out d p = (case workspace_of d (pb_thread p) of None \<Rightarrow> [] | Some ws \<Rightarrow> real_path out (wk_path ws))"

lemma next_publication_in_hand:
  assumes "next_publication sha legacy waiting k d = (Inr (Some p), d')"
  shows "publication_for_id d' (pb_id p) = Some p" "\<exists>ps. d' = d\<lparr>publications := ps\<rparr>"
proof -
  obtain t :: publication_target where "ensure_publication sha legacy (pt_thread t) d = (Inr (Some p), d')"
    using assms by (auto simp: next_publication_def split: list.split_asm)
  then obtain n d1 where e: "(case target_of sha legacy d (pt_thread t) of
        None \<Rightarrow> Inl (ValueError ''publication is blocked until a matching ACCEPT review'')
      | Some t \<Rightarrow> if has pb_id (pt_id t) (publications d) then Inr (pt_id t, d)
          else bindE (insert_publication (new_publication t) d) (\<lambda>d1. Inr (pt_id t, d1))) = Inr (n, d1)"
    and r: "publication_for_id d1 n = Some p" "d' = d1"
    by (auto simp: ensure_publication_def and_then_return_iff commit_return_iff)
  from r show "publication_for_id d' (pb_id p) = Some p" by (auto dest: lookup_key)
  have "d1 = d\<lparr>publications := publications d1\<rparr>"
    using e by (auto simp: bindE_Inr_iff insert_publication_def split: option.split_asm if_split_asm)
  then show "\<exists>ps. d' = d\<lparr>publications := ps\<rparr>" using r(2) by blast
qed

lemma delivered_world: "world (snd (delivered out gs path base body p v)) = world (snd (deliver_changes out gs path base body p v))"
  by (auto simp: and_then_def split: prod.split sum.split)

lemma publish_moved:
  assumes "publication_for_id (store s) (pb_id p) = Some p"
  shows "moved out (publication_call (publication_path out (store s) p) p) (world s) (world (snd (publish sha out ew gs p s)))"
proof -
  let ?path = "publication_path out (store s) p"
  have r: "moved out (publication_call ?path p) (world s) (world u)" if "read_to out ?path s u" for u
  proof (rule moved_mono)
    show "moved out (read_call ?path) (world s) (world u)" using that by (simp add: read_to_def)
    show "publication_call ?path p c" if "read_call ?path c" for c using that by (cases c) auto
  qed
  show ?thesis
  proof (rule publish_gate [where P = "\<lambda>x. moved out (publication_call ?path p) (world s) (world (snd x))"])
    show "?path = real_path out (wk_path ws)" if "workspace_of (store s) (pb_thread p) = Some ws" for ws
      using that by (simp add: publication_path_def)
    show "moved out (publication_call ?path p) (world s) (world (snd (delivered out gs ?path base body p v)))"
      if "read_to out ?path s v" for base body v
    proof -
      have "in_hand p v" using that assms by (simp add: in_hand_def read_to_def)
      from moved_trans [OF r [OF that] deliver_changes_moved [OF this]] show ?thesis by (simp only: delivered_world)
    qed
  qed (simp_all add: r no_changes_world)
qed

lemma publish_one_world:
  assumes "next_publication sha (ew_target ew) (ew_waiting ew) k (store s) = (Inr (Some p), d)"
  shows "world (snd (publish_one sha out ew gs locked k s)) =
    (if locked (pb_thread p) then world s else world (snd (publish sha out ew gs p (s\<lparr>store := d\<rparr>))))"
  using assms
  by (auto simp: publish_one_def in_store_def and_then_def split: prod.split sum.split)


lemma publish_one_gate:
  assumes "next_publication sha (ew_target ew) (ew_waiting ew) k (store s) = (Inr (Some p), d)"
  shows "moved out (read_call (publication_path out d p)) (world s) (world (snd (publish_one sha out ew gs locked k s)))
    \<or> publication_is_current sha (ew_target ew) d (pb_id p) \<and>
      (\<exists>start w changed w1. moved out (read_call (publication_path out d p)) (world s) w
         \<and> changed_files out (publication_path out d p) start w = (Inr changed, w1)
         \<and> changed \<noteq> [] \<and> list_all publishable_path changed)"
    (is "?read (world (snd (publish_one sha out ew gs locked k s))) \<or> ?checked")
proof (cases "locked (pb_thread p)")
  case True
  then show ?thesis by (simp add: publish_one_world [OF assms] stays)
next
  case False
  let ?s = "s\<lparr>store := d\<rparr>" and ?path = "publication_path out d p"
  have "?read (world (snd (publish sha out ew gs p ?s))) \<or> ?checked"
  proof (rule publish_gate [where P = "\<lambda>x. ?read (world (snd x)) \<or> ?checked" and path = ?path])
    fix base start changed u v body
    assume "publication_is_current sha (ew_target ew) (store ?s) (pb_id p)" "read_to out ?path ?s u"
      "in_world (changed_files out ?path start) u = (Inr changed, v)" "changed \<noteq> []" "list_all publishable_path changed"
    then have "?checked" by (auto simp: read_to_def in_world_return)
    then show "?read (world (snd (delivered out gs ?path base body p v))) \<or> ?checked" ..
  qed (auto simp: read_to_def no_changes_world publication_path_def)
  then show ?thesis using False by (simp add: publish_one_world [OF assms])
qed


section \<open>Recorded outcomes\<close>

lemma update_publication_row:
  assumes "update_publication k status fs d = (Inr r, d')"
  shows "\<exists>p. publication_for_id d' k = Some (fold assign_field fs (p\<lparr>pb_status := status\<rparr>))"
proof -
  have one: "rowcount (\<lambda>r. pb_id r = k) (publications d) = 1"
    and d': "d' = d\<lparr>publications := update_where (\<lambda>r. pb_id r = k) (\<lambda>r. fold assign_field fs (r\<lparr>pb_status := status\<rparr>)) (publications d)\<rparr>"
    using assms by (auto simp: update_publication_def Let_def split: if_split_asm)
  from one have "filter (\<lambda>r. pb_id r = k) (publications d) \<noteq> []" by (auto simp: rowcount_def)
  then have "k \<in> pb_id ` set (publications d)" by (auto simp: filter_empty_conv)
  then obtain p where "publication_for_id d k = Some p" using lookup_None_iff by (metis not_None_eq)
  then show ?thesis by (auto simp: d' lookup_update_where)
qed

lemma deliver_changes_recorded:
  assumes "deliver_changes out gs path base body p s = (Inr u, s')" "in_hand p s"
  shows "\<exists>q n c. publication_for_id (store s') (pb_id p) = Some q \<and> pb_status q = COMPLETED
    \<and> pb_local_sha q \<noteq> None \<and> pb_remote_sha q \<noteq> None \<and> pb_pr_number q = Some n \<and> pb_comment q = Some c
    \<and> mapped_thread (store s') (pb_repo_id p) n = Some (pb_thread p)"
proof -
  obtain p1 sha s1 p2 s2 repo p3 n s3 where a: "commit_stage out gs path base p s = (Inr (p1, sha), s1)"
    and b: "push_stage out path sha p1 s1 = (Inr p2, s2)" and c: "pull_stage out repo body p2 s2 = (Inr (p3, n), s3)"
    and e: "comment_stage out repo n p3 s3 = (Inr u, s')"
    using assms(1) by (auto simp: deliver_changes_def and_then_return_iff)
  note r1 = commit_stage_return [OF a assms(2)]
  note r2 = push_stage_return [OF b conjunct1 [OF r1]]
  note r3 = pull_stage_return [OF c conjunct1 [OF r2]]
  have "mapped_thread (store s') = mapped_thread (store s3)" "pb_id p3 = pb_id p" "pb_thread p2 = pb_thread p" "pb_repo_id p2 = pb_repo_id p"
    using comment_stage_return [OF e conjunct1 [OF r3]] r1 r2 r3
    by (auto simp: mapped_thread_def fun_eq_iff same_publication_def)
  with comment_stage_return [OF e conjunct1 [OF r3]] r1 r2 r3 show ?thesis by auto
qed

definition recorded :: "publication_row \<Rightarrow> publication_result \<Rightarrow> db \<Rightarrow> bool" where
  "recorded p r d = (case px_status r of
      O_COMPLETED \<Rightarrow> \<exists>q n c. publication_for_id d (pb_id p) = Some q \<and> pb_status q = COMPLETED
        \<and> pb_local_sha q \<noteq> None \<and> pb_remote_sha q \<noteq> None \<and> pb_pr_number q = Some n \<and> pb_comment q = Some c
        \<and> mapped_thread d (pb_repo_id p) n = Some (pb_thread p)
    | O_NO_CHANGES \<Rightarrow> \<exists>q. publication_for_id d (pb_id p) = Some q \<and> pb_status q = NO_CHANGES
    | O_FAILED \<Rightarrow> \<exists>q. publication_for_id d (pb_id p) = Some q \<and> pb_status q = P_FAILED \<and> pb_error q = px_error r
    | _ \<Rightarrow> False)"

lemma publish_recorded:
  assumes "in_hand p s" "publish sha out ew gs p s = (Inr r, s')"
  shows "recorded p r (store s')"
proof -
  let ?path = "publication_path out (store s) p"
  have "\<forall>r. fst (publish sha out ew gs p s) = Inr r \<longrightarrow> recorded p r (store (snd (publish sha out ew gs p s)))"
  proof (rule publish_gate [where P = "\<lambda>x. \<forall>r. fst x = Inr r \<longrightarrow> recorded p r (store (snd x))" and path = ?path])
    have hand: "in_hand p v" if "read_to out ?path s v" for v
      using that assms(1) by (simp add: in_hand_def read_to_def)
    show "\<forall>r. fst (no_changes p u) = Inr r \<longrightarrow> recorded p r (store (snd (no_changes p u)))" if "read_to out ?path s u" for u
    proof (intro allI impI)
      fix r
      assume "fst (no_changes p u) = Inr r"
      then obtain q v where "record_step (pb_id p) NO_CHANGES [] u = (Inr q, v)"
        and r: "no_changes p u = (Inr (publication_result O_NO_CHANGES p None), v)" "r = publication_result O_NO_CHANGES p None"
        by (cases "record_step (pb_id p) NO_CHANGES [] u"; cases "fst (record_step (pb_id p) NO_CHANGES [] u)")
          (auto simp: no_changes_def)
      from record_step_effect [OF this(1) hand [OF that]] r show "recorded p r (store (snd (no_changes p u)))"
        by (simp add: recorded_def publication_result_def in_hand_def)
    qed
    show "\<forall>r. fst (delivered out gs ?path base body p v) = Inr r \<longrightarrow>
        recorded p r (store (snd (delivered out gs ?path base body p v)))" if "read_to out ?path s v" for base body v
    proof (cases "deliver_changes out gs ?path base body p v")
      case (Pair a w)
      then show ?thesis
        using deliver_changes_recorded [OF _ hand [OF that], of out gs ?path base body _ w]
        by (cases a) (simp_all add: recorded_def publication_result_def)
    qed
  qed (simp_all add: publication_path_def)
  then show ?thesis using assms(2) by simp
qed

text \<open>
  What the publisher reports is what the store has. A completed publication is recorded with its
  commits, its pull request and its comment, and the pull request is mapped to the thread; a
  publication without changes or with an error is recorded as such, the error included; a busy
  thread changes nothing.
\<close>

theorem outcome_is_recorded:
  assumes "next_publication sha (ew_target ew) (ew_waiting ew) k (store s) = (Inr (Some p), d)"
    and "publish_one sha out ew gs locked k s = (Inr r, s')"
  shows "case px_status r of
      O_COMPLETED \<Rightarrow> \<exists>q n c. publication_for_id (store s') (pb_id p) = Some q \<and> pb_status q = COMPLETED
        \<and> pb_local_sha q \<noteq> None \<and> pb_remote_sha q \<noteq> None \<and> pb_pr_number q = Some n \<and> pb_comment q = Some c
        \<and> mapped_thread (store s') (pb_repo_id p) n = Some (pb_thread p)
    | O_NO_CHANGES \<Rightarrow> \<exists>q. publication_for_id (store s') (pb_id p) = Some q \<and> pb_status q = NO_CHANGES
    | O_FAILED \<Rightarrow> \<exists>q. publication_for_id (store s') (pb_id p) = Some q \<and> pb_status q = P_FAILED \<and> pb_error q = px_error r
    | BUSY \<Rightarrow> s' = s\<lparr>store := d\<rparr>
    | NO_WORK \<Rightarrow> False"
proof (cases "locked (pb_thread p)")
  case True
  then show ?thesis using assms by (auto simp: publish_one_def in_store_def publication_result_def)
next
  case False
  let ?s = "s\<lparr>store := d\<rparr>"
  have hand: "in_hand p ?s" using next_publication_in_hand(1) [OF assms(1)] by (simp add: in_hand_def)
  have "recorded p r (store s')"
  proof (cases "publish sha out ew gs p ?s")
    case (Pair a t)
    show ?thesis
    proof (cases a)
      case (Inr x)
      then have "x = r" "t = s'" using assms False Pair by (simp_all add: publish_one_def in_store_def)
      with publish_recorded [OF hand, of sha out ew gs] Pair Inr show ?thesis by simp
    next
      case (Inl e)
      then obtain u where "in_store (update_publication (pb_id p) P_FAILED [Error_Message (Some (error_text e))]) t = (Inr u, s')"
        and r: "r = publication_result O_FAILED p (Some (error_text e))"
        using assms False Pair by (auto simp: publish_one_def and_then_return_iff in_store_return in_store_def [of "next_publication _ _ _ _"])
      then obtain d' where "update_publication (pb_id p) P_FAILED [Error_Message (Some (error_text e))] (store t) = (Inr u, d')"
        "s' = t\<lparr>store := d'\<rparr>"
        by (auto simp: in_store_return)
      with update_publication_row [OF this(1)] r show ?thesis by (auto simp: recorded_def publication_result_def)
    qed
  qed
  then show ?thesis by (auto simp: recorded_def split: outcome.splits)
qed

section \<open>Pushes go forward only\<close>

fun quiet_call :: "outside_call \<Rightarrow> bool" where
  "quiet_call (Git dir args) = reading args"
| "quiet_call (Git_Auth dir token args) = (args \<noteq> [] \<and> hd args = ''ls-remote'')"
| "quiet_call c = False"

text \<open>
  A push goes forward only. Unless the remote branch is missing or its head is an ancestor of the
  commit to publish, the publisher only reads the remote and refuses.
\<close>

theorem push_goes_forward:
  shows "moved out quiet_call w (snd (push_branch out path remote branch local_sha token w))
    \<or> (\<exists>listed w1. remote_head out path remote branch token w = (Inr listed, w1) \<and> (first_word listed = []
        \<or> gr_code (fst (run_git out path [''merge-base'', ''--is-ancestor'', first_word listed, local_sha] w1)) = 0))"
proof (cases "remote_head out path remote branch token w")
  case (Pair r w1)
  have "moved out quiet_call w w1"
    using git_auth_moved [of quiet_call path token "[''ls-remote'', ''--heads'', remote, branch_ref branch]" out w] Pair
    by (simp add: remote_head_def)
  moreover from this have "moved out quiet_call w (snd (run_git out path [''merge-base'', ''--is-ancestor'', a, b] w1))" for a b
    using moved_one [of quiet_call "Git path [''merge-base'', ''--is-ancestor'', a, b]" out w1]
    by (auto intro: moved_trans)
  ultimately show ?thesis
    using Pair by (cases r) (auto simp: push_branch_def Let_def split_beta)
qed

section \<open>Published work is accepted work\<close>

text \<open>
  C7. Published work is accepted work. When the publisher has done more than read for a thread of the
  declarative workflow, then at that moment the thread has a publication target and the cycle of that
  target is eligible: every task is DONE under an approved plan of the recorded digest, executed under
  its permit, validated with ACCEPT and approved in the thread's mode.
\<close>

theorem published_work_is_accepted:
  assumes "next_publication sha (ew_target ew) (ew_waiting ew) k (store s) = (Inr (Some p), d)"
    and "\<not> moved out (read_call (publication_path out d p)) (world s) (world (snd (publish_one sha out ew gs locked k s)))"
    and "has_declarative d (pb_thread p)" "tables_ok d" "one_live_permit d"
  shows "\<exists>t c. declarative_publication_target sha d (pb_thread p) = Some t \<and> pt_id t = pb_id p
    \<and> pt_workflow_cycle t = Some c \<and> publication_is_eligible sha d c = Inr True"
proof -
  have "publication_is_current sha (ew_target ew) d (pb_id p)"
    using publish_one_gate [OF assms(1), of out gs locked] assms(2) by blast
  then obtain t where "target_of sha (ew_target ew) d (pb_thread p) = Some t" "pt_id t = pb_id p"
    by (auto simp: publication_is_current_def next_publication_in_hand(1) [OF assms(1)])
  then have "declarative_publication_target sha d (pb_thread p) = Some t"
    using assms(3) by (simp add: target_of_def split: option.split_asm)
  with target_is_eligible [OF this assms(4,5)] \<open>pt_id t = pb_id p\<close> show ?thesis by blast
qed

section \<open>A publication from the first commit to the comment\<close>

text \<open>
  A world that counts what was done to it: 0 nothing, 1 committed, 2 pushed, 3 with a pull request,
  4 with a comment.
\<close>

definition said :: "string \<Rightarrow> git_result" where
  "said s = \<lparr>gr_code = 0, gr_out = s, gr_err = []\<rparr>"

definition demo_git :: "string \<Rightarrow> string list \<Rightarrow> nat \<Rightarrow> git_result \<times> nat" where
  "demo_git path args w =
    (if args = [''branch'', ''--show-current''] then (said ''branch'', w)
     else if args = [''rev-parse'', ''HEAD''] then (said (if w = 0 then ''base'' else ''c1''), w)
     else if args = [''status'', ''--porcelain''] then (said (if w = 0 then '' M src/f.py'' else []), w)
     else if hd args = ''diff'' then (said (''src/f.py'' @ [zero_byte]), w)
     else if hd args = ''-c'' then (said [], max 1 w)
     else (said [], w))"

definition demo_remote :: "string \<Rightarrow> string \<Rightarrow> string list \<Rightarrow> nat \<Rightarrow> git_result \<times> nat" where
  "demo_remote path token args w =
    (if hd args = ''push'' then (said [], max 2 w) else (said (if w < 2 then [] else ''c1 refs/heads/branch''), w))"

definition demo_outside :: "nat outside" where
  "demo_outside = \<lparr>list_comments = \<lambda>w cv. Inr [],
     create_comment = \<lambda>cv body w. return \<lparr>cm_id = 77, cm_body = Some body, cm_created = None\<rparr> (max 4 w),
     run_git = demo_git, run_git_auth = demo_remote, process_error = \<lambda>args n. [], real_path = \<lambda>p. p,
     directory = \<lambda>w p. True, remote_url = \<lambda>n. Inr (''https://github.com/'' @ n @ ''.git''),
     write_token = \<lambda>w n. Inr ''secret'',
     repository_named = \<lambda>w n. Inr \<lparr>rr_id = 1, rr_full_name = n, rr_default_branch = ''main''\<rparr>,
     pull_requests = \<lambda>w repo head base. Inr [],
     create_pull_request = \<lambda>repo head base title body w. return \<lparr>pu_number = 9, pu_url = None\<rparr> (max 3 w)\<rparr>"

text \<open>A thread of the earlier workflow that waits for its publication.\<close>

definition earlier_demo :: earlier_workflow where
  "earlier_demo = \<lparr>ew_target = \<lambda>d k. Some \<lparr>pt_id = ''publication-e'', pt_event = ''e0'', pt_thread = ''t'',
       pt_cycle_id = 1, pt_root_input = ''e0'', pt_repo_id = 1, pt_repo_full_name = ''o/r'', pt_issue_number = 7,
       pt_branch = ''branch'', pt_plan = ''p'', pt_plan_version = 1, pt_attempt = ''a'', pt_review = ''r'',
       pt_completed_at = ''1'', pt_workflow_cycle = None, pt_declarative = False\<rparr>,
     ew_waiting = [''t''],
     ew_execution = \<lambda>d p. Some \<lparr>xe_succeeded = True, xe_start = Some ''base'', xe_end = Some ''base'', xe_dirty = True,
       xe_response = Some ''fixed''\<rparr>\<rparr>"

definition demo_settings :: publisher_settings where
  "demo_settings = \<lparr>gs_name = ''SWEForge'', gs_email = ''sweforge@users.noreply.github.com''\<rparr>"

definition demo_stage :: "nat stage" where
  "demo_stage = \<lparr>world = 0, store = demo_0\<lparr>events := [demo_event ''e0'' ''0'' ''@agent build'']\<rparr>\<rparr>"

abbreviation demo_publish :: "(err + publication_result) \<times> nat stage" where
  "demo_publish \<equiv> publish_one example_sha demo_outside earlier_demo demo_settings (\<lambda>_. False) None demo_stage"

abbreviation demo_next :: "(err + publication_row option) \<times> db" where
  "demo_next \<equiv> next_publication example_sha (ew_target earlier_demo) (ew_waiting earlier_demo) None (store demo_stage)"

definition demo_row :: publication_row where
  "demo_row = new_publication (the (ew_target earlier_demo (store demo_stage) ''t''))"

lemma demo_chosen: "demo_next = (Inr (Some demo_row), snd demo_next)"
  by code_simp

lemma demo_completes: "map_option px_status (case fst demo_publish of Inl e \<Rightarrow> None | Inr r \<Rightarrow> Some r) = Some O_COMPLETED"
  "world (snd demo_publish) = 4"
  by (code_simp, code_simp)

lemma demo_path: "publication_path demo_outside (snd demo_next) demo_row = ''/work/t''"
  by code_simp

lemma demo_reads: "moved demo_outside (read_call path) w w' \<Longrightarrow> w' = w"
proof (induction rule: moved.induct)
  case (goes c w w')
  then show ?case by (cases c) (auto simp: demo_outside_def demo_git_def reading_def)
qed simp



theorem outcome_is_recorded_witness:
  "\<exists>q. publication_for_id (store (snd demo_publish)) (pb_id demo_row) = Some q \<and> pb_status q = COMPLETED"
proof -
  obtain r where f: "fst demo_publish = Inr r" and r: "px_status r = O_COMPLETED"
    using demo_completes(1) by (auto split: sum.splits)
  then have "demo_publish = (Inr r, snd demo_publish)" by (metis prod.collapse)
  from outcome_is_recorded [OF demo_chosen this] r show ?thesis by auto
qed

text \<open>The accepted work of a declarative thread.\<close>

definition no_earlier :: earlier_workflow where
  "no_earlier = \<lparr>ew_target = \<lambda>d k. None, ew_waiting = [], ew_execution = \<lambda>d p. None\<rparr>"

lemma publication_rows_untouched:
  "executions (d\<lparr>publications := ps\<rparr>) = executions d" "results (d\<lparr>publications := ps\<rparr>) = results d"
  "approvals (d\<lparr>publications := ps\<rparr>) = approvals d" "threads (d\<lparr>publications := ps\<rparr>) = threads d"
  "workspaces (d\<lparr>publications := ps\<rparr>) = workspaces d" "revision_inputs (d\<lparr>publications := ps\<rparr>) = revision_inputs d"
  "plans (d\<lparr>publications := ps\<rparr>) = plans d" "permits (d\<lparr>publications := ps\<rparr>) = permits d"
  "validations (d\<lparr>publications := ps\<rparr>) = validations d" "events (d\<lparr>publications := ps\<rparr>) = events d"
  "deferred (d\<lparr>publications := ps\<rparr>) = deferred d" "lifecycles (d\<lparr>publications := ps\<rparr>) = lifecycles d"
  "cycles (d\<lparr>publications := ps\<rparr>) = cycles d" "tasks (d\<lparr>publications := ps\<rparr>) = tasks d"
  by simp_all

lemma publication_rows_unread:
  "current_plan (d\<lparr>publications := ps\<rparr>) = current_plan d"
  "last_validation (d\<lparr>publications := ps\<rparr>) = last_validation d"
  "live_permit_for (d\<lparr>publications := ps\<rparr>) = live_permit_for d"
  "authority_proof (d\<lparr>publications := ps\<rparr>) = authority_proof d"
  "task_runs (d\<lparr>publications := ps\<rparr>) = task_runs d"
  "publication_root (d\<lparr>publications := ps\<rparr>) = publication_root d"
  "initial_authority (d\<lparr>publications := ps\<rparr>) = initial_authority d"
  "latest_cycle (d\<lparr>publications := ps\<rparr>) = latest_cycle d"
  "has_declarative (d\<lparr>publications := ps\<rparr>) = has_declarative d"
  unfolding fun_eq_iff current_plan_def last_validation_def live_permit_for_def authority_proof_def task_runs_def
    publication_root_def initial_authority_def latest_cycle_def has_declarative_def publication_rows_untouched
  by (rule allI refl)+

lemma publication_rows_unread_tasks [simp]:
  "tasks_acceptance sha (d\<lparr>publications := ps\<rparr>) c root mode i xs acc = tasks_acceptance sha d c root mode i xs acc"
proof -
  have "task_acceptance sha (d\<lparr>publications := ps\<rparr>) = task_acceptance sha d"
    by (intro ext, unfold task_acceptance_def publication_rows_unread publication_rows_untouched) (rule refl)
  then show ?thesis by (induction xs arbitrary: i acc) (auto split: option.split)
qed

lemma publication_rows_unread_target [simp]:
  "declarative_publication_target sha (d\<lparr>publications := ps\<rparr>) th = declarative_publication_target sha d th"
  unfolding declarative_publication_target_def publishable_cycle_def publication_rows_unread publication_rows_untouched
    publication_rows_unread_tasks ..

lemma done_target:
  obtains t where "declarative_publication_target example_sha demo_done ''t'' = Some t"
    "pt_thread t = ''t''" "pt_event t = ''e0''" "pt_cycle_id t = 1" "pt_root_input t = ''e0''"
proof -
  have "map_option (\<lambda>t. (pt_thread t, pt_event t, pt_cycle_id t, pt_root_input t))
      (declarative_publication_target example_sha demo_done ''t'') = Some (''t'', ''e0'', 1, ''e0'')"
    by code_simp
  then obtain t where "declarative_publication_target example_sha demo_done ''t'' = Some t"
    "(pt_thread t, pt_event t, pt_cycle_id t, pt_root_input t) = (''t'', ''e0'', 1, ''e0'')"
    by (rule map_option_eq_Some [THEN iffD1, THEN exE]) (elim conjE, rule that)
  then show thesis by (intro that [of t]) auto
qed

lemma done_tables:
  "map cy_thread (filter (\<lambda>c. cy_status c = C_AWAITING_PUBLICATION) (cycles demo_done)) = [''t'']"
  "publications demo_done = []" "has ev_key ''e0'' (events demo_done)" "has th_id ''t'' (threads demo_done)"
  "workspaces demo_done = workspaces demo_0"
  "\<not> Option.is_none (find (\<lambda>c. cy_thread c = ''t'' \<and> cy_cycle_id c = 1 \<and> cy_root_input c = ''e0'') (cycles demo_done))"
  by (code_simp, code_simp, code_simp, code_simp, code_simp, code_simp)

lemma has_none: "\<not> has key k []"
  by simp

lemma done_chosen:
  assumes "declarative_publication_target example_sha demo_done ''t'' = Some t" "pt_thread t = ''t''" "pt_event t = ''e0''"
  shows "next_publication example_sha (ew_target no_earlier) (ew_waiting no_earlier) None demo_done =
    (Inr (Some (new_publication t)), demo_done\<lparr>publications := [new_publication t]\<rparr>)"
proof -
  have "publication_candidates example_sha (ew_target no_earlier) (ew_waiting no_earlier) demo_done None = [t]"
    using done_tables(1,2) assms(1)
    by (simp add: publication_candidates_def no_earlier_def target_of_def table_simps del: has_iff)
  then have "order_by (\<lambda>t. (pt_completed_at t, pt_id t))
      (publication_candidates example_sha (ew_target no_earlier) (ew_waiting no_earlier) demo_done None) = [t]"
    by (simp add: order_by_def)
  then show ?thesis
    using done_tables(2-4) assms has_none
    by (simp add: next_publication_def ensure_publication_def target_of_def insert_publication_def new_publication_def
        table_simps has_none del: has_iff)
qed

text \<open>A work tree whose index cannot be written: the first call that is not a read fails.\<close>

definition failing_outside :: "nat outside" where
  "failing_outside = demo_outside\<lparr>run_git := \<lambda>path args w.
     if hd args = ''add'' then (\<lparr>gr_code = 128, gr_out = [], gr_err = ''index.lock''\<rparr>, 1) else demo_git path args w\<rparr>"

lemma failing_reads: "moved failing_outside (read_call path) w w' \<Longrightarrow> w' = w"
proof (induction rule: moved.induct)
  case (goes c w w')
  then show ?case by (cases c) (auto simp: failing_outside_def demo_git_def reading_def)
qed simp

lemma failing_git:
  "git failing_outside path [''branch'', ''--show-current''] 0 = (Inr ''branch'', 0)"
  "git failing_outside path [''merge-base'', ''--is-ancestor'', base, ''HEAD''] 0 = (Inr [], 0)"
  "git_head failing_outside path 0 = (Inr ''base'', 0)"
  "git_status failing_outside path 0 = (Inr ''M src/f.py'', 0)"
  "changed_files failing_outside path ''base'' 0 = (Inr [''src/f.py''], 0)"
  by (code_simp, simp add: git_def failing_outside_def demo_git_def said_def strip_def, code_simp, code_simp, code_simp)

lemma failing_deliver:
  assumes "world s = 0" "pb_local_sha p = None"
  shows "world (snd (deliver_changes failing_outside gs path ''base'' body p s)) = 1"
proof -
  have "git failing_outside path [''add'', ''-A'', ''--'', ''.''] 0 = (Inl (WorkspaceError ''git operation failed: index.lock''), 1)"
    by code_simp
  then have "commit_tree failing_outside gs path n 0 = (Inl (WorkspaceError ''git operation failed: index.lock''), 1)" for n
    by (simp add: commit_tree_def failing_git)
  then show ?thesis using assms by (simp add: deliver_changes_def commit_stage_def in_world_def)
qed

lemma failing_publish:
  assumes "publication_is_current sha legacy d (pb_id p)" "declarative_publication_summary d (pb_id p) = Some summary"
    and "workspace_of d (pb_thread p) = Some ws" "wk_branch ws = ''branch''" "wk_base ws = ''base''" "pb_local_sha p = None"
    and "ew_target ew = legacy"
  shows "world (snd (publish sha failing_outside ew gs p \<lparr>world = 0, store = d\<rparr>)) = 1"
proof -
  have m: "material_of failing_outside ew ws p \<lparr>world = 0, store = d\<rparr> =
      (Inr \<lparr>ma_declarative = True, ma_start = ''base'', ma_end = ''base'', ma_dirty = False, ma_body = summary\<rparr>,
       \<lparr>world = 0, store = d\<rparr>)"
    using assms(2,4,5)
    by (simp add: material_of_def verify_workspace_def in_world_def failing_git on_error_def declarative_material_def)
  have w: "publishable_workspace failing_outside ew p \<lparr>world = 0, store = d\<rparr> = Inr ws"
    using assms(2,3) by (simp add: publishable_workspace_def failing_outside_def demo_outside_def)
  have v: "\<not> credential_path ''src/f.py''" "\<not> unsafe_path ''src/f.py''" by (code_simp, code_simp)
  show ?thesis
    using assms failing_deliver [of "\<lparr>world = 0, store = d\<rparr>" p gs "real_path failing_outside (wk_path ws)" summary]
    by (simp add: publish_def on_error_def w m in_world_def failing_git publish_tree_def v delivered_world)
qed

theorem published_work_is_accepted_witness:
  "\<exists>d t c. declarative_publication_target example_sha d ''t'' = Some t
    \<and> pt_workflow_cycle t = Some c \<and> publication_is_eligible example_sha d c = Inr True"
proof -
  obtain t where t: "declarative_publication_target example_sha demo_done ''t'' = Some t"
    "pt_thread t = ''t''" "pt_event t = ''e0''" "pt_cycle_id t = 1" "pt_root_input t = ''e0''"
    by (rule done_target)
  let ?p = "new_publication t" and ?d = "demo_done\<lparr>publications := [new_publication t]\<rparr>"
    and ?s = "\<lparr>world = 0, store = demo_done\<rparr> :: nat stage"
  have p: "pb_thread ?p = ''t''" "pb_local_sha ?p = None" "pb_id ?p = pt_id t" "pb_cycle_id ?p = 1" "pb_root_input ?p = ''e0''"
    using t by (simp_all add: new_publication_def)
  note chosen = done_chosen [OF t(1-3)]
  have l: "lookup pb_id (pt_id t) [new_publication t] = Some ?p" by (simp add: table_simps p)
  have cur: "publication_is_current example_sha (ew_target no_earlier) ?d (pb_id ?p)"
    using t(1) by (simp add: publication_is_current_def l p target_of_def)
  obtain c where c: "find (\<lambda>c. cy_thread c = ''t'' \<and> cy_cycle_id c = 1 \<and> cy_root_input c = ''e0'') (cycles demo_done) = Some c"
    using done_tables(6) by (auto simp: Option.is_none_def)
  obtain summary where sum: "declarative_publication_summary ?d (pb_id ?p) = Some summary"
    by (simp add: declarative_publication_summary_def l p c [simplified])
  obtain ws where ws: "workspace_of ?d (pb_thread ?p) = Some ws" "wk_branch ws = ''branch''" "wk_base ws = ''base''"
    by (simp add: p done_tables(5) demo_0_def table_simps)
  have one: "world (snd (publish example_sha failing_outside no_earlier demo_settings ?p \<lparr>world = 0, store = ?d\<rparr>)) = 1"
    by (rule failing_publish [OF cur sum ws p(2) refl])
  have chosen': "next_publication example_sha (ew_target no_earlier) (ew_waiting no_earlier) None (store ?s) = (Inr (Some ?p), ?d)"
    using chosen by simp
  have "\<not> moved failing_outside (read_call (publication_path failing_outside ?d ?p)) (world ?s)
      (world (snd (publish_one example_sha failing_outside no_earlier demo_settings (\<lambda>_. False) None ?s)))"
    using failing_reads one by (fastforce simp: publish_one_world [OF chosen'])
  moreover have "has_declarative ?d (pb_thread ?p)"
    using c by (auto simp: has_declarative_def p list_ex_iff find_Some_iff)
  moreover have "tables_ok ?d" using demo_done_tables by (simp add: tables_defs)
  moreover have "one_live_permit demo_done" by code_simp
  then have "one_live_permit ?d" by (simp add: one_live_permit_def)
  ultimately show ?thesis
    using published_work_is_accepted [OF chosen'] p(1) by metis
qed

end
