(* ===== verification/Memory.thy ===== *)
theory Memory
  imports Delivery
begin

text \<open>
  Repository memory (\<open>repo_memory.py\<close>, \<open>memory_learning.py\<close>): the memory file of a repository in the
  key-value store, the candidates for it with the evidence they cite, their validation against the
  work tree, and the append of the novel ones. The file system is the argument \<open>worktree\<close>; the
  lock around an append is not modelled.
\<close>

section \<open>The memory file\<close>

text \<open>
  The store maps a namespace and a key to a value; of the value only the entry \<open>content\<close> is read,
  which is \<open>None\<close> when it is missing or no string.
\<close>

type_synonym memory_store = "string list \<times> string \<Rightarrow> string option option"

abbreviation stored :: "string option \<Rightarrow> string option option" where
  "stored \<equiv> Some"

definition MEMORY_STORE_KEY :: string where
  "MEMORY_STORE_KEY = ''/AGENTS.md''"

definition LEGACY_MEMORY_STORE_KEY :: string where
  "LEGACY_MEMORY_STORE_KEY = ''/memories/AGENTS.md''"

definition DEFAULT_MEMORY_CONTENT :: string where
  "DEFAULT_MEMORY_CONTENT = ''# SWEForge Repository Memory'' @ newline"

definition repo_memory_namespace :: "int \<Rightarrow> string list" where
  "repo_memory_namespace repo_id = [''sweforge'', ''repo'', show_int repo_id, ''memory'']"

definition repo_skills_namespace :: "int \<Rightarrow> string option \<Rightarrow> string list" where
  "repo_skills_namespace repo_id generation =
     [''sweforge'', ''repo'', show_int repo_id, ''skills''] @
     (case generation of None \<Rightarrow> [] | Some g \<Rightarrow> if g = [] then [] else [g])"

definition ensure_repo_memory :: "string list \<Rightarrow> memory_store \<Rightarrow> memory_store" where
  "ensure_repo_memory ns m =
    (if m (ns, MEMORY_STORE_KEY) \<noteq> None then m
     else
       let earlier = (if length ns = 4 \<and> last ns = ''memory''
             then (case m (butlast ns, MEMORY_STORE_KEY) of
                     Some v \<Rightarrow> Some v | None \<Rightarrow> m (butlast ns, LEGACY_MEMORY_STORE_KEY))
             else None)
       in case (case m (ns, LEGACY_MEMORY_STORE_KEY) of Some v \<Rightarrow> Some v | None \<Rightarrow> earlier) of
            Some v \<Rightarrow> m((ns, MEMORY_STORE_KEY) := Some v)
          | None \<Rightarrow> m((ns, MEMORY_STORE_KEY) := stored (Some DEFAULT_MEMORY_CONTENT)))"

definition read_repo_memory :: "string list \<Rightarrow> memory_store \<Rightarrow> string option" where
  "read_repo_memory ns m = (case m (ns, MEMORY_STORE_KEY) of None \<Rightarrow> None | Some v \<Rightarrow> v)"

definition write_repo_memory :: "string list \<Rightarrow> string \<Rightarrow> memory_store \<Rightarrow> memory_store" where
  "write_repo_memory ns content m = m((ns, MEMORY_STORE_KEY) := stored (Some content))"

definition ends_line :: "string \<Rightarrow> bool" where
  "ends_line s = (s \<noteq> [] \<and> last s = CHR 0x0A)"

definition append_repo_memory :: "string list \<Rightarrow> string \<Rightarrow> memory_store \<Rightarrow> memory_store" where
  "append_repo_memory ns text m =
    (let m1 = ensure_repo_memory ns m;
         current = (case read_repo_memory ns m1 of None \<Rightarrow> DEFAULT_MEMORY_CONTENT | Some c \<Rightarrow> c);
         separator = (if current = [] \<or> ends_line current then [] else newline);
         suffix = (if ends_line text then [] else newline)
     in write_repo_memory ns (current @ separator @ text @ suffix) m1)"

section \<open>Secrets\<close>

text \<open>
  \<open>SECRET_RE.search\<close>, without regard to case: a key word, a colon or equals sign and a value; the header
  of a private key; or a key that starts with \<open>sk-\<close>.
\<close>

definition KEY_WORDS :: "string list" where
  "KEY_WORDS = [''apikey'', ''api_key'', ''api-key'', ''password'', ''secret'', ''token'']"

definition assigned_value :: "string \<Rightarrow> bool" where
  "assigned_value s =
    (case dropWhile is_space s of
       [] \<Rightarrow> False
     | c # cs \<Rightarrow> c \<in> {CHR '':'', CHR ''=''} \<and> dropWhile is_space cs \<noteq> [])"

fun key_header_rest :: "string \<Rightarrow> bool" where
  "key_header_rest [] = False"
| "key_header_rest (c # cs) =
     ((is_alpha c \<or> c = CHR '' '') \<and> (starts_with cs '' private key-----'' \<or> key_header_rest cs))"

definition alphanumeric :: "char \<Rightarrow> bool" where
  "alphanumeric c = (is_alpha c \<or> is_digit c)"

definition secret_here :: "string \<Rightarrow> bool" where
  "secret_here s =
    (list_ex (\<lambda>w. starts_with s w \<and> assigned_value (drop (length w) s)) KEY_WORDS
     \<or> starts_with s ''-----begin '' \<and> key_header_rest (drop 11 s)
     \<or> starts_with s ''sk-'' \<and> 20 \<le> length (takeWhile alphanumeric (drop 3 s)))"

fun secret_in :: "string \<Rightarrow> bool" where
  "secret_in [] = secret_here []"
| "secret_in (c # cs) = (secret_here (c # cs) \<or> secret_in cs)"

definition has_secret :: "string \<Rightarrow> bool" where
  "has_secret s = secret_in (map lower s)"

section \<open>Candidates and their evidence\<close>

definition MAX_CANDIDATES :: nat where "MAX_CANDIDATES = 100"
definition MAX_EXCERPT_CHARS :: nat where "MAX_EXCERPT_CHARS = 2000"

record evidence =
  en_path :: string
  en_start :: int
  en_end :: int
  en_hash :: string
  en_excerpt :: string

record candidate =
  ca_id :: string
  ca_category :: string
  ca_fact :: string
  ca_evidence :: "evidence list"
  ca_reason :: string

text \<open>The constraints of the pydantic fields, whose violation is a \<open>ValueError\<close>.\<close>

definition text_field :: "nat \<Rightarrow> string \<Rightarrow> bool" where
  "text_field n s = (1 \<le> length s \<and> length s \<le> n)"

definition hash_field :: "string \<Rightarrow> bool" where
  "hash_field s = (length s = 64 \<and> list_all (\<lambda>c. is_digit c \<or> c \<in> {CHR ''a'', CHR ''b'', CHR ''c'', CHR ''d'', CHR ''e'', CHR ''f''}) s)"

definition valid_evidence :: "evidence \<Rightarrow> bool" where
  "valid_evidence e = (text_field 500 (en_path e) \<and> 1 \<le> en_start e \<and> 1 \<le> en_end e \<and> hash_field (en_hash e)
     \<and> text_field MAX_EXCERPT_CHARS (en_excerpt e))"

definition valid_candidate :: "candidate \<Rightarrow> bool" where
  "valid_candidate c = (text_field 120 (ca_id c) \<and> text_field 40 (ca_category c) \<and> text_field 1000 (ca_fact c)
     \<and> 1 \<le> length (ca_evidence c) \<and> length (ca_evidence c) \<le> 10 \<and> list_all valid_evidence (ca_evidence c)
     \<and> text_field 500 (ca_reason c))"

text \<open>
  The work tree: whether a relative path resolves to a place below its root, the lines of a text
  file, and Git's list of changed files and diff against the base of the lifecycle.
\<close>

record worktree =
  wt_inside :: "string \<Rightarrow> bool"
  wt_lines :: "string \<Rightarrow> err + string list"
  wt_changed :: "string option \<Rightarrow> err + string list"
  wt_diff :: "string option \<Rightarrow> err + string"

definition safe_lines :: "worktree \<Rightarrow> string \<Rightarrow> err + string list" where
  "safe_lines wt path =
    (if starts_with path ''/'' \<or> ''..'' \<in> set (posix_parts path)
     then Inl (ValueError ''memory evidence path escapes the repository'')
     else if \<not> wt_inside wt path then Inl (ValueError ''path is not in the subpath of the work tree'')
     else wt_lines wt path)"

text \<open>\<open>lines[start - 1 : end]\<close> for a start of at least one.\<close>

definition line_range :: "string list \<Rightarrow> int \<Rightarrow> int \<Rightarrow> string" where
  "line_range ls start stop = join newline (drop (nat (start - 1)) (take (nat stop) ls))"

abbreviation fold_case :: "string \<Rightarrow> string" where
  "fold_case \<equiv> map lower"

definition memory_entry_id :: "digest \<Rightarrow> int \<Rightarrow> string \<Rightarrow> string \<Rightarrow> string list \<Rightarrow> string" where
  "memory_entry_id sha repo_id category text hashes =
     take 24 (sha (join nul (show_int repo_id # fold_case category # fold_case text # sort hashes)))"

definition candidate_from_proposal ::
  "digest \<Rightarrow> int \<Rightarrow> worktree \<Rightarrow> string \<Rightarrow> string \<Rightarrow> string \<Rightarrow> string \<Rightarrow> int \<Rightarrow> int \<Rightarrow> err + candidate" where
  "candidate_from_proposal sha repo_id wt category text reason path start stop =
     bindE (safe_lines wt path) (\<lambda>ls.
       if start < 1 \<or> stop < start then Inl (ValueError ''memory evidence range is inverted'')
       else if int (length ls) < stop then Inl (ValueError ''memory evidence range is outside the file'')
       else
         let excerpt = line_range ls start stop;
             c = \<lparr>ca_id = memory_entry_id sha repo_id category text [sha excerpt], ca_category = category, ca_fact = text,
                  ca_evidence = [\<lparr>en_path = path, en_start = start, en_end = stop, en_hash = sha excerpt,
                    en_excerpt = take MAX_EXCERPT_CHARS excerpt\<rparr>], ca_reason = reason\<rparr>
         in if blank excerpt then Inl (ValueError ''memory evidence range is empty'')
            else if has_secret excerpt then Inl (ValueError ''memory evidence appears to contain a secret'')
            else if \<not> valid_candidate c then Inl (ValueError ''validation error for RepoMemoryCandidate'')
            else Inr c)"

section \<open>Validation\<close>

definition validate_evidence :: "digest \<Rightarrow> worktree \<Rightarrow> evidence \<Rightarrow> err + unit" where
  "validate_evidence sha wt e =
     (if starts_with (en_path e) ''/'' \<or> ''..'' \<in> set (posix_parts (en_path e))
      then Inl (ValueError ''memory evidence path escapes the repository'')
      else if \<not> wt_inside wt (en_path e) then Inl (ValueError ''path is not in the subpath of the work tree'')
      else if en_end e < en_start e then Inl (ValueError ''memory evidence range is inverted'')
      else bindE (wt_lines wt (en_path e)) (\<lambda>ls.
        if int (length ls) < en_end e then Inl (ValueError ''memory evidence range is outside the file'')
        else
          let actual = line_range ls (en_start e) (en_end e)
          in if sha actual \<noteq> en_hash e then Inl (ValueError ''memory evidence content hash does not match'')
             else if take MAX_EXCERPT_CHARS actual \<noteq> take MAX_EXCERPT_CHARS (en_excerpt e)
             then Inl (ValueError ''memory evidence excerpt does not match'')
             else if has_secret actual \<or> has_secret (en_excerpt e)
             then Inl (ValueError ''memory evidence appears to contain a secret'')
             else Inr ()))"

fun validate_all :: "digest \<Rightarrow> worktree \<Rightarrow> evidence list \<Rightarrow> err + unit" where
  "validate_all sha wt [] = Inr ()"
| "validate_all sha wt (e # es) = bindE (validate_evidence sha wt e) (\<lambda>_. validate_all sha wt es)"

definition validate_candidate :: "digest \<Rightarrow> worktree \<Rightarrow> candidate \<Rightarrow> err + unit" where
  "validate_candidate sha wt c =
    (if has_secret (ca_fact c) \<or> has_secret (ca_reason c)
     then Inl (ValueError ''memory candidate appears to contain a secret'')
     else if blank (ca_fact c) \<or> starts_with (strip (ca_fact c)) ''I '' \<or> starts_with (strip (ca_fact c)) ''We ''
     then Inl (ValueError ''memory candidate is task-specific or empty'')
     else validate_all sha wt (ca_evidence c))"

text \<open>
  The exceptions that reject one candidate: \<open>OSError\<close>, \<open>UnicodeError\<close> and \<open>ValueError\<close>; the file
  system raises the first two as errors of code outside the model.
\<close>

fun rejects :: "err \<Rightarrow> bool" where
  "rejects (ValueError s) = True"
| "rejects (Other_Error c s) = (c \<in> {''OSError'', ''FileNotFoundError'', ''IsADirectoryError'', ''NotADirectoryError'',
     ''PermissionError'', ''UnicodeError'', ''UnicodeDecodeError''})"
| "rejects (PermissionError s) = True"
| "rejects e = False"

section \<open>Applying candidates\<close>

datatype learning_status = L_UPDATED | L_NO_UPDATE | L_FAILED

record learning_result =
  lr_status :: learning_status
  lr_accepted :: nat
  lr_rejected :: nat
  lr_error :: "string option"
  lr_validated :: "string list"
  lr_rejected_ids :: "string list"

definition learning_result :: "learning_status \<Rightarrow> learning_result" where
  "learning_result s = \<lparr>lr_status = s, lr_accepted = 0, lr_rejected = 0, lr_error = None, lr_validated = [], lr_rejected_ids = []\<rparr>"

text \<open>\<open>str.splitlines\<close>.\<close>

definition line_break :: "char \<Rightarrow> bool" where
  "line_break c = (c \<in> {CHR 0x0A, CHR 0x0B, CHR 0x0C, CHR 0x0D, CHR 0x1C, CHR 0x1D, CHR 0x1E, CHR 0x85})"

fun lines_from :: "string \<Rightarrow> string \<Rightarrow> string list" where
  "lines_from acc [] = (if acc = [] then [] else [rev acc])"
| "lines_from acc [c] = (if line_break c then [rev acc] else [rev (c # acc)])"
| "lines_from acc (c # d # cs) =
    (if c = CHR 0x0D \<and> d = CHR 0x0A then rev acc # lines_from [] cs
     else if line_break c then rev acc # lines_from [] (d # cs)
     else lines_from (c # acc) (d # cs))"

abbreviation splitlines :: "string \<Rightarrow> string list" where
  "splitlines \<equiv> lines_from []"

text \<open>\<open>re.findall(r"sweforge-memory-entry:([0-9a-f]+)", text)\<close>, with fuel for the characters left.\<close>

definition ENTRY_MARK :: string where
  "ENTRY_MARK = ''sweforge-memory-entry:''"

definition hex_char :: "char \<Rightarrow> bool" where
  "hex_char c = (is_digit c \<or> c \<in> {CHR ''a'', CHR ''b'', CHR ''c'', CHR ''d'', CHR ''e'', CHR ''f''})"

fun entry_ids :: "nat \<Rightarrow> string \<Rightarrow> string list" where
  "entry_ids 0 s = []"
| "entry_ids (Suc n) [] = []"
| "entry_ids (Suc n) (c # cs) =
    (let k = takeWhile hex_char (drop (length ENTRY_MARK) (c # cs))
     in if starts_with (c # cs) ENTRY_MARK \<and> k \<noteq> []
        then k # entry_ids n (drop (length ENTRY_MARK + length k) (c # cs))
        else entry_ids n cs)"

definition recorded_ids :: "string \<Rightarrow> string list" where
  "recorded_ids s = entry_ids (length s) s"

definition section_text :: "candidate \<Rightarrow> string" where
  "section_text c = ''- ['' @ ca_category c @ ''] '' @ strip (ca_fact c) @ newline @
     ''<!-- '' @ ENTRY_MARK @ ca_id c @ '' -->''"

definition novel :: "string \<Rightarrow> candidate \<Rightarrow> bool" where
  "novel current c =
    (ca_id c \<notin> set (recorded_ids current) \<and>
     \<not> list_ex (\<lambda>l. has_infix (fold_case (strip (ca_fact c))) (fold_case (strip l))) (splitlines current))"

text \<open>
  Every candidate is validated; an exception other than those that reject a candidate leaves the loop.
\<close>

fun screen_candidates ::
  "digest \<Rightarrow> worktree \<Rightarrow> candidate list \<Rightarrow> candidate list \<times> string list \<Rightarrow> err + candidate list \<times> string list" where
  "screen_candidates sha wt [] acc = Inr acc"
| "screen_candidates sha wt (c # cs) (accepted, rejected) =
    (case validate_candidate sha wt c of
       Inr _ \<Rightarrow> screen_candidates sha wt cs (accepted @ [c], rejected)
     | Inl e \<Rightarrow> if rejects e then screen_candidates sha wt cs (accepted, rejected @ [ca_id c]) else Inl e)"

definition current_memory :: "int \<Rightarrow> memory_store \<Rightarrow> string" where
  "current_memory repo_id m =
    (case read_repo_memory (repo_memory_namespace repo_id) m of
       None \<Rightarrow> DEFAULT_MEMORY_CONTENT
     | Some c \<Rightarrow> if c = [] then DEFAULT_MEMORY_CONTENT else c)"

definition apply_memory_candidates ::
  "digest \<Rightarrow> int \<Rightarrow> worktree \<Rightarrow> candidate list \<Rightarrow> (memory_store, learning_result) op" where
  "apply_memory_candidates sha repo_id wt cs m =
    (if MAX_CANDIDATES < length cs
     then return ((learning_result L_FAILED)\<lparr>lr_error := Some ''too many candidates''\<rparr>) m
     else
       (case screen_candidates sha wt cs ([], []) of
          Inl e \<Rightarrow> raise e m
        | Inr (accepted, rejected) \<Rightarrow>
            if accepted = []
            then return ((learning_result L_NO_UPDATE)\<lparr>lr_rejected := length rejected, lr_rejected_ids := rejected\<rparr>) m
            else
              let fresh = filter (novel (current_memory repo_id m)) accepted;
                  r = (learning_result L_UPDATED)\<lparr>lr_accepted := length fresh, lr_rejected := length rejected,
                    lr_validated := map ca_id accepted, lr_rejected_ids := rejected\<rparr>
              in if fresh = [] then return (r\<lparr>lr_status := L_NO_UPDATE\<rparr>) m
                 else return r (append_repo_memory (repo_memory_namespace repo_id)
                        (join newline (map section_text fresh)) m)))"

section \<open>The curator\<close>

text \<open>
  \<open>curate_repository_memory\<close>: the changed files are cut into a catalogue of twenty-line pieces, the
  model proposes entries that cite pieces by their ids, and the application fills in the evidence.
  The model is the argument \<open>curator\<close>, a function of the prompt.
\<close>

record proposal =
  pp_category :: string
  pp_fact :: string
  pp_evidence :: "string list"
  pp_reason :: string

record catalog_item =
  ci_id :: string
  ci_evidence :: evidence

definition MAX_CATALOG_LINES_PER_FILE :: nat where "MAX_CATALOG_LINES_PER_FILE = 80"
definition MAX_CATALOG_FILES :: nat where "MAX_CATALOG_FILES = 100"

definition catalog_piece :: "digest \<Rightarrow> string \<Rightarrow> string list \<Rightarrow> nat \<Rightarrow> catalog_item" where
  "catalog_piece sha path ls start =
    (let selected = take 20 (drop start ls); excerpt = join newline selected; stop = start + length selected
     in \<lparr>ci_id = take 20 (sha (path @ '':'' @ show_nat (start + 1) @ '':'' @ show_nat stop @ '':'' @ excerpt)),
         ci_evidence = \<lparr>en_path = path, en_start = int start + 1, en_end = int stop, en_hash = sha excerpt,
           en_excerpt = take MAX_EXCERPT_CHARS excerpt\<rparr>\<rparr>)"

definition catalog_starts :: "string list \<Rightarrow> nat list" where
  "catalog_starts ls = filter (\<lambda>i. i < min (length ls) MAX_CATALOG_LINES_PER_FILE) [0, 20, 40, 60]"

text \<open>
  \<open>_safe_path\<close> raises outside the \<open>try\<close>; a file that cannot be read is passed over.
\<close>

fun catalog_of :: "digest \<Rightarrow> worktree \<Rightarrow> string list \<Rightarrow> err + catalog_item list" where
  "catalog_of sha wt [] = Inr []"
| "catalog_of sha wt (path # paths) =
    (if starts_with path ''/'' \<or> ''..'' \<in> set (posix_parts path)
     then Inl (ValueError ''memory evidence path escapes the repository'')
     else if \<not> wt_inside wt path then Inl (ValueError ''path is not in the subpath of the work tree'')
     else bindE
       (case wt_lines wt path of
          Inr ls \<Rightarrow> Inr (map (catalog_piece sha path ls) (catalog_starts ls))
        | Inl (ValueError s) \<Rightarrow> Inl (ValueError s)
        | Inl e \<Rightarrow> if rejects e then Inr [] else Inl e)
       (\<lambda>is. bindE (catalog_of sha wt paths) (\<lambda>js. Inr (is @ js))))"

fun numbered :: "nat \<Rightarrow> string list \<Rightarrow> string list" where
  "numbered n [] = []"
| "numbered n (l # ls) = (show_nat n @ '': '' @ l) # numbered (Suc n) ls"

definition catalog_entry :: "catalog_item \<Rightarrow> string" where
  "catalog_entry i =
    (let e = ci_evidence i
     in ''['' @ ci_id i @ ''] '' @ en_path e @ '':'' @ show_int (en_start e) @ ''-'' @ show_int (en_end e) @ newline @
        join newline (take (nat (en_end e - en_start e + 1)) (numbered (nat (en_start e)) (splitlines (en_excerpt e)))))"

record curation =
  cn_existing :: string
  cn_lifecycle :: string
  cn_changed :: "string list"
  cn_diff :: string
  cn_catalog :: string

definition curation_request :: "catalog_item list \<Rightarrow> string list \<Rightarrow> string \<Rightarrow> string \<Rightarrow> string \<Rightarrow> curation" where
  "curation_request catalog changed diff existing lifecycle =
     \<lparr>cn_existing = take 12000 existing, cn_lifecycle = take 20000 lifecycle, cn_changed = take 100 changed,
      cn_diff = take 40000 diff, cn_catalog = take 60000 (join newline (map catalog_entry catalog))\<rparr>"

text \<open>\<open>by_id\<close> keeps the last item of an id.\<close>

definition cited :: "catalog_item list \<Rightarrow> string \<Rightarrow> err + evidence" where
  "cited catalog k =
    (case lookup ci_id k (rev catalog) of
       None \<Rightarrow> Inl (ValueError ''memory curator referenced an unknown evidence ID'')
     | Some i \<Rightarrow> Inr (ci_evidence i))"

fun all_cited :: "catalog_item list \<Rightarrow> string list \<Rightarrow> err + evidence list" where
  "all_cited catalog [] = Inr []"
| "all_cited catalog (k # ks) = bindE (cited catalog k) (\<lambda>e. bindE (all_cited catalog ks) (\<lambda>es. Inr (e # es)))"

definition candidate_of_proposal :: "digest \<Rightarrow> int \<Rightarrow> catalog_item list \<Rightarrow> proposal \<Rightarrow> err + candidate" where
  "candidate_of_proposal sha repo_id catalog p =
     bindE (all_cited catalog (pp_evidence p)) (\<lambda>es.
       let c = \<lparr>ca_id = memory_entry_id sha repo_id (pp_category p) (pp_fact p) (map en_hash es),
                ca_category = pp_category p, ca_fact = pp_fact p, ca_evidence = es, ca_reason = pp_reason p\<rparr>
       in if valid_candidate c then Inr c else Inl (ValueError ''validation error for RepoMemoryCandidate''))"

fun candidates_of :: "digest \<Rightarrow> int \<Rightarrow> catalog_item list \<Rightarrow> proposal list \<Rightarrow> err + candidate list" where
  "candidates_of sha repo_id catalog [] = Inr []"
| "candidates_of sha repo_id catalog (p # ps) =
     bindE (candidate_of_proposal sha repo_id catalog p)
       (\<lambda>c. bindE (candidates_of sha repo_id catalog ps) (\<lambda>cs. Inr (c # cs)))"

definition curate_repository_memory ::
  "digest \<Rightarrow> (curation \<Rightarrow> err + proposal list) \<Rightarrow> int \<Rightarrow> worktree \<Rightarrow> string list \<Rightarrow> string \<Rightarrow> string \<Rightarrow> string \<Rightarrow>
   err + candidate list" where
  "curate_repository_memory sha curator repo_id wt changed diff existing lifecycle =
     bindE (catalog_of sha wt (take MAX_CATALOG_FILES (sort (remdups changed)))) (\<lambda>catalog.
     bindE (curator (curation_request catalog changed diff existing lifecycle))
       (candidates_of sha repo_id catalog))"

end
