(* ===== verification/Lifecycle_Text.thy ===== *)
theory Lifecycle_Text
  imports Controller Publisher
begin

text \<open>
  The bounded texts that later workflows and the curators of memory read (\<open>lifecycle_context.py\<close>):
  the accepted material of a lifecycle. The long dash of the validation column is written as
  character 151.
\<close>

section \<open>Accepted material\<close>

definition MAX_ACCEPTED_HISTORY_CHARS :: nat where "MAX_ACCEPTED_HISTORY_CHARS = 28000"
definition MAX_PLAN_CHARS :: nat where "MAX_PLAN_CHARS = 3000"
definition MAX_EXECUTION_CHARS :: nat where "MAX_EXECUTION_CHARS = 2000"
definition MAX_VALIDATION_CHARS :: nat where "MAX_VALIDATION_CHARS = 2000"

definition rstrip :: "string \<Rightarrow> string" where
  "rstrip s = rev (dropWhile is_space (rev s))"

definition bounded :: "string \<Rightarrow> nat \<Rightarrow> string" where
  "bounded value limit =
    (let s = strip value
     in if length s \<le> limit then s
        else rstrip (take (limit - 24) s) @ newline @ ''[deterministically truncated]'')"

definition cycle_label :: "accepted_task \<Rightarrow> string" where
  "cycle_label m =
    (if ac_kind m = INITIAL then ''Initial workflow''
     else ''Accepted revision #'' @ (case ac_revision m of None \<Rightarrow> ''None'' | Some n \<Rightarrow> show_nat n))"

abbreviation paragraphs :: "string list \<Rightarrow> string" where
  "paragraphs \<equiv> join (newline @ newline)"

definition OMITTED :: string where
  "OMITTED = ''[older accepted lifecycle summaries omitted]''"

text \<open>
  The indices from the last block back to the second whose cost still fits: \<open>extra\<close> is kept free for
  the marker.
\<close>

fun fitting :: "nat \<Rightarrow> nat \<Rightarrow> nat \<Rightarrow> (nat \<times> string) list \<Rightarrow> nat list" where
  "fitting limit extra used [] = []"
| "fitting limit extra used ((i, block) # rest) =
    (let cost = length block + 2
     in if limit < used + cost + extra then fitting limit extra used rest
        else i # fitting limit extra (used + cost) rest)"

text \<open>The first block and the fitting ones in their order, with a marker in second place when one is left out.\<close>

definition recent_blocks :: "nat \<Rightarrow> nat \<Rightarrow> nat \<Rightarrow> string list \<Rightarrow> string list" where
  "recent_blocks limit extra used blocks =
    (let chosen = fitting limit extra used (rev (tl (zip [0..<length blocks] blocks)));
         kept = map (\<lambda>i. blocks ! i) (filter (\<lambda>i. i = 0 \<or> i \<in> set chosen) [0..<length blocks])
     in if length chosen + 1 < length blocks then take 1 kept @ [OMITTED] @ drop 1 kept else kept)"

definition join_bounded :: "nat \<Rightarrow> string list \<Rightarrow> string" where
  "join_bounded max_chars blocks =
    (if blocks = [] then []
     else if length (paragraphs blocks) \<le> max_chars then paragraphs blocks
     else take max_chars (paragraphs
       (recent_blocks max_chars 0 (length (hd blocks) + length OMITTED + 4) blocks)))"

fun full_blocks :: "nat option \<Rightarrow> accepted_task list \<Rightarrow> string list" where
  "full_blocks prior [] = []"
| "full_blocks prior (m # ms) =
    join newline
      ((if prior = Some (ac_cycle_id m) then [] else [cycle_label m @ '' (cycle '' @ show_nat (ac_cycle_id m) @ ''):'']) @
       [''  Task '' @ ac_task m,
        ''    Accepted plan ['' @ ac_plan m @ '']: '' @ bounded (ac_plan_text m) MAX_PLAN_CHARS,
        ''    Final execution ['' @ ac_execution m @ '']: '' @ bounded (ac_execution_summary m) MAX_EXECUTION_CHARS,
        ''    Final ACCEPT validation ['' @ ac_validation m @ '']: '' @ bounded (ac_validation_summary m) MAX_VALIDATION_CHARS])
    # full_blocks (Some (ac_cycle_id m)) ms"

definition compact_block :: "accepted_task \<Rightarrow> string" where
  "compact_block m = join newline
     [cycle_label m @ '' (cycle '' @ show_nat (ac_cycle_id m) @ ''), task '' @ ac_task m,
      ''  Plan: '' @ bounded (ac_plan_text m) 500,
      ''  Execution: '' @ bounded (ac_execution_summary m) 700,
      ''  ACCEPT validation: '' @ bounded (ac_validation_summary m) 700]"

definition render_accepted_lifecycle :: "nat \<Rightarrow> accepted_task list \<Rightarrow> string" where
  "render_accepted_lifecycle max_chars material =
    (if material = [] then ''(none)''
     else
       let rendered = paragraphs (full_blocks None material); compact = map compact_block material
       in if length rendered \<le> max_chars then rendered
          else if length (paragraphs compact) \<le> max_chars then paragraphs compact
          else take max_chars (paragraphs
            (recent_blocks max_chars (length OMITTED + 4) (length (hd compact)) compact)))"

definition column :: "string \<Rightarrow> (accepted_task \<Rightarrow> string) \<Rightarrow> nat \<Rightarrow> accepted_task list \<Rightarrow> string" where
  "column lead part limit material =
     join_bounded 20000 (map (\<lambda>m. cycle_label m @ '' / '' @ ac_task m @ '': '' @ lead @ bounded (part m) limit) material)"

definition lifecycle_columns :: "accepted_task list \<Rightarrow> string \<times> string \<times> string" where
  "lifecycle_columns material =
    (column [] ac_plan_text MAX_PLAN_CHARS material,
     column [] ac_execution_summary MAX_EXECUTION_CHARS material,
     column (''ACCEPT '' @ [CHR 0x97] @ '' '') ac_validation_summary MAX_VALIDATION_CHARS material)"

section \<open>The bounds hold\<close>

lemma join_bounded_length: "length (join_bounded n blocks) \<le> n"
  by (simp add: join_bounded_def)

lemma render_length: "length (render_accepted_lifecycle n material) \<le> max n 6"
  by (auto simp: render_accepted_lifecycle_def Let_def)

lemma rstrip_length: "length (rstrip s) \<le> length s"
  using length_dropWhile_le [of is_space "rev s"] by (simp add: rstrip_def)

lemma bounded_length: "length (bounded value limit) \<le> max limit (limit - 24 + 30)"
  using rstrip_length [of "take (limit - 24) (strip value)"] by (auto simp: bounded_def Let_def newline_def)

text \<open>
  The texts handed to later workflows and to the curators are bounded. Whatever the plans
  and summaries contain, the rendered history stays within its limit (the placeholder of six
  characters apart), each of the three columns within twenty thousand characters, and each field of a
  block within its own limit and the note that it was cut.
\<close>

theorem rendered_context_is_bounded:
  "length (render_accepted_lifecycle n material) \<le> max n 6
    \<and> (case lifecycle_columns material of (p, x, v) \<Rightarrow>
         length p \<le> 20000 \<and> length x \<le> 20000 \<and> length v \<le> 20000)
    \<and> length (bounded value limit) \<le> max limit (limit - 24 + 30)"
  using render_length join_bounded_length bounded_length by (auto simp: lifecycle_columns_def column_def)

text \<open>A text that fits is not changed, and a second bound does not cut it again.\<close>

lemma bounded_fits: "length (strip value) \<le> limit \<Longrightarrow> bounded value limit = strip value"
  by (simp add: bounded_def)

end
