(* ===== verification/Cases.thy ===== *)
theory Cases
  imports Lifecycle_Text Memory
begin

text \<open>
  Historical cases (\<open>issue_resolution.py\<close> and the resolved-issue tables of \<open>github_store.py\<close>): the jobs
  that write them, the derived search index and the search of one repository. The full-text engine is
  the argument \<open>rank\<close>: the ids of the matching entries of an index, best first.
\<close>

section \<open>Jobs\<close>

definition MAX_ISSUE_RESOLUTION_ATTEMPTS :: nat where "MAX_ISSUE_RESOLUTION_ATTEMPTS = 3"
definition MAX_MEMORY_LEARNING_ATTEMPTS :: nat where "MAX_MEMORY_LEARNING_ATTEMPTS = 3"

text \<open>\<open>status IN ('PENDING', 'FAILED') AND attempt_count < ?\<close>, oldest first.\<close>

definition unfinished :: "nat \<Rightarrow> string \<Rightarrow> 'a job_row_scheme \<Rightarrow> bool" where
  "unfinished limit thread_id j = (jb_thread j = thread_id \<and> jb_status j \<in> {J_PENDING, J_FAILED} \<and> jb_attempts j < limit)"

definition first_job :: "nat \<Rightarrow> string \<Rightarrow> 'a job_row_scheme list \<Rightarrow> 'a job_row_scheme option" where
  "first_job limit thread_id js =
    (case order_by (\<lambda>j. (jb_cycle_id j, jb_created_at j, jb_id j)) (filter (unfinished limit thread_id) js) of
       [] \<Rightarrow> None | j # _ \<Rightarrow> Some j)"

abbreviation pending_issue_resolution :: "db \<Rightarrow> string \<Rightarrow> resolution_row option" where
  "pending_issue_resolution d thread_id \<equiv> first_job MAX_ISSUE_RESOLUTION_ATTEMPTS thread_id (resolution_jobs d)"

abbreviation pending_memory_learning :: "db \<Rightarrow> string \<Rightarrow> learning_row option" where
  "pending_memory_learning d thread_id \<equiv> first_job MAX_MEMORY_LEARNING_ATTEMPTS thread_id (learning_jobs d)"

text \<open>\<open>_claim_attempt\<close>: the attempt is counted and committed before the model is called.\<close>

definition claim_attempt :: "string \<Rightarrow> string \<Rightarrow> 'a job_row_scheme list \<Rightarrow> err + nat \<times> 'a job_row_scheme list" where
  "claim_attempt tbl k js =
    (if rowcount (\<lambda>j. jb_id j = k) js \<noteq> 1 then Inl (ValueError (tbl @ '' record does not exist''))
     else
       let js1 = update_where (\<lambda>j. jb_id j = k) (\<lambda>j. j\<lparr>jb_attempts := jb_attempts j + 1\<rparr>) js
       in case lookup jb_id k js1 of
            None \<Rightarrow> Inl (TypeError ''NoneType'')
          | Some j \<Rightarrow> Inr (jb_attempts j, js1))"

definition claim_memory_learning_attempt :: "string \<Rightarrow> (db, nat) op" where
  "claim_memory_learning_attempt k d =
     commit d (bindE (claim_attempt ''repo_memory_learning'' k (learning_jobs d))
       (\<lambda>(n, js). Inr (n, d\<lparr>learning_jobs := js\<rparr>)))"

definition claim_issue_resolution_attempt :: "string \<Rightarrow> (db, nat) op" where
  "claim_issue_resolution_attempt k d =
     commit d (bindE (claim_attempt ''issue_resolution_memory'' k (resolution_jobs d))
       (\<lambda>(n, js). Inr (n, d\<lparr>resolution_jobs := js\<rparr>)))"

text \<open>The constraints of both job tables on a row that is inserted.\<close>

definition job_fits :: "db \<Rightarrow> 'a job_row_scheme \<Rightarrow> 'a job_row_scheme list \<Rightarrow> bool" where
  "job_fits d j js =
    (\<not> has (\<lambda>x. (jb_thread x, jb_cycle_id x, jb_root_input x)) (jb_thread j, jb_cycle_id j, jb_root_input j) js
     \<and> has ev_key (jb_event j) (events d) \<and> has th_id (jb_thread j) (threads d) \<and> has rp_id (jb_repo_id j) (repositories d))"

definition save_repo_memory_learning :: "digest \<Rightarrow> learning_row \<Rightarrow> (db, learning_row option) op" where
  "save_repo_memory_learning sha r d =
     and_then (commit d
       (if jb_id r \<noteq> memory_learning_id_for sha (jb_thread r) (jb_cycle_id r) (jb_root_input r)
        then Inl (ValueError ''memory learning id does not match its lifecycle'')
        else if has jb_id (jb_id r) (learning_jobs d)
        then Inr ((), d\<lparr>learning_jobs := update_where (\<lambda>j. jb_id j = jb_id r)
          (\<lambda>j. j\<lparr>jb_status := jb_status r, le_accepted := le_accepted r, le_rejected := le_rejected r,
             jb_error := jb_error r, le_proposal := le_proposal r, jb_attempts := jb_attempts r,
             jb_updated_at := jb_updated_at r\<rparr>) (learning_jobs d)\<rparr>)
        else if job_fits d r (learning_jobs d) then Inr ((), d\<lparr>learning_jobs := learning_jobs d @ [r]\<rparr>)
        else Inl (IntegrityError ''repo_memory_learning'')))
       (\<lambda>_ d. return (lookup jb_id (jb_id r) (learning_jobs d)) d)"

section \<open>The search index\<close>

type_synonym case_index = "(string \<times> string) list"

text \<open>The three lists are stored as JSON texts that the code itself wrote, and read back.\<close>

definition resolution_haystack :: "resolution_row \<Rightarrow> string" where
  "resolution_haystack r =
    (let c = rs_case r
     in join newline (filter (\<lambda>p. p \<noteq> [])
       [rs_title r, rs_description r, rc_task c, rc_symptom c, rc_cause c, rc_fix c, rc_validation c,
        join '' '' (rc_components c), join '' '' (rc_terms c), join '' '' (rc_changed c)]))"

definition index_issue_resolution :: "resolution_row \<Rightarrow> case_index \<Rightarrow> case_index" where
  "index_issue_resolution r index =
    (let rest = filter (\<lambda>(k, _). k \<noteq> jb_id r) index
     in if jb_status r \<noteq> J_COMPLETED then rest else rest @ [(jb_id r, resolution_haystack r)])"

definition rebuild_issue_resolution_index :: "db \<Rightarrow> case_index" where
  "rebuild_issue_resolution_index d = fold index_issue_resolution (order_by jb_id (resolution_jobs d)) []"

text \<open>The database and its full-text index, which one transaction changes together.\<close>

record case_store =
  cs_db :: db
  cs_index :: case_index

definition save_issue_resolution :: "digest \<Rightarrow> resolution_row \<Rightarrow> (case_store, resolution_row option) op" where
  "save_issue_resolution sha r s =
    (let d = cs_db s in
     and_then (commit s
       (if jb_id r \<noteq> resolution_id_for sha (jb_thread r) (jb_cycle_id r) (jb_root_input r)
        then Inl (ValueError ''resolution id does not match its lifecycle'')
        else if has jb_id (jb_id r) (resolution_jobs d)
        then Inr ((), \<lparr>cs_db = d\<lparr>resolution_jobs := update_where (\<lambda>j. jb_id j = jb_id r) (\<lambda>_. r) (resolution_jobs d)\<rparr>,
          cs_index = index_issue_resolution r (cs_index s)\<rparr>)
        else if job_fits d r (resolution_jobs d)
        then Inr ((), \<lparr>cs_db = d\<lparr>resolution_jobs := resolution_jobs d @ [r]\<rparr>,
          cs_index = index_issue_resolution r (cs_index s)\<rparr>)
        else Inl (IntegrityError ''issue_resolution_memory'')))
       (\<lambda>_ s. return (lookup jb_id (jb_id r) (resolution_jobs (cs_db s))) s))"

section \<open>Search\<close>

definition FTS_STOPWORDS :: "string list" where
  "FTS_STOPWORDS = [''a'', ''an'', ''and'', ''as'', ''at'', ''be'', ''but'', ''by'', ''for'', ''from'', ''has'', ''have'', ''how'', ''in'',
     ''into'', ''is'', ''it'', ''its'', ''of'', ''on'', ''or'', ''that'', ''the'', ''then'', ''there'', ''these'', ''this'', ''to'', ''was'',
     ''were'', ''what'', ''when'', ''where'', ''which'', ''who'', ''why'', ''with'']"

text \<open>\<open>_FTS_TOKEN_RE.findall\<close>: the maximal runs of word characters.\<close>

function words_of :: "string \<Rightarrow> string list" where
  "words_of [] = []"
| "words_of (c # cs) =
    (if is_word c then takeWhile is_word (c # cs) # words_of (dropWhile is_word (c # cs)) else words_of cs)"
  by pat_completeness auto

termination by (relation "measure length") (auto simp: length_dropWhile_le le_imp_less_Suc)

fun search_terms :: "nat \<Rightarrow> string list \<Rightarrow> string list \<Rightarrow> string list" where
  "search_terms n seen [] = seen"
| "search_terms n seen (w # ws) =
    (let k = fold_case w
     in if length k < 3 \<or> k \<in> set FTS_STOPWORDS \<or> k \<in> set seen then search_terms n seen ws
        else if n \<le> length seen + 1 then seen @ [k]
        else search_terms n (seen @ [k]) ws)"

definition quoted :: "string \<Rightarrow> string" where
  "quoted t = CHR 0x22 # t @ [CHR 0x22]"

definition fts_match_expression :: "nat \<Rightarrow> string \<Rightarrow> string" where
  "fts_match_expression max_terms query = join '' OR '' (map quoted (search_terms max_terms [] (words_of query)))"

text \<open>The loop over the ranked rows: at most \<open>bound\<close> cases and \<open>per\<close> of one thread.\<close>

fun select_cases :: "nat \<Rightarrow> nat option \<Rightarrow> resolution_row list \<Rightarrow> resolution_row list \<Rightarrow> resolution_row list" where
  "select_cases bound per chosen [] = chosen"
| "select_cases bound per chosen (r # rs) =
    (if (case per of None \<Rightarrow> False | Some n \<Rightarrow> n \<le> rowcount (\<lambda>x. jb_thread x = jb_thread r) chosen)
     then select_cases bound per chosen rs
     else if bound \<le> length chosen + 1 then chosen @ [r]
     else select_cases bound per (chosen @ [r]) rs)"

definition search_issue_resolutions ::
  "(string \<Rightarrow> case_index \<Rightarrow> string list) \<Rightarrow> int \<Rightarrow> string \<Rightarrow> int \<Rightarrow> nat option \<Rightarrow> case_store \<Rightarrow> resolution_row list" where
  "search_issue_resolutions rank repo_id query limit per s =
    (let expression = fts_match_expression 24 query; bound = nat (max 0 (min limit 25))
     in if expression = [] \<or> bound = 0 then []
        else select_cases bound per []
          (filter (\<lambda>r. jb_repo_id r = repo_id \<and> jb_status r = J_COMPLETED)
            (concat (map (\<lambda>k. case lookup jb_id k (resolution_jobs (cs_db s)) of None \<Rightarrow> [] | Some r \<Rightarrow> [r])
              (rank expression (cs_index s))))))"

definition search_issue_memory ::
  "(string \<Rightarrow> case_index \<Rightarrow> string list) \<Rightarrow> int \<Rightarrow> string \<Rightarrow> int \<Rightarrow> case_store \<Rightarrow> string" where
  "search_issue_memory rank repo_id query limit s =
    (let text = paragraphs (map (\<lambda>r. ''Issue #'' @ show_int (rs_issue r) @ '': '' @ rc_task (rs_case r) @ newline @
           ''Root cause: '' @ rc_cause (rs_case r) @ newline @ ''Fix: '' @ rc_fix (rs_case r))
         (search_issue_resolutions rank repo_id query limit (Some 1) s))
     in if text = [] then ''No relevant resolved issues found.'' else text)"

text \<open>\<open>bounded_changed_files\<close>, as a list.\<close>

definition bounded_changed_files :: "string list \<Rightarrow> string list" where
  "bounded_changed_files paths = filter (\<lambda>p. p \<noteq> [] \<and> \<not> is_absolute p) (take 60 paths)"

definition resolution_query :: "string \<Rightarrow> string \<Rightarrow> string \<Rightarrow> string" where
  "resolution_query title description request =
     join '' '' (map strip (filter (\<lambda>p. \<not> blank p) [title, take 1000 description, take 1000 request]))"

end
