(* ===== verification/Learning.thy ===== *)
theory Learning
  imports Cases
begin

text \<open>
  Learning after a publication (\<open>workflow_learning.py\<close>, with its tables in \<open>github_store.py\<close>): the
  nominations of lines worth remembering, the job that writes repository memory and the job that
  writes a historical case. The curators are functions of what the code shows them; the work tree is
  a function of its path. Tracing is left out.
\<close>

section \<open>Nominations\<close>

text \<open>\<open>" ".join(fact.split()).casefold()\<close>\<close>

function blank_words :: "string \<Rightarrow> string list" where
  "blank_words [] = []"
| "blank_words (c # cs) =
    (if is_space c then blank_words cs
     else takeWhile (\<lambda>x. \<not> is_space x) (c # cs) # blank_words (dropWhile (\<lambda>x. \<not> is_space x) (c # cs)))"
  by pat_completeness auto

termination by (relation "measure length") (auto simp: length_dropWhile_le le_imp_less_Suc)

definition normalized_memory_fact :: "string \<Rightarrow> string" where
  "normalized_memory_fact text = fold_case (join '' '' (blank_words text))"

definition repo_memory_candidate_id_for :: "digest \<Rightarrow> candidate_row \<Rightarrow> string" where
  "repo_memory_candidate_id_for sha r = ''repo-memory-candidate-'' @ take 24 (sha (join nul
     [show_int (mc_repo_id r), mc_thread r, show_nat (mc_cycle_id r), mc_root_input r, normalized_memory_fact (mc_fact r),
      mc_path r, show_int (mc_start r), show_int (mc_end r)]))"

definition save_repo_memory_candidate :: "digest \<Rightarrow> candidate_row \<Rightarrow> (db, candidate_row option) op" where
  "save_repo_memory_candidate sha r d =
     and_then (commit d
       (if mc_id r \<noteq> repo_memory_candidate_id_for sha r
        then Inl (ValueError ''repository memory candidate id does not match evidence'')
        else if has mc_id (mc_id r) (memory_candidates d)
        then Inr ((), d\<lparr>memory_candidates := update_where (\<lambda>x. mc_id x = mc_id r)
          (\<lambda>x. x\<lparr>mc_status := mc_status r, mc_updated_at := mc_updated_at r\<rparr>) (memory_candidates d)\<rparr>)
        else if has rp_id (mc_repo_id r) (repositories d) \<and> has th_id (mc_thread r) (threads d) \<and> has ev_key (mc_event r) (events d)
        then Inr ((), d\<lparr>memory_candidates := memory_candidates d @ [r]\<rparr>)
        else Inl (IntegrityError ''repo_memory_candidates'')))
       (\<lambda>_ d. return (lookup mc_id (mc_id r) (memory_candidates d)) d)"

definition set_repo_memory_candidate_status :: "string \<Rightarrow> candidate_status \<Rightarrow> string \<Rightarrow> db \<Rightarrow> db" where
  "set_repo_memory_candidate_status k status now d =
     d\<lparr>memory_candidates := update_where (\<lambda>x. mc_id x = k)
       (\<lambda>x. x\<lparr>mc_status := status, mc_updated_at := now\<rparr>) (memory_candidates d)\<rparr>"

text \<open>The arguments of the tool \<open>propose_repo_memory\<close>, which an agent fills in.\<close>

record nomination =
  nm_category :: string
  nm_fact :: string
  nm_reason :: string
  nm_path :: string
  nm_start :: int
  nm_end :: int

definition nominated_row :: "digest \<Rightarrow> string \<Rightarrow> cycle_row \<Rightarrow> int \<Rightarrow> source_event \<Rightarrow> nomination \<Rightarrow> candidate_row" where
  "nominated_row sha now c repo_id root n =
    (let r = \<lparr>mc_id = [], mc_repo_id = repo_id, mc_thread = cy_thread c, mc_cycle_id = cy_cycle_id c,
       mc_root_input = cy_root_input c, mc_event = ev_key root, mc_category = nm_category n, mc_fact = nm_fact n,
       mc_reason = nm_reason n, mc_path = nm_path n, mc_start = nm_start n, mc_end = nm_end n, mc_status = PROPOSED,
       mc_created_at = now, mc_updated_at = now\<rparr>
     in r\<lparr>mc_id := repo_memory_candidate_id_for sha r\<rparr>)"

definition propose_repo_memory ::
  "digest \<Rightarrow> worktree \<Rightarrow> string \<Rightarrow> cycle_row \<Rightarrow> int \<Rightarrow> source_event \<Rightarrow> nomination \<Rightarrow> (db, string) op" where
  "propose_repo_memory sha wt now c repo_id root n d =
    (case candidate_from_proposal sha repo_id wt (nm_category n) (nm_fact n) (nm_reason n) (nm_path n) (nm_start n) (nm_end n) of
       Inl e \<Rightarrow> raise e d
     | Inr _ \<Rightarrow> and_then (save_repo_memory_candidate sha (nominated_row sha now c repo_id root n) d)
         (\<lambda>_ d. return ''Recorded for application validation after cumulative publication.'' d))"

definition repo_memory_candidates_for_generation :: "db \<Rightarrow> publication_generation \<Rightarrow> int \<Rightarrow> candidate_row list" where
  "repo_memory_candidates_for_generation d g repo_id =
     order_by (\<lambda>r. (mc_cycle_id r, mc_created_at r, mc_id r))
       (filter (\<lambda>r. mc_repo_id r = repo_id \<and> mc_thread r = pg_thread g \<and> pg_first g \<le> mc_cycle_id r
            \<and> mc_cycle_id r \<le> pg_last g \<and> mc_status r = PROPOSED
            \<and> list_ex (\<lambda>c. cy_thread c = mc_thread r \<and> cy_cycle_id c = mc_cycle_id r \<and> cy_root_input c = mc_root_input r) (cycles d))
         (memory_candidates d))"

definition repo_memory_candidates_for_cycle :: "db \<Rightarrow> 'a job_row_scheme \<Rightarrow> candidate_row list" where
  "repo_memory_candidates_for_cycle d j =
     order_by (\<lambda>r. (mc_created_at r, mc_id r))
       (filter (\<lambda>r. mc_thread r = jb_thread j \<and> mc_cycle_id r = jb_cycle_id j
            \<and> mc_root_input r = (if jb_root_input j = [] then jb_event j else jb_root_input j)) (memory_candidates d))"

section \<open>The material of a generation\<close>

definition publication_for_cycle :: "digest \<Rightarrow> db \<Rightarrow> 'a job_row_scheme \<Rightarrow> publication_row option" where
  "publication_for_cycle sha d j = publication_for_id d (publication_id_for sha (jb_thread j) (jb_cycle_id j) (jb_root_input j))"

text \<open>
  \<open>_publication_generation\<close>: only a thread without declarative cycles may lack a generation; an
  exception other than \<open>ValueError\<close> passes.
\<close>

definition generation_of_job :: "digest \<Rightarrow> db \<Rightarrow> 'a job_row_scheme \<Rightarrow> err + publication_generation option \<times> publication_row option" where
  "generation_of_job sha d j =
    (case publication_for_cycle sha d j of
       None \<Rightarrow> Inr (None, None)
     | Some p \<Rightarrow>
         (case publication_generation sha d (pb_id p) of
            Inr g \<Rightarrow> Inr (Some g, Some p)
          | Inl (ValueError s) \<Rightarrow>
              if has cy_thread (jb_thread j) (cycles d) then Inl (ValueError s) else Inr (None, Some p)
          | Inl e \<Rightarrow> Inl e))"

text \<open>\<open>_task_material\<close>: the joins over the rows of a cycle's tasks, in the order of declaration.\<close>

definition task_material_rows :: "db \<Rightarrow> string \<Rightarrow> nat \<Rightarrow> (task_row \<times> plan_row \<times> execution_row \<times> validation_row) list" where
  "task_material_rows d thread_id n =
     concat (map (\<lambda>t. concat (map (\<lambda>p. concat (map (\<lambda>x. map (\<lambda>v. (t, p, x, v))
           (filter (\<lambda>v. va_task_run v = tr_id t \<and> va_round v = tr_round t) (validations d)))
         (filter (\<lambda>x. ex_task_run x = tr_id t \<and> ex_attempt x = tr_attempt t) (executions d))))
       (filter (\<lambda>p. Some (pl_id p) = tr_plan t) (plans d))))
     (order_by tr_index (filter (\<lambda>t. tr_thread t = thread_id \<and> tr_cycle_id t = n) (tasks d))))"

definition task_material :: "db \<Rightarrow> string \<Rightarrow> nat \<Rightarrow> string \<times> string \<times> string" where
  "task_material d thread_id n =
    (let rows = task_material_rows d thread_id n
     in (paragraphs (map (\<lambda>(t, p, x, v). tr_task t @ '': '' @ pl_text p) rows),
         paragraphs (map (\<lambda>(t, p, x, v). tr_task t @ '': '' @ ex_summary x) rows),
         paragraphs (map (\<lambda>(t, p, x, v). tr_task t @ '': '' @ va_summary v) rows)))"

record generation_material =
  gm_generation :: "publication_generation option"
  gm_publication :: "publication_row option"
  gm_plans :: string
  gm_executions :: string
  gm_validations :: string
  gm_lifecycle :: string

definition generation_material :: "digest \<Rightarrow> db \<Rightarrow> 'a job_row_scheme \<Rightarrow> err + generation_material" where
  "generation_material sha d j =
     bindE (generation_of_job sha d j) (\<lambda>(generation, publication).
       case generation of
         None \<Rightarrow>
           (case task_material d (jb_thread j) (jb_cycle_id j) of (p, x, v) \<Rightarrow>
             Inr \<lparr>gm_generation = None, gm_publication = publication, gm_plans = p, gm_executions = x,
                  gm_validations = v, gm_lifecycle = p\<rparr>)
       | Some g \<Rightarrow>
           let material = accepted_lifecycle_material sha d (jb_thread j) (pg_first g) (Some (pg_last g)) in
           if set (map ac_cycle_id material) \<noteq> set (pg_cycles g)
           then Inl (ValueError ''publication lifecycle material is incomplete'')
           else (case lifecycle_columns material of (p, x, v) \<Rightarrow>
             Inr \<lparr>gm_generation = Some g, gm_publication = publication, gm_plans = p, gm_executions = x,
                  gm_validations = v, gm_lifecycle = render_accepted_lifecycle 20000 material\<rparr>))"

text \<open>The path of the work tree and the commit its changes are taken from.\<close>

definition generation_workspace :: "db \<Rightarrow> string \<Rightarrow> publication_generation option \<Rightarrow> (string \<times> string) option" where
  "generation_workspace d thread_id g =
    (case workspace_of d thread_id of
       None \<Rightarrow> None
     | Some w \<Rightarrow> Some (wk_path w,
         case g of None \<Rightarrow> wk_base w | Some g \<Rightarrow> shown (wk_base w) (pg_previous_sha g)))"

section \<open>The learner\<close>

text \<open>
  \<open>ln_curator\<close> and \<open>ln_resolver\<close> are \<open>None\<close> when no model is configured; \<open>ln_has_memory\<close> tells whether
  there is a memory store; \<open>ln_trees\<close> gives the work tree at a path.
\<close>

record resolution_evidence =
  ve_issue :: int
  ve_title :: string
  ve_description :: string
  ve_request :: string
  ve_plan :: string
  ve_execution :: string
  ve_changed :: "string list"
  ve_diff :: string
  ve_review :: string
  ve_repairs :: int
  ve_publication :: "publication_row option"

record solved_case =
  so_useful :: bool
  so_case :: resolved_case

record learner =
  ln_sha :: digest
  ln_trees :: "string \<Rightarrow> worktree"
  ln_has_memory :: bool
  ln_curator :: "(curation \<Rightarrow> err + proposal list) option"
  ln_resolver :: "(resolution_evidence \<Rightarrow> err + solved_case) option"

record learning_state = case_store +
  ms_memory :: memory_store

definition in_database :: "(db, 'a) op \<Rightarrow> (learning_state, 'a) op" where
  "in_database f s = (case f (cs_db s) of (r, d) \<Rightarrow> (r, s\<lparr>cs_db := d\<rparr>))"

definition UNCONFIGURED_MEMORY_LEARNING :: string where
  "UNCONFIGURED_MEMORY_LEARNING = ''no repository memory curator was configured''"

definition UNCONFIGURED_ISSUE_RESOLUTION :: string where
  "UNCONFIGURED_ISSUE_RESOLUTION = ''no issue resolution curator was configured''"

subsection \<open>Repository memory\<close>

text \<open>
  The nominations that still hold, with the id of the nomination beside the candidate; a rejected one
  is passed over, any other exception ends the attempt.
\<close>

definition candidate_of_record :: "digest \<Rightarrow> int \<Rightarrow> worktree \<Rightarrow> candidate_row \<Rightarrow> err + candidate" where
  "candidate_of_record sha repo_id wt r =
     bindE (candidate_from_proposal sha repo_id wt (mc_category r) (mc_fact r) (mc_reason r) (mc_path r) (mc_start r) (mc_end r))
       (\<lambda>c. bindE (validate_candidate sha wt c) (\<lambda>_. Inr c))"

fun proposed_candidates :: "digest \<Rightarrow> int \<Rightarrow> worktree \<Rightarrow> candidate_row list \<Rightarrow> err + (string \<times> candidate) list" where
  "proposed_candidates sha repo_id wt [] = Inr []"
| "proposed_candidates sha repo_id wt (r # rs) =
    (case candidate_of_record sha repo_id wt r of
       Inr c \<Rightarrow> bindE (proposed_candidates sha repo_id wt rs) (\<lambda>cs. Inr ((mc_id r, c) # cs))
     | Inl e \<Rightarrow> if rejects e then proposed_candidates sha repo_id wt rs else Inl e)"

definition evidence_doc :: "evidence \<Rightarrow> doc" where
  "evidence_doc e = DMap [(''path'', DStr (en_path e)), (''start_line'', DInt (en_start e)), (''end_line'', DInt (en_end e)),
     (''content_hash'', DStr (en_hash e)), (''excerpt'', DStr (en_excerpt e))]"

definition candidate_doc :: "candidate \<Rightarrow> doc" where
  "candidate_doc c = DMap [(''candidate_id'', DStr (ca_id c)), (''category'', DStr (ca_category c)), (''fact'', DStr (ca_fact c)),
     (''evidence'', DList (map evidence_doc (ca_evidence c))), (''durability_reason'', DStr (ca_reason c))]"

definition proposal_json :: "candidate list \<Rightarrow> string" where
  "proposal_json cs = json_dumps '', '' '': '' (DList (map candidate_doc cs))"

definition curated_candidates ::
  "learner \<Rightarrow> int \<Rightarrow> worktree \<Rightarrow> string \<Rightarrow> generation_material \<Rightarrow> memory_store \<Rightarrow> err + candidate list option" where
  "curated_candidates ln repo_id wt base gm m =
    (case ln_curator ln of
       None \<Rightarrow> Inr None
     | Some curator \<Rightarrow>
         bindE (wt_changed wt (Some base)) (\<lambda>changed. bindE (wt_diff wt (Some base)) (\<lambda>diff.
         bindE (curate_repository_memory (ln_sha ln) curator repo_id wt (take 100 changed) (take 40000 diff)
                  (case read_repo_memory (repo_memory_namespace repo_id) m of None \<Rightarrow> [] | Some c \<Rightarrow> c) (gm_lifecycle gm))
           (\<lambda>cs. Inr (Some cs)))))"

text \<open>
  What an attempt found out before an exception, if there was one: the nominations, their candidates
  and the curator's proposals are variables that keep their last value.
\<close>

record attempt =
  at_result :: learning_result
  at_error :: "string option"
  at_records :: "candidate_row list"
  at_candidates :: "(string \<times> candidate) list"
  at_proposal :: string

definition failed_attempt :: "err \<Rightarrow> candidate_row list \<Rightarrow> (string \<times> candidate) list \<Rightarrow> string \<Rightarrow> attempt" where
  "failed_attempt e records candidates proposal =
    (let text = Some (take 500 (error_text e))
     in \<lparr>at_result = (learning_result L_FAILED)\<lparr>lr_error := text\<rparr>, at_error = text, at_records = records,
         at_candidates = candidates, at_proposal = proposal\<rparr>)"

definition learned_error :: "learner \<Rightarrow> learning_result \<Rightarrow> string option" where
  "learned_error ln r =
    (if filled (lr_error r) then lr_error r
     else if ln_curator ln = None then Some UNCONFIGURED_MEMORY_LEARNING else None)"

definition learn_in_tree ::
  "learner \<Rightarrow> learning_row \<Rightarrow> worktree \<Rightarrow> string \<Rightarrow> generation_material \<Rightarrow> candidate_row list \<Rightarrow> memory_store \<Rightarrow> attempt \<times> memory_store" where
  "learn_in_tree ln j wt base gm records m =
    (case proposed_candidates (ln_sha ln) (jb_repo_id j) wt records of
       Inl e \<Rightarrow> (failed_attempt e records [] ''[]'', m)
     | Inr proposed \<Rightarrow>
         (case curated_candidates ln (jb_repo_id j) wt base gm m of
            Inl e \<Rightarrow> (failed_attempt e records proposed ''[]'', m)
          | Inr curated \<Rightarrow>
              let text = (case curated of None \<Rightarrow> ''[]'' | Some cs \<Rightarrow> proposal_json cs);
                  cs = map snd proposed @ (case curated of None \<Rightarrow> [] | Some cs \<Rightarrow> cs)
              in case apply_memory_candidates (ln_sha ln) (jb_repo_id j) wt cs m of
                   (Inl e, m) \<Rightarrow> (failed_attempt e records proposed text, m)
                 | (Inr r, m) \<Rightarrow> (\<lparr>at_result = r, at_error = learned_error ln r, at_records = records,
                     at_candidates = proposed, at_proposal = text\<rparr>, m)))"

definition learn_attempt :: "learner \<Rightarrow> learning_row \<Rightarrow> db \<Rightarrow> memory_store \<Rightarrow> attempt \<times> memory_store" where
  "learn_attempt ln j d m =
    (case generation_material (ln_sha ln) d j of
       Inl e \<Rightarrow> (failed_attempt e [] [] ''[]'', m)
     | Inr gm \<Rightarrow>
         let records = (case gm_generation gm of
               Some g \<Rightarrow> repo_memory_candidates_for_generation d g (jb_repo_id j)
             | None \<Rightarrow> repo_memory_candidates_for_cycle d j)
         in case generation_workspace d (jb_thread j) (gm_generation gm) of
              None \<Rightarrow> (\<lparr>at_result = learning_result L_NO_UPDATE,
                 at_error = Some ''repository memory store or workflow workspace is unavailable'', at_records = records,
                 at_candidates = [], at_proposal = ''[]''\<rparr>, m)
            | Some (path, base) \<Rightarrow>
                if \<not> ln_has_memory ln
                then (\<lparr>at_result = learning_result L_NO_UPDATE,
                   at_error = Some ''repository memory store or workflow workspace is unavailable'', at_records = records,
                   at_candidates = [], at_proposal = ''[]''\<rparr>, m)
                else learn_in_tree ln j (ln_trees ln path) base gm records m)"

definition nomination_verdict :: "attempt \<Rightarrow> string \<Rightarrow> candidate_status" where
  "nomination_verdict a k =
    (if lr_status (at_result a) \<in> {L_UPDATED, L_NO_UPDATE} \<and>
        (case map_of (rev (at_candidates a)) k of
           None \<Rightarrow> False | Some c \<Rightarrow> ca_id c \<in> set (lr_validated (at_result a)))
     then C_ACCEPTED else C_REJECTED)"

definition settle_memory_proposals :: "string \<Rightarrow> attempt \<Rightarrow> db \<Rightarrow> db" where
  "settle_memory_proposals now a d =
     fold (\<lambda>r d. if mc_status r \<noteq> PROPOSED then d
                else set_repo_memory_candidate_status (mc_id r) (nomination_verdict a (mc_id r)) now d)
       (at_records a) d"

fun job_status_of :: "learning_status \<Rightarrow> job_status" where
  "job_status_of L_UPDATED = J_UPDATED"
| "job_status_of L_NO_UPDATE = J_NO_UPDATE"
| "job_status_of L_FAILED = J_FAILED"

definition settled_job :: "string \<Rightarrow> attempt \<Rightarrow> learning_row \<Rightarrow> learning_row" where
  "settled_job now a j =
     j\<lparr>jb_status := job_status_of (lr_status (at_result a)), le_accepted := lr_accepted (at_result a),
       le_rejected := lr_rejected (at_result a), le_proposal := at_proposal a, jb_error := at_error a, jb_updated_at := now\<rparr>"

definition learn_repository :: "learner \<Rightarrow> string \<Rightarrow> learning_row \<Rightarrow> (learning_state, unit) op" where
  "learn_repository ln now j s =
     and_then (in_database (claim_memory_learning_attempt (jb_id j)) s) (\<lambda>n s.
       let j1 = j\<lparr>jb_attempts := n\<rparr> in
       case learn_attempt ln j1 (cs_db s) (ms_memory s) of (a, m) \<Rightarrow>
         let s1 = s\<lparr>ms_memory := m, cs_db := settle_memory_proposals now a (cs_db s)\<rparr>
         in and_then (in_database (save_repo_memory_learning (ln_sha ln) (settled_job now a j1)) s1) (\<lambda>_ s. return () s))"

subsection \<open>Historical cases\<close>

definition revision_inputs_for_generation :: "db \<Rightarrow> publication_generation \<Rightarrow> (revision_input_row \<times> cycle_row \<times> source_event) list" where
  "revision_inputs_for_generation d g =
     order_by (\<lambda>(r, c, e). (cy_cycle_id c, ev_updated_at e, ri_queued_at r, ri_id r))
       (concat (map (\<lambda>r. concat (map (\<lambda>c. map (\<lambda>e. (r, c, e)) (filter (\<lambda>e. ev_key e = ri_event r) (events d)))
           (filter (\<lambda>c. Some (cy_id c) = ri_cycle r \<and> pg_first g \<le> cy_cycle_id c \<and> cy_cycle_id c \<le> pg_last g) (cycles d))))
         (filter (\<lambda>r. ri_thread r = pg_thread g \<and> ri_status r = CONSUMED) (revision_inputs d))))"

text \<open>The joined row has no column for the state of a review.\<close>

definition joined_event :: "source_event \<Rightarrow> source_event" where
  "joined_event e = e\<lparr>ev_anchor := (ev_anchor e)\<lparr>an_review_state := None\<rparr>\<rparr>"

fun rendered_inputs :: "(revision_input_row \<times> cycle_row \<times> source_event) list \<Rightarrow> err + string list" where
  "rendered_inputs [] = Inr []"
| "rendered_inputs ((r, c, e) # rest) =
     bindE (normalize_task (shown (ev_body e) (ri_residual r))) (\<lambda>req.
     bindE (rendered_inputs rest) (\<lambda>ts.
       Inr ((''Revision input '' @ ri_id r @ '' (cycle '' @ show_nat (cy_cycle_id c) @ ''):'' @ newline @
             format_source_context (joined_event e) req None) # ts)))"

definition generation_revision_text :: "db \<Rightarrow> publication_generation option \<Rightarrow> err + string" where
  "generation_revision_text d generation =
    (case generation of
       None \<Rightarrow> Inr []
     | Some g \<Rightarrow> bindE (rendered_inputs (revision_inputs_for_generation d g)) (\<lambda>ts. Inr (take 12000 (paragraphs ts))))"

definition repair_rounds :: "db \<Rightarrow> string \<Rightarrow> nat \<Rightarrow> nat \<Rightarrow> int" where
  "repair_rounds d thread_id first_id last_id =
     sum_list (map (\<lambda>t. int (tr_round t) - 1)
       (filter (\<lambda>t. tr_thread t = thread_id \<and> first_id \<le> tr_cycle_id t \<and> tr_cycle_id t \<le> last_id) (tasks d)))"

text \<open>The event that opened the thread: its body, or nothing when the row is gone.\<close>

definition original_body :: "db \<Rightarrow> resolution_row \<Rightarrow> string" where
  "original_body d j =
    (case event_of d (case lifecycle_of d (jb_thread j) of Some l \<Rightarrow> li_root_event l | None \<Rightarrow> jb_event j) of
       None \<Rightarrow> [] | Some e \<Rightarrow> ev_body e)"

text \<open>What \<open>curate_issue_resolution\<close> puts into its prompt: every text within its limit.\<close>

definition curation_evidence :: "resolution_evidence \<Rightarrow> resolution_evidence" where
  "curation_evidence v = v\<lparr>ve_description := take 6000 (ve_description v), ve_request := take 12000 (ve_request v),
     ve_plan := take 6000 (ve_plan v), ve_execution := take 6000 (ve_execution v), ve_changed := take 60 (ve_changed v),
     ve_diff := take 20000 (ve_diff v), ve_review := take 2000 (ve_review v)\<rparr>"

definition gathered_evidence ::
  "learner \<Rightarrow> db \<Rightarrow> resolution_row \<Rightarrow> generation_material \<Rightarrow> err + resolution_evidence" where
  "gathered_evidence ln d j gm =
    (let g = gm_generation gm in
     bindE (generation_revision_text d g) (\<lambda>revision.
     bindE (normalize_task (original_body d j)) (\<lambda>original.
     bindE (case generation_workspace d (jb_thread j) g of
              None \<Rightarrow> Inr ([], [])
            | Some (path, base) \<Rightarrow>
                bindE (wt_changed (ln_trees ln path) (Some base)) (\<lambda>changed.
                bindE (wt_diff (ln_trees ln path) (Some base)) (\<lambda>diff. Inr (take 60 changed, take 20000 diff))))
       (\<lambda>(changed, diff). Inr
         \<lparr>ve_issue = rs_issue j, ve_title = rs_title j, ve_description = rs_description j,
          ve_request = take 12000 (''Original issue request:'' @ newline @ take 6000 original @
            (if revision = [] then [] else newline @ newline @ ''Incorporated steering:'' @ newline @ revision)),
          ve_plan = gm_plans gm, ve_execution = gm_executions gm, ve_changed = changed, ve_diff = diff,
          ve_review = gm_validations gm,
          ve_repairs = (case g of Some g \<Rightarrow> repair_rounds d (jb_thread j) (pg_first g) (pg_last g)
            | None \<Rightarrow> repair_rounds d (jb_thread j) (jb_cycle_id j) (jb_cycle_id j)),
          ve_publication = gm_publication gm\<rparr>))))"

definition resolve_attempt :: "learner \<Rightarrow> (resolution_evidence \<Rightarrow> err + solved_case) \<Rightarrow> resolution_row \<Rightarrow> db \<Rightarrow>
   err + solved_case \<times> string list \<times> publication_row option" where
  "resolve_attempt ln resolver j d =
     bindE (generation_material (ln_sha ln) d j) (\<lambda>gm.
     bindE (gathered_evidence ln d j gm) (\<lambda>v.
     bindE (resolver (curation_evidence v)) (\<lambda>c. Inr (c, ve_changed v, gm_publication gm))))"

text \<open>The row that is saved: a useful case, a case without use, or the error of this attempt.\<close>

definition resolved_row :: "learner \<Rightarrow> resolution_row \<Rightarrow> db \<Rightarrow> resolution_row" where
  "resolved_row ln j d =
    (case ln_resolver ln of
       None \<Rightarrow> j\<lparr>jb_status := J_NO_CASE, jb_error := Some UNCONFIGURED_ISSUE_RESOLUTION\<rparr>
     | Some resolver \<Rightarrow>
         (case resolve_attempt ln resolver j d of
            Inl e \<Rightarrow> j\<lparr>jb_status := J_FAILED, jb_error := Some (take 500 (error_text e))\<rparr>
          | Inr (c, changed, p) \<Rightarrow>
              if \<not> so_useful c then j\<lparr>jb_status := J_NO_CASE, jb_error := None\<rparr>
              else j\<lparr>rs_case := (so_case c)\<lparr>rc_changed := bounded_changed_files changed\<rparr>,
                rs_commit := (case p of None \<Rightarrow> None | Some p \<Rightarrow> pb_remote_sha p),
                rs_pr_number := (case p of None \<Rightarrow> None | Some p \<Rightarrow> pb_pr_number p),
                rs_pr_url := (case p of None \<Rightarrow> None | Some p \<Rightarrow> pb_pr_url p),
                jb_status := J_COMPLETED, jb_error := None\<rparr>))"

definition on_cases :: "(case_store, 'a) op \<Rightarrow> (learning_state, 'a) op" where
  "on_cases f s =
    (case f \<lparr>cs_db = cs_db s, cs_index = cs_index s\<rparr> of (r, t) \<Rightarrow> (r, s\<lparr>cs_db := cs_db t, cs_index := cs_index t\<rparr>))"

definition learn_resolution :: "learner \<Rightarrow> string \<Rightarrow> resolution_row \<Rightarrow> (learning_state, unit) op" where
  "learn_resolution ln now j s =
     and_then (in_database (claim_issue_resolution_attempt (jb_id j)) s) (\<lambda>n s.
       and_then (on_cases (save_issue_resolution (ln_sha ln)
           (resolved_row ln (j\<lparr>jb_attempts := n, jb_updated_at := now\<rparr>) (cs_db s))) s)
         (\<lambda>_ s. return () s))"

subsection \<open>One job\<close>

definition process_one :: "learner \<Rightarrow> string \<Rightarrow> string \<Rightarrow> (learning_state, bool) op" where
  "process_one ln now thread_id s =
    (case pending_memory_learning (cs_db s) thread_id of
       Some j \<Rightarrow> and_then (learn_repository ln now j s) (\<lambda>_ s. return True s)
     | None \<Rightarrow>
         (case pending_issue_resolution (cs_db s) thread_id of
            Some j \<Rightarrow> and_then (learn_resolution ln now j s) (\<lambda>_ s. return True s)
          | None \<Rightarrow> return False s))"

end
