(* ===== verification/Learning_Properties.thy ===== *)
theory Learning_Properties
  imports Learning Memory_Properties Example_Run
begin

text \<open>
  Properties of learning after a publication: the attempts are bounded and the jobs of a thread come to
  rest, the work of the thread is left alone, the search index agrees with the rows it is derived from,
  and a search stays within one repository.
\<close>

section \<open>Attempts\<close>

text \<open>The attempts the jobs of a thread have left.\<close>

definition attempts_left :: "nat \<Rightarrow> string \<Rightarrow> 'a job_row_scheme list \<Rightarrow> nat" where
  "attempts_left limit thread_id js = sum_list (map (\<lambda>j. if unfinished limit thread_id j then limit - jb_attempts j else 0) js)"

definition learning_budget :: "db \<Rightarrow> string \<Rightarrow> nat" where
  "learning_budget d thread_id =
     attempts_left MAX_MEMORY_LEARNING_ATTEMPTS thread_id (learning_jobs d) +
     attempts_left MAX_ISSUE_RESOLUTION_ATTEMPTS thread_id (resolution_jobs d)"

abbreviation job_keys :: "db \<Rightarrow> bool" where
  "job_keys d \<equiv> distinct (map jb_id (learning_jobs d)) \<and> distinct (map jb_id (resolution_jobs d))"

lemma first_job_cases:
  obtains (none) "first_job limit thread_id js = None" "\<forall>j \<in> set js. \<not> unfinished limit thread_id j"
  | (one) j where "first_job limit thread_id js = Some j" "j \<in> set js" "unfinished limit thread_id j"
proof (cases "order_by (\<lambda>j. (jb_cycle_id j, jb_created_at j, jb_id j)) (filter (unfinished limit thread_id) js)")
  case Nil
  from arg_cong [OF this, of set] have "{j \<in> set js. unfinished limit thread_id j} = {}" by simp
  then show thesis by (intro none) (auto simp only: first_job_def Nil list.case mem_Collect_eq)
next
  case (Cons j rest)
  from arg_cong [OF this, of set] have "j \<in> {j \<in> set js. unfinished limit thread_id j}" by simp
  then show thesis by (intro one [of j]) (auto simp: first_job_def Cons)
qed

lemma update_one:
  assumes "distinct (map key rows)" "r \<in> set rows"
  shows "\<exists>xs ys. rows = xs @ r # ys \<and> update_where (\<lambda>x. key x = key r) f rows = xs @ f r # ys"
proof -
  obtain xs ys where rows: "rows = xs @ r # ys" using assms(2) by (metis split_list)
  then have "\<forall>x \<in> set xs \<union> set ys. key x \<noteq> key r" using assms(1) by (auto simp: image_iff)
  then have "update_where (\<lambda>x. key x = key r) f rows = xs @ f r # ys"
    unfolding rows by (auto simp: update_where_def intro: map_idI)
  with rows show ?thesis by blast
qed

lemma claim_attempt_of:
  assumes "distinct (map jb_id js)" "j \<in> set js"
  shows "claim_attempt tbl (jb_id j) js =
    Inr (Suc (jb_attempts j), update_where (\<lambda>x. jb_id x = jb_id j) (\<lambda>x. x\<lparr>jb_attempts := Suc (jb_attempts x)\<rparr>) js)"
proof -
  obtain xs ys where js: "js = xs @ j # ys" using assms(2) by (metis split_list)
  then have "\<forall>x \<in> set xs \<union> set ys. jb_id x \<noteq> jb_id j" using assms(1) by (auto simp: image_iff)
  then have "rowcount (\<lambda>x. jb_id x = jb_id j) js = 1" by (auto simp: js rowcount_def filter_empty_conv)
  moreover have "lookup jb_id (jb_id j) js = Some j" using assms by (simp add: lookup_unique)
  ultimately show ?thesis by (simp add: claim_attempt_def lookup_update_where)
qed

lemma claimed_is_there:
  "j \<in> set js \<Longrightarrow> jb_id j \<in> jb_id ` set (update_where p (\<lambda>x. x\<lparr>jb_attempts := Suc (jb_attempts x)\<rparr>) js)"
  using map_update_where [of jb_id "\<lambda>x. x\<lparr>jb_attempts := Suc (jb_attempts x)\<rparr>" p js, THEN arg_cong [of _ _ set]] by auto

lemma update_where_twice:
  "(\<And>x. key (g x) = key x) \<Longrightarrow>
    update_where (\<lambda>x. key x = k) f (update_where (\<lambda>x. key x = k) g rows) = update_where (\<lambda>x. key x = k) (\<lambda>x. f (g x)) rows"
  by (auto simp: update_where_def)

lemma attempts_left_falls:
  assumes "distinct (map jb_id js)" "j \<in> set js" "unfinished limit thread_id j"
    and "jb_thread (f j) = jb_thread j" "jb_attempts (f j) = Suc (jb_attempts j)"
  shows "attempts_left limit thread_id (update_where (\<lambda>x. jb_id x = jb_id j) f js) < attempts_left limit thread_id js"
proof -
  obtain xs ys where "js = xs @ j # ys" "update_where (\<lambda>x. jb_id x = jb_id j) f js = xs @ f j # ys"
    using update_one [OF assms(1,2)] by blast
  moreover have "(if unfinished limit thread_id (f j) then limit - jb_attempts (f j) else 0) < limit - jb_attempts j"
    using assms(3-5) by (auto simp: unfinished_def)
  ultimately show ?thesis using assms(3) by (simp add: attempts_left_def)
qed

section \<open>What one call does to the jobs\<close>

text \<open>The table of jobs after a call: the row of the job with one attempt more, whatever else it records.\<close>

definition tried :: "'a job_row_scheme \<Rightarrow> 'a job_row_scheme list \<Rightarrow> 'a job_row_scheme list \<Rightarrow> bool" where
  "tried j js js' = (\<exists>f. js' = update_where (\<lambda>x. jb_id x = jb_id j) f js \<and> jb_thread (f j) = jb_thread j
     \<and> jb_attempts (f j) = Suc (jb_attempts j) \<and> (\<forall>x. jb_id x = jb_id j \<longrightarrow> jb_id (f x) = jb_id x))"

lemma tried_keys: "tried j js js' \<Longrightarrow> map jb_id js' = map jb_id js"
  by (auto simp: tried_def update_where_def)

lemma settle_other_tables:
  "settle_memory_proposals now a d = d\<lparr>memory_candidates := memory_candidates (settle_memory_proposals now a d)\<rparr>"
proof -
  have "fold (\<lambda>r d. if mc_status r \<noteq> PROPOSED then d
                else set_repo_memory_candidate_status (mc_id r) (nomination_verdict a (mc_id r)) now d) rs d
      = d\<lparr>memory_candidates := memory_candidates (fold (\<lambda>r d. if mc_status r \<noteq> PROPOSED then d
                else set_repo_memory_candidate_status (mc_id r) (nomination_verdict a (mc_id r)) now d) rs d)\<rparr>" for rs
  proof (induction rs arbitrary: d)
    case (Cons r rs)
    let ?d = "if mc_status r \<noteq> PROPOSED then d
                else set_repo_memory_candidate_status (mc_id r) (nomination_verdict a (mc_id r)) now d"
    have "?d\<lparr>memory_candidates := x\<rparr> = d\<lparr>memory_candidates := x\<rparr>" for x
      by (simp add: set_repo_memory_candidate_status_def)
    with Cons [of ?d] show ?case by simp
  qed simp
  then show ?thesis by (simp add: settle_memory_proposals_def)
qed

lemma settle_jobs [simp]:
  "learning_jobs (settle_memory_proposals now a d) = learning_jobs d"
  "resolution_jobs (settle_memory_proposals now a d) = resolution_jobs d"
  by (subst settle_other_tables, simp)+

lemma learn_repository_tries:
  assumes "distinct (map jb_id (learning_jobs (cs_db s)))" "j \<in> set (learning_jobs (cs_db s))"
    and "learn_repository ln now j s = (r, s')"
  shows "tried j (learning_jobs (cs_db s)) (learning_jobs (cs_db s')) \<and> resolution_jobs (cs_db s') = resolution_jobs (cs_db s)
    \<and> cs_index s' = cs_index s"
proof -
  let ?inc = "\<lambda>x :: learning_row. x\<lparr>jb_attempts := Suc (jb_attempts x)\<rparr>"
  let ?at = "\<lambda>x :: learning_row. jb_id x = jb_id j"
  let ?d = "(cs_db s)\<lparr>learning_jobs := update_where ?at ?inc (learning_jobs (cs_db s))\<rparr>"
  have c: "in_database (claim_memory_learning_attempt (jb_id j)) s = (Inr (Suc (jb_attempts j)), s\<lparr>cs_db := ?d\<rparr>)"
    using claim_attempt_of [OF assms(1,2)] by (simp add: in_database_def claim_memory_learning_attempt_def)
  obtain a m where a: "learn_attempt ln (j\<lparr>jb_attempts := Suc (jb_attempts j)\<rparr>) ?d (ms_memory s) = (a, m)" by fastforce
  let ?e = "settle_memory_proposals now a ?d" and ?j = "settled_job now a (j\<lparr>jb_attempts := Suc (jb_attempts j)\<rparr>)"
  have present: "has jb_id (jb_id ?j) (learning_jobs ?e)"
    using claimed_is_there [OF assms(2)] by (simp add: settled_job_def)
  have j: "jb_id ?j = jb_id j" "jb_thread ?j = jb_thread j" "jb_attempts ?j = Suc (jb_attempts j)"
    by (simp_all add: settled_job_def)
  have rep: "learn_repository ln now j s = and_then (in_database (save_repo_memory_learning (ln_sha ln) ?j) (s\<lparr>ms_memory := m, cs_db := ?e\<rparr>))
      (\<lambda>_ s. return () s)"
    by (simp add: learn_repository_def c a Let_def)
  show ?thesis
  proof (cases "jb_id ?j = memory_learning_id_for (ln_sha ln) (jb_thread ?j) (jb_cycle_id ?j) (jb_root_input ?j)")
    case True
    let ?save = "\<lambda>x. x\<lparr>jb_status := jb_status ?j, le_accepted := le_accepted ?j, le_rejected := le_rejected ?j,
             jb_error := jb_error ?j, le_proposal := le_proposal ?j, jb_attempts := jb_attempts ?j, jb_updated_at := jb_updated_at ?j\<rparr>"
    let ?js = "update_where (\<lambda>x. jb_id x = jb_id ?j) ?save (learning_jobs ?e)"
    have "save_repo_memory_learning (ln_sha ln) ?j ?e = (Inr (lookup jb_id (jb_id ?j) ?js), ?e\<lparr>learning_jobs := ?js\<rparr>)"
      unfolding save_repo_memory_learning_def using present by (subst if_not_P) (use True in simp_all)
    then have "s' = s\<lparr>ms_memory := m, cs_db := ?e\<lparr>learning_jobs := ?js\<rparr>\<rparr>"
      using assms(3) unfolding rep by (simp add: in_database_def)
    moreover have "tried j (learning_jobs (cs_db s)) ?js"
      unfolding tried_def using j
      by (intro exI [of _ "\<lambda>x. ?save (?inc x)"]) (simp add: update_where_twice)
    ultimately show ?thesis by simp
  next
    case False
    then have "save_repo_memory_learning (ln_sha ln) ?j ?e = (Inl (ValueError ''memory learning id does not match its lifecycle''), ?e)"
      unfolding save_repo_memory_learning_def by simp
    then have "s' = s\<lparr>ms_memory := m, cs_db := ?e\<rparr>"
      using assms(3) unfolding rep by (simp add: in_database_def)
    moreover have "tried j (learning_jobs (cs_db s)) (learning_jobs ?e)"
      unfolding tried_def by (intro exI [of _ ?inc]) simp
    ultimately show ?thesis by simp
  qed
qed

lemma learn_resolution_tries:
  assumes "distinct (map jb_id (resolution_jobs (cs_db s)))" "j \<in> set (resolution_jobs (cs_db s))"
    and "learn_resolution ln now j s = (r, s')"
  shows "tried j (resolution_jobs (cs_db s)) (resolution_jobs (cs_db s')) \<and> learning_jobs (cs_db s') = learning_jobs (cs_db s)"
proof -
  let ?inc = "\<lambda>x :: resolution_row. x\<lparr>jb_attempts := Suc (jb_attempts x)\<rparr>"
  let ?at = "\<lambda>x :: resolution_row. jb_id x = jb_id j"
  let ?d = "(cs_db s)\<lparr>resolution_jobs := update_where ?at ?inc (resolution_jobs (cs_db s))\<rparr>"
  let ?j = "resolved_row ln (j\<lparr>jb_attempts := Suc (jb_attempts j), jb_updated_at := now\<rparr>) ?d"
  have c: "in_database (claim_issue_resolution_attempt (jb_id j)) s = (Inr (Suc (jb_attempts j)), s\<lparr>cs_db := ?d\<rparr>)"
    using claim_attempt_of [OF assms(1,2)] by (simp add: in_database_def claim_issue_resolution_attempt_def)
  have j: "jb_id ?j = jb_id j" "jb_thread ?j = jb_thread j" "jb_attempts ?j = Suc (jb_attempts j)"
    by (simp_all add: resolved_row_def split: option.split sum.split)
  have present: "has jb_id (jb_id ?j) (resolution_jobs ?d)"
    using claimed_is_there [OF assms(2)] by (simp add: j)
  have rep: "learn_resolution ln now j s = and_then (on_cases (save_issue_resolution (ln_sha ln) ?j) (s\<lparr>cs_db := ?d\<rparr>))
      (\<lambda>_ s. return () s)"
    by (simp add: learn_resolution_def c)
  show ?thesis
  proof (cases "jb_id ?j = resolution_id_for (ln_sha ln) (jb_thread ?j) (jb_cycle_id ?j) (jb_root_input ?j)")
    case True
    let ?js = "update_where (\<lambda>x. jb_id x = jb_id ?j) (\<lambda>_. ?j) (resolution_jobs ?d)"
    have "cs_db (snd (save_issue_resolution (ln_sha ln) ?j \<lparr>cs_db = ?d, cs_index = cs_index s\<rparr>)) = ?d\<lparr>resolution_jobs := ?js\<rparr>"
      unfolding save_issue_resolution_def Let_def using present by (subst if_not_P) (use True in simp_all)
    then have "cs_db s' = ?d\<lparr>resolution_jobs := ?js\<rparr>"
      using assms(3) unfolding rep by (auto simp: on_cases_def and_then_def split: prod.split_asm sum.split_asm)
    moreover have "tried j (resolution_jobs (cs_db s)) ?js"
      unfolding tried_def using j
      by (intro exI [of _ "\<lambda>_. ?j"]) (simp add: update_where_twice)
    ultimately show ?thesis by simp
  next
    case False
    then have "cs_db (snd (save_issue_resolution (ln_sha ln) ?j \<lparr>cs_db = ?d, cs_index = cs_index s\<rparr>)) = ?d"
      unfolding save_issue_resolution_def Let_def by simp
    then have "cs_db s' = ?d"
      using assms(3) unfolding rep by (auto simp: on_cases_def and_then_def split: prod.split_asm sum.split_asm)
    moreover have "tried j (resolution_jobs (cs_db s)) (resolution_jobs ?d)"
      unfolding tried_def by (intro exI [of _ ?inc]) simp
    ultimately show ?thesis by simp
  qed
qed

lemma process_one_cases:
  assumes "job_keys (cs_db s)"
  obtains (idle) "process_one ln now thread_id s = (Inr False, s)" "learning_budget (cs_db s) thread_id = 0"
  | (memory) j where "j \<in> set (learning_jobs (cs_db s))" "unfinished MAX_MEMORY_LEARNING_ATTEMPTS thread_id j"
      "snd (process_one ln now thread_id s) = snd (learn_repository ln now j s)"
      "fst (process_one ln now thread_id s) \<noteq> Inr False"
      "tried j (learning_jobs (cs_db s)) (learning_jobs (cs_db (snd (process_one ln now thread_id s))))"
      "resolution_jobs (cs_db (snd (process_one ln now thread_id s))) = resolution_jobs (cs_db s)"
  | (resolution) j where "j \<in> set (resolution_jobs (cs_db s))" "unfinished MAX_ISSUE_RESOLUTION_ATTEMPTS thread_id j"
      "snd (process_one ln now thread_id s) = snd (learn_resolution ln now j s)"
      "fst (process_one ln now thread_id s) \<noteq> Inr False"
      "tried j (resolution_jobs (cs_db s)) (resolution_jobs (cs_db (snd (process_one ln now thread_id s))))"
      "learning_jobs (cs_db (snd (process_one ln now thread_id s))) = learning_jobs (cs_db s)"
proof (cases rule: first_job_cases [of MAX_MEMORY_LEARNING_ATTEMPTS thread_id "learning_jobs (cs_db s)"])
  case (one j)
  obtain r s' where r: "learn_repository ln now j s = (r, s')" by fastforce
  with one(1) have p: "snd (process_one ln now thread_id s) = s'" "fst (process_one ln now thread_id s) \<noteq> Inr False"
    by (cases r; simp add: process_one_def)+
  with learn_repository_tries [OF _ one(2) r] assms r show thesis by (intro memory [OF one(2,3)]) simp_all
next
  case no_memory: none
  show thesis
  proof (cases rule: first_job_cases [of MAX_ISSUE_RESOLUTION_ATTEMPTS thread_id "resolution_jobs (cs_db s)"])
    case (one j)
    obtain r s' where r: "learn_resolution ln now j s = (r, s')" by fastforce
    with one(1) no_memory(1) have p: "snd (process_one ln now thread_id s) = s'" "fst (process_one ln now thread_id s) \<noteq> Inr False"
      by (cases r; simp add: process_one_def)+
    with learn_resolution_tries [OF _ one(2) r] assms r show thesis by (intro resolution [OF one(2,3)]) simp_all
  next
    case none
    with no_memory have "learning_budget (cs_db s) thread_id = 0"
      by (simp add: learning_budget_def attempts_left_def)
    with none(1) no_memory(1) show thesis by (intro idle) (simp_all add: process_one_def)
  qed
qed

lemma tried_spends:
  "distinct (map jb_id js) \<Longrightarrow> j \<in> set js \<Longrightarrow> unfinished limit thread_id j \<Longrightarrow> tried j js js' \<Longrightarrow>
    attempts_left limit thread_id js' < attempts_left limit thread_id js"
  using attempts_left_falls by (auto simp: tried_def)

lemma process_one_spends:
  assumes "job_keys (cs_db s)" "process_one ln now thread_id s = (r, s')"
  shows "job_keys (cs_db s') \<and> (r = Inr False \<and> s' = s \<or>
    r \<noteq> Inr False \<and> learning_budget (cs_db s') thread_id < learning_budget (cs_db s) thread_id)"
  using assms(1)
proof (cases rule: process_one_cases [where ln = ln and now = now and thread_id = thread_id])
  case idle
  with assms show ?thesis by simp
next
  case (memory j)
  with assms tried_spends [OF _ memory(1,2,5)] tried_keys [OF memory(5)] show ?thesis
    by (simp add: learning_budget_def)
next
  case (resolution j)
  with assms tried_spends [OF _ resolution(1,2,5)] tried_keys [OF resolution(5)] show ?thesis
    by (simp add: learning_budget_def)
qed

section \<open>Properties of learning\<close>

text \<open>The state after so many calls, at the times the clock showed.\<close>

primrec after_calls :: "learner \<Rightarrow> (nat \<Rightarrow> string) \<Rightarrow> string \<Rightarrow> nat \<Rightarrow> learning_state \<Rightarrow> learning_state" where
  "after_calls ln clock thread_id 0 s = s"
| "after_calls ln clock thread_id (Suc n) s = snd (process_one ln (clock n) thread_id (after_calls ln clock thread_id n s))"

lemma calls_spend:
  assumes "job_keys (cs_db s)" "\<forall>i < n. fst (process_one ln (clock i) thread_id (after_calls ln clock thread_id i s)) \<noteq> Inr False"
  shows "job_keys (cs_db (after_calls ln clock thread_id n s)) \<and>
    learning_budget (cs_db (after_calls ln clock thread_id n s)) thread_id + n \<le> learning_budget (cs_db s) thread_id"
  using assms(2)
proof (induction n)
  case (Suc n)
  then have ih: "job_keys (cs_db (after_calls ln clock thread_id n s))"
    "learning_budget (cs_db (after_calls ln clock thread_id n s)) thread_id + n \<le> learning_budget (cs_db s) thread_id" by simp_all
  from Suc.prems have "fst (process_one ln (clock n) thread_id (after_calls ln clock thread_id n s)) \<noteq> Inr False" by simp
  then show ?case
    using process_one_spends [OF ih(1) prod.collapse [symmetric], of ln "clock n" thread_id] ih(2) by fastforce
qed (use assms(1) in simp)

lemma left_per_job: "attempts_left limit thread_id js \<le> limit * length js"
  by (induction js) (auto simp: attempts_left_def)

text \<open>
  C15. Learning comes to rest. Whatever the curators answer, fail with or raise, and whatever else is in
  the tables, the calls of \<open>process_one\<close> on a thread report that there is nothing left to do after at most
  three calls for each job: an attempt is counted before the model is asked, and it is never given back.
\<close>

theorem learning_comes_to_rest:
  assumes "distinct (map jb_id (learning_jobs (cs_db s)))" "distinct (map jb_id (resolution_jobs (cs_db s)))"
  shows "\<exists>n \<le> 3 * (length (learning_jobs (cs_db s)) + length (resolution_jobs (cs_db s))).
    fst (process_one ln (clock n) thread_id (after_calls ln clock thread_id n s)) = Inr False"
proof (rule ccontr)
  let ?N = "3 * (length (learning_jobs (cs_db s)) + length (resolution_jobs (cs_db s)))"
  assume "\<not> ?thesis"
  then have "\<forall>i < Suc ?N. fst (process_one ln (clock i) thread_id (after_calls ln clock thread_id i s)) \<noteq> Inr False"
    by auto
  with assms have "Suc ?N \<le> learning_budget (cs_db s) thread_id" using calls_spend [of s "Suc ?N"] by fastforce
  moreover have "learning_budget (cs_db s) thread_id \<le> ?N"
    using left_per_job [of 3 thread_id "learning_jobs (cs_db s)"] left_per_job [of 3 thread_id "resolution_jobs (cs_db s)"]
    by (simp add: learning_budget_def MAX_MEMORY_LEARNING_ATTEMPTS_def MAX_ISSUE_RESOLUTION_ATTEMPTS_def)
  ultimately show False by simp
qed

text \<open>A thread with one open learning job, whose row is all there is.\<close>

definition demo_learning :: learning_state where
  "demo_learning = \<lparr>cs_db = demo_0\<lparr>learning_jobs :=
       [\<lparr>jb_id = ''memory'', jb_event = ''event'', jb_thread = ''thread'', jb_cycle_id = 1, jb_root_input = ''event'',
         jb_repo_id = 7, jb_status = J_PENDING, jb_attempts = 0, jb_error = None, jb_created_at = ''t'', jb_updated_at = ''t'',
         le_accepted = 0, le_rejected = 0, le_proposal = []\<rparr>], resolution_jobs := []\<rparr>,
     cs_index = [], ms_memory = demo_memory\<rparr>"

definition demo_learner :: learner where
  "demo_learner = \<lparr>ln_sha = demo_sha, ln_trees = (\<lambda>_. demo_tree), ln_has_memory = True, ln_curator = None, ln_resolver = None\<rparr>"

lemma learning_comes_to_rest_witness:
  "pending_memory_learning (cs_db demo_learning) ''thread'' \<noteq> None \<and>
    (\<exists>n \<le> 3. fst (process_one demo_learner ''now'' ''thread'' (after_calls demo_learner (\<lambda>_. ''now'') ''thread'' n demo_learning)) = Inr False)"
proof -
  have "distinct (map jb_id (learning_jobs (cs_db demo_learning)))" "distinct (map jb_id (resolution_jobs (cs_db demo_learning)))"
    "length (learning_jobs (cs_db demo_learning)) + length (resolution_jobs (cs_db demo_learning)) = 1"
    by (simp_all add: demo_learning_def)
  then show ?thesis
    using learning_comes_to_rest [of demo_learning demo_learner "\<lambda>_. ''now''" "''thread''"]
    by (simp add: demo_learning_def first_job_def unfinished_def MAX_MEMORY_LEARNING_ATTEMPTS_def order_by_def)
qed

section \<open>What learning leaves alone\<close>

text \<open>Nothing but the two tables of jobs and the status of nominations.\<close>

definition nominated :: "db \<Rightarrow> candidate_row list" where
  "nominated d = map (\<lambda>r. r\<lparr>mc_status := PROPOSED, mc_updated_at := []\<rparr>) (memory_candidates d)"

definition work_kept :: "learning_state \<Rightarrow> learning_state \<Rightarrow> bool" where
  "work_kept s s' = (cs_db s' = (cs_db s)\<lparr>learning_jobs := learning_jobs (cs_db s'), resolution_jobs := resolution_jobs (cs_db s'),
     memory_candidates := memory_candidates (cs_db s')\<rparr> \<and> nominated (cs_db s') = nominated (cs_db s))"

lemma work_kept_refl: "work_kept s s"
  by (simp add: work_kept_def)

lemma work_kept_trans: "work_kept s t \<Longrightarrow> work_kept t u \<Longrightarrow> work_kept s u"
proof -
  assume s: "work_kept s t" and t: "work_kept t u"
  have "cs_db u = (cs_db t)\<lparr>learning_jobs := learning_jobs (cs_db u), resolution_jobs := resolution_jobs (cs_db u),
     memory_candidates := memory_candidates (cs_db u)\<rparr>"
    using t by (simp add: work_kept_def)
  also have "\<dots> = (cs_db s)\<lparr>learning_jobs := learning_jobs (cs_db u), resolution_jobs := resolution_jobs (cs_db u),
     memory_candidates := memory_candidates (cs_db u)\<rparr>"
    using s by (subst work_kept_def [THEN iffD1, OF s, THEN conjunct1]) simp
  finally show ?thesis using s t by (simp add: work_kept_def)
qed

interpretation work: state_frame work_kept
  by unfold_locales (fact work_kept_refl, erule (1) work_kept_trans)

lemma jobs_change_keeps:
  "cs_db s' = cs_db s \<Longrightarrow> work_kept s s'"
  "cs_db s' = (cs_db s)\<lparr>learning_jobs := js\<rparr> \<Longrightarrow> work_kept s s'"
  "cs_db s' = (cs_db s)\<lparr>resolution_jobs := rs\<rparr> \<Longrightarrow> work_kept s s'"
  by (simp_all add: work_kept_def nominated_def)

lemma memory_claim_keeps: "work_kept s (snd (in_database (claim_memory_learning_attempt k) s))"
proof (cases "claim_attempt ''repo_memory_learning'' k (learning_jobs (cs_db s))")
  case (Inr p)
  then show ?thesis
    by (intro jobs_change_keeps(2) [where js = "snd p"]) (simp add: in_database_def claim_memory_learning_attempt_def split: prod.split)
qed (intro jobs_change_keeps(1), simp add: in_database_def claim_memory_learning_attempt_def)

lemma resolution_claim_keeps: "work_kept s (snd (in_database (claim_issue_resolution_attempt k) s))"
proof (cases "claim_attempt ''issue_resolution_memory'' k (resolution_jobs (cs_db s))")
  case (Inr p)
  then show ?thesis
    by (intro jobs_change_keeps(3) [where rs = "snd p"]) (simp add: in_database_def claim_issue_resolution_attempt_def split: prod.split)
qed (intro jobs_change_keeps(1), simp add: in_database_def claim_issue_resolution_attempt_def)

lemma learning_save_keeps: "work_kept s (snd (in_database (save_repo_memory_learning sha r) s))"
proof -
  have "\<exists>js. snd (save_repo_memory_learning sha r (cs_db s)) = (cs_db s)\<lparr>learning_jobs := js\<rparr>"
    unfolding save_repo_memory_learning_def
    by (auto simp del: has_iff intro: exI [of _ "learning_jobs (cs_db s)"])
  then show ?thesis by (auto simp: in_database_def split: prod.split intro: jobs_change_keeps(2))
qed

lemma resolution_save_keeps: "work_kept s (snd (on_cases (save_issue_resolution sha r) s))"
proof -
  let ?c = "\<lparr>cs_db = cs_db s, cs_index = cs_index s\<rparr>"
  have "\<exists>rs. cs_db (snd (save_issue_resolution sha r ?c)) = (cs_db s)\<lparr>resolution_jobs := rs\<rparr>"
    unfolding save_issue_resolution_def Let_def
    by (auto simp del: has_iff intro: exI [of _ "resolution_jobs (cs_db s)"])
  then show ?thesis by (auto simp: on_cases_def split: prod.split intro: jobs_change_keeps(3))
qed

lemmas claims_keep = memory_claim_keeps resolution_claim_keeps

lemmas saves_keep = learning_save_keeps resolution_save_keeps

lemma settle_keeps_nominations: "nominated (settle_memory_proposals now a d) = nominated d"
proof -
  have "nominated (fold (\<lambda>r d. if mc_status r \<noteq> PROPOSED then d
                else set_repo_memory_candidate_status (mc_id r) (nomination_verdict a (mc_id r)) now d) rs d) = nominated d"
    for rs :: "candidate_row list"
    by (induction rs arbitrary: d) (auto simp: nominated_def set_repo_memory_candidate_status_def update_where_def)
  then show ?thesis by (simp add: settle_memory_proposals_def)
qed

lemma settling_keeps: "work_kept s (s\<lparr>ms_memory := m, cs_db := settle_memory_proposals now a (cs_db s)\<rparr>)"
  using settle_other_tables [of now a "cs_db s"] settle_keeps_nominations [of now a "cs_db s"] by (simp add: work_kept_def)

lemma learn_repository_keeps: "work_kept s (snd (learn_repository ln now j s))"
  unfolding learn_repository_def
proof (intro work.and_then_keeps claims_keep, goal_cases)
  case (1 n t)
  obtain a m where a: "learn_attempt ln (j\<lparr>jb_attempts := n\<rparr>) (cs_db t) (ms_memory t) = (a, m)" by fastforce
  show ?case
    unfolding a Let_def prod.case
    by (rule work_kept_trans [OF settling_keeps [where m = m and now = now and a = a]]) (intro work.and_then_keeps saves_keep work.return_keeps)
qed

lemma learn_resolution_keeps: "work_kept s (snd (learn_resolution ln now j s))"
  unfolding learn_resolution_def by (intro work.and_then_keeps claims_keep saves_keep work.return_keeps)

lemma process_one_keeps: "work_kept s (snd (process_one ln now thread_id s))"
  unfolding process_one_def
  by (auto split: option.split intro!: work.and_then_keeps learn_repository_keeps learn_resolution_keeps work_kept_refl)

text \<open>The memory a call may write.\<close>

lemma apply_other_keys:
  "k \<noteq> (repo_memory_namespace repo_id, MEMORY_STORE_KEY) \<Longrightarrow> snd (apply_memory_candidates sha repo_id wt cs m) k = m k"
  by (auto simp: apply_memory_candidates_def Let_def append_elsewhere split: sum.split)

lemma learn_in_tree_memory:
  assumes "k \<noteq> (repo_memory_namespace (jb_repo_id j), MEMORY_STORE_KEY)"
  shows "snd (learn_in_tree ln j wt base gm records m) k = m k"
proof (cases "proposed_candidates (ln_sha ln) (jb_repo_id j) wt records")
  case proposed: (Inr proposed)
  show ?thesis
  proof (cases "curated_candidates ln (jb_repo_id j) wt base gm m")
    case (Inr curated)
    let ?cs = "map snd proposed @ (case curated of None \<Rightarrow> [] | Some cs \<Rightarrow> cs)"
    have "snd (apply_memory_candidates (ln_sha ln) (jb_repo_id j) wt ?cs m) k = m k" by (rule apply_other_keys [OF assms])
    then show ?thesis using proposed Inr
      by (cases "apply_memory_candidates (ln_sha ln) (jb_repo_id j) wt ?cs m") (simp add: learn_in_tree_def Let_def split: sum.split)
  qed (use proposed in \<open>simp add: learn_in_tree_def\<close>)
qed (simp add: learn_in_tree_def)

lemma learn_attempt_memory:
  "k \<noteq> (repo_memory_namespace (jb_repo_id j), MEMORY_STORE_KEY) \<Longrightarrow> snd (learn_attempt ln j d m) k = m k"
  by (auto simp: learn_attempt_def Let_def learn_in_tree_memory split: sum.split option.split)

lemma learn_repository_memory:
  assumes "k \<noteq> (repo_memory_namespace (jb_repo_id j), MEMORY_STORE_KEY)"
  shows "ms_memory (snd (learn_repository ln now j s)) k = ms_memory s k"
proof -
  have saved: "ms_memory (snd (and_then (in_database f t) (\<lambda>_ s. return () s))) = ms_memory t" for f :: "(db, learning_row option) op" and t
    by (auto simp: in_database_def and_then_def split: prod.split sum.split)
  obtain r d where c: "claim_memory_learning_attempt (jb_id j) (cs_db s) = (r, d)" by fastforce
  show ?thesis
  proof (cases r)
    case (Inr n)
    obtain a m where a: "learn_attempt ln (j\<lparr>jb_attempts := n\<rparr>) d (ms_memory s) = (a, m)" by fastforce
    with learn_attempt_memory [where k = k and j = "j\<lparr>jb_attempts := n\<rparr>" and d = d and m = "ms_memory s" and ln = ln] assms
    have "m k = ms_memory s k" by simp
    then show ?thesis by (simp add: learn_repository_def in_database_def [of "claim_memory_learning_attempt _"] c Inr a Let_def saved)
  qed (simp add: learn_repository_def in_database_def c)
qed

lemma learn_resolution_memory: "ms_memory (snd (learn_resolution ln now j s)) = ms_memory s"
  by (auto simp: learn_resolution_def in_database_def on_cases_def and_then_def split: prod.split sum.split)

lemma process_one_memory:
  "{k. ms_memory (snd (process_one ln now thread_id s)) k \<noteq> ms_memory s k} \<subseteq>
    {(repo_memory_namespace (jb_repo_id j), MEMORY_STORE_KEY) | j. j \<in> set (learning_jobs (cs_db s)) \<and> jb_thread j = thread_id}"
proof (cases rule: first_job_cases [of MAX_MEMORY_LEARNING_ATTEMPTS thread_id "learning_jobs (cs_db s)"])
  case (one j)
  obtain r t where l: "learn_repository ln now j s = (r, t)" by fastforce
  then have "snd (process_one ln now thread_id s) = t" using one(1) by (cases r) (simp_all add: process_one_def)
  moreover have "k = (repo_memory_namespace (jb_repo_id j), MEMORY_STORE_KEY)" if "ms_memory t k \<noteq> ms_memory s k" for k
    using that learn_repository_memory [of k j ln now s] l by auto
  moreover have "jb_thread j = thread_id" using one(3) by (simp add: unfinished_def)
  ultimately show ?thesis using one(2) by blast
next
  case none
  have "ms_memory (snd (process_one ln now thread_id s)) = ms_memory s"
  proof (cases "first_job MAX_ISSUE_RESOLUTION_ATTEMPTS thread_id (resolution_jobs (cs_db s))")
    case (Some j)
    with none(1) learn_resolution_memory [of ln now j s] show ?thesis
      by (cases "learn_resolution ln now j s"; cases "fst (learn_resolution ln now j s)") (simp_all add: process_one_def)
  qed (use none(1) in \<open>simp add: process_one_def\<close>)
  then show ?thesis by simp
qed

text \<open>
  Learning leaves the work alone. One call of \<open>process_one\<close> changes no table of the database but the
  two tables of jobs and the status of nominations: no cycle, task, plan, permit, approval, event or
  publication. Of the memory store it changes at most the memory file of a repository for which the
  thread has a learning job.
\<close>

theorem learning_leaves_work_alone:
  "cs_db (snd (process_one ln now thread_id s)) = (cs_db s)\<lparr>
      learning_jobs := learning_jobs (cs_db (snd (process_one ln now thread_id s))),
      resolution_jobs := resolution_jobs (cs_db (snd (process_one ln now thread_id s))),
      memory_candidates := memory_candidates (cs_db (snd (process_one ln now thread_id s)))\<rparr>
    \<and> nominated (cs_db (snd (process_one ln now thread_id s))) = nominated (cs_db s)
    \<and> {k. ms_memory (snd (process_one ln now thread_id s)) k \<noteq> ms_memory s k} \<subseteq>
        {(repo_memory_namespace (jb_repo_id j), MEMORY_STORE_KEY) | j. j \<in> set (learning_jobs (cs_db s)) \<and> jb_thread j = thread_id}"
  using process_one_keeps [of s ln now thread_id] process_one_memory unfolding work_kept_def by blast

section \<open>The search index\<close>

definition case_entry :: "resolution_row \<Rightarrow> (string \<times> string) set" where
  "case_entry r = (if jb_status r = J_COMPLETED then {(jb_id r, resolution_haystack r)} else {})"

definition case_entries :: "resolution_row list \<Rightarrow> (string \<times> string) set" where
  "case_entries rs = (\<Union>r \<in> set rs. case_entry r)"

lemma set_index: "set (index_issue_resolution r ix) = {e \<in> set ix. fst e \<noteq> jb_id r} \<union> case_entry r"
  by (auto simp: index_issue_resolution_def case_entry_def Let_def)

lemma entry_key: "e \<in> case_entry r \<Longrightarrow> fst e = jb_id r"
  by (auto simp: case_entry_def split: if_split_asm)

lemma fold_index:
  "distinct (map jb_id rs) \<Longrightarrow> set (fold index_issue_resolution rs ix) = {e \<in> set ix. fst e \<notin> jb_id ` set rs} \<union> case_entries rs"
proof (induction rs arbitrary: ix)
  case (Cons r rs)
  then have "jb_id r \<notin> jb_id ` set rs" by auto
  then have "{e \<in> case_entry r. fst e \<notin> jb_id ` set rs} = case_entry r" using entry_key by fastforce
  with Cons show ?case by (auto simp: set_index case_entries_def)
qed (simp add: case_entries_def)

lemma rebuilt_index:
  assumes "distinct (map jb_id (resolution_jobs d))"
  shows "set (rebuild_issue_resolution_index d) = case_entries (resolution_jobs d)"
  using assms fold_index [of "order_by jb_id (resolution_jobs d)" "[]"]
  by (simp add: rebuild_issue_resolution_index_def order_by_def distinct_map case_entries_def)

text \<open>The keys are unique and the index has the completed cases.\<close>

definition indexed :: "resolution_row list \<Rightarrow> case_index \<Rightarrow> bool" where
  "indexed rs ix = (distinct (map jb_id rs) \<and> set ix = case_entries rs)"

lemma indexed_claim:
  assumes "indexed rs ix" "claim_attempt tbl k rs = Inr (n, rs')"
  shows "indexed rs' ix"
proof -
  have rs': "rs' = update_where (\<lambda>j. jb_id j = k) (\<lambda>j. j\<lparr>jb_attempts := jb_attempts j + 1\<rparr>) rs"
    using assms(2) by (auto simp: claim_attempt_def Let_def split: if_split_asm option.split_asm)
  have "case_entry (j\<lparr>jb_attempts := a\<rparr>) = case_entry j" for j a
    by (simp add: case_entry_def resolution_haystack_def)
  then have "case_entries rs' = case_entries rs" unfolding rs' case_entries_def by (auto simp: table_simps)
  moreover have "map jb_id rs' = map jb_id rs" unfolding rs' by (rule map_update_where) simp
  ultimately show ?thesis using assms(1) by (simp add: indexed_def)
qed

lemma indexed_replaced:
  assumes "indexed rs ix" "jb_id r \<in> jb_id ` set rs"
  shows "indexed (update_where (\<lambda>j. jb_id j = jb_id r) (\<lambda>_. r) rs) (index_issue_resolution r ix)"
proof -
  have keys: "map jb_id (update_where (\<lambda>j. jb_id j = jb_id r) (\<lambda>_. r) rs) = map jb_id rs"
    by (auto simp: update_where_def)
  have others: "{e \<in> case_entries rs. fst e \<noteq> jb_id r} = (\<Union>j \<in> {j \<in> set rs. jb_id j \<noteq> jb_id r}. case_entry j)"
    using entry_key by (fastforce simp: case_entries_def)
  obtain j where "j \<in> set rs" "jb_id j = jb_id r" using assms(2) by auto
  then have "case_entries (update_where (\<lambda>j. jb_id j = jb_id r) (\<lambda>_. r) rs) =
      (\<Union>j \<in> {j \<in> set rs. jb_id j \<noteq> jb_id r}. case_entry j) \<union> case_entry r"
    by (auto simp: case_entries_def table_simps split: if_split_asm)
  with assms(1) keys others show ?thesis by (simp add: indexed_def set_index)
qed

lemma indexed_added:
  assumes "indexed rs ix" "jb_id r \<notin> jb_id ` set rs"
  shows "indexed (rs @ [r]) (index_issue_resolution r ix)"
proof -
  have "{e \<in> case_entries rs. fst e \<noteq> jb_id r} = case_entries rs"
    using assms(2) entry_key by (fastforce simp: case_entries_def)
  with assms show ?thesis by (auto simp: indexed_def set_index case_entries_def)
qed

abbreviation state_indexed :: "learning_state \<Rightarrow> bool" where
  "state_indexed s \<equiv> indexed (resolution_jobs (cs_db s)) (cs_index s)"

lemma learn_resolution_indexed:
  assumes "state_indexed s"
  shows "state_indexed (snd (learn_resolution ln now j s))"
proof -
  have save: "state_indexed (snd (and_then (on_cases (save_issue_resolution sha r) t) (\<lambda>_ s. return () s)))"
    if "state_indexed t" for sha r and t :: learning_state
  proof -
    let ?c = "\<lparr>cs_db = cs_db t, cs_index = cs_index t\<rparr>"
    have "indexed (resolution_jobs (cs_db (snd (save_issue_resolution sha r ?c)))) (cs_index (snd (save_issue_resolution sha r ?c)))"
      using that indexed_replaced [OF that, of r] indexed_added [OF that, of r]
      by (auto simp: save_issue_resolution_def Let_def)
    then show ?thesis by (auto simp: on_cases_def and_then_def split: prod.split sum.split)
  qed
  show ?thesis
  proof (cases "claim_attempt ''issue_resolution_memory'' (jb_id j) (resolution_jobs (cs_db s))")
    case (Inr p)
    then have "in_database (claim_issue_resolution_attempt (jb_id j)) s =
        (Inr (fst p), s\<lparr>cs_db := (cs_db s)\<lparr>resolution_jobs := snd p\<rparr>\<rparr>)"
      by (simp add: in_database_def claim_issue_resolution_attempt_def split: prod.split)
    moreover have "state_indexed (s\<lparr>cs_db := (cs_db s)\<lparr>resolution_jobs := snd p\<rparr>\<rparr>)"
      using indexed_claim [OF assms, of _ _ "fst p" "snd p"] Inr by simp
    ultimately show ?thesis unfolding learn_resolution_def and_then_simps using save by simp
  next
    case (Inl e)
    with assms show ?thesis by (simp add: learn_resolution_def in_database_def claim_issue_resolution_attempt_def)
  qed
qed

lemma process_one_indexed:
  assumes "state_indexed s" "distinct (map jb_id (learning_jobs (cs_db s)))"
  shows "state_indexed (snd (process_one ln now thread_id s))"
proof -
  have keys: "job_keys (cs_db s)" using assms by (simp add: indexed_def)
  from keys show ?thesis
  proof (cases rule: process_one_cases [where ln = ln and now = now and thread_id = thread_id])
    case idle
    with assms show ?thesis by simp
  next
    case (memory j)
    obtain r t where "learn_repository ln now j s = (r, t)" by fastforce
    with learn_repository_tries [OF assms(2) memory(1) this] memory(3) assms(1) show ?thesis by simp
  next
    case (resolution j)
    with learn_resolution_indexed [OF assms(1)] show ?thesis by simp
  qed
qed

text \<open>
  The search index can always be rebuilt. When the index has the entries that a rebuild from the rows
  would give it, it still has them after a call of \<open>process_one\<close>, whatever that call did, an exception
  included.
\<close>

theorem index_matches_its_rows:
  assumes "distinct (map jb_id (learning_jobs (cs_db s)))" "distinct (map jb_id (resolution_jobs (cs_db s)))"
    and "set (cs_index s) = set (rebuild_issue_resolution_index (cs_db s))"
    and "process_one ln now thread_id s = (r, s')"
  shows "set (cs_index s') = set (rebuild_issue_resolution_index (cs_db s'))"
proof -
  have "state_indexed s" using assms(2,3) by (simp add: indexed_def rebuilt_index)
  from process_one_indexed [OF this assms(1), of ln now thread_id] assms(4) have "state_indexed s'" by simp
  then show ?thesis by (simp add: indexed_def rebuilt_index)
qed

lemma index_matches_its_rows_witness:
  "set (cs_index (snd (process_one demo_learner ''now'' ''thread'' demo_learning))) =
    set (rebuild_issue_resolution_index (cs_db (snd (process_one demo_learner ''now'' ''thread'' demo_learning))))"
  by (rule index_matches_its_rows [OF _ _ _ prod.collapse [symmetric]])
    (simp_all add: demo_learning_def rebuild_issue_resolution_index_def order_by_def)

section \<open>Search\<close>

definition fits_limit :: "nat option \<Rightarrow> resolution_row list \<Rightarrow> bool" where
  "fits_limit per rs = (case per of None \<Rightarrow> True | Some n \<Rightarrow> \<forall>t. rowcount (\<lambda>x. jb_thread x = t) rs \<le> n)"

lemma select_cases_sound:
  assumes "fits_limit per chosen" "length chosen < bound"
  shows "fits_limit per (select_cases bound per chosen rs) \<and> length (select_cases bound per chosen rs) \<le> bound
    \<and> set (select_cases bound per chosen rs) \<subseteq> set chosen \<union> set rs"
  using assms
proof (induction bound per chosen rs rule: select_cases.induct)
  case (2 bound per chosen r rs)
  let ?full = "case per of None \<Rightarrow> False | Some n \<Rightarrow> n \<le> rowcount (\<lambda>x. jb_thread x = jb_thread r) chosen"
  show ?case
  proof (cases ?full)
    case True
    with 2(1) [OF True 2(3,4)] show ?thesis by auto
  next
    case False
    with 2(3) have fits: "fits_limit per (chosen @ [r])"
      by (auto simp: fits_limit_def rowcount_def split: option.split_asm)
    show ?thesis
    proof (cases "bound \<le> length chosen + 1")
      case True
      with False fits 2(4) show ?thesis by auto
    next
      case more: False
      with 2(2) [OF False more fits] False show ?thesis by auto
    qed
  qed
qed simp

text \<open>
  C38. A search stays within its repository. Whatever the full-text engine answers, every case that is
  returned is a completed one of the asked repository, there are at most as many as asked for and never
  more than twenty-five, and no thread contributes more than its share.
\<close>

theorem search_stays_in_its_repository:
  "set (search_issue_resolutions rank repo_id query limit per s) \<subseteq>
      {r. r \<in> set (resolution_jobs (cs_db s)) \<and> jb_repo_id r = repo_id \<and> jb_status r = J_COMPLETED}
    \<and> int (length (search_issue_resolutions rank repo_id query limit per s)) \<le> max 0 (min limit 25)
    \<and> fits_limit per (search_issue_resolutions rank repo_id query limit per s)"
proof -
  let ?expr = "fts_match_expression 24 query" and ?bound = "nat (max 0 (min limit 25))"
  let ?rows = "filter (\<lambda>r. jb_repo_id r = repo_id \<and> jb_status r = J_COMPLETED)
            (concat (map (\<lambda>k. case lookup jb_id k (resolution_jobs (cs_db s)) of None \<Rightarrow> [] | Some r \<Rightarrow> [r])
              (rank ?expr (cs_index s))))"
  have none: "fits_limit per []" by (simp add: fits_limit_def rowcount_def split: option.split)
  show ?thesis
  proof (cases "?expr = [] \<or> ?bound = 0")
    case True
    with none show ?thesis by (simp add: search_issue_resolutions_def Let_def)
  next
    case False
    have rows: "set ?rows \<subseteq> {r. r \<in> set (resolution_jobs (cs_db s)) \<and> jb_repo_id r = repo_id \<and> jb_status r = J_COMPLETED}"
      by (auto split: option.split_asm dest: lookup_in [OF sym])
    have found: "search_issue_resolutions rank repo_id query limit per s = select_cases ?bound per [] ?rows"
      using False by (simp add: search_issue_resolutions_def Let_def)
    have "length ([] :: resolution_row list) < ?bound" using False by (metis list.size(3) neq0_conv)
    from select_cases_sound [OF none this, of ?rows]
    have sel: "fits_limit per (select_cases ?bound per [] ?rows)" "length (select_cases ?bound per [] ?rows) \<le> ?bound"
      "set (select_cases ?bound per [] ?rows) \<subseteq> set ?rows" by simp_all
    have "int (length (select_cases ?bound per [] ?rows)) \<le> max 0 (min limit 25)"
      using sel(2) by (simp only: le_nat_iff max.cobounded1)
    then show ?thesis unfolding found using sel(1) subset_trans [OF sel(3) rows] by blast
  qed
qed

section \<open>Nominations\<close>

text \<open>
  A nomination that was open is accepted only by an attempt that succeeded and for which the candidate
  made of it was validated. An attempt that failed, although the job is tried again, rejects every
  nomination it had read, so the next attempt finds none.
\<close>

lemma settled_status:
  "mc_status x = (if list_ex (\<lambda>r. mc_status r = PROPOSED \<and> mc_id r = mc_id x) (at_records a) then nomination_verdict a (mc_id x) else mc_status y)"
  if "x \<in> set (memory_candidates (settle_memory_proposals now a d))" and
    "y \<in> set (memory_candidates d)" "mc_id y = mc_id x" "distinct (map mc_id (memory_candidates d))"
proof -
  have "\<exists>y \<in> set (memory_candidates d). mc_id y = mc_id x \<and> mc_status x =
      (if list_ex (\<lambda>r. mc_status r = PROPOSED \<and> mc_id r = mc_id x) rs then nomination_verdict a (mc_id x) else mc_status y)"
    if "x \<in> set (memory_candidates (fold (\<lambda>r d. if mc_status r \<noteq> PROPOSED then d
                else set_repo_memory_candidate_status (mc_id r) (nomination_verdict a (mc_id r)) now d) rs d))"
    for rs :: "candidate_row list" and d
    using that
  proof (induction rs arbitrary: d)
    case (Cons r rs)
    show ?case
    proof (cases "mc_status r = PROPOSED")
      case True
      let ?d = "set_repo_memory_candidate_status (mc_id r) (nomination_verdict a (mc_id r)) now d"
      obtain y1 where y1: "y1 \<in> set (memory_candidates ?d)" "mc_id y1 = mc_id x" "mc_status x =
          (if list_ex (\<lambda>r. mc_status r = PROPOSED \<and> mc_id r = mc_id x) rs then nomination_verdict a (mc_id x) else mc_status y1)"
        using Cons.IH [of ?d] Cons.prems True by auto
      then obtain y where "y \<in> set (memory_candidates d)"
          "y1 = (if mc_id y = mc_id r then y\<lparr>mc_status := nomination_verdict a (mc_id r), mc_updated_at := now\<rparr> else y)"
        by (auto simp: set_repo_memory_candidate_status_def mem_update_where)
      then show ?thesis using y1(2,3) True by (intro bexI [of _ y]) (auto split: if_split_asm)
    next
      case False
      with Cons show ?thesis by simp
    qed
  qed auto
  from this [of "at_records a" d] that obtain z where "z \<in> set (memory_candidates d)" "mc_id z = mc_id x" "mc_status x =
      (if list_ex (\<lambda>r. mc_status r = PROPOSED \<and> mc_id r = mc_id x) (at_records a) then nomination_verdict a (mc_id x) else mc_status z)"
    by (auto simp: settle_memory_proposals_def)
  moreover from this that have "z = y" by (metis unique_row)
  ultimately show ?thesis by simp
qed

lemma failed_attempt_rejects:
  assumes "lr_status (at_result a) = L_FAILED" "distinct (map mc_id (memory_candidates d))"
    and "y \<in> set (memory_candidates d)" "r \<in> set (at_records a)" "mc_status r = PROPOSED" "mc_id r = mc_id y"
    and "x \<in> set (memory_candidates (settle_memory_proposals now a d))" "mc_id x = mc_id y"
  shows "mc_status x = C_REJECTED"
proof -
  have "list_ex (\<lambda>r. mc_status r = PROPOSED \<and> mc_id r = mc_id x) (at_records a)" using assms by (auto simp: list_ex_iff)
  with settled_status [OF assms(7,3) _ assms(2)] assms show ?thesis by (simp add: nomination_verdict_def)
qed

end
