(* ===== verification/Server.thy ===== *)
theory Server
  imports Learning Dispatch
begin

text \<open>
  The dispatcher (\<open>server.py\<close>): which threads it hands to its workers, the drain of one thread, which
  composes learning, the controller, the publisher and the finalization, and what a worker does with a
  failure. Processes, threads, tracing and the construction of the parts are left out; one reading of
  the clock serves a whole tick.
\<close>

definition MAX_DECLARATIVE_DRIVER_FAILURES :: nat where "MAX_DECLARATIVE_DRIVER_FAILURES = 3"

section \<open>Dispatch\<close>

text \<open>
  \<open>_submit\<close>: the runnable threads in their order, until all workers are busy; a thread that is
  being worked on is passed over. \<open>active\<close> lists the threads of the running futures.
\<close>

fun submit :: "nat \<Rightarrow> string list \<Rightarrow> string list \<Rightarrow> string list \<Rightarrow> string list" where
  "submit workers active running [] = running"
| "submit workers active running (k # ks) =
    (if workers \<le> length running then running
     else if k \<in> set active then submit workers active running ks
     else submit workers active (running @ [k]) ks)"

definition submit_runnable :: "nat \<Rightarrow> string list \<Rightarrow> string list \<Rightarrow> string list" where
  "submit_runnable workers running runnable_ids = submit workers running running runnable_ids"

text \<open>\<open>_reap\<close>: the futures that are done leave the table.\<close>

definition reap :: "(string \<Rightarrow> bool) \<Rightarrow> string list \<Rightarrow> string list" where
  "reap is_done running = filter (\<lambda>k. \<not> is_done k) running"

section \<open>The drain of one thread\<close>

record 'w server_state =
  sv_world :: 'w
  sv_learning :: learning_state
  sv_failures :: "failure_row list"

abbreviation server_db :: "'w server_state \<Rightarrow> db" where
  "server_db s \<equiv> cs_db (sv_learning s)"

record 'w server =
  se_sha :: digest
  se_controller :: env
  se_spec :: workflow_spec
  se_spec_ref :: "string option"
  se_locked :: "string \<Rightarrow> bool"
  se_learner :: learner
  se_outside :: "'w outside"
  se_earlier :: earlier_workflow
  se_settings :: publisher_settings
  se_close :: "publication_target \<Rightarrow> db \<Rightarrow> err + db"
  se_runnable :: "db \<Rightarrow> string \<Rightarrow> bool"
  se_later :: "string \<Rightarrow> nat \<Rightarrow> string"
  se_diagnostic :: "err \<Rightarrow> string"

text \<open>An operation on the database, on the database with the world, and on the state of learning.\<close>

definition at_db :: "(db, 'a) op \<Rightarrow> ('w server_state, 'a) op" where
  "at_db f s = (case f (server_db s) of (r, d) \<Rightarrow> (r, s\<lparr>sv_learning := (sv_learning s)\<lparr>cs_db := d\<rparr>\<rparr>))"

definition at_stage :: "('w stage, 'a) op \<Rightarrow> ('w server_state, 'a) op" where
  "at_stage f s =
    (case f \<lparr>world = sv_world s, store = server_db s\<rparr> of
       (r, t) \<Rightarrow> (r, s\<lparr>sv_world := world t, sv_learning := (sv_learning s)\<lparr>cs_db := store t\<rparr>\<rparr>))"

definition at_learning :: "(learning_state, 'a) op \<Rightarrow> ('w server_state, 'a) op" where
  "at_learning f s = (case f (sv_learning s) of (r, l) \<Rightarrow> (r, s\<lparr>sv_learning := l\<rparr>))"

definition advance :: "'w server \<Rightarrow> string \<Rightarrow> string \<Rightarrow> (db, controller_result) op" where
  "advance se now thread_id d =
    (if se_locked se thread_id then return (thread_result thread_id ''BUSY'' None None None) d
     else advance_locked (se_sha se) (se_controller se) now (se_spec se) (se_spec_ref se) thread_id d)"

definition eligible_publication_id :: "'w server \<Rightarrow> db \<Rightarrow> string \<Rightarrow> string option" where
  "eligible_publication_id se d thread_id = map_option pt_id (target_of (se_sha se) (ew_target (se_earlier se)) d thread_id)"

fun outcome_text :: "outcome \<Rightarrow> string" where
  "outcome_text NO_WORK = ''no_work''"
| "outcome_text BUSY = ''busy''"
| "outcome_text O_FAILED = ''failed''"
| "outcome_text O_NO_CHANGES = ''no_changes''"
| "outcome_text O_COMPLETED = ''completed''"

definition publish_and_finalize :: "'w server \<Rightarrow> string \<Rightarrow> string \<Rightarrow> ('w server_state, unit) op" where
  "publish_and_finalize se now k s =
     and_then (at_stage (publish_one (se_sha se) (se_outside se) (se_earlier se) (se_settings se) (se_locked se) (Some k)) s)
       (\<lambda>r s. if px_status r \<notin> {O_COMPLETED, O_NO_CHANGES}
              then raise (RuntimeError (''publication '' @ outcome_text (px_status r))) s
              else and_then (at_db (finalize_publication (se_sha se) (ew_target (se_earlier se)) (se_close se) now k) s)
                (\<lambda>_ s. return () s))"

definition jobs_pending :: "db \<Rightarrow> string \<Rightarrow> bool" where
  "jobs_pending d thread_id = (pending_memory_learning d thread_id \<noteq> None \<or> pending_issue_resolution d thread_id \<noteq> None)"

definition thread_runnable :: "'w server \<Rightarrow> string \<Rightarrow> 'w server_state \<Rightarrow> string \<Rightarrow> err + bool" where
  "thread_runnable se now s thread_id =
     is_thread_runnable (se_sha se) (ew_target (se_earlier se)) (se_runnable se) (jobs_pending (server_db s))
       (sv_failures s) now (server_db s) thread_id"

text \<open>What a tick tells the loop: \<open>True\<close> to go on.\<close>

definition drain_tick :: "'w server \<Rightarrow> string \<Rightarrow> string \<Rightarrow> ('w server_state, bool) op" where
  "drain_tick se now thread_id s =
     and_then (at_learning (process_one (se_learner se) now thread_id) s) (\<lambda>learned s.
       if learned then return True s
       else and_then (at_db (advance se now thread_id) s) (\<lambda>r s.
         if ct_status r = ''AWAITING_PUBLICATION''
         then (case eligible_publication_id se (server_db s) thread_id of
                 None \<Rightarrow> return False s
               | Some k \<Rightarrow>
                   if (case publication_for_id (server_db s) k of None \<Rightarrow> False | Some p \<Rightarrow> pb_status p = P_FAILED)
                   then return False s
                   else and_then (publish_and_finalize se now k s) (\<lambda>_ s. return True s))
         else if ct_status r \<in> {''BUSY'', ''FAILED'', ''IDLE''} then return False s
         else (case thread_runnable se now s thread_id of
                 Inl e \<Rightarrow> raise e s
               | Inr go \<Rightarrow> return go s)))"

text \<open>\<open>for _ in range(max_ticks)\<close>; the clock is read anew in every tick.\<close>

fun drain_workflow :: "'w server \<Rightarrow> (nat \<Rightarrow> string) \<Rightarrow> string \<Rightarrow> nat \<Rightarrow> ('w server_state, unit) op" where
  "drain_workflow se clock thread_id 0 s = return () s"
| "drain_workflow se clock thread_id (Suc n) s =
     and_then (drain_tick se (clock n) thread_id s)
       (\<lambda>go s. if go then drain_workflow se clock thread_id n s else return () s)"

section \<open>A worker\<close>

text \<open>
  The failure is recorded and, from the third in a row, the active cycle fails; the exception is
  raised again. An exception of that last step takes its place.
\<close>

definition settle_failure :: "'w server \<Rightarrow> string \<Rightarrow> string \<Rightarrow> err \<Rightarrow> ('w server_state, unit) op" where
  "settle_failure se now thread_id e s =
    (let message = se_diagnostic se e;
         fs = record_dispatcher_failure (se_later se) thread_id now message 5 (sv_failures s);
         s1 = s\<lparr>sv_failures := fs\<rparr>
     in if (case lookup fl_thread thread_id fs of None \<Rightarrow> False | Some f \<Rightarrow> MAX_DECLARATIVE_DRIVER_FAILURES \<le> fl_count f)
        then (case cycle_for_thread (server_db s1) thread_id of
                None \<Rightarrow> raise e s1
              | Some c \<Rightarrow>
                  if cy_status c = C_ACTIVE
                  then and_then (at_db (fail_active_task now (cy_id c) message) s1) (\<lambda>_ s. raise e s)
                  else raise e s1)
        else raise e s1)"

definition worker_entry :: "'w server \<Rightarrow> (nat \<Rightarrow> string) \<Rightarrow> nat \<Rightarrow> string \<Rightarrow> ('w server_state, unit) op" where
  "worker_entry se clock max_ticks thread_id s =
    (case drain_workflow se clock thread_id max_ticks s of
       (Inr _, s) \<Rightarrow> return () (s\<lparr>sv_failures := clear_dispatcher_failure thread_id (sv_failures s)\<rparr>)
     | (Inl e, s) \<Rightarrow> settle_failure se (clock max_ticks) thread_id e s)"

end
