(* ===== verification/Server_Properties.thy ===== *)
theory Server_Properties
  imports Server Dispatch_Properties Publisher_Properties Learning_Properties Revision_Properties
begin

text \<open>
  Properties of the dispatcher: workers never share a thread, the third failure in a row fails the
  cycle, and a publication that was completed but not finalized leaves its thread stuck.
\<close>

section \<open>Dispatch\<close>

lemma submit_facts:
  assumes "distinct running" "distinct ids" "set ids \<inter> set running \<subseteq> set active" "set active \<subseteq> set running"
  shows "distinct (submit workers active running ids) \<and> (\<exists>new. submit workers active running ids = running @ new \<and> set new \<subseteq> set ids)
    \<and> length (submit workers active running ids) \<le> max workers (length running)
    \<and> (length (submit workers active running ids) < workers \<longrightarrow> set ids \<subseteq> set (submit workers active running ids))"
  using assms
proof (induction workers active running ids rule: submit.induct)
  case (2 workers active running k ks)
  show ?case
  proof (cases "workers \<le> length running")
    case full: False
    show ?thesis
    proof (cases "k \<in> set active")
      case True
      then have "k \<in> set running" using 2(6) by auto
      with 2(1) [OF full True] 2(3-6) full True show ?thesis by (auto simp: le_max_iff_disj)
    next
      case False
      then have "k \<notin> set running" using 2(5) by auto
      have ih: "distinct (submit workers active (running @ [k]) ks) \<and> (\<exists>new. submit workers active (running @ [k]) ks = (running @ [k]) @ new \<and> set new \<subseteq> set ks)
        \<and> length (submit workers active (running @ [k]) ks) \<le> max workers (length (running @ [k]))
        \<and> (length (submit workers active (running @ [k]) ks) < workers \<longrightarrow> set ks \<subseteq> set (submit workers active (running @ [k]) ks))"
        by (rule 2(2) [OF full False]) (use 2(3-6) \<open>k \<notin> set running\<close> in auto)
      then obtain new where new: "submit workers active (running @ [k]) ks = (running @ [k]) @ new" "set new \<subseteq> set ks" by blast
      show ?thesis
      proof (intro conjI)
        show "\<exists>new. submit workers active running (k # ks) = running @ new \<and> set new \<subseteq> set (k # ks)"
          using new full False by (intro exI [of _ "k # new"]) auto
      qed (use ih new full False in auto)
    qed
  qed (use 2 in auto)
qed auto

text \<open>
  Workers never share a thread and are never idle while there is work. The threads that are worked
  on after a dispatch are distinct and no more than there are workers; those that were being worked on
  stay and every new one is runnable; and when a worker is left over, every runnable thread is being
  worked on.
\<close>

theorem dispatch_is_exclusive:
  assumes "distinct running" "length running \<le> workers" "distinct ids"
  shows "distinct (submit_runnable workers running ids) \<and> length (submit_runnable workers running ids) \<le> workers
    \<and> (\<exists>new. submit_runnable workers running ids = running @ new \<and> set new \<subseteq> set ids)
    \<and> (length (submit_runnable workers running ids) < workers \<longrightarrow> set ids \<subseteq> set (submit_runnable workers running ids))"
  using submit_facts [OF assms(1,3), of running workers] assms(2) by (auto simp: submit_runnable_def max_absorb1)

lemma dispatch_is_exclusive_witness:
  "distinct (submit_runnable 2 [''a''] [''a'', ''b'', ''c'']) \<and> length (submit_runnable 2 [''a''] [''a'', ''b'', ''c'']) \<le> 2"
  using dispatch_is_exclusive [of "[''a'']" 2 "[''a'', ''b'', ''c'']"] by simp

section \<open>A server\<close>

text \<open>
  A server without curators on the thread of the example run, with a learning job whose id is not the
  one of its lifecycle, so that saving its outcome raises.
\<close>

definition demo_server :: "nat server" where
  "demo_server = \<lparr>se_sha = example_sha, se_controller = idle_env, se_spec = example_workflow, se_spec_ref = None,
     se_locked = (\<lambda>_. False), se_learner = demo_learner, se_outside = demo_outside, se_earlier = earlier_demo,
     se_settings = demo_settings, se_close = (\<lambda>t d. Inr d), se_runnable = (\<lambda>d k. False),
     se_later = (\<lambda>at n. at @ show_nat n), se_diagnostic = error_text\<rparr>"

definition demo_serving :: "nat server_state" where
  "demo_serving = \<lparr>sv_world = 0,
     sv_learning = \<lparr>cs_db = demo_2\<lparr>learning_jobs :=
         [\<lparr>jb_id = ''memory'', jb_event = ''e0'', jb_thread = ''t'', jb_cycle_id = 1, jb_root_input = ''e0'',
           jb_repo_id = 7, jb_status = J_PENDING, jb_attempts = 0, jb_error = None, jb_created_at = ''1'', jb_updated_at = ''1'',
           le_accepted = 0, le_rejected = 0, le_proposal = []\<rparr>]\<rparr>, cs_index = [], ms_memory = demo_memory\<rparr>,
     sv_failures = [\<lparr>fl_thread = ''t'', fl_count = 2, fl_next = ''1'', fl_error = ''failed''\<rparr>]\<rparr>"

section \<open>Failures\<close>

lemma fail_active_task_returns:
  assumes "cycle_of d k = Some c" "cy_status c = C_ACTIVE"
  shows "\<exists>c' d'. fail_active_task now k reason d = (Inr c', d') \<and> cycle_of d' k = Some c' \<and> cy_status c' = C_FAILED"
  using assms lookup_key [OF assms(1)]
  by (cases "take 1000 (strip reason) = []"; cases "cy_active c";
      simp add: fail_active_task_def Let_def cycle_def set_cycle_def lookup_update_where)

text \<open>
  C39. Three failures in a row fail the cycle. When the drain of a thread raises, the worker has failed
  twice before and the latest cycle of the thread is ACTIVE, the worker raises the same exception, the
  failure is counted, the cycle is FAILED, and with nothing left to post to it the thread is not
  dispatched again.
\<close>

theorem third_failure_fails_the_cycle:
  assumes "drain_workflow se clock thread_id n s = (Inl e, t)"
    and "lookup fl_thread thread_id (sv_failures t) = Some f" "2 \<le> fl_count f"
    and "latest_cycle (server_db t) thread_id = Some c" "cy_status c = C_ACTIVE"
    and "distinct (map cy_id (cycles (server_db t)))"
    and "worker_entry se clock n thread_id s = (r, u)"
  shows "r = Inl e
    \<and> (\<exists>f'. lookup fl_thread thread_id (sv_failures u) = Some f' \<and> fl_count f' = Suc (fl_count f))
    \<and> (\<exists>c'. cycle_of (server_db u) (cy_id c) = Some c' \<and> cy_status c' = C_FAILED)"
proof -
  let ?fs = "record_dispatcher_failure (se_later se) thread_id (clock n) (se_diagnostic se e) 5 (sv_failures t)"
  obtain f' where f': "lookup fl_thread thread_id ?fs = Some f'" "fl_count f' = Suc (fl_count f)"
    using failure_recorded [of thread_id "se_later se" thread_id "clock n" "se_diagnostic se e" 5 "sv_failures t"] assms(2) by auto
  have c: "c \<in> set (cycles (server_db t))" using assms(4) by (auto simp: latest_cycle_def dest: latest_by_SomeD)
  then have own: "cycle_of (server_db t) (cy_id c) = Some c" using assms(6) by (simp add: lookup_unique)
  have now: "cycle_for_thread (server_db t) thread_id = Some c" using assms(4,5) by (simp add: cycle_for_thread_def)
  obtain c' d where d: "fail_active_task (clock n) (cy_id c) (se_diagnostic se e) (server_db t) = (Inr c', d)"
      "cycle_of d (cy_id c) = Some c'" "cy_status c' = C_FAILED"
    using fail_active_task_returns [OF own assms(5), of "clock n" "se_diagnostic se e"] by blast
  have "settle_failure se (clock n) thread_id e t = (Inl e, t\<lparr>sv_failures := ?fs, sv_learning := (sv_learning t)\<lparr>cs_db := d\<rparr>\<rparr>)"
    using f' assms(3) now assms(5) d(1)
    by (simp add: settle_failure_def Let_def at_db_def MAX_DECLARATIVE_DRIVER_FAILURES_def)
  with assms(1,7) have "r = Inl e" "u = t\<lparr>sv_failures := ?fs, sv_learning := (sv_learning t)\<lparr>cs_db := d\<rparr>\<rparr>"
    by (simp_all add: worker_entry_def)
  with f' d show ?thesis by simp
qed

abbreviation demo_drain :: "(err + unit) \<times> nat server_state" where
  "demo_drain \<equiv> drain_workflow demo_server (\<lambda>_. ''2'') ''t'' 1 demo_serving"

lemma demo_drain_raises: "isl (fst demo_drain)"
  by code_simp

lemma demo_drain_failures: "sv_failures (snd demo_drain) = sv_failures demo_serving"
  by code_simp

lemma demo_drain_cycles: "map (\<lambda>c. (cy_id c, cy_thread c, cy_status c)) (cycles (server_db (snd demo_drain))) = [(the_cycle, ''t'', C_ACTIVE)]"
  by code_simp

lemma third_failure_fails_the_cycle_witness:
  "\<exists>c. cycle_of (server_db (snd (worker_entry demo_server (\<lambda>_. ''2'') 1 ''t'' demo_serving))) the_cycle = Some c \<and> cy_status c = C_FAILED"
proof -
  have d: "demo_drain = (Inl (projl (fst demo_drain)), snd demo_drain)"
    using demo_drain_raises by (metis prod.collapse sum.collapse(1))
  obtain c where c: "cycles (server_db (snd demo_drain)) = [c]" "cy_id c = the_cycle" "cy_thread c = ''t''" "cy_status c = C_ACTIVE"
    using demo_drain_cycles by (auto simp: map_eq_Cons_conv)
  have f: "lookup fl_thread ''t'' (sv_failures (snd demo_drain)) = Some \<lparr>fl_thread = ''t'', fl_count = 2, fl_next = ''1'', fl_error = ''failed''\<rparr>"
    unfolding demo_drain_failures by (simp add: demo_serving_def table_simps)
  have l: "latest_cycle (server_db (snd demo_drain)) ''t'' = Some c"
    unfolding latest_cycle_def c(1) by (simp add: c(3))
  have k: "distinct (map cy_id (cycles (server_db (snd demo_drain))))" unfolding c(1) by simp
  have n: "(2::nat) \<le> fl_count \<lparr>fl_thread = ''t'', fl_count = 2, fl_next = ''1'', fl_error = ''failed''\<rparr>" by simp
  from third_failure_fails_the_cycle [OF d f n l c(4) k prod.collapse [symmetric]] show ?thesis unfolding c(2) by blast
qed

section \<open>A completed publication that was not finalized\<close>

lemma no_candidate:
  assumes "publication_for_id d k = Some p" "\<not> resumable (pb_status p)"
  shows "next_publication sha legacy waiting (Some k) d = (Inr None, d)"
proof -
  have "publication_candidates sha legacy waiting d (Some k) = []"
    using assms by (auto simp: publication_candidates_def Let_def filter_empty_conv)
  then show ?thesis by (simp add: next_publication_def order_by_def)
qed

text \<open>
  C40. A completed publication that was not finalized is stuck. When the row of the publication that the
  thread waits for is COMPLETED or NO_CHANGES -- the process ended between the last write of the
  publisher and the finalization -- publishing it again finds no work and the drain raises, with the
  database as it was; and as long as no comment or other work arrives the thread is not dispatched at
  all, so its cycle is never finalized and its learning never enqueued.
\<close>

theorem unfinalized_publication_is_stuck:
  assumes "publication_for_id (server_db s) k = Some p" "pb_status p \<in> {COMPLETED, NO_CHANGES}"
  shows "fst (publish_and_finalize se now k s) = Inl (RuntimeError ''publication no_work'')
    \<and> server_db (snd (publish_and_finalize se now k s)) = server_db s
    \<and> (k = publication_id_for sha (cy_thread c) (cy_cycle_id c) (cy_root_input c) \<and>
       cy_status c = C_AWAITING_PUBLICATION \<and> pending_revision_inputs (server_db s) (cy_thread c) = [] \<and>
       pending_workflow_comments (server_db s) (cy_thread c) (Some now) = [] \<longrightarrow>
       declarative_thread_runnable sha legacy jobs now (server_db s) c pending actionable = Inr False)"
proof -
  have "\<not> resumable (pb_status p)" using assms(2) by (auto simp: resumable_def)
  note none = no_candidate [OF assms(1) this]
  have "publish_one (se_sha se) (se_outside se) (se_earlier se) (se_settings se) (se_locked se) (Some k) \<lparr>world = sv_world s, store = server_db s\<rparr>
      = (Inr \<lparr>px_status = NO_WORK, px_publication = Some k, px_error = None, px_event = None\<rparr>, \<lparr>world = sv_world s, store = server_db s\<rparr>)"
    by (simp add: publish_one_def in_store_def none)
  then have "publish_and_finalize se now k s = (Inl (RuntimeError ''publication no_work''), s)"
    by (simp add: publish_and_finalize_def at_stage_def)
  moreover have "declarative_thread_runnable sha legacy jobs now (server_db s) c pending actionable = Inr False"
    if "k = publication_id_for sha (cy_thread c) (cy_cycle_id c) (cy_root_input c)" "cy_status c = C_AWAITING_PUBLICATION"
      "pending_revision_inputs (server_db s) (cy_thread c) = []" "pending_workflow_comments (server_db s) (cy_thread c) (Some now) = []"
    using that assms \<open>\<not> resumable (pb_status p)\<close> by (simp add: declarative_thread_runnable_def awaiting_runnable_def)
  ultimately show ?thesis by simp
qed

lemma unfinalized_publication_is_stuck_witness:
  "let s = demo_serving\<lparr>sv_learning := (sv_learning demo_serving)\<lparr>cs_db := demo_published\<rparr>\<rparr>
   in fst (publish_and_finalize demo_server ''9'' ''publication-ab'' s) = Inl (RuntimeError ''publication no_work'')"
proof -
  let ?s = "demo_serving\<lparr>sv_learning := (sv_learning demo_serving)\<lparr>cs_db := demo_published\<rparr>\<rparr>"
  obtain p where "publication_for_id (server_db ?s) ''publication-ab'' = Some p" "pb_status p \<in> {COMPLETED, NO_CHANGES}"
    by (simp add: demo_published_def lookup_Cons)
  from unfinalized_publication_is_stuck [OF this, of demo_server "''9''"] show ?thesis by (simp add: Let_def)
qed

end
