(* ===== verification/Bundle.thy ===== *)
theory Bundle
  imports Learning Policy "HOL-Library.AList"
begin

text \<open>
  The operator's configuration bundle of a repository: the frontmatter of a skill
  (\<open>skills.py\<close>), the files of a bundle directory, its scripts and MCP servers, and the validation
  of the whole (\<open>repo_config.py\<close>). The YAML reader is the argument \<open>yaml\<close>; what it composes may
  still repeat a key, which the code's loader refuses. The text of an exception keeps its fixed part.
\<close>

section \<open>Trusted documents\<close>

type_synonym yaml_reader = "string \<Rightarrow> doc option"

text \<open>\<open>_construct_unique_mapping\<close>, applied to every mapping of a document.\<close>

fun unique_keys :: "doc \<Rightarrow> bool"
  and unique_keys_list :: "doc list \<Rightarrow> bool"
  and unique_keys_items :: "(string \<times> doc) list \<Rightarrow> bool" where
  "unique_keys (DMap kvs) = (distinct (map fst kvs) \<and> unique_keys_items kvs)"
| "unique_keys (DList xs) = unique_keys_list xs"
| "unique_keys (DStr s) = True"
| "unique_keys (DInt i) = True"
| "unique_keys (DBool b) = True"
| "unique_keys DNull = True"
| "unique_keys_list [] = True"
| "unique_keys_list (x # xs) = (unique_keys x \<and> unique_keys_list xs)"
| "unique_keys_items [] = True"
| "unique_keys_items ((k, v) # kvs) = (unique_keys v \<and> unique_keys_items kvs)"

definition mapping_of :: "string \<Rightarrow> doc \<Rightarrow> err + (string \<times> doc) list" where
  "mapping_of label d = (if is_map d then Inr (items d) else Inl (ValueError (label @ '' must be a mapping'')))"

definition load_bundle_yaml :: "yaml_reader \<Rightarrow> string \<Rightarrow> string \<Rightarrow> err + (string \<times> doc) list" where
  "load_bundle_yaml yaml content label =
    (case yaml content of
       None \<Rightarrow> Inl (ValueError (''invalid '' @ label))
     | Some d \<Rightarrow> if \<not> unique_keys d then Inl (ValueError (''invalid '' @ label)) else mapping_of label d)"

text \<open>\<open>" ".join(text.split())\<close>\<close>

abbreviation one_line :: "string \<Rightarrow> string" where
  "one_line s \<equiv> join '' '' (blank_words s)"

text \<open>\<open>value in frozenset({...})\<close>: a mapping or a list is not hashable.\<close>

definition in_strings :: "doc \<Rightarrow> string list \<Rightarrow> err + bool" where
  "in_strings d xs = (if is_map d \<or> is_list d then Inl (TypeError ''unhashable type'')
     else Inr (is_str d \<and> str_of d \<in> set xs))"

definition get_default :: "(string \<times> doc) list \<Rightarrow> string \<Rightarrow> doc \<Rightarrow> doc" where
  "get_default kvs k dflt = (case map_of kvs k of None \<Rightarrow> dflt | Some v \<Rightarrow> v)"

text \<open>What a chain of checks has established once it returns.\<close>

named_theorems ok_simps \<open>when a chain of checks returns a value\<close>

lemma guard_Inr_iff [ok_simps]: "(if P then Inl e else r) = Inr y \<longleftrightarrow> \<not> P \<and> r = Inr y"
  by simp

lemma some_Inr_iff [ok_simps]:
  "(case m of None \<Rightarrow> Inl e | Some x \<Rightarrow> f x) = Inr y \<longleftrightarrow> (\<exists>x. m = Some x \<and> f x = Inr y)"
  by (cases m) auto

lemmas [ok_simps] = bindE_Inr_iff Let_def

lemma in_strings_True: "in_strings d xs = Inr True \<longleftrightarrow> (\<exists>s \<in> set xs. d = DStr s)"
  by (cases d) (auto simp: in_strings_def)

section \<open>Skills\<close>

record skill_metadata =
  sk_name :: string
  sk_description :: string
  sk_path :: string

definition MAX_SKILL_DESCRIPTION_CHARS :: int where
  "MAX_SKILL_DESCRIPTION_CHARS = 300"

text \<open>The frontmatter mapping; \<open>None\<close> when the file does not start one.\<close>

definition skill_frontmatter :: "yaml_reader \<Rightarrow> string \<Rightarrow> string \<Rightarrow> err + (string \<times> doc) list option" where
  "skill_frontmatter yaml content label =
    (let ls = splitlines content; block = takeWhile (\<lambda>l. l \<noteq> ''---'') (tl ls) in
     if blank content then Inl (ValueError (''required workflow skill is missing: '' @ label))
     else if \<not> starts_with content ''---'' then Inr None
     else if ls = [] \<or> strip (hd ls) \<noteq> ''---'' \<or> ''---'' \<notin> set (tl ls)
     then Inl (ValueError (''skill metadata is malformed: '' @ label))
     else case yaml (join newline block) of
       None \<Rightarrow> Inl (ValueError (''skill metadata is malformed: '' @ label))
     | Some d \<Rightarrow>
       if \<not> unique_keys d then Inl (ValueError (''skill metadata is malformed: '' @ label))
       else if \<not> is_map d then Inl (ValueError (''skill metadata must be a mapping: '' @ label))
       else Inr (Some (items d)))"

definition declared_skill_name :: "yaml_reader \<Rightarrow> string \<Rightarrow> string \<Rightarrow> err + string option" where
  "declared_skill_name yaml content label =
     bindE (skill_frontmatter yaml content label) (\<lambda>m. case m of
       None \<Rightarrow> Inr None
     | Some kvs \<Rightarrow>
       if valid_id_doc (dget kvs ''name'') then Inr (Some (str_of (dget kvs ''name'')))
       else Inl (ValueError (''skill metadata name is malformed: '' @ label)))"

definition parse_skill_metadata :: "yaml_reader \<Rightarrow> string \<Rightarrow> string \<Rightarrow> err + skill_metadata" where
  "parse_skill_metadata yaml name content =
    (if \<not> valid_id name then Inl (ValueError ''skill name is malformed'') else
     bindE (skill_frontmatter yaml content name) (\<lambda>m. case m of
       None \<Rightarrow> Inr \<lparr>sk_name = name, sk_description = ''Trusted skill '' @ name @ ''; load for full instructions.'',
         sk_path = canonical_skill_path name\<rparr>
     | Some kvs \<Rightarrow>
       let description = dget kvs ''description''; text_of = one_line (str_of description) in
       if dget kvs ''name'' \<noteq> DStr name
       then Inl (ValueError (''skill metadata name does not match directory: '' @ name))
       else if \<not> is_str description \<or> blank (str_of description)
       then Inl (ValueError (''skill metadata description is required: '' @ name))
       else if int (length text_of) > MAX_SKILL_DESCRIPTION_CHARS
       then Inl (ValueError (''skill metadata description is too long: '' @ name))
       else Inr \<lparr>sk_name = name, sk_description = text_of, sk_path = canonical_skill_path name\<rparr>))"

section \<open>The files of a bundle\<close>

definition MAX_BUNDLE_FILE_BYTES :: int where "MAX_BUNDLE_FILE_BYTES = 1000000"
definition MAX_BUNDLE_BYTES :: int where "MAX_BUNDLE_BYTES = 10000000"

text \<open>
  An entry of \<open>sorted(root.rglob("*"))\<close> with its path relative to the root. A regular file has the
  number of its bytes and its text, \<open>None\<close> when the bytes are not UTF-8. Every symbolic link raises
  before anything behind it is listed, so the check that a resolved file stays below the root cannot
  fail after it.
\<close>

datatype dir_entry = Symlink | Directory | Regular int "string option" | Special

type_synonym listing = "(string \<times> dir_entry) list"

definition is_bundle_path :: "string \<Rightarrow> bool" where
  "is_bundle_path relative = (relative = ''workflow.yaml'' \<or> starts_with relative ''skills/''
     \<or> starts_with relative ''tools/scripts/'' \<or> starts_with relative ''tools/mcp/'')"

fun read_entries :: "int \<Rightarrow> listing \<Rightarrow> err + (string \<times> string) list" where
  "read_entries sofar [] = Inr []"
| "read_entries sofar ((path, Symlink) # rest) = Inl (ValueError ''bundle symlinks are forbidden'')"
| "read_entries sofar ((path, Directory) # rest) = read_entries sofar rest"
| "read_entries sofar ((path, Special) # rest) = read_entries sofar rest"
| "read_entries sofar ((path, Regular bytes content) # rest) =
    (if bytes = 0 \<or> bytes > MAX_BUNDLE_FILE_BYTES then Inl (ValueError ''bundle file is empty or too large'')
     else if sofar + bytes > MAX_BUNDLE_BYTES
     then Inl (ValueError ''repository configuration bundle is too large'')
     else case content of
       None \<Rightarrow> Inl (ValueError ''bundle file is not UTF-8'')
     | Some c \<Rightarrow>
       if \<not> is_bundle_path path then Inl (ValueError ''unexpected bundle path'')
       else bindE (read_entries (sofar + bytes) rest) (\<lambda>fs. Inr ((path, c) # fs)))"

text \<open>A missing listing is a root that is not a directory.\<close>

definition read_bundle_files :: "listing option \<Rightarrow> err + (string \<times> string) list" where
  "read_bundle_files root = (case root of
     None \<Rightarrow> Inl (ValueError ''repository configuration bundle is not a directory'')
   | Some entries \<Rightarrow> read_entries 0 entries)"

text \<open>The directories directly below \<open>prefix\<close>, in the order of the listing.\<close>

definition child_directories :: "string \<Rightarrow> listing \<Rightarrow> string list" where
  "child_directories prefix entries = map (drop (length prefix) \<circ> fst)
     (filter (\<lambda>(p, e). e = Directory \<and> starts_with p prefix \<and> CHR ''/'' \<notin> set (drop (length prefix) p)) entries)"

fun parse_skill_directories :: "yaml_reader \<Rightarrow> (string \<times> string) list \<Rightarrow> string list \<Rightarrow> err + skill_metadata list" where
  "parse_skill_directories yaml files [] = Inr []"
| "parse_skill_directories yaml files (n # ns) =
    (if \<not> valid_id n then Inl (ValueError ''skill directory name is malformed'')
     else case map_of files (''skills/'' @ n @ ''/SKILL.md'') of
       None \<Rightarrow> Inl (ValueError ''skill is missing SKILL.md'')
     | Some content \<Rightarrow> bindE (parse_skill_metadata yaml n content)
         (\<lambda>m. bindE (parse_skill_directories yaml files ns) (\<lambda>ms. Inr (m # ms))))"

definition parse_skills :: "yaml_reader \<Rightarrow> listing \<Rightarrow> (string \<times> string) list \<Rightarrow> err + skill_metadata list" where
  "parse_skills yaml entries files =
    (if (''skills'', Directory) \<notin> set entries then Inl (ValueError ''bundle skills directory is required'')
     else bindE (parse_skill_directories yaml files (child_directories ''skills/'' entries))
       (\<lambda>ms. if ms = [] then Inl (ValueError ''bundle must contain at least one skill'') else Inr ms))"

section \<open>Shared checks\<close>

definition MAX_SCRIPT_TIMEOUT_SECONDS :: int where "MAX_SCRIPT_TIMEOUT_SECONDS = 600"

text \<open>\<open>_ENV_NAME = ^[A-Z_][A-Z0-9_]{0,127}$\<close> and \<open>_HTTP_HEADER_NAME\<close>, matched in full.\<close>

definition is_upper :: "char \<Rightarrow> bool" where
  "is_upper c = (let n = (of_char c :: nat) in 65 \<le> n \<and> n \<le> 90)"

definition valid_env_name :: "string \<Rightarrow> bool" where
  "valid_env_name s = (s \<noteq> [] \<and> int (length s) \<le> 128 \<and> (is_upper (hd s) \<or> hd s = CHR ''_'') \<and>
     list_all (\<lambda>c. is_upper c \<or> is_digit c \<or> c = CHR ''_'') (tl s))"

definition HEADER_MARKS :: "char list" where
  "HEADER_MARKS = map char_of [33, 35, 36, 37, 38, 39, 42, 43, 45, 46, 94, 95, 96, 124, 126 :: nat]"

definition valid_header_name :: "string \<Rightarrow> bool" where
  "valid_header_name s = (s \<noteq> [] \<and> list_all (\<lambda>c. is_alpha c \<or> is_digit c \<or> c \<in> set HEADER_MARKS) s)"

definition string_mapping :: "string \<Rightarrow> bool \<Rightarrow> doc \<Rightarrow> err + (string \<times> string) list" where
  "string_mapping label env_names value =
    (if value = DNull then Inr [] else bindE (mapping_of label value) (\<lambda>kvs.
       if list_ex (\<lambda>(k, v). \<not> is_str v \<or> str_of v = [] \<or> env_names \<and> \<not> valid_env_name k) kvs
       then Inl (ValueError (label @ '' must map valid names to non-empty strings''))
       else Inr (map (\<lambda>(k, v). (k, str_of v)) kvs)))"

fun headers_valid :: "string list \<Rightarrow> (string \<times> string) list \<Rightarrow> bool" where
  "headers_valid normalized [] = True"
| "headers_valid normalized ((name, item) # rest) =
    (valid_header_name name \<and> CHR 0x0D \<notin> set item \<and> CHR 0x0A \<notin> set item \<and>
     fold_case name \<notin> set normalized \<and> headers_valid (fold_case name # normalized) rest)"

definition header_mapping :: "string \<Rightarrow> doc \<Rightarrow> err + (string \<times> string) list" where
  "header_mapping label value = bindE (string_mapping label False value) (\<lambda>kvs.
     if headers_valid [] kvs then Inr kvs
     else Inl (ValueError (label @ '' contains an invalid or duplicate HTTP header'')))"

definition header_collision :: "(string \<times> string) list \<Rightarrow> (string \<times> string) list \<Rightarrow> bool" where
  "header_collision left right = list_ex (\<lambda>(k, v). fold_case k \<in> set (map (fold_case \<circ> fst) right)) left"

definition ARGUMENT_TYPES :: "string list" where
  "ARGUMENT_TYPES = [''string'', ''integer'', ''number'', ''boolean'', ''array'', ''object'']"

fun check_property_types :: "string \<Rightarrow> (string \<times> doc) list \<Rightarrow> err + unit" where
  "check_property_types label [] = Inr ()"
| "check_property_types label ((name, item) # rest) =
     bindE (in_strings (dget (items item) ''type'') ARGUMENT_TYPES) (\<lambda>ok.
       if ok then check_property_types label rest
       else Inl (ValueError (label @ ''.properties.'' @ name @ ''.type is invalid'')))"

definition validate_args_schema :: "string \<Rightarrow> doc \<Rightarrow> err + (string \<times> doc) list" where
  "validate_args_schema label value = bindE (mapping_of label value) (\<lambda>schema.
    let properties = get_default schema ''properties'' (DMap []);
        required = get_default schema ''required'' (DList []);
        names = map str_of (elems required) in
    if unknown_fields schema [''type'', ''properties'', ''required'', ''additionalProperties'']
    then Inl (ValueError (label @ '' has unknown fields''))
    else if dget schema ''type'' \<noteq> DStr ''object'' then Inl (ValueError (label @ ''.type must be object''))
    else if \<not> is_map properties \<or> list_ex (\<lambda>(k, v). \<not> is_map v) (items properties)
    then Inl (ValueError (label @ ''.properties must be a mapping''))
    else bindE (check_property_types label (items properties)) (\<lambda>_.
      if \<not> is_list required \<or> list_ex (\<lambda>d. \<not> is_str d) (elems required) \<or> \<not> distinct names
        \<or> \<not> set names \<subseteq> set (map fst (items properties))
      then Inl (ValueError (label @ ''.required is invalid''))
      else if get_default schema ''additionalProperties'' (DBool False) \<noteq> DBool False
      then Inl (ValueError (label @ ''.additionalProperties must be false''))
      else Inr schema))"

section \<open>Scripts\<close>

record script_tool =
  sc_name :: string
  sc_description :: string
  sc_runtime :: string
  sc_entrypoint :: string
  sc_args_schema :: "(string \<times> doc) list"
  sc_timeout :: int
  sc_effect :: string
  sc_directory :: string
  sc_env :: "(string \<times> string) list"
  sc_secret_env :: "(string \<times> string) list"

text \<open>\<open>1 <= timeout <= MAX_SCRIPT_TIMEOUT_SECONDS\<close>, booleans excluded.\<close>

fun valid_timeout :: "doc \<Rightarrow> bool" where
  "valid_timeout (DInt n) = (1 \<le> n \<and> n \<le> MAX_SCRIPT_TIMEOUT_SECONDS)"
| "valid_timeout d = False"

fun int_of :: "doc \<Rightarrow> int" where
  "int_of (DInt n) = n"
| "int_of d = 0"

text \<open>\<open>PurePosixPath(entrypoint).as_posix()\<close> of a relative path.\<close>

definition as_posix :: "string \<Rightarrow> string" where
  "as_posix path = (if posix_parts path = [] then ''.'' else join ''/'' (posix_parts path))"

text \<open>
  No single dot survives in the parts of a path, and without symbolic links a path whose parts hold no
  double dot stays below its directory.
\<close>

definition check_entrypoint :: "string \<Rightarrow> string \<Rightarrow> (string \<times> string) list \<Rightarrow> doc \<Rightarrow> err + string" where
  "check_entrypoint label base files entrypoint =
    (let path = str_of entrypoint in
     if \<not> is_str entrypoint \<or> path = [] then Inl (ValueError (label @ ''.entrypoint is required''))
     else if starts_with path ''/'' \<or> ''..'' \<in> set (posix_parts path)
     then Inl (ValueError (label @ ''.entrypoint traversal is forbidden''))
     else if map_of files (base @ ''/'' @ as_posix path) = None
     then Inl (ValueError (label @ ''.entrypoint does not exist''))
     else Inr (as_posix path))"

definition SCRIPT_FIELDS :: "string list" where
  "SCRIPT_FIELDS = [''version'', ''name'', ''description'', ''runtime'', ''entrypoint'', ''args_schema'',
     ''timeout_seconds'', ''effect'', ''env'', ''secret_env'']"

definition parse_script ::
  "yaml_reader \<Rightarrow> (string \<times> string) list \<Rightarrow> string list \<Rightarrow> string \<Rightarrow> err + script_tool" where
  "parse_script yaml files names directory_name =
    (let label = ''script tool '' @ directory_name; base = ''tools/scripts/'' @ directory_name in
     case map_of files (base @ ''/tool.yaml'') of
       None \<Rightarrow> Inl (ValueError (label @ '' is missing tool.yaml''))
     | Some content \<Rightarrow> bindE (load_bundle_yaml yaml content label) (\<lambda>item.
       let name = dget item ''name''; description = dget item ''description'';
           timeout = get_default item ''timeout_seconds'' (DInt 30) in
       if unknown_fields item SCRIPT_FIELDS then Inl (ValueError (label @ '' has unknown fields''))
       else if \<not> eq_int (dget item ''version'') 1 then Inl (ValueError (label @ ''.version must be 1''))
       else if \<not> valid_id_doc name \<or> str_of name \<in> set names
       then Inl (ValueError (label @ ''.name is malformed or duplicated''))
       else if \<not> is_str description \<or> blank (str_of description) \<or> int (length (str_of description)) > 300
       then Inl (ValueError (label @ ''.description is required and bounded''))
       else bindE (in_strings (dget item ''runtime'') [''python'', ''shell'']) (\<lambda>known.
         if \<not> known then Inl (ValueError (label @ ''.runtime must be python or shell''))
         else bindE (check_entrypoint label base files (dget item ''entrypoint'')) (\<lambda>entry.
         bindE (in_strings (dget item ''effect'') [''read'', ''mutate'']) (\<lambda>known.
         if \<not> known then Inl (ValueError (label @ ''.effect must be read or mutate''))
         else if \<not> valid_timeout timeout then Inl (ValueError (label @ ''.timeout_seconds is invalid''))
         else bindE (string_mapping (label @ ''.env'') True (dget item ''env'')) (\<lambda>env.
         bindE (string_mapping (label @ ''.secret_env'') True (dget item ''secret_env'')) (\<lambda>secret_env.
         if list_ex (\<lambda>(k, v). \<not> valid_env_name v) secret_env
         then Inl (ValueError (label @ ''.secret_env contains an invalid secret name''))
         else if set (map fst env) \<inter> set (map fst secret_env) \<noteq> {}
         then Inl (ValueError (label @ '' configures an environment name twice''))
         else bindE (validate_args_schema (label @ ''.args_schema'') (dget item ''args_schema'')) (\<lambda>schema.
         Inr \<lparr>sc_name = str_of name, sc_description = one_line (str_of description),
              sc_runtime = str_of (dget item ''runtime''), sc_entrypoint = entry, sc_args_schema = schema,
              sc_timeout = int_of timeout, sc_effect = str_of (dget item ''effect''),
              sc_directory = base, sc_env = env, sc_secret_env = secret_env\<rparr>))))))))"

fun parse_script_directories ::
  "yaml_reader \<Rightarrow> (string \<times> string) list \<Rightarrow> string list \<Rightarrow> string list \<Rightarrow> err + script_tool list" where
  "parse_script_directories yaml files names [] = Inr []"
| "parse_script_directories yaml files names (n # ns) =
     bindE (parse_script yaml files names n) (\<lambda>s.
     bindE (parse_script_directories yaml files (sc_name s # names) ns) (\<lambda>ss. Inr (s # ss)))"

definition parse_scripts :: "yaml_reader \<Rightarrow> listing \<Rightarrow> (string \<times> string) list \<Rightarrow> err + script_tool list" where
  "parse_scripts yaml entries files =
    (if ''tools/scripts'' \<notin> set (map fst entries) then Inr []
     else if (''tools/scripts'', Directory) \<notin> set entries
     then Inl (ValueError ''tools/scripts must be a directory'')
     else parse_script_directories yaml files [] (child_directories ''tools/scripts/'' entries))"

section \<open>MCP servers\<close>

definition REMOTE_MCP_TRANSPORTS :: "string list" where
  "REMOTE_MCP_TRANSPORTS = [''http'', ''streamable_http'', ''streamable-http'', ''sse'']"

record mcp_server =
  mb_id :: string
  mb_connection :: "(string \<times> doc) list"
  mb_tools :: "string list"
  mb_secret_env :: "(string \<times> string) list"
  mb_secret_headers :: "(string \<times> string) list"

definition string_doc :: "(string \<times> string) list \<Rightarrow> doc" where
  "string_doc kvs = DMap (map (\<lambda>(k, v). (k, DStr v)) kvs)"

text \<open>
  The fixed environment of a connection, checked against the secret one. An empty or missing one leaves
  the connection as it is.
\<close>

definition fixed_environment ::
  "string \<Rightarrow> (string \<times> string) list \<Rightarrow> (string \<times> doc) list \<Rightarrow> err + (string \<times> doc) list" where
  "fixed_environment label secret_env connection =
    (if \<not> truthy (dget connection ''env'') then Inr connection
     else bindE (string_mapping (label @ ''.connection.env'') True (dget connection ''env'')) (\<lambda>fixed.
       if set (map fst fixed) \<inter> set (map fst secret_env) \<noteq> {}
       then Inl (ValueError (label @ '' configures an environment name twice''))
       else Inr (AList.update ''env'' (string_doc fixed) connection)))"

text \<open>
  The headers of a server: the fixed ones of the connection and of the entry, and the secret ones. The
  names of the merged mapping are distinct, a collision has raised before.
\<close>

definition server_headers ::
  "string \<Rightarrow> (string \<times> doc) list \<Rightarrow> (string \<times> doc) list \<Rightarrow> err + (string \<times> doc) list \<times> (string \<times> string) list" where
  "server_headers label item connection =
     bindE (header_mapping (label @ ''.connection.headers'') (dget connection ''headers'')) (\<lambda>connection_headers.
     bindE (header_mapping (label @ ''.headers'') (dget item ''headers'')) (\<lambda>headers.
     if header_collision connection_headers headers
     then Inl (ValueError (label @ '' configures an HTTP header twice'')) else
     let fixed = connection_headers @ headers in
     bindE (header_mapping (label @ ''.secret_headers'') (dget item ''secret_headers'')) (\<lambda>secret.
     if list_ex (\<lambda>(k, v). \<not> valid_env_name v) secret
     then Inl (ValueError (label @ ''.secret_headers contains an invalid secret name''))
     else bindE (if secret = [] then Inr True else in_strings (dget connection ''transport'') REMOTE_MCP_TRANSPORTS)
       (\<lambda>remote.
     if \<not> remote then Inl (ValueError ''MCP secret_headers requires an HTTP-based remote transport'')
     else if secret \<noteq> [] \<and> \<not> starts_with (str_of (dget connection ''url'')) ''https://''
     then Inl (ValueError ''secret-authenticated remote MCP URLs must use HTTPS'')
     else if header_collision fixed secret
     then Inl (ValueError (label @ '' configures an HTTP header twice''))
     else Inr (if fixed = [] then connection else AList.update ''headers'' (string_doc fixed) connection, secret)))))"

definition parse_mcp_server :: "string \<Rightarrow> doc \<Rightarrow> err + mcp_server" where
  "parse_mcp_server server_id raw =
    (let label = ''MCP server '' @ server_id in
     if \<not> valid_id server_id then Inl (ValueError ''MCP server ID is malformed'')
     else bindE (mapping_of label raw) (\<lambda>item.
     if unknown_fields item [''connection'', ''tools'', ''secret_env'', ''headers'', ''secret_headers'']
     then Inl (ValueError (label @ '' has unknown fields''))
     else bindE (mapping_of (label @ ''.connection'') (dget item ''connection'')) (\<lambda>connection.
     let tools = dget item ''tools''; names = map str_of (elems tools) in
     if connection = [] \<or> \<not> is_list tools \<or> elems tools = [] \<or> list_ex (\<lambda>d. \<not> valid_id_doc d) (elems tools)
       \<or> \<not> distinct names
     then Inl (ValueError (label @ '' configuration is incomplete''))
     else bindE (string_mapping (label @ ''.secret_env'') True (dget item ''secret_env'')) (\<lambda>secret_env.
     if list_ex (\<lambda>(k, v). \<not> valid_env_name v) secret_env
     then Inl (ValueError (label @ ''.secret_env contains an invalid secret name''))
     else if secret_env \<noteq> [] \<and> dget connection ''transport'' \<noteq> DStr ''stdio''
     then Inl (ValueError ''MCP secret_env is supported only for local stdio servers'')
     else bindE (fixed_environment label secret_env connection) (\<lambda>connection.
     bindE (server_headers label item connection) (\<lambda>(connection, secret_headers).
     Inr \<lparr>mb_id = server_id, mb_connection = connection, mb_tools = names,
          mb_secret_env = secret_env, mb_secret_headers = secret_headers\<rparr>))))))"

fun parse_mcp_servers :: "(string \<times> doc) list \<Rightarrow> err + mcp_server list" where
  "parse_mcp_servers [] = Inr []"
| "parse_mcp_servers ((server_id, raw) # rest) =
     bindE (parse_mcp_server server_id raw) (\<lambda>s. bindE (parse_mcp_servers rest) (\<lambda>ss. Inr (s # ss)))"

definition parse_mcp :: "yaml_reader \<Rightarrow> (string \<times> string) list \<Rightarrow> err + mcp_server list" where
  "parse_mcp yaml files = (case map_of files ''tools/mcp/servers.yaml'' of
     None \<Rightarrow> Inr []
   | Some content \<Rightarrow> bindE (load_bundle_yaml yaml content ''MCP configuration'') (\<lambda>root.
       if unknown_fields root [''version'', ''servers''] \<or> \<not> eq_int (dget root ''version'') 1
       then Inl (ValueError ''MCP configuration must contain version 1 and servers'')
       else bindE (mapping_of ''MCP servers'' (get_default root ''servers'' (DMap [])))
         (\<lambda>servers. parse_mcp_servers (sort_key fst servers))))"

section \<open>The whole bundle\<close>

record repo_bundle =
  bu_digest :: string
  bu_workflow :: workflow_spec
  bu_document :: "(string \<times> doc) list"
  bu_skills :: "skill_metadata list"
  bu_scripts :: "script_tool list"
  bu_mcp :: "mcp_server list"
  bu_files :: "(string \<times> string) list"
  bu_manifest :: "(string \<times> doc) list"

definition mcp_tool_names :: "mcp_server \<Rightarrow> string list" where
  "mcp_tool_names s = map (\<lambda>t. mb_id s @ ''_'' @ t) (mb_tools s)"

definition mcp_names :: "mcp_server list \<Rightarrow> string list" where
  "mcp_names ss = concat (map mcp_tool_names ss)"

definition tool_collision :: "string list \<Rightarrow> string list \<Rightarrow> bool" where
  "tool_collision scripts mcp =
     (list_ex (\<lambda>n. n \<in> set BUILTIN_WORKFLOW_TOOLS \<or> n \<in> set mcp) scripts
      \<or> list_ex (\<lambda>n. n \<in> set BUILTIN_WORKFLOW_TOOLS) mcp)"

definition effects_of :: "script_tool list \<Rightarrow> effects" where
  "effects_of scripts = map (\<lambda>s. (sc_name s, sc_effect s)) scripts"

definition forbidden_tools :: "effects \<Rightarrow> phase_spec \<Rightarrow> string list" where
  "forbidden_tools es p = filter (\<lambda>t. map_of (rev es) t = Some ''mutate'') (ph_tools p)"

fun check_read_phases :: "effects \<Rightarrow> task_spec list \<Rightarrow> err + unit" where
  "check_read_phases es [] = Inr ()"
| "check_read_phases es (t # ts) =
    (if forbidden_tools es (ts_planning t) \<noteq> []
     then Inl (ValueError (''task '' @ ts_id t @ '' planning references mutating script tools''))
     else if forbidden_tools es (ts_validation t) \<noteq> []
     then Inl (ValueError (''task '' @ ts_id t @ '' validation references mutating script tools''))
     else check_read_phases es ts)"

definition skill_doc :: "skill_metadata \<Rightarrow> doc" where
  "skill_doc m = DMap [(''name'', DStr (sk_name m)), (''description'', DStr (sk_description m)), (''path'', DStr (sk_path m))]"

definition script_doc :: "script_tool \<Rightarrow> doc" where
  "script_doc s = DMap
     [(''name'', DStr (sc_name s)), (''description'', DStr (sc_description s)), (''runtime'', DStr (sc_runtime s)),
      (''entrypoint'', DStr (sc_entrypoint s)), (''args_schema'', DMap (sc_args_schema s)),
      (''timeout_seconds'', DInt (sc_timeout s)), (''effect'', DStr (sc_effect s)),
      (''directory'', DStr (sc_directory s)), (''env'', string_doc (sc_env s)),
      (''secret_env'', string_doc (sc_secret_env s))]"

definition mcp_doc :: "mcp_server \<Rightarrow> doc" where
  "mcp_doc s = DMap
     [(''server_id'', DStr (mb_id s)), (''connection'', DMap (mb_connection s)), (''tools'', strs (mb_tools s)),
      (''secret_env'', string_doc (mb_secret_env s)), (''secret_headers'', string_doc (mb_secret_headers s))]"

definition manifest_of ::
  "workflow_spec \<Rightarrow> skill_metadata list \<Rightarrow> script_tool list \<Rightarrow> mcp_server list \<Rightarrow> (string \<times> string) list \<Rightarrow>
     (string \<times> doc) list" where
  "manifest_of w skills scripts mcp files =
     [(''workflow'', canonical_document w), (''skills'', DList (map skill_doc skills)),
      (''scripts'', DList (map script_doc scripts)), (''mcp'', DList (map mcp_doc mcp)),
      (''files'', string_doc (sort_key fst files))]"

definition entries_of :: "listing option \<Rightarrow> listing" where
  "entries_of root = (case root of None \<Rightarrow> [] | Some entries \<Rightarrow> entries)"

definition validate_repo_bundle :: "digest \<Rightarrow> yaml_reader \<Rightarrow> listing option \<Rightarrow> err + repo_bundle" where
  "validate_repo_bundle sha yaml root =
    bindE (read_bundle_files root) (\<lambda>files.
    case map_of files ''workflow.yaml'' of
      None \<Rightarrow> Inl (ValueError ''bundle workflow.yaml is required'')
    | Some content \<Rightarrow>
      bindE (parse_skills yaml (entries_of root) files) (\<lambda>skills.
      bindE (parse_scripts yaml (entries_of root) files) (\<lambda>scripts.
      bindE (parse_mcp yaml files) (\<lambda>mcp.
      let script_names = map sc_name scripts in
      if tool_collision script_names (mcp_names mcp) then Inl (ValueError ''tool name collision'')
      else bindE (load_bundle_yaml yaml content ''workflow'') (\<lambda>document.
      bindE (parse_workflow_spec sha (BUILTIN_WORKFLOW_TOOLS @ script_names @ mcp_names mcp)
          (Some (\<lambda>s. s \<in> set (map sk_name skills))) (DMap document)) (\<lambda>workflow.
      bindE (check_read_phases (effects_of scripts) (ws_tasks workflow)) (\<lambda>_.
      let manifest = manifest_of workflow skills scripts mcp files in
      Inr \<lparr>bu_digest = sha (dumps_compact (DMap manifest)), bu_workflow = workflow, bu_document = document,
           bu_skills = skills, bu_scripts = scripts, bu_mcp = mcp, bu_files = files,
           bu_manifest = manifest\<rparr>)))))))"

end
