(* ===== verification/Repo_Config.thy ===== *)
theory Repo_Config
  imports Bundle
begin

text \<open>
  The registry of installed configurations (\<open>RepoConfigRegistry\<close> in \<open>repo_config.py\<close>) over its
  three tables: installing a validated bundle as the next generation of a repository, and reading a
  generation back. A manifest is kept decoded; \<open>json.loads(json.dumps(m, sort_keys=True))\<close> only
  reorders the keys of a mapping, and every reader goes by key. The column \<open>workflow_json\<close>, which no
  reader uses, and \<open>updated_at\<close> are left out.
\<close>

section \<open>Generations\<close>

definition config_generation :: "db \<Rightarrow> int \<Rightarrow> string \<Rightarrow> err + generation_row" where
  "config_generation d repo_id k =
    (case find (\<lambda>g. gn_repo g = repo_id \<and> gn_id g = k) (config_generations d) of
       None \<Rightarrow> Inl (PermissionError ''repository configuration generation is unavailable'')
     | Some g \<Rightarrow> Inr g)"

definition insert_generation :: "generation_row \<Rightarrow> db \<Rightarrow> err + db" where
  "insert_generation g d =
    (if has gn_id (gn_id g) (config_generations d)
        \<or> has (\<lambda>x. (gn_repo x, gn_number x)) (gn_repo g, gn_number g) (config_generations d)
        \<or> \<not> has rp_id (gn_repo g) (repositories d)
     then Inl (IntegrityError ''repo_config_generations_v1'')
     else Inr (d\<lparr>config_generations := config_generations d @ [g]\<rparr>))"

definition insert_config_file :: "config_file_row \<Rightarrow> db \<Rightarrow> err + db" where
  "insert_config_file f d =
    (if has (\<lambda>x. (cf_generation x, cf_path x)) (cf_generation f, cf_path f) (config_files d)
        \<or> \<not> has gn_id (cf_generation f) (config_generations d)
     then Inl (IntegrityError ''repo_config_files_v1'')
     else Inr (d\<lparr>config_files := config_files d @ [f]\<rparr>))"

fun insert_config_files :: "config_file_row list \<Rightarrow> db \<Rightarrow> err + db" where
  "insert_config_files [] d = Inr d"
| "insert_config_files (f # fs) d = bindE (insert_config_file f d) (insert_config_files fs)"

text \<open>\<open>ON CONFLICT(repo_id) DO UPDATE\<close>\<close>

definition set_current :: "config_current_row \<Rightarrow> db \<Rightarrow> db" where
  "set_current c d =
    (if has cc_repo (cc_repo c) (config_current d)
     then d\<lparr>config_current := update_where (\<lambda>x. cc_repo x = cc_repo c) (\<lambda>x. x\<lparr>cc_generation := cc_generation c\<rparr>)
       (config_current d)\<rparr>
     else d\<lparr>config_current := config_current d @ [c]\<rparr>)"

definition next_generation :: "int \<Rightarrow> db \<Rightarrow> nat" where
  "next_generation repo_id d =
     max0 (map gn_number (filter (\<lambda>g. gn_repo g = repo_id) (config_generations d))) + 1"

definition generation_identity :: "digest \<Rightarrow> int \<Rightarrow> nat \<Rightarrow> string \<Rightarrow> string" where
  "generation_identity sha repo_id number bundle_digest = sha (join nul [show_int repo_id, show_nat number, bundle_digest])"

definition new_generation :: "digest \<Rightarrow> string \<Rightarrow> int \<Rightarrow> nat \<Rightarrow> repo_bundle \<Rightarrow> generation_row" where
  "new_generation sha now repo_id number b =
     \<lparr>gn_id = generation_identity sha repo_id number (bu_digest b), gn_repo = repo_id, gn_number = number,
      gn_digest = bu_digest b, gn_workflow_id = ws_workflow_id (bu_workflow b), gn_version = ws_version (bu_workflow b),
      gn_manifest = DMap (bu_manifest b), gn_created_at = now\<rparr>"

definition config_rows :: "digest \<Rightarrow> string \<Rightarrow> (string \<times> string) list \<Rightarrow> config_file_row list" where
  "config_rows sha k files = map (\<lambda>(path, content).
     \<lparr>cf_generation = k, cf_path = path, cf_content = content, cf_digest = sha content\<rparr>) (sort_key fst files)"

definition install_transaction :: "digest \<Rightarrow> string \<Rightarrow> int \<Rightarrow> repo_bundle \<Rightarrow> db \<Rightarrow> err + string \<times> db" where
  "install_transaction sha now repo_id b d =
    (let g = new_generation sha now repo_id (next_generation repo_id d) b in
     if \<not> has rp_id repo_id (repositories d) then Inl (ValueError ''repository has not been observed'')
     else bindE (insert_generation g d) (\<lambda>d1.
       bindE (insert_config_files (config_rows sha (gn_id g) (bu_files b)) d1) (\<lambda>d2.
       Inr (gn_id g, set_current \<lparr>cc_repo = repo_id, cc_generation = gn_id g\<rparr> d2))))"

definition install ::
  "digest \<Rightarrow> yaml_reader \<Rightarrow> listing option \<Rightarrow> string \<Rightarrow> int \<Rightarrow> (db, generation_row) op" where
  "install sha yaml root now repo_id d =
    (case validate_repo_bundle sha yaml root of
       Inl e \<Rightarrow> raise e d
     | Inr b \<Rightarrow> and_then (commit d (install_transaction sha now repo_id b d))
         (\<lambda>k d'. (config_generation d' repo_id k, d')))"

definition current_generation :: "db \<Rightarrow> int \<Rightarrow> err + generation_row option" where
  "current_generation d repo_id = (case lookup cc_repo repo_id (config_current d) of
     None \<Rightarrow> Inr None
   | Some c \<Rightarrow> bindE (config_generation d repo_id (cc_generation c)) (\<lambda>g. Inr (Some g)))"

text \<open>An empty id counts as none, as in the code.\<close>

definition thread_generation :: "db \<Rightarrow> string \<Rightarrow> err + generation_row option" where
  "thread_generation d thread_id = (case thread_of d thread_id of
     None \<Rightarrow> Inl (ValueError ''IssueThread does not exist'')
   | Some th \<Rightarrow> (case th_config th of
       None \<Rightarrow> Inr None
     | Some k \<Rightarrow> if k = [] then Inr None
       else bindE (config_generation d (th_repo_id th) k) (\<lambda>g. Inr (Some g))))"

section \<open>Reading a generation\<close>

text \<open>\<open>mapping[key]\<close>, and a comprehension whose element may raise.\<close>

definition key_of :: "(string \<times> doc) list \<Rightarrow> string \<Rightarrow> err + doc" where
  "key_of kvs k = (case map_of kvs k of None \<Rightarrow> Inl (KeyError k) | Some v \<Rightarrow> Inr v)"

fun collect :: "('a \<Rightarrow> err + 'b) \<Rightarrow> 'a list \<Rightarrow> err + 'b list" where
  "collect f [] = Inr []"
| "collect f (x # xs) = bindE (f x) (\<lambda>y. bindE (collect f xs) (\<lambda>ys. Inr (y # ys)))"

definition manifest :: "generation_row \<Rightarrow> (string \<times> doc) list" where
  "manifest g = items (gn_manifest g)"

definition name_of :: "doc \<Rightarrow> err + string" where
  "name_of item = bindE (key_of (items item) ''name'') (\<lambda>v. Inr (str_of v))"

definition server_tools :: "doc \<Rightarrow> err + string list" where
  "server_tools server = bindE (key_of (items server) ''server_id'') (\<lambda>k.
     bindE (key_of (items server) ''tools'') (\<lambda>ts. Inr (map (\<lambda>t. str_of k @ ''_'' @ str_of t) (elems ts))))"

definition load_workflow :: "digest \<Rightarrow> db \<Rightarrow> int \<Rightarrow> string \<Rightarrow> err + workflow_spec" where
  "load_workflow sha d repo_id k = bindE (config_generation d repo_id k) (\<lambda>g. let m = manifest g in
     bindE (key_of m ''scripts'') (\<lambda>ss. bindE (collect name_of (elems ss)) (\<lambda>scripts.
     bindE (key_of m ''mcp'') (\<lambda>ms. bindE (collect server_tools (elems ms)) (\<lambda>mcp.
     bindE (key_of m ''skills'') (\<lambda>ks. bindE (collect name_of (elems ks)) (\<lambda>skills.
     bindE (key_of m ''workflow'') (\<lambda>document.
     parse_workflow_spec sha (BUILTIN_WORKFLOW_TOOLS @ scripts @ concat mcp) (Some (\<lambda>s. s \<in> set skills)) document))))))))"

text \<open>\<open>SELECT path,content ... ORDER BY path\<close>\<close>

definition files_where :: "db \<Rightarrow> string \<Rightarrow> (string \<Rightarrow> bool) \<Rightarrow> (string \<times> string) list" where
  "files_where d k p = map (\<lambda>f. (cf_path f, cf_content f))
     (order_by cf_path (filter (\<lambda>f. cf_generation f = k \<and> p (cf_path f)) (config_files d)))"

definition config_file :: "db \<Rightarrow> int \<Rightarrow> string \<Rightarrow> string \<Rightarrow> err + string option" where
  "config_file d repo_id k path = bindE (config_generation d repo_id k) (\<lambda>_.
     Inr (map_option cf_content (find (\<lambda>f. cf_generation f = k \<and> cf_path f = path) (config_files d))))"

definition read_skill :: "db \<Rightarrow> int \<Rightarrow> string \<Rightarrow> string \<Rightarrow> err + string" where
  "read_skill d repo_id k name = bindE (config_file d repo_id k (''skills/'' @ name @ ''/SKILL.md'')) (\<lambda>c. case c of
     None \<Rightarrow> Inl (PermissionError ''required bound-generation skill is missing'')
   | Some content \<Rightarrow> Inr content)"

definition generation_files :: "db \<Rightarrow> int \<Rightarrow> string \<Rightarrow> err + (string \<times> string) list" where
  "generation_files d repo_id k = bindE (config_generation d repo_id k) (\<lambda>_. Inr (files_where d k (\<lambda>p. True)))"

text \<open>
  \<open>materialize\<close>: the files written below the staging directory. A path without a double dot and
  without a link in an empty staging directory resolves below it.
\<close>

fun unsafe_installed_path :: "string \<Rightarrow> bool" where
  "unsafe_installed_path path = (starts_with path ''/'' \<or> ''..'' \<in> set (posix_parts path) \<or> \<not> is_bundle_path path)"

definition materialize :: "db \<Rightarrow> int \<Rightarrow> string \<Rightarrow> err + (string list \<times> string) list" where
  "materialize d repo_id k = bindE (generation_files d repo_id k) (\<lambda>files.
     collect (\<lambda>(path, content). if unsafe_installed_path path
       then Inl (ValueError ''installed generation path is unsafe'') else Inr (posix_parts path, content)) files)"

text \<open>A dictionary comprehension: a repeated key keeps its last value.\<close>

definition dict_of :: "('k \<times> 'v) list \<Rightarrow> ('k \<times> 'v) list" where
  "dict_of kvs = fold (\<lambda>(k, v). AList.update k v) kvs []"

text \<open>
  SQLite's \<open>LIKE 'prefix%'\<close> ignores the case of ASCII letters, and an underscore or a percent sign in
  the prefix stands for any character or characters.
\<close>

fun like :: "string \<Rightarrow> string \<Rightarrow> bool" where
  "like [] [] = True"
| "like [] (c # cs) = False"
| "like (p # ps) s =
    (if p = CHR ''%'' then like ps s \<or> (case s of [] \<Rightarrow> False | c # cs \<Rightarrow> like (p # ps) cs)
     else case s of [] \<Rightarrow> False | c # cs \<Rightarrow> (p = CHR ''_'' \<or> lower p = lower c) \<and> like ps cs)"

definition skill_files :: "db \<Rightarrow> int \<Rightarrow> string \<Rightarrow> err + (string \<times> string) list" where
  "skill_files d repo_id k = bindE (config_generation d repo_id k) (\<lambda>_.
     Inr (dict_of (map (\<lambda>(p, c). (drop 7 p, c)) (files_where d k (like ''skills/%'')))))"

definition script_files :: "db \<Rightarrow> int \<Rightarrow> string \<Rightarrow> script_tool \<Rightarrow> err + (string \<times> string) list" where
  "script_files d repo_id k spec = bindE (config_generation d repo_id k) (\<lambda>_.
     let prefix = sc_directory spec @ ''/'' in
     Inr (dict_of (map (\<lambda>(p, c). (drop (length prefix) p, c)) (files_where d k (like (prefix @ ''%''))))))"

definition strings_of :: "doc \<Rightarrow> (string \<times> string) list" where
  "strings_of d = map (\<lambda>(k, v). (k, str_of v)) (items d)"

definition script_of :: "doc \<Rightarrow> err + script_tool" where
  "script_of item = (let m = items item; text_at = (\<lambda>k. bindE (key_of m k) (\<lambda>v. Inr (str_of v))) in
     bindE (text_at ''name'') (\<lambda>name. bindE (text_at ''description'') (\<lambda>description.
     bindE (text_at ''runtime'') (\<lambda>runtime. bindE (text_at ''entrypoint'') (\<lambda>entrypoint.
     bindE (key_of m ''args_schema'') (\<lambda>schema. bindE (key_of m ''timeout_seconds'') (\<lambda>timeout.
     bindE (text_at ''effect'') (\<lambda>effect. bindE (text_at ''directory'') (\<lambda>base.
     Inr \<lparr>sc_name = name, sc_description = description, sc_runtime = runtime, sc_entrypoint = entrypoint,
          sc_args_schema = items schema, sc_timeout = int_of timeout, sc_effect = effect, sc_directory = base,
          sc_env = strings_of (get_default m ''env'' (DMap [])),
          sc_secret_env = strings_of (get_default m ''secret_env'' (DMap []))\<rparr>)))))))))"

definition script_specs :: "db \<Rightarrow> int \<Rightarrow> string \<Rightarrow> err + script_tool list" where
  "script_specs d repo_id k = bindE (config_generation d repo_id k) (\<lambda>g.
     bindE (key_of (manifest g) ''scripts'') (\<lambda>ss. collect script_of (elems ss)))"

section \<open>The registry of MCP servers\<close>

text \<open>\<open>capabilities.py\<close>: the registered servers and, per repository, the approved tools of a server.\<close>

record mcp_spec =
  sp_server :: string
  sp_connection :: "(string \<times> doc) list"
  sp_secret_env :: "(string \<times> string) list"
  sp_secret_headers :: "(string \<times> string) list"

record mcp_registry =
  mr_servers :: "(string \<times> mcp_spec) list"
  mr_approved :: "(int \<times> (string \<times> string list) list) list"

definition empty_registry :: mcp_registry where
  "empty_registry = \<lparr>mr_servers = [], mr_approved = []\<rparr>"

definition register_server :: "mcp_spec \<Rightarrow> mcp_registry \<Rightarrow> err + mcp_registry" where
  "register_server s r =
    (if sp_server s = [] \<or> sp_connection s = [] then Inl (ValueError ''MCP server configuration is incomplete'')
     else Inr (r\<lparr>mr_servers := AList.update (sp_server s) s (mr_servers r)\<rparr>))"

definition approved_for :: "mcp_registry \<Rightarrow> int \<Rightarrow> (string \<times> string list) list" where
  "approved_for r repo_id = (case map_of (mr_approved r) repo_id of None \<Rightarrow> [] | Some xs \<Rightarrow> xs)"

definition approve_tools :: "int \<Rightarrow> string \<Rightarrow> string list \<Rightarrow> mcp_registry \<Rightarrow> err + mcp_registry" where
  "approve_tools repo_id server names r =
    (if map_of (mr_servers r) server = None then Inl (ValueError ''MCP server is not registered'')
     else if names = [] \<or> [] \<in> set names then Inl (ValueError ''approved MCP tools must be named'')
     else Inr (r\<lparr>mr_approved := AList.update repo_id (AList.update server names (approved_for r repo_id)) (mr_approved r)\<rparr>))"

definition approved_servers :: "mcp_registry \<Rightarrow> int \<Rightarrow> err + (string \<times> mcp_spec) list" where
  "approved_servers r repo_id = collect (\<lambda>(server, names). case map_of (mr_servers r) server of
     None \<Rightarrow> Inl (KeyError server) | Some s \<Rightarrow> Inr (server, s)) (approved_for r repo_id)"

definition approved_tools :: "mcp_registry \<Rightarrow> int \<Rightarrow> string \<Rightarrow> string list" where
  "approved_tools r repo_id server = (case map_of (approved_for r repo_id) server of None \<Rightarrow> [] | Some ts \<Rightarrow> ts)"

definition is_allowed :: "mcp_registry \<Rightarrow> int \<Rightarrow> string \<Rightarrow> string \<Rightarrow> bool" where
  "is_allowed r repo_id server tool = (tool \<in> set (approved_tools r repo_id server))"

definition known_tool_names :: "mcp_registry \<Rightarrow> string list" where
  "known_tool_names r = concat (map (\<lambda>(repo, servers). concat (map (\<lambda>(server, names).
     map (\<lambda>t. server @ ''_'' @ t) names) servers)) (mr_approved r))"

definition register_item :: "int \<Rightarrow> doc \<Rightarrow> mcp_registry \<Rightarrow> err + mcp_registry" where
  "register_item repo_id item r = (let m = items item in
     bindE (key_of m ''server_id'') (\<lambda>k. bindE (key_of m ''connection'') (\<lambda>connection.
     bindE (register_server \<lparr>sp_server = str_of k, sp_connection = items connection,
        sp_secret_env = strings_of (get_default m ''secret_env'' (DMap [])),
        sp_secret_headers = strings_of (get_default m ''secret_headers'' (DMap []))\<rparr> r) (\<lambda>r1.
     bindE (key_of m ''tools'') (\<lambda>ts. approve_tools repo_id (str_of k) (map str_of (elems ts)) r1)))))"

fun register_items :: "int \<Rightarrow> doc list \<Rightarrow> mcp_registry \<Rightarrow> err + mcp_registry" where
  "register_items repo_id [] r = Inr r"
| "register_items repo_id (x # xs) r = bindE (register_item repo_id x r) (register_items repo_id xs)"

definition capability_registry :: "db \<Rightarrow> int \<Rightarrow> string \<Rightarrow> err + mcp_registry option" where
  "capability_registry d repo_id k = bindE (config_generation d repo_id k) (\<lambda>g.
     bindE (key_of (manifest g) ''mcp'') (\<lambda>ms.
     if elems ms = [] then Inr None
     else bindE (register_items repo_id (elems ms) empty_registry) (\<lambda>r. Inr (Some r))))"

text \<open>
  \<open>repo_scope_interceptor\<close>: a call is answered without the server or handed on with rewritten
  arguments. The context is \<open>None\<close> when the runtime carries none of the trusted type.
\<close>

record agent_context =
  ac_repo_id :: int
  ac_full_name :: string

datatype mcp_answer = Rejected string | Forwarded "(string \<times> doc) list"

definition authorize_mcp :: "mcp_registry \<Rightarrow> agent_context option \<Rightarrow> string \<Rightarrow> string \<Rightarrow> (string \<times> doc) list \<Rightarrow> mcp_answer" where
  "authorize_mcp r context server tool arguments = (case context of
     None \<Rightarrow> Rejected ''MCP call rejected: authoritative repository context missing.''
   | Some c \<Rightarrow>
     if \<not> is_allowed r (ac_repo_id c) server tool
     then Rejected ''MCP call rejected: capability is not approved for this repository.''
     else Forwarded (filter (\<lambda>(k, v). k \<notin> {''workspace_root'', ''repo_path'', ''tenant''})
       (AList.update ''repo_full_name'' (DStr (ac_full_name c))
         (AList.update ''repo_id'' (DInt (ac_repo_id c)) arguments))))"

end
