(* ===== verification/Config_Properties.thy ===== *)
theory Config_Properties
  imports Repo_Config Example_Run
begin

text \<open>
  What a validated bundle promises, that an installed generation answers for the bundle it was made
  from and never changes, and that calls of MCP tools stay inside what a generation approves.
\<close>

section \<open>Validated bundles\<close>

lemma parse_phase_relax:
  "parse_phase label known None d = Inr p \<Longrightarrow> \<forall>s \<in> set (phase_skills p). f s \<Longrightarrow>
     parse_phase label known (Some f) d = Inr p"
  unfolding parse_phase_def ok_simps by (auto simp: skill_missing_def phase_skills_def list_ex_iff)

lemma parse_task_relax:
  assumes "parse_task i seen known None d = Inr t" and "\<forall>p \<in> set (all_phases t). \<forall>s \<in> set (phase_skills p). f s"
  shows "parse_task i seen known (Some f) d = Inr t"
  using assms unfolding parse_task_def ok_simps by (auto simp: all_phases_def parse_phase_relax)

lemma parse_tasks_relax:
  "parse_tasks i seen known None ds = Inr ts \<Longrightarrow>
   \<forall>t \<in> set ts. \<forall>p \<in> set (all_phases t). \<forall>s \<in> set (phase_skills p). f s \<Longrightarrow>
   parse_tasks i seen known (Some f) ds = Inr ts"
proof (induction ds arbitrary: i seen ts)
  case (Cons d ds)
  then obtain t us where t: "parse_task i seen known None d = Inr t" "ts = t # us"
    "parse_tasks (Suc i) (ts_id t # seen) known None ds = Inr us"
    by (auto simp: bindE_Inr_iff)
  with Cons.prems(2) have "parse_task i seen known (Some f) d = Inr t" by (intro parse_task_relax) auto
  moreover have "parse_tasks (Suc i) (ts_id t # seen) known (Some f) ds = Inr us"
    using Cons.IH [OF t(3)] Cons.prems(2) t(2) by auto
  ultimately show ?case by (simp add: t(2))
qed simp

lemma parse_workflow_relax:
  assumes "parse_workflow_spec sha known None d = Inr w"
    and "\<forall>t \<in> set (ws_tasks w). \<forall>p \<in> set (all_phases t). \<forall>s \<in> set (phase_skills p). f s"
  shows "parse_workflow_spec sha known (Some f) d = Inr w"
proof -
  have "parse_tasks 0 [] known (Some f) (elems (dget (items d) ''tasks'')) = Inr (ws_tasks w)"
    using parse_tasks_relax [OF parse_workflow_tasks [OF assms(1)]] assms(2) by blast
  with parse_workflow_tasks [OF assms(1)] assms(1) show ?thesis
    by (simp add: parse_workflow_spec_def Let_def split: if_splits)
qed

text \<open>A workflow accepted against a catalogue is accepted again from its canonical document.\<close>

lemma parse_accepted_again:
  assumes "parse_workflow_spec sha known (Some f) d = Inr w" and "set known' = set known" and "\<And>s. f s \<Longrightarrow> f' s"
  shows "parse_workflow_spec sha known' (Some f') (canonical_document w) = Inr w"
proof (rule parse_workflow_relax)
  have "wf_spec sha known w" using parse_workflow_spec_wf [OF assms(1)] .
  then have "wf_spec sha known' w"
    using assms(2) by (simp add: wf_spec_def wf_tasks_def wf_task_def wf_phase_def list_all_iff)
  then show "parse_workflow_spec sha known' None (canonical_document w) = Inr w"
    by (rule parse_canonical_document)
  show "\<forall>t \<in> set (ws_tasks w). \<forall>p \<in> set (all_phases t). \<forall>s \<in> set (phase_skills p). f' s"
    using parse_tasks_skills [OF parse_workflow_tasks [OF assms(1)]] assms(3) by blast
qed

lemma validate_ok:
  assumes "validate_repo_bundle sha yaml root = Inr b"
  shows "read_bundle_files root = Inr (bu_files b)"
    "parse_skills yaml (entries_of root) (bu_files b) = Inr (bu_skills b)"
    "parse_scripts yaml (entries_of root) (bu_files b) = Inr (bu_scripts b)"
    "parse_mcp yaml (bu_files b) = Inr (bu_mcp b)"
    "\<not> tool_collision (map sc_name (bu_scripts b)) (mcp_names (bu_mcp b))"
    "parse_workflow_spec sha (BUILTIN_WORKFLOW_TOOLS @ map sc_name (bu_scripts b) @ mcp_names (bu_mcp b))
       (Some (\<lambda>s. s \<in> set (map sk_name (bu_skills b)))) (DMap (bu_document b)) = Inr (bu_workflow b)"
    "check_read_phases (effects_of (bu_scripts b)) (ws_tasks (bu_workflow b)) = Inr ()"
    "bu_manifest b = manifest_of (bu_workflow b) (bu_skills b) (bu_scripts b) (bu_mcp b) (bu_files b)"
  using assms unfolding validate_repo_bundle_def ok_simps by auto

lemma parse_script_name:
  "parse_script yaml files names n = Inr s \<Longrightarrow> sc_name s \<notin> set names \<and> sc_effect s \<in> {''read'', ''mutate''}"
  unfolding parse_script_def ok_simps by (auto simp: in_strings_True)

lemma parse_script_directories_names:
  "parse_script_directories yaml files names ns = Inr ss \<Longrightarrow>
     distinct (map sc_name ss) \<and> set (map sc_name ss) \<inter> set names = {} \<and> (\<forall>s \<in> set ss. sc_effect s \<in> {''read'', ''mutate''})"
proof (induction ns arbitrary: names ss)
  case (Cons n ns)
  then obtain s us where "parse_script yaml files names n = Inr s" "ss = s # us"
    "parse_script_directories yaml files (sc_name s # names) ns = Inr us"
    by (auto simp: bindE_Inr_iff)
  with Cons.IH [OF this(3)] parse_script_name show ?case by fastforce
qed simp

lemma parse_scripts_names:
  "parse_scripts yaml entries files = Inr ss \<Longrightarrow> distinct (map sc_name ss) \<and> (\<forall>s \<in> set ss. sc_effect s \<in> {''read'', ''mutate''})"
  using parse_script_directories_names by (fastforce simp: parse_scripts_def split: if_splits)

lemma check_read_phases_ok:
  "check_read_phases es ts = Inr () \<Longrightarrow> t \<in> set ts \<Longrightarrow>
     forbidden_tools es (ts_planning t) = [] \<and> forbidden_tools es (ts_validation t) = []"
  by (induction es ts rule: check_read_phases.induct) (auto split: if_splits)

lemma map_of_rev_distinct:
  assumes "distinct (map fst kvs)"
  shows "map_of (rev kvs) k = map_of kvs k"
proof (cases "map_of (rev kvs) k")
  case None
  then have "map_of kvs k = None" by (simp add: map_of_eq_None_iff)
  with None show ?thesis by simp
next
  case (Some v)
  then have "(k, v) \<in> set kvs" by (auto dest: map_of_SomeD)
  with Some assms show ?thesis by simp
qed

text \<open>
  C23. Validation of a bundle settles what a tool is and where it may be named: every tool of every
  phase is a built-in one, a registered script or a tool of a registered MCP server, and only one of
  them; and no planning or validation phase names a script that mutates, so that the filter the policy
  applies in these phases takes no tool away from them.
\<close>

theorem reading_phases_name_no_mutating_script:
  assumes "validate_repo_bundle sha yaml root = Inr b" and "t \<in> set (ws_tasks (bu_workflow b))"
  shows "(\<forall>p \<in> set (all_phases t). \<forall>x \<in> set (ph_tools p).
      length (filter (\<lambda>names. x \<in> set names)
        [BUILTIN_WORKFLOW_TOOLS, map sc_name (bu_scripts b), mcp_names (bu_mcp b)]) = 1)
    \<and> set (ph_tools (ts_planning t)) \<inter> with_effect ''mutate'' (effects_of (bu_scripts b)) = {}
    \<and> set (ph_tools (ts_validation t)) \<inter> with_effect ''mutate'' (effects_of (bu_scripts b)) = {}"
proof -
  note v = validate_ok [OF assms(1)]
  have k: "x \<in> set BUILTIN_WORKFLOW_TOOLS \<or> x \<in> set (map sc_name (bu_scripts b)) \<or> x \<in> set (mcp_names (bu_mcp b))"
    if "p \<in> set (all_phases t)" "x \<in> set (ph_tools p)" for p x
    using wf_spec_phase [OF parse_workflow_spec_wf [OF v(6)] assms(2) that(1)] that(2)
    by (auto simp: wf_phase_def)
  have d: "distinct (map fst (effects_of (bu_scripts b)))"
    using parse_scripts_names [OF v(3)] by (simp add: effects_of_def o_def)
  have r: "set (ph_tools p) \<inter> with_effect ''mutate'' (effects_of (bu_scripts b)) = {}"
    if "forbidden_tools (effects_of (bu_scripts b)) p = []" for p
    using that d by (auto simp: forbidden_tools_def filter_empty_conv with_effect_iff map_of_rev_distinct)
  have n: "\<not> (x \<in> set BUILTIN_WORKFLOW_TOOLS \<and> x \<in> set (map sc_name (bu_scripts b)))"
    "\<not> (x \<in> set BUILTIN_WORKFLOW_TOOLS \<and> x \<in> set (mcp_names (bu_mcp b)))"
    "\<not> (x \<in> set (map sc_name (bu_scripts b)) \<and> x \<in> set (mcp_names (bu_mcp b)))" for x
    using v(5) unfolding tool_collision_def list_ex_iff by blast+
  have one: "length (filter (\<lambda>names. x \<in> set names)
      [BUILTIN_WORKFLOW_TOOLS, map sc_name (bu_scripts b), mcp_names (bu_mcp b)]) = 1"
    if "p \<in> set (all_phases t)" "x \<in> set (ph_tools p)" for p x
    using k [OF that] n [of x] by (auto simp del: set_map)
  show ?thesis using one r check_read_phases_ok [OF v(7) assms(2)] by blast
qed

section \<open>What an install writes\<close>

abbreviation file_key :: "config_file_row \<Rightarrow> string \<times> string" where
  "file_key f \<equiv> (cf_generation f, cf_path f)"

lemma insert_config_files_eq:
  "insert_config_files fs d = Inr d' \<Longrightarrow> d' = d\<lparr>config_files := config_files d @ fs\<rparr>
     \<and> (distinct (map file_key (config_files d)) \<longrightarrow> distinct (map file_key (config_files d @ fs)))"
proof (induction fs arbitrary: d)
  case (Cons f fs)
  then obtain d1 where d1: "insert_config_file f d = Inr d1" "insert_config_files fs d1 = Inr d'"
    by (auto simp: bindE_Inr_iff)
  from d1(1) have "d1 = d\<lparr>config_files := config_files d @ [f]\<rparr>" "file_key f \<notin> file_key ` set (config_files d)"
    by (auto simp: insert_config_file_def split: if_splits)
  with Cons.IH [OF d1(2)] show ?case by auto
qed simp

lemma set_current_fields [simp]:
  "config_generations (set_current c d) = config_generations d" "config_files (set_current c d) = config_files d"
  by (simp_all add: set_current_def)

lemma current_after_set:
  "lookup cc_repo k (config_current (set_current c d)) =
     (if k = cc_repo c then Some c else lookup cc_repo k (config_current d))"
proof (cases "has cc_repo (cc_repo c) (config_current d)")
  case True
  then obtain c0 where c0: "lookup cc_repo (cc_repo c) (config_current d) = Some c0"
    by (cases "lookup cc_repo (cc_repo c) (config_current d)") (auto simp: lookup_None_iff)
  note c0' = lookup_SomeD [OF c0]
  have u: "lookup cc_repo k (config_current (set_current c d)) =
      map_option (\<lambda>x. if cc_repo x = cc_repo c then x\<lparr>cc_generation := cc_generation c\<rparr> else x)
        (lookup cc_repo k (config_current d))"
    using True by (simp add: set_current_def lookup_update_where)
  show ?thesis
  proof (cases "k = cc_repo c")
    case True
    with c0 c0' u show ?thesis by simp
  next
    case False
    then show ?thesis unfolding u by (cases "lookup cc_repo k (config_current d)") (auto dest: lookup_SomeD)
  qed
next
  case False
  then have "lookup cc_repo (cc_repo c) (config_current d) = None" by (simp add: lookup_None_iff)
  with False show ?thesis by (auto simp: set_current_def lookup_append lookup_Cons lookup_Nil split: option.split)
qed

lemma install_writes:
  assumes "install_transaction sha now repo_id b d = Inr (k, d')"
    and "g = new_generation sha now repo_id (next_generation repo_id d) b"
  shows "k = gn_id g" "gn_id g \<notin> gn_id ` set (config_generations d)"
    "config_generations d' = config_generations d @ [g]"
    "config_files d' = config_files d @ config_rows sha k (bu_files b)"
    "distinct (map file_key (config_files d)) \<longrightarrow> distinct (map file_key (config_files d'))"
    "lookup cc_repo r (config_current d') =
       (if r = repo_id then Some \<lparr>cc_repo = repo_id, cc_generation = k\<rparr> else lookup cc_repo r (config_current d))"
proof -
  from assms obtain d1 d2 where d1: "insert_generation g d = Inr d1"
    and d2: "insert_config_files (config_rows sha (gn_id g) (bu_files b)) d1 = Inr d2"
    and k: "k = gn_id g" and d': "d' = set_current \<lparr>cc_repo = repo_id, cc_generation = gn_id g\<rparr> d2"
    unfolding install_transaction_def ok_simps by auto
  from d1 have g: "gn_id g \<notin> gn_id ` set (config_generations d)"
    "d1 = d\<lparr>config_generations := config_generations d @ [g]\<rparr>"
    by (auto simp: insert_generation_def split: if_splits)
  note e = insert_config_files_eq [OF d2]
  show "k = gn_id g" "gn_id g \<notin> gn_id ` set (config_generations d)" by (fact k, fact g(1))
  show "config_generations d' = config_generations d @ [g]"
    "config_files d' = config_files d @ config_rows sha k (bu_files b)"
    "distinct (map file_key (config_files d)) \<longrightarrow> distinct (map file_key (config_files d'))"
    using e g(2) by (simp_all add: d' k)
  show "lookup cc_repo r (config_current d') =
      (if r = repo_id then Some \<lparr>cc_repo = repo_id, cc_generation = k\<rparr> else lookup cc_repo r (config_current d))"
    using e g(2) by (simp add: d' k current_after_set)
qed

lemma install_cases:
  obtains "snd (install sha yaml root now repo_id d) = d"
  | b k where "validate_repo_bundle sha yaml root = Inr b"
      "install_transaction sha now repo_id b d = Inr (k, snd (install sha yaml root now repo_id d))"
  by (cases "validate_repo_bundle sha yaml root"; cases "install_transaction sha now repo_id (projr (validate_repo_bundle sha yaml root)) d")
    (auto simp: install_def)

section \<open>The tables of the configuration over time\<close>

text \<open>
  The only writer of the three tables is \<open>install\<close>; every other operation of the system leaves them
  as they are.
\<close>

definition same_config :: "db \<Rightarrow> db \<Rightarrow> bool" where
  "same_config d d' = (config_generations d' = config_generations d \<and> config_files d' = config_files d \<and>
     config_current d' = config_current d)"

definition config_empty :: "db \<Rightarrow> bool" where
  "config_empty d = (config_generations d = [] \<and> config_files d = [] \<and> config_current d = [])"

inductive config_step :: "db \<Rightarrow> db \<Rightarrow> bool" where
  step_install: "config_step d (snd (install sha yaml root now repo_id d))"
| step_other: "same_config d d' \<Longrightarrow> config_step d d'"

abbreviation generations_of :: "db \<Rightarrow> int \<Rightarrow> generation_row list" where
  "generations_of d repo_id \<equiv> filter (\<lambda>g. gn_repo g = repo_id) (config_generations d)"

text \<open>
  The generations of a repository are numbered 1, 2, ... in the order of their installs, every file
  belongs to a generation, and the current generation of a repository is its last.
\<close>

definition config_sound :: "db \<Rightarrow> bool" where
  "config_sound d = (distinct (map gn_id (config_generations d)) \<and>
     (\<forall>f \<in> set (config_files d). cf_generation f \<in> gn_id ` set (config_generations d)) \<and>
     distinct (map file_key (config_files d)) \<and>
     (\<forall>r. map gn_number (generations_of d r) = [1..<Suc (length (generations_of d r))]) \<and>
     (\<forall>r c. lookup cc_repo r (config_current d) = Some c \<longrightarrow>
        generations_of d r \<noteq> [] \<and> gn_id (last (generations_of d r)) = cc_generation c))"

lemma max0_upt: "max0 [1..<Suc n] = n"
proof (induction n)
  case (Suc n)
  have m: "max0 (xs @ [x]) = max (max0 xs) x" for xs x by (induction xs) auto
  show ?case using Suc m by simp
qed simp

lemma config_sound_install:
  assumes "config_sound d" and "install_transaction sha now repo_id b d = Inr (k, d')"
  shows "config_sound d'"
proof -
  define g where "g = new_generation sha now repo_id (next_generation repo_id d) b"
  note w = install_writes [OF assms(2) g_def]
  have g: "gn_repo g = repo_id" "gn_number g = Suc (length (generations_of d repo_id))"
    using assms(1) max0_upt by (simp_all add: g_def new_generation_def next_generation_def config_sound_def)
  have files: "\<forall>f \<in> set (config_rows sha k (bu_files b)). cf_generation f = k" by (auto simp: config_rows_def)
  have "map gn_number (generations_of d' r) = [1..<Suc (length (generations_of d' r))]" for r
    using assms(1) g by (cases "r = repo_id") (simp_all add: w(3) config_sound_def)
  moreover have "generations_of d' r \<noteq> [] \<and> gn_id (last (generations_of d' r)) = cc_generation c"
    if "lookup cc_repo r (config_current d') = Some c" for r c
    using that assms(1) g w(1) by (cases "r = repo_id") (auto simp: w(3) w(6) config_sound_def)
  ultimately show ?thesis using assms(1) w(1,2,5) files
    unfolding config_sound_def w(3) w(4) by auto
qed

interpretation config: invariant_machine config_empty config_step config_sound
proof unfold_locales
  show "config_sound d" if "config_empty d" for d
    using that by (simp add: config_empty_def config_sound_def table_simps)
next
  fix d d'
  assume "config_sound d" and "config_step d d'"
  from this(2,1) show "config_sound d'"
  proof cases
    case (step_install sha yaml root now repo_id)
    with \<open>config_sound d\<close> show ?thesis
      by (cases rule: install_cases [of sha yaml root now repo_id d]) (auto dest: config_sound_install)
  next
    case step_other
    with \<open>config_sound d\<close> show ?thesis by (simp add: same_config_def config_sound_def)
  qed
qed

section \<open>A generation answers for its bundle\<close>

lemma strings_of_string_doc [simp]: "strings_of (string_doc kvs) = kvs"
  by (simp add: strings_of_def string_doc_def o_def case_prod_beta)

lemma collect_map: "(\<And>x. x \<in> set xs \<Longrightarrow> f (g x) = Inr (h x)) \<Longrightarrow> collect f (map g xs) = Inr (map h xs)"
  by (induction xs) auto

lemma script_of_script_doc: "script_of (script_doc s) = Inr s"
  by (simp add: script_of_def script_doc_def key_of_def get_default_def)

lemma name_of_docs [simp]: "name_of (script_doc s) = Inr (sc_name s)" "name_of (skill_doc m) = Inr (sk_name m)"
  by (simp_all add: name_of_def script_doc_def skill_doc_def key_of_def)

lemma server_tools_mcp_doc [simp]: "server_tools (mcp_doc s) = Inr (mcp_tool_names s)"
  by (simp add: server_tools_def mcp_doc_def key_of_def mcp_tool_names_def o_def)

lemma manifest_parts:
  "key_of (manifest_of w skills scripts mcp files) ''workflow'' = Inr (canonical_document w)"
  "key_of (manifest_of w skills scripts mcp files) ''skills'' = Inr (DList (map skill_doc skills))"
  "key_of (manifest_of w skills scripts mcp files) ''scripts'' = Inr (DList (map script_doc scripts))"
  "key_of (manifest_of w skills scripts mcp files) ''mcp'' = Inr (DList (map mcp_doc mcp))"
  by (simp_all add: key_of_def manifest_of_def)

text \<open>The state after an install, as its readers see it.\<close>

lemma installed_generation:
  assumes "config_sound d" and "validate_repo_bundle sha yaml root = Inr b"
    and "install sha yaml root now repo_id d = (Inr g, d')"
  shows "config_generation d' repo_id (gn_id g) = Inr g" "manifest g = bu_manifest b"
    "filter (\<lambda>f. cf_generation f = gn_id g) (config_files d') = config_rows sha (gn_id g) (bu_files b)"
    "distinct (map fst (bu_files b))"
    "lookup cc_repo repo_id (config_current d') = Some \<lparr>cc_repo = repo_id, cc_generation = gn_id g\<rparr>"
proof -
  from assms(2,3) obtain k where t: "install_transaction sha now repo_id b d = Inr (k, d')"
    and r: "config_generation d' repo_id k = Inr g"
    by (auto simp: install_def and_then_return_iff commit_return_iff)
  define h where "h = new_generation sha now repo_id (next_generation repo_id d) b"
  note w = install_writes [OF t h_def]
  have n: "find (\<lambda>x. gn_repo x = repo_id \<and> gn_id x = k) (config_generations d) = None"
    using w(1,2) by (auto simp: find_None_iff) (metis imageI)
  then have "config_generation d' repo_id k = Inr h"
    using w(1) by (simp add: config_generation_def w(3) find_append h_def new_generation_def)
  with r w(1) have g: "g = h" "gn_id g = k" by auto
  show "config_generation d' repo_id (gn_id g) = Inr g" using r g by simp
  show "manifest g = bu_manifest b" by (simp add: g manifest_def h_def new_generation_def)
  have "filter (\<lambda>f. cf_generation f = k) (config_files d) = []"
    using assms(1) w(1,2) unfolding config_sound_def filter_empty_conv by metis
  then show "filter (\<lambda>f. cf_generation f = gn_id g) (config_files d') = config_rows sha (gn_id g) (bu_files b)"
    unfolding w(4) g(2) by (simp add: config_rows_def filter_id_conv case_prod_beta)
  have "distinct (map file_key (config_rows sha k (bu_files b)))"
    using w(5) assms(1) by (simp add: w(4) config_sound_def)
  moreover have "map file_key (config_rows sha k (bu_files b)) = map (Pair k) (map fst (sort_key fst (bu_files b)))"
    by (simp add: config_rows_def case_prod_beta)
  ultimately have "distinct (map fst (sort_key fst (bu_files b)))" by (metis distinct_map)
  then show "distinct (map fst (bu_files b))" by (simp add: distinct_map)
  show "lookup cc_repo repo_id (config_current d') = Some \<lparr>cc_repo = repo_id, cc_generation = gn_id g\<rparr>"
    using w(6) g(2) by simp
qed

lemma find_config_rows:
  "map_option cf_content (find (\<lambda>f. cf_generation f = k \<and> cf_path f = path) (map (\<lambda>(path, content).
     \<lparr>cf_generation = k, cf_path = path, cf_content = content, cf_digest = sha content\<rparr>) fs)) = map_of fs path"
  by (induction fs) auto

lemma find_filter: "(\<And>x. P x \<Longrightarrow> Q x) \<Longrightarrow> find P (filter Q xs) = find P xs"
  by (induction xs) auto

lemma map_of_sort_key: "distinct (map fst kvs) \<Longrightarrow> map_of (sort_key fst kvs) k = map_of kvs k"
proof -
  assume "distinct (map fst kvs)"
  then have "map_of (sort_key fst kvs) = map_of kvs"
    by (subst map_of_inject_set) (auto simp: distinct_map)
  then show ?thesis by simp
qed

lemma find_config_file:
  assumes "filter (\<lambda>f. cf_generation f = k) (config_files d) = config_rows sha k files" and "distinct (map fst files)"
  shows "map_option cf_content (find (\<lambda>f. cf_generation f = k \<and> cf_path f = path) (config_files d)) = map_of files path"
proof -
  have "find (\<lambda>f. cf_generation f = k \<and> cf_path f = path) (config_files d) =
      find (\<lambda>f. cf_generation f = k \<and> cf_path f = path) (config_rows sha k files)"
    unfolding assms(1) [symmetric] by (rule find_filter [symmetric]) simp
  then show ?thesis by (simp add: config_rows_def find_config_rows map_of_sort_key [OF assms(2)])
qed

lemma files_where_rows:
  assumes "filter (\<lambda>f. cf_generation f = k) (config_files d) = config_rows sha k files"
  shows "files_where d k p = filter (p \<circ> fst) (sort_key fst files)"
proof -
  have e: "map (\<lambda>f. (cf_path f, cf_content f)) (filter (\<lambda>f. p (cf_path f)) (config_rows sha k files)) =
      filter (p \<circ> fst) (sort_key fst files)"
    by (simp add: config_rows_def filter_map o_def case_prod_beta)
  have "filter (\<lambda>f. cf_generation f = k \<and> p (cf_path f)) (config_files d) = filter (\<lambda>f. p (cf_path f)) (config_rows sha k files)"
    unfolding assms [symmetric] by (simp add: conj_commute)
  moreover have "sorted (map cf_path (filter (\<lambda>f. p (cf_path f)) (config_rows sha k files)))"
    by (rule sorted_filter) (simp add: config_rows_def o_def case_prod_beta)
  ultimately show ?thesis using e by (simp add: files_where_def order_by_def sort_key_id_if_sorted)
qed

lemma parse_skill_metadata_name:
  "parse_skill_metadata yaml n content = Inr m \<Longrightarrow> sk_name m = n"
  unfolding parse_skill_metadata_def ok_simps by (auto split: option.splits if_splits)

lemma parse_skills_content:
  assumes "parse_skills yaml entries files = Inr ms" and "m \<in> set ms"
  shows "\<exists>c. map_of files (''skills/'' @ sk_name m @ ''/SKILL.md'') = Some c \<and> parse_skill_metadata yaml (sk_name m) c = Inr m"
proof -
  have "parse_skill_directories yaml files ns = Inr ms \<Longrightarrow> ?thesis" for ns
    using assms(2)
  proof (induction ns arbitrary: ms)
    case (Cons n ns)
    from Cons.prems(1) obtain c x xs where
      "map_of files (''skills/'' @ n @ ''/SKILL.md'') = Some c" "parse_skill_metadata yaml n c = Inr x"
      "parse_skill_directories yaml files ns = Inr xs" "ms = x # xs"
      unfolding parse_skill_directories.simps ok_simps by auto
    with Cons.IH [of xs] Cons.prems(2) parse_skill_metadata_name show ?case by auto
  qed simp
  with assms(1) show ?thesis unfolding parse_skills_def ok_simps by auto
qed

text \<open>
  C17. An installed generation answers for the bundle it was made from: it is the current one of its
  repository; the workflow loaded from its manifest is the validated workflow, digest included; its
  scripts are the validated ones; its files are the files of the bundle; and the text of every skill
  is the file its metadata was read from.
\<close>

theorem installed_bundle_is_served:
  assumes "reach config_empty config_step d" and "validate_repo_bundle sha yaml root = Inr b"
    and "install sha yaml root now repo_id d = (Inr g, d')"
  shows "current_generation d' repo_id = Inr (Some g)
    \<and> load_workflow sha d' repo_id (gn_id g) = Inr (bu_workflow b)
    \<and> script_specs d' repo_id (gn_id g) = Inr (bu_scripts b)
    \<and> generation_files d' repo_id (gn_id g) = Inr (sort_key fst (bu_files b))
    \<and> (\<forall>m \<in> set (bu_skills b). \<exists>c. read_skill d' repo_id (gn_id g) (sk_name m) = Inr c \<and>
         parse_skill_metadata yaml (sk_name m) c = Inr m)"
proof -
  note i = installed_generation [OF config.reach_inv [OF assms(1)] assms(2,3)] and v = validate_ok [OF assms(2)]
  have "load_workflow sha d' repo_id (gn_id g) = Inr (bu_workflow b)"
    using parse_accepted_again [OF v(6)]
    by (simp add: load_workflow_def i(1,2) v(8) manifest_parts collect_map [of _ name_of] collect_map [of _ server_tools]
        mcp_names_def)
  moreover have "script_specs d' repo_id (gn_id g) = Inr (bu_scripts b)"
    using collect_map [of "bu_scripts b" script_of script_doc "\<lambda>x. x"]
    by (simp add: script_specs_def i(1,2) v(8) manifest_parts script_of_script_doc)
  moreover have "\<exists>c. read_skill d' repo_id (gn_id g) (sk_name m) = Inr c \<and> parse_skill_metadata yaml (sk_name m) c = Inr m"
    if "m \<in> set (bu_skills b)" for m
  proof -
    from parse_skills_content [OF v(2) that] show ?thesis
      by (auto simp: read_skill_def config_file_def i(1) find_config_file [OF i(3,4)])
  qed
  ultimately show ?thesis using files_where_rows [OF i(3)]
    by (simp add: current_generation_def i(1,5) generation_files_def)
qed

section \<open>A generation never changes\<close>

lemma find_cong_filter: "filter Q xs = filter Q ys \<Longrightarrow> (\<And>x. P x \<Longrightarrow> Q x) \<Longrightarrow> find P xs = find P ys"
  by (metis find_filter)

lemma config_step_keeps:
  assumes "config_sound d" and "config_step d d'" and "config_generation d repo_id k = Inr g"
  shows "config_generation d' repo_id k = Inr g
    \<and> filter (\<lambda>f. cf_generation f = k) (config_files d') = filter (\<lambda>f. cf_generation f = k) (config_files d)"
  using assms(2)
proof cases
  case (step_install sha yaml root now r)
  then show ?thesis
  proof (cases rule: install_cases [of sha yaml root now r d])
    case (2 b k')
    with step_install have t: "install_transaction sha now r b d = Inr (k', d')" by simp
    note w = install_writes [OF t refl]
    from assms(3) have "k \<in> gn_id ` set (config_generations d)"
      by (auto simp: config_generation_def find_Some_iff split: option.split_asm)
    with w(1,2) have "k' \<noteq> k" by metis
    then have "filter (\<lambda>f. cf_generation f = k) (config_rows sha k' (bu_files b)) = []"
      by (auto simp: config_rows_def filter_empty_conv)
    with assms(3) show ?thesis unfolding w(4)
      by (simp add: config_generation_def w(3) find_append split: option.split_asm)
  qed (use assms(3) in simp)
next
  case step_other
  with assms(3) show ?thesis by (simp add: same_config_def config_generation_def)
qed

lemma config_steps_keep:
  assumes "config_step\<^sup>*\<^sup>* d d'" and "reach config_empty config_step d" and "config_generation d repo_id k = Inr g"
  shows "reach config_empty config_step d' \<and> config_generation d' repo_id k = Inr g
    \<and> filter (\<lambda>f. cf_generation f = k) (config_files d') = filter (\<lambda>f. cf_generation f = k) (config_files d)"
  using assms(1)
proof (induction rule: rtranclp_induct)
  case (step d1 d2)
  then have "config_sound d1" using config.reach_inv by blast
  from config_step_keeps [OF this step.hyps(2)] step show ?case by (metis reach_step)
qed (use assms in simp)

lemma files_where_kept:
  assumes "filter (\<lambda>f. cf_generation f = k) (config_files d') = filter (\<lambda>f. cf_generation f = k) (config_files d)"
  shows "files_where d' k p = files_where d k p"
proof -
  have "filter (\<lambda>f. cf_generation f = k \<and> p (cf_path f)) fs = filter (\<lambda>f. p (cf_path f)) (filter (\<lambda>f. cf_generation f = k) fs)" for fs :: "config_file_row list"
    by (simp add: conj_commute)
  then show ?thesis unfolding files_where_def using assms by metis
qed

text \<open>
  C22. Configuration is immutable: whatever is installed later, and whatever else the system does, a
  generation once installed keeps its workflow, skills, scripts, files and MCP servers; and the
  generations of a repository are numbered one after the other in the order of their installs.
\<close>

theorem generations_never_change:
  assumes "reach config_empty config_step d" and "config_step\<^sup>*\<^sup>* d d'" and "config_generation d repo_id k = Inr g"
  shows "config_generation d' repo_id k = Inr g
    \<and> load_workflow sha d' repo_id k = load_workflow sha d repo_id k
    \<and> script_specs d' repo_id k = script_specs d repo_id k
    \<and> read_skill d' repo_id k name = read_skill d repo_id k name
    \<and> generation_files d' repo_id k = generation_files d repo_id k
    \<and> script_files d' repo_id k spec = script_files d repo_id k spec
    \<and> capability_registry d' repo_id k = capability_registry d repo_id k
    \<and> map gn_number (generations_of d' repo_id) = [1..<Suc (length (generations_of d' repo_id))]"
proof -
  note k = config_steps_keep [OF assms(2,1,3)]
  have "find (\<lambda>f. cf_generation f = k \<and> cf_path f = path) (config_files d') =
      find (\<lambda>f. cf_generation f = k \<and> cf_path f = path) (config_files d)" for path
    using k by (auto intro: find_cong_filter)
  moreover have "config_sound d'" using k config.reach_inv by blast
  ultimately show ?thesis using k assms(3) files_where_kept [of k d' d]
    by (simp only: load_workflow_def script_specs_def read_skill_def config_file_def generation_files_def
        script_files_def capability_registry_def config_sound_def)
qed

section \<open>MCP servers\<close>

lemma update_fresh: "k \<notin> fst ` set kvs \<Longrightarrow> AList.update k v kvs = kvs @ [(k, v)]"
  by (induction kvs) auto

lemma dget_update: "dget (AList.update k v kvs) k' = (if k' = k then v else dget kvs k')"
  by (simp add: dget_def update_conv')

lemma update_nonempty [simp]: "AList.update k v kvs \<noteq> []"
  by (cases kvs) auto

definition secrets_confined :: "mcp_server \<Rightarrow> bool" where
  "secrets_confined s =
    ((mb_secret_env s \<noteq> [] \<longrightarrow> dget (mb_connection s) ''transport'' = DStr ''stdio'') \<and>
     (mb_secret_headers s \<noteq> [] \<longrightarrow>
        dget (mb_connection s) ''transport'' \<in> DStr ` set REMOTE_MCP_TRANSPORTS \<and>
        starts_with (str_of (dget (mb_connection s) ''url'')) ''https://''))"

lemma fixed_environment_ok:
  "fixed_environment label secret_env connection = Inr c \<Longrightarrow>
     (\<forall>k. k \<noteq> ''env'' \<longrightarrow> dget c k = dget connection k) \<and> (connection \<noteq> [] \<longrightarrow> c \<noteq> [])"
  unfolding fixed_environment_def by (auto simp: bindE_Inr_iff dget_update split: if_splits)

lemma server_headers_ok:
  "server_headers label item connection = Inr (c, secret) \<Longrightarrow>
     (\<forall>k. k \<noteq> ''headers'' \<longrightarrow> dget c k = dget connection k) \<and> (connection \<noteq> [] \<longrightarrow> c \<noteq> []) \<and>
     (secret \<noteq> [] \<longrightarrow> dget connection ''transport'' \<in> DStr ` set REMOTE_MCP_TRANSPORTS \<and>
        starts_with (str_of (dget connection ''url'')) ''https://'')"
  unfolding server_headers_def ok_simps by (auto simp: dget_update in_strings_True split: if_splits)

lemma parse_mcp_server_ok:
  assumes "parse_mcp_server k raw = Inr s"
  shows "mb_id s = k \<and> k \<noteq> [] \<and> mb_connection s \<noteq> [] \<and> mb_tools s \<noteq> [] \<and> [] \<notin> set (mb_tools s) \<and> secrets_confined s"
proof -
  from assms obtain item connection c1 c2 secret where
    k: "valid_id k" and n: "connection \<noteq> []" "elems (dget item ''tools'') \<noteq> []"
      "\<forall>d \<in> set (elems (dget item ''tools'')). valid_id_doc d"
    and t: "mb_secret_env s \<noteq> [] \<longrightarrow> dget connection ''transport'' = DStr ''stdio''"
    and c: "fixed_environment (''MCP server '' @ k) (mb_secret_env s) connection = Inr c1"
      "server_headers (''MCP server '' @ k) item c1 = Inr (c2, mb_secret_headers s)"
    and s: "mb_id s = k" "mb_connection s = c2" "mb_tools s = map str_of (elems (dget item ''tools''))"
    unfolding parse_mcp_server_def ok_simps by (auto simp: list_ex_iff)
  have "[] \<notin> set (mb_tools s)" using n(3) by (auto simp: s valid_id_doc_def valid_id_def)
  with k n t s fixed_environment_ok [OF c(1)] server_headers_ok [OF c(2)] valid_id_nonempty [OF k]
  show ?thesis by (auto simp: secrets_confined_def)
qed

lemma parse_mcp_servers_ok:
  "parse_mcp_servers kvs = Inr ss \<Longrightarrow> map mb_id ss = map fst kvs \<and>
     (\<forall>s \<in> set ss. mb_id s \<noteq> [] \<and> mb_connection s \<noteq> [] \<and> mb_tools s \<noteq> [] \<and> [] \<notin> set (mb_tools s) \<and> secrets_confined s)"
proof (induction kvs arbitrary: ss)
  case (Cons kv kvs)
  then obtain s us where u: "parse_mcp_server (fst kv) (snd kv) = Inr s" "parse_mcp_servers kvs = Inr us" "ss = s # us"
    by (cases kv) (auto simp: bindE_Inr_iff)
  with Cons.IH [OF u(2)] parse_mcp_server_ok [OF u(1)] show ?case by auto
qed simp

lemma unique_keys_item: "unique_keys_items kvs \<Longrightarrow> map_of kvs k = Some v \<Longrightarrow> unique_keys v"
  by (induction kvs) (auto split: if_splits)

lemma parse_mcp_ok:
  assumes "parse_mcp yaml files = Inr ss"
  shows "distinct (map mb_id ss) \<and>
    (\<forall>s \<in> set ss. mb_id s \<noteq> [] \<and> mb_connection s \<noteq> [] \<and> mb_tools s \<noteq> [] \<and> [] \<notin> set (mb_tools s) \<and> secrets_confined s)"
proof (cases "map_of files ''tools/mcp/servers.yaml''")
  case None
  with assms show ?thesis by (simp add: parse_mcp_def)
next
  case (Some content)
  with assms obtain root servers where r: "load_bundle_yaml yaml content ''MCP configuration'' = Inr root"
    and m: "mapping_of ''MCP servers'' (get_default root ''servers'' (DMap [])) = Inr servers"
    and p: "parse_mcp_servers (sort_key fst servers) = Inr ss"
    by (auto simp: parse_mcp_def ok_simps)
  from r have "unique_keys_items root"
    by (auto simp: load_bundle_yaml_def mapping_of_def elim: is_map.elims split: option.splits if_splits)
  moreover from m have "servers = [] \<or> map_of root ''servers'' = Some (DMap servers)"
    by (auto simp: mapping_of_def get_default_def elim: is_map.elims split: option.splits if_splits)
  ultimately have "distinct (map fst servers)" using unique_keys_item by fastforce
  with parse_mcp_servers_ok [OF p] show ?thesis by (simp add: distinct_map)
qed

definition spec_of :: "mcp_server \<Rightarrow> mcp_spec" where
  "spec_of s = \<lparr>sp_server = mb_id s, sp_connection = mb_connection s, sp_secret_env = mb_secret_env s,
     sp_secret_headers = mb_secret_headers s\<rparr>"

text \<open>The registry that holds a list of servers, all approved for one repository.\<close>

definition registry_of :: "int \<Rightarrow> mcp_server list \<Rightarrow> mcp_registry" where
  "registry_of repo_id ss = \<lparr>mr_servers = map (\<lambda>s. (mb_id s, spec_of s)) ss,
     mr_approved = (if ss = [] then [] else [(repo_id, map (\<lambda>s. (mb_id s, mb_tools s)) ss)])\<rparr>"

lemma register_item_mcp_doc:
  assumes "mb_id s \<noteq> []" "mb_connection s \<noteq> []" "mb_tools s \<noteq> []" "[] \<notin> set (mb_tools s)" "mb_id s \<notin> mb_id ` set ss"
  shows "register_item repo_id (mcp_doc s) (registry_of repo_id ss) = Inr (registry_of repo_id (ss @ [s]))"
proof -
  have f: "mb_id s \<notin> fst ` set (map (\<lambda>s. (mb_id s, spec_of s)) ss)" "mb_id s \<notin> fst ` set (map (\<lambda>s. (mb_id s, mb_tools s)) ss)"
    using assms(5) by auto
  show ?thesis using assms(1-4) update_fresh [OF f(1)] update_fresh [OF f(2)]
    by (cases "ss = []")
      (simp_all add: register_item_def mcp_doc_def key_of_def get_default_def register_server_def
        approve_tools_def registry_of_def approved_for_def spec_of_def update_conv' map_of_append)
qed

lemma register_items_mcp_docs:
  "distinct (map mb_id (us @ ss)) \<Longrightarrow>
   (\<forall>s \<in> set ss. mb_id s \<noteq> [] \<and> mb_connection s \<noteq> [] \<and> mb_tools s \<noteq> [] \<and> [] \<notin> set (mb_tools s)) \<Longrightarrow>
   register_items repo_id (map mcp_doc ss) (registry_of repo_id us) = Inr (registry_of repo_id (us @ ss))"
proof (induction ss arbitrary: us)
  case (Cons s ss)
  then have "register_item repo_id (mcp_doc s) (registry_of repo_id us) = Inr (registry_of repo_id (us @ [s]))"
    by (intro register_item_mcp_doc) auto
  with Cons.IH [of "us @ [s]"] Cons.prems show ?case by auto
qed simp

lemma installed_registry:
  assumes "config_sound d" and "validate_repo_bundle sha yaml root = Inr b"
    and "install sha yaml root now repo_id d = (Inr g, d')" and "bu_mcp b \<noteq> []"
  shows "capability_registry d' repo_id (gn_id g) = Inr (Some (registry_of repo_id (bu_mcp b)))"
proof -
  note i = installed_generation [OF assms(1-3)] and v = validate_ok [OF assms(2)]
  have e: "empty_registry = registry_of repo_id []" by (simp add: empty_registry_def registry_of_def)
  show ?thesis using register_items_mcp_docs [of "[]" "bu_mcp b" repo_id] parse_mcp_ok [OF v(4)] assms(4)
    by (simp add: capability_registry_def i(1,2) v(8) manifest_parts e)
qed

lemma registry_allows:
  assumes "distinct (map mb_id ss)"
  shows "is_allowed (registry_of repo_id ss) r server tool \<longleftrightarrow>
    r = repo_id \<and> (\<exists>s \<in> set ss. mb_id s = server \<and> tool \<in> set (mb_tools s))"
proof -
  have d: "distinct (map fst (map (\<lambda>s. (mb_id s, mb_tools s)) ss))" using assms by (simp add: o_def)
  note m = map_of_eq_Some_iff [OF d, of server]
  show ?thesis
  proof (cases "map_of (map (\<lambda>s. (mb_id s, mb_tools s)) ss) server")
    case None
    then have "\<not> (\<exists>s \<in> set ss. mb_id s = server)" by (auto simp: map_of_eq_None_iff image_image)
    with None show ?thesis by (auto simp: is_allowed_def approved_tools_def approved_for_def registry_of_def)
  next
    case (Some ts)
    then obtain s where s: "s \<in> set ss" "mb_id s = server" "ts = mb_tools s" using m by auto
    have "s' = s" if "s' \<in> set ss" "mb_id s' = server" for s'
      using unique_row [OF assms that(1) s(1)] that(2) s(2) by simp
    with s have "(\<exists>s \<in> set ss. mb_id s = server \<and> tool \<in> set (mb_tools s)) \<longleftrightarrow> tool \<in> set ts" by blast
    moreover have "ss \<noteq> []" using s(1) by auto
    ultimately show ?thesis using Some by (simp add: is_allowed_def approved_tools_def approved_for_def registry_of_def)
  qed
qed

text \<open>
  C24. The MCP tools of an installed generation are exactly the declared ones, for the repository the
  generation belongs to: a call is forwarded to a server only from a context of that repository and
  only for a declared tool of that server, and what is forwarded names the repository of the context,
  whatever the agent wrote, and none of the arguments that would choose a work tree or a tenant.
\<close>

theorem mcp_calls_stay_in_the_generation:
  assumes "reach config_empty config_step d" and "validate_repo_bundle sha yaml root = Inr b"
    and "install sha yaml root now repo_id d = (Inr g, d')" and "bu_mcp b \<noteq> []"
  shows "\<exists>r. capability_registry d' repo_id (gn_id g) = Inr (Some r)
    \<and> (\<forall>c server tool arguments. authorize_mcp r (Some c) server tool arguments =
         Rejected ''MCP call rejected: capability is not approved for this repository.''
       \<longleftrightarrow> \<not> (ac_repo_id c = repo_id \<and> (\<exists>s \<in> set (bu_mcp b). mb_id s = server \<and> tool \<in> set (mb_tools s))))
    \<and> (\<forall>context server tool arguments out. authorize_mcp r context server tool arguments = Forwarded out \<longrightarrow>
         (\<exists>c. context = Some c \<and> dget out ''repo_id'' = DInt repo_id \<and> dget out ''repo_full_name'' = DStr (ac_full_name c))
       \<and> set (map fst out) \<inter> {''workspace_root'', ''repo_path'', ''tenant''} = {})"
proof -
  let ?r = "registry_of repo_id (bu_mcp b)"
  have allow: "is_allowed ?r r server tool \<longleftrightarrow> r = repo_id \<and> (\<exists>s \<in> set (bu_mcp b). mb_id s = server \<and> tool \<in> set (mb_tools s))"
    for r server tool using registry_allows parse_mcp_ok [OF validate_ok(4) [OF assms(2)]] by blast
  have keep: "k \<notin> K \<Longrightarrow> dget (filter (\<lambda>(x, v). x \<notin> K) kvs) k = dget kvs k" for k kvs and K :: "string set"
    by (induction kvs) (auto simp: dget_def)
  have out: "(\<exists>c. ctx = Some c \<and> dget out ''repo_id'' = DInt repo_id \<and> dget out ''repo_full_name'' = DStr (ac_full_name c))
      \<and> set (map fst out) \<inter> {''workspace_root'', ''repo_path'', ''tenant''} = {}"
    if a: "authorize_mcp ?r ctx server tool arguments = Forwarded out" for ctx server tool arguments out
  proof -
    from a obtain c where c: "ctx = Some c" "is_allowed ?r (ac_repo_id c) server tool"
      and out: "out = filter (\<lambda>(k, v). k \<notin> {''workspace_root'', ''repo_path'', ''tenant''})
        (AList.update ''repo_full_name'' (DStr (ac_full_name c)) (AList.update ''repo_id'' (DInt (ac_repo_id c)) arguments))"
      by (auto simp: authorize_mcp_def split: option.split_asm if_split_asm)
    have "dget out ''repo_id'' = DInt (ac_repo_id c)" "dget out ''repo_full_name'' = DStr (ac_full_name c)"
      unfolding out by (subst keep; simp add: dget_update)+
    moreover have "set (map fst out) \<inter> {''workspace_root'', ''repo_path'', ''tenant''} = {}" unfolding out by auto
    moreover have "ac_repo_id c = repo_id" using c(2) unfolding allow by (rule conjunct1)
    ultimately show ?thesis using c(1) by simp
  qed
  have no: "authorize_mcp ?r (Some c) server tool arguments =
      Rejected ''MCP call rejected: capability is not approved for this repository.'' \<longleftrightarrow>
      \<not> (ac_repo_id c = repo_id \<and> (\<exists>s \<in> set (bu_mcp b). mb_id s = server \<and> tool \<in> set (mb_tools s)))"
    for c server tool arguments
    by (simp add: authorize_mcp_def allow)
  show ?thesis
  proof (intro exI [of _ ?r] conjI allI impI)
    show "capability_registry d' repo_id (gn_id g) = Inr (Some ?r)"
      by (rule installed_registry [OF config.reach_inv [OF assms(1)] assms(2-4)])
  next
    fix ctx server tool arguments out
    assume "authorize_mcp ?r ctx server tool arguments = Forwarded out"
    note o = out [OF this]
    from o show "\<exists>c. ctx = Some c \<and> dget out ''repo_id'' = DInt repo_id \<and> dget out ''repo_full_name'' = DStr (ac_full_name c)"
      by (rule conjunct1)
    from o show "set (map fst out) \<inter> {''workspace_root'', ''repo_path'', ''tenant''} = {}" by (rule conjunct2)
  qed (rule no)
qed

end
