(* ===== verification/Config_Example.thy ===== *)
theory Config_Example
  imports Config_Properties
begin

text \<open>
  The files a script tool gets, and a small bundle on which the properties of the configuration are
  applied: one skill, two scripts whose directories differ in one character, one MCP server.
\<close>

section \<open>The files of a script\<close>

lemma map_of_dict_of: "map_of (dict_of kvs) k = map_of (rev kvs) k"
proof -
  have "map_of (fold (\<lambda>(k, v). AList.update k v) kvs acc) k = map_of (rev kvs @ acc) k" for acc
    by (induction kvs arbitrary: acc) (auto simp: update_conv' map_add_def split: option.split)
  from this [of "[]"] show ?thesis by (simp add: dict_of_def)
qed

lemma like_rest: "like ''%'' s"
  by (induction s) auto

lemma like_prefix: "like (p @ ''%'') (p @ s)"
proof (induction p)
  case Nil
  show ?case unfolding append.simps by (rule like_rest)
qed auto

lemma map_of_drop:
  assumes "\<forall>(p, c) \<in> set kvs. starts_with p pre"
  shows "map_of (map (\<lambda>(p, c). (drop (length pre) p, c)) kvs) k = map_of kvs (pre @ k)"
  using assms by (induction kvs) (auto simp: starts_with_iff)

lemma map_of_filter_key: "P k \<Longrightarrow> map_of (filter (P \<circ> fst) kvs) k = map_of kvs k"
  by (induction kvs) auto

lemma parse_scripts_entrypoints:
  assumes "parse_scripts yaml entries files = Inr ss" and "s \<in> set ss"
  shows "map_of files (sc_directory s @ ''/'' @ sc_entrypoint s) \<noteq> None"
proof -
  have one: "map_of files (sc_directory x @ ''/'' @ sc_entrypoint x) \<noteq> None"
    if "parse_script yaml files names n = Inr x" for names n x
    using that unfolding parse_script_def ok_simps by (auto simp: check_entrypoint_def ok_simps)
  have "parse_script_directories yaml files names ns = Inr ss \<Longrightarrow> ?thesis" for names ns
    using assms(2)
  proof (induction ns arbitrary: names ss)
    case (Cons n ns)
    from Cons.prems(1) obtain x xs where "parse_script yaml files names n = Inr x"
      "parse_script_directories yaml files (sc_name x # names) ns = Inr xs" "ss = x # xs"
      by (auto simp: bindE_Inr_iff)
    with Cons.IH [of "sc_name x # names" xs] Cons.prems(2) one show ?case by auto
  qed simp
  moreover from assms have "\<exists>ns. parse_script_directories yaml files [] ns = Inr ss"
    unfolding parse_scripts_def by (auto split: if_splits)
  ultimately show ?thesis by blast
qed

text \<open>
  A script tool runs with the files of its own directory: when the \<open>LIKE\<close> pattern of its
  directory matches no other path of the bundle, the files handed to the executor are exactly the
  files below that directory, under their relative paths, and its entrypoint is among them.
\<close>

theorem script_gets_its_own_files:
  assumes "reach config_empty config_step d" and "validate_repo_bundle sha yaml root = Inr b"
    and "install sha yaml root now repo_id d = (Inr g, d')" and "spec \<in> set (bu_scripts b)"
    and "\<forall>(p, c) \<in> set (bu_files b). like (sc_directory spec @ ''/%'') p \<longrightarrow> starts_with p (sc_directory spec @ ''/'')"
  shows "\<exists>fs. script_files d' repo_id (gn_id g) spec = Inr fs
    \<and> (\<forall>k. map_of fs k = map_of (bu_files b) (sc_directory spec @ ''/'' @ k))
    \<and> map_of fs (sc_entrypoint spec) \<noteq> None"
proof -
  note i = installed_generation [OF config.reach_inv [OF assms(1)] assms(2,3)]
  let ?pre = "sc_directory spec @ ''/''" and ?all = "sort_key fst (bu_files b)"
  let ?own = "filter (like (?pre @ ''%'') \<circ> fst) ?all"
  have pre: "\<forall>(p, c) \<in> set ?own. starts_with p ?pre" using assms(5) by auto
  have m: "map_of (dict_of (map (\<lambda>(p, c). (drop (length ?pre) p, c)) ?own)) k = map_of (bu_files b) (?pre @ k)" for k
  proof -
    have "map_of (dict_of (map (\<lambda>(p, c). (drop (length ?pre) p, c)) ?own)) k = map_of (rev ?own) (?pre @ k)"
      unfolding map_of_dict_of rev_map by (rule map_of_drop) (use pre in auto)
    also have "\<dots> = map_of ?own (?pre @ k)"
      using i(4) by (intro map_of_rev_distinct) (simp add: distinct_map inj_on_def)
    also have "\<dots> = map_of ?all (?pre @ k)"
      by (rule map_of_filter_key) (rule like_prefix)
    also have "\<dots> = map_of (bu_files b) (?pre @ k)" by (rule map_of_sort_key [OF i(4)])
    finally show ?thesis .
  qed
  with parse_scripts_entrypoints [OF validate_ok(3) [OF assms(2)] assms(4)] show ?thesis
    by (simp add: script_files_def i(1) Let_def files_where_rows [OF i(3)])
qed

section \<open>A small bundle\<close>

definition demo_phase :: "string list \<Rightarrow> doc" where
  "demo_phase ts = DMap [(''skill'', DStr ''plan''), (''tools'', strs ts)]"

definition demo_script :: "string \<Rightarrow> string \<Rightarrow> doc" where
  "demo_script name effect = DMap [(''version'', DInt 1), (''name'', DStr name), (''description'', DStr ''d''),
     (''runtime'', DStr ''shell''), (''entrypoint'', DStr ''run''), (''args_schema'', DMap [(''type'', DStr ''object'')]),
     (''effect'', DStr effect)]"

definition demo_yaml :: yaml_reader where
  "demo_yaml s = map_of
     [(''W'', DMap [(''version'', DInt 1), (''workflow_id'', DStr ''w''), (''tasks'', DList [DMap
         [(''id'', DStr ''t''), (''depends_on'', DList []), (''planning'', demo_phase [''look'', ''m_ask'']),
          (''execution'', demo_phase [''fix'']), (''validation'', demo_phase [''ls''])]])]),
      (''L'', demo_script ''look'' ''read''), (''F'', demo_script ''fix'' ''mutate''),
      (''M'', DMap [(''version'', DInt 1), (''servers'', DMap [(''m'', DMap
         [(''connection'', DMap [(''transport'', DStr ''http''), (''url'', DStr ''https://x'')]),
          (''tools'', strs [''ask'']), (''secret_headers'', DMap [(''Auth'', DStr ''KEY'')])])])])] s"

definition demo_bundle_at :: "string \<Rightarrow> listing" where
  "demo_bundle_at looking =
     [(''skills'', Directory), (''skills/plan'', Directory), (''skills/plan/SKILL.md'', Regular 4 (Some ''Plan'')),
      (''tools'', Directory), (''tools/mcp'', Directory), (''tools/mcp/servers.yaml'', Regular 1 (Some ''M'')),
      (''tools/scripts'', Directory),
      (''tools/scripts/'' @ looking, Directory), (''tools/scripts/'' @ looking @ ''/run'', Regular 4 (Some ''read'')),
      (''tools/scripts/'' @ looking @ ''/tool.yaml'', Regular 1 (Some ''L'')),
      (''tools/scripts/fox'', Directory), (''tools/scripts/fox/run'', Regular 6 (Some ''change'')),
      (''tools/scripts/fox/tool.yaml'', Regular 1 (Some ''F'')),
      (''workflow.yaml'', Regular 1 (Some ''W''))]"

definition demo_bundle :: repo_bundle where
  "demo_bundle = projr (validate_repo_bundle example_sha demo_yaml (Some (demo_bundle_at ''eye'')))"

definition demo_installed :: "(err + generation_row) \<times> db" where
  "demo_installed = install example_sha demo_yaml (Some (demo_bundle_at ''eye'')) ''0'' 1 demo_0"

lemma demo_config_start: "reach config_empty config_step demo_0"
  by (rule reach_start) (simp add: config_empty_def demo_0_def)

lemma demo_validates:
  "validate_repo_bundle example_sha demo_yaml (Some (demo_bundle_at ''eye'')) = Inr demo_bundle"
proof -
  have "isl (validate_repo_bundle example_sha demo_yaml (Some (demo_bundle_at ''eye''))) = False" by code_simp
  then show ?thesis unfolding demo_bundle_def by (simp only: sum.collapse(2) not_False_eq_True)
qed

lemma demo_installs:
  "install example_sha demo_yaml (Some (demo_bundle_at ''eye'')) ''0'' 1 demo_0 = (Inr (projr (fst demo_installed)), snd demo_installed)"
proof -
  have "isl (fst demo_installed) = False" by code_simp
  then show ?thesis by (metis demo_installed_def prod.collapse sum.collapse(2))
qed

section \<open>The properties on the small bundle\<close>

abbreviation demo_generation :: generation_row where
  "demo_generation \<equiv> projr (fst demo_installed)"

abbreviation demo_spec :: script_tool where
  "demo_spec \<equiv> hd (bu_scripts demo_bundle)"

theorem reading_phases_name_no_mutating_script_witness:
  "set (ph_tools (ts_planning (hd (ws_tasks (bu_workflow demo_bundle))))) \<inter>
     with_effect ''mutate'' (effects_of (bu_scripts demo_bundle)) = {}"
proof -
  have "ws_tasks (bu_workflow demo_bundle) \<noteq> []" by code_simp
  from reading_phases_name_no_mutating_script [OF demo_validates hd_in_set [OF this]] show ?thesis by blast
qed

theorem installed_bundle_is_served_witness:
  "load_workflow example_sha (snd demo_installed) 1 (gn_id demo_generation) = Inr (bu_workflow demo_bundle)"
  using installed_bundle_is_served [OF demo_config_start demo_validates demo_installs] by blast

theorem generations_never_change_witness:
  "config_generation (snd (install (\<lambda>s. ''cd'') demo_yaml (Some (demo_bundle_at ''ear'')) ''1'' 1 (snd demo_installed))) 1
     (gn_id demo_generation) = Inr demo_generation"
proof -
  have "config_step demo_0 (snd demo_installed)"
    unfolding demo_installed_def by (rule step_install)
  from reach_step [OF demo_config_start this] have r: "reach config_empty config_step (snd demo_installed)" .
  have "config_generation (snd demo_installed) 1 (gn_id demo_generation) = Inr demo_generation" by code_simp
  from generations_never_change [OF r r_into_rtranclp [of config_step, OF step_install] this]
  show ?thesis by blast
qed

theorem mcp_calls_stay_in_the_generation_witness:
  "\<exists>r. capability_registry (snd demo_installed) 1 (gn_id demo_generation) = Inr (Some r) \<and>
     authorize_mcp r (Some \<lparr>ac_repo_id = 2, ac_full_name = ''o/x''\<rparr>) ''m'' ''ask'' [] =
       Rejected ''MCP call rejected: capability is not approved for this repository.''"
proof -
  have "bu_mcp demo_bundle \<noteq> []" by code_simp
  from mcp_calls_stay_in_the_generation [OF demo_config_start demo_validates demo_installs this] obtain r where
    "capability_registry (snd demo_installed) 1 (gn_id demo_generation) = Inr (Some r)" and
    "\<forall>c server tool arguments. authorize_mcp r (Some c) server tool arguments =
         Rejected ''MCP call rejected: capability is not approved for this repository.''
       \<longleftrightarrow> \<not> (ac_repo_id c = 1 \<and> (\<exists>s \<in> set (bu_mcp demo_bundle). mb_id s = server \<and> tool \<in> set (mb_tools s)))"
    by blast
  then show ?thesis by (intro exI [of _ r]) simp
qed

theorem script_gets_its_own_files_witness:
  "\<exists>fs. script_files (snd demo_installed) 1 (gn_id demo_generation) demo_spec = Inr fs \<and>
     map_of fs (sc_entrypoint demo_spec) \<noteq> None"
proof -
  have "bu_scripts demo_bundle \<noteq> []" by code_simp
  moreover have "\<forall>(p, c) \<in> set (bu_files demo_bundle).
      like (sc_directory demo_spec @ ''/%'') p \<longrightarrow> starts_with p (sc_directory demo_spec @ ''/'')" by code_simp
  ultimately show ?thesis
    using script_gets_its_own_files [OF demo_config_start demo_validates demo_installs hd_in_set] by blast
qed

text \<open>
  Without that condition a script gets the files of another: the underscore in the directory of the
  reading script \<open>look\<close> stands for any character of \<open>LIKE\<close>, and the entrypoint handed out for it is
  that of the mutating script in the directory \<open>fox\<close>, although the bundle was validated.
\<close>

definition underscore_bundle :: repo_bundle where
  "underscore_bundle = projr (validate_repo_bundle example_sha demo_yaml (Some (demo_bundle_at ''f_x'')))"

definition underscore_installed :: "(err + generation_row) \<times> db" where
  "underscore_installed = install example_sha demo_yaml (Some (demo_bundle_at ''f_x'')) ''0'' 1 demo_0"

theorem underscore_directory_gets_another_script:
  "isl (fst underscore_installed) = False \<and>
   (let spec = hd (bu_scripts underscore_bundle) in
     sc_name spec = ''look'' \<and> sc_effect spec = ''read'' \<and>
     map_of (bu_files underscore_bundle) (sc_directory spec @ ''/'' @ sc_entrypoint spec) = Some ''read'' \<and>
     map_option (\<lambda>fs. map_of fs (sc_entrypoint spec))
       (case script_files (snd underscore_installed) 1 (gn_id (projr (fst underscore_installed))) spec of
          Inl e \<Rightarrow> None | Inr fs \<Rightarrow> Some fs) = Some (Some ''change''))"
  by code_simp

end
