(* ===== verification/Tool_Runtime.thy ===== *)
theory Tool_Runtime
  imports Repo_Config
begin

text \<open>
  The operator's tools at run time: the encrypted credentials of a repository (\<open>repo_secrets.py\<close>), a
  call of a registered script (\<open>script_tools.py\<close>) and the connections of the approved MCP servers
  (\<open>capabilities.py\<close>). The cipher, the process that runs a command and the MCP client are arguments.
  Tracing is left out.
\<close>

section \<open>Credentials\<close>

record secret_row =
  sv_repo :: int
  sv_name :: string
  sv_cipher :: string

record secret_audit_row =
  sa_repo :: int
  sa_name :: "string option"
  sa_operation :: string
  sa_subject :: "string option"
  sa_count :: nat
  sa_at :: string

record vault =
  vt_secrets :: "secret_row list"
  vt_audit :: "secret_audit_row list"

record cipher =
  ci_encrypt :: "string \<Rightarrow> string"
  ci_decrypt :: "string \<Rightarrow> string option"

definition MIN_SECRET_CHARS :: nat where "MIN_SECRET_CHARS = 8"

definition secret_of :: "vault \<Rightarrow> int \<Rightarrow> string \<Rightarrow> secret_row option" where
  "secret_of v repo_id name = lookup (\<lambda>r. (sv_repo r, sv_name r)) (repo_id, name) (vt_secrets v)"

definition audit :: "int \<Rightarrow> string option \<Rightarrow> string \<Rightarrow> string option \<Rightarrow> nat \<Rightarrow> string \<Rightarrow> vault \<Rightarrow> vault" where
  "audit repo_id name operation subject count at v = v\<lparr>vt_audit := vt_audit v @
     [\<lparr>sa_repo = repo_id, sa_name = name, sa_operation = operation, sa_subject = subject, sa_count = count, sa_at = at\<rparr>]\<rparr>"

text \<open>The database \<open>d\<close> of the state is only read, for the repositories the rows refer to.\<close>

definition set_secret :: "cipher \<Rightarrow> db \<Rightarrow> int \<Rightarrow> string \<Rightarrow> string \<Rightarrow> string \<Rightarrow> (vault, unit) op" where
  "set_secret ci d repo_id name secret now v =
    (if \<not> valid_env_name name then raise (ValueError ''repository secret name is malformed'') v
     else if length secret < MIN_SECRET_CHARS
     then raise (ValueError ''repository secret values must contain at least 8 characters'') v
     else if \<not> has rp_id repo_id (repositories d) then raise (ValueError ''repository has not been observed'') v
     else let c = ci_encrypt ci secret;
              v1 = (case secret_of v repo_id name of
                 None \<Rightarrow> v\<lparr>vt_secrets := vt_secrets v @ [\<lparr>sv_repo = repo_id, sv_name = name, sv_cipher = c\<rparr>]\<rparr>
               | Some r \<Rightarrow> v\<lparr>vt_secrets := update_where (\<lambda>r. (sv_repo r, sv_name r) = (repo_id, name))
                   (\<lambda>r. r\<lparr>sv_cipher := c\<rparr>) (vt_secrets v)\<rparr>)
       in return () (audit repo_id (Some name) ''SET'' None 1 now v1))"

definition get_secret :: "cipher \<Rightarrow> vault \<Rightarrow> int \<Rightarrow> string \<Rightarrow> err + string option" where
  "get_secret ci v repo_id name =
    (if \<not> valid_env_name name then Inl (ValueError ''repository secret name is malformed'')
     else case secret_of v repo_id name of
       None \<Rightarrow> Inr None
     | Some r \<Rightarrow> (case ci_decrypt ci (sv_cipher r) of
         None \<Rightarrow> Inl (RuntimeError ''repository secret cannot be decrypted'')
       | Some s \<Rightarrow> Inr (Some s)))"

definition delete_secret :: "int \<Rightarrow> string \<Rightarrow> string \<Rightarrow> (vault, bool) op" where
  "delete_secret repo_id name now v =
    (if \<not> valid_env_name name then raise (ValueError ''repository secret name is malformed'') v
     else if secret_of v repo_id name = None then return False v
     else return True (audit repo_id (Some name) ''DELETE'' None 1 now
       (v\<lparr>vt_secrets := filter (\<lambda>r. (sv_repo r, sv_name r) \<noteq> (repo_id, name)) (vt_secrets v)\<rparr>)))"

definition list_secret_names :: "vault \<Rightarrow> int \<Rightarrow> string list" where
  "list_secret_names v repo_id = sort (map sv_name (filter (\<lambda>r. sv_repo r = repo_id) (vt_secrets v)))"

text \<open>The loop of \<open>resolve_env\<close>: the resolved environment and the names that are missing.\<close>

fun resolve_references ::
  "cipher \<Rightarrow> vault \<Rightarrow> int \<Rightarrow> (string \<times> string) list \<Rightarrow> err + (string \<times> string) list \<times> string list" where
  "resolve_references ci v repo_id [] = Inr ([], [])"
| "resolve_references ci v repo_id ((env_name, name) # rest) =
     bindE (get_secret ci v repo_id name) (\<lambda>s. bindE (resolve_references ci v repo_id rest) (\<lambda>(found, lacking).
       Inr (case s of None \<Rightarrow> (found, name # lacking) | Some x \<Rightarrow> ((env_name, x) # found, lacking))))"

definition resolve_env ::
  "cipher \<Rightarrow> db \<Rightarrow> int \<Rightarrow> (string \<times> string) list \<Rightarrow> string \<Rightarrow> string \<Rightarrow> (vault, (string \<times> string) list) op" where
  "resolve_env ci d repo_id references subject now v =
    (case resolve_references ci v repo_id references of
       Inl e \<Rightarrow> raise e v
     | Inr (found, lacking) \<Rightarrow>
       if \<not> has rp_id repo_id (repositories d) then raise (IntegrityError ''repo_secret_audit_v1'') v
       else let v1 = audit repo_id None (if lacking = [] then ''RESOLVE'' else ''RESOLVE_MISSING'') (Some subject)
                  (length found) now v in
       if lacking \<noteq> [] then raise (PermissionError (''Required repository credential is not configured: '' @
         join '', '' (sort lacking) @ ''. Use `sweforge secret set OWNER/REPO '' @ hd lacking @ ''`.'')) v1
       else return found v1)"

text \<open>The summary of the credentials a tool references: required and configured.\<close>

definition credential_status :: "vault \<Rightarrow> int \<Rightarrow> (string \<times> string) list \<Rightarrow> nat \<times> nat" where
  "credential_status v repo_id references = (let required = remdups (map snd references) in
     (length required, rowcount (\<lambda>r. sv_repo r = repo_id \<and> sv_name r \<in> set required) (vt_secrets v)))"

section \<open>Redaction\<close>

text \<open>\<open>str.replace\<close> with a text to replace that is not empty.\<close>

function str_replace :: "string \<Rightarrow> string \<Rightarrow> string \<Rightarrow> string" where
  "str_replace old new [] = []"
| "str_replace old new (c # cs) =
    (if old \<noteq> [] \<and> starts_with (c # cs) old then new @ str_replace old new (drop (length old) (c # cs))
     else c # str_replace old new cs)"
  by pat_completeness auto

termination by (relation "measure (\<lambda>(old, new, s). length s)") auto

definition REDACTED :: string where "REDACTED = ''[REDACTED]''"

fun redact_secret_values :: "string \<Rightarrow> string list \<Rightarrow> string" where
  "redact_secret_values rendered [] = rendered"
| "redact_secret_values rendered (s # ss) =
     redact_secret_values (if length s \<ge> MIN_SECRET_CHARS then str_replace s REDACTED rendered else rendered) ss"

section \<open>Calls of a script\<close>

fun value_ok :: "doc \<Rightarrow> string \<Rightarrow> bool" where
  "value_ok (DStr s) t = (t = ''string'')"
| "value_ok (DInt i) t = (t = ''integer'' \<or> t = ''number'')"
| "value_ok (DBool b) t = (t = ''boolean'')"
| "value_ok (DList xs) t = (t = ''array'')"
| "value_ok (DMap kvs) t = (t = ''object'')"
| "value_ok DNull t = False"

definition schema_properties :: "(string \<times> doc) list \<Rightarrow> (string \<times> doc) list" where
  "schema_properties schema = items (get_default schema ''properties'' (DMap []))"

definition schema_required :: "(string \<times> doc) list \<Rightarrow> string list" where
  "schema_required schema = map str_of (elems (get_default schema ''required'' (DList [])))"

definition property_type :: "(string \<times> doc) list \<Rightarrow> string \<Rightarrow> string" where
  "property_type schema name = str_of (dget (items (dget (schema_properties schema) name)) ''type'')"

definition validate_script_arguments ::
  "(string \<times> doc) list \<Rightarrow> (string \<times> doc) list \<Rightarrow> err + (string \<times> doc) list" where
  "validate_script_arguments arguments schema =
    (if list_ex (\<lambda>n. n \<notin> set (map fst arguments)) (schema_required schema)
     then Inl (ValueError ''script tool arguments are missing'')
     else if list_ex (\<lambda>(n, v). n \<notin> set (map fst (schema_properties schema))) arguments
     then Inl (ValueError ''script tool arguments are unknown'')
     else case find (\<lambda>(n, v). \<not> value_ok v (property_type schema n)) arguments of
       Some (n, v) \<Rightarrow> Inl (ValueError (''script tool argument '' @ n @ '' must be '' @ property_type schema n))
     | None \<Rightarrow> Inr arguments)"

definition MAX_SCRIPT_OUTPUT_CHARS :: int where "MAX_SCRIPT_OUTPUT_CHARS = 20000"

definition OUTPUT_MARKER :: string where
  "OUTPUT_MARKER = newline @ ''...[script output bounded]...'' @ newline"

definition bounded_output :: "string \<Rightarrow> string" where
  "bounded_output s =
    (if int (length s) \<le> MAX_SCRIPT_OUTPUT_CHARS then s
     else let available = nat (MAX_SCRIPT_OUTPUT_CHARS - int (length OUTPUT_MARKER)) in
       take (available div 2) s @ OUTPUT_MARKER @ drop (length s - (available - available div 2)) s)"

definition rstrip_text :: "string \<Rightarrow> string" where
  "rstrip_text s = rev (dropWhile is_space (rev s))"

text \<open>A relative path that leaves the directory it is joined to.\<close>

fun climbs :: "nat \<Rightarrow> string list \<Rightarrow> bool" where
  "climbs depth [] = False"
| "climbs depth (p # ps) =
    (if p = ''..'' then (case depth of 0 \<Rightarrow> True | Suc n \<Rightarrow> climbs n ps) else climbs (Suc depth) ps)"

definition escapes_stage :: "string \<Rightarrow> bool" where
  "escapes_stage path = (starts_with path ''/'' \<or> climbs 0 (posix_parts path))"

datatype run_result = Completed int string string | Timed_Out | Raised err

type_synonym 'w runner = "string list \<Rightarrow> string \<Rightarrow> (string \<times> string) list \<Rightarrow> int \<Rightarrow> 'w \<Rightarrow> run_result \<times> 'w"

text \<open>
  What an executor is bound to: \<open>os.environ\<close> and the interpreter, the staging directory it creates, the
  files of a script, the resolver of credentials, the sandbox's \<open>execute_tool\<close> and the local shell.
\<close>

record 'w script_executor =
  xe_path :: string
  xe_lang :: string
  xe_python :: string
  xe_stage :: string
  xe_files :: "script_tool \<Rightarrow> err + (string \<times> string) list"
  xe_secrets :: "(script_tool \<Rightarrow> ('w, (string \<times> string) list) op) option"
  xe_sandbox :: "'w runner option"
  xe_unsafe_local_shell :: bool
  xe_local :: "'w runner"

definition run_command :: "'w script_executor \<Rightarrow> 'w runner" where
  "run_command x command stdin env timeout w = (case xe_sandbox x of
     Some f \<Rightarrow> f command stdin env timeout w
   | None \<Rightarrow>
     if \<not> xe_unsafe_local_shell x
     then (Raised (RuntimeError ''sandbox provider does not support registered script tools''), w)
     else xe_local x command stdin env timeout w)"

text \<open>\<open>str(exc)\<close>\<close>

fun err_message :: "err \<Rightarrow> string" where
  "err_message (ValueError s) = s"
| "err_message (PermissionError s) = s"
| "err_message (RuntimeError s) = s"
| "err_message (IntegrityError s) = s"
| "err_message (KeyError s) = [CHR 0x27] @ s @ [CHR 0x27]"
| "err_message (TypeError s) = s"
| "err_message (WorkspaceError s) = s"
| "err_message (Other_Error c s) = s"

fun passes_through :: "err \<Rightarrow> bool" where
  "passes_through (PermissionError s) = True"
| "passes_through (Other_Error c s) = (c = ''TimeoutError'')"
| "passes_through e = False"

definition script_failure :: "string list \<Rightarrow> err \<Rightarrow> err" where
  "script_failure secrets e = (if passes_through e then e
     else RuntimeError (''registered script tool failed: '' @ redact_secret_values (err_message e) secrets))"

definition resolve_script_secrets :: "'w script_executor \<Rightarrow> script_tool \<Rightarrow> ('w, (string \<times> string) list) op" where
  "resolve_script_secrets x spec w =
    (if sc_secret_env spec = [] then return [] w
     else case xe_secrets x of
       None \<Rightarrow> raise (PermissionError ''required repository credential store is unavailable'') w
     | Some f \<Rightarrow> f spec w)"

definition updates_with :: "(string \<times> string) list \<Rightarrow> (string \<times> string) list \<Rightarrow> (string \<times> string) list" where
  "updates_with new old = fold (\<lambda>(k, v). AList.update k v) new old"

definition script_command :: "'w script_executor \<Rightarrow> script_tool \<Rightarrow> string list" where
  "script_command x spec = [if sc_runtime spec = ''python'' then xe_python x else ''/bin/sh'',
     xe_stage x @ ''/'' @ sc_entrypoint spec]"

definition script_output :: "string list \<Rightarrow> int \<Rightarrow> string \<Rightarrow> string \<Rightarrow> string" where
  "script_output secrets code out err =
    (let stdout = bounded_output (redact_secret_values out secrets); stderr = bounded_output (redact_secret_values err secrets);
         rendered = (if stderr = [] then stdout
           else stdout @ (if stdout = [] then [] else newline) @ ''stderr:'' @ newline @ stderr);
         rendered = (if code = 0 then rendered
           else ''Script tool failed with exit code '' @ show_int code @ ''.'' @ newline @ rendered)
     in bounded_output (rstrip_text rendered))"

text \<open>What a call checks before anything is run: its arguments, the entrypoint and the staged paths.\<close>

definition checked_call :: "'w script_executor \<Rightarrow> script_tool \<Rightarrow> (string \<times> doc) list \<Rightarrow> err + (string \<times> doc) list" where
  "checked_call x spec arguments =
     bindE (validate_script_arguments arguments (sc_args_schema spec)) (\<lambda>checked.
     bindE (xe_files x spec) (\<lambda>files.
     if map_of files (sc_entrypoint spec) = None
     then Inl (PermissionError ''bound script entrypoint is unavailable'')
     else if list_ex (\<lambda>(p, c). escapes_stage p) files
     then Inl (PermissionError ''installed script path escaped staging'')
     else Inr checked))"

definition invoke_script :: "'w script_executor \<Rightarrow> script_tool \<Rightarrow> (string \<times> doc) list \<Rightarrow> ('w, string) op" where
  "invoke_script x spec arguments w =
    (case checked_call x spec arguments of
       Inl e \<Rightarrow> raise e w
     | Inr checked \<Rightarrow> (case resolve_script_secrets x spec w of
         (Inl e, w1) \<Rightarrow> raise (script_failure [] e) w1
       | (Inr resolved, w1) \<Rightarrow>
         let secrets = map snd resolved;
             env = updates_with resolved (updates_with (sc_env spec) [(''PATH'', xe_path x), (''LANG'', xe_lang x)]);
             stdin = dumps_compact (DMap checked) in
         (case run_command x (script_command x spec) stdin env (sc_timeout spec) w1 of
            (Raised e, w2) \<Rightarrow> raise (script_failure secrets e) w2
          | (Timed_Out, w2) \<Rightarrow> raise (Other_Error ''TimeoutError'' (''script tool exceeded '' @
              show_int (sc_timeout spec) @ '' second timeout'')) w2
          | (Completed code out err, w2) \<Rightarrow> return (script_output secrets code out err) w2)))"

section \<open>Connections of MCP servers\<close>

text \<open>
  A connection as the client gets it, whether it follows no redirects, and the values to redact. A
  store that is \<open>None\<close> is a missing credential store.
\<close>

record mcp_connection =
  co_settings :: "(string \<times> doc) list"
  co_no_redirects :: bool
  co_values :: "string list"

type_synonym 'w resolver = "(string \<times> string) list \<Rightarrow> string \<Rightarrow> ('w, (string \<times> string) list) op"

definition resolve_mcp_secrets :: "'w resolver option \<Rightarrow> string \<Rightarrow> (string \<times> string) list \<Rightarrow> ('w, (string \<times> string) list) op" where
  "resolve_mcp_secrets resolver server references w =
    (if references = [] then return [] w
     else case resolver of
       None \<Rightarrow> raise (PermissionError ''required repository credential store is unavailable'') w
     | Some f \<Rightarrow> f references (''mcp:'' @ server) w)"

text \<open>
  \<open>dict(connection.get(key, {}))\<close>: an empty string or list gives an empty mapping, nothing else that is
  not a mapping is taken.
\<close>

definition dict_at :: "(string \<times> doc) list \<Rightarrow> string \<Rightarrow> err + (string \<times> string) list" where
  "dict_at kvs k = (case map_of kvs k of
     None \<Rightarrow> Inr []
   | Some v \<Rightarrow> if is_map v then Inr (strings_of v) else if v = DStr [] \<or> v = DList [] then Inr []
     else Inl (TypeError ''not a mapping''))"

definition connect_server ::
  "string \<Rightarrow> string \<Rightarrow> 'w resolver option \<Rightarrow> mcp_spec \<Rightarrow> ('w, mcp_connection) op" where
  "connect_server path lang resolver s w =
    (let connection = sp_connection s; transport = dget connection ''transport'' in
     if transport = DStr ''stdio''
     then (case dict_at connection ''env'' of
       Inl e \<Rightarrow> raise e w
     | Inr fixed \<Rightarrow> and_then (resolve_mcp_secrets resolver (sp_server s) (sp_secret_env s) w) (\<lambda>resolved.
         return \<lparr>co_settings = AList.update ''env'' (string_doc (updates_with resolved
             (updates_with fixed [(''PATH'', path), (''LANG'', lang)]))) connection,
           co_no_redirects = False, co_values = map snd resolved\<rparr>))
     else case in_strings transport REMOTE_MCP_TRANSPORTS of
       Inl e \<Rightarrow> raise e w
     | Inr False \<Rightarrow> return \<lparr>co_settings = connection, co_no_redirects = False, co_values = []\<rparr> w
     | Inr True \<Rightarrow> and_then (resolve_mcp_secrets resolver (sp_server s) (sp_secret_headers s) w) (\<lambda>resolved w1.
         case dict_at connection ''headers'' of
           Inl e \<Rightarrow> raise e w1
         | Inr fixed \<Rightarrow> return \<lparr>co_settings = AList.update ''headers'' (string_doc (updates_with resolved fixed)) connection,
             co_no_redirects = (resolved \<noteq> []), co_values = map snd resolved\<rparr> w1))"

fun connect_servers ::
  "string \<Rightarrow> string \<Rightarrow> 'w resolver option \<Rightarrow> (string \<times> mcp_spec) list \<Rightarrow> ('w, (string \<times> mcp_connection) list) op" where
  "connect_servers path lang resolver [] w = return [] w"
| "connect_servers path lang resolver ((server, s) # rest) w =
     and_then (connect_server path lang resolver s w) (\<lambda>c w1.
     and_then (connect_servers path lang resolver rest w1) (\<lambda>cs w2. return ((server, c) # cs) w2))"

text \<open>The tools the client reports are kept when they carry the server's prefix and are approved.\<close>

definition offered_mcp_tools :: "mcp_registry \<Rightarrow> int \<Rightarrow> string \<Rightarrow> string list \<Rightarrow> string list" where
  "offered_mcp_tools r repo_id server reported =
     filter (\<lambda>n. starts_with n (server @ ''_'') \<and> drop (length server + 1) n \<in> set (approved_tools r repo_id server)) reported"

definition load_repo_mcp_tools ::
  "string \<Rightarrow> string \<Rightarrow> 'w resolver option \<Rightarrow> mcp_registry \<Rightarrow> int
     \<Rightarrow> ((string \<times> mcp_connection) list \<Rightarrow> string \<Rightarrow> 'w \<Rightarrow> (err + string list) \<times> 'w) \<Rightarrow> ('w, string list) op" where
  "load_repo_mcp_tools path lang resolver r repo_id get_tools w =
    (case approved_servers r repo_id of
       Inl e \<Rightarrow> raise e w
     | Inr servers \<Rightarrow> and_then (connect_servers path lang resolver servers w) (\<lambda>cs w1.
         let secrets = concat (map (co_values \<circ> snd) cs) in
         (case fold (\<lambda>(server, s) acc. and_then acc (\<lambda>tools w. and_then (get_tools cs server w)
               (\<lambda>reported w. return (tools @ offered_mcp_tools r repo_id server reported) w))) servers (return [] w1) of
            (Inl e, w2) \<Rightarrow> raise (RuntimeError (''repository MCP client failed: '' @ redact_secret_values (err_message e) secrets)) w2
          | (Inr tools, w2) \<Rightarrow> return tools w2)))"

end
