(* ===== verification/Tool_Properties.thy ===== *)
theory Tool_Properties
  imports Tool_Runtime Config_Properties
begin

text \<open>
  What the runtime of the operator's tools keeps: a script is called only as its schema declares,
  credentials are those of the repository and do not come back in a result, and an MCP server gets
  them only over a connection the bundle was validated for.
\<close>

section \<open>Occurrences in a text\<close>

lemma starts_with_append_char:
  "starts_with (a @ x # b) p \<Longrightarrow> x \<notin> set p \<Longrightarrow> starts_with a p"
  by (induction a p rule: starts_with.induct) auto

text \<open>A character that does not occur in \<open>p\<close> separates its occurrences.\<close>

lemma infix_split: "has_infix p (a @ x # b) \<Longrightarrow> x \<notin> set p \<Longrightarrow> has_infix p a \<or> has_infix p b"
proof (induction a)
  case Nil
  then show ?case by (cases p) auto
next
  case (Cons c a)
  then show ?case using starts_with_append_char [of "c # a" x b p] by auto
qed

lemma starts_with_length: "starts_with s p \<Longrightarrow> length p \<le> length s"
  by (auto simp: starts_with_iff)

lemma infix_length: "has_infix p s \<Longrightarrow> length p \<le> length s"
  by (induction s) (auto dest: starts_with_length)

lemma infix_whole: "has_infix p s \<Longrightarrow> length s \<le> length p \<Longrightarrow> p = s"
proof (induction s)
  case (Cons c s)
  then have "\<not> has_infix p s" using infix_length by fastforce
  with Cons.prems obtain t where "c # s = p @ t" by (auto simp: starts_with_iff)
  moreover from this have "length (c # s) = length p + length t" by simp
  ultimately show ?case using Cons.prems(2) by simp
qed simp

lemma infix_append1: "has_infix p a \<Longrightarrow> has_infix p (a @ b)"
proof (induction a)
  case Nil
  then show ?case by (cases b) auto
next
  case (Cons c a)
  show ?case
  proof (cases "has_infix p a")
    case False
    with Cons.prems obtain t where "c # a = p @ t" by (auto simp: starts_with_iff)
    then have "(c # a) @ b = p @ t @ b" by simp
    then have "starts_with ((c # a) @ b) p" by (metis starts_with_append)
    then show ?thesis by simp
  qed (use Cons.IH in simp)
qed

lemma infix_append2: "has_infix p b \<Longrightarrow> has_infix p (a @ b)"
  by (induction a) auto

lemma infix_take: "has_infix p (take n s) \<Longrightarrow> has_infix p s"
  by (metis append_take_drop_id infix_append1)

lemma infix_drop: "has_infix p (drop n s) \<Longrightarrow> has_infix p s"
  by (metis append_take_drop_id infix_append2)

section \<open>Redaction\<close>

text \<open>
  A credential as providers issue them: no white space, no brackets, at least the length the store
  demands, and not the word of the marker.
\<close>

definition token :: "string \<Rightarrow> bool" where
  "token p = (MIN_SECRET_CHARS \<le> length p \<and> p \<noteq> ''REDACTED'' \<and>
     list_all (\<lambda>c. \<not> is_space c \<and> c \<noteq> CHR ''['' \<and> c \<noteq> CHR '']'') p)"

lemma token_chars:
  "token p \<Longrightarrow> CHR ''['' \<notin> set p \<and> CHR '']'' \<notin> set p \<and> CHR '' '' \<notin> set p \<and> CHR 0x0A \<notin> set p"
proof -
  have "is_space CHR '' ''" "is_space CHR 0x0A" by code_simp+
  moreover assume "token p"
  ultimately show ?thesis unfolding token_def list_all_iff by metis
qed

lemma token_length: "token p \<Longrightarrow> has_infix p s \<Longrightarrow> 8 \<le> length s"
  using infix_length by (fastforce simp: token_def MIN_SECRET_CHARS_def)

lemma token_nonempty: "token p \<Longrightarrow> p \<noteq> []"
  by (auto simp: token_def MIN_SECRET_CHARS_def)

lemma replaced_prefix:
  "starts_with (str_replace old REDACTED s) p \<Longrightarrow> CHR ''['' \<notin> set p \<Longrightarrow> starts_with s p"
proof (induction old REDACTED s arbitrary: p rule: str_replace.induct)
  case (2 old c cs)
  then show ?case by (cases p) (auto simp: REDACTED_def split: if_splits)
qed (auto elim: starts_with.elims)

lemma replaced_prefix_other:
  "old \<noteq> [] \<Longrightarrow> CHR ''['' \<notin> set old \<Longrightarrow> \<not> starts_with (str_replace old REDACTED s) old"
proof
  assume o: "old \<noteq> []" "CHR ''['' \<notin> set old" and r: "starts_with (str_replace old REDACTED s) old"
  from replaced_prefix [OF r o(2)] have "starts_with s old" .
  with o r show False by (cases s; cases old) (auto simp: REDACTED_def)
qed

lemma redacted_split: "token p \<Longrightarrow> has_infix p (REDACTED @ r) \<Longrightarrow> has_infix p r"
proof -
  assume t: "token p" and h: "has_infix p (REDACTED @ r)"
  from h have "has_infix p ([] @ CHR ''['' # ''REDACTED'' @ CHR '']'' # r)" by (simp add: REDACTED_def)
  then have "has_infix p [] \<or> has_infix p (''REDACTED'' @ CHR '']'' # r)" using infix_split token_chars [OF t] by blast
  then have "has_infix p (''REDACTED'' @ CHR '']'' # r)" using token_nonempty [OF t] by auto
  then have "has_infix p ''REDACTED'' \<or> has_infix p r" using infix_split token_chars [OF t] by blast
  moreover have "\<not> has_infix p ''REDACTED''"
    using infix_whole [of p "''REDACTED''"] t by (auto simp: token_def MIN_SECRET_CHARS_def simp del: has_infix.simps)
  ultimately show ?thesis by blast
qed

lemma replaced_infix:
  "has_infix p (str_replace old REDACTED s) \<Longrightarrow> token p \<Longrightarrow> has_infix p s \<and> p \<noteq> old"
proof (induction old REDACTED s rule: str_replace.induct)
  case (1 old)
  then show ?case using token_nonempty by auto
next
  case (2 old c cs)
  show ?case
  proof (cases "old \<noteq> [] \<and> starts_with (c # cs) old")
    case True
    with 2(3) have "has_infix p (REDACTED @ str_replace old REDACTED (drop (length old) (c # cs)))" by simp
    from 2(1) [OF True redacted_split [OF 2(4) this] 2(4)] show ?thesis using infix_drop by blast
  next
    case False
    then have "str_replace old REDACTED (c # cs) = c # str_replace old REDACTED cs" by (simp only: str_replace.simps if_False)
    with 2(3) have "starts_with (str_replace old REDACTED (c # cs)) p \<or> has_infix p (str_replace old REDACTED cs)"
      by (simp only: has_infix.simps)
    then show ?thesis
    proof
      assume s: "starts_with (str_replace old REDACTED (c # cs)) p"
      have "p \<noteq> old" using s replaced_prefix_other token_nonempty token_chars 2(4) by blast
      with replaced_prefix [OF s] token_chars [OF 2(4)] show ?thesis by simp
    next
      assume "has_infix p (str_replace old REDACTED cs)"
      with 2(2) [OF False this 2(4)] show ?thesis by simp
    qed
  qed
qed

lemma redaction_adds_nothing: "has_infix p (redact_secret_values s ss) \<Longrightarrow> token p \<Longrightarrow> has_infix p s"
  by (induction s ss rule: redact_secret_values.induct) (auto split: if_splits dest: replaced_infix)

lemma redacted_secret: "token p \<Longrightarrow> p \<in> set ss \<Longrightarrow> \<not> has_infix p (redact_secret_values s ss)"
proof (induction ss arbitrary: s)
  case (Cons x ss)
  show ?case
  proof (cases "x = p")
    case True
    with Cons.prems(1) have "redact_secret_values s (x # ss) = redact_secret_values (str_replace p REDACTED s) ss"
      by (simp add: token_def)
    with redaction_adds_nothing [OF _ Cons.prems(1)] replaced_infix [OF _ Cons.prems(1)] show ?thesis by metis
  next
    case False
    with Cons show ?thesis by simp
  qed
qed simp

section \<open>What a script call returns\<close>

lemma token_splits:
  assumes "token p"
  shows "has_infix p (a @ CHR 0x0A # b) \<Longrightarrow> has_infix p a \<or> has_infix p b"
    and "has_infix p (a @ CHR '' '' # b) \<Longrightarrow> has_infix p a \<or> has_infix p b"
    and "has_infix p (a @ CHR ''['' # b) \<Longrightarrow> has_infix p a \<or> has_infix p b"
    and "has_infix p (a @ CHR '']'' # b) \<Longrightarrow> has_infix p a \<or> has_infix p b"
  using infix_split token_chars [OF assms] by blast+

lemma token_not_short: "token p \<Longrightarrow> length s < 8 \<Longrightarrow> \<not> has_infix p s"
  using token_length by fastforce

lemma words_clean: "token p \<Longrightarrow> \<forall>w \<in> set ws. length w < 8 \<Longrightarrow> \<not> has_infix p (join '' '' ws)"
proof (induction "'' ''" ws rule: join.induct)
  case 1
  then show ?case using token_nonempty by auto
next
  case (2 s)
  then show ?case using token_not_short by simp
next
  case (3 s t ts)
  have e: "join '' '' (s # t # ts) = s @ CHR '' '' # join '' '' (t # ts)" by simp
  from 3 show ?case unfolding e using token_splits(2) [OF 3(2)] token_not_short [OF 3(2)] by fastforce
qed

lemma token_not_in_marker: "token p \<Longrightarrow> \<not> has_infix p ''...[script output bounded]...''"
proof
  assume t: "token p" and "has_infix p ''...[script output bounded]...''"
  then have "has_infix p (''...'' @ CHR ''['' # join '' '' [''script'', ''output'', ''bounded''] @ CHR '']'' # ''...'')" by simp
  from token_splits(3) [OF t this] token_splits(4) [OF t] words_clean [OF t, of "[''script'', ''output'', ''bounded'']"]
  show False using token_not_short [OF t, of "''...''"] by (simp del: has_infix.simps join.simps) blast
qed

lemma bounded_output_infix: "token p \<Longrightarrow> has_infix p (bounded_output s) \<Longrightarrow> has_infix p s"
proof (rule ccontr)
  assume t: "token p" and b: "has_infix p (bounded_output s)" and n: "\<not> has_infix p s"
  then obtain i j where "has_infix p (take i s @ OUTPUT_MARKER @ drop j s)"
    by (auto simp: bounded_output_def Let_def split: if_splits)
  then have "has_infix p (take i s @ CHR 0x0A # (''...[script output bounded]...'' @ CHR 0x0A # drop j s))"
    by (simp add: OUTPUT_MARKER_def newline_def)
  from token_splits(1) [OF t this] infix_take n
  have "has_infix p (''...[script output bounded]...'' @ CHR 0x0A # drop j s)" by blast
  from token_splits(1) [OF t this] infix_drop n token_not_in_marker [OF t] show False by blast
qed

lemma rstrip_infix: "has_infix p (rstrip_text s) \<Longrightarrow> has_infix p s"
proof -
  have "s = rstrip_text s @ rev (takeWhile is_space (rev s))"
    by (metis rstrip_text_def rev_append rev_rev_ident takeWhile_dropWhile_id)
  then show "has_infix p (rstrip_text s) \<Longrightarrow> has_infix p s" by (metis infix_append1)
qed

lemma show_nat_short: "n < 1000 \<Longrightarrow> length (show_nat n) \<le> 3"
proof -
  assume n: "n < 1000"
  have one: "m < 10 \<Longrightarrow> length (show_nat m) = 1" for m by (simp add: show_nat.simps)
  have two: "m < 100 \<Longrightarrow> length (show_nat m) \<le> 2" for m using one [of "m div 10"] one [of m]
    by (subst show_nat.simps) auto
  show ?thesis using n two [of "n div 10"] by (subst show_nat.simps) auto
qed

lemma show_int_short:
  assumes "\<bar>i\<bar> < 1000"
  shows "length (show_int i) \<le> 4"
proof -
  from assms have "nat i < 1000" "nat (- i) < 1000" by auto
  from show_nat_short [OF this(1)] show_nat_short [OF this(2)] show ?thesis by (simp add: show_int_def)
qed

text \<open>Standard output and error, each clean, put together.\<close>

definition script_body :: "string \<Rightarrow> string \<Rightarrow> string" where
  "script_body stdout stderr = (if stderr = [] then stdout
    else stdout @ (if stdout = [] then [] else newline) @ ''stderr:'' @ newline @ stderr)"

lemma script_body_clean:
  assumes t: "token p" and c: "\<not> has_infix p stdout" "\<not> has_infix p stderr"
  shows "\<not> has_infix p (script_body stdout stderr)"
proof
  assume b: "has_infix p (script_body stdout stderr)"
  have tail: "\<not> has_infix p (''stderr:'' @ CHR 0x0A # stderr)"
    using token_splits(1) [OF t, of "''stderr:''" stderr] c(2) token_not_short [OF t, of "''stderr:''"]
    by (simp del: has_infix.simps) blast
  then have "\<not> has_infix p (stdout @ CHR 0x0A # (''stderr:'' @ CHR 0x0A # stderr))"
    using token_splits(1) [OF t] c(1) by blast
  with b tail c(1) show False
    by (simp add: script_body_def newline_def del: has_infix.simps split: if_split_asm)
qed

lemma exit_code_clean:
  assumes t: "token p" and c: "\<bar>code\<bar> < 1000" and b: "\<not> has_infix p body"
  shows "\<not> has_infix p (''Script tool failed with exit code '' @ show_int code @ ''.'' @ newline @ body)"
proof
  let ?ws = "[''Script'', ''tool'', ''failed'', ''with'', ''exit'', ''code'', show_int code @ ''.'']"
  assume "has_infix p (''Script tool failed with exit code '' @ show_int code @ ''.'' @ newline @ body)"
  then have "has_infix p (join '' '' ?ws @ CHR 0x0A # body)" by (simp add: newline_def del: has_infix.simps)
  from token_splits(1) [OF t this] b have "has_infix p (join '' '' ?ws)" by blast
  moreover have "\<forall>w \<in> set ?ws. length w < 8" using show_int_short [OF c] by auto
  ultimately show False using words_clean [OF t] by blast
qed

lemma script_output_clean:
  assumes t: "token p" and p: "p \<in> set secrets" and c: "\<bar>code\<bar> < 1000"
  shows "\<not> has_infix p (script_output secrets code out err)"
proof
  let ?stdout = "bounded_output (redact_secret_values out secrets)" and ?stderr = "bounded_output (redact_secret_values err secrets)"
  have body: "\<not> has_infix p (script_body ?stdout ?stderr)"
    using bounded_output_infix [OF t] redacted_secret [OF t p] by (intro script_body_clean [OF t]) blast+
  assume "has_infix p (script_output secrets code out err)"
  then have "has_infix p (if code = 0 then script_body ?stdout ?stderr
      else ''Script tool failed with exit code '' @ show_int code @ ''.'' @ newline @ script_body ?stdout ?stderr)"
    unfolding script_output_def Let_def script_body_def [symmetric] using bounded_output_infix [OF t] rstrip_infix by blast
  with body exit_code_clean [OF t c body] show False by (simp split: if_split_asm del: has_infix.simps)
qed

lemma checked_call_error:
  "checked_call x spec arguments = Inl e \<Longrightarrow> xe_files x spec = Inr files \<Longrightarrow> \<forall>m. e \<noteq> RuntimeError m"
  by (auto simp: checked_call_def bindE_Inl_iff validate_script_arguments_def split: if_splits option.splits)

text \<open>
  C16. No credential comes back from a script: whatever the process prints, and however its output is
  cut to the bound and put together, a credential handed to it (a token without white space or
  brackets) occurs neither in the text the agent gets nor in the text of a failure the call wraps.
\<close>

theorem script_output_hides_credentials:
  assumes "invoke_script x spec arguments w = (r, w')" and "xe_files x spec = Inr files"
    and "resolve_script_secrets x spec w = (Inr resolved, w1)" and "p \<in> snd ` set resolved" and "token p"
    and "\<forall>command stdin env timeout u code out err u'.
      run_command x command stdin env timeout u = (Completed code out err, u') \<longrightarrow> \<bar>code\<bar> < 1000"
  shows "(\<forall>t. r = Inr t \<longrightarrow> \<not> has_infix p t) \<and>
    (\<forall>m. r = Inl (RuntimeError m) \<longrightarrow> (\<exists>t. m = ''registered script tool failed: '' @ t \<and> \<not> has_infix p t))"
proof (cases "checked_call x spec arguments")
  case (Inl e)
  with checked_call_error [OF this assms(2)] assms(1) show ?thesis by (auto simp: invoke_script_def)
next
  case (Inr checked)
  let ?secrets = "map snd resolved"
  have p: "p \<in> set ?secrets" using assms(4) by simp
  obtain q w2 command stdin env timeout where run: "run_command x command stdin env timeout w1 = (q, w2)"
    and r: "r = (case q of Raised e \<Rightarrow> Inl (script_failure ?secrets e)
      | Timed_Out \<Rightarrow> Inl (Other_Error ''TimeoutError'' (''script tool exceeded '' @ show_int (sc_timeout spec) @ '' second timeout''))
      | Completed code out err \<Rightarrow> Inr (script_output ?secrets code out err))"
    using assms(1,3) Inr by (auto simp: invoke_script_def Let_def split: prod.splits run_result.splits)
  show ?thesis
  proof (cases q)
    case (Completed code out err)
    with assms(6) run have "\<bar>code\<bar> < 1000" by blast
    with script_output_clean [OF assms(5) p] r Completed show ?thesis by simp
  next
    case (Raised e)
    with r redacted_secret [OF assms(5) p] show ?thesis
      by (cases e) (simp_all add: script_failure_def del: has_infix.simps)
  qed (use r in simp)
qed

text \<open>
  C25. A script is run, and a credential looked up for it, only on a call its schema admits: whenever a
  call leaves any effect behind, its arguments are exactly of the declared names and types, the
  required ones among them, the bound entrypoint is among the files of the script, and none of these
  files leaves the staging directory.
\<close>

theorem script_runs_only_as_declared:
  assumes "invoke_script x spec arguments w = (r, w')" and "w' \<noteq> w"
  shows "set (schema_required (sc_args_schema spec)) \<subseteq> set (map fst arguments)
    \<and> set (map fst arguments) \<subseteq> set (map fst (schema_properties (sc_args_schema spec)))
    \<and> (\<forall>(n, v) \<in> set arguments. value_ok v (property_type (sc_args_schema spec) n))
    \<and> (\<exists>files. xe_files x spec = Inr files \<and> map_of files (sc_entrypoint spec) \<noteq> None
         \<and> (\<forall>(path, c) \<in> set files. \<not> escapes_stage path))"
proof -
  from assms obtain checked where "checked_call x spec arguments = Inr checked"
    by (cases "checked_call x spec arguments") (auto simp: invoke_script_def)
  then show ?thesis unfolding checked_call_def validate_script_arguments_def ok_simps
    by (auto simp: list_ex_iff find_None_iff split: option.split_asm prod.split_asm)
qed

section \<open>Credentials of a repository\<close>

text \<open>
  A credential is read back as it was set, and setting one changes no other: neither another name
  nor the same name in another repository. The hypothesis is what is documented of the cipher.
\<close>

theorem credential_roundtrip:
  assumes "\<And>s. ci_decrypt ci (ci_encrypt ci s) = Some s" and "set_secret ci d repo_id name secret now v = (Inr (), v')"
  shows "get_secret ci v' r n =
    (if (r, n) = (repo_id, name) then Inr (Some secret) else get_secret ci v r n)"
proof -
  from assms(2) have ok: "valid_env_name name"
    and v': "vt_secrets v' = (case secret_of v repo_id name of
        None \<Rightarrow> vt_secrets v @ [\<lparr>sv_repo = repo_id, sv_name = name, sv_cipher = ci_encrypt ci secret\<rparr>]
      | Some row \<Rightarrow> update_where (\<lambda>r. (sv_repo r, sv_name r) = (repo_id, name)) (\<lambda>r. r\<lparr>sv_cipher := ci_encrypt ci secret\<rparr>) (vt_secrets v))"
    by (auto simp: set_secret_def audit_def Let_def split: if_splits option.splits)
  show ?thesis
  proof (cases "secret_of v repo_id name")
    case None
    then have "secret_of v' r n = (if (r, n) = (repo_id, name)
        then Some \<lparr>sv_repo = repo_id, sv_name = name, sv_cipher = ci_encrypt ci secret\<rparr> else secret_of v r n)"
      by (auto simp: secret_of_def v' lookup_append lookup_Cons lookup_Nil split: option.split)
    with ok assms(1) show ?thesis by (auto simp: get_secret_def)
  next
    case (Some row)
    have "secret_of v' r n = map_option (\<lambda>x. if (sv_repo x, sv_name x) = (repo_id, name)
        then x\<lparr>sv_cipher := ci_encrypt ci secret\<rparr> else x) (secret_of v r n)"
      using Some unfolding secret_of_def v' by (simp add: lookup_update_where)
    moreover have "(sv_repo x, sv_name x) = (r, n)" if "secret_of v r n = Some x" for x
      using lookup_SomeD [OF that [unfolded secret_of_def]] by simp
    ultimately show ?thesis using Some ok assms(1) by (cases "secret_of v r n") (auto simp: get_secret_def)
  qed
qed

lemma resolve_references_ok:
  "resolve_references ci v repo_id refs = Inr (found, []) \<Longrightarrow>
     list_all2 (\<lambda>(k, s) (k', n). k = k' \<and> get_secret ci v repo_id n = Inr (Some s)) found refs"
proof (induction refs arbitrary: found)
  case (Cons kn refs)
  obtain k n where kn: "kn = (k, n)" by (cases kn)
  with Cons.prems obtain s found' lacking where g: "get_secret ci v repo_id n = Inr s"
    "resolve_references ci v repo_id refs = Inr (found', lacking)"
    and r: "(case s of None \<Rightarrow> (found', n # lacking) | Some y \<Rightarrow> ((k, y) # found', lacking)) = (found, [])"
    by (auto simp: bindE_Inr_iff)
  from r obtain y where "s = Some y" "found = (k, y) # found'" "lacking = []" by (cases s) auto
  with Cons.IH g kn show ?case by auto
qed simp

text \<open>
  Resolving the references of a tool gives it, variable for variable, the credentials of the
  repository it runs for and nothing else; it fails when one is not configured; and either way it
  leaves exactly one line in the audit, which names the tool and holds no credential.
\<close>

theorem resolution_stays_in_the_repository:
  assumes "resolve_env ci d repo_id refs subject now v = (r, v')" and "v' \<noteq> v"
  shows "vt_secrets v' = vt_secrets v
    \<and> (\<exists>a. vt_audit v' = vt_audit v @ [a] \<and> sa_repo a = repo_id \<and> sa_subject a = Some subject \<and> sa_name a = None)
    \<and> (case r of Inr found \<Rightarrow> list_all2 (\<lambda>(k, s) (k', n). k = k' \<and> get_secret ci v repo_id n = Inr (Some s)) found refs
       | Inl e \<Rightarrow> \<exists>m. e = PermissionError m)"
  using assms resolve_references_ok
  by (auto simp: resolve_env_def audit_def Let_def split: sum.splits if_splits)

section \<open>Credentials of an MCP server\<close>

text \<open>
  C26. The credentials of a server leave the process only as its bundle was validated for: a server of a
  validated bundle that gets any is either a local one, started with them in its environment and
  without secret headers, or a remote one at an HTTPS address whose client follows no redirect.
\<close>

theorem mcp_credentials_stay_on_their_connection:
  assumes "validate_repo_bundle sha yaml root = Inr b" and "s \<in> set (bu_mcp b)"
    and "connect_server path lang resolver (spec_of s) w = (Inr c, w')" and "co_values c \<noteq> []"
  shows "dget (co_settings c) ''transport'' = DStr ''stdio'' \<and> mb_secret_headers s = []
      \<and> dget (co_settings c) ''headers'' = dget (mb_connection s) ''headers''
    \<or> dget (co_settings c) ''transport'' \<in> DStr ` set REMOTE_MCP_TRANSPORTS \<and> co_no_redirects c
      \<and> starts_with (str_of (dget (co_settings c) ''url'')) ''https://''
      \<and> dget (co_settings c) ''env'' = dget (mb_connection s) ''env''"
proof -
  have conf: "secrets_confined s" using parse_mcp_ok [OF validate_ok(4) [OF assms(1)]] assms(2) by blast
  show ?thesis
  proof (cases "dget (mb_connection s) ''transport'' = DStr ''stdio''")
    case True
    with conf have "mb_secret_headers s = []" by (auto simp: secrets_confined_def REMOTE_MCP_TRANSPORTS_def)
    with True assms(3) show ?thesis
      by (auto simp: connect_server_def spec_of_def Let_def and_then_return_iff dget_update split: sum.split_asm)
  next
    case False
    then obtain resolved w1 fixed where
      res: "resolve_mcp_secrets resolver (mb_id s) (mb_secret_headers s) w = (Inr resolved, w1)"
      and c: "c = \<lparr>co_settings = AList.update ''headers'' (string_doc (updates_with resolved fixed)) (mb_connection s),
        co_no_redirects = (resolved \<noteq> []), co_values = map snd resolved\<rparr>"
      using assms(3,4)
      by (cases "dict_at (mb_connection s) ''headers''")
        (auto simp: connect_server_def spec_of_def Let_def and_then_return_iff split: sum.split_asm bool.split_asm)
    from assms(4) c have "resolved \<noteq> []" by auto
    with res have "mb_secret_headers s \<noteq> []" by (auto simp: resolve_mcp_secrets_def)
    with conf \<open>resolved \<noteq> []\<close> show ?thesis unfolding c by (simp add: secrets_confined_def dget_update)
  qed
qed

end
