(* ===== verification/Tool_Example.thy ===== *)
theory Tool_Example
  imports Tool_Properties Config_Example
begin

text \<open>
  A call of a script with one argument and one credential, a vault with a trivial cipher, and the
  connection of the server of the small bundle: the instances on which the properties of the tools
  are applied. The state of the world is the number of commands that were run.
\<close>

definition echo_tool :: script_tool where
  "echo_tool = \<lparr>sc_name = ''echo'', sc_description = ''d'', sc_runtime = ''shell'', sc_entrypoint = ''run'',
     sc_args_schema = [(''type'', DStr ''object''), (''properties'', DMap [(''n'', DMap [(''type'', DStr ''integer'')])]),
       (''required'', strs [''n''])],
     sc_timeout = 30, sc_effect = ''read'', sc_directory = ''tools/scripts/echo'', sc_env = [],
     sc_secret_env = [(''KEY'', ''NAME'')]\<rparr>"

text \<open>The script prints its environment, the credential in it.\<close>

definition echo_executor :: "nat script_executor" where
  "echo_executor = \<lparr>xe_path = ''p'', xe_lang = ''l'', xe_python = ''python'', xe_stage = ''/s'',
     xe_files = (\<lambda>spec. Inr [(''run'', ''env'')]),
     xe_secrets = Some (\<lambda>spec w. return [(''KEY'', ''abcdefgh'')] w),
     xe_sandbox = Some (\<lambda>command stdin env timeout w. (Completed 1 (join newline (map snd env)) stdin, w + 1)),
     xe_unsafe_local_shell = False,
     xe_local = (\<lambda>command stdin env timeout w. (Timed_Out, w))\<rparr>"

abbreviation echo_call :: "(err + string) \<times> nat" where
  "echo_call \<equiv> invoke_script echo_executor echo_tool [(''n'', DInt 3)] 0"

theorem script_output_hides_credentials_witness:
  "isl (fst echo_call) = False \<and> \<not> has_infix ''abcdefgh'' (projr (fst echo_call))"
proof -
  have c: "echo_call = (fst echo_call, snd echo_call)" by simp
  have f: "xe_files echo_executor echo_tool = Inr [(''run'', ''env'')]" by (simp add: echo_executor_def)
  have r: "resolve_script_secrets echo_executor echo_tool 0 = (Inr [(''KEY'', ''abcdefgh'')], 0)"
    by (simp add: resolve_script_secrets_def echo_executor_def echo_tool_def)
  have p: "''abcdefgh'' \<in> snd ` set [(''KEY'', ''abcdefgh'')]" "token ''abcdefgh''" by simp code_simp
  have e: "\<forall>command stdin env timeout u code out err u'.
      run_command echo_executor command stdin env timeout u = (Completed code out err, u') \<longrightarrow> \<bar>code\<bar> < 1000"
    by (simp add: run_command_def echo_executor_def)
  have i: "isl (fst echo_call) = False" by code_simp
  then have "fst echo_call = Inr (projr (fst echo_call))" by (metis sum.collapse(2))
  with script_output_hides_credentials [OF c f r p e] i show ?thesis by blast
qed

theorem script_runs_only_as_declared_witness:
  "set (schema_required (sc_args_schema echo_tool)) \<subseteq> set (map fst [(''n'', DInt 3)])"
proof -
  have "snd echo_call \<noteq> 0" by code_simp
  from script_runs_only_as_declared [of echo_executor echo_tool "[(''n'', DInt 3)]" 0 "fst echo_call" "snd echo_call"] this
  show ?thesis by simp
qed

definition plain_cipher :: cipher where
  "plain_cipher = \<lparr>ci_encrypt = rev, ci_decrypt = (\<lambda>s. Some (rev s))\<rparr>"

definition demo_vault :: vault where
  "demo_vault = snd (set_secret plain_cipher demo_0 1 ''NAME'' ''abcdefgh'' ''0'' \<lparr>vt_secrets = [], vt_audit = []\<rparr>)"

theorem credential_roundtrip_witness:
  "get_secret plain_cipher demo_vault 1 ''NAME'' = Inr (Some ''abcdefgh'')
   \<and> get_secret plain_cipher demo_vault 2 ''NAME'' = Inr None"
proof -
  have c: "\<And>s. ci_decrypt plain_cipher (ci_encrypt plain_cipher s) = Some s" by (simp add: plain_cipher_def)
  have "fst (set_secret plain_cipher demo_0 1 ''NAME'' ''abcdefgh'' ''0'' \<lparr>vt_secrets = [], vt_audit = []\<rparr>) = Inr ()"
    by code_simp
  then have s: "set_secret plain_cipher demo_0 1 ''NAME'' ''abcdefgh'' ''0'' \<lparr>vt_secrets = [], vt_audit = []\<rparr> = (Inr (), demo_vault)"
    unfolding demo_vault_def by (metis prod.collapse)
  have "get_secret plain_cipher \<lparr>vt_secrets = [], vt_audit = []\<rparr> 2 ''NAME'' = Inr None" by code_simp
  with credential_roundtrip [OF c s, of 1 "''NAME''"] credential_roundtrip [OF c s, of 2 "''NAME''"] show ?thesis by simp
qed

definition demo_resolution :: "(err + (string \<times> string) list) \<times> vault" where
  "demo_resolution = resolve_env plain_cipher demo_0 1 [(''KEY'', ''NAME'')] ''script:echo'' ''1'' demo_vault"

theorem resolution_stays_in_the_repository_witness:
  "vt_secrets (snd demo_resolution) = vt_secrets demo_vault \<and> fst demo_resolution = Inr [(''KEY'', ''abcdefgh'')]"
proof -
  have r: "fst demo_resolution = Inr [(''KEY'', ''abcdefgh'')]" by code_simp
  have "length (vt_audit (snd demo_resolution)) \<noteq> length (vt_audit demo_vault)" by code_simp
  then have "snd demo_resolution \<noteq> demo_vault" by metis
  moreover have "resolve_env plain_cipher demo_0 1 [(''KEY'', ''NAME'')] ''script:echo'' ''1'' demo_vault =
      (fst demo_resolution, snd demo_resolution)" by (simp add: demo_resolution_def)
  ultimately show ?thesis using resolution_stays_in_the_repository r by blast
qed

abbreviation demo_mcp_server :: mcp_server where
  "demo_mcp_server \<equiv> hd (bu_mcp demo_bundle)"

definition demo_connection :: "(err + mcp_connection) \<times> nat" where
  "demo_connection = connect_server ''p'' ''l'' (Some (\<lambda>refs subject w. return [(''Auth'', ''abcdefgh'')] w)) (spec_of demo_mcp_server) 0"

theorem mcp_credentials_stay_on_their_connection_witness:
  "dget (co_settings (projr (fst demo_connection))) ''transport'' = DStr ''http'' \<and> co_no_redirects (projr (fst demo_connection))"
proof -
  have "bu_mcp demo_bundle \<noteq> []" by code_simp
  then have s: "demo_mcp_server \<in> set (bu_mcp demo_bundle)" by (rule hd_in_set)
  have "isl (fst demo_connection) = False" by code_simp
  then have "connect_server ''p'' ''l'' (Some (\<lambda>refs subject w. return [(''Auth'', ''abcdefgh'')] w)) (spec_of demo_mcp_server) 0 =
      (Inr (projr (fst demo_connection)), snd demo_connection)"
    by (metis demo_connection_def prod.collapse sum.collapse(2))
  moreover have "co_values (projr (fst demo_connection)) \<noteq> []" by code_simp
  moreover have "dget (co_settings (projr (fst demo_connection))) ''transport'' = DStr ''http''" by code_simp
  ultimately show ?thesis using mcp_credentials_stay_on_their_connection [OF demo_validates s] by fastforce
qed

text \<open>
  An empty value that is not a mapping passes the validation of a bundle, which takes a false
  \<open>connection.env\<close> for a missing one, and is only refused when the server is connected.
\<close>

theorem null_environment_fails_at_run_time:
  "let raw = DMap [(''connection'', DMap [(''transport'', DStr ''stdio''), (''env'', DNull)]), (''tools'', strs [''ask''])] in
   case parse_mcp_server ''m'' raw of
     Inl e \<Rightarrow> False
   | Inr s \<Rightarrow> fst (connect_server ''p'' ''l'' (None :: nat resolver option) (spec_of s) 0) = Inl (TypeError ''not a mapping'')"
  by code_simp

end
