(* ===== verification/Skill_Store.thy ===== *)
theory Skill_Store
  imports Bundle
begin

text \<open>
  The operator's skill files in the key-value store of a repository (\<open>skills.py\<close>): the key of a path,
  writing, reading and removing a file, and the seeding of the default skills, whose texts are an
  argument. A value of the store holds its \<open>content\<close>, \<open>None\<close> when that is not a text.
\<close>

definition MAX_SKILL_FILE_BYTES :: int where "MAX_SKILL_FILE_BYTES = 200000"

text \<open>\<open>len(content.encode())\<close> for code points up to 255.\<close>

definition encoded_length :: "string \<Rightarrow> int" where
  "encoded_length s = sum_list (map (\<lambda>c. if (of_char c :: nat) < 128 then 1 else 2) s)"

definition skill_key :: "string \<Rightarrow> err + string" where
  "skill_key path = (let parts = posix_parts path; key = CHR ''/'' # join ''/'' parts in
     if ''..'' \<in> set parts then Inl (ValueError ''skill path traversal is not allowed'')
     else if key = ''/'' \<or> CHR ''*'' \<in> set key \<or> CHR ''?'' \<in> set key then Inl (ValueError ''invalid skill path'')
     else Inr key)"

definition key_ends_with :: "string \<Rightarrow> string \<Rightarrow> bool" where
  "key_ends_with s t = starts_with (rev s) (rev t)"

definition put_repo_skill ::
  "int \<Rightarrow> string \<Rightarrow> string \<Rightarrow> string option \<Rightarrow> (memory_store, unit) op" where
  "put_repo_skill repo_id path content generation st =
    (if content = [] \<or> encoded_length content > MAX_SKILL_FILE_BYTES
     then raise (ValueError ''skill content is empty or too large'') st
     else case skill_key path of
       Inl e \<Rightarrow> raise e st
     | Inr key \<Rightarrow>
       if \<not> key_ends_with key ''/SKILL.md'' \<and> length (filter (\<lambda>c. c = CHR ''/'') key) < 2
       then raise (ValueError ''skill files must be inside a skill directory'') st
       else return () (st((repo_skills_namespace repo_id generation, key) \<mapsto> Some content)))"

definition remove_repo_skill :: "int \<Rightarrow> string \<Rightarrow> (memory_store, unit) op" where
  "remove_repo_skill repo_id path st = (case skill_key path of
     Inl e \<Rightarrow> raise e st
   | Inr key \<Rightarrow> return () (st((repo_skills_namespace repo_id None, key) := None)))"

definition show_repo_skill :: "int \<Rightarrow> string \<Rightarrow> string option \<Rightarrow> memory_store \<Rightarrow> err + string option" where
  "show_repo_skill repo_id path generation st = bindE (skill_key path) (\<lambda>key.
     Inr (case st (repo_skills_namespace repo_id generation, key) of None \<Rightarrow> None | Some content \<Rightarrow> content))"

text \<open>The loop over \<open>dict.fromkeys(names)\<close>, with the number of files written.\<close>

fun seed_skills :: "(string \<times> string) list \<Rightarrow> int \<Rightarrow> string list \<Rightarrow> nat \<Rightarrow> (memory_store, nat) op" where
  "seed_skills defaults repo_id [] count st = return count st"
| "seed_skills defaults repo_id (n # ns) count st = (case map_of defaults n of
     None \<Rightarrow> seed_skills defaults repo_id ns count st
   | Some content \<Rightarrow> (case skill_key (n @ ''/SKILL.md'') of
       Inl e \<Rightarrow> raise e st
     | Inr key \<Rightarrow>
       if st (repo_skills_namespace repo_id None, key) \<noteq> None then seed_skills defaults repo_id ns count st
       else and_then (put_repo_skill repo_id (n @ ''/SKILL.md'') content None st)
         (\<lambda>_ st1. seed_skills defaults repo_id ns (count + 1) st1)))"

definition ensure_default_repo_skills :: "(string \<times> string) list \<Rightarrow> int \<Rightarrow> string list \<Rightarrow> (memory_store, nat) op" where
  "ensure_default_repo_skills defaults repo_id names = seed_skills defaults repo_id (ordered names) 0"

lemma put_then_show:
  "put_repo_skill repo_id path content generation st = (Inr (), st') \<Longrightarrow>
     show_repo_skill repo_id path generation st' = Inr (Some content)"
  by (auto simp: put_repo_skill_def show_repo_skill_def split: if_splits sum.splits)

lemma put_changes_one_key:
  "put_repo_skill repo_id path content generation st = (r, st') \<Longrightarrow>
     \<forall>key. skill_key path = Inr key \<longrightarrow> k \<noteq> (repo_skills_namespace repo_id generation, key) \<Longrightarrow> st' k = st k"
  by (auto simp: put_repo_skill_def split: if_splits sum.splits)

text \<open>Seeding never replaces what the operator stored.\<close>

theorem seeding_keeps_operator_skills:
  "st k \<noteq> None \<Longrightarrow> ensure_default_repo_skills defaults repo_id names st = (r, st') \<Longrightarrow> st' k = st k"
proof -
  have "seed_skills defaults repo_id ns count st = (r, st') \<Longrightarrow> st k \<noteq> None \<Longrightarrow> st' k = st k" for ns count
  proof (induction defaults repo_id ns count st rule: seed_skills.induct)
    case (2 defaults repo_id n ns count st)
    show ?case
    proof (cases "map_of defaults n")
      case None
      with 2 show ?thesis by simp
    next
      case (Some content)
      show ?thesis
      proof (cases "skill_key (n @ ''/SKILL.md'')")
        case (Inl e)
        with 2(4) Some show ?thesis by simp
      next
        case (Inr key)
        show ?thesis
        proof (cases "st (repo_skills_namespace repo_id None, key) = None")
          case True
          obtain q st1 where p: "put_repo_skill repo_id (n @ ''/SKILL.md'') content None st = (q, st1)"
            by (cases "put_repo_skill repo_id (n @ ''/SKILL.md'') content None st")
          have "k \<noteq> (repo_skills_namespace repo_id None, key)" using True 2(5) by auto
          with put_changes_one_key [OF p, of k] Inr have "st1 k = st k" by simp
          with 2(3) [OF Some Inr] 2(4,5) Some Inr True p show ?thesis by (cases q) auto
        next
          case False
          with 2 Some Inr show ?thesis by simp
        qed
      qed
    qed
  qed simp
  then show "st k \<noteq> None \<Longrightarrow> ensure_default_repo_skills defaults repo_id names st = (r, st') \<Longrightarrow> st' k = st k"
    unfolding ensure_default_repo_skills_def by blast
qed

end
