(* ===== verification/Composition.thy ===== *)
theory Composition
  imports Control_Properties Guards Frames
begin

text \<open>
  The composition of the controller, the gateways and the server with the runtime: whatever they do to
  the database is a sequence of steps of the runtime, so that every property of the reachable databases
  holds of a server that runs.
\<close>

section \<open>Runs\<close>

text \<open>
  The inserts of permits, results and approvals skip a row whose hashed identity is taken; a call
  after which the row it read back is not a new one, or that changed the database and raised, is such a
  collision of truncated digests.
\<close>

definition ignored :: "('r \<Rightarrow> bool) \<Rightarrow> (err + 'r) \<times> db \<Rightarrow> db \<Rightarrow> bool" where
  "ignored taken r d = (case fst r of Inr x \<Rightarrow> taken x | Inl e \<Rightarrow> snd r \<noteq> d)"

definition insert_ignored :: "digest \<Rightarrow> db \<Rightarrow> bool" where
  "insert_ignored sha d \<longleftrightarrow>
    (\<exists>now k occ ev who auth at. ignored (\<lambda>q. q \<in> set (permits d)) (approve_plan sha now k occ ev who auth at d) d) \<or>
    (\<exists>now k. ignored (\<lambda>q. q \<in> set (permits d)) (auto_authorize_plan sha now k d) d) \<or>
    (\<exists>now k cid at. ignored (\<lambda>r. r \<in> set (results d)) (publish_validated_result sha now k cid at d) d) \<or>
    (\<exists>now k occ ev who auth at mode. ignored (\<lambda>a. a \<in> set (approvals d)) (approve_result sha now k occ ev who auth at mode d) d)"

definition runs_to :: "digest \<Rightarrow> db \<Rightarrow> db \<Rightarrow> bool" where
  "runs_to sha d d' \<longleftrightarrow> (runtime_step sha)\<^sup>*\<^sup>* d d' \<or> (\<exists>e. (runtime_step sha)\<^sup>*\<^sup>* d e \<and> insert_ignored sha e)"

lemma runs_to_refl: "runs_to sha d d"
  by (simp add: runs_to_def)

lemma runs_to_trans: "runs_to sha d e \<Longrightarrow> runs_to sha e f \<Longrightarrow> runs_to sha d f"
  unfolding runs_to_def by (metis rtranclp_trans)

interpretation run: state_frame "runs_to sha" for sha
  by unfold_locales (rule runs_to_refl, rule runs_to_trans)

lemma runs_step: "runtime_step sha d d' \<Longrightarrow> runs_to sha d d'"
  by (auto simp: runs_to_def)

lemma runs_other: "same_workflow d d' \<Longrightarrow> runs_to sha d d'"
  by (intro runs_step step_other)

lemma reachable_runs:
  assumes "reachable sha d" and "(runtime_step sha)\<^sup>*\<^sup>* d d'"
  shows "reachable sha d'"
  using assms(2,1) by (induction rule: rtranclp_induct) (auto intro: reachable_step)

lemma same_workflow_refl: "same_workflow d d"
  by (simp add: same_workflow_def)

lemma same_workflow_trans: "same_workflow d e \<Longrightarrow> same_workflow e f \<Longrightarrow> same_workflow d f"
  by (fastforce simp: same_workflow_def)

interpretation other: state_frame same_workflow
  by unfold_locales (rule same_workflow_refl, rule same_workflow_trans)

text \<open>What a step needs: it keeps the database when it raises, and its reply is a new row.\<close>

lemma runs_reply:
  assumes "\<And>e d'. r = (Inl e, d') \<Longrightarrow> d' = d" and "\<And>x d'. r = (Inr x, d') \<Longrightarrow> runtime_step sha d d'"
  shows "runs_to sha d (snd r)"
proof (cases r)
  case (Pair x d')
  with assms show ?thesis by (cases x) (auto intro: runs_to_refl runs_step)
qed

lemma runs_new_reply:
  assumes "ignored taken r d \<Longrightarrow> insert_ignored sha d"
    and "\<And>x d'. r = (Inr x, d') \<Longrightarrow> \<not> taken x \<Longrightarrow> runtime_step sha d d'"
  shows "runs_to sha d (snd r)"
proof (cases "ignored taken r d")
  case True
  with assms(1) show ?thesis by (auto simp: runs_to_def)
next
  case False
  with assms(2) show ?thesis
    by (intro runs_reply) (auto simp: ignored_def)
qed

section \<open>The transitions of the runtime\<close>

lemma auto_authorize_runs: "runs_to sha d (snd (auto_authorize_plan sha now k d))"
  by (rule runs_new_reply [where taken = "\<lambda>q. q \<in> set (permits d)"])
    (auto simp: insert_ignored_def intro: step_auto_authorize)

lemma approve_plan_runs: "runs_to sha d (snd (approve_plan sha now k occ ev who auth at d))"
  by (rule runs_new_reply [where taken = "\<lambda>q. q \<in> set (permits d)"])
    (auto simp: insert_ignored_def intro: step_approve)

lemma publish_result_runs: "runs_to sha d (snd (publish_validated_result sha now k cid at d))"
  by (rule runs_new_reply [where taken = "\<lambda>q. q \<in> set (results d)"])
    (auto simp: insert_ignored_def intro: step_publish_result)

lemma approve_result_runs: "runs_to sha d (snd (approve_result sha now k occ ev who auth at mode d))"
  by (rule runs_new_reply [where taken = "\<lambda>q. q \<in> set (approvals d)"])
    (auto simp: insert_ignored_def intro: step_approve_result)

lemma auto_accept_runs: "runs_to sha d (snd (auto_accept_result sha now k d))"
  by (auto simp: auto_accept_result_def intro: approve_result_runs runs_to_refl split: option.split)

lemma select_runs: "runs_to sha d (snd (select_active_task now c d))"
  by (metis runs_step step_select prod.collapse)

lemma initialize_runs: "wf_spec sha known spec \<Longrightarrow> runs_to sha d (snd (initialize_cycle sha now th n root spec ref kind seq d))"
  by (metis runs_step step_initialize prod.collapse)

text \<open>The other transitions leave the database alone when they raise.\<close>

lemma runs_transition:
  assumes "raises_unchanged f d" and "\<And>x d'. f d = (Inr x, d') \<Longrightarrow> runtime_step sha d d'"
  shows "runs_to sha d (snd (f d))"
  using assms by (intro runs_reply) (auto simp: raises_unchanged_def)

lemma replan_revision_runs: "runs_to sha d (snd (replan_for_revision_inputs now k ids d))"
  by (rule runs_transition, rule raises_replan_revision, erule step_replan_revision)

section \<open>The inbox, the reviews and the outbox\<close>

lemma insert_others:
  "insert_outbox o' d = Inr d' \<Longrightarrow> same_workflow d d'" "insert_consumption c d = Inr d' \<Longrightarrow> same_workflow d d'"
  "insert_revision_input r d = Inr d' \<Longrightarrow> same_workflow d d'" "insert_review v d = Inr d' \<Longrightarrow> same_workflow d d'"
  by (auto simp: same_workflow_def insert_outbox_def insert_consumption_def insert_revision_input_def insert_review_def
      split: if_split_asm)

lemma record_disposition_other: "record_disposition k th n st at d = Inr d' \<Longrightarrow> same_workflow d d'"
  unfolding record_disposition_def by (rule insert_others)

lemma enqueue_other: "enqueue_workflow_comment sha k th kind m body now d = Inr d' \<Longrightarrow> same_workflow d d'"
  unfolding enqueue_workflow_comment_def by (rule insert_others)

lemma set_review_other: "same_workflow d (set_review_status k old new d)"
  by (simp add: same_workflow_def set_review_status_def)

lemmas other_rows = insert_others record_disposition_other enqueue_other

lemma classify_other: "classify_revision_input sha k th at d = Inr (x, d') \<Longrightarrow> same_workflow d d'"
  by (auto simp: classify_revision_input_def queue_revision_input_def bindE_Inr_iff Let_def same_workflow_refl
      intro: same_workflow_trans dest!: other_rows split: option.split_asm if_split_asm)

lemma route_rows_other: "route_rows sha th now es d = Inr (ks, d') \<Longrightarrow> same_workflow d d'"
proof (induction es arbitrary: d ks)
  case Nil
  then show ?case by (simp add: same_workflow_refl)
next
  case (Cons e es)
  then show ?case by (auto simp: bindE_Inr_iff dest!: classify_other intro: same_workflow_trans)
qed

lemma route_inputs_other: "same_workflow d (snd (route_unmatched_inputs sha now th d))"
  unfolding route_unmatched_inputs_def by (rule other.commit_keeps) (rule route_rows_other)

lemma record_input_other: "same_workflow d (snd (record_input_disposition k th n st at d))"
  unfolding record_input_disposition_def
  by (intro other.and_then_keeps other.commit_keeps other.return_keeps) (auto simp: bindE_Inr_iff dest: other_rows)

lemma claim_input_other: "same_workflow d (snd (claim_input_for_resume k th n st occ at d))"
  unfolding claim_input_for_resume_def
  by (intro other.and_then_keeps other.commit_keeps)
    (auto simp: bindE_Inr_iff same_workflow_refl dest: other_rows split: option.split)

lemma finish_input_other: "same_workflow d (snd (finish_input_resume k at st d))"
  by (simp add: finish_input_resume_def same_workflow_def)

lemma batch_other: "same_workflow d (snd (batch_revision_inputs th c ids d))"
  unfolding batch_revision_inputs_def
  by (intro other.and_then_keeps other.commit_keeps other.return_keeps)
    (auto simp: same_workflow_def Let_def split: option.split_asm if_split_asm)

lemma consume_other: "same_workflow d (snd (consume_revision_inputs th c d))"
  by (simp add: consume_revision_inputs_def same_workflow_def Let_def)

lemma activate_other: "same_workflow d (snd (activate_initial_workflow th c dg d))"
  and complete_other: "same_workflow d (snd (complete_initial_workflow th c d))"
  by (auto simp: activate_initial_workflow_def complete_initial_workflow_def same_workflow_def Let_def split: option.split)

lemma begin_review_other: "same_workflow d (snd (begin_feedback_review sha now k t kind occ body d))"
proof -
  have "same_workflow d d'" if "open_review sha now k t kd occ body d = Inr (u, d')" for kd u d'
    using that by (auto simp: open_review_def bindE_Inr_iff dest!: other_rows intro: same_workflow_trans
        split: option.split_asm if_split_asm)
  then show ?thesis
    unfolding begin_feedback_review_def Let_def
    by (auto simp: same_workflow_refl split: option.split intro!: other.and_then_keeps other.commit_keeps)
qed

lemma defer_review_other: "same_workflow d (snd (defer_feedback_to_revision sha now k d))"
proof -
  have "same_workflow d d'" if "defer_transaction sha now k d = Inr (u, d')" for u d'
    using that set_review_other
    by (auto simp: defer_transaction_def bindE_Inr_iff Let_def same_workflow_refl dest!: other_rows
        split: option.split_asm if_split_asm intro: same_workflow_trans)
  then show ?thesis
    unfolding defer_feedback_to_revision_def
    by (auto simp: same_workflow_refl split: option.split intro!: other.and_then_keeps other.commit_keeps)
qed

lemmas others_run = route_inputs_other record_input_other claim_input_other finish_input_other batch_other
  consume_other activate_other complete_other begin_review_other defer_review_other

lemmas input_runs = others_run [THEN runs_other]

lemmas run_rules = run.and_then_keeps run.commit_keeps runs_to_refl

section \<open>The controller\<close>

text \<open>The agent, the work tree and the delivery touch the database through the runtime only.\<close>

definition runs_on_runtime :: "digest \<Rightarrow> env \<Rightarrow> bool" where
  "runs_on_runtime sha en \<longleftrightarrow> (\<forall>c t v d. runs_to sha d (snd (drive en c t v d))) \<and>
     (\<forall>c d. runs_to sha d (snd (workspace en c d))) \<and> (\<forall>th d. runs_to sha d (snd (deliver en th d)))"

lemma environment_runs:
  assumes "runs_on_runtime sha en"
  shows "runs_to sha d (snd (drive en c t v d))" "runs_to sha d (snd (workspace en cy d))"
    "runs_to sha d (snd (deliver en th d))"
  using assms by (simp_all add: runs_on_runtime_def)

lemma derived_spec_wf: "derive_revision_spec sha w = Inr r \<Longrightarrow> \<exists>known. wf_spec sha known r"
  by (auto simp: derive_revision_spec_def Let_def split: if_split_asm dest: parse_workflow_spec_wf)

lemma begin_revision_runs:
  assumes "runs_on_runtime sha en"
  shows "runs_to sha d (snd (begin_revision sha en now th d))"
  unfolding begin_revision_def
  by (auto simp: bindE_Inr_iff runs_to_refl split: list.split option.split sum.split
      dest!: derived_spec_wf intro!: run_rules input_runs environment_runs [OF assms] initialize_runs)

lemma begin_cycle_runs:
  assumes "runs_on_runtime sha en" "wf_spec sha known spec"
  shows "runs_to sha d (snd (begin_cycle sha en now spec ref th d))"
  unfolding begin_cycle_def Let_def
  by (auto simp: runs_to_refl split: option.split initial_state.split
      intro!: run_rules input_runs environment_runs [OF assms(1)] initialize_runs [OF assms(2)] begin_revision_runs [OF assms(1)])

lemma settle_completed_runs:
  assumes "runs_on_runtime sha en"
  shows "runs_to sha d (snd (settle_completed_cycle sha en now c d))"
  unfolding settle_completed_cycle_def
  by (auto simp: runs_to_refl split: option.split sum.split
      intro!: run_rules input_runs select_runs begin_revision_runs [OF assms])

lemma settle_steering_runs: "runs_to sha d (snd (settle_revision_steering now c t d))"
  unfolding settle_revision_steering_def Let_def
  by (auto simp: runs_to_refl intro!: run_rules input_runs replan_revision_runs)

lemma settle_claim_runs: "runs_to sha d (snd (settle_resume_claim now c d))"
  unfolding settle_resume_claim_def
  by (auto simp: runs_to_refl split: option.split intro!: run_rules input_runs)

lemma mark_applied_runs: "runs_to sha d (snd (mark_resume_applied now v d))"
  unfolding mark_resume_applied_def
  by (auto simp: runs_to_refl split: option.split intro!: run_rules input_runs)

lemma claimed_runs: "runs_to sha d (snd (claimed_resume en now c t kind occ build d))"
  unfolding claimed_resume_def
  by (auto simp: runs_to_refl split: option.split sum.split bool.split intro!: run_rules input_runs)

lemma consume_runs: "runs_to sha d (snd (consume now e c st d))"
  and claim_runs: "runs_to sha d (snd (claim_input now e c st occ d))"
  unfolding consume_def claim_input_def by (rule input_runs)+

lemma scan_approvals_runs: "runs_to sha d (snd (scan_approvals sha en now c t root kind occ at es d))"
  by (induction es arbitrary: d)
    (auto simp: runs_to_refl split: option.split sum.split bool.split intro!: run_rules input_runs consume_runs claim_runs)

lemma scan_answers_runs: "runs_to sha d (snd (scan_answers now c root occ upd es d))"
  by (induction es arbitrary: d)
    (auto simp: runs_to_refl split: sum.split intro!: run_rules consume_runs claim_runs)

lemma wait_resume_runs:
  "runs_to sha d (snd (approval_wait_resume sha en now c t kind occ at d))"
  unfolding approval_wait_resume_def
  by (auto simp: runs_to_refl split: option.split sum.split bool.split intro!: run_rules claimed_runs scan_approvals_runs)

lemma resumes_run:
  "runs_to sha d (snd (plan_wait_resume sha en now c t d))"
  "runs_to sha d (snd (result_wait_resume sha en now c t d))"
  "runs_to sha d (snd (clarification_resume en now c t d))"
  unfolding plan_wait_resume_def result_wait_resume_def clarification_resume_def Let_def
  by (auto simp: runs_to_refl split: option.split sum.split bool.split
      intro!: run_rules claimed_runs wait_resume_runs scan_answers_runs)

section \<open>One tick\<close>

lemma settle_to_next_runs:
  assumes "runs_on_runtime sha en"
  shows "runs_to sha d (snd (settle_to_next sha en now c t d))"
  unfolding settle_to_next_def
  by (auto simp: runs_to_refl intro!: run_rules settle_completed_runs [OF assms])

lemma finish_tick_runs:
  assumes "runs_on_runtime sha en"
  shows "runs_to sha d (snd (finish_tick sha en now th c d))"
  unfolding finish_tick_def
  by (auto simp: runs_to_refl split: option.split prod.split
      intro!: run_rules settle_to_next_runs [OF assms] settle_steering_runs select_runs)

lemma drive_approval_runs:
  assumes "runs_on_runtime sha en"
  shows "runs_to sha d (snd (drive_approval en now c t kind v d))"
  unfolding drive_approval_def
  by (auto simp: runs_to_refl split: option.split intro!: run_rules environment_runs [OF assms] mark_applied_runs)

lemma auto_accept_tick_runs:
  assumes "runs_on_runtime sha en"
  shows "runs_to sha d (snd (auto_accept_tick sha en now c t d))"
  unfolding auto_accept_tick_def
  by (auto simp: runs_to_refl split: prod.split
      intro!: run_rules auto_accept_runs select_runs settle_to_next_runs [OF assms])

lemma drive_phase_runs:
  assumes "runs_on_runtime sha en"
  shows "runs_to sha d (snd (drive_phase sha en now c t mode d))"
  unfolding drive_phase_def
  by (auto simp: runs_to_refl split: task_phase.split option.split
      intro!: run_rules environment_runs [OF assms] drive_approval_runs [OF assms] auto_accept_tick_runs [OF assms]
        auto_authorize_runs resumes_run mark_applied_runs)

lemma tick_active_runs:
  assumes "runs_on_runtime sha en"
  shows "runs_to sha d (snd (tick_active sha en now th c d))"
  unfolding tick_active_def Let_def
  by (auto simp: runs_to_refl split: option.split
      intro!: run_rules select_runs settle_completed_runs [OF assms] environment_runs [OF assms] settle_steering_runs
        drive_phase_runs [OF assms] finish_tick_runs [OF assms])

lemma tick_cycle_runs:
  assumes "runs_on_runtime sha en"
  shows "runs_to sha d (snd (tick_cycle sha en now th c d))"
  unfolding tick_cycle_def
  by (auto simp: runs_to_refl split: option.split cycle_status.split
      intro!: run_rules settle_claim_runs settle_completed_runs [OF assms] tick_active_runs [OF assms])

lemma advance_runs:
  assumes "runs_on_runtime sha en" "wf_spec sha known spec"
  shows "runs_to sha d (snd (advance_locked sha en now spec ref th d))"
  unfolding advance_locked_def
  by (auto simp: runs_to_refl split: option.split
      intro!: run_rules input_runs environment_runs [OF assms(1)] tick_cycle_runs [OF assms(1)] begin_cycle_runs [OF assms])

section \<open>The gateways\<close>

lemma raises_fail: "raises_unchanged (fail_active_task now c reason) d"
  unfolding raises_unchanged_def fail_active_task_def Let_def
  by (auto elim!: raises_commit [rotated])
    (auto simp: cycle_def set_cycle_def lookup_update_where eq_commute [of "Some _"] split: option.split_asm if_split_asm option.split)

lemma lifecycle_runs:
  "runs_to sha d (snd (submit_posted_plan sha now k body cid at d))"
  "runs_to sha d (snd (replan_from_feedback now k d))"
  "runs_to sha d (snd (replan_from_result_feedback now k ev feedback d))"
  "runs_to sha d (snd (finish_execution sha now k summary report d))"
  "runs_to sha d (snd (finish_validation sha now guard k v summary findings repairs evidence d))"
  "runs_to sha d (snd (pause_for_clarification now k occ d))"
  "runs_to sha d (snd (resume_clarification now k occ d))"
  "runs_to sha d (snd (fail_active_task now c reason d))"
  by (rule runs_transition, rule raises_submit, erule step_submit,
      rule runs_transition, rule raises_replan_feedback, erule step_replan_feedback,
      rule runs_transition, rule raises_replan_result, erule step_replan_result,
      rule runs_transition, rule raises_finish_execution, erule step_finish_execution,
      rule runs_transition, rule raises_finish_validation, erule step_finish_validation,
      rule runs_transition, rule raises_pause, erule step_pause,
      rule runs_transition, rule raises_resume, erule step_resume,
      rule runs_transition, rule raises_fail, erule step_fail)

lemma resolve_feedback_runs: "runs_to sha d (snd (resolve_current_feedback_replan now k d))"
  unfolding resolve_current_feedback_replan_def Let_def
  by (auto simp: runs_to_refl split: option.split sum.split
      intro!: run_rules lifecycle_runs runs_other [OF set_review_other])

lemma close_deferred_runs: "runs_to sha d (snd (close_deferred_feedback k d))"
  by (simp add: close_deferred_feedback_def runs_other set_review_other)

lemma with_active_runs: "(\<And>t. runs_to sha d (snd (k t))) \<Longrightarrow> runs_to sha d (snd (with_active d c k))"
  by (simp add: with_active_def runs_to_refl split: sum.split option.split)

lemma interrupted_runs: "(\<And>v. runs_to sha d (snd (k v d))) \<Longrightarrow> runs_to sha d (snd (interrupted i v' d k))"
  by (simp add: interrupted_def runs_to_refl split: option.split)

lemma bound_review_runs: "runs_to sha d (snd (bound_review d subject t v occ))"
  by (simp add: bound_review_def runs_to_refl split: option.split sum.split)

lemma approvals_run:
  "runs_to sha d (snd (approve_plan_from sha now k v d))" "runs_to sha d (snd (approve_result_from sha now k v d))"
  by (simp_all add: approve_plan_from_def approve_result_from_def approve_plan_runs approve_result_runs)

lemma posted_plan_for_runs: "runs_to sha d (snd (posted_plan_for sha now pub t body d))"
  unfolding posted_plan_for_def
  by (auto simp: runs_to_refl lifecycle_runs split: option.split sum.split prod.split)

lemma auto_plan_runs: "runs_to sha d (snd (auto_plan sha now ready k d))"
  unfolding auto_plan_def
  by (auto simp: runs_to_refl split: sum.split intro!: run_rules auto_authorize_runs)

lemma auto_result_runs: "runs_to sha d (snd (auto_result sha now ready k d))"
  unfolding auto_result_def
  by (auto simp: runs_to_refl intro!: run_rules auto_accept_runs)

lemmas gateway_rules = run_rules with_active_runs interrupted_runs bound_review_runs approvals_run posted_plan_for_runs
  auto_plan_runs auto_result_runs lifecycle_runs publish_result_runs resolve_feedback_runs close_deferred_runs input_runs

lemma submit_plan_runs: "runs_to sha d (snd (submit_plan_gateway sha now pub ready c body v d))"
  unfolding submit_plan_gateway_def
  by (auto simp: runs_to_refl split: sum.split interaction_mode.split resume.split intro!: gateway_rules)

lemma finish_execution_gateway_runs: "runs_to sha d (snd (finish_execution_gateway sha now obs c summary report d))"
  unfolding finish_execution_gateway_def
  by (auto simp: runs_to_refl intro!: gateway_rules)

lemma validate_runs: "runs_to sha d (snd (validate_and_publish sha now guard pub runs t dn d))"
  unfolding validate_and_publish_def
  by (auto simp: runs_to_refl split: sum.split prod.split intro!: gateway_rules)

lemma result_for_runs: "runs_to sha d (snd (result_for sha now guard pub runs t dn d))"
  unfolding result_for_def
  by (auto simp: runs_to_refl split: option.split intro!: validate_runs)

lemma finish_validation_gateway_runs:
  "runs_to sha d (snd (finish_validation_gateway sha now guard pub ready runs c dn v d))"
  unfolding finish_validation_gateway_def
  by (auto simp: runs_to_refl split: sum.split interaction_mode.split resume.split intro!: gateway_rules result_for_runs)

lemma replan_current_runs: "runs_to sha d (snd (replan_current_feedback now c d))"
  unfolding replan_current_feedback_def
  by (auto simp: runs_to_refl split: sum.split option.split intro!: gateway_rules)

lemma deferred_review_runs: "runs_to sha d (snd (deferred_review sha now t d))"
  unfolding deferred_review_def
  by (auto simp: runs_to_refl split: sum.split option.split intro!: gateway_rules)

lemma settle_deferred_runs: "runs_to sha d (snd (settle_deferred sha now t r v d))"
  unfolding settle_deferred_def
  by (auto simp: runs_to_refl split: sum.split option.split resume.split intro!: gateway_rules)

lemma defer_current_runs:
  assumes "\<And>d. runs_to sha d (snd (send d))"
  shows "runs_to sha d (snd (defer_current_feedback sha now send c v d))"
  unfolding defer_current_feedback_def
  by (auto simp: runs_to_refl split: sum.split option.split intro!: gateway_rules deferred_review_runs settle_deferred_runs assms)

lemma clarification_runs: "runs_to sha d (snd (request_clarification sha now c question reason kind choices v d))"
  unfolding request_clarification_def Let_def
  by (auto simp: runs_to_refl split: resume.split intro!: gateway_rules)

section \<open>The agent\<close>

text \<open>
  The tools \<open>build_lifecycle_tools\<close> hands to the agent, as the calls it can make; a suspended call
  is made again with the resume. What the tools are built with is \<open>lifecycle_setup\<close>.
\<close>

datatype agent_call =
    Submit_Plan string "resume option"
  | Finish_Execution string doc
  | Finish_Validation decision "resume option"
  | Replan_Feedback
  | Defer_Feedback "resume option"
  | Ask_Clarification string string string "string list" "resume option"

record lifecycle_setup =
  ls_cycle :: string
  ls_publish_plan :: publish_plan
  ls_publish_result :: publish_result
  ls_ready :: "db \<Rightarrow> bool"
  ls_guard :: "doc \<Rightarrow> err option"
  ls_observations :: "doc list"
  ls_validation_runs :: "doc list option"
  ls_deliver :: "(db, unit) op"

fun agent_step :: "digest \<Rightarrow> lifecycle_setup \<Rightarrow> string \<Rightarrow> agent_call \<Rightarrow> (db, outcome) op" where
  "agent_step sha ls now (Submit_Plan body v) d =
     submit_plan_gateway sha now (ls_publish_plan ls) (ls_ready ls) (ls_cycle ls) body v d"
| "agent_step sha ls now (Finish_Execution summary report) d =
     finish_execution_gateway sha now (ls_observations ls) (ls_cycle ls) summary report d"
| "agent_step sha ls now (Finish_Validation dn v) d =
     finish_validation_gateway sha now (ls_guard ls) (ls_publish_result ls) (ls_ready ls) (ls_validation_runs ls) (ls_cycle ls) dn v d"
| "agent_step sha ls now Replan_Feedback d = replan_current_feedback now (ls_cycle ls) d"
| "agent_step sha ls now (Defer_Feedback v) d = defer_current_feedback sha now (ls_deliver ls) (ls_cycle ls) v d"
| "agent_step sha ls now (Ask_Clarification question reason kind choices v) d =
     request_clarification sha now (ls_cycle ls) question reason kind choices v d"

fun agent_calls :: "digest \<Rightarrow> lifecycle_setup \<Rightarrow> (string \<times> agent_call) list \<Rightarrow> db \<Rightarrow> db" where
  "agent_calls sha ls [] d = d"
| "agent_calls sha ls ((now, call) # calls) d = agent_calls sha ls calls (snd (agent_step sha ls now call d))"

lemma agent_step_runs:
  assumes "\<And>d. runs_to sha d (snd (ls_deliver ls d))"
  shows "runs_to sha d (snd (agent_step sha ls now call d))"
  by (cases call)
    (simp_all add: submit_plan_runs finish_execution_gateway_runs finish_validation_gateway_runs replan_current_runs
      defer_current_runs [OF assms] clarification_runs)

lemma agent_calls_run:
  assumes "\<And>d. runs_to sha d (snd (ls_deliver ls d))"
  shows "runs_to sha d (agent_calls sha ls calls d)"
proof (induction calls arbitrary: d)
  case (Cons x calls)
  then show ?case by (cases x) (auto intro: runs_to_trans agent_step_runs [OF assms])
qed (simp add: runs_to_refl)


text \<open>
  An agent that executes before its plan is posted, submits a plan, tries to submit a second one, is
  resumed with the approval and reports its execution.
\<close>

definition eager_agent :: "(string \<times> agent_call) list" where
  "eager_agent = [(''3'', Finish_Execution ''done early'' demo_evidence), (''3'', Submit_Plan ''the plan'' None),
     (''3'', Submit_Plan ''another plan'' None),
     (''4'', Submit_Plan ''the plan'' (Some (Mapping \<lparr>py_kind = ''PLAN_APPROVAL'', py_occurrence = demo_plan, py_event = ''e1'',
        py_by = ''u'', py_at = ''4'', py_authorized = True, py_review = None, py_answer = []\<rparr>))),
     (''5'', Finish_Execution ''done'' demo_evidence)]"

definition eager_setup :: lifecycle_setup where
  "eager_setup = \<lparr>ls_cycle = the_cycle, ls_publish_plan = (\<lambda>_ _ _. Inr (11, ''3'')), ls_publish_result = (\<lambda>_ _ _. Inr (12, ''6'')),
     ls_ready = (\<lambda>_. True), ls_guard = (\<lambda>_. None), ls_observations = [], ls_validation_runs = None,
     ls_deliver = (\<lambda>d. return () d)\<rparr>"

lemma eager_phases: "map tr_phase (tasks (agent_calls example_sha eager_setup eager_agent demo_2)) = [VALIDATING]"
  by code_simp


end
