(* ===== verification/Serving.thy ===== *)
theory Serving
  imports Composition Server_Properties
begin

text \<open>
  The composition continued: the publisher and the learning keep the workflow tables, the finalization of a
  publication is a step of the runtime, and so the worker of a server only takes such steps.
\<close>

section \<open>The outbox, the publisher and learning\<close>

lemma update_comment_other: "same_workflow d (snd (update_workflow_comment k st now cid e at d))"
  by (simp add: update_workflow_comment_def same_workflow_def Let_def split: option.split)

text \<open>The delivery of comments, as an operation on the database and the outside world.\<close>

interpretation delivery: state_frame "\<lambda>s s'. same_workflow (snd s) (snd s')"
  by unfold_locales (rule same_workflow_refl, rule same_workflow_trans)

lemma deliver_one_other: "same_workflow (snd s) (snd (snd (deliver_one cl later now r s)))"
proof -
  have "same_workflow d d'" if "update_workflow_comment k st now' cid e at d = (x, d')" for k st now' cid e at d x d'
    using update_comment_other [of d k st now' cid e at] that by simp
  then show ?thesis
    by (auto simp: deliver_one_def Let_def split: option.split prod.split sum.split)
qed

lemma deliver_all_other: "same_workflow (snd s) (snd (snd (deliver_all cl later now rs s)))"
proof (induction rs arbitrary: s)
  case Nil
  then show ?case by (simp add: same_workflow_refl)
next
  case (Cons r rs)
  have "same_workflow (snd s) (snd (snd (and_then (deliver_one cl later now r s)
      (\<lambda>n s1. and_then (deliver_all cl later now rs s1) (\<lambda>m s2. return (n + m) s2)))))"
    by (intro delivery.and_then_keeps deliver_one_other Cons.IH) (simp add: same_workflow_refl)
  then show ?case by simp
qed

lemma delivery_other: "same_workflow (snd s) (snd (snd (deliver_pending_workflow_comments cl later th now s)))"
  unfolding deliver_pending_workflow_comments_def by (rule deliver_all_other)

interpretation stores: state_frame "\<lambda>s s' :: 'w stage. same_workflow (store s) (store s')"
  by unfold_locales (rule same_workflow_refl, rule same_workflow_trans)

lemma publication_rows_other:
  "same_workflow d (snd (update_publication k st fs d))"
  "same_workflow d (snd (next_publication sha legacy waiting chosen d))"
  "same_workflow d (snd (register_pr_mapping repo n th d))"
proof -
  show "same_workflow d (snd (update_publication k st fs d))"
    by (simp add: update_publication_def same_workflow_def Let_def)
  have "same_workflow d (snd (ensure_publication sha legacy t d))" for t
    unfolding ensure_publication_def
    by (intro other.and_then_keeps other.commit_keeps other.return_keeps)
      (auto simp: insert_publication_def bindE_Inr_iff same_workflow_def split: option.split_asm if_split_asm)
  then show "same_workflow d (snd (next_publication sha legacy waiting chosen d))"
    by (auto simp: next_publication_def same_workflow_refl split: list.split)
  show "same_workflow d (snd (register_pr_mapping repo n th d))"
    unfolding register_pr_mapping_def
    by (rule other.commit_keeps)
      (auto simp: adopt_events_def known_repository_def bindE_Inr_iff same_workflow_def
        split: option.split_asm if_split_asm)
qed

lemma stage_parts:
  "same_workflow (store s) (store (snd (in_world f s)))"
  "(\<And>d. same_workflow d (snd (g d))) \<Longrightarrow> same_workflow (store s) (store (snd (in_store g s)))"
  "same_workflow (store s) (store (snd (on_error r s)))"
  by (simp_all add: in_world_def in_store_def on_error_def same_workflow_refl Let_def split: prod.split)
    (metis snd_conv)

lemmas stage_rules = stores.and_then_keeps stage_parts publication_rows_other same_workflow_refl

lemma record_step_other: "same_workflow (store s) (store (snd (record_step k st fs s)))"
  unfolding record_step_def by (auto split: option.split intro!: stage_rules)

lemma publisher_stages_other:
  "same_workflow (store s) (store (snd (commit_stage out gs path base p s)))"
  "same_workflow (store s) (store (snd (push_stage out path sha p s)))"
  "same_workflow (store s) (store (snd (pull_stage out repo body p s)))"
  "same_workflow (store s) (store (snd (comment_stage out repo n p s)))"
  unfolding commit_stage_def push_stage_def pull_stage_def comment_stage_def
  by (auto split: option.split prod.split intro!: stage_rules record_step_other)

lemma deliver_changes_other: "same_workflow (store s) (store (snd (deliver_changes out gs path base body p s)))"
  unfolding deliver_changes_def by (auto split: prod.split intro!: stage_rules publisher_stages_other)

lemma material_other: "same_workflow (store s) (store (snd (material_of out ew ws p s)))"
  unfolding material_of_def by (auto split: option.split intro!: stage_rules)

lemma publish_tree_other: "same_workflow (store s) (store (snd (publish_tree out gs path base p m head status s)))"
  unfolding publish_tree_def no_changes_def Let_def
  by (auto intro!: stage_rules record_step_other deliver_changes_other)

lemma publish_other: "same_workflow (store s) (store (snd (publish sha out ew gs p s)))"
  unfolding publish_def Let_def
  by (auto simp: same_workflow_refl intro!: stage_rules material_other publish_tree_other)

lemma publish_one_other: "same_workflow (store s) (store (snd (publish_one sha out ew gs locked k s)))"
proof -
  have failing: "same_workflow (store s) (store (snd (in_store (update_publication j st fs) t)))"
    if "publish sha out ew gs p s = (r, t)" for p s r t j st fs
  proof -
    have "same_workflow (store s) (store t)" using publish_other [of s sha out ew gs p] that by simp
    also have "same_workflow (store t) (store (snd (in_store (update_publication j st fs) t)))" by (rule stage_rules)+
    finally (same_workflow_trans) show ?thesis .
  qed
  have finished: "same_workflow (store s) (store t)" if "publish sha out ew gs p s = (r, t)" for p s r t
    using publish_other [of s sha out ew gs p] that by simp
  show ?thesis
    unfolding publish_one_def
    by (auto simp: same_workflow_refl split: option.split prod.split sum.split
        intro!: stores.and_then_keeps stage_parts publication_rows_other intro: failing finished)
qed

section \<open>Finalization\<close>

text \<open>What the earlier workflow changes when it closes a target of its own is not the workflow tables.\<close>

definition closes_elsewhere :: "(publication_target \<Rightarrow> db \<Rightarrow> err + db) \<Rightarrow> bool" where
  "closes_elsewhere close \<longleftrightarrow> (\<forall>t d d'. close t d = Inr d' \<longrightarrow> same_workflow d d')"

lemma close_declarative_runs:
  assumes "close_declarative t k d = Inr d'"
  shows "runs_to sha d d'"
proof -
  let ?p = "\<lambda>c. cy_status c = C_AWAITING_PUBLICATION \<and>
    (cy_id c = k \<and> cy_active c = None \<or> cy_thread c = pt_thread t \<and> cy_cycle_id c < pt_cycle_id t)"
  let ?e = "d\<lparr>cycles := update_where ?p (\<lambda>c. c\<lparr>cy_status := C_PUBLISHED\<rparr>) (cycles d)\<rparr>"
  have "runs_to sha d ?e" by (rule runs_step, rule step_published [where p = ?p]) auto
  also have "same_workflow ?e d'"
    using assms by (auto simp: close_declarative_def close_cycles_def same_workflow_def split: if_split_asm)
  then have "runs_to sha ?e d'" by (rule runs_other)
  finally (runs_to_trans) show ?thesis .
qed

lemma finalize_runs:
  assumes "closes_elsewhere close"
  shows "runs_to sha d (snd (finalize_publication sha legacy close now k d))"
proof -
  have jobs: "runs_to sha d (enqueue_jobs sha now t k d')" if "runs_to sha d d'" for t k d'
  proof -
    have "same_workflow d' (enqueue_jobs sha now t k d')" by (simp add: enqueue_jobs_def same_workflow_def)
    then show ?thesis using that by (blast intro: runs_to_trans runs_other)
  qed
  have "runs_to sha d d'" if "close t d = Inr d'" for t d'
    using assms that by (auto simp: closes_elsewhere_def intro: runs_other)
  then show ?thesis
    unfolding finalize_publication_def
    by (intro run.and_then_keeps run.commit_keeps)
      (auto simp: bindE_Inr_iff runs_to_refl intro!: jobs intro: close_declarative_runs
        split: option.split_asm if_split_asm)
qed

section \<open>The server\<close>

interpretation serving: state_frame "\<lambda>s s' :: 'w server_state. runs_to sha (server_db s) (server_db s')" for sha
  by unfold_locales (rule runs_to_refl, rule runs_to_trans)

definition server_on_runtime :: "'w server \<Rightarrow> bool" where
  "server_on_runtime se \<longleftrightarrow> runs_on_runtime (se_sha se) (se_controller se) \<and> closes_elsewhere (se_close se) \<and>
     (\<exists>known. wf_spec (se_sha se) known (se_spec se))"

lemma server_parts:
  "(\<And>d. runs_to sha d (snd (f d))) \<Longrightarrow> runs_to sha (server_db s) (server_db (snd (at_db f s)))"
  "(\<And>t. same_workflow (store t) (store (snd (g t)))) \<Longrightarrow> runs_to sha (server_db s) (server_db (snd (at_stage g s)))"
  "(\<And>l. work_kept l (snd (h l))) \<Longrightarrow> runs_to sha (server_db s) (server_db (snd (at_learning h s)))"
proof -
  assume f: "\<And>d. runs_to sha d (snd (f d))"
  show "runs_to sha (server_db s) (server_db (snd (at_db f s)))"
    using f [of "server_db s"] by (auto simp: at_db_def split: prod.split)
next
  assume "\<And>t. same_workflow (store t) (store (snd (g t)))"
  from this [of "\<lparr>world = sv_world s, store = server_db s\<rparr>"]
  show "runs_to sha (server_db s) (server_db (snd (at_stage g s)))"
    by (auto simp: at_stage_def split: prod.split intro: runs_other)
next
  assume "\<And>l. work_kept l (snd (h l))"
  then have "work_kept (sv_learning s) (snd (h (sv_learning s)))" .
  then obtain js rs cs where "cs_db (snd (h (sv_learning s))) =
      (server_db s)\<lparr>learning_jobs := js, resolution_jobs := rs, memory_candidates := cs\<rparr>"
    unfolding work_kept_def by blast
  then have "same_workflow (server_db s) (cs_db (snd (h (sv_learning s))))" by (simp add: same_workflow_def)
  then show "runs_to sha (server_db s) (server_db (snd (at_learning h s)))"
    by (auto simp: at_learning_def split: prod.split intro: runs_other)
qed

lemma advance_server_runs:
  assumes "server_on_runtime se"
  shows "runs_to (se_sha se) d (snd (advance se now th d))"
  using assms unfolding advance_def server_on_runtime_def by (auto simp: runs_to_refl intro: advance_runs)

lemma publish_and_finalize_runs:
  assumes "server_on_runtime se"
  shows "runs_to (se_sha se) (server_db s) (server_db (snd (publish_and_finalize se now k s)))"
  using assms unfolding publish_and_finalize_def server_on_runtime_def
  by (auto simp: runs_to_refl intro!: serving.and_then_keeps server_parts publish_one_other finalize_runs)

lemma drain_tick_runs:
  assumes "server_on_runtime se"
  shows "runs_to (se_sha se) (server_db s) (server_db (snd (drain_tick se now th s)))"
  unfolding drain_tick_def
  by (auto simp: runs_to_refl split: option.split sum.split
      intro!: serving.and_then_keeps server_parts process_one_keeps advance_server_runs [OF assms] publish_and_finalize_runs [OF assms])

lemma drain_runs:
  assumes "server_on_runtime se"
  shows "runs_to (se_sha se) (server_db s) (server_db (snd (drain_workflow se clock th n s)))"
proof (induction n arbitrary: s)
  case (Suc n)
  show ?case
    by (auto simp: runs_to_refl intro!: serving.and_then_keeps drain_tick_runs [OF assms] Suc.IH)
qed (simp add: runs_to_refl)

lemma settle_failure_runs: "runs_to sha (server_db s) (server_db (snd (settle_failure se now th e s)))"
proof -
  have raise: "runs_to sha (server_db s) (server_db (snd (raise e t)))" if "server_db t = server_db s" for e :: err and t
    using that by (simp add: runs_to_refl)
  have "runs_to sha (server_db t) (server_db (snd (and_then (at_db (fail_active_task now c m) t) (\<lambda>_ s. raise e s))))" for t c m
    by (auto simp: runs_to_refl intro!: serving.and_then_keeps server_parts lifecycle_runs)
  from this [of "s\<lparr>sv_failures := fs\<rparr>" for fs] show ?thesis
    by (auto simp: settle_failure_def Let_def runs_to_refl split: option.split)
qed

lemma worker_runs:
  assumes "server_on_runtime se"
  shows "runs_to (se_sha se) (server_db s) (server_db (snd (worker_entry se clock n th s)))"
proof (cases "drain_workflow se clock th n s")
  case (Pair r t)
  then have t: "runs_to (se_sha se) (server_db s) (server_db t)" using drain_runs [OF assms, of s clock th n] by simp
  show ?thesis
  proof (cases r)
    case (Inl e)
    with Pair t settle_failure_runs [of "se_sha se" t se "clock n" th e] show ?thesis
      by (simp add: worker_entry_def) (rule runs_to_trans)
  qed (use Pair t in \<open>simp add: worker_entry_def\<close>)
qed


text \<open>An agent that submits a plan whenever it is driven.\<close>

definition planning_env :: env where
  "planning_env = idle_env\<lparr>drive := (\<lambda>c t v d. and_then
     (submit_plan_gateway example_sha ''3'' (\<lambda>_ _ _. Inr (11, ''3'')) (\<lambda>_. True) c ''the plan'' None d) (\<lambda>_ d. return () d))\<rparr>"

definition planning_server :: "nat server" where
  "planning_server = demo_server\<lparr>se_controller := planning_env\<rparr>"

definition planning_start :: "nat server_state" where
  "planning_start = demo_serving\<lparr>sv_learning := (sv_learning demo_serving)\<lparr>cs_db := inbox_demo\<rparr>\<rparr>"

lemma planning_phases:
  "map tr_phase (tasks (server_db (fold (\<lambda>(th, clock) s. snd (worker_entry planning_server clock 2 th s))
     [(''t'', \<lambda>_. ''2'')] planning_start))) = [WAITING_FOR_PLAN_APPROVAL]"
  by code_simp


end
