(* ===== verification/Spec2Isabelle.thy ===== *)
theory Spec2Isabelle
  imports Runtime_Properties Progress History Guards Tool_Safety Inbox_Properties Publication_Properties
    Dispatch_Properties Delivery_Properties Gateway_Properties Control_Properties Revision_Properties
    Poll_Properties Publisher_Properties Memory_Properties Learning_Properties Server_Properties
    Config_Example Tool_Example Skill_Store Serving
begin

text \<open>
  SWEForge works on GitHub issues: comments that mention the agent are stored as events of an issue
  thread, a declarative workflow decides which task of the thread is worked on, a language-model
  agent plans, executes and validates that task behind a tool policy, people approve plans and
  results by comments, and finished work is published as a branch and a pull request. This
  development models the part of the program that decides -- everything between the stored
  events and the calls of git, GitHub and the language model -- and proves what keeps it safe:
  one owner per thread, no execution without an approved plan, no result without its evidence,
  no comment lost, applied twice or applied to something else.

  \<^bold>\<open>The parts and their theories\<close> (files under \<open>src/src/sweforge\<close>)

  \<^item> \<open>Prelude\<close>: exceptions as the sum \<open>err + 'a\<close>, operations as \<open>'s \<Rightarrow> (err + 'a) \<times> 's\<close>, the
    transaction bracket \<open>commit\<close>, the operations on table rows (\<open>lookup\<close>, \<open>update_where\<close>,
    \<open>latest_by\<close>, \<open>order_by\<close>) with their lemmas, and two interfaces: \<open>row_table\<close>, interpreted in
    \<open>Store\<close> on the tables of the database, and \<open>invariant_machine\<close>, interpreted in \<open>Invariant\<close> on
    the steps of the runtime. \<open>Text\<close>: the Python strings and JSON values the code uses.
  \<^item> \<open>Workflow_Spec\<close> (\<open>workflow_spec.py\<close>): the workflow document, its parser, its canonical form and
    digest, the cycle check, the derived revision workflow and the bundled default.
  \<^item> \<open>Github_Models\<close> (\<open>github_models.py\<close> and the time and target comparisons of
    \<open>github_store.py\<close>, \<open>workflow_controller.py\<close>): the event row and the recognisers of \<open>@agent\<close>,
    \<open>@agent approve\<close> and of invocations.
  \<^item> \<open>Store\<close> (\<open>github_store.py\<close>): one record field per table, one record type per row, every
    insert with the PRIMARY KEY, UNIQUE and FOREIGN KEY constraints that can reject it.
  \<^item> \<open>Runtime\<close>, \<open>Lifecycle\<close> (\<open>workflow_runtime.py\<close>): the cycle, the serial scheduler and every
    transition of a task -- plan, approval, execution, validation, result, acceptance,
    replanning, clarification, failure and the eligibility proof.
  \<^item> \<open>Inbox\<close>, \<open>Feedback\<close> (\<open>github_store.py\<close>, \<open>workflow_messages.py\<close>, the deferral operations of
    \<open>workflow_runtime.py\<close>): the classification of comments, dispositions and claims, the revision
    inbox, reviews of feedback, the outbox.
  \<^item> \<open>Publication\<close>, \<open>Publishing\<close> (\<open>github_store.py\<close>): the publication target, the publication rows and
    their finalization, accepted material and publication generations.
  \<^item> \<open>Dispatch\<close> (\<open>github_store.py\<close>): the backoff and the durable predicate of a thread with work.
  \<^item> \<open>Policy\<close> (\<open>workflow_middleware.py\<close>, \<open>canonical_skill_path\<close> of \<open>skills.py\<close>): the snapshot each
    decision reads and the tool policies of the root, the delegated and the static investigator.
  \<^item> \<open>Gateways\<close> (\<open>workflow_tools.py\<close>): the lifecycle tools, with the replay of an interrupted call.
  \<^item> \<open>Delivery\<close> (\<open>workflow_comment_delivery.py\<close>, the publishing methods of \<open>workflow_driver.py\<close>): comments
    reconciled by their marker.
  \<^item> \<open>Controller\<close> (\<open>workflow_controller.py\<close>, \<open>normalize_task\<close> of \<open>execution.py\<close>): one tick of a thread.
  \<^item> \<open>Clock\<close>, \<open>Intake\<close>, \<open>Poller\<close> (\<open>github_poller.py\<close>, the ingestion of \<open>github_store.py\<close>): one polling pass,
    from the pages GitHub returns to the events, threads and cursors that are stored.
  \<^item> \<open>Publisher\<close> (\<open>github_publisher.py\<close>): the publication of a row, stage by stage; git and GitHub are
    the record \<open>outside\<close>, whose calls read or move an abstract world.
  \<^item> \<open>Memory\<close> (\<open>repo_memory.py\<close>, \<open>memory_learning.py\<close>), \<open>Lifecycle_Text\<close> (\<open>lifecycle_context.py\<close>),
    \<open>Cases\<close> (\<open>issue_resolution.py\<close>, the case tables and their search), \<open>Learning\<close>
    (\<open>workflow_learning.py\<close>): what is remembered after a publication, and by which evidence.
  \<^item> \<open>Bundle\<close>, \<open>Repo_Config\<close> (\<open>repo_config.py\<close>, \<open>skills.py\<close>, the registry of \<open>capabilities.py\<close>): the operator's
    bundle of workflow, skills, scripts and MCP servers, its validation, its installation as an
    immutable generation and the reads of a generation. \<open>Skill_Store\<close>: the skill files of a repository.
  \<^item> \<open>Tool_Runtime\<close> (\<open>repo_secrets.py\<close>, \<open>script_tools.py\<close>, \<open>capabilities.py\<close>): credentials, one call of a
    script, the connections of the MCP servers.
  \<^item> \<open>Server\<close> (\<open>server.py\<close>): the dispatch of threads, the drain of one thread and its failures.

  The server drains a thread: it lets learning settle a job, ticks the controller, and publishes and
  finalizes a completed cycle. The controller routes the inbox, settles claims, asks the
  runtime for the active task, turns comments into resumes, drives the agent, and closes the
  cycle; the agent calls the gateways, through the policy; the gateways call the runtime; all
  of them read and write the one database.

  \<^bold>\<open>What is proved\<close>

  \<^item> \<open>Effects\<close>, \<open>Machine\<close>, \<open>Ownership\<close>, \<open>Evidence\<close>, \<open>Invariant\<close>: the runtime as a transition system
    (\<open>runtime_step\<close>) with an inductive invariant: the constraints between the tables, serial
    ownership and the chain of evidence of each phase. A step carries the provider's freshness
    of an identifier where an \<open>INSERT OR IGNORE\<close> would otherwise keep an older row.
  \<^item> \<open>Runtime_Properties\<close>, \<open>Progress\<close>, \<open>History\<close>, \<open>Guards\<close>: what the invariant says of reachable
    databases and of their histories, progress of the scheduler, behaviour on errors, exact
    guards, revocation, clarification and replay.
  \<^item> \<open>Tool_Safety\<close>: the tool policy, over the interface \<open>tool_policy\<close> that the three policies of the
    code interpret. \<open>Inbox_Properties\<close>, \<open>Dispatch_Properties\<close>, \<open>Publication_Properties\<close>,
    \<open>Delivery_Properties\<close>, \<open>Gateway_Properties\<close>, \<open>Control_Properties\<close>, \<open>Revision_Properties\<close>: the
    properties of the components they are named after. \<open>Example_Run\<close> and \<open>Example_Thread\<close> hold
    the concrete databases on which every property with a hypothesis is applied.
  \<^item> \<open>Intake_Properties\<close>, \<open>Poll_Properties\<close>: ingestion moves no work, loses no comment and stores nothing
    twice. \<open>Publisher_Calls\<close>, \<open>Publisher_Properties\<close>: which calls a publication can make, over the
    interface \<open>state_frame\<close> of \<open>Frames\<close> that every component interprets on what it leaves alone.
    \<open>Memory_Properties\<close>, \<open>Learning_Properties\<close>, \<open>Server_Properties\<close>: what may be remembered, that learning
    comes to rest, that the search index agrees with its rows, and what a worker does on failure.
  \<^item> \<open>Config_Properties\<close>: what validation promises, that a generation answers for its bundle and never
    changes (an \<open>invariant_machine\<close> over the installs), that MCP calls stay inside a generation.
    \<open>Tool_Properties\<close>: redaction, the arguments of scripts, credentials. \<open>Config_Example\<close> and
    \<open>Tool_Example\<close> hold a small bundle and the instances on it.
  \<^item> \<open>Composition\<close>, \<open>Serving\<close>: the parts put together. Every operation of the inbox, the controller, the
    gateways, the publisher, learning and the server is a run of the runtime (\<open>runs_to\<close>, carried through
    sequencing and transactions by interpretations of \<open>state_frame\<close>), so that the databases of a running
    server, and of an agent that calls its lifecycle tools in any order, are reachable and have the
    invariant. Of the code outside the model this asks that it touches the database through those
    operations only; \<open>insert_ignored\<close> names the case excluded by the freshness of the steps.
  \<^item> Seven ways in which the code does not do what it means to are theorems as well: two resolved
    snapshots and a reused repository name stop the ingestion, a private key in PKCS 8 is no
    secret, a failed attempt rejects its nominations, an unfinalized publication is never resumed, a
    script whose directory has an underscore can get the files of another, a connection with a null
    environment is installed and fails when it is used.
    \<open>Control_Properties\<close> also shows two ways in which a thread gets stuck: a reply that is a bare
    mention, and a claim on a plan that was superseded before the claim was applied.

  \<^bold>\<open>Choices\<close>

  SHA-256 is the argument \<open>sha\<close>; nothing is assumed of it except where a step asks for a fresh
  identifier. A clock reading is an argument of each operation, and time stamps are texts, which
  the code compares as texts or after parsing; both comparisons are modelled as written.
  Counters and versions are natural numbers, identifiers texts, GitHub ids integers: Python
  integers and SQLite's 64-bit integers agree on the values that occur. Every definition is
  total: recursion is structural or on the length of a text. Fuel is used in two places: the search
  for recorded ids and for text to redact counts down from the length of the text, which each step
  shortens, and the drain counts the ticks the code itself allows. Two rows with
  equal sort keys are read in the order of insertion.
  The YAML reader, the cipher, the process runner, the MCP client, the GitHub client, the agent driver, the framework's interrupts, the work tree, the
  \<open>validation\<close> guard for repository evidence and the answers of the earlier workflow
  (\<open>legacy\<close>) are arguments of the operations that use them.

  \<^bold>\<open>Not modelled\<close>

  The earlier issue-plan workflow (\<open>workflow.py\<close>, \<open>planner.py\<close> and the tables it owns in
  \<open>github_store.py\<close>), the language-model reviewer, the HTTP client, the master key of the credentials, work trees, sandboxed execution, the construction of the server and the command lines; schema migrations; tracing; the construction
  of the agent and its prompts; the file lock around a tick.
\<close>

end
